(* ===== verification/Prelude.thy ===== *)
theory Prelude
  imports "HOL-Library.Word" "HOL-Library.Char_ord" "HOL-Library.List_Lexorder"
    "HOL-Library.Product_Lexorder" "HOL-Library.Sublist"
begin

text \<open>
  Ground vocabulary shared by every component of the Tuku control plane: Go values
  (strings as byte lists, times as nanosecond counts, pointers as options, errors as a
  datatype), the parts of the Go standard library the sources call (TrimSpace, ToLower,
  Contains, Join, decimal formatting, filepath.Clean), a state-and-error monad for the
  coordinator's operations, and the frame reasoning used to lift a relation between
  stores from the individual repository calls to whole operations.
\<close>

named_theorems go_str \<open>evaluation rules for the modelled string functions\<close>
named_theorems frame \<open>an operation relates its input store to its output store\<close>

section \<open>Go values\<close>

type_synonym go_time = int
type_synonym TaskID = string
type_synonym ConversationID = string
type_synonym MessageID = string
type_synonym IntentID = string
type_synonym BriefID = string
type_synonym EventID = string
type_synonym CheckpointID = string
type_synonym ContextPackID = string
type_synonym DecisionID = string
type_synonym RunID = string
type_synonym CapsuleVersion = "64 word"

text \<open>\<open>time.Time.IsZero\<close>: the zero time is the nanosecond count 0.\<close>

definition is_zero_time :: "go_time \<Rightarrow> bool" where
  "is_zero_time t \<longleftrightarrow> t = 0"

text \<open>
  Errors. \<open>ErrNoRows\<close> is \<open>sql.ErrNoRows\<close>, \<open>ErrUnique\<close> a violated primary key,
  \<open>ErrWrap\<close> is \<open>fmt.Errorf("...%w", err)\<close>, which \<open>errors.Is\<close> looks through.
\<close>

datatype go_error = ErrNoRows | ErrUnique string | ErrMsg string | ErrWrap string go_error

primrec is_no_rows :: "go_error \<Rightarrow> bool" where
  "is_no_rows ErrNoRows = True"
| "is_no_rows (ErrUnique s) = False"
| "is_no_rows (ErrMsg s) = False"
| "is_no_rows (ErrWrap s e) = is_no_rows e"

primrec err_text :: "go_error \<Rightarrow> string" where
  "err_text ErrNoRows = ''sql: no rows in result set''"
| "err_text (ErrUnique s) = ''UNIQUE constraint failed: '' @ s"
| "err_text (ErrMsg s) = s"
| "err_text (ErrWrap s e) = s @ err_text e"

section \<open>Strings\<close>

text \<open>
  White space of \<open>strings.TrimSpace\<close> on UTF-8 bytes: the ASCII blanks, U+0085, U+00A0,
  U+1680, U+2000--U+200A, U+2028, U+2029, U+202F, U+205F and U+3000.
\<close>

definition ascii_blank :: "char \<Rightarrow> bool" where
  "ascii_blank c \<longleftrightarrow> c = CHR '' '' \<or> c = CHR 0x0A \<or> c = CHR 0x09 \<or> c = CHR 0x0D
     \<or> c = CHR 0x0B \<or> c = CHR 0x0C"

definition wide_blanks :: "string list" where
  "wide_blanks =
     [[CHR 0xC2, CHR 0x85], [CHR 0xC2, CHR 0xA0], [CHR 0xE1, CHR 0x9A, CHR 0x80],
      [CHR 0xE2, CHR 0x80, CHR 0x80], [CHR 0xE2, CHR 0x80, CHR 0x81],
      [CHR 0xE2, CHR 0x80, CHR 0x82], [CHR 0xE2, CHR 0x80, CHR 0x83],
      [CHR 0xE2, CHR 0x80, CHR 0x84], [CHR 0xE2, CHR 0x80, CHR 0x85],
      [CHR 0xE2, CHR 0x80, CHR 0x86], [CHR 0xE2, CHR 0x80, CHR 0x87],
      [CHR 0xE2, CHR 0x80, CHR 0x88], [CHR 0xE2, CHR 0x80, CHR 0x89],
      [CHR 0xE2, CHR 0x80, CHR 0x8A], [CHR 0xE2, CHR 0x80, CHR 0xA8],
      [CHR 0xE2, CHR 0x80, CHR 0xA9], [CHR 0xE2, CHR 0x80, CHR 0xAF],
      [CHR 0xE2, CHR 0x81, CHR 0x9F], [CHR 0xE3, CHR 0x80, CHR 0x80]]"

text \<open>The high bit of a byte: not ASCII.\<close>

definition non_ascii :: "char \<Rightarrow> bool" where
  "non_ascii c = digit7 c"

fun strip_first :: "string list \<Rightarrow> string \<Rightarrow> string option" where
  "strip_first [] s = None"
| "strip_first (w # ws) s =
     (if w \<noteq> [] \<and> prefix w s then Some (drop (length w) s) else strip_first ws s)"

text \<open>One leading blank removed, with the multi-byte blanks in the given orientation.\<close>

fun unblank :: "string list \<Rightarrow> string \<Rightarrow> string option" where
  "unblank ws [] = None"
| "unblank ws (c # s) =
     (if ascii_blank c then Some s
      else if non_ascii c then strip_first ws (c # s) else None)"

lemma strip_first_shorter: "strip_first ws s = Some t \<Longrightarrow> length t < length s"
  by (induction ws) (auto split: if_splits simp: prefix_def)

lemma unblank_shorter: "unblank ws s = Some t \<Longrightarrow> length t < length s"
  by (cases s) (auto split: if_splits dest: strip_first_shorter)

function trim_left_with :: "string list \<Rightarrow> string \<Rightarrow> string" where
  "trim_left_with ws s =
     (case unblank ws s of None \<Rightarrow> s | Some t \<Rightarrow> trim_left_with ws t)"
  by pat_completeness auto
termination
  by (relation "measure (\<lambda>(ws, s). length s)") (auto dest: unblank_shorter)

declare trim_left_with.simps [simp del]

definition trim_left :: "string \<Rightarrow> string" where
  "trim_left s = trim_left_with wide_blanks s"

definition trim_right :: "string \<Rightarrow> string" where
  "trim_right s = rev (trim_left_with (map rev wide_blanks) (rev s))"

definition TrimSpace :: "string \<Rightarrow> string" where
  "TrimSpace s = trim_right (trim_left s)"

lemma trim_left_with_Nil [simp]: "trim_left_with ws [] = []"
  by (simp add: trim_left_with.simps)

lemma trim_left_with_fixed: "unblank ws s = None \<Longrightarrow> trim_left_with ws s = s"
  by (simp add: trim_left_with.simps)

lemma trim_left_with_stop: "unblank ws (trim_left_with ws s) = None"
proof (induction ws s rule: trim_left_with.induct)
  case (1 ws s)
  show ?case
  proof (cases "unblank ws s")
    case None
    then show ?thesis by (simp add: trim_left_with_fixed)
  next
    case (Some t)
    then show ?thesis using 1 by (simp add: trim_left_with.simps[of ws s])
  qed
qed

lemma trim_left_with_idem: "trim_left_with ws (trim_left_with ws s) = trim_left_with ws s"
  by (simp add: trim_left_with_fixed trim_left_with_stop)

lemma trim_left_idem: "trim_left (trim_left s) = trim_left s"
  by (simp add: trim_left_def trim_left_with_idem)

lemma trim_right_idem: "trim_right (trim_right s) = trim_right s"
  by (simp add: trim_right_def trim_left_with_idem)

lemma TrimSpace_Nil [simp]: "TrimSpace [] = []"
  by (simp add: TrimSpace_def trim_left_def trim_right_def)

lemma strip_first_None_iff: "strip_first ws s = None \<longleftrightarrow> (\<forall>w \<in> set ws. w = [] \<or> \<not> prefix w s)"
  by (induction ws) auto

lemma unblank_prefix: "unblank ws s = None \<Longrightarrow> prefix t s \<Longrightarrow> unblank ws t = None"
proof (cases t)
  case (Cons c u)
  assume s: "unblank ws s = None" and p: "prefix t s"
  then obtain v where v: "s = c # v" using Cons by (auto simp: prefix_def)
  have "\<not> ascii_blank c" using s v by (auto split: if_splits)
  moreover have "strip_first ws t = None" if "non_ascii c"
    using s v that p \<open>\<not> ascii_blank c\<close> by (auto simp: strip_first_None_iff intro: prefix_order.order_trans)
  ultimately show ?thesis using Cons by auto
qed simp

lemma strip_first_suffix: "strip_first us r = Some t \<Longrightarrow> suffix t r"
  by (induction us) (auto split: if_splits simp: suffix_drop)

lemma trim_left_with_suffix: "suffix (trim_left_with ws s) s"
proof (induction ws s rule: trim_left_with.induct)
  case (1 ws s)
  show ?case
  proof (cases "unblank ws s")
    case None
    then show ?thesis by (simp add: trim_left_with_fixed)
  next
    case (Some t)
    then have "suffix t s"
      by (cases s) (auto split: if_splits dest: strip_first_suffix intro: suffix_ConsI)
    then show ?thesis using 1[OF Some] Some
      by (simp add: trim_left_with.simps[of ws s])
  qed
qed

lemma trim_right_prefix: "prefix (trim_right s) s"
  using trim_left_with_suffix[of "map rev wide_blanks" "rev s"]
  by (simp add: trim_right_def suffix_to_prefix)

lemma unblank_TrimSpace: "unblank wide_blanks (TrimSpace s) = None"
proof -
  have "unblank wide_blanks (trim_left s) = None"
    by (simp add: trim_left_def trim_left_with_stop)
  then show ?thesis unfolding TrimSpace_def using trim_right_prefix by (rule unblank_prefix)
qed

lemma TrimSpace_idem [simp]: "TrimSpace (TrimSpace s) = TrimSpace s"
  using unblank_TrimSpace[of s]
  by (simp add: TrimSpace_def trim_left_def[of "trim_right _"] trim_left_with_fixed trim_right_idem)

lemma strip_first_Nil: "strip_first ws s = Some [] \<Longrightarrow> s \<in> set ws"
  by (induction ws) (auto split: if_splits simp: prefix_def)

lemma trim_left_with_Nil_chunk:
  "trim_left_with ws s = [] \<Longrightarrow> s \<noteq> [] \<Longrightarrow> \<exists>t. suffix t s \<and> ((\<exists>c. t = [c] \<and> ascii_blank c) \<or> t \<in> set ws)"
proof (induction ws s rule: trim_left_with.induct)
  case (1 ws s)
  show ?case
  proof (cases "unblank ws s")
    case None
    then show ?thesis using 1 by (simp add: trim_left_with_fixed)
  next
    case (Some t)
    have t: "trim_left_with ws t = []" using 1(2) Some by (simp add: trim_left_with.simps[of ws s])
    show ?thesis
    proof (cases "t = []")
      case True
      then have "s = [hd s] \<and> ascii_blank (hd s) \<or> strip_first ws s = Some []"
        using Some by (cases s) (auto split: if_splits)
      then show ?thesis using strip_first_Nil by blast
    next
      case False
      have "suffix t s" using Some
        by (cases s) (auto split: if_splits intro: suffix_ConsI dest: strip_first_suffix)
      then show ?thesis using 1(1)[OF Some t False] suffix_order.trans by blast
    qed
  qed
qed

lemma wide_blank_start: "w \<in> set wide_blanks \<Longrightarrow> w \<noteq> [] \<and> non_ascii (hd w) \<and> \<not> ascii_blank (hd w)"
  by (auto simp: wide_blanks_def non_ascii_def ascii_blank_def)

lemma TrimSpace_unblank:
  assumes "unblank wide_blanks s = None" and "s \<noteq> []"
  shows "TrimSpace s \<noteq> []"
proof
  assume "TrimSpace s = []"
  then have "trim_left_with (map rev wide_blanks) (rev s) = []"
    using assms(1) by (simp add: TrimSpace_def trim_right_def trim_left_def trim_left_with_fixed)
  then obtain t where t: "suffix t (rev s)" "(\<exists>c. t = [c] \<and> ascii_blank c) \<or> t \<in> set (map rev wide_blanks)"
    using trim_left_with_Nil_chunk assms(2) by blast
  have pre: "prefix (rev t) s" using t(1) by (simp add: suffix_to_prefix)
  moreover have "hd x = a" if "prefix x (a # u)" and "x \<noteq> []" for x u :: string and a
    using that by (cases x) auto
  ultimately show False using t(2) assms wide_blank_start
    by (cases s) (fastforce simp: strip_first_None_iff split: if_splits)+
qed

lemma TrimSpace_nonempty:
  assumes "\<not> ascii_blank c" and "\<not> non_ascii c"
  shows "TrimSpace (c # s) \<noteq> []"
  by (rule TrimSpace_unblank) (use assms in simp_all)

lemma TrimSpace_take:
  assumes "TrimSpace s \<noteq> []" and "0 < n"
  shows "TrimSpace (take n (TrimSpace s)) \<noteq> []"
  using assms unblank_prefix[OF unblank_TrimSpace take_is_prefix]
  by (intro TrimSpace_unblank) (auto simp: take_eq_Nil)

text \<open>
  \<open>strings.ToLower\<close> on the ASCII letters; bytes of longer code points are left alone.
\<close>

definition lower_char :: "char \<Rightarrow> char" where
  "lower_char c = (if (of_char c :: nat) \<ge> 65 \<and> (of_char c :: nat) \<le> 90
     then char_of ((of_char c :: nat) + 32) else c)"

definition ToLower :: "string \<Rightarrow> string" where
  "ToLower s = map lower_char s"

fun str_contains :: "string \<Rightarrow> string \<Rightarrow> bool" where
  "str_contains [] u = (u = [])"
| "str_contains (c # s) u = (prefix u (c # s) \<or> str_contains s u)"

lemma str_contains_sublist: "str_contains s u \<longleftrightarrow> sublist u s"
  by (induction s) (auto simp: sublist_Cons_right)

fun str_join :: "string list \<Rightarrow> string \<Rightarrow> string" where
  "str_join [] sep = []"
| "str_join [s] sep = s"
| "str_join (s # t # ss) sep = s @ sep @ str_join (t # ss) sep"

text \<open>Decimal rendering of \<open>%d\<close>.\<close>

fun nat_digits :: "nat \<Rightarrow> string" where
  "nat_digits n = (if n < 10 then [char_of (48 + n)]
     else nat_digits (n div 10) @ [char_of (48 + n mod 10)])"

declare nat_digits.simps [simp del]

definition itoa :: "int \<Rightarrow> string" where
  "itoa i = (if i < 0 then CHR ''-'' # nat_digits (nat (- i)) else nat_digits (nat i))"

text \<open>\<open>%t\<close> for booleans.\<close>

definition btoa :: "bool \<Rightarrow> string" where
  "btoa b = (if b then ''true'' else ''false'')"

section \<open>Paths: filepath.Clean on Unix\<close>

fun split_char :: "char \<Rightarrow> string \<Rightarrow> string list" where
  "split_char c [] = [[]]"
| "split_char c (d # s) =
     (if d = c then [] # split_char c s
      else (case split_char c s of [] \<Rightarrow> [[d]] | w # ws \<Rightarrow> (d # w) # ws))"

fun clean_step :: "bool \<Rightarrow> string list \<Rightarrow> string \<Rightarrow> string list" where
  "clean_step rooted out e =
     (if e = [] \<or> e = ''.'' then out
      else if e = ''..'' then
        (case out of
           [] \<Rightarrow> (if rooted then [] else [''..''])
         | x # xs \<Rightarrow> (if x = ''..'' then ''..'' # out else xs))
      else e # out)"

definition filepath_Clean :: "string \<Rightarrow> string" where
  "filepath_Clean p =
     (let rooted = prefix ''/'' p;
          out = rev (foldl (clean_step rooted) [] (split_char (CHR ''/'') p));
          body = str_join out ''/''
      in if rooted then ''/'' @ body else if body = [] then ''.'' else body)"

lemma filepath_Clean_nonempty: "filepath_Clean p \<noteq> []"
  by (simp add: filepath_Clean_def Let_def)

end
