(* ===== verification/Domain.thy ===== *)
theory Domain
  imports Prelude
begin

text \<open>
  The data model under internal/domain: the string enumerations, each with a constructor
  for any other text a row or a request may carry (Go's string types admit every string,
  and \<open>switch\<close> statements have default branches for them), and the structs as records.
  Field names are the source's with a one- or two-letter prefix per record. The intent's
  confidence, a float64 between 0 and 1, is kept in hundredths.
\<close>

section \<open>Enumerations\<close>

datatype Phase =
    PhaseIntake
  | PhaseInterpreting
  | PhaseBriefReady
  | PhaseExecuting
  | PhaseValidating
  | PhaseAwaitingDecision
  | PhasePaused
  | PhaseBlocked
  | PhaseCompleted
  | PhaseFailed
  | PhaseOther string

primrec Phase_str :: "Phase \<Rightarrow> string" where
  "Phase_str PhaseIntake = ''INTAKE''"
| "Phase_str PhaseInterpreting = ''INTERPRETING''"
| "Phase_str PhaseBriefReady = ''BRIEF_READY''"
| "Phase_str PhaseExecuting = ''EXECUTING''"
| "Phase_str PhaseValidating = ''VALIDATING''"
| "Phase_str PhaseAwaitingDecision = ''AWAITING_DECISION''"
| "Phase_str PhasePaused = ''PAUSED''"
| "Phase_str PhaseBlocked = ''BLOCKED''"
| "Phase_str PhaseCompleted = ''COMPLETED''"
| "Phase_str PhaseFailed = ''FAILED''"
| "Phase_str (PhaseOther s) = s"

datatype WorkerKind =
    WorkerKindUnknown
  | WorkerKindCodex
  | WorkerKindClaude
  | WorkerKindNoop
  | WorkerKindOther string

primrec WorkerKind_str :: "WorkerKind \<Rightarrow> string" where
  "WorkerKind_str WorkerKindUnknown = ''unknown''"
| "WorkerKind_str WorkerKindCodex = ''codex''"
| "WorkerKind_str WorkerKindClaude = ''claude''"
| "WorkerKind_str WorkerKindNoop = ''noop''"
| "WorkerKind_str (WorkerKindOther s) = s"

datatype RunStatus =
    RunStatusCreated
  | RunStatusRunning
  | RunStatusInterrupted
  | RunStatusCompleted
  | RunStatusFailed
  | RunStatusOther string

primrec RunStatus_str :: "RunStatus \<Rightarrow> string" where
  "RunStatus_str RunStatusCreated = ''CREATED''"
| "RunStatus_str RunStatusRunning = ''RUNNING''"
| "RunStatus_str RunStatusInterrupted = ''INTERRUPTED''"
| "RunStatus_str RunStatusCompleted = ''COMPLETED''"
| "RunStatus_str RunStatusFailed = ''FAILED''"
| "RunStatus_str (RunStatusOther s) = s"

datatype Trigger =
    TriggerBeforeExecution
  | TriggerAfterExecution
  | TriggerInterruption
  | TriggerManual
  | TriggerContinue
  | TriggerHandoff
  | TriggerAwaitingDecision
  | TriggerOther string

primrec Trigger_str :: "Trigger \<Rightarrow> string" where
  "Trigger_str TriggerBeforeExecution = ''BEFORE_EXECUTION''"
| "Trigger_str TriggerAfterExecution = ''AFTER_EXECUTION''"
| "Trigger_str TriggerInterruption = ''INTERRUPTION''"
| "Trigger_str TriggerManual = ''MANUAL''"
| "Trigger_str TriggerContinue = ''CONTINUE''"
| "Trigger_str TriggerHandoff = ''HANDOFF''"
| "Trigger_str TriggerAwaitingDecision = ''AWAITING_DECISION''"
| "Trigger_str (TriggerOther s) = s"

datatype DriftClass =
    DriftUnset
  | DriftNone
  | DriftMinor
  | DriftMajor

primrec DriftClass_str :: "DriftClass \<Rightarrow> string" where
  "DriftClass_str DriftUnset = ''''"
| "DriftClass_str DriftNone = ''NONE''"
| "DriftClass_str DriftMinor = ''MINOR''"
| "DriftClass_str DriftMajor = ''MAJOR''"

datatype HandoffStatus =
    HandoffStatusCreated
  | HandoffStatusAccepted
  | HandoffStatusBlocked
  | HandoffStatusOther string

primrec HandoffStatus_str :: "HandoffStatus \<Rightarrow> string" where
  "HandoffStatus_str HandoffStatusCreated = ''CREATED''"
| "HandoffStatus_str HandoffStatusAccepted = ''ACCEPTED''"
| "HandoffStatus_str HandoffStatusBlocked = ''BLOCKED''"
| "HandoffStatus_str (HandoffStatusOther s) = s"

datatype HandoffMode =
    ModeResume
  | ModeReview
  | ModeTakeover
  | HandoffModeOther string

primrec HandoffMode_str :: "HandoffMode \<Rightarrow> string" where
  "HandoffMode_str ModeResume = ''resume''"
| "HandoffMode_str ModeReview = ''review''"
| "HandoffMode_str ModeTakeover = ''takeover''"
| "HandoffMode_str (HandoffModeOther s) = s"

datatype AcknowledgmentStatus =
    AcknowledgmentCaptured
  | AcknowledgmentUnavailable
  | AcknowledgmentStatusOther string

primrec AcknowledgmentStatus_str :: "AcknowledgmentStatus \<Rightarrow> string" where
  "AcknowledgmentStatus_str AcknowledgmentCaptured = ''CAPTURED''"
| "AcknowledgmentStatus_str AcknowledgmentUnavailable = ''UNAVAILABLE''"
| "AcknowledgmentStatus_str (AcknowledgmentStatusOther s) = s"

datatype FollowThroughKind =
    FollowThroughProofOfLifeObserved
  | FollowThroughContinuationConfirmed
  | FollowThroughContinuationUnknown
  | FollowThroughStalledReviewRequired
  | FollowThroughKindOther string

primrec FollowThroughKind_str :: "FollowThroughKind \<Rightarrow> string" where
  "FollowThroughKind_str FollowThroughProofOfLifeObserved = ''PROOF_OF_LIFE_OBSERVED''"
| "FollowThroughKind_str FollowThroughContinuationConfirmed = ''CONTINUATION_CONFIRMED''"
| "FollowThroughKind_str FollowThroughContinuationUnknown = ''CONTINUATION_UNKNOWN''"
| "FollowThroughKind_str FollowThroughStalledReviewRequired = ''STALLED_REVIEW_REQUIRED''"
| "FollowThroughKind_str (FollowThroughKindOther s) = s"

datatype ResolutionKind =
    ResolutionAbandoned
  | ResolutionSupersededByLocal
  | ResolutionClosedUnproven
  | ResolutionReviewedStale
  | ResolutionKindOther string

primrec ResolutionKind_str :: "ResolutionKind \<Rightarrow> string" where
  "ResolutionKind_str ResolutionAbandoned = ''ABANDONED''"
| "ResolutionKind_str ResolutionSupersededByLocal = ''SUPERSEDED_BY_LOCAL''"
| "ResolutionKind_str ResolutionClosedUnproven = ''CLOSED_UNPROVEN''"
| "ResolutionKind_str ResolutionReviewedStale = ''REVIEWED_STALE''"
| "ResolutionKind_str (ResolutionKindOther s) = s"

datatype LaunchStatus =
    LaunchStatusRequested
  | LaunchStatusCompleted
  | LaunchStatusFailed
  | LaunchStatusOther string

primrec LaunchStatus_str :: "LaunchStatus \<Rightarrow> string" where
  "LaunchStatus_str LaunchStatusRequested = ''REQUESTED''"
| "LaunchStatus_str LaunchStatusCompleted = ''COMPLETED''"
| "LaunchStatus_str LaunchStatusFailed = ''FAILED''"
| "LaunchStatus_str (LaunchStatusOther s) = s"

datatype RecoveryActionKind =
    KindFailedRunReviewed
  | KindInterruptedRunReviewed
  | KindInterruptedResumeExecuted
  | KindValidationReviewed
  | KindDecisionContinue
  | KindContinueExecuted
  | KindDecisionRegenerateBrief
  | KindRepairIntentRecorded
  | KindPendingLaunchReviewed
  | RecoveryActionKindOther string

primrec RecoveryActionKind_str :: "RecoveryActionKind \<Rightarrow> string" where
  "RecoveryActionKind_str KindFailedRunReviewed = ''FAILED_RUN_REVIEWED''"
| "RecoveryActionKind_str KindInterruptedRunReviewed = ''INTERRUPTED_RUN_REVIEWED''"
| "RecoveryActionKind_str KindInterruptedResumeExecuted = ''INTERRUPTED_RESUME_EXECUTED''"
| "RecoveryActionKind_str KindValidationReviewed = ''VALIDATION_REVIEWED''"
| "RecoveryActionKind_str KindDecisionContinue = ''DECISION_CONTINUE''"
| "RecoveryActionKind_str KindContinueExecuted = ''CONTINUE_EXECUTED''"
| "RecoveryActionKind_str KindDecisionRegenerateBrief = ''DECISION_REGENERATE_BRIEF''"
| "RecoveryActionKind_str KindRepairIntentRecorded = ''REPAIR_INTENT_RECORDED''"
| "RecoveryActionKind_str KindPendingLaunchReviewed = ''PENDING_LAUNCH_REVIEWED''"
| "RecoveryActionKind_str (RecoveryActionKindOther s) = s"

datatype IntentClass =
    ClassStartTask
  | ClassContinueTask
  | ClassImplement
  | ClassDebug
  | ClassValidate
  | ClassExplain
  | ClassApproval
  | ClassReplan
  | ClassPause
  | ClassComplete
  | IntentClassOther string

primrec IntentClass_str :: "IntentClass \<Rightarrow> string" where
  "IntentClass_str ClassStartTask = ''START_TASK''"
| "IntentClass_str ClassContinueTask = ''CONTINUE_TASK''"
| "IntentClass_str ClassImplement = ''IMPLEMENT_CHANGE''"
| "IntentClass_str ClassDebug = ''DEBUG_FIX''"
| "IntentClass_str ClassValidate = ''RUN_VALIDATION''"
| "IntentClass_str ClassExplain = ''STATUS_OR_EXPLAIN''"
| "IntentClass_str ClassApproval = ''APPROVAL_RESPONSE''"
| "IntentClass_str ClassReplan = ''REPLAN_SCOPE''"
| "IntentClass_str ClassPause = ''PAUSE_OR_STOP''"
| "IntentClass_str ClassComplete = ''MARK_COMPLETE''"
| "IntentClass_str (IntentClassOther s) = s"

datatype IntentPosture =
    IntentPostureExploratoryAmbiguous
  | IntentPosturePlanning
  | IntentPostureExecutionReady
  | IntentPostureValidationFocused
  | IntentPostureRepairRecovery
  | IntentPostureClarificationNeeded
  | IntentPostureOther string

primrec IntentPosture_str :: "IntentPosture \<Rightarrow> string" where
  "IntentPosture_str IntentPostureExploratoryAmbiguous = ''EXPLORATORY_AMBIGUOUS''"
| "IntentPosture_str IntentPosturePlanning = ''PLANNING''"
| "IntentPosture_str IntentPostureExecutionReady = ''EXECUTION_READY''"
| "IntentPosture_str IntentPostureValidationFocused = ''VALIDATION_FOCUSED''"
| "IntentPosture_str IntentPostureRepairRecovery = ''REPAIR_RECOVERY''"
| "IntentPosture_str IntentPostureClarificationNeeded = ''CLARIFICATION_NEEDED''"
| "IntentPosture_str (IntentPostureOther s) = s"

datatype Readiness =
    ReadinessExecutionReady
  | ReadinessClarificationNeeded
  | ReadinessPlanningInProgress
  | ReadinessValidationFocused
  | ReadinessRepairRecovery
  | ReadinessOther string

primrec Readiness_str :: "Readiness \<Rightarrow> string" where
  "Readiness_str ReadinessExecutionReady = ''EXECUTION_READY''"
| "Readiness_str ReadinessClarificationNeeded = ''CLARIFICATION_NEEDED''"
| "Readiness_str ReadinessPlanningInProgress = ''PLANNING_IN_PROGRESS''"
| "Readiness_str ReadinessValidationFocused = ''VALIDATION_FOCUSED''"
| "Readiness_str ReadinessRepairRecovery = ''REPAIR_RECOVERY_FOCUSED''"
| "Readiness_str (ReadinessOther s) = s"

datatype BriefPosture =
    BriefPostureExecutionReady
  | BriefPostureClarificationNeeded
  | BriefPosturePlanningOriented
  | BriefPostureValidationOriented
  | BriefPostureRepairOriented
  | BriefPostureOther string

primrec BriefPosture_str :: "BriefPosture \<Rightarrow> string" where
  "BriefPosture_str BriefPostureExecutionReady = ''EXECUTION_READY''"
| "BriefPosture_str BriefPostureClarificationNeeded = ''CLARIFICATION_NEEDED''"
| "BriefPosture_str BriefPosturePlanningOriented = ''PLANNING_ORIENTED''"
| "BriefPosture_str BriefPostureValidationOriented = ''VALIDATION_ORIENTED''"
| "BriefPosture_str BriefPostureRepairOriented = ''REPAIR_ORIENTED''"
| "BriefPosture_str (BriefPostureOther s) = s"

datatype Verbosity =
    VerbosityCompact
  | VerbosityStandard
  | VerbosityVerbose
  | VerbosityOther string

primrec Verbosity_str :: "Verbosity \<Rightarrow> string" where
  "Verbosity_str VerbosityCompact = ''compact''"
| "Verbosity_str VerbosityStandard = ''standard''"
| "Verbosity_str VerbosityVerbose = ''verbose''"
| "Verbosity_str (VerbosityOther s) = s"

datatype Role =
    RoleUser
  | RoleSystem
  | RoleWorker
  | RoleOther string

primrec Role_str :: "Role \<Rightarrow> string" where
  "Role_str RoleUser = ''user''"
| "Role_str RoleSystem = ''system''"
| "Role_str RoleWorker = ''worker''"
| "Role_str (RoleOther s) = s"

datatype EventType =
    EventUserMessageReceived
  | EventIntentCompiled
  | EventBriefCreated
  | EventWorkerRunStarted
  | EventWorkerRunCompleted
  | EventWorkerRunFailed
  | EventWorkerOutputCaptured
  | EventWorkerCommandExecuted
  | EventFileChangeDetected
  | EventValidationResult
  | EventPolicyDecisionRequested
  | EventPolicyDecisionResolved
  | EventCheckpointCreated
  | EventContinueAssessed
  | EventHandoffCreated
  | EventHandoffAccepted
  | EventHandoffBlocked
  | EventHandoffLaunchRequested
  | EventHandoffLaunchCompleted
  | EventHandoffLaunchFailed
  | EventHandoffLaunchBlocked
  | EventHandoffAcknowledgmentCaptured
  | EventHandoffAcknowledgmentUnavailable
  | EventHandoffFollowThroughRecorded
  | EventHandoffResolutionRecorded
  | EventOperatorStepExecutionRecorded
  | EventRecoveryActionRecorded
  | EventInterruptedRunReviewed
  | EventInterruptedRunResumeExecuted
  | EventRecoveryContinueExecuted
  | EventBriefRegenerated
  | EventRunInterrupted
  | EventRunResumed
  | EventShellHostStarted
  | EventShellHostExited
  | EventShellFallbackActivated
  | EventShellReattachRequested
  | EventShellReattachFailed
  | EventTranscriptEvidenceReviewed
  | EventTranscriptReviewGapAcknowledged
  | EventBranchHandoffTransitionRecorded
  | EventContinuityIncidentTriaged
  | EventContinuityIncidentFollowUpRecorded
  | EventCanonicalResponseEmitted
  | EventTaskPhaseTransitioned

primrec EventType_str :: "EventType \<Rightarrow> string" where
  "EventType_str EventUserMessageReceived = ''USER_MESSAGE_RECEIVED''"
| "EventType_str EventIntentCompiled = ''INTENT_COMPILED''"
| "EventType_str EventBriefCreated = ''BRIEF_CREATED''"
| "EventType_str EventWorkerRunStarted = ''WORKER_RUN_STARTED''"
| "EventType_str EventWorkerRunCompleted = ''WORKER_RUN_COMPLETED''"
| "EventType_str EventWorkerRunFailed = ''WORKER_RUN_FAILED''"
| "EventType_str EventWorkerOutputCaptured = ''WORKER_OUTPUT_CAPTURED''"
| "EventType_str EventWorkerCommandExecuted = ''WORKER_COMMAND_EXECUTED''"
| "EventType_str EventFileChangeDetected = ''FILE_CHANGE_DETECTED''"
| "EventType_str EventValidationResult = ''VALIDATION_RESULT''"
| "EventType_str EventPolicyDecisionRequested = ''POLICY_DECISION_REQUESTED''"
| "EventType_str EventPolicyDecisionResolved = ''POLICY_DECISION_RESOLVED''"
| "EventType_str EventCheckpointCreated = ''CHECKPOINT_CREATED''"
| "EventType_str EventContinueAssessed = ''CONTINUE_ASSESSED''"
| "EventType_str EventHandoffCreated = ''HANDOFF_CREATED''"
| "EventType_str EventHandoffAccepted = ''HANDOFF_ACCEPTED''"
| "EventType_str EventHandoffBlocked = ''HANDOFF_BLOCKED''"
| "EventType_str EventHandoffLaunchRequested = ''HANDOFF_LAUNCH_REQUESTED''"
| "EventType_str EventHandoffLaunchCompleted = ''HANDOFF_LAUNCH_COMPLETED''"
| "EventType_str EventHandoffLaunchFailed = ''HANDOFF_LAUNCH_FAILED''"
| "EventType_str EventHandoffLaunchBlocked = ''HANDOFF_LAUNCH_BLOCKED''"
| "EventType_str EventHandoffAcknowledgmentCaptured = ''HANDOFF_ACKNOWLEDGMENT_CAPTURED''"
| "EventType_str EventHandoffAcknowledgmentUnavailable = ''HANDOFF_ACKNOWLEDGMENT_UNAVAILABLE''"
| "EventType_str EventHandoffFollowThroughRecorded = ''HANDOFF_FOLLOW_THROUGH_RECORDED''"
| "EventType_str EventHandoffResolutionRecorded = ''HANDOFF_RESOLUTION_RECORDED''"
| "EventType_str EventOperatorStepExecutionRecorded = ''OPERATOR_STEP_EXECUTION_RECORDED''"
| "EventType_str EventRecoveryActionRecorded = ''RECOVERY_ACTION_RECORDED''"
| "EventType_str EventInterruptedRunReviewed = ''INTERRUPTED_RUN_REVIEWED''"
| "EventType_str EventInterruptedRunResumeExecuted = ''INTERRUPTED_RUN_RESUME_EXECUTED''"
| "EventType_str EventRecoveryContinueExecuted = ''RECOVERY_CONTINUE_EXECUTED''"
| "EventType_str EventBriefRegenerated = ''BRIEF_REGENERATED''"
| "EventType_str EventRunInterrupted = ''RUN_INTERRUPTED''"
| "EventType_str EventRunResumed = ''RUN_RESUMED''"
| "EventType_str EventShellHostStarted = ''SHELL_HOST_STARTED''"
| "EventType_str EventShellHostExited = ''SHELL_HOST_EXITED''"
| "EventType_str EventShellFallbackActivated = ''SHELL_FALLBACK_ACTIVATED''"
| "EventType_str EventShellReattachRequested = ''SHELL_REATTACH_REQUESTED''"
| "EventType_str EventShellReattachFailed = ''SHELL_REATTACH_FAILED''"
| "EventType_str EventTranscriptEvidenceReviewed = ''TRANSCRIPT_EVIDENCE_REVIEWED''"
| "EventType_str EventTranscriptReviewGapAcknowledged = ''TRANSCRIPT_REVIEW_GAP_ACKNOWLEDGED''"
| "EventType_str EventBranchHandoffTransitionRecorded = ''BRANCH_HANDOFF_TRANSITION_RECORDED''"
| "EventType_str EventContinuityIncidentTriaged = ''CONTINUITY_INCIDENT_TRIAGED''"
| "EventType_str EventContinuityIncidentFollowUpRecorded = ''CONTINUITY_INCIDENT_FOLLOW_UP_RECORDED''"
| "EventType_str EventCanonicalResponseEmitted = ''CANONICAL_RESPONSE_EMITTED''"
| "EventType_str EventTaskPhaseTransitioned = ''TASK_PHASE_TRANSITIONED''"

datatype ActorType =
    ActorUser
  | ActorSystem
  | ActorWorker

primrec ActorType_str :: "ActorType \<Rightarrow> string" where
  "ActorType_str ActorUser = ''USER''"
| "ActorType_str ActorSystem = ''SYSTEM''"
| "ActorType_str ActorWorker = ''WORKER''"

section \<open>Structs\<close>

record RepoAnchor =
  an_RepoRoot :: "string"
  an_WorktreePath :: "string"
  an_BranchName :: "string"
  an_HeadSHA :: "string"
  an_DirtyHash :: "string"
  an_UntrackedHash :: "string"

record Checkpoint =
  k_Version :: "int"
  k_CheckpointID :: "CheckpointID"
  k_TaskID :: "TaskID"
  k_RunID :: "RunID"
  k_CreatedAt :: "go_time"
  k_Trigger :: "Trigger"
  k_CapsuleVersion :: "CapsuleVersion"
  k_Phase :: "Phase"
  k_Anchor :: "RepoAnchor"
  k_IntentID :: "IntentID"
  k_BriefID :: "BriefID"
  k_ContextPackID :: "ContextPackID"
  k_LastEventID :: "EventID"
  k_PendingDecisionIDs :: "DecisionID list"
  k_ResumeDescriptor :: "string"
  k_IsResumable :: "bool"

record WorkCapsule =
  c_TaskID :: "TaskID"
  c_ConversationID :: "ConversationID"
  c_Version :: "CapsuleVersion"
  c_CreatedAt :: "go_time"
  c_UpdatedAt :: "go_time"
  c_Goal :: "string"
  c_AcceptanceCriteria :: "string list"
  c_Constraints :: "string list"
  c_RepoRoot :: "string"
  c_WorktreePath :: "string"
  c_BranchName :: "string"
  c_HeadSHA :: "string"
  c_WorkingTreeDirty :: "bool"
  c_AnchorCapturedAt :: "go_time"
  c_CurrentPhase :: "Phase"
  c_Status :: "string"
  c_CurrentIntentID :: "IntentID"
  c_CurrentBriefID :: "BriefID"
  c_TouchedFiles :: "string list"
  c_Blockers :: "string list"
  c_NextAction :: "string"
  c_ParentTaskID :: "TaskID option"
  c_ChildTaskIDs :: "TaskID list"
  c_EdgeRefs :: "string list"

record ExecutionRun =
  r_RunID :: "RunID"
  r_TaskID :: "TaskID"
  r_BriefID :: "BriefID"
  r_WorkerKind :: "WorkerKind"
  r_WorkerRunID :: "string"
  r_ShellSessionID :: "string"
  r_Status :: "RunStatus"
  r_Command :: "string"
  r_Args :: "string list"
  r_ExitCode :: "int option"
  r_Stdout :: "string"
  r_Stderr :: "string"
  r_ChangedFiles :: "string list"
  r_ChangedFilesSemantics :: "string"
  r_ValidationSignals :: "string list"
  r_OutputArtifactRef :: "string"
  r_StructuredSummary :: "string"
  r_StartedAt :: "go_time"
  r_EndedAt :: "go_time option"
  r_InterruptionReason :: "string"
  r_CreatedFromPhase :: "Phase"
  r_LastKnownSummary :: "string"
  r_CreatedAt :: "go_time"
  r_UpdatedAt :: "go_time"

record ExecutionBrief =
  b_Version :: "int"
  b_BriefID :: "BriefID"
  b_TaskID :: "TaskID"
  b_IntentID :: "IntentID"
  b_CapsuleVersion :: "CapsuleVersion"
  b_CreatedAt :: "go_time"
  b_Posture :: "BriefPosture"
  b_Objective :: "string"
  b_RequestedOutcome :: "string"
  b_NormalizedAction :: "string"
  b_ScopeSummary :: "string"
  b_ScopeIn :: "string list"
  b_ScopeOut :: "string list"
  b_Constraints :: "string list"
  b_DoneCriteria :: "string list"
  b_AmbiguityFlags :: "string list"
  b_ClarificationQuestions :: "string list"
  b_RequiresClarification :: "bool"
  b_WorkerFraming :: "string"
  b_BoundedEvidenceMessages :: "int"
  b_ContextPackID :: "ContextPackID"
  b_Verbosity :: "Verbosity"
  b_PolicyProfileID :: "string"
  b_BriefHash :: "string"

record IntentState =
  i_Version :: "int"
  i_IntentID :: "IntentID"
  i_TaskID :: "TaskID"
  i_Class :: "IntentClass"
  i_Posture :: "IntentPosture"
  i_ExecutionReadiness :: "Readiness"
  i_Objective :: "string"
  i_RequestedOutcome :: "string"
  i_NormalizedAction :: "string"
  i_ScopeSummary :: "string"
  i_ExplicitConstraints :: "string list"
  i_DoneCriteria :: "string list"
  i_AmbiguityFlags :: "string list"
  i_ClarificationQuestions :: "string list"
  i_RequiresClarification :: "bool"
  i_ReadinessReason :: "string"
  i_CompilationNotes :: "string"
  i_BoundedEvidenceMessages :: "int"
  i_Confidence :: "int"
  i_SourceMessageIDs :: "MessageID list"
  i_ProposedPhase :: "Phase"
  i_CreatedAt :: "go_time"

record Message =
  m_MessageID :: "MessageID"
  m_ConversationID :: "ConversationID"
  m_TaskID :: "TaskID"
  m_Role :: "Role"
  m_Body :: "string"
  m_CreatedAt :: "go_time"

record Packet =
  h_Version :: "int"
  h_HandoffID :: "string"
  h_TaskID :: "TaskID"
  h_Status :: "HandoffStatus"
  h_SourceWorker :: "WorkerKind"
  h_TargetWorker :: "WorkerKind"
  h_HandoffMode :: "HandoffMode"
  h_Reason :: "string"
  h_CurrentPhase :: "Phase"
  h_CheckpointID :: "CheckpointID"
  h_BriefID :: "BriefID"
  h_IntentID :: "IntentID"
  h_CapsuleVersion :: "CapsuleVersion"
  h_RepoAnchor :: "RepoAnchor"
  h_IsResumable :: "bool"
  h_ResumeDescriptor :: "string"
  h_LatestRunID :: "RunID"
  h_LatestRunStatus :: "RunStatus"
  h_Goal :: "string"
  h_BriefObjective :: "string"
  h_NormalizedAction :: "string"
  h_Constraints :: "string list"
  h_DoneCriteria :: "string list"
  h_TouchedFiles :: "string list"
  h_Blockers :: "string list"
  h_NextAction :: "string"
  h_Unknowns :: "string list"
  h_HandoffNotes :: "string list"
  h_CreatedAt :: "go_time"
  h_AcceptedAt :: "go_time option"
  h_AcceptedBy :: "WorkerKind"

record Acknowledgment =
  a_Version :: "int"
  a_AckID :: "string"
  a_HandoffID :: "string"
  a_LaunchID :: "string"
  a_TaskID :: "TaskID"
  a_TargetWorker :: "WorkerKind"
  a_Status :: "AcknowledgmentStatus"
  a_Summary :: "string"
  a_Unknowns :: "string list"
  a_CreatedAt :: "go_time"

record FollowThrough =
  f_Version :: "int"
  f_RecordID :: "string"
  f_HandoffID :: "string"
  f_LaunchAttemptID :: "string"
  f_LaunchID :: "string"
  f_TaskID :: "TaskID"
  f_TargetWorker :: "WorkerKind"
  f_Kind :: "FollowThroughKind"
  f_Summary :: "string"
  f_Notes :: "string list"
  f_CreatedAt :: "go_time"

record Resolution =
  s_Version :: "int"
  s_ResolutionID :: "string"
  s_HandoffID :: "string"
  s_LaunchAttemptID :: "string"
  s_LaunchID :: "string"
  s_TaskID :: "TaskID"
  s_TargetWorker :: "WorkerKind"
  s_Kind :: "ResolutionKind"
  s_Summary :: "string"
  s_Notes :: "string list"
  s_CreatedAt :: "go_time"

record Launch =
  l_Version :: "int"
  l_AttemptID :: "string"
  l_HandoffID :: "string"
  l_TaskID :: "TaskID"
  l_TargetWorker :: "WorkerKind"
  l_Status :: "LaunchStatus"
  l_LaunchID :: "string"
  l_PayloadHash :: "string"
  l_RequestedAt :: "go_time"
  l_StartedAt :: "go_time"
  l_EndedAt :: "go_time"
  l_Command :: "string"
  l_Args :: "string list"
  l_ExitCode :: "int option"
  l_Summary :: "string"
  l_ErrorMessage :: "string"
  l_OutputArtifactRef :: "string"
  l_CreatedAt :: "go_time"
  l_UpdatedAt :: "go_time"

record RecoveryRecord =
  ra_Version :: "int"
  ra_ActionID :: "string"
  ra_TaskID :: "TaskID"
  ra_Kind :: "RecoveryActionKind"
  ra_RunID :: "RunID"
  ra_CheckpointID :: "CheckpointID"
  ra_HandoffID :: "string"
  ra_LaunchAttemptID :: "string"
  ra_Summary :: "string"
  ra_Notes :: "string list"
  ra_CreatedAt :: "go_time"

end
