(* ===== verification/Effects.thy ===== *)
theory Effects
  imports Prelude
begin

text \<open>
  Operations as functions from a state to a result and a state: \<open>Inl\<close> carries a Go error,
  \<open>Inr\<close> the value. A relation between states that is reflexive and transitive and holds
  across the primitive calls holds across every composition of them (locale \<open>state_frame\<close>).
\<close>

type_synonym ('s, 'a) sem = "'s \<Rightarrow> (go_error + 'a) \<times> 's"

definition ret :: "'a \<Rightarrow> ('s, 'a) sem" where
  "ret a = (\<lambda>s. (Inr a, s))"

definition throw :: "go_error \<Rightarrow> ('s, 'a) sem" where
  "throw e = (\<lambda>s. (Inl e, s))"

definition bnd :: "('s, 'a) sem \<Rightarrow> ('a \<Rightarrow> ('s, 'b) sem) \<Rightarrow> ('s, 'b) sem" where
  "bnd m f = (\<lambda>s. case m s of (Inl e, t) \<Rightarrow> (Inl e, t) | (Inr a, t) \<Rightarrow> f a t)"

definition seq :: "('s, 'a) sem \<Rightarrow> ('s, 'b) sem \<Rightarrow> ('s, 'b) sem" where
  "seq m k = bnd m (\<lambda>_. k)"

definition gets :: "('s \<Rightarrow> 'a) \<Rightarrow> ('s, 'a) sem" where
  "gets f = (\<lambda>s. (Inr (f s), s))"

definition modify :: "('s \<Rightarrow> 's) \<Rightarrow> ('s, unit) sem" where
  "modify f = (\<lambda>s. (Inr (), f s))"

definition lift_res :: "go_error + 'a \<Rightarrow> ('s, 'a) sem" where
  "lift_res r = (\<lambda>s. (r, s))"

text \<open>\<open>if c { if err := m; err != nil { return err } }\<close>\<close>

definition when_do :: "bool \<Rightarrow> ('s, unit) sem \<Rightarrow> ('s, unit) sem" where
  "when_do c m = (if c then m else ret ())"

text \<open>
  \<open>if v, err := m; err == nil { Some v } else if errors.Is(err, sql.ErrNoRows) { nil }
  else { return err }\<close>
\<close>

definition optional :: "('s, 'a) sem \<Rightarrow> ('s, 'a option) sem" where
  "optional m = (\<lambda>s. case m s of
       (Inr a, t) \<Rightarrow> (Inr (Some a), t)
     | (Inl e, t) \<Rightarrow> (if is_no_rows e then (Inr None, t) else (Inl e, t)))"

text \<open>The call's error as a value: \<open>v, err := m\<close> inspected by the caller.\<close>

definition attempt :: "('s, 'a) sem \<Rightarrow> ('s, go_error + 'a) sem" where
  "attempt m = (\<lambda>s. case m s of (r, t) \<Rightarrow> (Inr r, t))"

primrec for_each :: "('x \<Rightarrow> ('s, unit) sem) \<Rightarrow> 'x list \<Rightarrow> ('s, unit) sem" where
  "for_each f [] = ret ()"
| "for_each f (x # xs) = seq (f x) (for_each f xs)"

section \<open>Equations\<close>

lemma ret_run: "ret a s = (Inr a, s)" by (simp add: ret_def)
lemma throw_run: "throw e s = (Inl e, s)" by (simp add: throw_def)
lemma gets_run: "gets f s = (Inr (f s), s)" by (simp add: gets_def)
lemma modify_run: "modify f s = (Inr (), f s)" by (simp add: modify_def)
lemma lift_res_run: "lift_res r s = (r, s)" by (simp add: lift_res_def)

lemmas run_simps = ret_run throw_run gets_run modify_run lift_res_run

lemma bnd_Inl: "m s = (Inl e, t) \<Longrightarrow> bnd m f s = (Inl e, t)" by (simp add: bnd_def)
lemma bnd_Inr: "m s = (Inr a, t) \<Longrightarrow> bnd m f s = f a t" by (simp add: bnd_def)

lemma bnd_Inr_iff:
  "bnd m f s = (Inr b, u) \<longleftrightarrow> (\<exists>a t. m s = (Inr a, t) \<and> f a t = (Inr b, u))"
  by (auto simp: bnd_def split: prod.splits sum.splits)

lemma bnd_Inl_iff:
  "bnd m f s = (Inl e, u) \<longleftrightarrow>
     m s = (Inl e, u) \<or> (\<exists>a t. m s = (Inr a, t) \<and> f a t = (Inl e, u))"
  by (auto simp: bnd_def split: prod.splits sum.splits)

lemma bnd_ret [simp]: "bnd (ret a) f = f a" by (simp add: bnd_def ret_def)
lemma bnd_throw [simp]: "bnd (throw e) f = throw e" by (simp add: bnd_def throw_def)

lemma ret_bnd [simp]: "bnd m ret = m"
  by (rule ext) (auto simp: bnd_def ret_def split: prod.splits sum.splits)

lemma bnd_assoc: "bnd (bnd m f) g = bnd m (\<lambda>a. bnd (f a) g)"
  by (rule ext) (auto simp: bnd_def split: prod.splits sum.splits)

section \<open>Frames\<close>

definition frames :: "('s \<Rightarrow> 's \<Rightarrow> bool) \<Rightarrow> ('s, 'a) sem \<Rightarrow> bool" where
  "frames R m \<longleftrightarrow> (\<forall>s r t. m s = (r, t) \<longrightarrow> R s t)"

lemma framesI: "(\<And>s r t. m s = (r, t) \<Longrightarrow> R s t) \<Longrightarrow> frames R m"
  by (simp add: frames_def)

lemma framesD: "frames R m \<Longrightarrow> m s = (r, t) \<Longrightarrow> R s t"
  by (simp add: frames_def)

locale state_frame =
  fixes R :: "'s \<Rightarrow> 's \<Rightarrow> bool"
  assumes frame_refl: "R s s"
    and frame_trans: "R s t \<Longrightarrow> R t u \<Longrightarrow> R s u"
begin

lemma frame_ret: "frames R (ret a)"
  by (auto simp: frames_def frame_refl ret_def throw_def gets_def lift_res_def)

lemma frame_throw: "frames R (throw e)"
  by (auto simp: frames_def frame_refl ret_def throw_def gets_def lift_res_def)

lemma frame_gets: "frames R (gets f)"
  by (auto simp: frames_def frame_refl ret_def throw_def gets_def lift_res_def)

lemma frame_lift: "frames R (lift_res r)"
  by (auto simp: frames_def frame_refl ret_def throw_def gets_def lift_res_def)

lemma frame_bnd:
  assumes "frames R m" and "\<And>a. frames R (f a)"
  shows "frames R (bnd m f)"
proof (rule framesI)
  fix s r u
  assume run: "bnd m f s = (r, u)"
  obtain q t where m: "m s = (q, t)" by fastforce
  then have st: "R s t" using assms(1) by (rule framesD[rotated])
  show "R s u"
  proof (cases q)
    case (Inl e)
    then show ?thesis using run m st by (simp add: bnd_def)
  next
    case (Inr a)
    then have "f a t = (r, u)" using run m by (simp add: bnd_def)
    then have "R t u" by (rule framesD[OF assms(2)])
    then show ?thesis by (rule frame_trans[OF st])
  qed
qed

lemma frame_seq: "frames R m \<Longrightarrow> frames R k \<Longrightarrow> frames R (seq m k)"
  unfolding seq_def by (rule frame_bnd)

lemma frame_when: "frames R m \<Longrightarrow> frames R (when_do c m)"
  unfolding when_do_def by (cases c) (simp_all only: if_True if_False frame_ret)

lemma frame_optional: "frames R m \<Longrightarrow> frames R (optional m)"
  by (auto simp: frames_def optional_def split: prod.splits sum.splits if_splits)

lemma frame_attempt: "frames R m \<Longrightarrow> frames R (attempt m)"
  by (auto simp: frames_def attempt_def split: prod.splits)

lemma frame_for_each:
  assumes "\<And>x. frames R (f x)"
  shows "frames R (for_each f xs)"
proof (induction xs)
  case Nil
  show ?case unfolding for_each.simps by (rule frame_ret)
next
  case (Cons x xs)
  show ?case unfolding for_each.simps by (rule frame_seq[OF assms Cons.IH])
qed

lemma frame_if:
  assumes "frames R m" and "frames R k"
  shows "frames R (if c then m else k)"
  using assms by (cases c) simp_all

lemma frame_option:
  assumes "frames R m" and "\<And>a. frames R (f a)"
  shows "frames R (case v of None \<Rightarrow> m | Some a \<Rightarrow> f a)"
  by (cases v) (simp_all only: option.case assms)

lemma frame_sum:
  assumes "\<And>a. frames R (f a)" and "\<And>b. frames R (g b)"
  shows "frames R (case v of Inl a \<Rightarrow> f a | Inr b \<Rightarrow> g b)"
  by (cases v) (simp_all only: sum.case assms)

lemma frame_prod:
  assumes "\<And>a b. frames R (f a b)"
  shows "frames R (case v of (a, b) \<Rightarrow> f a b)"
  by (cases v) (simp only: prod.case assms)

lemmas frame_rules =
  frame_ret frame_throw frame_gets frame_lift frame_bnd frame_seq frame_when
  frame_optional frame_attempt frame_for_each frame_if frame_option frame_sum frame_prod

end

section \<open>Results without state\<close>

definition rbnd :: "go_error + 'a \<Rightarrow> ('a \<Rightarrow> go_error + 'b) \<Rightarrow> go_error + 'b" where
  "rbnd r f = (case r of Inl e \<Rightarrow> Inl e | Inr a \<Rightarrow> f a)"

text \<open>The error of a read, with \<open>sql.ErrNoRows\<close> turned into an absent value.\<close>

definition opt_rows :: "go_error + 'a \<Rightarrow> go_error + 'a option" where
  "opt_rows r = (case r of Inr a \<Rightarrow> Inr (Some a)
     | Inl e \<Rightarrow> (if is_no_rows e then Inr None else Inl e))"

lemma rbnd_simps [simp]: "rbnd (Inl e) f = Inl e" "rbnd (Inr a) f = f a"
  by (simp_all add: rbnd_def)

lemma opt_rows_simps [simp]: "opt_rows (Inl ErrNoRows) = Inr None" "opt_rows (Inr a) = Inr (Some a)"
  by (simp_all add: opt_rows_def)

lemma rbnd_Inr_iff: "rbnd r f = Inr b \<longleftrightarrow> (\<exists>a. r = Inr a \<and> f a = Inr b)"
  by (simp add: rbnd_def split: sum.split)

end
