(* ===== verification/Tables.thy ===== *)
theory Tables
  imports Effects
begin

text \<open>
  Tables of the SQLite store as lists of rows in insertion order: lookup by primary key,
  insert with the uniqueness check, update of the row with a key, and selection with
  ORDER BY. Timestamps are stored as RFC3339Nano text and compared as text.
\<close>

section \<open>Rows by key\<close>

definition tbl_get :: "('r \<Rightarrow> 'k) \<Rightarrow> 'k \<Rightarrow> 'r list \<Rightarrow> 'r option" where
  "tbl_get key k rows = find (\<lambda>r. key r = k) rows"

definition tbl_insert :: "('r \<Rightarrow> 'k) \<Rightarrow> 'r \<Rightarrow> 'r list \<Rightarrow> 'r list option" where
  "tbl_insert key r rows =
     (if tbl_get key (key r) rows = None then Some (rows @ [r]) else None)"

definition tbl_update :: "('r \<Rightarrow> 'k) \<Rightarrow> 'k \<Rightarrow> ('r \<Rightarrow> 'r) \<Rightarrow> 'r list \<Rightarrow> 'r list option" where
  "tbl_update key k f rows =
     (if tbl_get key k rows = None then None
      else Some (map (\<lambda>x. if key x = k then f x else x) rows))"

definition tbl_ok :: "('r \<Rightarrow> 'k) \<Rightarrow> 'r list \<Rightarrow> bool" where
  "tbl_ok key rows = distinct (map key rows)"

lemma tbl_get_None_iff: "tbl_get key k rows = None \<longleftrightarrow> k \<notin> key ` set rows"
  by (auto simp: tbl_get_def find_None_iff)

lemma tbl_get_SomeD: "tbl_get key k rows = Some r \<Longrightarrow> r \<in> set rows \<and> key r = k"
  by (auto simp: tbl_get_def find_Some_iff)

lemma tbl_get_append:
  "tbl_get key k (xs @ ys) = (case tbl_get key k xs of None \<Rightarrow> tbl_get key k ys | Some r \<Rightarrow> Some r)"
  by (induction xs) (auto simp: tbl_get_def)

lemma tbl_get_insert:
  assumes "tbl_insert key r rows = Some rows'"
  shows "tbl_get key k rows' = (if k = key r then Some r else tbl_get key k rows)"
proof -
  have fresh: "tbl_get key (key r) rows = None" and rows': "rows' = rows @ [r]"
    using assms by (auto simp: tbl_insert_def split: if_splits)
  show ?thesis
    using fresh unfolding rows' tbl_get_append
    by (auto simp: tbl_get_def split: option.splits)
qed

lemma tbl_insert_None_iff: "tbl_insert key r rows = None \<longleftrightarrow> key r \<in> key ` set rows"
  by (auto simp: tbl_insert_def tbl_get_None_iff)

lemma tbl_insert_ok: "tbl_insert key r rows = Some rows' \<Longrightarrow> tbl_ok key rows \<Longrightarrow> tbl_ok key rows'"
  by (auto simp: tbl_insert_def tbl_ok_def tbl_get_None_iff split: if_splits)

lemma tbl_get_update:
  assumes "tbl_update key j f rows = Some rows'" and "\<And>x. key (f x) = key x"
  shows "tbl_get key k rows' =
    (if k = j then map_option f (tbl_get key k rows) else tbl_get key k rows)"
proof -
  have rows': "rows' = map (\<lambda>x. if key x = j then f x else x) rows"
    using assms(1) by (auto simp: tbl_update_def split: if_splits)
  show ?thesis
    unfolding rows' by (induction rows) (auto simp: tbl_get_def assms(2))
qed

lemma tbl_update_keys:
  assumes "tbl_update key j f rows = Some rows'" and "\<And>x. key (f x) = key x"
  shows "map key rows' = map key rows"
  using assms by (auto simp: tbl_update_def split: if_splits)

lemma tbl_update_ok:
  assumes "tbl_update key j f rows = Some rows'" and "\<And>x. key (f x) = key x" and "tbl_ok key rows"
  shows "tbl_ok key rows'"
  using tbl_update_keys[OF assms(1,2)] assms(3) by (simp add: tbl_ok_def)

section \<open>ORDER BY ... DESC\<close>

definition order_desc :: "('r \<Rightarrow> 'o::linorder) \<Rightarrow> 'r list \<Rightarrow> 'r list" where
  "order_desc ord rows = rev (sort_key ord (rev rows))"

definition tbl_latest :: "('r \<Rightarrow> 'o::linorder) \<Rightarrow> ('r \<Rightarrow> bool) \<Rightarrow> 'r list \<Rightarrow> 'r option" where
  "tbl_latest ord P rows =
     (case order_desc ord (filter P rows) of [] \<Rightarrow> None | r # _ \<Rightarrow> Some r)"

definition tbl_list :: "('r \<Rightarrow> 'o::linorder) \<Rightarrow> ('r \<Rightarrow> bool) \<Rightarrow> nat \<Rightarrow> 'r list \<Rightarrow> 'r list" where
  "tbl_list ord P limit rows = take limit (order_desc ord (filter P rows))"

lemma set_order_desc [simp]: "set (order_desc ord rows) = set rows"
  by (simp add: order_desc_def)

lemma order_desc_Nil_iff [simp]: "order_desc ord rows = [] \<longleftrightarrow> rows = []"
  by (metis set_empty set_order_desc)

lemma order_desc_sorted: "sorted (rev (map ord (order_desc ord rows)))"
  by (simp add: order_desc_def rev_map[symmetric])

lemma order_desc_head_max:
  assumes "order_desc ord rows = r # rs" and "x \<in> set rows"
  shows "ord x \<le> ord r"
proof -
  have "sorted (rev (map ord rs) @ [ord r])" using order_desc_sorted[of ord rows] assms(1) by simp
  moreover have "x = r \<or> x \<in> set rs" using assms set_order_desc[of ord rows] by auto
  ultimately show ?thesis by (auto simp: sorted_append)
qed

lemma tbl_latest_None_iff: "tbl_latest ord P rows = None \<longleftrightarrow> (\<forall>r \<in> set rows. \<not> P r)"
proof -
  have "tbl_latest ord P rows = None \<longleftrightarrow> order_desc ord (filter P rows) = []"
    by (cases "order_desc ord (filter P rows)")
      (simp_all add: tbl_latest_def del: order_desc_Nil_iff)
  then show ?thesis by (simp add: filter_empty_conv)
qed

lemma tbl_latest_SomeD:
  assumes "tbl_latest ord P rows = Some r"
  shows "r \<in> set rows \<and> P r \<and> (\<forall>x \<in> set rows. P x \<longrightarrow> ord x \<le> ord r)"
proof -
  obtain rs where h: "order_desc ord (filter P rows) = r # rs"
    using assms by (auto simp: tbl_latest_def split: list.splits)
  have "r \<in> set (filter P rows)" using h set_order_desc[of ord "filter P rows"] by auto
  moreover have "ord x \<le> ord r" if "x \<in> set rows" "P x" for x
    using order_desc_head_max[OF h] that by simp
  ultimately show ?thesis by simp
qed

lemma tbl_latest_greatest:
  assumes "r \<in> set rows" and "P r" and "\<And>x. x \<in> set rows \<Longrightarrow> P x \<Longrightarrow> x \<noteq> r \<Longrightarrow> ord x < ord r"
  shows "tbl_latest ord P rows = Some r"
proof (cases "tbl_latest ord P rows")
  case None
  then show ?thesis using assms(1,2) by (auto simp: tbl_latest_None_iff)
next
  case (Some y)
  then have "y \<in> set rows \<and> P y \<and> (\<forall>x \<in> set rows. P x \<longrightarrow> ord x \<le> ord y)"
    by (rule tbl_latest_SomeD)
  then have "y \<in> set rows" "P y" "ord r \<le> ord y" using assms(1,2) by simp_all
  then have "y = r" using assms(3)[of y] leD by blast
  then show ?thesis using Some by simp
qed

section \<open>Timestamps as text\<close>

text \<open>
  \<open>time.RFC3339Nano\<close> in UTC writes the seconds in a fixed-width field, then the fraction
  with trailing zeros dropped, then Z. \<open>stamp_key\<close> is that text with the fixed-width field
  read as a number; its order is the byte order of the stored text.
\<close>

definition pad9 :: "nat \<Rightarrow> string" where
  "pad9 n = (let d = nat_digits n in replicate (9 - length d) (CHR ''0'') @ d)"

definition stamp_fraction :: "go_time \<Rightarrow> string" where
  "stamp_fraction t =
     (let ns = nat (t mod 1000000000) in
      if ns = 0 then ''Z''
      else ''.'' @ rev (dropWhile (\<lambda>c. c = CHR ''0'') (rev (pad9 ns))) @ ''Z'')"

definition stamp_key :: "go_time \<Rightarrow> int \<times> string" where
  "stamp_key t = (t div 1000000000, stamp_fraction t)"

lemma stamp_key_seconds:
  "s div 1000000000 < t div 1000000000 \<Longrightarrow> stamp_key s < stamp_key t"
  by (simp add: stamp_key_def less_prod_simp)

end
