(* ===== verification/Shell.thy ===== *)
theory Shell
  imports Domain Tables
begin

text \<open>
  Shell sessions: internal/domain/shellsession/record.go, the session table of
  shell_session_repo.go (Upsert and ListByTask) and the classification of
  internal/orchestrator/shell_sessions.go, by which a run is attributed to the live session
  of its task. Session events, transcripts and reviews are not modelled.
\<close>

section \<open>Records\<close>

datatype AttachCapability =
    AttachCapabilityNone
  | AttachCapabilityAttachable
  | AttachCapabilityOther string

primrec AttachCapability_str :: "AttachCapability \<Rightarrow> string" where
  "AttachCapability_str AttachCapabilityNone = ''none''"
| "AttachCapability_str AttachCapabilityAttachable = ''attachable''"
| "AttachCapability_str (AttachCapabilityOther s) = s"

datatype WorkerSessionIDSource =
    WorkerSessionIDSourceNone
  | WorkerSessionIDSourceAuthoritative
  | WorkerSessionIDSourceHeuristic
  | WorkerSessionIDSourceUnknown
  | WorkerSessionIDSourceOther string

primrec WorkerSessionIDSource_str :: "WorkerSessionIDSource \<Rightarrow> string" where
  "WorkerSessionIDSource_str WorkerSessionIDSourceNone = ''none''"
| "WorkerSessionIDSource_str WorkerSessionIDSourceAuthoritative = ''authoritative''"
| "WorkerSessionIDSource_str WorkerSessionIDSourceHeuristic = ''heuristic''"
| "WorkerSessionIDSource_str WorkerSessionIDSourceUnknown = ''unknown''"
| "WorkerSessionIDSource_str (WorkerSessionIDSourceOther s) = s"

datatype ShellSessionClass =
    ShellSessionClassAttachable
  | ShellSessionClassActiveUnattachable
  | ShellSessionClassStale
  | ShellSessionClassEnded

primrec ShellSessionClass_str :: "ShellSessionClass \<Rightarrow> string" where
  "ShellSessionClass_str ShellSessionClassAttachable = ''attachable''"
| "ShellSessionClass_str ShellSessionClassActiveUnattachable = ''active_unattachable''"
| "ShellSessionClass_str ShellSessionClassStale = ''stale''"
| "ShellSessionClass_str ShellSessionClassEnded = ''ended''"

record SessionRecord =
  ss_TaskID :: TaskID
  ss_SessionID :: string
  ss_WorkerPreference :: string
  ss_ResolvedWorker :: string
  ss_WorkerSessionID :: string
  ss_WorkerSessionIDSource :: WorkerSessionIDSource
  ss_AttachCapability :: AttachCapability
  ss_HostMode :: string
  ss_HostState :: string
  ss_StartedAt :: go_time
  ss_LastUpdatedAt :: go_time
  ss_Active :: bool
  ss_Note :: string

text \<open>The fields of \<open>ShellSessionView\<close> that classification sets.\<close>

record ShellSessionView =
  sv_Record :: SessionRecord
  sv_WorkerSessionIDSource :: WorkerSessionIDSource
  sv_SessionClass :: ShellSessionClass
  sv_SessionClassReason :: string
  sv_ReattachGuidance :: string
  sv_OperatorSummary :: string

definition normalizeWorkerSessionIDSource :: "WorkerSessionIDSource \<Rightarrow> string \<Rightarrow> WorkerSessionIDSource" where
  "normalizeWorkerSessionIDSource v workerSessionID =
     (if TrimSpace workerSessionID = [] then WorkerSessionIDSourceNone
      else (case v of
              WorkerSessionIDSourceAuthoritative \<Rightarrow> v
            | WorkerSessionIDSourceHeuristic \<Rightarrow> v
            | WorkerSessionIDSourceUnknown \<Rightarrow> v
            | _ \<Rightarrow> WorkerSessionIDSourceUnknown))"

definition normalizeAttachCapability :: "AttachCapability \<Rightarrow> AttachCapability" where
  "normalizeAttachCapability v =
     (if v = AttachCapabilityAttachable then v else AttachCapabilityNone)"

section \<open>The session table\<close>

definition ss_key :: "SessionRecord \<Rightarrow> TaskID \<times> string" where
  "ss_key r = (ss_TaskID r, ss_SessionID r)"

text \<open>The normalisation of a record before it is written.\<close>

definition session_row :: "SessionRecord \<Rightarrow> SessionRecord" where
  "session_row r =
     (let wid = TrimSpace (ss_WorkerSessionID r) in
      r\<lparr>ss_WorkerPreference := TrimSpace (ss_WorkerPreference r),
        ss_ResolvedWorker := TrimSpace (ss_ResolvedWorker r),
        ss_WorkerSessionID := wid,
        ss_WorkerSessionIDSource := normalizeWorkerSessionIDSource (ss_WorkerSessionIDSource r) wid,
        ss_AttachCapability := (if AttachCapability_str (ss_AttachCapability r) = []
          then AttachCapabilityNone else ss_AttachCapability r),
        ss_HostMode := TrimSpace (ss_HostMode r),
        ss_HostState := TrimSpace (ss_HostState r),
        ss_Note := TrimSpace (ss_Note r),
        ss_StartedAt := (if is_zero_time (ss_StartedAt r) then ss_LastUpdatedAt r else ss_StartedAt r)\<rparr>)"

text \<open>
  ON CONFLICT DO UPDATE: an empty worker preference, resolved worker or worker session id
  keeps the stored one, and the stored start time always stays.
\<close>

definition merge_session :: "SessionRecord \<Rightarrow> SessionRecord \<Rightarrow> SessionRecord" where
  "merge_session new old =
     old\<lparr>ss_WorkerPreference := (if ss_WorkerPreference new \<noteq> [] then ss_WorkerPreference new
            else ss_WorkerPreference old),
         ss_ResolvedWorker := (if ss_ResolvedWorker new \<noteq> [] then ss_ResolvedWorker new
            else ss_ResolvedWorker old),
         ss_WorkerSessionID := (if ss_WorkerSessionID new \<noteq> [] then ss_WorkerSessionID new
            else ss_WorkerSessionID old),
         ss_WorkerSessionIDSource := (if ss_WorkerSessionID new \<noteq> [] then ss_WorkerSessionIDSource new
            else ss_WorkerSessionIDSource old),
         ss_AttachCapability := (if AttachCapability_str (ss_AttachCapability new) \<noteq> []
            then ss_AttachCapability new else ss_AttachCapability old),
         ss_HostMode := ss_HostMode new, ss_HostState := ss_HostState new,
         ss_LastUpdatedAt := ss_LastUpdatedAt new, ss_Active := ss_Active new, ss_Note := ss_Note new\<rparr>"

definition sessions_Upsert :: "SessionRecord \<Rightarrow> SessionRecord list \<Rightarrow> SessionRecord list" where
  "sessions_Upsert r rows =
     (let n = session_row r in
      case tbl_insert ss_key n rows of
        Some rows' \<Rightarrow> rows'
      | None \<Rightarrow> map (\<lambda>x. if ss_key x = ss_key n then merge_session n x else x) rows)"

definition scan_session :: "SessionRecord \<Rightarrow> SessionRecord" where
  "scan_session r = r\<lparr>ss_WorkerSessionIDSource :=
     normalizeWorkerSessionIDSource (ss_WorkerSessionIDSource r) (ss_WorkerSessionID r)\<rparr>"

text \<open>ORDER BY last_updated_at DESC, session_id ASC\<close>

definition sessions_ListByTask :: "TaskID \<Rightarrow> SessionRecord list \<Rightarrow> SessionRecord list" where
  "sessions_ListByTask k rows =
     map scan_session
       (order_desc (\<lambda>r. stamp_key (ss_LastUpdatedAt r))
         (sort_key ss_SessionID (filter (\<lambda>r. ss_TaskID r = k) rows)))"

section \<open>Classification\<close>

text \<open>\<open>Duration.String\<close> of a nonnegative duration of whole seconds.\<close>

definition duration_str :: "int \<Rightarrow> string" where
  "duration_str secs =
     (let h = secs div 3600; m = secs div 60 mod 60; s = secs mod 60 in
      if h > 0 then itoa h @ ''h'' @ itoa m @ ''m'' @ itoa s @ ''s''
      else if m > 0 then itoa m @ ''m'' @ itoa s @ ''s''
      else itoa s @ ''s'')"

definition nonEmptyWorker :: "string \<Rightarrow> string \<Rightarrow> string" where
  "nonEmptyWorker primary alt =
     (if TrimSpace primary \<noteq> [] then TrimSpace primary
      else if TrimSpace alt \<noteq> [] then TrimSpace alt else ''worker'')"

definition isTranscriptOnlyMode :: "string \<Rightarrow> string \<Rightarrow> bool" where
  "isTranscriptOnlyMode mode state \<longleftrightarrow>
     TrimSpace (ToLower mode) = ''transcript''
     \<or> TrimSpace (ToLower state) = ''fallback'' \<or> TrimSpace (ToLower state) = ''transcript-only''"

definition isAttachableRecord :: "SessionRecord \<Rightarrow> bool" where
  "isAttachableRecord r \<longleftrightarrow>
     TrimSpace (ss_WorkerSessionID r) \<noteq> []
     \<and> normalizeWorkerSessionIDSource (ss_WorkerSessionIDSource r) (ss_WorkerSessionID r)
         = WorkerSessionIDSourceAuthoritative
     \<and> ss_AttachCapability r = AttachCapabilityAttachable"

definition activeUnattachableReason :: "SessionRecord \<Rightarrow> WorkerSessionIDSource \<Rightarrow> string" where
  "activeUnattachableReason r source =
     (if isTranscriptOnlyMode (ss_HostMode r) (ss_HostState r)
      then ''session is in transcript or fallback mode; live worker attach is unavailable''
      else if TrimSpace (ss_WorkerSessionID r) = [] then ''session has no worker session id''
      else (case source of
              WorkerSessionIDSourceHeuristic \<Rightarrow>
                ''worker session id was heuristically detected from output and is not authoritative''
            | WorkerSessionIDSourceUnknown \<Rightarrow>
                ''worker session id source is unknown; authoritative attach proof is missing''
            | WorkerSessionIDSourceNone \<Rightarrow> ''worker session id is missing''
            | _ \<Rightarrow> if ss_AttachCapability r \<noteq> AttachCapabilityAttachable
                   then ''host reported attach capability as none''
                   else ''session is active but does not satisfy attachability requirements''))"

definition activeUnattachableGuidance :: "SessionRecord \<Rightarrow> WorkerSessionIDSource \<Rightarrow> string" where
  "activeUnattachableGuidance r source =
     (if isTranscriptOnlyMode (ss_HostMode r) (ss_HostState r)
      then ''review transcript evidence and start a new live shell session if more work is needed''
      else if TrimSpace (ss_WorkerSessionID r) = []
      then ''reattach requires a worker session id; keep this shell open or start a new session''
      else if source \<noteq> WorkerSessionIDSourceAuthoritative
      then ''reattach requires an authoritative worker session id; heuristic or unknown ids are not eligible''
      else if ss_AttachCapability r \<noteq> AttachCapabilityAttachable
      then ''current host/worker runtime does not support reattach for this session''
      else ''open a new shell session for continued work'')"

definition session_stale :: "SessionRecord \<Rightarrow> go_time \<Rightarrow> int \<Rightarrow> bool" where
  "session_stale r now staleAfter \<longleftrightarrow>
     staleAfter > 0 \<and> \<not> is_zero_time (ss_LastUpdatedAt r) \<and> now - ss_LastUpdatedAt r > staleAfter"

definition classifyShellSession :: "SessionRecord \<Rightarrow> go_time \<Rightarrow> int \<Rightarrow> ShellSessionView" where
  "classifyShellSession r now staleAfter =
     (let source = normalizeWorkerSessionIDSource (ss_WorkerSessionIDSource r) (ss_WorkerSessionID r);
          view = (\<lambda>cls reason guidance summary. \<lparr>sv_Record = r, sv_WorkerSessionIDSource = source,
            sv_SessionClass = cls, sv_SessionClassReason = reason, sv_ReattachGuidance = guidance,
            sv_OperatorSummary = summary\<rparr>) in
      if \<not> ss_Active r then view ShellSessionClassEnded
        ''session is ended; no active host continuity remains''
        ''start a new shell session; ended sessions cannot be reattached''
        ''ended session; reattach unavailable''
      else if session_stale r now staleAfter then view ShellSessionClassStale
        (''session is stale; last update is older than '' @ duration_str (staleAfter div 1000000000))
        ''open a new shell session; stale sessions are not trusted as attach targets''
        ''stale session; live continuity is unproven''
      else if isAttachableRecord r then view ShellSessionClassAttachable
        ''active PTY session with authoritative worker session id and attach capability''
        (''reattach with `tuku shell --task '' @ ss_TaskID r @ '' --reattach '' @ ss_SessionID r @ ''`'')
        (''attachable '' @ nonEmptyWorker (ss_ResolvedWorker r) (ss_WorkerPreference r) @ '' session'')
      else view ShellSessionClassActiveUnattachable (activeUnattachableReason r source)
        (activeUnattachableGuidance r source) ''active but not reattachable'')"

fun shellSessionClassRank :: "ShellSessionClass \<Rightarrow> int" where
  "shellSessionClassRank ShellSessionClassAttachable = 0"
| "shellSessionClassRank ShellSessionClassActiveUnattachable = 1"
| "shellSessionClassRank ShellSessionClassStale = 2"
| "shellSessionClassRank ShellSessionClassEnded = 3"

text \<open>
  Sorted by class, most recent first within a class; \<open>sort.Slice\<close> leaves the order of records
  with the same class and time open, here they stay in the order of the registry.
\<close>

definition view_order :: "ShellSessionView \<Rightarrow> int \<times> int" where
  "view_order v = (shellSessionClassRank (sv_SessionClass v), - ss_LastUpdatedAt (sv_Record v))"

definition classifyShellSessions :: "SessionRecord list \<Rightarrow> go_time \<Rightarrow> int \<Rightarrow> ShellSessionView list" where
  "classifyShellSessions records now staleAfter =
     sort_key view_order (map (\<lambda>r. classifyShellSession r now staleAfter) records)"

text \<open>\<open>Coordinator.inferActiveShellSessionID\<close>, after the records were read and the clock was read.\<close>

definition active_session_id :: "ShellSessionView list \<Rightarrow> string" where
  "active_session_id views =
     (case find (\<lambda>v. ss_Active (sv_Record v) \<and> sv_SessionClass v \<noteq> ShellSessionClassStale) views of
        Some v \<Rightarrow> ss_SessionID (sv_Record v) | None \<Rightarrow> [])"

section \<open>Laws\<close>

lemma normalize_source_idem [simp]:
  "normalizeWorkerSessionIDSource (normalizeWorkerSessionIDSource v w) w = normalizeWorkerSessionIDSource v w"
  by (simp add: normalizeWorkerSessionIDSource_def split: WorkerSessionIDSource.split)

lemma classify_projections [simp]:
  "sv_Record (classifyShellSession r now stale) = r"
  "sv_SessionClass (classifyShellSession r now stale) =
     (if \<not> ss_Active r then ShellSessionClassEnded
      else if session_stale r now stale then ShellSessionClassStale
      else if isAttachableRecord r then ShellSessionClassAttachable
      else ShellSessionClassActiveUnattachable)"
  by (simp_all add: classifyShellSession_def Let_def)

lemma classify_set:
  "v \<in> set (classifyShellSessions rs now stale) \<longleftrightarrow> (\<exists>r \<in> set rs. v = classifyShellSession r now stale)"
  by (auto simp: classifyShellSessions_def)

lemma sort_key_cong_on:
  "(\<And>x. x \<in> set xs \<Longrightarrow> f x = g x) \<Longrightarrow> sort_key f xs = sort_key g xs"
proof (induction xs)
  case (Cons x xs)
  have "insort_key f y ys = insort_key g y ys" if "f y = g y" "\<forall>z \<in> set ys. f z = g z" for y ys
    using that by (induction ys) auto
  then show ?case using Cons by simp
qed simp

lemma sort_key_map: "sort_key f (map g xs) = map g (sort_key (\<lambda>x. f (g x)) xs)"
proof (induction xs)
  case (Cons x xs)
  have "insort_key f (g x) (map g ys) = map g (insort_key (\<lambda>x. f (g x)) x ys)" for ys
    by (induction ys) auto
  then show ?case using Cons by simp
qed simp

lemma find_filter: "find P xs = (case filter P xs of [] \<Rightarrow> None | x # _ \<Rightarrow> Some x)"
  by (induction xs) auto

definition session_live :: "go_time \<Rightarrow> int \<Rightarrow> SessionRecord \<Rightarrow> bool" where
  "session_live now stale r \<longleftrightarrow> ss_Active r \<and> \<not> session_stale r now stale"

definition live_order :: "SessionRecord \<Rightarrow> int \<times> int" where
  "live_order r = (if isAttachableRecord r then 0 else 1, - ss_LastUpdatedAt r)"

text \<open>
  The session a run is attributed to is empty exactly when the task has no live session
  (active and recently updated); otherwise it is the first of the live sessions ordered by
  attachable before unattachable and then by the most recent update. Ended and stale sessions
  never attract a run.
\<close>

theorem active_session_is_best_live:
  "active_session_id (classifyShellSessions rs now stale) =
     (case sort_key live_order (filter (session_live now stale) rs) of
        [] \<Rightarrow> [] | r # _ \<Rightarrow> ss_SessionID r)"
proof -
  let ?c = "\<lambda>r. classifyShellSession r now stale"
  let ?P = "\<lambda>v. ss_Active (sv_Record v) \<and> sv_SessionClass v \<noteq> ShellSessionClassStale"
  have P: "(\<lambda>r. ?P (?c r)) = session_live now stale"
    by (rule ext) (simp add: session_live_def)
  have "filter ?P (classifyShellSessions rs now stale)
      = map ?c (sort_key (\<lambda>r. view_order (?c r)) (filter (session_live now stale) rs))"
    unfolding classifyShellSessions_def sort_key_map filter_map comp_def P filter_sort ..
  also have "\<dots> = map ?c (sort_key live_order (filter (session_live now stale) rs))"
    by (rule arg_cong[where f = "map ?c"], rule sort_key_cong_on)
      (simp add: view_order_def live_order_def session_live_def)
  finally show ?thesis
    unfolding active_session_id_def find_filter
    by (simp split: list.split)
qed

lemma merge_key [simp]: "ss_key (merge_session n x) = ss_key x"
  by (simp add: ss_key_def merge_session_def)

lemma session_row_key [simp]: "ss_key (session_row r) = ss_key r"
  by (simp add: ss_key_def session_row_def Let_def)

text \<open>
  A report is stored under its task and session id and leaves every other session as it
  is; a first report is stored normalised, a later one is merged into the stored record, so
  that a report without a worker session id keeps the one already known and its source.
\<close>

theorem session_upsert:
  "tbl_get ss_key k (sessions_Upsert r rows) =
     (if k \<noteq> ss_key r then tbl_get ss_key k rows
      else Some (case tbl_get ss_key k rows of
          None \<Rightarrow> session_row r
        | Some old \<Rightarrow> merge_session (session_row r) old))"
proof (cases "tbl_insert ss_key (session_row r) rows")
  case None
  have upd: "tbl_update ss_key (ss_key r) (merge_session (session_row r)) rows
      = Some (sessions_Upsert r rows)"
    using None by (simp add: sessions_Upsert_def tbl_update_def tbl_insert_def split: if_splits)
  have "tbl_get ss_key (ss_key r) rows \<noteq> None"
    using None by (simp add: tbl_insert_def split: if_splits)
  then show ?thesis using tbl_get_update[OF upd] by (auto split: option.split)
next
  case (Some rows')
  have "tbl_get ss_key (ss_key r) rows = None"
    using Some by (simp add: tbl_insert_def split: if_splits)
  then show ?thesis using tbl_get_insert[OF Some] Some by (simp add: sessions_Upsert_def)
qed

end
