(* ===== verification/Transcripts.thy ===== *)
theory Transcripts
  imports Shell
begin

text \<open>
  Retained transcripts, transcript reviews, review-gap acknowledgments and session events
  (internal/domain/shellsession and sqlite/shell_session_repo.go). The store writes outside the
  coordinator's transactions, so an operation returns its result and the tables it leaves, also
  when it fails half-way. A transcript keeps its newest chunks; the rest is counted as dropped.
\<close>

section \<open>Data\<close>

datatype TranscriptSource =
    TranscriptSourceWorkerOutput
  | TranscriptSourceSystemNote
  | TranscriptSourceFallback
  | TranscriptSourceOther string

primrec TranscriptSource_str :: "TranscriptSource \<Rightarrow> string" where
  "TranscriptSource_str TranscriptSourceWorkerOutput = ''worker_output''"
| "TranscriptSource_str TranscriptSourceSystemNote = ''system_note''"
| "TranscriptSource_str TranscriptSourceFallback = ''fallback_note''"
| "TranscriptSource_str (TranscriptSourceOther s) = s"

datatype TranscriptState =
    TranscriptStateNone
  | TranscriptStateBoundedAvailable
  | TranscriptStateBoundedPartial
  | TranscriptStateTranscriptOnlyAvailable
  | TranscriptStateTranscriptOnlyPartial
  | TranscriptStateOther string

primrec TranscriptState_str :: "TranscriptState \<Rightarrow> string" where
  "TranscriptState_str TranscriptStateNone = ''none''"
| "TranscriptState_str TranscriptStateBoundedAvailable = ''bounded_available''"
| "TranscriptState_str TranscriptStateBoundedPartial = ''bounded_partial''"
| "TranscriptState_str TranscriptStateTranscriptOnlyAvailable = ''transcript_only_bounded_available''"
| "TranscriptState_str TranscriptStateTranscriptOnlyPartial = ''transcript_only_bounded_partial''"
| "TranscriptState_str (TranscriptStateOther s) = s"

datatype GapAckClass =
    GapAckMissingReviewMarker
  | GapAckStaleReview
  | GapAckSourceScopedOnly
  | GapAckSourceScopedStale
  | GapAckClassOther string

primrec GapAckClass_str :: "GapAckClass \<Rightarrow> string" where
  "GapAckClass_str GapAckMissingReviewMarker = ''missing_review_marker''"
| "GapAckClass_str GapAckStaleReview = ''stale_review''"
| "GapAckClass_str GapAckSourceScopedOnly = ''source_scoped_only''"
| "GapAckClass_str GapAckSourceScopedStale = ''source_scoped_stale''"
| "GapAckClass_str (GapAckClassOther s) = s"

datatype SessionEventKind =
    EventKindHostStarted
  | EventKindHostExited
  | EventKindFallbackActivated
  | EventKindReattachRequested
  | EventKindReattachFailed
  | EventKindSessionReported
  | SessionEventKindOther string

primrec SessionEventKind_str :: "SessionEventKind \<Rightarrow> string" where
  "SessionEventKind_str EventKindHostStarted = ''host_started''"
| "SessionEventKind_str EventKindHostExited = ''host_exited''"
| "SessionEventKind_str EventKindFallbackActivated = ''fallback_activated''"
| "SessionEventKind_str EventKindReattachRequested = ''reattach_requested''"
| "SessionEventKind_str EventKindReattachFailed = ''reattach_failed''"
| "SessionEventKind_str EventKindSessionReported = ''session_reported''"
| "SessionEventKind_str (SessionEventKindOther s) = s"

record TranscriptChunk =
  tc_ChunkID :: EventID
  tc_TaskID :: TaskID
  tc_SessionID :: string
  tc_SequenceNo :: int
  tc_Source :: TranscriptSource
  tc_Content :: string
  tc_CreatedAt :: go_time

record TranscriptSummary =
  ts_TaskID :: TaskID
  ts_SessionID :: string
  ts_RetainedChunks :: int
  ts_DroppedChunks :: int
  ts_RetentionLimit :: int
  ts_LastSequenceNo :: int
  ts_LastChunkAt :: go_time
  ts_OldestSequenceNo :: int
  ts_OldestChunkAt :: go_time
  ts_NewestSequenceNo :: int
  ts_NewestChunkAt :: go_time
  ts_SourceCounts :: "(TranscriptSource \<times> int) list"

record TranscriptReview =
  tv_ReviewID :: EventID
  tv_TaskID :: TaskID
  tv_SessionID :: string
  tv_SourceFilter :: TranscriptSource
  tv_ReviewedUpToSequence :: int
  tv_Summary :: string
  tv_TranscriptState :: TranscriptState
  tv_RetentionLimit :: int
  tv_RetainedChunks :: int
  tv_DroppedChunks :: int
  tv_OldestRetainedSequence :: int
  tv_NewestRetainedSequence :: int
  tv_CreatedAt :: go_time

record GapAck =
  ga_AcknowledgmentID :: EventID
  ga_TaskID :: TaskID
  ga_SessionID :: string
  ga_Class :: GapAckClass
  ga_ReviewState :: string
  ga_ReviewScope :: TranscriptSource
  ga_ReviewedUpToSequence :: int
  ga_OldestUnreviewedSequence :: int
  ga_NewestRetainedSequence :: int
  ga_UnreviewedRetainedCount :: int
  ga_TranscriptState :: TranscriptState
  ga_RetentionLimit :: int
  ga_RetainedChunks :: int
  ga_DroppedChunks :: int
  ga_ActionContext :: string
  ga_Summary :: string
  ga_CreatedAt :: go_time

record SessionEvent =
  se_EventID :: EventID
  se_TaskID :: TaskID
  se_SessionID :: string
  se_Kind :: SessionEventKind
  se_HostMode :: string
  se_HostState :: string
  se_WorkerSessionID :: string
  se_WorkerSessionIDSource :: WorkerSessionIDSource
  se_AttachCapability :: AttachCapability
  se_Active :: bool
  se_InputLive :: bool
  se_ExitCode :: "int option"
  se_PaneWidth :: int
  se_PaneHeight :: int
  se_Note :: string
  se_CreatedAt :: go_time

text \<open>The tables; a metadata row is kept per task and session.\<close>

record TranscriptMeta =
  tm_TaskID :: TaskID
  tm_SessionID :: string
  tm_RetainedChunks :: int
  tm_DroppedChunks :: int
  tm_LastSequenceNo :: int
  tm_LastChunkAt :: go_time

record ShellDb =
  sx_chunks :: "TranscriptChunk list"
  sx_metas :: "TranscriptMeta list"
  sx_reviews :: "TranscriptReview list"
  sx_acks :: "GapAck list"
  sx_events :: "SessionEvent list"

definition empty_shell :: ShellDb where
  "empty_shell = \<lparr>sx_chunks = [], sx_metas = [], sx_reviews = [], sx_acks = [], sx_events = []\<rparr>"

text \<open>The wall clock and the ids the store makes up itself, read while it handles a number.\<close>

record Wall =
  wall_at :: "int \<Rightarrow> go_time"
  wall_id :: "int \<Rightarrow> string"

section \<open>Normalisation\<close>

definition DefaultTranscriptRetentionChunks :: int where
  "DefaultTranscriptRetentionChunks = 200"

definition MaxTranscriptChunkChars :: nat where
  "MaxTranscriptChunkChars = 1200"

definition retention_limit :: "int \<Rightarrow> int" where
  "retention_limit n = (if n \<le> 0 then DefaultTranscriptRetentionChunks else n)"

definition normalizeTranscriptSource :: "TranscriptSource \<Rightarrow> TranscriptSource" where
  "normalizeTranscriptSource s =
     (case s of TranscriptSourceOther x \<Rightarrow> TranscriptSourceWorkerOutput | _ \<Rightarrow> s)"

definition source_of :: "string \<Rightarrow> TranscriptSource" where
  "source_of s =
     (if s = ''worker_output'' then TranscriptSourceWorkerOutput
      else if s = ''system_note'' then TranscriptSourceSystemNote
      else if s = ''fallback_note'' then TranscriptSourceFallback
      else TranscriptSourceOther s)"

text \<open>\<open>Inl\<close> the unsupported text, or no filter, or the filter.\<close>

definition normalizeTranscriptSourceFilter :: "TranscriptSource \<Rightarrow> string + TranscriptSource option" where
  "normalizeTranscriptSourceFilter s =
     (let t = TrimSpace (TranscriptSource_str s) in
      if t = [] then Inr None
      else (case source_of t of TranscriptSourceOther x \<Rightarrow> Inl t | src \<Rightarrow> Inr (Some src)))"

text \<open>A zero byte is dropped; \<open>TrimRight\<close> takes off trailing carriage returns and newlines.\<close>

definition normalizeTranscriptChunkContent :: "string \<Rightarrow> string" where
  "normalizeTranscriptChunkContent s =
     (let c = rev (dropWhile (\<lambda>c. c = CHR 0x0D \<or> c = CHR 0x0A) (rev (filter (\<lambda>c. c \<noteq> CHR 0x00) s))) in
      if TrimSpace c = [] then [] else take MaxTranscriptChunkChars c)"

section \<open>Transcripts\<close>

definition in_session :: "TaskID \<Rightarrow> string \<Rightarrow> TranscriptChunk \<Rightarrow> bool" where
  "in_session t s c \<longleftrightarrow> tc_TaskID c = t \<and> tc_SessionID c = s"

definition session_chunks :: "TaskID \<Rightarrow> string \<Rightarrow> ShellDb \<Rightarrow> TranscriptChunk list" where
  "session_chunks t s d = filter (in_session t s) (sx_chunks d)"

definition meta_key :: "TranscriptMeta \<Rightarrow> TaskID \<times> string" where
  "meta_key m = (tm_TaskID m, tm_SessionID m)"

definition count_sources :: "TranscriptChunk list \<Rightarrow> (TranscriptSource \<times> int) list" where
  "count_sources cs =
     map (\<lambda>s. (normalizeTranscriptSource s, int (length (filter (\<lambda>c. tc_Source c = s) cs))))
       (sort_key TranscriptSource_str (remdups (map tc_Source cs)))"

text \<open>\<open>populateTranscriptSummaryBoundsAndSources\<close>, from the chunks of the session.\<close>

definition with_bounds :: "TranscriptChunk list \<Rightarrow> TranscriptSummary \<Rightarrow> TranscriptSummary" where
  "with_bounds cs y =
     (if ts_RetainedChunks y \<le> 0 then y
      else
        let old = (case sort_key tc_SequenceNo cs of [] \<Rightarrow> y
              | c # _ \<Rightarrow> y\<lparr>ts_OldestSequenceNo := tc_SequenceNo c, ts_OldestChunkAt := tc_CreatedAt c\<rparr>);
            new = (case order_desc tc_SequenceNo cs of [] \<Rightarrow> old
              | c # _ \<Rightarrow> old\<lparr>ts_NewestSequenceNo := tc_SequenceNo c, ts_LastSequenceNo := tc_SequenceNo c,
                   ts_NewestChunkAt := tc_CreatedAt c, ts_LastChunkAt := tc_CreatedAt c\<rparr>) in
        new\<lparr>ts_SourceCounts := count_sources cs\<rparr>)"

definition empty_summary :: "TaskID \<Rightarrow> string \<Rightarrow> int \<Rightarrow> TranscriptSummary" where
  "empty_summary t s n = \<lparr>ts_TaskID = t, ts_SessionID = s, ts_RetainedChunks = 0,
     ts_DroppedChunks = 0, ts_RetentionLimit = n, ts_LastSequenceNo = 0, ts_LastChunkAt = 0,
     ts_OldestSequenceNo = 0, ts_OldestChunkAt = 0, ts_NewestSequenceNo = 0, ts_NewestChunkAt = 0,
     ts_SourceCounts = []\<rparr>"

definition session_ids :: "TaskID \<Rightarrow> string \<Rightarrow> go_error option" where
  "session_ids t s =
     (if t = [] then Some (ErrMsg ''task id is required'')
      else if s = [] then Some (ErrMsg ''session id is required'') else None)"

definition summary_of :: "TaskID \<Rightarrow> string \<Rightarrow> int \<Rightarrow> ShellDb \<Rightarrow> TranscriptSummary" where
  "summary_of t s retention d =
     (let cs = session_chunks t s d; y = empty_summary t s (retention_limit retention) in
      case tbl_get meta_key (t, s) (sx_metas d) of
        Some m \<Rightarrow> with_bounds cs (y\<lparr>ts_RetainedChunks := tm_RetainedChunks m,
          ts_DroppedChunks := tm_DroppedChunks m, ts_LastSequenceNo := tm_LastSequenceNo m,
          ts_LastChunkAt := tm_LastChunkAt m\<rparr>)
      | None \<Rightarrow>
         (case order_desc tc_SequenceNo cs of
            [] \<Rightarrow> y
          | c # _ \<Rightarrow> with_bounds cs (y\<lparr>ts_RetainedChunks := int (length cs),
              ts_LastSequenceNo := tc_SequenceNo c, ts_LastChunkAt := tc_CreatedAt c\<rparr>)))"

definition shell_TranscriptSummary :: "TaskID \<Rightarrow> string \<Rightarrow> int \<Rightarrow> ShellDb \<Rightarrow> go_error + TranscriptSummary" where
  "shell_TranscriptSummary t s0 retention d =
     (let s = TrimSpace s0 in
      case session_ids t s of Some e \<Rightarrow> Inl e | None \<Rightarrow> Inr (summary_of t s retention d))"

text \<open>The row a chunk is stored as, under its number.\<close>

definition chunk_row :: "Wall \<Rightarrow> TaskID \<Rightarrow> string \<Rightarrow> int \<Rightarrow> TranscriptChunk \<Rightarrow> TranscriptChunk" where
  "chunk_row W t s no c = \<lparr>
     tc_ChunkID = (if TrimSpace (tc_ChunkID c) = [] then ''sst_'' @ wall_id W no @ ''_'' @ itoa no
       else TrimSpace (tc_ChunkID c)),
     tc_TaskID = t, tc_SessionID = s, tc_SequenceNo = no,
     tc_Source = normalizeTranscriptSource (tc_Source c),
     tc_Content = normalizeTranscriptChunkContent (tc_Content c),
     tc_CreatedAt = (if is_zero_time (tc_CreatedAt c) then wall_at W no else tc_CreatedAt c)\<rparr>"

text \<open>The loop of inserts: the last number, the latest time and how many were inserted.\<close>

fun insert_chunks ::
  "Wall \<Rightarrow> TaskID \<Rightarrow> string \<Rightarrow> TranscriptChunk list \<Rightarrow> int \<Rightarrow> go_time \<Rightarrow> nat \<Rightarrow> TranscriptChunk list \<Rightarrow>
     (go_error + int \<times> go_time \<times> nat) \<times> TranscriptChunk list" where
  "insert_chunks W t s [] no at n rows = (Inr (no, at, n), rows)"
| "insert_chunks W t s (c # cs) no at n rows =
     (if normalizeTranscriptChunkContent (tc_Content c) = [] then insert_chunks W t s cs no at n rows
      else
        case tbl_insert tc_ChunkID (chunk_row W t s (no + 1) c) rows of
          None \<Rightarrow> (Inl (ErrWrap ''insert shell session transcript chunk: ''
            (ErrUnique ''shell_session_transcript_chunks.chunk_id'')), rows)
        | Some rows' \<Rightarrow> insert_chunks W t s cs (no + 1)
            (max at (tc_CreatedAt (chunk_row W t s (no + 1) c))) (n + 1) rows')"

definition prune_chunks :: "TaskID \<Rightarrow> string \<Rightarrow> nat \<Rightarrow> TranscriptChunk list \<Rightarrow> TranscriptChunk list" where
  "prune_chunks t s k rows =
     (let victims = map tc_ChunkID (drop k (order_desc tc_SequenceNo (filter (in_session t s) rows))) in
      filter (\<lambda>c. \<not> (in_session t s c \<and> tc_ChunkID c \<in> set victims)) rows)"

definition put_meta :: "TranscriptMeta \<Rightarrow> TranscriptMeta list \<Rightarrow> TranscriptMeta list" where
  "put_meta m rows =
     (case tbl_insert meta_key m rows of
        Some rows' \<Rightarrow> rows'
      | None \<Rightarrow> map (\<lambda>x. if meta_key x = meta_key m then m else x) rows)"

definition shell_AppendTranscript ::
  "Wall \<Rightarrow> TaskID \<Rightarrow> string \<Rightarrow> TranscriptChunk list \<Rightarrow> int \<Rightarrow> ShellDb \<Rightarrow>
     (go_error + TranscriptSummary) \<times> ShellDb" where
  "shell_AppendTranscript W t s0 chunks retention d =
     (let s = TrimSpace s0; limit = retention_limit retention in
      case session_ids t s of
        Some e \<Rightarrow> (Inl e, d)
      | None \<Rightarrow>
        let y = summary_of t s limit d in
        if chunks = [] then (Inr y, d)
        else
          (case insert_chunks W t s chunks (ts_LastSequenceNo y) (ts_LastChunkAt y) 0 (sx_chunks d) of
             (Inl e, rows) \<Rightarrow> (Inl e, d\<lparr>sx_chunks := rows\<rparr>)
           | (Inr (no, at, n), rows) \<Rightarrow>
              if n = 0 then (Inr y, d\<lparr>sx_chunks := rows\<rparr>)
              else
                let kept = prune_chunks t s (nat limit) rows;
                    dropped = ts_DroppedChunks y + int (length rows - length kept);
                    m = \<lparr>tm_TaskID = t, tm_SessionID = s,
                      tm_RetainedChunks = int (length (filter (in_session t s) kept)),
                      tm_DroppedChunks = dropped, tm_LastSequenceNo = no, tm_LastChunkAt = at\<rparr>;
                    d' = d\<lparr>sx_chunks := kept, sx_metas := put_meta m (sx_metas d)\<rparr> in
                (Inr ((summary_of t s limit d')\<lparr>ts_DroppedChunks := dropped\<rparr>), d')))"

text \<open>The newest chunks below a number, oldest first, and whether older ones were left out.\<close>

definition shell_ListTranscriptPage ::
  "TaskID \<Rightarrow> string \<Rightarrow> int \<Rightarrow> int \<Rightarrow> TranscriptSource \<Rightarrow> ShellDb \<Rightarrow>
     go_error + TranscriptChunk list \<times> bool" where
  "shell_ListTranscriptPage t s0 before limit0 src d =
     (let s = TrimSpace s0; limit = (if limit0 \<le> 0 then 40 else nat limit0) in
      case session_ids t s of
        Some e \<Rightarrow> Inl e
      | None \<Rightarrow>
        (case normalizeTranscriptSourceFilter src of
           Inl x \<Rightarrow> Inl (ErrMsg (''unsupported transcript source filter '' @ [CHR 0x22] @ x @ [CHR 0x22]))
         | Inr filt \<Rightarrow>
           let rows = take (limit + 1) (order_desc tc_SequenceNo
                 (filter (\<lambda>c. (before \<le> 0 \<or> tc_SequenceNo c < before)
                    \<and> (case filt of None \<Rightarrow> True | Some x \<Rightarrow> tc_Source c = x)) (session_chunks t s d))) in
           Inr (rev (map (\<lambda>c. c\<lparr>tc_Source := normalizeTranscriptSource (tc_Source c)\<rparr>) (take limit rows)),
             length rows > limit)))"

section \<open>Reviews, acknowledgments and events\<close>

definition review_order :: "TranscriptReview \<Rightarrow> (int \<times> string) \<times> string" where
  "review_order r = (stamp_key (tv_CreatedAt r), tv_ReviewID r)"

definition shell_AppendTranscriptReview ::
  "Wall \<Rightarrow> TranscriptReview \<Rightarrow> ShellDb \<Rightarrow> (go_error + TranscriptReview) \<times> ShellDb" where
  "shell_AppendTranscriptReview W r0 d =
     (let r1 = r0\<lparr>tv_TaskID := TrimSpace (tv_TaskID r0), tv_SessionID := TrimSpace (tv_SessionID r0),
            tv_SourceFilter := source_of (TrimSpace (TranscriptSource_str (tv_SourceFilter r0))),
            tv_Summary := TrimSpace (tv_Summary r0)\<rparr> in
      case session_ids (tv_TaskID r1) (tv_SessionID r1) of
        Some e \<Rightarrow> (Inl e, d)
      | None \<Rightarrow>
        if tv_ReviewedUpToSequence r1 \<le> 0
        then (Inl (ErrMsg ''reviewed_up_to_sequence must be greater than zero''), d)
        else
          let r = r1\<lparr>tv_ReviewID := (if tv_ReviewID r1 = [] then ''srev_'' @ wall_id W 0 else tv_ReviewID r1),
                tv_CreatedAt := (if is_zero_time (tv_CreatedAt r1) then wall_at W 0 else tv_CreatedAt r1)\<rparr> in
          case tbl_insert tv_ReviewID r (sx_reviews d) of
            None \<Rightarrow> (Inl (ErrWrap ''insert shell transcript review: ''
              (ErrUnique ''shell_session_transcript_reviews.review_id'')), d)
          | Some rows \<Rightarrow> (Inr r, d\<lparr>sx_reviews := rows\<rparr>))"

definition shell_ListTranscriptReviews ::
  "TaskID \<Rightarrow> string \<Rightarrow> TranscriptSource \<Rightarrow> int \<Rightarrow> ShellDb \<Rightarrow> go_error + TranscriptReview list" where
  "shell_ListTranscriptReviews t0 s0 src limit d =
     (let t = TrimSpace t0; s = TrimSpace s0; x = source_of (TrimSpace (TranscriptSource_str src)) in
      case session_ids t s of
        Some e \<Rightarrow> Inl e
      | None \<Rightarrow> Inr (tbl_list review_order
          (\<lambda>r. tv_TaskID r = t \<and> tv_SessionID r = s \<and> tv_SourceFilter r = x)
          (if limit \<le> 0 then 20 else nat limit) (sx_reviews d)))"

definition shell_ListTranscriptReviewsAnyScope ::
  "TaskID \<Rightarrow> string \<Rightarrow> int \<Rightarrow> ShellDb \<Rightarrow> go_error + TranscriptReview list" where
  "shell_ListTranscriptReviewsAnyScope t0 s0 limit d =
     (let t = TrimSpace t0; s = TrimSpace s0 in
      case session_ids t s of
        Some e \<Rightarrow> Inl e
      | None \<Rightarrow> Inr (tbl_list review_order (\<lambda>r. tv_TaskID r = t \<and> tv_SessionID r = s)
          (if limit \<le> 0 then 20 else nat limit) (sx_reviews d)))"

definition first_of :: "go_error + 'a list \<Rightarrow> go_error + 'a option" where
  "first_of x = (case x of Inl e \<Rightarrow> Inl e | Inr [] \<Rightarrow> Inr None | Inr (a # _) \<Rightarrow> Inr (Some a))"

definition shell_LatestTranscriptReview ::
  "TaskID \<Rightarrow> string \<Rightarrow> TranscriptSource \<Rightarrow> ShellDb \<Rightarrow> go_error + TranscriptReview option" where
  "shell_LatestTranscriptReview t s src d = first_of (shell_ListTranscriptReviews t s src 1 d)"

definition shell_LatestTranscriptReviewAnyScope ::
  "TaskID \<Rightarrow> string \<Rightarrow> ShellDb \<Rightarrow> go_error + TranscriptReview option" where
  "shell_LatestTranscriptReviewAnyScope t s d = first_of (shell_ListTranscriptReviewsAnyScope t s 1 d)"

definition ack_order :: "GapAck \<Rightarrow> (int \<times> string) \<times> string" where
  "ack_order r = (stamp_key (ga_CreatedAt r), ga_AcknowledgmentID r)"

definition shell_AppendGapAck :: "Wall \<Rightarrow> GapAck \<Rightarrow> ShellDb \<Rightarrow> (go_error + GapAck) \<times> ShellDb" where
  "shell_AppendGapAck W r0 d =
     (let r1 = r0\<lparr>ga_TaskID := TrimSpace (ga_TaskID r0), ga_SessionID := TrimSpace (ga_SessionID r0),
            ga_Summary := TrimSpace (ga_Summary r0), ga_ActionContext := TrimSpace (ga_ActionContext r0),
            ga_ReviewState := TrimSpace (ga_ReviewState r0),
            ga_ReviewScope := source_of (TrimSpace (TranscriptSource_str (ga_ReviewScope r0)))\<rparr> in
      case session_ids (ga_TaskID r1) (ga_SessionID r1) of
        Some e \<Rightarrow> (Inl e, d)
      | None \<Rightarrow>
        if GapAckClass_str (ga_Class r1) = []
        then (Inl (ErrMsg ''acknowledgment class is required''), d)
        else
          let r = r1\<lparr>ga_AcknowledgmentID := (if ga_AcknowledgmentID r1 = [] then ''sack_'' @ wall_id W 0
                  else ga_AcknowledgmentID r1),
                ga_CreatedAt := (if is_zero_time (ga_CreatedAt r1) then wall_at W 0 else ga_CreatedAt r1)\<rparr> in
          case tbl_insert ga_AcknowledgmentID r (sx_acks d) of
            None \<Rightarrow> (Inl (ErrWrap ''insert transcript review-gap acknowledgment: ''
              (ErrUnique ''shell_session_transcript_review_gap_acks.ack_id'')), d)
          | Some rows \<Rightarrow> (Inr r, d\<lparr>sx_acks := rows\<rparr>))"

definition shell_ListGapAcks :: "TaskID \<Rightarrow> string \<Rightarrow> int \<Rightarrow> ShellDb \<Rightarrow> go_error + GapAck list" where
  "shell_ListGapAcks t0 s0 limit d =
     (let t = TrimSpace t0; s = TrimSpace s0 in
      if t = [] then Inl (ErrMsg ''task id is required'')
      else Inr (tbl_list ack_order (\<lambda>r. ga_TaskID r = t \<and> (s = [] \<or> ga_SessionID r = s))
          (if limit \<le> 0 then 20 else nat limit) (sx_acks d)))"

definition shell_LatestGapAck :: "TaskID \<Rightarrow> string \<Rightarrow> ShellDb \<Rightarrow> go_error + GapAck option" where
  "shell_LatestGapAck t s d = first_of (shell_ListGapAcks t s 1 d)"

definition event_order :: "SessionEvent \<Rightarrow> (int \<times> string) \<times> string" where
  "event_order e = (stamp_key (se_CreatedAt e), se_EventID e)"

definition shell_AppendEvent :: "Wall \<Rightarrow> SessionEvent \<Rightarrow> ShellDb \<Rightarrow> (go_error + unit) \<times> ShellDb" where
  "shell_AppendEvent W e0 d =
     (let wid = TrimSpace (se_WorkerSessionID e0);
          e = e0\<lparr>se_SessionID := TrimSpace (se_SessionID e0), se_HostMode := TrimSpace (se_HostMode e0),
            se_HostState := TrimSpace (se_HostState e0), se_WorkerSessionID := wid,
            se_WorkerSessionIDSource := normalizeWorkerSessionIDSource (se_WorkerSessionIDSource e0) wid,
            se_AttachCapability := (if AttachCapability_str (se_AttachCapability e0) = []
              then AttachCapabilityNone else se_AttachCapability e0),
            se_Note := TrimSpace (se_Note e0),
            se_EventID := (if se_EventID e0 = [] then ''ssev_'' @ wall_id W 0 else se_EventID e0),
            se_CreatedAt := (if is_zero_time (se_CreatedAt e0) then wall_at W 0 else se_CreatedAt e0)\<rparr> in
      case tbl_insert se_EventID e (sx_events d) of
        None \<Rightarrow> (Inl (ErrWrap ''insert shell session event: '' (ErrUnique ''shell_session_events.event_id'')), d)
      | Some rows \<Rightarrow> (Inr (), d\<lparr>sx_events := rows\<rparr>))"

definition shell_ListEvents :: "TaskID \<Rightarrow> string \<Rightarrow> int \<Rightarrow> ShellDb \<Rightarrow> SessionEvent list" where
  "shell_ListEvents t s0 limit d =
     (let s = TrimSpace s0 in
      tbl_list event_order (\<lambda>e. se_TaskID e = t \<and> (s = [] \<or> se_SessionID e = s))
        (if limit \<le> 0 then 20 else nat limit) (sx_events d))"

section \<open>Numbering of a transcript\<close>

text \<open>What is counted as dropped, and the invariant: the retained numbers follow it without a gap.\<close>

definition dropped_of :: "TaskID \<Rightarrow> string \<Rightarrow> ShellDb \<Rightarrow> int" where
  "dropped_of t s d = (case tbl_get meta_key (t, s) (sx_metas d) of
     Some m \<Rightarrow> tm_DroppedChunks m | None \<Rightarrow> 0)"

definition numbered :: "int \<Rightarrow> TranscriptChunk list \<Rightarrow> bool" where
  "numbered k cs \<longleftrightarrow> map tc_SequenceNo cs = map (\<lambda>i. k + 1 + int i) [0..<length cs]"

definition transcript_ok :: "TaskID \<Rightarrow> string \<Rightarrow> ShellDb \<Rightarrow> bool" where
  "transcript_ok t s d \<longleftrightarrow> numbered (dropped_of t s d) (session_chunks t s d)
     \<and> (case tbl_get meta_key (t, s) (sx_metas d) of
          None \<Rightarrow> True | Some m \<Rightarrow> tm_RetainedChunks m > 0 \<and> tm_DroppedChunks m \<ge> 0
              \<and> session_chunks t s d \<noteq> [])"

definition shell_ok :: "ShellDb \<Rightarrow> bool" where
  "shell_ok d \<longleftrightarrow> tbl_ok tc_ChunkID (sx_chunks d) \<and> (\<forall>t s. transcript_ok t s d)"

lemma numbered_nth: "numbered k cs \<longleftrightarrow> (\<forall>i < length cs. tc_SequenceNo (cs ! i) = k + 1 + int i)"
  unfolding numbered_def list_eq_iff_nth_eq by simp

lemma numbered_append:
  "numbered k (xs @ ys) \<longleftrightarrow> numbered k xs \<and> numbered (k + int (length xs)) ys"
proof -
  have "map (\<lambda>i. k + 1 + int i) [0..<length (xs @ ys)] =
      map (\<lambda>i. k + 1 + int i) [0..<length xs] @ map (\<lambda>i. k + int (length xs) + 1 + int i) [0..<length ys]"
    by (rule nth_equalityI) (auto simp: nth_append)
  then show ?thesis by (simp add: numbered_def)
qed

lemma numbered_Nil [simp]: "numbered k []"
  by (simp add: numbered_def)

lemma numbered_drop: "numbered k cs \<Longrightarrow> m \<le> length cs \<Longrightarrow> numbered (k + int m) (drop m cs)"
  using numbered_append[of k "take m cs" "drop m cs"] by (simp add: min_absorb2)

lemma numbered_sorted: "numbered k cs \<Longrightarrow> sorted_wrt (<) (map tc_SequenceNo cs)"
  by (auto simp: sorted_wrt_iff_nth_less numbered_nth)

lemma insort_key_last: "\<forall>y \<in> set xs. f y < f x \<Longrightarrow> insort_key f x xs = xs @ [x]"
  by (induction xs) (auto simp: not_le[symmetric])

lemma sort_key_rev: "sorted_wrt (<) (map f cs) \<Longrightarrow> sort_key f (rev cs) = (cs :: 'a list)"
  for f :: "'a \<Rightarrow> 'b::linorder"
  by (induction cs rule: rev_induct) (auto simp: sorted_wrt_append intro!: insort_key_last)

lemma numbered_newest_first: "numbered k cs \<Longrightarrow> order_desc tc_SequenceNo cs = rev cs"
  by (simp add: order_desc_def sort_key_rev numbered_sorted)

lemma numbered_last: "numbered k cs \<Longrightarrow> cs \<noteq> [] \<Longrightarrow> tc_SequenceNo (last cs) = k + int (length cs)"
  by (cases cs rule: rev_cases) (auto simp: numbered_nth nth_append)

lemma bounds_last:
  assumes "numbered k cs" and "cs \<noteq> []" and "ts_RetainedChunks y > 0"
  shows "ts_LastSequenceNo (with_bounds cs y) = k + int (length cs)"
    and "ts_NewestSequenceNo (with_bounds cs y) = k + int (length cs)"
    and "ts_DroppedChunks (with_bounds cs y) = ts_DroppedChunks y"
    and "ts_RetainedChunks (with_bounds cs y) = ts_RetainedChunks y"
proof -
  obtain xs x where cs: "cs = xs @ [x]" using assms(2) by (cases cs rule: rev_cases) auto
  have x: "tc_SequenceNo x = k + int (length cs)" using numbered_last[OF assms(1,2)] cs by simp
  have desc: "order_desc tc_SequenceNo cs = x # rev xs" using numbered_newest_first[OF assms(1)] cs by simp
  show "ts_LastSequenceNo (with_bounds cs y) = k + int (length cs)"
    and "ts_NewestSequenceNo (with_bounds cs y) = k + int (length cs)"
    and "ts_DroppedChunks (with_bounds cs y) = ts_DroppedChunks y"
    and "ts_RetainedChunks (with_bounds cs y) = ts_RetainedChunks y"
    using assms(3) x unfolding with_bounds_def desc
    by (simp_all add: Let_def split: list.splits)
qed

lemma dropped_nonneg: "transcript_ok t s d \<Longrightarrow> 0 \<le> dropped_of t s d"
  by (auto simp: transcript_ok_def dropped_of_def split: option.splits)

lemma summary_last:
  assumes "transcript_ok t s d"
  shows "ts_LastSequenceNo (summary_of t s n d) = dropped_of t s d + int (length (session_chunks t s d))"
    and "ts_DroppedChunks (summary_of t s n d) = dropped_of t s d"
proof -
  let ?cs = "session_chunks t s d"
  have num: "numbered (dropped_of t s d) ?cs" using assms by (simp add: transcript_ok_def)
  note bounds = bounds_last[OF num]
  have "ts_LastSequenceNo (summary_of t s n d) = dropped_of t s d + int (length ?cs)
      \<and> ts_DroppedChunks (summary_of t s n d) = dropped_of t s d"
  proof (cases "tbl_get meta_key (t, s) (sx_metas d)")
    case None
    then have d0: "dropped_of t s d = 0" by (simp add: dropped_of_def)
    show ?thesis
    proof (cases "?cs = []")
      case True
      then show ?thesis using None d0 by (simp add: summary_of_def Let_def empty_summary_def order_desc_def)
    next
      case False
      then obtain c r where desc: "order_desc tc_SequenceNo ?cs = c # r"
        by (cases "order_desc tc_SequenceNo ?cs") simp_all
      show ?thesis using None d0 desc bounds False
        by (simp add: summary_of_def Let_def empty_summary_def)
    qed
  next
    case (Some m)
    then have "tm_RetainedChunks m > 0" "?cs \<noteq> []" "dropped_of t s d = tm_DroppedChunks m"
      using assms by (simp_all add: transcript_ok_def dropped_of_def)
    then show ?thesis using Some bounds by (simp add: summary_of_def Let_def empty_summary_def)
  qed
  then show "ts_LastSequenceNo (summary_of t s n d) = dropped_of t s d + int (length ?cs)"
    and "ts_DroppedChunks (summary_of t s n d) = dropped_of t s d" by simp_all
qed

text \<open>How many chunks have content left after normalisation.\<close>

definition usable :: "TranscriptChunk list \<Rightarrow> nat" where
  "usable cs = length (filter (\<lambda>c. normalizeTranscriptChunkContent (tc_Content c) \<noteq> []) cs)"

lemma usable_simps [simp]: "usable [] = 0"
  "usable (c # cs) = (if normalizeTranscriptChunkContent (tc_Content c) = [] then usable cs else Suc (usable cs))"
  by (simp_all add: usable_def)

lemma inserted_chunks:
  assumes "insert_chunks W t s cs no at n rows = (res, rows')" and "tbl_ok tc_ChunkID rows"
  shows "\<exists>new. rows' = rows @ new \<and> list_all (in_session t s) new \<and> numbered no new
    \<and> tbl_ok tc_ChunkID rows'
    \<and> (case res of Inl e \<Rightarrow> True
       | Inr (no', at', n') \<Rightarrow> no' = no + int (length new) \<and> n' = n + length new
           \<and> length new = usable cs)"
  using assms
proof (induction W t s cs no at n rows rule: insert_chunks.induct)
  case (1 W t s no at n rows)
  then show ?case by auto
next
  case (2 W t s c cs no at n rows)
  show ?case
  proof (cases "normalizeTranscriptChunkContent (tc_Content c) = []")
    case True
    have "insert_chunks W t s cs no at n rows = (res, rows')" using 2(3) True by simp
    note rec = 2(1)[OF True this 2(4)]
    have "usable (c # cs) = usable cs" using True by simp
    then show ?thesis using rec by (simp only:)
  next
    case False
    define row where "row = chunk_row W t s (no + 1) c"
    have row: "tc_TaskID row = t" "tc_SessionID row = s" "tc_SequenceNo row = no + 1"
      by (simp_all add: row_def chunk_row_def)
    show ?thesis
    proof (cases "tbl_insert tc_ChunkID row rows")
      case None
      then show ?thesis using 2(3,4) False by (auto simp: row_def)
    next
      case (Some rows1)
      have r1: "rows1 = rows @ [row]" using Some by (auto simp: tbl_insert_def split: if_splits)
      have ok1: "tbl_ok tc_ChunkID rows1" using Some 2(4) by (rule tbl_insert_ok)
      have rest: "insert_chunks W t s cs (no + 1) (max at (tc_CreatedAt row)) (n + 1) rows1 = (res, rows')"
        using 2(3) False Some by (simp add: row_def)
      note ih = 2(2)[OF False Some[unfolded row_def] rest[unfolded row_def] ok1]
      obtain new where new: "rows' = rows1 @ new" "list_all (in_session t s) new" "numbered (no + 1) new"
        "tbl_ok tc_ChunkID rows'"
        "case res of Inl e \<Rightarrow> True
         | Inr (no', at', n') \<Rightarrow> no' = no + 1 + int (length new) \<and> n' = n + 1 + length new
           \<and> length new = usable cs"
        using ih by blast
      have "numbered no (row # new)" using numbered_append[of no "[row]" new] new(3)
        by (simp add: numbered_nth[of no "[row]"] row)
      moreover have "list_all (in_session t s) (row # new)" using new(2) row by (simp add: in_session_def)
      moreover have "rows' = rows @ (row # new)" using new(1) r1 by simp
      moreover have "usable (c # cs) = Suc (usable cs)" using False by simp
      ultimately show ?thesis using new(4,5)
        by (intro exI[of _ "row # new"]) (auto split: sum.splits)
    qed
  qed
qed

section \<open>Pruning\<close>

lemma prune_in_session:
  assumes "tbl_ok tc_ChunkID rows" and "numbered k (filter (in_session t s) rows)"
  shows "filter (in_session t s) (prune_chunks t s n rows) =
      drop (length (filter (in_session t s) rows) - n) (filter (in_session t s) rows)"
proof -
  define F where "F = filter (in_session t s) rows"
  define m where "m = length F - n"
  have desc: "order_desc tc_SequenceNo F = rev F" using numbered_newest_first assms(2) by (simp add: F_def)
  have vict: "set (map tc_ChunkID (drop n (rev F))) = tc_ChunkID ` set (take m F)"
    by (simp add: drop_rev m_def)
  have dist: "distinct (map tc_ChunkID (take m F @ drop m F))"
    using assms(1) by (simp add: F_def tbl_ok_def distinct_map_filter)
  have "filter (in_session t s) (prune_chunks t s n rows) =
      filter (\<lambda>c. tc_ChunkID c \<notin> tc_ChunkID ` set (take m F)) F"
    unfolding prune_chunks_def Let_def F_def[symmetric] desc vict filter_filter
    unfolding F_def filter_filter by (rule filter_cong) auto
  also have "\<dots> = filter (\<lambda>c. tc_ChunkID c \<notin> tc_ChunkID ` set (take m F)) (take m F @ drop m F)" by simp
  also have "\<dots> = drop m F"
  proof -
    have "filter (\<lambda>c. tc_ChunkID c \<notin> tc_ChunkID ` set (take m F)) (take m F) = []"
      by (auto simp: filter_empty_conv)
    moreover have "filter (\<lambda>c. tc_ChunkID c \<notin> tc_ChunkID ` set (take m F)) (drop m F) = drop m F"
      using dist unfolding map_append distinct_append by (auto simp: filter_id_conv)
    ultimately show ?thesis by (simp only: filter_append append_Nil)
  qed
  finally show ?thesis by (simp add: F_def m_def)
qed

lemma prune_other: "(t', s') \<noteq> (t, s) \<Longrightarrow>
  filter (in_session t' s') (prune_chunks t s n rows) = filter (in_session t' s') rows"
  unfolding prune_chunks_def Let_def filter_filter by (rule filter_cong) (auto simp: in_session_def)

lemma prune_ok: "tbl_ok tc_ChunkID rows \<Longrightarrow> tbl_ok tc_ChunkID (prune_chunks t s n rows)"
  by (simp add: prune_chunks_def Let_def tbl_ok_def distinct_map_filter)

lemma length_split: "length xs = length (filter P xs) + length (filter (\<lambda>c. \<not> P c) xs)"
  by (simp add: sum_length_filter_compl)

lemma length_prune:
  assumes "tbl_ok tc_ChunkID rows" and "numbered k (filter (in_session t s) rows)"
  shows "length rows - length (prune_chunks t s n rows) = length (filter (in_session t s) rows) - n"
proof -
  let ?K = "prune_chunks t s n rows"
  have arith: "R - K = f - n" if "R = f + x" "K = g + x" "g = f - (f - n)" for R K f g x :: nat
    using that by arith
  have eq: "filter (\<lambda>c. \<not> in_session t s c) ?K = filter (\<lambda>c. \<not> in_session t s c) rows"
    unfolding prune_chunks_def Let_def filter_filter by (rule filter_cong) auto
  have K: "length ?K = length (filter (in_session t s) ?K) + length (filter (\<lambda>c. \<not> in_session t s c) rows)"
    by (subst length_split[of ?K "in_session t s"]) (simp only: eq)
  show ?thesis
    by (rule arith[OF length_split K]) (simp only: prune_in_session[OF assms] length_drop)
qed

lemma tbl_get_replace:
  assumes "key m = j"
  shows "tbl_get key k (map (\<lambda>x. if key x = j then m else x) rows) =
    (if k = j \<and> j \<in> key ` set rows then Some m else tbl_get key k rows)"
  using assms by (induction rows) (auto simp: tbl_get_def)

lemma put_meta_get: "tbl_get meta_key k (put_meta m rows) =
  (if k = meta_key m then Some m else tbl_get meta_key k rows)"
proof (cases "tbl_insert meta_key m rows")
  case None
  then have "meta_key m \<in> meta_key ` set rows" by (simp add: tbl_insert_None_iff)
  then show ?thesis unfolding put_meta_def None option.case
    by (simp add: tbl_get_replace[OF refl])
qed (simp add: put_meta_def tbl_get_insert)

section \<open>Appending\<close>

lemma transcript_ok_cong:
  assumes "session_chunks t s d' = session_chunks t s d"
    and "tbl_get meta_key (t, s) (sx_metas d') = tbl_get meta_key (t, s) (sx_metas d)"
  shows "transcript_ok t s d' = transcript_ok t s d"
  unfolding transcript_ok_def dropped_of_def assms by (rule refl)

lemma in_session_other: "list_all (in_session t s) xs \<Longrightarrow> (t', s') \<noteq> (t, s) \<Longrightarrow> filter (in_session t' s') xs = []"
  by (auto simp: filter_empty_conv list_all_iff in_session_def)

lemma in_session_all: "list_all (in_session t s) xs \<Longrightarrow> filter (in_session t s) xs = xs"
  by (simp add: filter_id_conv list_all_iff)

text \<open>An append, by its outcome: the chunks it leaves in the session, and the other sessions.\<close>

lemma append_outcome:
  assumes ok: "shell_ok d" and run: "shell_AppendTranscript W t s0 cs n d = (res, d')"
  defines "s \<equiv> TrimSpace s0" and "k \<equiv> nat (retention_limit n)"
  shows "shell_ok d' \<and> (\<forall>t' s'. (t', s') \<noteq> (t, s) \<longrightarrow> session_chunks t' s' d' = session_chunks t' s' d)
    \<and> (case res of Inl e \<Rightarrow> True
       | Inr y \<Rightarrow> if usable cs = 0 then d' = d
          else length (session_chunks t s d') = min k (length (session_chunks t s d) + usable cs)
            \<and> dropped_of t s d' + int (length (session_chunks t s d'))
              = dropped_of t s d + int (length (session_chunks t s d)) + int (usable cs))"
proof (cases "session_ids t s = None \<and> cs \<noteq> []")
  case False
  then show ?thesis using ok run by (auto simp: shell_AppendTranscript_def Let_def s_def split: option.splits)
next
  case True
  define y where "y = summary_of t s (retention_limit n) d"
  let ?old = "session_chunks t s d"
  have tok: "transcript_ok t s d" using ok by (simp add: shell_ok_def)
  have num: "numbered (dropped_of t s d) ?old" using tok by (simp add: transcript_ok_def)
  have last: "ts_LastSequenceNo y = dropped_of t s d + int (length ?old)"
    and drp: "ts_DroppedChunks y = dropped_of t s d"
    using summary_last[OF tok] by (simp_all add: y_def)
  obtain r rows where ins: "insert_chunks W t s cs (ts_LastSequenceNo y) (ts_LastChunkAt y) 0 (sx_chunks d) = (r, rows)"
    by (metis prod.exhaust)
  have tbl: "tbl_ok tc_ChunkID (sx_chunks d)" using ok by (simp add: shell_ok_def)
  obtain new where new: "rows = sx_chunks d @ new" "list_all (in_session t s) new"
    "numbered (ts_LastSequenceNo y) new" "tbl_ok tc_ChunkID rows"
    "case r of Inl e \<Rightarrow> True | Inr (no', at', n') \<Rightarrow>
       no' = ts_LastSequenceNo y + int (length new) \<and> n' = 0 + length new \<and> length new = usable cs"
    using inserted_chunks[OF ins tbl] by auto
  have mine: "filter (in_session t s) rows = ?old @ new"
    using new by (simp add: session_chunks_def in_session_all)
  have others: "filter (in_session t' s') rows = session_chunks t' s' d" if "(t', s') \<noteq> (t, s)" for t' s'
    using new(1) in_session_other[OF new(2) that] by (simp add: session_chunks_def)
  have num': "numbered (dropped_of t s d) (filter (in_session t s) rows)"
    unfolding mine numbered_append using num new(3) last by simp
  have grown: "shell_ok (d\<lparr>sx_chunks := rows\<rparr>)"
    unfolding shell_ok_def
  proof (intro conjI allI)
    fix t' s'
    show "transcript_ok t' s' (d\<lparr>sx_chunks := rows\<rparr>)"
    proof (cases "(t', s') = (t, s)")
      case True
      then show ?thesis using num' tok
        by (auto simp: transcript_ok_def dropped_of_def session_chunks_def mine[unfolded session_chunks_def]
            split: option.splits)
    next
      case False
      then show ?thesis using others[OF False] ok
        by (subst transcript_ok_cong[of t' s' _ d]) (simp_all add: shell_ok_def session_chunks_def)
    qed
  qed (use new(4) in simp)
  define kept where "kept = prune_chunks t s k rows"
  define drp' where "drp' = ts_DroppedChunks y + int (length rows - length kept)"
  have unf: "shell_AppendTranscript W t s0 cs n d = (case r of
      Inl e \<Rightarrow> (Inl e, d\<lparr>sx_chunks := rows\<rparr>)
    | Inr (no, at, m) \<Rightarrow> if m = 0 then (Inr y, d\<lparr>sx_chunks := rows\<rparr>)
        else let d' = d\<lparr>sx_chunks := kept, sx_metas := put_meta \<lparr>tm_TaskID = t, tm_SessionID = s,
              tm_RetainedChunks = int (length (filter (in_session t s) kept)), tm_DroppedChunks = drp',
              tm_LastSequenceNo = no, tm_LastChunkAt = at\<rparr> (sx_metas d)\<rparr>
          in (Inr ((summary_of t s (retention_limit n) d')\<lparr>ts_DroppedChunks := drp'\<rparr>), d'))"
    unfolding shell_AppendTranscript_def Let_def s_def[symmetric] y_def[symmetric] k_def[symmetric] ins
      kept_def drp'_def using True by (simp only: option.case if_False prod.case)
  show ?thesis
  proof (cases r)
    case (Inl e)
    then have "res = Inl e" "d' = d\<lparr>sx_chunks := rows\<rparr>" using run unf by simp_all
    then show ?thesis using grown others by (simp add: session_chunks_def)
  next
    case (Inr v)
    then obtain no at m where r: "r = Inr (no, at, m)" by (cases v) auto
    then have m: "m = length new" "length new = usable cs" using new(5) by simp_all
    show ?thesis
    proof (cases "m = 0")
      case True
      then have "new = []" "usable cs = 0" using m by simp_all
      then have "d' = d" using run unf r True new(1) by simp
      then show ?thesis using \<open>usable cs = 0\<close> ok by (simp split: sum.splits)
    next
      case False
      define M where "M = \<lparr>tm_TaskID = t, tm_SessionID = s,
        tm_RetainedChunks = int (length (filter (in_session t s) kept)), tm_DroppedChunks = drp',
        tm_LastSequenceNo = no, tm_LastChunkAt = at\<rparr>"
      have d': "d' = d\<lparr>sx_chunks := kept, sx_metas := put_meta M (sx_metas d)\<rparr>"
        and res: "\<exists>z. res = Inr z"
        using run unf r False by (auto simp: M_def Let_def)
      have key: "meta_key M = (t, s)" by (simp add: M_def meta_key_def)
      have len: "length (filter (in_session t s) rows) = length ?old + usable cs" using m mine by simp
      have kept: "session_chunks t s d' = drop (length ?old + usable cs - k) (?old @ new)"
        using prune_in_session[OF new(4) num', of k] len mine by (simp add: d' session_chunks_def kept_def)
      have cut: "drp' = dropped_of t s d + int (length ?old + usable cs - k)"
        unfolding drp'_def kept_def drp length_prune[OF new(4) num'] len by simp
      have drp0: "0 \<le> drp'" using dropped_nonneg[OF tok] by (simp add: cut)
      have d_drop: "dropped_of t s d' = drp'" 
        by (simp add: dropped_of_def d' put_meta_get key) (simp add: M_def)
      have k0: "0 < k" by (simp add: k_def retention_limit_def DefaultTranscriptRetentionChunks_def)
      have size: "length (session_chunks t s d') = min k (length ?old + usable cs)"
        unfolding kept using m by auto
      have "0 < usable cs" using False m by simp
      then have pos: "0 < length (session_chunks t s d')" unfolding size using k0 by simp
      have num2: "numbered drp' (session_chunks t s d')"
        unfolding kept cut by (rule numbered_drop[OF num'[unfolded mine]]) (use m in simp)
      have mine2: "transcript_ok t s d'"
        unfolding transcript_ok_def d_drop using num2 pos drp0
        by (simp add: d' put_meta_get key) (simp add: M_def session_chunks_def d')
      have other2: "session_chunks t' s' d' = session_chunks t' s' d"
        "transcript_ok t' s' d'" if "(t', s') \<noteq> (t, s)" for t' s'
      proof -
        show same: "session_chunks t' s' d' = session_chunks t' s' d"
          using others[OF that] by (simp add: session_chunks_def d' kept_def prune_other[OF that])
        have "tbl_get meta_key (t', s') (sx_metas d') = tbl_get meta_key (t', s') (sx_metas d)"
          using put_meta_get[of "(t', s')" M] key that by (simp add: d' del: prod.inject)
        then show "transcript_ok t' s' d'"
          using transcript_ok_cong[OF same] ok by (simp add: shell_ok_def)
      qed
      have "tbl_ok tc_ChunkID (sx_chunks d')" by (simp add: d' kept_def prune_ok[OF new(4)])
      then have "shell_ok d'" using mine2 other2(2) unfolding shell_ok_def by (metis prod.inject)
      moreover have "dropped_of t s d' + int (length (session_chunks t s d'))
          = dropped_of t s d + int (length ?old) + int (usable cs)"
        unfolding d_drop size cut using k0 by simp
      ultimately show ?thesis using size other2(1) res \<open>0 < usable cs\<close> by auto
    qed
  qed
qed

section \<open>Sequences of appends\<close>

type_synonym append_call = "Wall \<times> TaskID \<times> string \<times> TranscriptChunk list \<times> int"

definition appended :: "append_call list \<Rightarrow> ShellDb" where
  "appended calls = foldl (\<lambda>d (W, t, s, cs, n). snd (shell_AppendTranscript W t s cs n d)) empty_shell calls"

lemma empty_shell_ok: "shell_ok empty_shell"
  by (simp add: shell_ok_def empty_shell_def tbl_ok_def transcript_ok_def session_chunks_def tbl_get_def)

lemma appended_ok: "shell_ok (appended calls)"
proof -
  have "shell_ok (foldl (\<lambda>d (W, t, s, cs, n). snd (shell_AppendTranscript W t s cs n d)) d calls)"
    if "shell_ok d" for d
    using that
  proof (induction calls arbitrary: d)
    case (Cons c calls)
    obtain W t s cs n where c: "c = (W, t, s, cs, n)" by (metis prod.exhaust)
    have "shell_ok (snd (shell_AppendTranscript W t s cs n d))"
      using append_outcome[OF Cons.prems, of W t s cs n] by (metis prod.collapse)
    then show ?case using Cons.IH c by simp
  qed simp
  then show ?thesis using empty_shell_ok by (simp add: appended_def)
qed

text \<open>
  C26. (invariant) After any sequence of appends, also of ones that failed half-way, the chunks a
  session retains are numbered without a gap, and the first number follows the count of the
  chunks that were dropped.
\<close>
theorem retained_numbers_contiguous:
  "map tc_SequenceNo (session_chunks t s (appended calls)) =
     map (\<lambda>i. dropped_of t s (appended calls) + 1 + int i) [0..<length (session_chunks t s (appended calls))]"
  using appended_ok[of calls] by (simp add: shell_ok_def transcript_ok_def numbered_def)


lemma page_of_numbered:
  assumes "numbered k cs"
  shows "rev (take n (order_desc tc_SequenceNo (filter P cs))) = drop (length (filter P cs) - n) (filter P cs)"
proof -
  have "sorted_wrt (<) (map tc_SequenceNo (filter P cs))"
    using numbered_sorted[OF assms] unfolding sorted_wrt_map by (rule sorted_wrt_filter)
  then show ?thesis by (simp add: order_desc_def sort_key_rev take_rev)
qed

text \<open>
  (functional) A page of a transcript, without a source filter, is the newest chunks below
  the given number, oldest first and at most the limit (40 by default) of them, and it reports
  more pages exactly when an older chunk was left out.
\<close>
theorem page_is_newest_below:
  "(case shell_ListTranscriptPage t s before limit (TranscriptSourceOther []) (appended calls) of
      Inl e \<Rightarrow> t = [] \<or> TrimSpace s = []
    | Inr (page, further) \<Rightarrow>
        let older = filter (\<lambda>c. before \<le> 0 \<or> tc_SequenceNo c < before)
              (session_chunks t (TrimSpace s) (appended calls));
            n = (if limit \<le> 0 then 40 else nat limit) in
        map tc_SequenceNo page = map tc_SequenceNo (drop (length older - n) older)
        \<and> (further \<longleftrightarrow> n < length older))"
proof -
  let ?cs = "session_chunks t (TrimSpace s) (appended calls)"
  have num: "numbered (dropped_of t (TrimSpace s) (appended calls)) ?cs"
    using appended_ok[of calls] by (simp add: shell_ok_def transcript_ok_def)
  have len: "length (order_desc tc_SequenceNo xs) = length xs" for xs
    by (simp add: order_desc_def)
  have blank: "normalizeTranscriptSourceFilter (TranscriptSourceOther []) = Inr None" by code_simp
  show ?thesis
    unfolding shell_ListTranscriptPage_def blank
    by (auto simp: Let_def session_ids_def rev_map page_of_numbered[OF num, symmetric] len take_map
        drop_map min_def comp_def split: option.splits)
qed

end
