(* ===== verification/Receipts.thy ===== *)
theory Receipts
  imports Transcripts
begin

text \<open>
  The audit records of continuity (internal/domain/transition, operatorstep, incidenttriage):
  a receipt of every branch transition, of every executed operator step, of every triage of a
  transition and of every follow-up on a triage. Their state names are open strings in the
  source and are kept as text. \<open>ReviewAwareness\<close> groups the review fields that the transition,
  triage and follow-up receipts repeat.
\<close>

section \<open>Transitions\<close>

datatype TransitionKind =
    KindHandoffLaunch
  | KindHandoffResolution
  | TransitionKindOther string

primrec TransitionKind_str :: "TransitionKind \<Rightarrow> string" where
  "TransitionKind_str KindHandoffLaunch = ''HANDOFF_LAUNCH''"
| "TransitionKind_str KindHandoffResolution = ''HANDOFF_RESOLUTION''"
| "TransitionKind_str (TransitionKindOther s) = s"

datatype ReviewPosture =
    ReviewPostureNone
  | ReviewPostureNoRetainedEvidence
  | ReviewPostureRetainedEvidenceUnreviewed
  | ReviewPostureGlobalReviewCurrent
  | ReviewPostureGlobalReviewStale
  | ReviewPostureSourceScopedReviewCurrent
  | ReviewPostureSourceScopedReviewStale

primrec ReviewPosture_str :: "ReviewPosture \<Rightarrow> string" where
  "ReviewPosture_str ReviewPostureNone = ''NONE''"
| "ReviewPosture_str ReviewPostureNoRetainedEvidence = ''NO_RETAINED_EVIDENCE''"
| "ReviewPosture_str ReviewPostureRetainedEvidenceUnreviewed = ''RETAINED_EVIDENCE_UNREVIEWED''"
| "ReviewPosture_str ReviewPostureGlobalReviewCurrent = ''GLOBAL_REVIEW_CURRENT''"
| "ReviewPosture_str ReviewPostureGlobalReviewStale = ''GLOBAL_REVIEW_STALE''"
| "ReviewPosture_str ReviewPostureSourceScopedReviewCurrent = ''SOURCE_SCOPED_REVIEW_CURRENT''"
| "ReviewPosture_str ReviewPostureSourceScopedReviewStale = ''SOURCE_SCOPED_REVIEW_STALE''"

record ReviewAwareness =
  aw_ReviewGapPresent :: bool
  aw_ReviewPosture :: ReviewPosture
  aw_ReviewState :: string
  aw_ReviewScope :: TranscriptSource
  aw_ReviewedUpToSequence :: int
  aw_OldestUnreviewedSequence :: int
  aw_NewestRetainedSequence :: int
  aw_UnreviewedRetainedCount :: int
  aw_LatestReviewID :: EventID
  aw_LatestReviewAckID :: EventID
  aw_AcknowledgmentPresent :: bool
  aw_AcknowledgmentClass :: GapAckClass

text \<open>The summary shown to callers is the receipt without its version.\<close>

record ContinuityTransitionReceiptSummary =
  tr_ReceiptID :: EventID
  tr_TaskID :: TaskID
  tr_ShellSessionID :: string
  tr_TransitionKind :: TransitionKind
  tr_TransitionHandle :: string
  tr_TriggerAction :: string
  tr_TriggerSource :: string
  tr_HandoffID :: string
  tr_LaunchAttemptID :: string
  tr_LaunchID :: string
  tr_ResolutionID :: string
  tr_BranchClassBefore :: string
  tr_BranchRefBefore :: string
  tr_BranchClassAfter :: string
  tr_BranchRefAfter :: string
  tr_HandoffContinuityBefore :: string
  tr_HandoffContinuityAfter :: string
  tr_LaunchControlBefore :: string
  tr_LaunchControlAfter :: string
  tr_Review :: ReviewAwareness
  tr_Summary :: string
  tr_CreatedAt :: go_time

record TransitionReceipt = ContinuityTransitionReceiptSummary +
  tr_Version :: int

definition continuityTransitionReceiptSummary ::
  "TransitionReceipt \<Rightarrow> ContinuityTransitionReceiptSummary" where
  "continuityTransitionReceiptSummary r = ContinuityTransitionReceiptSummary.truncate r"

section \<open>Operator steps\<close>

datatype StepResultClass =
    ResultSucceeded
  | ResultRejected
  | ResultFailed
  | ResultNoopReused

primrec StepResultClass_str :: "StepResultClass \<Rightarrow> string" where
  "StepResultClass_str ResultSucceeded = ''SUCCEEDED''"
| "StepResultClass_str ResultRejected = ''REJECTED''"
| "StepResultClass_str ResultFailed = ''FAILED''"
| "StepResultClass_str ResultNoopReused = ''NOOP_REUSED''"

record OperatorStepReceipt =
  or_Version :: int
  or_ReceiptID :: string
  or_TaskID :: TaskID
  or_ActionHandle :: string
  or_ExecutionDomain :: string
  or_CommandSurfaceKind :: string
  or_ExecutionAttempted :: bool
  or_ResultClass :: StepResultClass
  or_Summary :: string
  or_Reason :: string
  or_RunID :: RunID
  or_CheckpointID :: CheckpointID
  or_BriefID :: BriefID
  or_HandoffID :: string
  or_LaunchAttemptID :: string
  or_LaunchID :: string
  or_ReviewGapState :: string
  or_ReviewGapSessionID :: string
  or_ReviewGapClass :: string
  or_ReviewGapPresent :: bool
  or_ReviewGapReviewedUpTo :: int
  or_ReviewGapOldestUnreviewed :: int
  or_ReviewGapNewestRetained :: int
  or_ReviewGapUnreviewedRetainedCount :: int
  or_ReviewGapAcknowledged :: bool
  or_ReviewGapAcknowledgmentID :: EventID
  or_ReviewGapAcknowledgmentClass :: string
  or_TransitionReceiptID :: EventID
  or_TransitionKind :: string
  or_CreatedAt :: go_time
  or_CompletedAt :: "go_time option"

section \<open>Triage and follow-up\<close>

datatype AnchorMode =
    AnchorModeLatestTransition
  | AnchorModeTransitionID
  | AnchorModeOther string

primrec AnchorMode_str :: "AnchorMode \<Rightarrow> string" where
  "AnchorMode_str AnchorModeLatestTransition = ''LATEST_TRANSITION''"
| "AnchorMode_str AnchorModeTransitionID = ''TRANSITION_RECEIPT_ID''"
| "AnchorMode_str (AnchorModeOther s) = s"

datatype TriagePosture =
    PostureTriaged
  | PostureNeedsFollowUp
  | PostureDeferred
  | PostureOther string

primrec TriagePosture_str :: "TriagePosture \<Rightarrow> string" where
  "TriagePosture_str PostureTriaged = ''TRIAGED''"
| "TriagePosture_str PostureNeedsFollowUp = ''NEEDS_FOLLOW_UP''"
| "TriagePosture_str PostureDeferred = ''DEFERRED''"
| "TriagePosture_str (PostureOther s) = s"

datatype FollowUpPosture =
    FollowUpPostureNone
  | FollowUpPostureAdvisory
  | FollowUpPostureDeferred
  | FollowUpPostureOther string

primrec FollowUpPosture_str :: "FollowUpPosture \<Rightarrow> string" where
  "FollowUpPosture_str FollowUpPostureNone = ''NONE''"
| "FollowUpPosture_str FollowUpPostureAdvisory = ''ADVISORY_OPEN''"
| "FollowUpPosture_str FollowUpPostureDeferred = ''DEFERRED_OPEN''"
| "FollowUpPosture_str (FollowUpPostureOther s) = s"

record IncidentRisk =
  ir_ReviewGapPresent :: bool
  ir_AcknowledgmentPresent :: bool
  ir_StaleOrUnreviewedReviewPosture :: bool
  ir_SourceScopedReviewPosture :: bool
  ir_IntoClaudeOwnershipTransition :: bool
  ir_BackToLocalOwnershipTransition :: bool
  ir_UnresolvedContinuityAmbiguity :: bool
  ir_NearbyFailedOrInterruptedRuns :: int
  ir_NearbyRecoveryActions :: int
  ir_RecentFailureOrRecoveryActivity :: bool
  ir_OperationallyNotable :: bool
  ir_Summary :: string

record ContinuityIncidentTriageReceiptSummary =
  tg_ReceiptID :: EventID
  tg_TaskID :: TaskID
  tg_AnchorMode :: AnchorMode
  tg_AnchorTransitionReceiptID :: EventID
  tg_AnchorTransitionKind :: TransitionKind
  tg_AnchorHandoffID :: string
  tg_AnchorShellSessionID :: string
  tg_Posture :: TriagePosture
  tg_FollowUpPosture :: FollowUpPosture
  tg_Summary :: string
  tg_Review :: ReviewAwareness
  tg_Risk :: IncidentRisk
  tg_CreatedAt :: go_time

record TriageReceipt = ContinuityIncidentTriageReceiptSummary +
  tg_Version :: int

datatype FollowUpActionKind =
    FollowUpActionRecordedPending
  | FollowUpActionProgressed
  | FollowUpActionClosed
  | FollowUpActionReopened
  | FollowUpActionOther string

primrec FollowUpActionKind_str :: "FollowUpActionKind \<Rightarrow> string" where
  "FollowUpActionKind_str FollowUpActionRecordedPending = ''RECORDED_PENDING''"
| "FollowUpActionKind_str FollowUpActionProgressed = ''PROGRESSED''"
| "FollowUpActionKind_str FollowUpActionClosed = ''CLOSED''"
| "FollowUpActionKind_str FollowUpActionReopened = ''REOPENED''"
| "FollowUpActionKind_str (FollowUpActionOther s) = s"

record ContinuityIncidentFollowUpReceiptSummary =
  fu_ReceiptID :: EventID
  fu_TaskID :: TaskID
  fu_AnchorMode :: AnchorMode
  fu_AnchorTransitionReceiptID :: EventID
  fu_AnchorTransitionKind :: TransitionKind
  fu_AnchorHandoffID :: string
  fu_AnchorShellSessionID :: string
  fu_TriageReceiptID :: EventID
  fu_TriagePosture :: TriagePosture
  fu_TriageFollowUpState :: FollowUpPosture
  fu_ActionKind :: FollowUpActionKind
  fu_Summary :: string
  fu_Review :: ReviewAwareness
  fu_TriagedUnderReviewRisk :: bool
  fu_CreatedAt :: go_time

record FollowUpReceipt = ContinuityIncidentFollowUpReceiptSummary +
  fu_Version :: int

end
