(* ===== verification/Store.thy ===== *)
theory Store
  imports Receipts
begin

text \<open>
  internal/storage/sqlite: the database as a record of tables, the repositories' methods on
  it, and transactions. JSON and SQL column encodings are not modelled (a row is the struct
  it was written from), nor are schema migrations and I/O errors; the primary keys, the row
  filters, the ORDER BY clauses, the limits and the columns an UPDATE leaves alone are.
  Every method is a function of the database; \<open>db_now\<close> is the wall clock \<open>time.Now()\<close> read by
  the repositories themselves.
\<close>

section \<open>Proof events\<close>

text \<open>Payloads are the field/value maps handed to \<open>json.Marshal\<close>.\<close>

datatype pval = PStr string | PInt int | PBool bool | PStrs "string list" | PTime go_time | PNull

record Event =
  e_EventID :: EventID
  e_TaskID :: TaskID
  e_RunID :: "RunID option"
  e_CheckpointID :: "CheckpointID option"
  e_SequenceNo :: int
  e_Timestamp :: go_time
  e_Type :: EventType
  e_ActorType :: ActorType
  e_ActorID :: string
  e_Payload :: "(string \<times> pval) list"
  e_CausalParentEventID :: "EventID option"
  e_CapsuleVersion :: CapsuleVersion

text \<open>A row of handoff_packets: the created_at column and the packet it stores.\<close>

record PacketRow =
  pr_created :: go_time
  pr_packet :: Packet

record Db =
  db_capsules :: "WorkCapsule list"
  db_messages :: "Message list"
  db_intents :: "IntentState list"
  db_briefs :: "ExecutionBrief list"
  db_proofs :: "Event list"
  db_runs :: "ExecutionRun list"
  db_checkpoints :: "Checkpoint list"
  db_packets :: "PacketRow list"
  db_launches :: "Launch list"
  db_acks :: "Acknowledgment list"
  db_follow :: "FollowThrough list"
  db_resolutions :: "Resolution list"
  db_actions :: "RecoveryRecord list"
  db_transitions :: "TransitionReceipt list"
  db_opsteps :: "OperatorStepReceipt list"
  db_triages :: "TriageReceipt list"
  db_followups :: "FollowUpReceipt list"
  db_now :: go_time

definition empty_db :: "go_time \<Rightarrow> Db" where
  "empty_db now = \<lparr>db_capsules = [], db_messages = [], db_intents = [], db_briefs = [],
     db_proofs = [], db_runs = [], db_checkpoints = [], db_packets = [], db_launches = [],
     db_acks = [], db_follow = [], db_resolutions = [], db_actions = [], db_transitions = [],
     db_opsteps = [], db_triages = [], db_followups = [], db_now = now\<rparr>"

text \<open>Results of a read (\<open>sql.ErrNoRows\<close> when there is none) and of an insert.\<close>

definition found :: "'r option \<Rightarrow> go_error + 'r" where
  "found r = (case r of None \<Rightarrow> Inl ErrNoRows | Some x \<Rightarrow> Inr x)"

definition inserted :: "string \<Rightarrow> string \<Rightarrow> ('t \<Rightarrow> Db) \<Rightarrow> 't option \<Rightarrow> go_error + Db" where
  "inserted what table upd rows =
     (case rows of None \<Rightarrow> Inl (ErrWrap what (ErrUnique table)) | Some t \<Rightarrow> Inr (upd t))"

definition updated :: "('t \<Rightarrow> Db) \<Rightarrow> 't option \<Rightarrow> go_error + Db" where
  "updated upd rows = (case rows of None \<Rightarrow> Inl ErrNoRows | Some t \<Rightarrow> Inr (upd t))"

lemma found_simps [simp]: "found None = Inl ErrNoRows" "found (Some x) = Inr x"
  by (simp_all add: found_def)

lemma found_Inr_iff [simp]: "found r = Inr x \<longleftrightarrow> r = Some x"
  by (simp add: found_def split: option.splits)

lemma found_Inl_iff [simp]: "found r = Inl e \<longleftrightarrow> r = None \<and> e = ErrNoRows"
  by (auto simp: found_def split: option.splits)

lemma opt_rows_found [simp]: "opt_rows (found r) = Inr r"
  by (simp add: opt_rows_def found_def split: option.split)

lemma inserted_Inr_iff:
  "inserted what table upd rows = Inr d \<longleftrightarrow> (\<exists>t. rows = Some t \<and> d = upd t)"
  by (auto simp: inserted_def split: option.splits)

lemma updated_Inr_iff: "updated upd rows = Inr d \<longleftrightarrow> (\<exists>t. rows = Some t \<and> d = upd t)"
  by (auto simp: updated_def split: option.splits)

section \<open>Capsules\<close>

definition capsules_Create :: "WorkCapsule \<Rightarrow> Db \<Rightarrow> go_error + Db" where
  "capsules_Create c d = inserted ''insert capsule: '' ''capsules.task_id''
     (\<lambda>t. d\<lparr>db_capsules := t\<rparr>) (tbl_insert c_TaskID c (db_capsules d))"

definition capsules_Get :: "TaskID \<Rightarrow> Db \<Rightarrow> go_error + WorkCapsule" where
  "capsules_Get k d = found (tbl_get c_TaskID k (db_capsules d))"

definition capsules_Update :: "WorkCapsule \<Rightarrow> Db \<Rightarrow> go_error + Db" where
  "capsules_Update c d = updated (\<lambda>t. d\<lparr>db_capsules := t\<rparr>)
     (tbl_update c_TaskID (c_TaskID c) (\<lambda>_. c) (db_capsules d))"

text \<open>ORDER BY CASE WHEN status = 'ACTIVE' THEN 0 ELSE 1 END, updated_at DESC, task_id DESC\<close>

definition capsules_LatestByRepoRoot :: "string \<Rightarrow> Db \<Rightarrow> go_error + WorkCapsule" where
  "capsules_LatestByRepoRoot repoRoot d =
     (let root = filepath_Clean (TrimSpace repoRoot) in
      found (tbl_latest (\<lambda>c. (c_Status c = ''ACTIVE'', stamp_key (c_UpdatedAt c), c_TaskID c))
        (\<lambda>c. c_RepoRoot c = root) (db_capsules d)))"

section \<open>Conversation messages\<close>

definition messages_Append :: "Message \<Rightarrow> Db \<Rightarrow> go_error + Db" where
  "messages_Append m d = inserted ''insert conversation message: '' ''conversation_messages.message_id''
     (\<lambda>t. d\<lparr>db_messages := t\<rparr>) (tbl_insert m_MessageID m (db_messages d))"

definition list_limit :: "int \<Rightarrow> int \<Rightarrow> nat" where
  "list_limit dflt limit = nat (if limit \<le> 0 then dflt else limit)"

definition messages_ListRecent :: "ConversationID \<Rightarrow> int \<Rightarrow> Db \<Rightarrow> Message list" where
  "messages_ListRecent k limit d =
     rev (tbl_list (\<lambda>m. stamp_key (m_CreatedAt m)) (\<lambda>m. m_ConversationID m = k)
       (list_limit 20 limit) (db_messages d))"

section \<open>Intents and briefs\<close>

definition intents_Save :: "IntentState \<Rightarrow> Db \<Rightarrow> go_error + Db" where
  "intents_Save i d = inserted ''insert intent state: '' ''intent_states.intent_id''
     (\<lambda>t. d\<lparr>db_intents := t\<rparr>) (tbl_insert i_IntentID i (db_intents d))"

definition intents_LatestByTask :: "TaskID \<Rightarrow> Db \<Rightarrow> go_error + IntentState" where
  "intents_LatestByTask k d =
     found (tbl_latest (\<lambda>i. stamp_key (i_CreatedAt i)) (\<lambda>i. i_TaskID i = k) (db_intents d))"

definition briefs_Save :: "ExecutionBrief \<Rightarrow> Db \<Rightarrow> go_error + Db" where
  "briefs_Save b d = inserted ''insert execution brief: '' ''execution_briefs.brief_id''
     (\<lambda>t. d\<lparr>db_briefs := t\<rparr>) (tbl_insert b_BriefID b (db_briefs d))"

definition briefs_Get :: "BriefID \<Rightarrow> Db \<Rightarrow> go_error + ExecutionBrief" where
  "briefs_Get k d = found (tbl_get b_BriefID k (db_briefs d))"

definition briefs_LatestByTask :: "TaskID \<Rightarrow> Db \<Rightarrow> go_error + ExecutionBrief" where
  "briefs_LatestByTask k d =
     found (tbl_latest (\<lambda>b. stamp_key (b_CreatedAt b)) (\<lambda>b. b_TaskID b = k) (db_briefs d))"

section \<open>Execution runs\<close>

definition run_order :: "ExecutionRun \<Rightarrow> (int \<times> string) \<times> string" where
  "run_order r = (stamp_key (r_CreatedAt r), r_RunID r)"

definition runs_Create :: "ExecutionRun \<Rightarrow> Db \<Rightarrow> go_error + Db" where
  "runs_Create r d = inserted ''insert execution run: '' ''execution_runs.run_id''
     (\<lambda>t. d\<lparr>db_runs := t\<rparr>) (tbl_insert r_RunID r (db_runs d))"

definition runs_Get :: "RunID \<Rightarrow> Db \<Rightarrow> go_error + ExecutionRun" where
  "runs_Get k d = found (tbl_get r_RunID k (db_runs d))"

definition runs_LatestByTask :: "TaskID \<Rightarrow> Db \<Rightarrow> go_error + ExecutionRun" where
  "runs_LatestByTask k d = found (tbl_latest run_order (\<lambda>r. r_TaskID r = k) (db_runs d))"

definition runs_ListByTask :: "TaskID \<Rightarrow> int \<Rightarrow> Db \<Rightarrow> ExecutionRun list" where
  "runs_ListByTask k limit d =
     tbl_list run_order (\<lambda>r. r_TaskID r = k) (list_limit 20 limit) (db_runs d)"

definition runs_LatestRunningByTask :: "TaskID \<Rightarrow> Db \<Rightarrow> go_error + ExecutionRun" where
  "runs_LatestRunningByTask k d =
     found (tbl_latest (\<lambda>r. stamp_key (r_UpdatedAt r))
       (\<lambda>r. r_TaskID r = k \<and> r_Status r = RunStatusRunning) (db_runs d))"

definition runs_Update :: "ExecutionRun \<Rightarrow> Db \<Rightarrow> go_error + Db" where
  "runs_Update r d = updated (\<lambda>t. d\<lparr>db_runs := t\<rparr>)
     (tbl_update r_RunID (r_RunID r) (\<lambda>_. r) (db_runs d))"

section \<open>Checkpoints\<close>

definition checkpoints_Create :: "Checkpoint \<Rightarrow> Db \<Rightarrow> go_error + Db" where
  "checkpoints_Create k d = inserted ''insert checkpoint: '' ''checkpoints.checkpoint_id''
     (\<lambda>t. d\<lparr>db_checkpoints := t\<rparr>) (tbl_insert k_CheckpointID k (db_checkpoints d))"

definition checkpoints_Get :: "CheckpointID \<Rightarrow> Db \<Rightarrow> go_error + Checkpoint" where
  "checkpoints_Get k d = found (tbl_get k_CheckpointID k (db_checkpoints d))"

definition checkpoint_order :: "Checkpoint \<Rightarrow> (int \<times> string) \<times> string" where
  "checkpoint_order c = (stamp_key (k_CreatedAt c), k_CheckpointID c)"

definition checkpoints_LatestByTask :: "TaskID \<Rightarrow> Db \<Rightarrow> go_error + Checkpoint" where
  "checkpoints_LatestByTask k d =
     found (tbl_latest checkpoint_order (\<lambda>c. k_TaskID c = k) (db_checkpoints d))"

section \<open>The proof ledger\<close>

text \<open>\<open>SELECT COALESCE(MAX(sequence_no), 0) + 1 FROM proof_events WHERE task_id = ?\<close>\<close>

fun next_sequence :: "TaskID \<Rightarrow> Event list \<Rightarrow> int" where
  "next_sequence k es =
     (case map e_SequenceNo (filter (\<lambda>e. e_TaskID e = k) es) of
        [] \<Rightarrow> 1
      | n # ns \<Rightarrow> foldl max n ns + 1)"

declare next_sequence.simps [simp del]

definition proofs_Append :: "Event \<Rightarrow> Db \<Rightarrow> go_error + Db" where
  "proofs_Append e d =
     (let e' = (if e_SequenceNo e = 0
                then e\<lparr>e_SequenceNo := next_sequence (e_TaskID e) (db_proofs d)\<rparr> else e) in
      inserted ''insert proof event: '' ''proof_events.event_id''
        (\<lambda>t. d\<lparr>db_proofs := t\<rparr>) (tbl_insert e_EventID e' (db_proofs d)))"

definition proofs_ListByTask :: "TaskID \<Rightarrow> int \<Rightarrow> Db \<Rightarrow> Event list" where
  "proofs_ListByTask k limit d =
     rev (tbl_list e_SequenceNo (\<lambda>e. e_TaskID e = k) (list_limit 20 limit) (db_proofs d))"

section \<open>Handoffs\<close>

definition pr_key :: "PacketRow \<Rightarrow> string" where
  "pr_key r = h_HandoffID (pr_packet r)"

definition pr_order :: "PacketRow \<Rightarrow> (int \<times> string) \<times> string" where
  "pr_order r = (stamp_key (pr_created r), pr_key r)"

definition handoffs_Create :: "Packet \<Rightarrow> Db \<Rightarrow> go_error + Db" where
  "handoffs_Create p d =
     (let now = (if is_zero_time (h_CreatedAt p) then db_now d else h_CreatedAt p) in
      inserted ''insert handoff packet: '' ''handoff_packets.handoff_id''
        (\<lambda>t. d\<lparr>db_packets := t\<rparr>)
        (tbl_insert pr_key \<lparr>pr_created = now, pr_packet = p\<rparr> (db_packets d)))"

definition handoffs_Get :: "string \<Rightarrow> Db \<Rightarrow> go_error + Packet" where
  "handoffs_Get k d = found (map_option pr_packet (tbl_get pr_key k (db_packets d)))"

definition handoffs_LatestByTask :: "TaskID \<Rightarrow> Db \<Rightarrow> go_error + Packet" where
  "handoffs_LatestByTask k d =
     found (map_option pr_packet
       (tbl_latest pr_order (\<lambda>r. h_TaskID (pr_packet r) = k) (db_packets d)))"

definition handoffs_ListByTask :: "TaskID \<Rightarrow> int \<Rightarrow> Db \<Rightarrow> Packet list" where
  "handoffs_ListByTask k limit d =
     map pr_packet (tbl_list pr_order (\<lambda>r. h_TaskID (pr_packet r) = k)
       (list_limit 10 limit) (db_packets d))"

definition packet_with_status ::
  "HandoffStatus \<Rightarrow> WorkerKind \<Rightarrow> string list \<Rightarrow> go_time \<Rightarrow> Packet \<Rightarrow> Packet" where
  "packet_with_status status acceptedBy notes at p =
     (let p1 = p\<lparr>h_Status := status\<rparr>;
          p2 = (if status = HandoffStatusAccepted
                then p1\<lparr>h_AcceptedAt := Some at, h_AcceptedBy := acceptedBy\<rparr> else p1)
      in p2\<lparr>h_HandoffNotes := h_HandoffNotes p2 @ notes\<rparr>)"

definition handoffs_UpdateStatus ::
  "TaskID \<Rightarrow> string \<Rightarrow> HandoffStatus \<Rightarrow> WorkerKind \<Rightarrow> string list \<Rightarrow> go_time \<Rightarrow> Db \<Rightarrow> go_error + Db" where
  "handoffs_UpdateStatus taskID k status acceptedBy notes at d =
     (case tbl_get pr_key k (db_packets d) of
        None \<Rightarrow> Inl ErrNoRows
      | Some row \<Rightarrow>
          (if h_TaskID (pr_packet row) \<noteq> taskID
           then Inl (ErrMsg (''handoff '' @ k @ '' task mismatch: got '' @ h_TaskID (pr_packet row)
                  @ '' expected '' @ taskID))
           else updated (\<lambda>t. d\<lparr>db_packets := t\<rparr>)
             (tbl_update pr_key k
               (\<lambda>r. r\<lparr>pr_packet := packet_with_status status acceptedBy notes at (pr_packet row)\<rparr>)
               (db_packets d))))"

definition handoffs_CreateLaunch :: "Launch \<Rightarrow> Db \<Rightarrow> go_error + Db" where
  "handoffs_CreateLaunch l d = inserted ''insert handoff launch: '' ''handoff_launches.attempt_id''
     (\<lambda>t. d\<lparr>db_launches := t\<rparr>) (tbl_insert l_AttemptID l (db_launches d))"

definition handoffs_GetLaunch :: "string \<Rightarrow> Db \<Rightarrow> go_error + Launch" where
  "handoffs_GetLaunch k d = found (map_option (\<lambda>l. l\<lparr>l_Version := 1\<rparr>) (tbl_get l_AttemptID k (db_launches d)))"

definition handoffs_LatestLaunchByHandoff :: "string \<Rightarrow> Db \<Rightarrow> go_error + Launch" where
  "handoffs_LatestLaunchByHandoff k d =
     found (map_option (\<lambda>l. l\<lparr>l_Version := 1\<rparr>)
       (tbl_latest (\<lambda>l. (stamp_key (l_RequestedAt l), l_AttemptID l))
         (\<lambda>l. l_HandoffID l = k) (db_launches d)))"

text \<open>The UPDATE leaves handoff_id, task_id, target_worker and created_at as they are.\<close>

definition handoffs_UpdateLaunch :: "Launch \<Rightarrow> Db \<Rightarrow> go_error + Db" where
  "handoffs_UpdateLaunch l d = updated (\<lambda>t. d\<lparr>db_launches := t\<rparr>)
     (tbl_update l_AttemptID (l_AttemptID l)
       (\<lambda>old. l\<lparr>l_Version := l_Version old, l_AttemptID := l_AttemptID old,
          l_HandoffID := l_HandoffID old, l_TaskID := l_TaskID old,
          l_TargetWorker := l_TargetWorker old, l_CreatedAt := l_CreatedAt old\<rparr>)
       (db_launches d))"

definition handoffs_SaveAcknowledgment :: "Acknowledgment \<Rightarrow> Db \<Rightarrow> go_error + Db" where
  "handoffs_SaveAcknowledgment a d =
     inserted ''insert handoff acknowledgment: '' ''handoff_acknowledgments.ack_id''
       (\<lambda>t. d\<lparr>db_acks := t\<rparr>) (tbl_insert a_AckID a (db_acks d))"

definition handoffs_LatestAcknowledgment :: "string \<Rightarrow> Db \<Rightarrow> go_error + Acknowledgment" where
  "handoffs_LatestAcknowledgment k d =
     found (map_option (\<lambda>a. a\<lparr>a_Version := 1\<rparr>)
       (tbl_latest (\<lambda>a. (stamp_key (a_CreatedAt a), a_AckID a)) (\<lambda>a. a_HandoffID a = k) (db_acks d)))"

definition handoffs_SaveFollowThrough :: "FollowThrough \<Rightarrow> Db \<Rightarrow> go_error + Db" where
  "handoffs_SaveFollowThrough f d =
     inserted ''insert handoff follow-through: '' ''handoff_follow_throughs.record_id''
       (\<lambda>t. d\<lparr>db_follow := t\<rparr>) (tbl_insert f_RecordID f (db_follow d))"

definition handoffs_LatestFollowThrough :: "string \<Rightarrow> Db \<Rightarrow> go_error + FollowThrough" where
  "handoffs_LatestFollowThrough k d =
     found (map_option (\<lambda>f. f\<lparr>f_Version := 1\<rparr>)
       (tbl_latest (\<lambda>f. (stamp_key (f_CreatedAt f), f_RecordID f)) (\<lambda>f. f_HandoffID f = k) (db_follow d)))"

definition handoffs_SaveResolution :: "Resolution \<Rightarrow> Db \<Rightarrow> go_error + Db" where
  "handoffs_SaveResolution r d =
     inserted ''insert handoff resolution: '' ''handoff_resolutions.resolution_id''
       (\<lambda>t. d\<lparr>db_resolutions := t\<rparr>) (tbl_insert s_ResolutionID r (db_resolutions d))"

definition resolution_order :: "Resolution \<Rightarrow> (int \<times> string) \<times> string" where
  "resolution_order r = (stamp_key (s_CreatedAt r), s_ResolutionID r)"

definition handoffs_LatestResolution :: "string \<Rightarrow> Db \<Rightarrow> go_error + Resolution" where
  "handoffs_LatestResolution k d =
     found (map_option (\<lambda>r. r\<lparr>s_Version := 1\<rparr>)
       (tbl_latest resolution_order (\<lambda>r. s_HandoffID r = k) (db_resolutions d)))"

definition handoffs_LatestResolutionByTask :: "TaskID \<Rightarrow> Db \<Rightarrow> go_error + Resolution" where
  "handoffs_LatestResolutionByTask k d =
     found (map_option (\<lambda>r. r\<lparr>s_Version := 1\<rparr>)
       (tbl_latest resolution_order (\<lambda>r. s_TaskID r = k) (db_resolutions d)))"

section \<open>Recovery actions\<close>

definition action_order :: "RecoveryRecord \<Rightarrow> (int \<times> string) \<times> string" where
  "action_order r = (stamp_key (ra_CreatedAt r), ra_ActionID r)"

text \<open>\<open>scanRecoveryAction\<close>: a zero creation time is replaced by the wall clock.\<close>

definition scan_action :: "Db \<Rightarrow> RecoveryRecord \<Rightarrow> RecoveryRecord" where
  "scan_action d r = (if is_zero_time (ra_CreatedAt r) then r\<lparr>ra_CreatedAt := db_now d\<rparr> else r)"

definition actions_Create :: "RecoveryRecord \<Rightarrow> Db \<Rightarrow> go_error + Db" where
  "actions_Create r d = inserted ''insert recovery action: '' ''recovery_actions.action_id''
     (\<lambda>t. d\<lparr>db_actions := t\<rparr>) (tbl_insert ra_ActionID r (db_actions d))"

definition actions_LatestByTask :: "TaskID \<Rightarrow> Db \<Rightarrow> go_error + RecoveryRecord" where
  "actions_LatestByTask k d =
     found (map_option (scan_action d) (tbl_latest action_order (\<lambda>r. ra_TaskID r = k) (db_actions d)))"

definition actions_ListByTask :: "TaskID \<Rightarrow> int \<Rightarrow> Db \<Rightarrow> RecoveryRecord list" where
  "actions_ListByTask k limit d =
     tbl_list action_order (\<lambda>r. ra_TaskID r = k) (list_limit 20 limit) (db_actions d)"

section \<open>Audit receipts\<close>

text \<open>
  The receipts are stored as JSON beside the columns that are searched; all four tables are
  listed newest first, the receipt id breaking ties. The cursor of a page is the last receipt
  seen and its time, and is ignored when that time is zero.
\<close>

definition before_cursor :: "EventID \<Rightarrow> go_time \<Rightarrow> go_time \<Rightarrow> EventID \<Rightarrow> bool" where
  "before_cursor beforeID beforeAt created i \<longleftrightarrow>
     beforeID = [] \<or> is_zero_time beforeAt
     \<or> stamp_key created < stamp_key beforeAt
     \<or> stamp_key created = stamp_key beforeAt \<and> i < beforeID"

definition transition_order :: "TransitionReceipt \<Rightarrow> (int \<times> string) \<times> string" where
  "transition_order r = (stamp_key (tr_CreatedAt r), tr_ReceiptID r)"

record ReceiptListFilter =
  rl_Limit :: int
  rl_BeforeReceiptID :: EventID
  rl_BeforeCreatedAt :: go_time
  rl_TransitionKind :: TransitionKind
  rl_HandoffID :: string

definition transitions_Create :: "TransitionReceipt \<Rightarrow> Db \<Rightarrow> go_error + Db" where
  "transitions_Create r d =
     inserted ''insert continuity transition receipt: '' ''continuity_transition_receipts.receipt_id''
       (\<lambda>t. d\<lparr>db_transitions := t\<rparr>) (tbl_insert tr_ReceiptID r (db_transitions d))"

definition transitions_LatestByTask :: "TaskID \<Rightarrow> Db \<Rightarrow> go_error + TransitionReceipt" where
  "transitions_LatestByTask k d =
     found (tbl_latest transition_order (\<lambda>r. tr_TaskID r = k) (db_transitions d))"

definition transitions_GetByTaskReceipt :: "TaskID \<Rightarrow> EventID \<Rightarrow> Db \<Rightarrow> go_error + TransitionReceipt" where
  "transitions_GetByTaskReceipt k i d =
     found (find (\<lambda>r. tr_TaskID r = k \<and> tr_ReceiptID r = i) (db_transitions d))"

definition transitions_ListByTaskFiltered ::
  "TaskID \<Rightarrow> ReceiptListFilter \<Rightarrow> Db \<Rightarrow> TransitionReceipt list" where
  "transitions_ListByTaskFiltered k f d =
     tbl_list transition_order (\<lambda>r. tr_TaskID r = k
         \<and> (TransitionKind_str (rl_TransitionKind f) = []
            \<or> TransitionKind_str (tr_TransitionKind r) = TransitionKind_str (rl_TransitionKind f))
         \<and> (TrimSpace (rl_HandoffID f) = [] \<or> tr_HandoffID r = TrimSpace (rl_HandoffID f))
         \<and> before_cursor (rl_BeforeReceiptID f) (rl_BeforeCreatedAt f) (tr_CreatedAt r) (tr_ReceiptID r))
       (list_limit 10 (rl_Limit f)) (db_transitions d)"

definition transitions_ListByTask :: "TaskID \<Rightarrow> int \<Rightarrow> Db \<Rightarrow> TransitionReceipt list" where
  "transitions_ListByTask k limit d = transitions_ListByTaskFiltered k
     \<lparr>rl_Limit = limit, rl_BeforeReceiptID = [], rl_BeforeCreatedAt = 0,
      rl_TransitionKind = TransitionKindOther [], rl_HandoffID = []\<rparr> d"

definition transitions_ListByTaskAfter ::
  "TaskID \<Rightarrow> EventID \<Rightarrow> go_time \<Rightarrow> int \<Rightarrow> Db \<Rightarrow> go_error + TransitionReceipt list" where
  "transitions_ListByTaskAfter k afterID afterAt limit d =
     (if afterID = [] \<or> is_zero_time afterAt
      then Inl (ErrMsg ''after receipt id and after created at are required'')
      else Inr (take (list_limit 10 limit) (sort_key transition_order
        (filter (\<lambda>r. tr_TaskID r = k \<and> (stamp_key afterAt < stamp_key (tr_CreatedAt r)
           \<or> stamp_key (tr_CreatedAt r) = stamp_key afterAt \<and> afterID < tr_ReceiptID r)) (db_transitions d)))))"

definition opstep_order :: "OperatorStepReceipt \<Rightarrow> (int \<times> string) \<times> string" where
  "opstep_order r = (stamp_key (or_CreatedAt r), or_ReceiptID r)"

definition opsteps_Create :: "OperatorStepReceipt \<Rightarrow> Db \<Rightarrow> go_error + Db" where
  "opsteps_Create r d = inserted ''insert operator step receipt: '' ''operator_step_receipts.receipt_id''
     (\<lambda>t. d\<lparr>db_opsteps := t\<rparr>) (tbl_insert or_ReceiptID r (db_opsteps d))"

definition opsteps_LatestByTask :: "TaskID \<Rightarrow> Db \<Rightarrow> go_error + OperatorStepReceipt" where
  "opsteps_LatestByTask k d = found (tbl_latest opstep_order (\<lambda>r. or_TaskID r = k) (db_opsteps d))"

definition opsteps_ListByTask :: "TaskID \<Rightarrow> int \<Rightarrow> Db \<Rightarrow> OperatorStepReceipt list" where
  "opsteps_ListByTask k limit d =
     tbl_list opstep_order (\<lambda>r. or_TaskID r = k) (list_limit 10 limit) (db_opsteps d)"

definition triage_order :: "TriageReceipt \<Rightarrow> (int \<times> string) \<times> string" where
  "triage_order r = (stamp_key (tg_CreatedAt r), tg_ReceiptID r)"

record TriageListFilter =
  tl_Limit :: int
  tl_BeforeReceiptID :: EventID
  tl_BeforeCreatedAt :: go_time
  tl_AnchorTransitionReceiptID :: EventID
  tl_Posture :: TriagePosture

definition triages_Create :: "TriageReceipt \<Rightarrow> Db \<Rightarrow> go_error + Db" where
  "triages_Create r d =
     inserted ''insert continuity incident triage receipt: '' ''continuity_incident_triage_receipts.receipt_id''
       (\<lambda>t. d\<lparr>db_triages := t\<rparr>) (tbl_insert tg_ReceiptID r (db_triages d))"

definition triages_LatestByTask :: "TaskID \<Rightarrow> Db \<Rightarrow> go_error + TriageReceipt" where
  "triages_LatestByTask k d = found (tbl_latest triage_order (\<lambda>r. tg_TaskID r = k) (db_triages d))"

definition triages_GetByTaskReceipt :: "TaskID \<Rightarrow> EventID \<Rightarrow> Db \<Rightarrow> go_error + TriageReceipt" where
  "triages_GetByTaskReceipt k i d =
     found (find (\<lambda>r. tg_TaskID r = k \<and> tg_ReceiptID r = i) (db_triages d))"

definition triages_LatestByTaskAnchor :: "TaskID \<Rightarrow> EventID \<Rightarrow> Db \<Rightarrow> go_error + TriageReceipt" where
  "triages_LatestByTaskAnchor k anchor d =
     found (tbl_latest triage_order
       (\<lambda>r. tg_TaskID r = k \<and> tg_AnchorTransitionReceiptID r = anchor) (db_triages d))"

definition triages_ListByTaskFiltered :: "TaskID \<Rightarrow> TriageListFilter \<Rightarrow> Db \<Rightarrow> TriageReceipt list" where
  "triages_ListByTaskFiltered k f d =
     tbl_list triage_order (\<lambda>r. tg_TaskID r = k
         \<and> (tl_AnchorTransitionReceiptID f = [] \<or> tg_AnchorTransitionReceiptID r = tl_AnchorTransitionReceiptID f)
         \<and> (TriagePosture_str (tl_Posture f) = []
            \<or> TriagePosture_str (tg_Posture r) = TriagePosture_str (tl_Posture f))
         \<and> before_cursor (tl_BeforeReceiptID f) (tl_BeforeCreatedAt f) (tg_CreatedAt r) (tg_ReceiptID r))
       (list_limit 10 (tl_Limit f)) (db_triages d)"

definition triages_ListByTask :: "TaskID \<Rightarrow> int \<Rightarrow> Db \<Rightarrow> TriageReceipt list" where
  "triages_ListByTask k limit d = triages_ListByTaskFiltered k
     \<lparr>tl_Limit = limit, tl_BeforeReceiptID = [], tl_BeforeCreatedAt = 0,
      tl_AnchorTransitionReceiptID = [], tl_Posture = PostureOther []\<rparr> d"

definition followup_order :: "FollowUpReceipt \<Rightarrow> (int \<times> string) \<times> string" where
  "followup_order r = (stamp_key (fu_CreatedAt r), fu_ReceiptID r)"

record FollowUpListFilter =
  fl_Limit :: int
  fl_BeforeReceiptID :: EventID
  fl_BeforeCreatedAt :: go_time
  fl_AnchorTransitionReceiptID :: EventID
  fl_TriageReceiptID :: EventID
  fl_ActionKind :: FollowUpActionKind

definition followups_Create :: "FollowUpReceipt \<Rightarrow> Db \<Rightarrow> go_error + Db" where
  "followups_Create r d =
     inserted ''insert continuity incident follow-up receipt: '' ''continuity_incident_follow_up_receipts.receipt_id''
       (\<lambda>t. d\<lparr>db_followups := t\<rparr>) (tbl_insert fu_ReceiptID r (db_followups d))"

definition followups_GetByTaskReceipt :: "TaskID \<Rightarrow> EventID \<Rightarrow> Db \<Rightarrow> go_error + FollowUpReceipt" where
  "followups_GetByTaskReceipt k i d =
     found (find (\<lambda>r. fu_TaskID r = k \<and> fu_ReceiptID r = i) (db_followups d))"

definition followups_LatestByTask :: "TaskID \<Rightarrow> Db \<Rightarrow> go_error + FollowUpReceipt" where
  "followups_LatestByTask k d = found (tbl_latest followup_order (\<lambda>r. fu_TaskID r = k) (db_followups d))"

definition followups_LatestByTaskAnchor :: "TaskID \<Rightarrow> EventID \<Rightarrow> Db \<Rightarrow> go_error + FollowUpReceipt" where
  "followups_LatestByTaskAnchor k anchor d =
     found (tbl_latest followup_order
       (\<lambda>r. fu_TaskID r = k \<and> fu_AnchorTransitionReceiptID r = anchor) (db_followups d))"

definition followups_ListByTaskFiltered :: "TaskID \<Rightarrow> FollowUpListFilter \<Rightarrow> Db \<Rightarrow> FollowUpReceipt list" where
  "followups_ListByTaskFiltered k f d =
     tbl_list followup_order (\<lambda>r. fu_TaskID r = k
         \<and> (fl_AnchorTransitionReceiptID f = [] \<or> fu_AnchorTransitionReceiptID r = fl_AnchorTransitionReceiptID f)
         \<and> (fl_TriageReceiptID f = [] \<or> fu_TriageReceiptID r = fl_TriageReceiptID f)
         \<and> (FollowUpActionKind_str (fl_ActionKind f) = []
            \<or> FollowUpActionKind_str (fu_ActionKind r) = FollowUpActionKind_str (fl_ActionKind f))
         \<and> before_cursor (fl_BeforeReceiptID f) (fl_BeforeCreatedAt f) (fu_CreatedAt r) (fu_ReceiptID r))
       (list_limit 10 (fl_Limit f)) (db_followups d)"

definition followups_ListByTask :: "TaskID \<Rightarrow> int \<Rightarrow> Db \<Rightarrow> FollowUpReceipt list" where
  "followups_ListByTask k limit d = followups_ListByTaskFiltered k
     \<lparr>fl_Limit = limit, fl_BeforeReceiptID = [], fl_BeforeCreatedAt = 0,
      fl_AnchorTransitionReceiptID = [], fl_TriageReceiptID = [], fl_ActionKind = FollowUpActionOther []\<rparr> d"

end
