(* ===== verification/HandoffContinuity.thy ===== *)
theory HandoffContinuity
  imports Store
begin

text \<open>
  internal/orchestrator/launch_control.go and handoff_continuity.go: what the durable
  handoff records of a task (packet, latest launch, acknowledgment, follow-through and
  resolution) say about launching the packet and about the worker downstream of it.
\<close>

datatype LaunchControlState =
    LaunchControlStateNotApplicable
  | LaunchControlStateNotRequested
  | LaunchControlStateRequestedOutcomeUnknown
  | LaunchControlStateCompleted
  | LaunchControlStateFailed

primrec LaunchControlState_str :: "LaunchControlState \<Rightarrow> string" where
  "LaunchControlState_str LaunchControlStateNotApplicable = ''NOT_APPLICABLE''"
| "LaunchControlState_str LaunchControlStateNotRequested = ''NOT_REQUESTED''"
| "LaunchControlState_str LaunchControlStateRequestedOutcomeUnknown = ''REQUESTED_OUTCOME_UNKNOWN''"
| "LaunchControlState_str LaunchControlStateCompleted = ''COMPLETED''"
| "LaunchControlState_str LaunchControlStateFailed = ''FAILED''"

datatype LaunchRetryDisposition =
    LaunchRetryDispositionNotApplicable
  | LaunchRetryDispositionAllowed
  | LaunchRetryDispositionBlocked

primrec LaunchRetryDisposition_str :: "LaunchRetryDisposition \<Rightarrow> string" where
  "LaunchRetryDisposition_str LaunchRetryDispositionNotApplicable = ''NOT_APPLICABLE''"
| "LaunchRetryDisposition_str LaunchRetryDispositionAllowed = ''ALLOWED''"
| "LaunchRetryDisposition_str LaunchRetryDispositionBlocked = ''BLOCKED''"

datatype HandoffContinuityState =
    HandoffContinuityStateNotApplicable
  | HandoffContinuityStateAcceptedNotLaunched
  | HandoffContinuityStateLaunchPendingOutcome
  | HandoffContinuityStateLaunchFailedRetryable
  | HandoffContinuityStateLaunchCompletedAckSeen
  | HandoffContinuityStateLaunchCompletedAckEmpty
  | HandoffContinuityStateLaunchCompletedAckLost
  | HandoffContinuityStateFollowThroughProofOfLife
  | HandoffContinuityStateFollowThroughConfirmed
  | HandoffContinuityStateFollowThroughUnknown
  | HandoffContinuityStateFollowThroughStalled
  | HandoffContinuityStateResolved

primrec HandoffContinuityState_str :: "HandoffContinuityState \<Rightarrow> string" where
  "HandoffContinuityState_str HandoffContinuityStateNotApplicable = ''NOT_APPLICABLE''"
| "HandoffContinuityState_str HandoffContinuityStateAcceptedNotLaunched = ''ACCEPTED_NOT_LAUNCHED''"
| "HandoffContinuityState_str HandoffContinuityStateLaunchPendingOutcome = ''LAUNCH_PENDING_OUTCOME''"
| "HandoffContinuityState_str HandoffContinuityStateLaunchFailedRetryable = ''LAUNCH_FAILED_RETRYABLE''"
| "HandoffContinuityState_str HandoffContinuityStateLaunchCompletedAckSeen = ''LAUNCH_COMPLETED_ACK_CAPTURED''"
| "HandoffContinuityState_str HandoffContinuityStateLaunchCompletedAckEmpty = ''LAUNCH_COMPLETED_ACK_UNAVAILABLE''"
| "HandoffContinuityState_str HandoffContinuityStateLaunchCompletedAckLost = ''LAUNCH_COMPLETED_ACK_MISSING''"
| "HandoffContinuityState_str HandoffContinuityStateFollowThroughProofOfLife = ''FOLLOW_THROUGH_PROOF_OF_LIFE''"
| "HandoffContinuityState_str HandoffContinuityStateFollowThroughConfirmed = ''FOLLOW_THROUGH_CONFIRMED''"
| "HandoffContinuityState_str HandoffContinuityStateFollowThroughUnknown = ''FOLLOW_THROUGH_UNKNOWN''"
| "HandoffContinuityState_str HandoffContinuityStateFollowThroughStalled = ''FOLLOW_THROUGH_STALLED''"
| "HandoffContinuityState_str HandoffContinuityStateResolved = ''RESOLVED''"

record LaunchControl =
  lc_TaskID :: TaskID
  lc_HandoffID :: string
  lc_AttemptID :: string
  lc_LaunchID :: string
  lc_State :: LaunchControlState
  lc_RetryDisposition :: LaunchRetryDisposition
  lc_Reason :: string
  lc_TargetWorker :: WorkerKind
  lc_RequestedAt :: go_time
  lc_CompletedAt :: go_time
  lc_FailedAt :: go_time

record HandoffContinuity =
  hc_TaskID :: TaskID
  hc_HandoffID :: string
  hc_TargetWorker :: WorkerKind
  hc_State :: HandoffContinuityState
  hc_LaunchAttemptID :: string
  hc_LaunchID :: string
  hc_LaunchStatus :: LaunchStatus
  hc_AcknowledgmentID :: string
  hc_AcknowledgmentStatus :: AcknowledgmentStatus
  hc_AcknowledgmentSummary :: string
  hc_FollowThroughID :: string
  hc_FollowThroughKind :: FollowThroughKind
  hc_FollowThroughSummary :: string
  hc_ResolutionID :: string
  hc_ResolutionKind :: ResolutionKind
  hc_ResolutionSummary :: string
  hc_DownstreamContinuationProven :: bool
  hc_Reason :: string

definition nonEmpty :: "string \<Rightarrow> string \<Rightarrow> string" where
  "nonEmpty value fallback = (if TrimSpace value = [] then fallback else value)"

section \<open>Launch control\<close>

definition launch_control_zero :: "TaskID \<Rightarrow> LaunchControl" where
  "launch_control_zero taskID = \<lparr>lc_TaskID = taskID, lc_HandoffID = [], lc_AttemptID = [],
     lc_LaunchID = [], lc_State = LaunchControlStateNotApplicable,
     lc_RetryDisposition = LaunchRetryDispositionNotApplicable, lc_Reason = [],
     lc_TargetWorker = WorkerKindOther [], lc_RequestedAt = 0, lc_CompletedAt = 0,
     lc_FailedAt = 0\<rparr>"

definition launch_outcome_control :: "Packet \<Rightarrow> Launch \<Rightarrow> LaunchControl \<Rightarrow> LaunchControl" where
  "launch_outcome_control p l c0 =
     (let c = c0\<lparr>lc_AttemptID := l_AttemptID l, lc_LaunchID := l_LaunchID l,
                 lc_RequestedAt := l_RequestedAt l\<rparr> in
      case l_Status l of
        LaunchStatusRequested \<Rightarrow>
          c\<lparr>lc_State := LaunchControlStateRequestedOutcomeUnknown,
            lc_RetryDisposition := LaunchRetryDispositionBlocked,
            lc_Reason := ''launch attempt '' @ l_AttemptID l @ '' for handoff '' @ h_HandoffID p
              @ '' is durably recorded as requested, but no completion or failure outcome is persisted''\<rparr>
      | LaunchStatusCompleted \<Rightarrow>
          c\<lparr>lc_State := LaunchControlStateCompleted,
            lc_RetryDisposition := LaunchRetryDispositionBlocked,
            lc_CompletedAt := l_EndedAt l,
            lc_Reason := (if TrimSpace (l_LaunchID l) \<noteq> []
              then ''handoff '' @ h_HandoffID p @ '' already has durable completed launch '' @ l_LaunchID l
              else ''handoff '' @ h_HandoffID p @ '' already has a durable completed launch attempt ''
                @ l_AttemptID l)\<rparr>
      | LaunchStatusFailed \<Rightarrow>
          c\<lparr>lc_State := LaunchControlStateFailed,
            lc_RetryDisposition := LaunchRetryDispositionAllowed,
            lc_FailedAt := l_EndedAt l,
            lc_Reason := (if TrimSpace (l_ErrorMessage l) \<noteq> []
              then ''previous launch attempt '' @ l_AttemptID l @ '' failed durably: '' @ l_ErrorMessage l
              else ''previous launch attempt '' @ l_AttemptID l @ '' failed durably and may be retried'')\<rparr>
      | LaunchStatusOther s \<Rightarrow>
          c\<lparr>lc_State := LaunchControlStateRequestedOutcomeUnknown,
            lc_RetryDisposition := LaunchRetryDispositionBlocked,
            lc_Reason := ''launch attempt '' @ l_AttemptID l @ '' has unsupported durable status '' @ s\<rparr>)"

definition assessLaunchControl :: "TaskID \<Rightarrow> Packet option \<Rightarrow> Launch option \<Rightarrow> LaunchControl" where
  "assessLaunchControl taskID packet launch =
     (case packet of
        None \<Rightarrow> (launch_control_zero taskID)\<lparr>lc_Reason := ''no handoff packet is present''\<rparr>
      | Some p \<Rightarrow>
         (let c = (launch_control_zero taskID)\<lparr>lc_HandoffID := h_HandoffID p,
                    lc_TargetWorker := h_TargetWorker p\<rparr> in
          if h_TargetWorker p \<noteq> WorkerKindClaude
          then c\<lparr>lc_Reason := ''latest handoff target '' @ WorkerKind_str (h_TargetWorker p)
                   @ '' is not launchable by the Claude launcher''\<rparr>
          else if h_Status p \<noteq> HandoffStatusCreated \<and> h_Status p \<noteq> HandoffStatusAccepted
          then c\<lparr>lc_Reason := ''handoff '' @ h_HandoffID p @ '' is not launchable in status ''
                   @ HandoffStatus_str (h_Status p)\<rparr>
          else if \<not> h_IsResumable p
          then c\<lparr>lc_Reason := ''handoff '' @ h_HandoffID p
                   @ '' is not launchable because its checkpoint is not resumable''\<rparr>
          else (case launch of
                  None \<Rightarrow> c\<lparr>lc_State := LaunchControlStateNotRequested,
                    lc_RetryDisposition := LaunchRetryDispositionAllowed,
                    lc_Reason := ''accepted handoff '' @ h_HandoffID p
                      @ '' has no durable launch attempt yet''\<rparr>
                | Some l \<Rightarrow> launch_outcome_control p l c)))"

section \<open>Handoff continuity\<close>

definition handoff_continuity_zero :: "TaskID \<Rightarrow> HandoffContinuity" where
  "handoff_continuity_zero taskID = \<lparr>hc_TaskID = taskID, hc_HandoffID = [],
     hc_TargetWorker = WorkerKindOther [], hc_State = HandoffContinuityStateNotApplicable,
     hc_LaunchAttemptID = [], hc_LaunchID = [], hc_LaunchStatus = LaunchStatusOther [],
     hc_AcknowledgmentID = [], hc_AcknowledgmentStatus = AcknowledgmentStatusOther [],
     hc_AcknowledgmentSummary = [], hc_FollowThroughID = [],
     hc_FollowThroughKind = FollowThroughKindOther [], hc_FollowThroughSummary = [],
     hc_ResolutionID = [], hc_ResolutionKind = ResolutionKindOther [], hc_ResolutionSummary = [],
     hc_DownstreamContinuationProven = False, hc_Reason = []\<rparr>"

definition buildResolvedHandoffContinuityReason :: "HandoffContinuity \<Rightarrow> Resolution \<Rightarrow> string" where
  "buildResolvedHandoffContinuityReason out r =
     (case s_Kind r of
        ResolutionAbandoned \<Rightarrow> ''Claude handoff '' @ hc_HandoffID out @ '' was explicitly abandoned: ''
          @ s_Summary r @ ''. This closes the Claude continuity branch without claiming downstream completion''
      | ResolutionSupersededByLocal \<Rightarrow> ''Claude handoff '' @ hc_HandoffID out
          @ '' was explicitly superseded by local control: '' @ s_Summary r
          @ ''. This closes the Claude continuity branch and unblocks local canonical mutation without claiming downstream completion''
      | ResolutionClosedUnproven \<Rightarrow> ''Claude handoff '' @ hc_HandoffID out
          @ '' was explicitly closed as unproven: '' @ s_Summary r
          @ ''. Tuku is not claiming downstream completion''
      | ResolutionReviewedStale \<Rightarrow> ''Claude handoff '' @ hc_HandoffID out
          @ '' was reviewed as stale and explicitly closed: '' @ s_Summary r
          @ ''. Tuku is not claiming downstream completion''
      | ResolutionKindOther k \<Rightarrow> ''Claude handoff '' @ hc_HandoffID out
          @ '' was explicitly resolved: '' @ s_Summary r)"

text \<open>The identifiers copied from the durable records before the state is decided.\<close>

definition continuity_records ::
  "Packet \<Rightarrow> LaunchControl \<Rightarrow> Launch option \<Rightarrow> Acknowledgment option \<Rightarrow> FollowThrough option
     \<Rightarrow> Resolution option \<Rightarrow> HandoffContinuity \<Rightarrow> HandoffContinuity" where
  "continuity_records p control launch ack ft res out0 =
     (let o1 = out0\<lparr>hc_LaunchAttemptID := lc_AttemptID control, hc_LaunchID := lc_LaunchID control\<rparr>;
          o2 = (case launch of None \<Rightarrow> o1 | Some l \<Rightarrow> o1\<lparr>hc_LaunchStatus := l_Status l\<rparr>);
          o3 = (case ack of None \<Rightarrow> o2 | Some a \<Rightarrow> o2\<lparr>hc_AcknowledgmentID := a_AckID a,
                  hc_AcknowledgmentStatus := a_Status a, hc_AcknowledgmentSummary := a_Summary a\<rparr>);
          o4 = (case ft of None \<Rightarrow> o3 | Some f \<Rightarrow> o3\<lparr>hc_FollowThroughID := f_RecordID f,
                  hc_FollowThroughKind := f_Kind f, hc_FollowThroughSummary := f_Summary f\<rparr>)
      in (case res of None \<Rightarrow> o4
          | Some r \<Rightarrow> (if s_HandoffID r = h_HandoffID p
              then o4\<lparr>hc_ResolutionID := s_ResolutionID r, hc_ResolutionKind := s_Kind r,
                     hc_ResolutionSummary := s_Summary r\<rparr> else o4)))"

text \<open>
  The follow-through switch: \<open>Some\<close> for the four kinds whose case returns from the function,
  \<open>None\<close> where control falls through to the acknowledgment.
\<close>

definition follow_through_continuity ::
  "LaunchControl \<Rightarrow> FollowThrough \<Rightarrow> HandoffContinuity \<Rightarrow> HandoffContinuity option" where
  "follow_through_continuity control f out =
     (let which = nonEmpty (lc_LaunchID control) (lc_AttemptID control) in
      case f_Kind f of
        FollowThroughProofOfLifeObserved \<Rightarrow>
          Some (out\<lparr>hc_State := HandoffContinuityStateFollowThroughProofOfLife,
            hc_DownstreamContinuationProven := True,
            hc_Reason := ''Claude handoff launch '' @ which @ '' has downstream proof-of-life evidence: ''
              @ f_Summary f @ ''. This proves some downstream follow-through occurred, but not downstream task completion''\<rparr>)
      | FollowThroughContinuationConfirmed \<Rightarrow>
          Some (out\<lparr>hc_State := HandoffContinuityStateFollowThroughConfirmed,
            hc_DownstreamContinuationProven := True,
            hc_Reason := ''Claude handoff launch '' @ which @ '' has operator-confirmed downstream continuation: ''
              @ f_Summary f @ ''. This does not prove downstream task completion or full transcript visibility''\<rparr>)
      | FollowThroughContinuationUnknown \<Rightarrow>
          Some (out\<lparr>hc_State := HandoffContinuityStateFollowThroughUnknown,
            hc_Reason := ''Claude handoff launch '' @ which @ '' still has unknown downstream follow-through: ''
              @ f_Summary f\<rparr>)
      | FollowThroughStalledReviewRequired \<Rightarrow>
          Some (out\<lparr>hc_State := HandoffContinuityStateFollowThroughStalled,
            hc_Reason := ''Claude handoff launch '' @ which @ '' appears stalled and needs review: ''
              @ f_Summary f\<rparr>)
      | FollowThroughKindOther k \<Rightarrow> None)"

definition acknowledgment_continuity ::
  "LaunchControl \<Rightarrow> Acknowledgment \<Rightarrow> HandoffContinuity \<Rightarrow> HandoffContinuity" where
  "acknowledgment_continuity control a out =
     (let which = nonEmpty (lc_LaunchID control) (lc_AttemptID control) in
      if a_Status a = AcknowledgmentCaptured
      then out\<lparr>hc_State := HandoffContinuityStateLaunchCompletedAckSeen,
        hc_Reason := ''Claude handoff launch '' @ which
          @ '' completed and an initial acknowledgment was captured. This proves launcher invocation and initial worker acknowledgment only; downstream continuation remains unproven''\<rparr>
      else out\<lparr>hc_State := HandoffContinuityStateLaunchCompletedAckEmpty,
        hc_Reason := ''Claude handoff launch '' @ which
          @ '' completed, but no usable initial acknowledgment was captured. Downstream continuation remains unproven''\<rparr>)"

definition resolved_continuity ::
  "Packet \<Rightarrow> Resolution option \<Rightarrow> HandoffContinuity \<Rightarrow> HandoffContinuity" where
  "resolved_continuity p res out =
     (case res of
        None \<Rightarrow> out
      | Some r \<Rightarrow> (if s_HandoffID r = h_HandoffID p
          then (let o1 = out\<lparr>hc_State := HandoffContinuityStateResolved\<rparr>
                in o1\<lparr>hc_Reason := buildResolvedHandoffContinuityReason o1 r\<rparr>)
          else out))"

definition launch_continuity ::
  "Packet \<Rightarrow> LaunchControl \<Rightarrow> Acknowledgment option \<Rightarrow> FollowThrough option \<Rightarrow> Resolution option
     \<Rightarrow> HandoffContinuity \<Rightarrow> HandoffContinuity" where
  "launch_continuity p control ack ft res out =
     (case lc_State control of
        LaunchControlStateNotRequested \<Rightarrow> resolved_continuity p res
          (out\<lparr>hc_State := HandoffContinuityStateAcceptedNotLaunched,
            hc_Reason := ''accepted Claude handoff '' @ h_HandoffID p
              @ '' is ready to launch, but no durable launch attempt exists yet''\<rparr>)
      | LaunchControlStateRequestedOutcomeUnknown \<Rightarrow> resolved_continuity p res
          (out\<lparr>hc_State := HandoffContinuityStateLaunchPendingOutcome,
            hc_Reason := ''Claude handoff launch attempt '' @ lc_AttemptID control
              @ '' is durably recorded as requested, but completion and acknowledgment are still unproven''\<rparr>)
      | LaunchControlStateFailed \<Rightarrow> resolved_continuity p res
          (out\<lparr>hc_State := HandoffContinuityStateLaunchFailedRetryable,
            hc_Reason := ''Claude handoff launch failed durably for attempt '' @ lc_AttemptID control
              @ ''. Retry is allowed, but downstream continuation is still unproven''\<rparr>)
      | LaunchControlStateCompleted \<Rightarrow>
          (case ack of
             None \<Rightarrow> resolved_continuity p res
               (out\<lparr>hc_State := HandoffContinuityStateLaunchCompletedAckLost,
                 hc_Reason := ''Claude handoff launch ''
                   @ nonEmpty (lc_LaunchID control) (lc_AttemptID control)
                   @ '' completed durably, but no persisted acknowledgment is available. Downstream continuation remains unproven and continuity repair is required''\<rparr>)
           | Some a \<Rightarrow>
               (case (case ft of None \<Rightarrow> None | Some f \<Rightarrow> follow_through_continuity control f out) of
                  Some early \<Rightarrow> early
                | None \<Rightarrow> resolved_continuity p res (acknowledgment_continuity control a out)))
      | LaunchControlStateNotApplicable \<Rightarrow>
          resolved_continuity p res (out\<lparr>hc_Reason := lc_Reason control\<rparr>))"

definition assessHandoffContinuity ::
  "TaskID \<Rightarrow> Packet option \<Rightarrow> Launch option \<Rightarrow> Acknowledgment option \<Rightarrow> FollowThrough option
     \<Rightarrow> Resolution option \<Rightarrow> HandoffContinuity" where
  "assessHandoffContinuity taskID packet launch ack ft res =
     (case packet of
        None \<Rightarrow> (handoff_continuity_zero taskID)\<lparr>hc_Reason := ''no Claude handoff continuity is active''\<rparr>
      | Some p \<Rightarrow>
         (let out = (handoff_continuity_zero taskID)\<lparr>hc_HandoffID := h_HandoffID p,
                      hc_TargetWorker := h_TargetWorker p\<rparr> in
          if h_TargetWorker p \<noteq> WorkerKindClaude
          then out\<lparr>hc_Reason := ''latest handoff target '' @ WorkerKind_str (h_TargetWorker p)
                     @ '' is not Claude''\<rparr>
          else if h_Status p \<noteq> HandoffStatusAccepted
          then out\<lparr>hc_Reason := ''latest Claude handoff '' @ h_HandoffID p @ '' is in status ''
                     @ HandoffStatus_str (h_Status p) @ '' and is not yet launch-active''\<rparr>
          else if \<not> h_IsResumable p
          then out\<lparr>hc_Reason := ''accepted Claude handoff '' @ h_HandoffID p
                     @ '' is not launchable because its checkpoint is not resumable''\<rparr>
          else (let control = assessLaunchControl taskID packet launch in
                launch_continuity p control ack ft res
                  (continuity_records p control launch ack ft res out))))"

section \<open>What the states mean\<close>

text \<open>An accepted, resumable packet for Claude: the branch whose launch state is assessed.\<close>

definition launch_active :: "Packet \<Rightarrow> bool" where
  "launch_active p \<longleftrightarrow> h_TargetWorker p = WorkerKindClaude \<and> h_Status p = HandoffStatusAccepted
     \<and> h_IsResumable p"

definition ft_decisive :: "FollowThrough option \<Rightarrow> bool" where
  "ft_decisive ft = (case ft of None \<Rightarrow> False | Some f \<Rightarrow>
     (case f_Kind f of FollowThroughKindOther s \<Rightarrow> False | _ \<Rightarrow> True))"

definition ft_proves :: "FollowThrough option \<Rightarrow> bool" where
  "ft_proves ft = (case ft of None \<Rightarrow> False | Some f \<Rightarrow>
     f_Kind f = FollowThroughProofOfLifeObserved \<or> f_Kind f = FollowThroughContinuationConfirmed)"

definition launch_completed :: "Launch option \<Rightarrow> bool" where
  "launch_completed launch = (case launch of None \<Rightarrow> False | Some l \<Rightarrow> l_Status l = LaunchStatusCompleted)"

definition resolves :: "Packet \<Rightarrow> Resolution option \<Rightarrow> bool" where
  "resolves p res = (case res of None \<Rightarrow> False | Some r \<Rightarrow> s_HandoffID r = h_HandoffID p)"

lemma launch_outcome_control_state:
  "lc_State (launch_outcome_control p l c) =
     (case l_Status l of LaunchStatusCompleted \<Rightarrow> LaunchControlStateCompleted
      | LaunchStatusFailed \<Rightarrow> LaunchControlStateFailed
      | _ \<Rightarrow> LaunchControlStateRequestedOutcomeUnknown)"
  "lc_RetryDisposition (launch_outcome_control p l c) =
     (case l_Status l of LaunchStatusFailed \<Rightarrow> LaunchRetryDispositionAllowed
      | _ \<Rightarrow> LaunchRetryDispositionBlocked)"
  by (simp_all add: launch_outcome_control_def Let_def split: LaunchStatus.split)

lemma assessLaunchControl_active_state:
  assumes "launch_active p"
  shows "lc_State (assessLaunchControl t (Some p) launch) =
    (case launch of None \<Rightarrow> LaunchControlStateNotRequested
     | Some l \<Rightarrow> (case l_Status l of LaunchStatusCompleted \<Rightarrow> LaunchControlStateCompleted
        | LaunchStatusFailed \<Rightarrow> LaunchControlStateFailed
        | _ \<Rightarrow> LaunchControlStateRequestedOutcomeUnknown))"
  using assms
  by (simp add: assessLaunchControl_def launch_active_def Let_def launch_outcome_control_state
      split: option.split)

lemma continuity_records_keep [simp]:
  "hc_State (continuity_records p c l a f r out) = hc_State out"
  "hc_DownstreamContinuationProven (continuity_records p c l a f r out) = hc_DownstreamContinuationProven out"
  "hc_HandoffID (continuity_records p c l a f r out) = hc_HandoffID out"
  by (simp_all add: continuity_records_def Let_def split: option.split)

lemma resolved_continuity_proj:
  "hc_State (resolved_continuity p res out) =
     (if resolves p res then HandoffContinuityStateResolved else hc_State out)"
  "hc_DownstreamContinuationProven (resolved_continuity p res out) = hc_DownstreamContinuationProven out"
  by (simp_all add: resolved_continuity_def resolves_def Let_def split: option.split)

lemma follow_through_continuity_None_iff:
  "follow_through_continuity control f out = None \<longleftrightarrow> \<not> ft_decisive (Some f)"
  by (simp add: follow_through_continuity_def ft_decisive_def Let_def split: FollowThroughKind.split)

lemma follow_through_continuity_Some:
  assumes "follow_through_continuity control f out = Some o'"
  shows "ft_decisive (Some f)"
    and "hc_State o' \<noteq> HandoffContinuityStateResolved"
    and "\<not> hc_DownstreamContinuationProven out \<Longrightarrow>
          hc_DownstreamContinuationProven o' = ft_proves (Some f)"
  using assms
  by (auto simp: follow_through_continuity_def ft_decisive_def ft_proves_def Let_def
      split: FollowThroughKind.splits)

lemma acknowledgment_continuity_proj:
  "hc_DownstreamContinuationProven (acknowledgment_continuity c a out) = hc_DownstreamContinuationProven out"
  "hc_State (acknowledgment_continuity c a out) \<noteq> HandoffContinuityStateResolved"
  by (simp_all add: acknowledgment_continuity_def Let_def)

lemma ft_proves_decisive: "ft_proves ft \<Longrightarrow> ft_decisive ft"
  by (auto simp: ft_proves_def ft_decisive_def split: option.splits FollowThroughKind.splits)

lemma launch_continuity_completed:
  assumes "lc_State control = LaunchControlStateCompleted" and "\<not> hc_DownstreamContinuationProven out"
  shows "hc_DownstreamContinuationProven (launch_continuity p control ack ft res out)
           \<longleftrightarrow> ack \<noteq> None \<and> ft_proves ft"
    and "hc_State (launch_continuity p control ack ft res out) = HandoffContinuityStateResolved
           \<longleftrightarrow> resolves p res \<and> \<not> (ack \<noteq> None \<and> ft_decisive ft)"
proof -
  consider (noack) "ack = None" | (noft) a where "ack = Some a" "ft = None"
    | (both) a f where "ack = Some a" "ft = Some f"
    by (cases ack; cases ft) auto
  then have "(hc_DownstreamContinuationProven (launch_continuity p control ack ft res out)
           \<longleftrightarrow> ack \<noteq> None \<and> ft_proves ft) \<and>
      (hc_State (launch_continuity p control ack ft res out) = HandoffContinuityStateResolved
           \<longleftrightarrow> resolves p res \<and> \<not> (ack \<noteq> None \<and> ft_decisive ft))"
  proof cases
    case noack
    then show ?thesis using assms by (simp add: launch_continuity_def resolved_continuity_proj)
  next
    case noft
    then show ?thesis using assms acknowledgment_continuity_proj(2)
      by (simp add: launch_continuity_def resolved_continuity_proj acknowledgment_continuity_proj(1)
          ft_proves_def ft_decisive_def)
  next
    case both
    show ?thesis
    proof (cases "follow_through_continuity control f out")
      case None
      then have "\<not> ft_decisive ft" using both by (simp add: follow_through_continuity_None_iff)
      then show ?thesis using both None assms ft_proves_decisive[of ft]
          acknowledgment_continuity_proj(2)
        by (auto simp: launch_continuity_def resolved_continuity_proj acknowledgment_continuity_proj(1))
    next
      case (Some o')
      then show ?thesis using both assms follow_through_continuity_Some[OF Some]
        by (simp add: launch_continuity_def)
    qed
  qed
  then show "hc_DownstreamContinuationProven (launch_continuity p control ack ft res out)
           \<longleftrightarrow> ack \<noteq> None \<and> ft_proves ft"
    and "hc_State (launch_continuity p control ack ft res out) = HandoffContinuityStateResolved
           \<longleftrightarrow> resolves p res \<and> \<not> (ack \<noteq> None \<and> ft_decisive ft)" by blast+
qed

lemma launch_continuity_not_completed:
  assumes "lc_State control \<noteq> LaunchControlStateCompleted" and "\<not> hc_DownstreamContinuationProven out"
    and "hc_State out \<noteq> HandoffContinuityStateResolved"
  shows "\<not> hc_DownstreamContinuationProven (launch_continuity p control ack ft res out)"
    and "hc_State (launch_continuity p control ack ft res out) = HandoffContinuityStateResolved
           \<longleftrightarrow> resolves p res"
  using assms
  by (auto simp: launch_continuity_def resolved_continuity_proj split: LaunchControlState.split)

lemma assessHandoffContinuity_inactive:
  assumes "\<not> launch_active p"
  shows "hc_State (assessHandoffContinuity t (Some p) launch ack ft res) = HandoffContinuityStateNotApplicable"
    and "\<not> hc_DownstreamContinuationProven (assessHandoffContinuity t (Some p) launch ack ft res)"
  using assms
  by (auto simp: assessHandoffContinuity_def launch_active_def Let_def handoff_continuity_zero_def)

lemma assessHandoffContinuity_active:
  assumes "launch_active p"
  shows "assessHandoffContinuity t (Some p) launch ack ft res =
    (let control = assessLaunchControl t (Some p) launch in
     launch_continuity p control ack ft res
       (continuity_records p control launch ack ft res
         ((handoff_continuity_zero t)\<lparr>hc_HandoffID := h_HandoffID p, hc_TargetWorker := h_TargetWorker p\<rparr>)))"
  using assms by (simp add: assessHandoffContinuity_def launch_active_def Let_def)

lemma assess_completed_state:
  assumes "launch_active p"
  shows "lc_State (assessLaunchControl t (Some p) launch) = LaunchControlStateCompleted
    \<longleftrightarrow> launch_completed launch"
  by (simp add: assessLaunchControl_active_state[OF assms] launch_completed_def
      split: option.split LaunchStatus.split)

text \<open>
  The launch of a handoff may be (re)tried exactly when the packet targets Claude, is
  created or accepted, is resumable, and either has no durable launch attempt or its latest
  attempt failed; an attempt whose outcome is unknown blocks the retry.
\<close>

theorem launch_retry_allowed_iff:
  "lc_RetryDisposition (assessLaunchControl t (Some p) launch) = LaunchRetryDispositionAllowed \<longleftrightarrow>
     h_TargetWorker p = WorkerKindClaude
     \<and> (h_Status p = HandoffStatusCreated \<or> h_Status p = HandoffStatusAccepted)
     \<and> h_IsResumable p
     \<and> (case launch of None \<Rightarrow> True | Some l \<Rightarrow> l_Status l = LaunchStatusFailed)"
  by (auto simp: assessLaunchControl_def launch_control_zero_def Let_def launch_outcome_control_state
      split: option.splits LaunchStatus.splits)

text \<open>
  Downstream continuation is reported as proven exactly when the packet is an accepted,
  resumable Claude handoff whose launch completed, whose acknowledgment is persisted and whose
  latest follow-through is proof of life or a confirmed continuation: an acknowledgment alone
  never proves it.
\<close>

theorem downstream_proven_iff:
  "hc_DownstreamContinuationProven (assessHandoffContinuity t (Some p) launch ack ft res) \<longleftrightarrow>
     launch_active p \<and> launch_completed launch \<and> ack \<noteq> None \<and> ft_proves ft"
proof (cases "launch_active p")
  case False
  then show ?thesis by (simp add: assessHandoffContinuity_inactive)
next
  case True
  show ?thesis
  proof (cases "launch_completed launch")
    case c: True
    show ?thesis
      using launch_continuity_completed(1)[of "assessLaunchControl t (Some p) launch"]
      by (simp add: assessHandoffContinuity_active[OF True] Let_def assess_completed_state[OF True] c True
          handoff_continuity_zero_def)
  next
    case c: False
    show ?thesis
      using launch_continuity_not_completed(1)[of "assessLaunchControl t (Some p) launch"]
      by (simp add: assessHandoffContinuity_active[OF True] Let_def assess_completed_state[OF True] c True
          handoff_continuity_zero_def)
  qed
qed

text \<open>
  C21. A resolved handoff branch is reported as resolved except when its launch completed, an
  acknowledgment is persisted and a follow-through of one of the four known kinds exists: in
  that case the follow-through state is returned before the resolution is looked at.
\<close>

theorem resolved_state_iff:
  "hc_State (assessHandoffContinuity t (Some p) launch ack ft res) = HandoffContinuityStateResolved \<longleftrightarrow>
     launch_active p \<and> resolves p res \<and> \<not> (launch_completed launch \<and> ack \<noteq> None \<and> ft_decisive ft)"
proof (cases "launch_active p")
  case False
  then show ?thesis by (simp add: assessHandoffContinuity_inactive)
next
  case True
  show ?thesis
  proof (cases "launch_completed launch")
    case c: True
    show ?thesis
      using launch_continuity_completed(2)[of "assessLaunchControl t (Some p) launch"]
      by (simp add: assessHandoffContinuity_active[OF True] Let_def assess_completed_state[OF True] c True
          handoff_continuity_zero_def)
  next
    case c: False
    show ?thesis
      using launch_continuity_not_completed(2)[of "assessLaunchControl t (Some p) launch"]
      by (simp add: assessHandoffContinuity_active[OF True] Let_def assess_completed_state[OF True] c True
          handoff_continuity_zero_def)
  qed
qed

end
