(* ===== verification/Continuity.thy ===== *)
theory Continuity
  imports HandoffContinuity
begin

text \<open>
  internal/orchestrator/continuity.go: the continuity snapshot of a task (its capsule and the
  latest run, checkpoint, handoff records, resolution and recovery action), the active Claude
  handoff branch, and the validation of the snapshot's cross references.
\<close>

datatype continuityViolationCode =
    continuityViolationCapsuleBriefMissing
  | continuityViolationCapsuleIntentMissing
  | continuityViolationCheckpointTaskMismatch
  | continuityViolationCheckpointRunMissing
  | continuityViolationCheckpointBriefMissing
  | continuityViolationCheckpointResumablePhase
  | continuityViolationRunTaskMismatch
  | continuityViolationRunBriefMissing
  | continuityViolationRunPhaseMismatch
  | continuityViolationRunningRunCheckpointMismatch
  | continuityViolationLatestHandoffTaskMismatch
  | continuityViolationLatestHandoffBriefMissing
  | continuityViolationLatestHandoffCheckpointMissing
  | continuityViolationLatestHandoffCheckpointMismatch
  | continuityViolationLatestHandoffAcceptedInvalid
  | continuityViolationLatestLaunchInvalid
  | continuityViolationLatestAckInvalid
  | continuityViolationLatestFollowThroughInvalid
  | continuityViolationLatestResolutionInvalid
  | continuityViolationLatestRecoveryActionInvalid

primrec continuityViolationCode_str :: "continuityViolationCode \<Rightarrow> string" where
  "continuityViolationCode_str continuityViolationCapsuleBriefMissing = ''CAPSULE_BRIEF_MISSING''"
| "continuityViolationCode_str continuityViolationCapsuleIntentMissing = ''CAPSULE_INTENT_MISSING''"
| "continuityViolationCode_str continuityViolationCheckpointTaskMismatch = ''CHECKPOINT_TASK_MISMATCH''"
| "continuityViolationCode_str continuityViolationCheckpointRunMissing = ''CHECKPOINT_RUN_MISSING''"
| "continuityViolationCode_str continuityViolationCheckpointBriefMissing = ''CHECKPOINT_BRIEF_MISSING''"
| "continuityViolationCode_str continuityViolationCheckpointResumablePhase = ''CHECKPOINT_RESUMABLE_PHASE_INVALID''"
| "continuityViolationCode_str continuityViolationRunTaskMismatch = ''RUN_TASK_MISMATCH''"
| "continuityViolationCode_str continuityViolationRunBriefMissing = ''RUN_BRIEF_MISSING''"
| "continuityViolationCode_str continuityViolationRunPhaseMismatch = ''RUN_PHASE_MISMATCH''"
| "continuityViolationCode_str continuityViolationRunningRunCheckpointMismatch = ''RUNNING_RUN_CHECKPOINT_MISMATCH''"
| "continuityViolationCode_str continuityViolationLatestHandoffTaskMismatch = ''LATEST_HANDOFF_TASK_MISMATCH''"
| "continuityViolationCode_str continuityViolationLatestHandoffBriefMissing = ''LATEST_HANDOFF_BRIEF_MISSING''"
| "continuityViolationCode_str continuityViolationLatestHandoffCheckpointMissing = ''LATEST_HANDOFF_CHECKPOINT_MISSING''"
| "continuityViolationCode_str continuityViolationLatestHandoffCheckpointMismatch = ''LATEST_HANDOFF_CHECKPOINT_MISMATCH''"
| "continuityViolationCode_str continuityViolationLatestHandoffAcceptedInvalid = ''LATEST_HANDOFF_ACCEPTED_INVALID''"
| "continuityViolationCode_str continuityViolationLatestLaunchInvalid = ''LATEST_LAUNCH_INVALID''"
| "continuityViolationCode_str continuityViolationLatestAckInvalid = ''LATEST_ACK_INVALID''"
| "continuityViolationCode_str continuityViolationLatestFollowThroughInvalid = ''LATEST_FOLLOW_THROUGH_INVALID''"
| "continuityViolationCode_str continuityViolationLatestResolutionInvalid = ''LATEST_RESOLUTION_INVALID''"
| "continuityViolationCode_str continuityViolationLatestRecoveryActionInvalid = ''LATEST_RECOVERY_ACTION_INVALID''"

record continuityViolation =
  v_Code :: continuityViolationCode
  v_Message :: string

record continuitySnapshot =
  sn_Capsule :: WorkCapsule
  sn_LatestRun :: "ExecutionRun option"
  sn_LatestCheckpoint :: "Checkpoint option"
  sn_LatestHandoff :: "Packet option"
  sn_LatestLaunch :: "Launch option"
  sn_LatestAcknowledgment :: "Acknowledgment option"
  sn_LatestFollowThrough :: "FollowThrough option"
  sn_ActiveHandoff :: "Packet option"
  sn_ActiveLaunch :: "Launch option"
  sn_ActiveAcknowledgment :: "Acknowledgment option"
  sn_ActiveFollowThrough :: "FollowThrough option"
  sn_LatestResolution :: "Resolution option"
  sn_LatestRecoveryAction :: "RecoveryRecord option"

section \<open>Loading\<close>

text \<open>The launch, acknowledgment and follow-through records of a handoff.\<close>

definition handoff_records ::
  "string \<Rightarrow> Db \<Rightarrow> go_error + (Launch option \<times> Acknowledgment option \<times> FollowThrough option)" where
  "handoff_records k d =
     rbnd (opt_rows (handoffs_LatestLaunchByHandoff k d)) (\<lambda>l.
     rbnd (opt_rows (handoffs_LatestAcknowledgment k d)) (\<lambda>a.
     rbnd (opt_rows (handoffs_LatestFollowThrough k d)) (\<lambda>f. Inr (l, a, f))))"

type_synonym branch_records =
  "Packet option \<times> Launch option \<times> Acknowledgment option \<times> FollowThrough option"

fun active_branch_of :: "Packet list \<Rightarrow> Db \<Rightarrow> go_error + branch_records" where
  "active_branch_of [] d = Inr (None, None, None, None)"
| "active_branch_of (p # ps) d =
     (if h_TargetWorker p \<noteq> WorkerKindClaude \<or> h_Status p \<noteq> HandoffStatusAccepted
      then active_branch_of ps d
      else (case handoffs_LatestResolution (h_HandoffID p) d of
              Inr r \<Rightarrow> active_branch_of ps d
            | Inl e \<Rightarrow>
                (if is_no_rows e
                 then rbnd (handoff_records (h_HandoffID p) d) (\<lambda>(l, a, f). Inr (Some p, l, a, f))
                 else Inl e)))"

definition loadActiveClaudeHandoffBranch :: "TaskID \<Rightarrow> Db \<Rightarrow> go_error + branch_records" where
  "loadActiveClaudeHandoffBranch taskID d = active_branch_of (handoffs_ListByTask taskID 12 d) d"

definition loadContinuitySnapshot :: "TaskID \<Rightarrow> Db \<Rightarrow> go_error + continuitySnapshot" where
  "loadContinuitySnapshot taskID d =
     rbnd (capsules_Get taskID d) (\<lambda>caps.
     rbnd (opt_rows (runs_LatestByTask taskID d)) (\<lambda>run.
     rbnd (opt_rows (checkpoints_LatestByTask taskID d)) (\<lambda>cp.
     rbnd (opt_rows (handoffs_LatestByTask taskID d)) (\<lambda>packet.
     rbnd (case packet of None \<Rightarrow> Inr (None, None, None)
           | Some p \<Rightarrow> handoff_records (h_HandoffID p) d) (\<lambda>(l, a, f).
     rbnd (opt_rows (handoffs_LatestResolutionByTask taskID d)) (\<lambda>res.
     rbnd (loadActiveClaudeHandoffBranch taskID d) (\<lambda>(ap, al, aa, af).
     rbnd (opt_rows (actions_LatestByTask taskID d)) (\<lambda>action.
       Inr \<lparr>sn_Capsule = caps, sn_LatestRun = run, sn_LatestCheckpoint = cp,
            sn_LatestHandoff = packet, sn_LatestLaunch = l, sn_LatestAcknowledgment = a,
            sn_LatestFollowThrough = f, sn_ActiveHandoff = ap, sn_ActiveLaunch = al,
            sn_ActiveAcknowledgment = aa, sn_ActiveFollowThrough = af,
            sn_LatestResolution = res, sn_LatestRecoveryAction = action\<rparr>))))))))"

section \<open>Validation\<close>

definition violate :: "bool \<Rightarrow> continuityViolationCode \<Rightarrow> string \<Rightarrow> continuityViolation list" where
  "violate c code msg = (if c then [\<lparr>v_Code = code, v_Message = msg\<rparr>] else [])"

text \<open>\<open>if _, err := ...Get(id); err != nil { if ErrNoRows { violation } else { return err } }\<close>\<close>

definition missing ::
  "go_error + 'a \<Rightarrow> continuityViolationCode \<Rightarrow> string \<Rightarrow> ('a \<Rightarrow> continuityViolation list)
     \<Rightarrow> go_error + continuityViolation list" where
  "missing r code msg f = rbnd (opt_rows r)
     (\<lambda>v. case v of None \<Rightarrow> Inr (violate True code msg) | Some a \<Rightarrow> Inr (f a))"

fun collect :: "(go_error + continuityViolation list) list \<Rightarrow> go_error + continuityViolation list" where
  "collect [] = Inr []"
| "collect (r # rs) = rbnd r (\<lambda>v. rbnd (collect rs) (\<lambda>vs. Inr (v @ vs)))"

declare collect.simps(2) [simp del]

definition validateCheckpointContinuity ::
  "Checkpoint \<Rightarrow> WorkCapsule \<Rightarrow> Db \<Rightarrow> go_error + continuityViolation list" where
  "validateCheckpointContinuity cp caps d = collect
     [Inr (violate (k_TaskID cp \<noteq> c_TaskID caps) continuityViolationCheckpointTaskMismatch
        (''latest checkpoint task mismatch: checkpoint task='' @ k_TaskID cp @ '' capsule task='' @ c_TaskID caps)),
      (if k_BriefID cp \<noteq> []
       then missing (briefs_Get (k_BriefID cp) d) continuityViolationCheckpointBriefMissing
         (''latest checkpoint references missing brief '' @ k_BriefID cp) (\<lambda>_. [])
       else Inr []),
      (if k_RunID cp \<noteq> []
       then missing (runs_Get (k_RunID cp) d) continuityViolationCheckpointRunMissing
         (''latest checkpoint references missing run '' @ k_RunID cp)
         (\<lambda>r. violate (r_TaskID r \<noteq> c_TaskID caps) continuityViolationCheckpointTaskMismatch
           (''latest checkpoint run task mismatch: run task='' @ r_TaskID r @ '' capsule task='' @ c_TaskID caps))
       else Inr []),
      Inr (violate (k_IsResumable cp \<and> (k_Phase cp = PhaseAwaitingDecision \<or> k_Phase cp = PhaseBlocked))
        continuityViolationCheckpointResumablePhase
        (''latest checkpoint '' @ k_CheckpointID cp @ '' is marked resumable in incompatible phase ''
          @ Phase_str (k_Phase cp)))]"

definition validateRunContinuity ::
  "ExecutionRun \<Rightarrow> Checkpoint option \<Rightarrow> WorkCapsule \<Rightarrow> Db \<Rightarrow> go_error + continuityViolation list" where
  "validateRunContinuity r cp caps d = collect
     [Inr (violate (r_TaskID r \<noteq> c_TaskID caps) continuityViolationRunTaskMismatch
        (''latest run task mismatch: run task='' @ r_TaskID r @ '' capsule task='' @ c_TaskID caps)),
      (if r_BriefID r = []
       then Inr (violate True continuityViolationRunBriefMissing ''latest run has empty brief reference'')
       else missing (briefs_Get (r_BriefID r) d) continuityViolationRunBriefMissing
         (''latest run references missing brief '' @ r_BriefID r) (\<lambda>_. [])),
      (if r_Status r = RunStatusRunning
       then Inr (violate (c_CurrentPhase caps \<noteq> PhaseExecuting) continuityViolationRunPhaseMismatch
             (''latest run '' @ r_RunID r @ '' is RUNNING but capsule phase is ''
               @ Phase_str (c_CurrentPhase caps))
           @ violate (c_CurrentBriefID caps \<noteq> [] \<and> c_CurrentBriefID caps \<noteq> r_BriefID r)
             continuityViolationRunPhaseMismatch
             (''RUNNING run brief '' @ r_BriefID r @ '' does not match capsule brief '' @ c_CurrentBriefID caps)
           @ (case cp of None \<Rightarrow> []
              | Some k \<Rightarrow>
                 (if k_RunID k = []
                  then violate True continuityViolationRunningRunCheckpointMismatch
                    (''RUNNING run '' @ r_RunID r @ '' has checkpoint linkage without run_id'')
                  else violate (k_RunID k \<noteq> r_RunID r) continuityViolationRunningRunCheckpointMismatch
                    (''RUNNING run '' @ r_RunID r @ '' does not match checkpoint run linkage '' @ k_RunID k))))
       else Inr (violate (c_CurrentPhase caps = PhaseExecuting) continuityViolationRunPhaseMismatch
             (''capsule phase EXECUTING is inconsistent with latest run terminal status ''
               @ RunStatus_str (r_Status r))))]"

definition validateHandoffCheckpoint ::
  "Packet \<Rightarrow> WorkCapsule \<Rightarrow> Checkpoint \<Rightarrow> continuityViolation list" where
  "validateHandoffCheckpoint p caps cp =
     violate (k_TaskID cp \<noteq> c_TaskID caps) continuityViolationLatestHandoffTaskMismatch
       (''latest handoff checkpoint task mismatch: checkpoint task='' @ k_TaskID cp @ '' capsule task='' @ c_TaskID caps)
     @ violate (h_IsResumable p \<and> \<not> k_IsResumable cp) continuityViolationLatestHandoffCheckpointMismatch
       (''latest handoff '' @ h_HandoffID p @ '' claims resumable continuity but checkpoint ''
         @ h_CheckpointID p @ '' is not resumable'')
     @ violate (h_BriefID p \<noteq> [] \<and> k_BriefID cp \<noteq> [] \<and> h_BriefID p \<noteq> k_BriefID cp)
       continuityViolationLatestHandoffCheckpointMismatch
       (''latest handoff brief '' @ h_BriefID p @ '' does not match checkpoint brief '' @ k_BriefID cp)
     @ violate (h_IntentID p \<noteq> [] \<and> k_IntentID cp \<noteq> [] \<and> h_IntentID p \<noteq> k_IntentID cp)
       continuityViolationLatestHandoffCheckpointMismatch
       (''latest handoff intent '' @ h_IntentID p @ '' does not match checkpoint intent '' @ k_IntentID cp)"

definition validateAcceptanceFields :: "Packet \<Rightarrow> continuityViolation list" where
  "validateAcceptanceFields p =
     (let by_none = (WorkerKind_str (h_AcceptedBy p) = []) in
      case h_Status p of
        HandoffStatusAccepted \<Rightarrow> violate (by_none \<or> h_AcceptedAt p = None)
          continuityViolationLatestHandoffAcceptedInvalid
          (''latest handoff '' @ h_HandoffID p @ '' is ACCEPTED without accepted_by and accepted_at'')
      | HandoffStatusCreated \<Rightarrow> violate (\<not> by_none \<or> h_AcceptedAt p \<noteq> None)
          continuityViolationLatestHandoffAcceptedInvalid
          (''latest handoff '' @ h_HandoffID p @ '' is CREATED but carries acceptance fields'')
      | HandoffStatusBlocked \<Rightarrow> violate (\<not> by_none \<or> h_AcceptedAt p \<noteq> None)
          continuityViolationLatestHandoffAcceptedInvalid
          (''latest handoff '' @ h_HandoffID p @ '' is BLOCKED but carries acceptance fields'')
      | HandoffStatusOther s \<Rightarrow> [])"

definition validateLaunch ::
  "Packet \<Rightarrow> WorkCapsule \<Rightarrow> Acknowledgment option \<Rightarrow> Launch \<Rightarrow> continuityViolation list" where
  "validateLaunch p caps ack l =
     violate (l_TaskID l \<noteq> c_TaskID caps) continuityViolationLatestLaunchInvalid
       (''latest launch task mismatch: launch task='' @ l_TaskID l @ '' capsule task='' @ c_TaskID caps)
     @ violate (l_HandoffID l \<noteq> h_HandoffID p) continuityViolationLatestLaunchInvalid
       (''latest launch handoff mismatch: launch handoff='' @ l_HandoffID l @ '' latest handoff='' @ h_HandoffID p)
     @ violate (l_TargetWorker l \<noteq> h_TargetWorker p) continuityViolationLatestLaunchInvalid
       (''latest launch target '' @ WorkerKind_str (l_TargetWorker l) @ '' does not match latest handoff target ''
         @ WorkerKind_str (h_TargetWorker p))
     @ violate (h_Status p = HandoffStatusBlocked) continuityViolationLatestLaunchInvalid
       (''latest handoff '' @ h_HandoffID p @ '' is BLOCKED but has a persisted launch attempt'')
     @ (case l_Status l of
          LaunchStatusRequested \<Rightarrow> []
        | LaunchStatusCompleted \<Rightarrow> violate (is_zero_time (l_EndedAt l)) continuityViolationLatestLaunchInvalid
            (''latest launch '' @ l_AttemptID l @ '' is COMPLETED without ended_at'')
        | LaunchStatusFailed \<Rightarrow> violate (is_zero_time (l_EndedAt l)) continuityViolationLatestLaunchInvalid
            (''latest launch '' @ l_AttemptID l @ '' is FAILED without ended_at'')
        | LaunchStatusOther s \<Rightarrow> violate True continuityViolationLatestLaunchInvalid
            (''latest launch '' @ l_AttemptID l @ '' has unsupported status '' @ s))
     @ violate (l_Status l = LaunchStatusCompleted \<and> ack = None) continuityViolationLatestAckInvalid
       (''latest completed launch '' @ l_AttemptID l @ '' for handoff '' @ h_HandoffID p
         @ '' has no persisted acknowledgment'')"

definition validateAcknowledgment ::
  "Packet \<Rightarrow> WorkCapsule \<Rightarrow> Launch option \<Rightarrow> Acknowledgment \<Rightarrow> continuityViolation list" where
  "validateAcknowledgment p caps launch a =
     violate (a_TaskID a \<noteq> c_TaskID caps) continuityViolationLatestAckInvalid
       (''latest acknowledgment task mismatch: ack task='' @ a_TaskID a @ '' capsule task='' @ c_TaskID caps)
     @ violate (a_HandoffID a \<noteq> h_HandoffID p) continuityViolationLatestAckInvalid
       (''latest acknowledgment handoff mismatch: ack handoff='' @ a_HandoffID a @ '' latest handoff='' @ h_HandoffID p)
     @ violate (a_TargetWorker a \<noteq> h_TargetWorker p) continuityViolationLatestAckInvalid
       (''latest acknowledgment target '' @ WorkerKind_str (a_TargetWorker a)
         @ '' does not match latest handoff target '' @ WorkerKind_str (h_TargetWorker p))
     @ violate (h_Status p = HandoffStatusBlocked) continuityViolationLatestAckInvalid
       (''latest handoff '' @ h_HandoffID p @ '' is BLOCKED but has a persisted launch acknowledgment'')
     @ violate (TrimSpace (a_LaunchID a) = []) continuityViolationLatestAckInvalid
       (''latest acknowledgment for handoff '' @ h_HandoffID p @ '' has empty launch id'')
     @ (case launch of
          None \<Rightarrow> []
        | Some l \<Rightarrow>
           (case l_Status l of
              LaunchStatusCompleted \<Rightarrow>
                violate (TrimSpace (l_LaunchID l) \<noteq> [] \<and> a_LaunchID a \<noteq> l_LaunchID l)
                  continuityViolationLatestAckInvalid
                  (''latest acknowledgment launch '' @ a_LaunchID a
                    @ '' does not match latest completed launch '' @ l_LaunchID l)
            | LaunchStatusFailed \<Rightarrow>
                violate (TrimSpace (a_LaunchID a) \<noteq> [] \<and> (a_LaunchID a = l_LaunchID l \<or> l_LaunchID l = []))
                  continuityViolationLatestAckInvalid
                  (''latest failed launch '' @ l_AttemptID l
                    @ '' should not have acknowledgment state for the same attempt'')
            | _ \<Rightarrow> []))"

definition validateFollowThrough ::
  "Packet \<Rightarrow> WorkCapsule \<Rightarrow> Launch option \<Rightarrow> FollowThrough \<Rightarrow> continuityViolation list" where
  "validateFollowThrough p caps launch f =
     violate (f_TaskID f \<noteq> c_TaskID caps) continuityViolationLatestFollowThroughInvalid
       (''latest follow-through task mismatch: record task='' @ f_TaskID f @ '' capsule task='' @ c_TaskID caps)
     @ violate (f_HandoffID f \<noteq> h_HandoffID p) continuityViolationLatestFollowThroughInvalid
       (''latest follow-through handoff mismatch: record handoff='' @ f_HandoffID f @ '' latest handoff='' @ h_HandoffID p)
     @ violate (f_TargetWorker f \<noteq> h_TargetWorker p) continuityViolationLatestFollowThroughInvalid
       (''latest follow-through target '' @ WorkerKind_str (f_TargetWorker f)
         @ '' does not match latest handoff target '' @ WorkerKind_str (h_TargetWorker p))
     @ (case launch of
          None \<Rightarrow> violate True continuityViolationLatestFollowThroughInvalid
            (''latest follow-through for handoff '' @ h_HandoffID p @ '' exists without a persisted launch attempt'')
        | Some l \<Rightarrow>
            violate (l_Status l \<noteq> LaunchStatusCompleted) continuityViolationLatestFollowThroughInvalid
              (''latest follow-through for handoff '' @ h_HandoffID p @ '' exists but latest launch ''
                @ l_AttemptID l @ '' is not COMPLETED'')
            @ (if TrimSpace (f_LaunchAttemptID f) = []
               then violate True continuityViolationLatestFollowThroughInvalid
                 (''latest follow-through for handoff '' @ h_HandoffID p @ '' has empty launch attempt id'')
               else violate (f_LaunchAttemptID f \<noteq> l_AttemptID l) continuityViolationLatestFollowThroughInvalid
                 (''latest follow-through launch attempt '' @ f_LaunchAttemptID f
                   @ '' does not match latest launch '' @ l_AttemptID l))
            @ violate (TrimSpace (f_LaunchID f) \<noteq> [] \<and> TrimSpace (l_LaunchID l) \<noteq> []
                \<and> f_LaunchID f \<noteq> l_LaunchID l) continuityViolationLatestFollowThroughInvalid
              (''latest follow-through launch id '' @ f_LaunchID f @ '' does not match latest launch id '' @ l_LaunchID l))"

definition validateResolution ::
  "WorkCapsule \<Rightarrow> Resolution \<Rightarrow> Db \<Rightarrow> go_error + continuityViolation list" where
  "validateResolution caps r d = collect
     [(if s_TaskID r \<noteq> c_TaskID caps
       then Inr (violate True continuityViolationLatestResolutionInvalid
         (''latest handoff resolution task '' @ s_TaskID r @ '' does not match capsule task '' @ c_TaskID caps))
       else missing (handoffs_Get (s_HandoffID r) d) continuityViolationLatestResolutionInvalid
         (''latest handoff resolution references missing handoff '' @ s_HandoffID r)
         (\<lambda>p. violate (h_TaskID p \<noteq> s_TaskID r) continuityViolationLatestResolutionInvalid
                (''latest handoff resolution task '' @ s_TaskID r @ '' does not match handoff task '' @ h_TaskID p)
            @ violate (s_TargetWorker r \<noteq> h_TargetWorker p) continuityViolationLatestResolutionInvalid
                (''latest handoff resolution target '' @ WorkerKind_str (s_TargetWorker r)
                  @ '' does not match handoff target '' @ WorkerKind_str (h_TargetWorker p)))),
      (if s_LaunchAttemptID r = []
       then Inr (violate (s_LaunchID r \<noteq> []) continuityViolationLatestResolutionInvalid
         ''latest handoff resolution has a launch id without a launch attempt id'')
       else missing (handoffs_GetLaunch (s_LaunchAttemptID r) d) continuityViolationLatestResolutionInvalid
         (''latest handoff resolution references missing launch attempt '' @ s_LaunchAttemptID r)
         (\<lambda>l. violate (l_HandoffID l \<noteq> s_HandoffID r) continuityViolationLatestResolutionInvalid
                (''latest handoff resolution launch attempt '' @ s_LaunchAttemptID r @ '' belongs to handoff ''
                  @ l_HandoffID l @ '', not '' @ s_HandoffID r)
            @ violate (l_TaskID l \<noteq> s_TaskID r) continuityViolationLatestResolutionInvalid
                (''latest handoff resolution launch attempt '' @ s_LaunchAttemptID r @ '' belongs to task ''
                  @ l_TaskID l @ '', not '' @ s_TaskID r)
            @ violate (s_LaunchID r \<noteq> [] \<and> l_LaunchID l \<noteq> [] \<and> s_LaunchID r \<noteq> l_LaunchID l)
                continuityViolationLatestResolutionInvalid
                (''latest handoff resolution launch '' @ s_LaunchID r
                  @ '' does not match launch attempt launch id '' @ l_LaunchID l)))]"

definition validateHandoffContinuity ::
  "continuitySnapshot \<Rightarrow> Packet \<Rightarrow> Db \<Rightarrow> go_error + continuityViolation list" where
  "validateHandoffContinuity sn p d =
     (let caps = sn_Capsule sn in collect
     [Inr (violate (h_TaskID p \<noteq> c_TaskID caps) continuityViolationLatestHandoffTaskMismatch
        (''latest handoff task mismatch: handoff task='' @ h_TaskID p @ '' capsule task='' @ c_TaskID caps)),
      (if h_BriefID p = []
       then Inr (violate True continuityViolationLatestHandoffBriefMissing
         (''latest handoff '' @ h_HandoffID p @ '' has empty brief reference''))
       else missing (briefs_Get (h_BriefID p) d) continuityViolationLatestHandoffBriefMissing
         (''latest handoff references missing brief '' @ h_BriefID p) (\<lambda>_. [])),
      (if h_CheckpointID p = []
       then Inr (violate True continuityViolationLatestHandoffCheckpointMissing
         (''latest handoff '' @ h_HandoffID p @ '' has empty checkpoint reference''))
       else missing (checkpoints_Get (h_CheckpointID p) d) continuityViolationLatestHandoffCheckpointMissing
         (''latest handoff references missing checkpoint '' @ h_CheckpointID p)
         (validateHandoffCheckpoint p caps)),
      Inr (validateAcceptanceFields p),
      Inr (case sn_LatestLaunch sn of None \<Rightarrow> []
           | Some l \<Rightarrow> validateLaunch p caps (sn_LatestAcknowledgment sn) l),
      Inr (case sn_LatestAcknowledgment sn of None \<Rightarrow> []
           | Some a \<Rightarrow> validateAcknowledgment p caps (sn_LatestLaunch sn) a),
      Inr (case sn_LatestFollowThrough sn of None \<Rightarrow> []
           | Some f \<Rightarrow> validateFollowThrough p caps (sn_LatestLaunch sn) f),
      (case sn_LatestResolution sn of None \<Rightarrow> Inr [] | Some r \<Rightarrow> validateResolution caps r d)])"

definition validateRecoveryActionContinuity ::
  "RecoveryRecord \<Rightarrow> WorkCapsule \<Rightarrow> Db \<Rightarrow> go_error + continuityViolation list" where
  "validateRecoveryActionContinuity ra caps d =
     (let code = continuityViolationLatestRecoveryActionInvalid; task = c_TaskID caps in collect
     [Inr (violate (ra_TaskID ra \<noteq> task) code
        (''latest recovery action task mismatch: action task='' @ ra_TaskID ra @ '' capsule task='' @ task)),
      (if ra_RunID ra \<noteq> []
       then missing (runs_Get (ra_RunID ra) d) code
         (''latest recovery action references missing run '' @ ra_RunID ra)
         (\<lambda>r. violate (r_TaskID r \<noteq> task) code
           (''latest recovery action run task mismatch: run task='' @ r_TaskID r @ '' capsule task='' @ task))
       else Inr []),
      (if ra_CheckpointID ra \<noteq> []
       then missing (checkpoints_Get (ra_CheckpointID ra) d) code
         (''latest recovery action references missing checkpoint '' @ ra_CheckpointID ra)
         (\<lambda>k. violate (k_TaskID k \<noteq> task) code
           (''latest recovery action checkpoint task mismatch: checkpoint task='' @ k_TaskID k @ '' capsule task='' @ task))
       else Inr []),
      (if ra_HandoffID ra \<noteq> []
       then missing (handoffs_Get (ra_HandoffID ra) d) code
         (''latest recovery action references missing handoff '' @ ra_HandoffID ra)
         (\<lambda>p. violate (h_TaskID p \<noteq> task) code
           (''latest recovery action handoff task mismatch: handoff task='' @ h_TaskID p @ '' capsule task='' @ task))
       else Inr []),
      (if ra_LaunchAttemptID ra \<noteq> []
       then missing (handoffs_GetLaunch (ra_LaunchAttemptID ra) d) code
         (''latest recovery action references missing launch attempt '' @ ra_LaunchAttemptID ra)
         (\<lambda>l. violate (l_TaskID l \<noteq> task) code
           (''latest recovery action launch task mismatch: launch task='' @ l_TaskID l @ '' capsule task='' @ task))
       else Inr [])])"

definition violation_key :: "continuityViolation \<Rightarrow> string" where
  "violation_key v = continuityViolationCode_str (v_Code v) @ ''|'' @ v_Message v"

fun dedupe_violations :: "string set \<Rightarrow> continuityViolation list \<Rightarrow> continuityViolation list" where
  "dedupe_violations seen [] = []"
| "dedupe_violations seen (v # vs) =
     (if violation_key v \<in> seen then dedupe_violations seen vs
      else v # dedupe_violations (insert (violation_key v) seen) vs)"

definition dedupeContinuityViolations :: "continuityViolation list \<Rightarrow> continuityViolation list" where
  "dedupeContinuityViolations vs = dedupe_violations {} vs"

definition firstContinuityViolationMessage :: "continuityViolation list \<Rightarrow> string" where
  "firstContinuityViolationMessage vs = (case vs of [] \<Rightarrow> [] | v # _ \<Rightarrow> v_Message v)"

definition validateCapsuleReferences :: "WorkCapsule \<Rightarrow> Db \<Rightarrow> go_error + continuityViolation list" where
  "validateCapsuleReferences caps d = collect
     [(if c_CurrentBriefID caps = []
       then Inr (violate True continuityViolationCapsuleBriefMissing ''capsule has no current brief reference'')
       else missing (briefs_Get (c_CurrentBriefID caps) d) continuityViolationCapsuleBriefMissing
         (''capsule references missing brief '' @ c_CurrentBriefID caps) (\<lambda>_. [])),
      (if c_CurrentIntentID caps \<noteq> []
       then missing (intents_LatestByTask (c_TaskID caps) d) continuityViolationCapsuleIntentMissing
         (''capsule references missing intent '' @ c_CurrentIntentID caps)
         (\<lambda>i. violate (i_IntentID i \<noteq> c_CurrentIntentID caps) continuityViolationCapsuleIntentMissing
           (''capsule current intent '' @ c_CurrentIntentID caps @ '' does not match latest intent '' @ i_IntentID i))
       else Inr [])]"

definition validateContinuitySnapshot ::
  "continuitySnapshot \<Rightarrow> Db \<Rightarrow> go_error + continuityViolation list" where
  "validateContinuitySnapshot sn d =
     (let caps = sn_Capsule sn in
      rbnd (collect
        [validateCapsuleReferences caps d,
         (case sn_LatestCheckpoint sn of None \<Rightarrow> Inr [] | Some cp \<Rightarrow> validateCheckpointContinuity cp caps d),
         (case sn_LatestRun sn of
            Some r \<Rightarrow> validateRunContinuity r (sn_LatestCheckpoint sn) caps d
          | None \<Rightarrow> Inr (violate (c_CurrentPhase caps = PhaseExecuting) continuityViolationRunPhaseMismatch
              ''capsule phase is EXECUTING but no run exists'')),
         (case sn_LatestHandoff sn of None \<Rightarrow> Inr [] | Some p \<Rightarrow> validateHandoffContinuity sn p d),
         (case sn_LatestRecoveryAction sn of None \<Rightarrow> Inr []
          | Some ra \<Rightarrow> validateRecoveryActionContinuity ra caps d)])
        (\<lambda>vs. Inr (dedupeContinuityViolations vs)))"

definition repoAnchorsEqual :: "RepoAnchor \<Rightarrow> RepoAnchor \<Rightarrow> bool" where
  "repoAnchorsEqual a b \<longleftrightarrow> an_RepoRoot a = an_RepoRoot b \<and> an_WorktreePath a = an_WorktreePath b
     \<and> an_BranchName a = an_BranchName b \<and> an_HeadSHA a = an_HeadSHA b
     \<and> an_DirtyHash a = an_DirtyHash b \<and> an_UntrackedHash a = an_UntrackedHash b"

fun stringSlicesEqual :: "string list \<Rightarrow> string list \<Rightarrow> bool" where
  "stringSlicesEqual [] [] = True"
| "stringSlicesEqual (a # as) (b # bs) = (a = b \<and> stringSlicesEqual as bs)"
| "stringSlicesEqual _ _ = False"

lemma repoAnchorsEqual_eq: "repoAnchorsEqual (a :: RepoAnchor) b \<longleftrightarrow> a = b"
  by (cases a; cases b) (simp add: repoAnchorsEqual_def)

lemma stringSlicesEqual_eq: "stringSlicesEqual xs ys \<longleftrightarrow> xs = ys"
  by (induction xs ys rule: stringSlicesEqual.induct) auto

section \<open>The active Claude branch\<close>

definition branch_open :: "Db \<Rightarrow> Packet \<Rightarrow> bool" where
  "branch_open d p \<longleftrightarrow> h_TargetWorker p = WorkerKindClaude \<and> h_Status p = HandoffStatusAccepted
     \<and> (\<forall>r \<in> set (db_resolutions d). s_HandoffID r \<noteq> h_HandoffID p)"

lemma LatestResolution_None_iff:
  "handoffs_LatestResolution k d = Inl ErrNoRows \<longleftrightarrow> (\<forall>r \<in> set (db_resolutions d). s_HandoffID r \<noteq> k)"
  by (simp add: handoffs_LatestResolution_def tbl_latest_None_iff)

lemma LatestResolution_cases:
  obtains "handoffs_LatestResolution k d = Inl ErrNoRows" "\<forall>r \<in> set (db_resolutions d). s_HandoffID r \<noteq> k"
  | r where "handoffs_LatestResolution k d = Inr r" "\<exists>r \<in> set (db_resolutions d). s_HandoffID r = k"
proof (cases "handoffs_LatestResolution k d")
  case (Inl e)
  then have "e = ErrNoRows" by (simp add: handoffs_LatestResolution_def)
  then show ?thesis using that(1) Inl LatestResolution_None_iff by metis
next
  case (Inr r)
  then show ?thesis using that(2) LatestResolution_None_iff by (metis sum.distinct(1))
qed

lemma handoff_records_total: "\<exists>l a f. handoff_records k d = Inr (l, a, f)"
  by (simp add: handoff_records_def handoffs_LatestLaunchByHandoff_def
      handoffs_LatestAcknowledgment_def handoffs_LatestFollowThrough_def)

lemma active_branch_of_find: "\<exists>l a f. active_branch_of ps d = Inr (find (branch_open d) ps, l, a, f)"
proof (induction ps)
  case Nil
  show ?case by simp
next
  case (Cons p ps)
  obtain l a f where hr: "handoff_records (h_HandoffID p) d = Inr (l, a, f)"
    using handoff_records_total by blast
  show ?case
    by (rule LatestResolution_cases[of "h_HandoffID p" d])
      (use Cons.IH hr in \<open>auto simp: branch_open_def\<close>)
qed

text \<open>
  The active handoff branch is the newest of the task's twelve latest packets that targets
  Claude, is accepted and has no resolution on record; loading it never fails.
\<close>

theorem active_branch_newest_open:
  "\<exists>l a f. loadActiveClaudeHandoffBranch t d =
     Inr (find (branch_open d) (handoffs_ListByTask t 12 d), l, a, f)"
  unfolding loadActiveClaudeHandoffBranch_def by (rule active_branch_of_find)

section \<open>What a loaded snapshot guarantees\<close>

lemma scan_action_task [simp]: "ra_TaskID (scan_action d r) = ra_TaskID r"
  by (simp add: scan_action_def)

lemma latest_filtered: "tbl_latest ord P rows = Some r \<Longrightarrow> P r"
  by (drule tbl_latest_SomeD) simp

definition snapshot_of_task :: "TaskID \<Rightarrow> continuitySnapshot \<Rightarrow> bool" where
  "snapshot_of_task t sn \<longleftrightarrow> c_TaskID (sn_Capsule sn) = t
     \<and> (\<forall>r. sn_LatestRun sn = Some r \<longrightarrow> r_TaskID r = t)
     \<and> (\<forall>k. sn_LatestCheckpoint sn = Some k \<longrightarrow> k_TaskID k = t)
     \<and> (\<forall>p. sn_LatestHandoff sn = Some p \<longrightarrow> h_TaskID p = t)
     \<and> (\<forall>p l. sn_LatestHandoff sn = Some p \<and> sn_LatestLaunch sn = Some l \<longrightarrow> l_HandoffID l = h_HandoffID p)
     \<and> (\<forall>p a. sn_LatestHandoff sn = Some p \<and> sn_LatestAcknowledgment sn = Some a \<longrightarrow> a_HandoffID a = h_HandoffID p)
     \<and> (\<forall>p f. sn_LatestHandoff sn = Some p \<and> sn_LatestFollowThrough sn = Some f \<longrightarrow> f_HandoffID f = h_HandoffID p)
     \<and> (\<forall>r. sn_LatestResolution sn = Some r \<longrightarrow> s_TaskID r = t)
     \<and> (\<forall>r. sn_LatestRecoveryAction sn = Some r \<longrightarrow> ra_TaskID r = t)
     \<and> (sn_LatestHandoff sn = None \<longrightarrow> sn_LatestLaunch sn = None \<and> sn_LatestAcknowledgment sn = None
          \<and> sn_LatestFollowThrough sn = None)"

lemma handoff_records_belong:
  assumes "handoff_records k d = Inr (l, a, f)"
  shows "(\<forall>x. l = Some x \<longrightarrow> l_HandoffID x = k) \<and> (\<forall>x. a = Some x \<longrightarrow> a_HandoffID x = k)
    \<and> (\<forall>x. f = Some x \<longrightarrow> f_HandoffID x = k)"
  using assms
  by (auto simp: handoff_records_def handoffs_LatestLaunchByHandoff_def
      handoffs_LatestAcknowledgment_def handoffs_LatestFollowThrough_def dest: latest_filtered)

text \<open>
  Loading the snapshot of a task fails only when the task has no capsule, and every record
  in a loaded snapshot belongs to that task and to its latest handoff.
\<close>

theorem snapshot_belongs_to_task:
  "case loadContinuitySnapshot t d of
     Inl e \<Rightarrow> e = ErrNoRows \<and> t \<notin> c_TaskID ` set (db_capsules d)
   | Inr sn \<Rightarrow> snapshot_of_task t sn"
proof (cases "tbl_get c_TaskID t (db_capsules d)")
  case None
  then have "loadContinuitySnapshot t d = Inl ErrNoRows"
    by (simp add: loadContinuitySnapshot_def capsules_Get_def)
  then show ?thesis using None by (auto simp: tbl_get_None_iff)
next
  case (Some caps)
  define packet where "packet = map_option pr_packet
       (tbl_latest pr_order (\<lambda>r. h_TaskID (pr_packet r) = t) (db_packets d))"
  have packet_task: "h_TaskID p = t" if "packet = Some p" for p
    using that by (auto simp: packet_def dest: latest_filtered)
  obtain l a f where recs:
    "(case packet of None \<Rightarrow> Inr (None, None, None) | Some p \<Rightarrow> handoff_records (h_HandoffID p) d)
       = Inr (l, a, f)"
  proof (cases packet)
    case None
    then show ?thesis using that by simp
  next
    case (Some p)
    then show ?thesis using that handoff_records_total[of "h_HandoffID p" d] by auto
  qed
  obtain ap al aa af where branch: "loadActiveClaudeHandoffBranch t d = Inr (ap, al, aa, af)"
    using active_branch_of_find[of "handoffs_ListByTask t 12 d" d]
    unfolding loadActiveClaudeHandoffBranch_def by auto
  have caps_task: "c_TaskID caps = t" using Some tbl_get_SomeD by metis
  show ?thesis
    using recs packet_task caps_task handoff_records_belong[of _ d l a f]
    by (auto simp: loadContinuitySnapshot_def capsules_Get_def Some
        runs_LatestByTask_def checkpoints_LatestByTask_def handoffs_LatestByTask_def
        packet_def[symmetric] handoffs_LatestResolutionByTask_def branch actions_LatestByTask_def
        snapshot_of_task_def dest: latest_filtered split: option.splits)
qed

section \<open>Deduplication\<close>

lemma code_str_no_bar: "CHR ''|'' \<notin> set (continuityViolationCode_str c)"
  by (cases c) simp_all

lemma append_bar_cancel:
  "xs @ CHR ''|'' # us = ys @ CHR ''|'' # vs \<Longrightarrow> CHR ''|'' \<notin> set xs \<Longrightarrow> CHR ''|'' \<notin> set ys
     \<Longrightarrow> xs = ys \<and> us = vs"
proof (induction xs arbitrary: ys)
  case Nil
  then show ?case by (cases ys) auto
next
  case (Cons x xs)
  then show ?case by (cases ys) auto
qed

definition all_violation_codes :: "continuityViolationCode list" where
  "all_violation_codes =
     [continuityViolationCapsuleBriefMissing,
      continuityViolationCapsuleIntentMissing,
      continuityViolationCheckpointTaskMismatch,
      continuityViolationCheckpointRunMissing,
      continuityViolationCheckpointBriefMissing,
      continuityViolationCheckpointResumablePhase,
      continuityViolationRunTaskMismatch,
      continuityViolationRunBriefMissing,
      continuityViolationRunPhaseMismatch,
      continuityViolationRunningRunCheckpointMismatch,
      continuityViolationLatestHandoffTaskMismatch,
      continuityViolationLatestHandoffBriefMissing,
      continuityViolationLatestHandoffCheckpointMissing,
      continuityViolationLatestHandoffCheckpointMismatch,
      continuityViolationLatestHandoffAcceptedInvalid,
      continuityViolationLatestLaunchInvalid,
      continuityViolationLatestAckInvalid,
      continuityViolationLatestFollowThroughInvalid,
      continuityViolationLatestResolutionInvalid,
      continuityViolationLatestRecoveryActionInvalid]"

lemma all_violation_codes: "c \<in> set all_violation_codes"
  by (cases c) (simp_all add: all_violation_codes_def)

lemma violation_codes_distinct: "distinct (map continuityViolationCode_str all_violation_codes)"
  by code_simp

lemma continuityViolationCode_str_inj: "continuityViolationCode_str a = continuityViolationCode_str b \<Longrightarrow> a = b"
  using violation_codes_distinct all_violation_codes
  by (simp only: distinct_map inj_on_def)

lemma violation_key_inj: "violation_key u = violation_key v \<longleftrightarrow> u = v"
proof
  assume "violation_key u = violation_key v"
  then have "continuityViolationCode_str (v_Code u) @ CHR ''|'' # v_Message u
      = continuityViolationCode_str (v_Code v) @ CHR ''|'' # v_Message v"
    by (simp add: violation_key_def)
  then have "continuityViolationCode_str (v_Code u) = continuityViolationCode_str (v_Code v)
      \<and> v_Message u = v_Message v"
    by (rule append_bar_cancel[OF _ code_str_no_bar code_str_no_bar])
  then have "v_Code u = v_Code v" "v_Message u = v_Message v"
    using continuityViolationCode_str_inj by blast+
  then show "u = v" by simp
qed simp

lemma dedupe_violations_props:
  "set (dedupe_violations seen vs) = {v \<in> set vs. violation_key v \<notin> seen}
   \<and> distinct (dedupe_violations seen vs) \<and> subseq (dedupe_violations seen vs) vs"
proof (induction vs arbitrary: seen)
  case Nil
  show ?case by simp
next
  case (Cons v vs)
  show ?case
  proof (cases "violation_key v \<in> seen")
    case True
    then show ?thesis using Cons.IH[of seen] by auto
  next
    case False
    then show ?thesis
      using Cons.IH[of "insert (violation_key v) seen"] by (auto simp: violation_key_inj)
  qed
qed

text \<open>
  Deduplication keeps exactly the violations that were reported, once each, in the order
  they were reported: the textual key code|message never identifies two different violations.
\<close>

theorem dedupe_exact:
  "set (dedupeContinuityViolations vs) = set vs \<and> distinct (dedupeContinuityViolations vs)
     \<and> subseq (dedupeContinuityViolations vs) vs"
  using dedupe_violations_props[of "{}" vs] by (simp add: dedupeContinuityViolations_def)

section \<open>A clean validation is referential consistency\<close>

definition has_brief :: "Db \<Rightarrow> BriefID \<Rightarrow> bool" where
  "has_brief d b \<longleftrightarrow> b \<in> b_BriefID ` set (db_briefs d)"

definition run_in_task :: "Db \<Rightarrow> TaskID \<Rightarrow> RunID \<Rightarrow> bool" where
  "run_in_task d t k \<longleftrightarrow> (\<exists>r. runs_Get k d = Inr r \<and> r_TaskID r = t)"

definition checkpoint_in_task :: "Db \<Rightarrow> TaskID \<Rightarrow> CheckpointID \<Rightarrow> bool" where
  "checkpoint_in_task d t k \<longleftrightarrow> (\<exists>c. checkpoints_Get k d = Inr c \<and> k_TaskID c = t)"

definition handoff_in_task :: "Db \<Rightarrow> TaskID \<Rightarrow> string \<Rightarrow> bool" where
  "handoff_in_task d t k \<longleftrightarrow> (\<exists>p. handoffs_Get k d = Inr p \<and> h_TaskID p = t)"

definition launch_in_task :: "Db \<Rightarrow> TaskID \<Rightarrow> string \<Rightarrow> bool" where
  "launch_in_task d t k \<longleftrightarrow> (\<exists>l. handoffs_GetLaunch k d = Inr l \<and> l_TaskID l = t)"

definition capsule_refs_ok :: "Db \<Rightarrow> WorkCapsule \<Rightarrow> bool" where
  "capsule_refs_ok d caps \<longleftrightarrow> c_CurrentBriefID caps \<noteq> [] \<and> has_brief d (c_CurrentBriefID caps)
     \<and> (c_CurrentIntentID caps \<noteq> [] \<longrightarrow>
          (\<exists>i. intents_LatestByTask (c_TaskID caps) d = Inr i \<and> i_IntentID i = c_CurrentIntentID caps))"

definition checkpoint_ok :: "Db \<Rightarrow> WorkCapsule \<Rightarrow> Checkpoint \<Rightarrow> bool" where
  "checkpoint_ok d caps cp \<longleftrightarrow> k_TaskID cp = c_TaskID caps
     \<and> (k_BriefID cp \<noteq> [] \<longrightarrow> has_brief d (k_BriefID cp))
     \<and> (k_RunID cp \<noteq> [] \<longrightarrow> run_in_task d (c_TaskID caps) (k_RunID cp))
     \<and> (k_IsResumable cp \<longrightarrow> k_Phase cp \<noteq> PhaseAwaitingDecision \<and> k_Phase cp \<noteq> PhaseBlocked)"

text \<open>
  The latest run is RUNNING exactly while the capsule is EXECUTING; then it executes the
  capsule's brief and the latest checkpoint is linked to it.
\<close>

definition run_ok :: "Db \<Rightarrow> WorkCapsule \<Rightarrow> Checkpoint option \<Rightarrow> ExecutionRun \<Rightarrow> bool" where
  "run_ok d caps cp r \<longleftrightarrow> r_TaskID r = c_TaskID caps \<and> r_BriefID r \<noteq> [] \<and> has_brief d (r_BriefID r)
     \<and> (r_Status r = RunStatusRunning \<longleftrightarrow> c_CurrentPhase caps = PhaseExecuting)
     \<and> (r_Status r = RunStatusRunning \<longrightarrow>
          c_CurrentBriefID caps \<in> {[], r_BriefID r}
          \<and> (\<forall>k. cp = Some k \<longrightarrow> k_RunID k \<noteq> [] \<and> k_RunID k = r_RunID r))"

definition action_ok :: "Db \<Rightarrow> TaskID \<Rightarrow> RecoveryRecord \<Rightarrow> bool" where
  "action_ok d t ra \<longleftrightarrow> ra_TaskID ra = t
     \<and> (ra_RunID ra \<noteq> [] \<longrightarrow> run_in_task d t (ra_RunID ra))
     \<and> (ra_CheckpointID ra \<noteq> [] \<longrightarrow> checkpoint_in_task d t (ra_CheckpointID ra))
     \<and> (ra_HandoffID ra \<noteq> [] \<longrightarrow> handoff_in_task d t (ra_HandoffID ra))
     \<and> (ra_LaunchAttemptID ra \<noteq> [] \<longrightarrow> launch_in_task d t (ra_LaunchAttemptID ra))"

lemma violate_Nil [simp]: "violate c code msg = [] \<longleftrightarrow> \<not> c"
  by (simp add: violate_def)

lemma collect_Nil [simp]: "collect (r # rs) = Inr [] \<longleftrightarrow> r = Inr [] \<and> collect rs = Inr []"
  by (auto simp: collect.simps(2) rbnd_def split: sum.splits)

lemma missing_Nil: "missing (found x) code msg f = Inr [] \<longleftrightarrow> (\<exists>a. x = Some a \<and> f a = [])"
  by (simp add: missing_def split: option.splits)

lemma if_Nil: "(if c then r else Inr []) = Inr [] \<longleftrightarrow> (c \<longrightarrow> r = Inr [])"
  by simp

lemma missing_brief_Nil:
  "missing (briefs_Get b d) code msg (\<lambda>_. []) = Inr [] \<longleftrightarrow> has_brief d b"
proof -
  have "missing (briefs_Get b d) code msg (\<lambda>_. []) = Inr [] \<longleftrightarrow> tbl_get b_BriefID b (db_briefs d) \<noteq> None"
    by (auto simp: briefs_Get_def missing_Nil)
  then show ?thesis by (simp add: tbl_get_None_iff has_brief_def)
qed

lemma missing_in_task_Nil:
  "missing (runs_Get k d) code msg (\<lambda>r. violate (r_TaskID r \<noteq> t) code' (m r)) = Inr [] \<longleftrightarrow> run_in_task d t k"
  "missing (checkpoints_Get k d) code msg (\<lambda>c. violate (k_TaskID c \<noteq> t) code' (mc c)) = Inr []
     \<longleftrightarrow> checkpoint_in_task d t k"
  "missing (handoffs_Get k d) code msg (\<lambda>p. violate (h_TaskID p \<noteq> t) code' (mp p)) = Inr []
     \<longleftrightarrow> handoff_in_task d t k"
  "missing (handoffs_GetLaunch k d) code msg (\<lambda>l. violate (l_TaskID l \<noteq> t) code' (ml l)) = Inr []
     \<longleftrightarrow> launch_in_task d t k"
  by (simp_all add: runs_Get_def checkpoints_Get_def handoffs_Get_def handoffs_GetLaunch_def missing_Nil
      run_in_task_def checkpoint_in_task_def handoff_in_task_def launch_in_task_def)

lemma capsule_refs_clean: "validateCapsuleReferences caps d = Inr [] \<longleftrightarrow> capsule_refs_ok d caps"
  by (auto simp: validateCapsuleReferences_def capsule_refs_ok_def missing_brief_Nil
      intents_LatestByTask_def missing_Nil)

lemma checkpoint_clean: "validateCheckpointContinuity cp caps d = Inr [] \<longleftrightarrow> checkpoint_ok d caps cp"
  by (auto simp: validateCheckpointContinuity_def checkpoint_ok_def missing_brief_Nil missing_in_task_Nil)

lemma run_clean: "validateRunContinuity r cp caps d = Inr [] \<longleftrightarrow> run_ok d caps cp r"
proof (cases "r_Status r = RunStatusRunning")
  case True
  then show ?thesis
    by (cases cp) (auto simp: validateRunContinuity_def run_ok_def missing_brief_Nil)
next
  case False
  then show ?thesis by (auto simp: validateRunContinuity_def run_ok_def missing_brief_Nil)
qed

lemma action_clean:
  "validateRecoveryActionContinuity ra caps d = Inr [] \<longleftrightarrow> action_ok d (c_TaskID caps) ra"
  by (auto simp: validateRecoveryActionContinuity_def action_ok_def missing_in_task_Nil Let_def)

lemma dedupe_Nil_iff [simp]: "dedupeContinuityViolations vs = [] \<longleftrightarrow> vs = []"
proof -
  have "set (dedupeContinuityViolations vs) = set vs"
    using dedupe_violations_props[of "{}" vs] by (simp add: dedupeContinuityViolations_def)
  then show ?thesis by (metis set_empty)
qed

text \<open>
  Validation reports no violation exactly when the snapshot is referentially consistent:
  capsule, checkpoint, run and recovery action refer to existing records of the same task, the
  capsule is EXECUTING exactly while its latest run is RUNNING, and the handoff records pass
  their own validation.
\<close>

theorem validation_clean_iff:
  "validateContinuitySnapshot sn d = Inr [] \<longleftrightarrow>
     capsule_refs_ok d (sn_Capsule sn)
     \<and> (case sn_LatestCheckpoint sn of Some cp \<Rightarrow> checkpoint_ok d (sn_Capsule sn) cp | None \<Rightarrow> True)
     \<and> (case sn_LatestRun sn of Some r \<Rightarrow> run_ok d (sn_Capsule sn) (sn_LatestCheckpoint sn) r
        | None \<Rightarrow> c_CurrentPhase (sn_Capsule sn) \<noteq> PhaseExecuting)
     \<and> (case sn_LatestHandoff sn of Some p \<Rightarrow> validateHandoffContinuity sn p d = Inr [] | None \<Rightarrow> True)
     \<and> (case sn_LatestRecoveryAction sn of Some ra \<Rightarrow> action_ok d (c_TaskID (sn_Capsule sn)) ra | None \<Rightarrow> True)"
proof -
  have top: "validateContinuitySnapshot sn d = Inr [] \<longleftrightarrow>
     validateCapsuleReferences (sn_Capsule sn) d = Inr []
     \<and> (case sn_LatestCheckpoint sn of None \<Rightarrow> Inr [] | Some cp \<Rightarrow> validateCheckpointContinuity cp (sn_Capsule sn) d) = Inr []
     \<and> (case sn_LatestRun sn of
            Some r \<Rightarrow> validateRunContinuity r (sn_LatestCheckpoint sn) (sn_Capsule sn) d
          | None \<Rightarrow> Inr (violate (c_CurrentPhase (sn_Capsule sn) = PhaseExecuting) continuityViolationRunPhaseMismatch
              ''capsule phase is EXECUTING but no run exists'')) = Inr []
     \<and> (case sn_LatestHandoff sn of None \<Rightarrow> Inr [] | Some p \<Rightarrow> validateHandoffContinuity sn p d) = Inr []
     \<and> (case sn_LatestRecoveryAction sn of None \<Rightarrow> Inr []
          | Some ra \<Rightarrow> validateRecoveryActionContinuity ra (sn_Capsule sn) d) = Inr []"
    by (simp add: validateContinuitySnapshot_def Let_def rbnd_Inr_iff)
  show ?thesis
    unfolding top capsule_refs_clean
    by (simp add: checkpoint_clean run_clean action_clean split: option.splits)
qed

end
