(* ===== verification/Assess.thy ===== *)
theory Assess
  imports Continuity
begin

text \<open>
  internal/git/anchor/anchor.go (the snapshot of a working tree, over an abstract git command)
  and the assessment of internal/orchestrator/service.go: how the drift between a checkpoint's
  anchor and the fresh snapshot, the violations of the continuity snapshot and the capsule's
  phase decide what \<open>continue\<close> may do.
\<close>

section \<open>Repository snapshots\<close>

record Snapshot =
  g_RepoRoot :: string
  g_Branch :: string
  g_HeadSHA :: string
  g_WorkingTreeDirty :: bool
  g_CapturedAt :: go_time

text \<open>
  \<open>gitLine\<close> runs git in a directory and returns its trimmed output, or nothing when the
  command fails; it is the parameter of the provider.
\<close>

definition Capture :: "(string \<Rightarrow> string list \<Rightarrow> string option) \<Rightarrow> go_time \<Rightarrow> string \<Rightarrow> Snapshot" where
  "Capture gitLine now repoRoot =
     (let c = filepath_Clean (TrimSpace repoRoot);
          root = (if c = [] then ''.'' else c)
      in \<lparr>g_RepoRoot = root,
          g_Branch = (case gitLine root [''rev-parse'', ''--abbrev-ref'', ''HEAD''] of
                        Some b \<Rightarrow> b | None \<Rightarrow> []),
          g_HeadSHA = (case gitLine root [''rev-parse'', ''HEAD''] of Some h \<Rightarrow> h | None \<Rightarrow> []),
          g_WorkingTreeDirty = (case gitLine root [''status'', ''--porcelain''] of
                        Some s \<Rightarrow> TrimSpace s \<noteq> [] | None \<Rightarrow> False),
          g_CapturedAt = now\<rparr>)"

definition ResolveRepoRoot :: "(string \<Rightarrow> string list \<Rightarrow> string option) \<Rightarrow> string \<Rightarrow> go_error + string" where
  "ResolveRepoRoot gitLine startDir =
     (let c = filepath_Clean (TrimSpace startDir);
          root = (if c = [] then ''.'' else c)
      in case gitLine root [''rev-parse'', ''--show-toplevel''] of
           Some r \<Rightarrow> (if TrimSpace r = [] then Inl (ErrMsg (''git repo root not found from '' @ root))
                      else Inr (filepath_Clean r))
         | None \<Rightarrow> Inl (ErrMsg (''git repo root not found from '' @ root)))"

definition boolString :: "bool \<Rightarrow> string" where
  "boolString v = (if v then ''dirty'' else ''clean'')"

definition anchorFromCapsule :: "WorkCapsule \<Rightarrow> RepoAnchor" where
  "anchorFromCapsule caps = \<lparr>an_RepoRoot = c_RepoRoot caps, an_WorktreePath = c_WorktreePath caps,
     an_BranchName = c_BranchName caps, an_HeadSHA = c_HeadSHA caps,
     an_DirtyHash = boolString (c_WorkingTreeDirty caps), an_UntrackedHash = []\<rparr>"

definition classifyAnchorDrift :: "RepoAnchor \<Rightarrow> Snapshot \<Rightarrow> DriftClass" where
  "classifyAnchorDrift b g =
     (if TrimSpace (g_RepoRoot g) = [] then DriftMajor
      else if TrimSpace (an_RepoRoot b) \<noteq> []
        \<and> filepath_Clean (an_RepoRoot b) \<noteq> filepath_Clean (g_RepoRoot g) then DriftMajor
      else if TrimSpace (an_WorktreePath b) \<noteq> []
        \<and> filepath_Clean (an_WorktreePath b) \<noteq> filepath_Clean (g_RepoRoot g) then DriftMajor
      else if TrimSpace (an_BranchName b) \<noteq> [] \<and> TrimSpace (g_Branch g) \<noteq> []
        \<and> an_BranchName b \<noteq> g_Branch g then DriftMajor
      else if TrimSpace (an_HeadSHA b) \<noteq> [] \<and> TrimSpace (g_HeadSHA g) \<noteq> []
        \<and> an_HeadSHA b \<noteq> g_HeadSHA g then DriftMinor
      else if TrimSpace (an_DirtyHash b) \<noteq> [] \<and> an_DirtyHash b \<noteq> boolString (g_WorkingTreeDirty g)
        then DriftMinor
      else DriftNone)"

section \<open>Reusing a checkpoint\<close>

text \<open>The four anchor fields every reuse test compares with the fresh snapshot.\<close>

definition anchor_current :: "Checkpoint \<Rightarrow> Snapshot \<Rightarrow> bool" where
  "anchor_current cp g \<longleftrightarrow> an_RepoRoot (k_Anchor cp) = g_RepoRoot g
     \<and> an_BranchName (k_Anchor cp) = g_Branch g \<and> an_HeadSHA (k_Anchor cp) = g_HeadSHA g
     \<and> an_DirtyHash (k_Anchor cp) = boolString (g_WorkingTreeDirty g)"

definition canReuseSafeCheckpoint ::
  "WorkCapsule \<Rightarrow> ExecutionRun option \<Rightarrow> Checkpoint option \<Rightarrow> Snapshot \<Rightarrow> bool" where
  "canReuseSafeCheckpoint caps latestRun latestCheckpoint g =
     (case latestCheckpoint of
        None \<Rightarrow> False
      | Some cp \<Rightarrow> k_IsResumable cp \<and> k_TaskID cp = c_TaskID caps
          \<and> k_BriefID cp = c_CurrentBriefID caps \<and> k_IntentID cp = c_CurrentIntentID caps
          \<and> k_Phase cp = c_CurrentPhase caps \<and> k_CapsuleVersion cp = c_Version caps
          \<and> anchor_current cp g
          \<and> (case latestRun of None \<Rightarrow> True
             | Some r \<Rightarrow> k_RunID cp = [] \<or> k_RunID cp = r_RunID r))"

definition canReuseDecisionCheckpoint :: "WorkCapsule \<Rightarrow> Checkpoint option \<Rightarrow> Snapshot \<Rightarrow> bool" where
  "canReuseDecisionCheckpoint caps latestCheckpoint g =
     (case latestCheckpoint of
        None \<Rightarrow> False
      | Some cp \<Rightarrow> k_TaskID cp = c_TaskID caps \<and> \<not> k_IsResumable cp
          \<and> k_Phase cp = PhaseAwaitingDecision \<and> c_CurrentPhase caps = PhaseAwaitingDecision
          \<and> anchor_current cp g)"

definition canReuseInconsistencyCheckpoint ::
  "WorkCapsule \<Rightarrow> Checkpoint option \<Rightarrow> Snapshot \<Rightarrow> string \<Rightarrow> bool" where
  "canReuseInconsistencyCheckpoint caps latestCheckpoint g reason =
     (case latestCheckpoint of
        None \<Rightarrow> False
      | Some cp \<Rightarrow> k_TaskID cp = c_TaskID caps \<and> \<not> k_IsResumable cp
          \<and> k_Phase cp = PhaseBlocked \<and> c_CurrentPhase caps = PhaseBlocked
          \<and> anchor_current cp g
          \<and> str_contains (ToLower (k_ResumeDescriptor cp)) (ToLower reason))"

definition reusableCheckpointID :: "Checkpoint option \<Rightarrow> bool \<Rightarrow> CheckpointID" where
  "reusableCheckpointID cp ok =
     (case cp of None \<Rightarrow> [] | Some c \<Rightarrow> if ok then k_CheckpointID c else [])"

section \<open>The assessment\<close>

datatype ContinueOutcome =
    ContinueOutcomeSafe
  | ContinueOutcomeStaleReconciled
  | ContinueOutcomeNeedsDecision
  | ContinueOutcomeBlockedDrift
  | ContinueOutcomeBlockedInconsistent

primrec ContinueOutcome_str :: "ContinueOutcome \<Rightarrow> string" where
  "ContinueOutcome_str ContinueOutcomeSafe = ''SAFE_RESUME_AVAILABLE''"
| "ContinueOutcome_str ContinueOutcomeStaleReconciled = ''STALE_RUN_RECONCILED''"
| "ContinueOutcome_str ContinueOutcomeNeedsDecision = ''RESUME_DECISION_REQUIRED''"
| "ContinueOutcome_str ContinueOutcomeBlockedDrift = ''RESUME_BLOCKED_DRIFT''"
| "ContinueOutcome_str ContinueOutcomeBlockedInconsistent = ''RESUME_BLOCKED_INCONSISTENT_STATE''"

record continueAssessment =
  ca_TaskID :: TaskID
  ca_Capsule :: WorkCapsule
  ca_LatestRun :: "ExecutionRun option"
  ca_LatestCheckpoint :: "Checkpoint option"
  ca_LatestHandoff :: "Packet option"
  ca_LatestLaunch :: "Launch option"
  ca_LatestAck :: "Acknowledgment option"
  ca_LatestFollowThrough :: "FollowThrough option"
  ca_LatestResolution :: "Resolution option"
  ca_LatestRecoveryAction :: "RecoveryRecord option"
  ca_FreshAnchor :: Snapshot
  ca_DriftClass :: DriftClass
  ca_Outcome :: ContinueOutcome
  ca_Reason :: string
  ca_Issues :: "continuityViolation list"
  ca_RequiresMutation :: bool
  ca_ReuseCheckpointID :: CheckpointID

text \<open>The composite literal of every return of \<open>assessContinue\<close>: the snapshot's records with
  the active handoff branch in the places of the latest handoff.\<close>

definition assessed ::
  "TaskID \<Rightarrow> continuitySnapshot \<Rightarrow> Snapshot \<Rightarrow> continuityViolation list \<Rightarrow> ContinueOutcome \<Rightarrow> string
     \<Rightarrow> DriftClass \<Rightarrow> bool \<Rightarrow> CheckpointID \<Rightarrow> continueAssessment" where
  "assessed t sn g issues outcome reason drift mutation reuseID = \<lparr>
     ca_TaskID = t, ca_Capsule = sn_Capsule sn, ca_LatestRun = sn_LatestRun sn,
     ca_LatestCheckpoint = sn_LatestCheckpoint sn, ca_LatestHandoff = sn_ActiveHandoff sn,
     ca_LatestLaunch = sn_ActiveLaunch sn, ca_LatestAck = sn_ActiveAcknowledgment sn,
     ca_LatestFollowThrough = sn_ActiveFollowThrough sn, ca_LatestResolution = sn_LatestResolution sn,
     ca_LatestRecoveryAction = sn_LatestRecoveryAction sn, ca_FreshAnchor = g,
     ca_DriftClass = drift, ca_Outcome = outcome, ca_Reason = reason, ca_Issues = issues,
     ca_RequiresMutation = mutation, ca_ReuseCheckpointID = reuseID\<rparr>"

definition is_running :: "ExecutionRun option \<Rightarrow> bool" where
  "is_running r = (case r of None \<Rightarrow> False | Some x \<Rightarrow> r_Status x = RunStatusRunning)"

definition baseline_anchor :: "continuitySnapshot \<Rightarrow> RepoAnchor" where
  "baseline_anchor sn = (case sn_LatestCheckpoint sn of
     Some cp \<Rightarrow> k_Anchor cp | None \<Rightarrow> anchorFromCapsule (sn_Capsule sn))"

text \<open>The decision of \<open>assessContinue\<close> once snapshot, violations and fresh anchor are known.\<close>

definition assess_snapshot ::
  "TaskID \<Rightarrow> continuitySnapshot \<Rightarrow> continuityViolation list \<Rightarrow> Snapshot \<Rightarrow> continueAssessment" where
  "assess_snapshot t sn issues g =
     (let caps = sn_Capsule sn;
          cp = sn_LatestCheckpoint sn;
          issue = firstContinuityViolationMessage issues
      in
      if issue \<noteq> []
      then (let reuse = canReuseInconsistencyCheckpoint caps cp g issue in
        assessed t sn g issues ContinueOutcomeBlockedInconsistent issue DriftNone
          (\<not> reuse) (reusableCheckpointID cp reuse))
      else if is_running (sn_LatestRun sn)
      then assessed t sn g issues ContinueOutcomeStaleReconciled
        ''latest run is durably RUNNING and requires explicit stale reconciliation''
        DriftNone True []
      else (let drift = classifyAnchorDrift (baseline_anchor sn) g;
                reuse = canReuseDecisionCheckpoint caps cp g
        in
        if c_CurrentPhase caps = PhaseAwaitingDecision
        then (if drift = DriftMajor
          then assessed t sn g issues ContinueOutcomeBlockedDrift
            ''task remains decision-gated with major repo drift'' drift
            (\<not> reuse) (reusableCheckpointID cp reuse)
          else assessed t sn g issues ContinueOutcomeNeedsDecision
            ''task is already in decision-gated resume state'' drift
            (\<not> reuse) (reusableCheckpointID cp reuse))
        else if drift = DriftMajor
        then assessed t sn g issues ContinueOutcomeBlockedDrift
          ''major repo drift blocks direct resume'' drift (\<not> reuse) (reusableCheckpointID cp reuse)
        else if drift = DriftMinor
        then assessed t sn g issues ContinueOutcomeNeedsDecision
          ''minor repo drift requires explicit decision'' drift (\<not> reuse) (reusableCheckpointID cp reuse)
        else (let reuseSafe = canReuseSafeCheckpoint caps (sn_LatestRun sn) cp g in
          assessed t sn g issues ContinueOutcomeSafe
            ''safe resume is available from continuity state'' DriftNone
            (\<not> reuseSafe) (reusableCheckpointID cp reuseSafe))))"

text \<open>\<open>capture\<close> is the anchor provider's answer for a repository root.\<close>

definition assessContinue :: "(string \<Rightarrow> Snapshot) \<Rightarrow> TaskID \<Rightarrow> Db \<Rightarrow> go_error + continueAssessment" where
  "assessContinue capture t d =
     rbnd (loadContinuitySnapshot t d) (\<lambda>sn.
     rbnd (validateContinuitySnapshot sn d) (\<lambda>issues.
       Inr (assess_snapshot t sn issues (capture (c_RepoRoot (sn_Capsule sn))))))"

definition validateContinueConsistency :: "continuitySnapshot \<Rightarrow> Db \<Rightarrow> go_error + string" where
  "validateContinueConsistency sn d =
     rbnd (validateContinuitySnapshot sn d) (\<lambda>vs. Inr (firstContinuityViolationMessage vs))"

section \<open>Validation never fails and never reports an empty message\<close>

definition spoken :: "go_error + continuityViolation list \<Rightarrow> bool" where
  "spoken r = (case r of Inl e \<Rightarrow> False | Inr vs \<Rightarrow> (\<forall>v \<in> set vs. v_Message v \<noteq> []))"

named_theorems spoken_rules

lemma spoken_collect [spoken_rules]: "(\<And>r. r \<in> set rs \<Longrightarrow> spoken r) \<Longrightarrow> spoken (collect rs)"
proof (induction rs)
  case Nil
  show ?case by (simp add: spoken_def)
next
  case (Cons r rs)
  have "spoken r" "spoken (collect rs)" using Cons by simp_all
  then show ?case by (auto simp: collect.simps(2) spoken_def split: sum.splits)
qed

lemma spoken_missing:
  assumes "msg \<noteq> []" and "\<And>a. spoken (Inr (f a))"
  shows "spoken (missing (found x) code msg f)"
  using assms by (cases x) (simp_all add: missing_def spoken_def violate_def)

lemma spoken_Inr: "(\<And>v. v \<in> set vs \<Longrightarrow> v_Message v \<noteq> []) \<Longrightarrow> spoken (Inr vs)"
  by (simp add: spoken_def)

lemma spoken_violate: "m \<noteq> [] \<Longrightarrow> spoken (Inr (violate c code m))"
  by (simp add: spoken_def violate_def)

lemma spoken_append: "spoken (Inr us) \<Longrightarrow> spoken (Inr vs) \<Longrightarrow> spoken (Inr (us @ vs))"
  by (auto simp: spoken_def)

lemma spoken_Nil: "spoken (Inr [])"
  by (simp add: spoken_def)

lemma found_reads:
  "briefs_Get b d = found (tbl_get b_BriefID b (db_briefs d))"
  "runs_Get k d = found (tbl_get r_RunID k (db_runs d))"
  "checkpoints_Get k d = found (tbl_get k_CheckpointID k (db_checkpoints d))"
  by (simp_all add: briefs_Get_def runs_Get_def checkpoints_Get_def)

lemmas spoken_intros = spoken_violate spoken_append spoken_Nil spoken_missing

lemma literal_append_not_Nil: "(c # s) @ t \<noteq> []" by simp

lemma spoken_capsule: "spoken (validateCapsuleReferences caps d)"
  unfolding validateCapsuleReferences_def
  by (rule spoken_collect) (auto simp: found_reads intents_LatestByTask_def intro!: spoken_intros)

lemma spoken_checkpoint: "spoken (validateCheckpointContinuity cp caps d)"
  unfolding validateCheckpointContinuity_def
  by (rule spoken_collect) (auto simp: found_reads intro!: spoken_intros)

lemma spoken_run: "spoken (validateRunContinuity r cp caps d)"
  unfolding validateRunContinuity_def
  by (rule spoken_collect) (auto simp: found_reads intro!: spoken_intros split: option.split)

lemma spoken_action: "spoken (validateRecoveryActionContinuity ra caps d)"
  unfolding validateRecoveryActionContinuity_def Let_def
  by (rule spoken_collect)
    (auto simp: found_reads handoffs_Get_def handoffs_GetLaunch_def intro!: spoken_intros)

lemma spoken_resolution: "spoken (validateResolution caps r d)"
  unfolding validateResolution_def
  by (rule spoken_collect)
    (auto simp: handoffs_Get_def handoffs_GetLaunch_def intro!: spoken_intros)

lemma spoken_launch: "spoken (Inr (validateLaunch p caps ack l))"
  unfolding validateLaunch_def by (auto intro!: spoken_intros split: LaunchStatus.split)

lemma spoken_ack: "spoken (Inr (validateAcknowledgment p caps launch a))"
  unfolding validateAcknowledgment_def
  by (auto intro!: spoken_intros split: option.split LaunchStatus.split)

lemma spoken_follow: "spoken (Inr (validateFollowThrough p caps launch f))"
  unfolding validateFollowThrough_def by (auto intro!: spoken_intros split: option.split)

lemma spoken_accept: "spoken (Inr (validateAcceptanceFields p))"
  unfolding validateAcceptanceFields_def Let_def
  by (auto intro!: spoken_intros split: HandoffStatus.split)

lemma spoken_handoff_cp: "spoken (Inr (validateHandoffCheckpoint p caps cp))"
  unfolding validateHandoffCheckpoint_def by (auto intro!: spoken_intros)

lemma spoken_handoff: "spoken (validateHandoffContinuity sn p d)"
  unfolding validateHandoffContinuity_def Let_def
  by (rule spoken_collect)
    (auto simp: found_reads intro!: spoken_intros spoken_handoff_cp spoken_accept spoken_launch
      spoken_ack spoken_follow spoken_resolution split: option.split)

lemma validate_spoken: "spoken (validateContinuitySnapshot sn d)"
proof -
  have all: "spoken (collect
        [validateCapsuleReferences (sn_Capsule sn) d,
         (case sn_LatestCheckpoint sn of None \<Rightarrow> Inr [] | Some cp \<Rightarrow> validateCheckpointContinuity cp (sn_Capsule sn) d),
         (case sn_LatestRun sn of
            Some r \<Rightarrow> validateRunContinuity r (sn_LatestCheckpoint sn) (sn_Capsule sn) d
          | None \<Rightarrow> Inr (violate (c_CurrentPhase (sn_Capsule sn) = PhaseExecuting) continuityViolationRunPhaseMismatch
              ''capsule phase is EXECUTING but no run exists'')),
         (case sn_LatestHandoff sn of None \<Rightarrow> Inr [] | Some p \<Rightarrow> validateHandoffContinuity sn p d),
         (case sn_LatestRecoveryAction sn of None \<Rightarrow> Inr []
          | Some ra \<Rightarrow> validateRecoveryActionContinuity ra (sn_Capsule sn) d)])"
    by (rule spoken_collect)
      (auto intro!: spoken_intros spoken_capsule spoken_checkpoint spoken_run spoken_handoff spoken_action
        split: option.split)
  have dedupe: "set (dedupeContinuityViolations vs) = set vs" for vs
    using dedupe_violations_props[of "{}" vs] by (simp add: dedupeContinuityViolations_def)
  show ?thesis
    using all unfolding validateContinuitySnapshot_def Let_def
    by (auto simp: spoken_def dedupe rbnd_def split: sum.splits)
qed

lemma validate_total: "\<exists>vs. validateContinuitySnapshot sn d = Inr vs \<and> (\<forall>v \<in> set vs. v_Message v \<noteq> [])"
  using validate_spoken[of sn d] by (auto simp: spoken_def split: sum.splits)

lemma first_message_Nil:
  "\<forall>v \<in> set vs. v_Message v \<noteq> [] \<Longrightarrow> firstContinuityViolationMessage vs = [] \<longleftrightarrow> vs = []"
  by (cases vs) (auto simp: firstContinuityViolationMessage_def)

section \<open>Outcomes\<close>

lemma assessed_sel [simp]:
  "ca_Outcome (assessed t sn g issues outcome reason drift mutation reuseID) = outcome"
  "ca_DriftClass (assessed t sn g issues outcome reason drift mutation reuseID) = drift"
  "ca_RequiresMutation (assessed t sn g issues outcome reason drift mutation reuseID) = mutation"
  "ca_ReuseCheckpointID (assessed t sn g issues outcome reason drift mutation reuseID) = reuseID"
  "ca_Capsule (assessed t sn g issues outcome reason drift mutation reuseID) = sn_Capsule sn"
  "ca_LatestRun (assessed t sn g issues outcome reason drift mutation reuseID) = sn_LatestRun sn"
  "ca_LatestCheckpoint (assessed t sn g issues outcome reason drift mutation reuseID) = sn_LatestCheckpoint sn"
  "ca_LatestHandoff (assessed t sn g issues outcome reason drift mutation reuseID) = sn_ActiveHandoff sn"
  "ca_LatestLaunch (assessed t sn g issues outcome reason drift mutation reuseID) = sn_ActiveLaunch sn"
  "ca_LatestRecoveryAction (assessed t sn g issues outcome reason drift mutation reuseID) = sn_LatestRecoveryAction sn"
  "ca_TaskID (assessed t sn g issues outcome reason drift mutation reuseID) = t"
  by (simp_all add: assessed_def)

lemma classifyAnchorDrift_set: "classifyAnchorDrift b g \<in> {DriftMajor, DriftMinor, DriftNone}"
  by (simp add: classifyAnchorDrift_def)

lemma assess_outcome_cases:
  "ca_Outcome (assess_snapshot t sn issues g) =
     (if firstContinuityViolationMessage issues \<noteq> [] then ContinueOutcomeBlockedInconsistent
      else if is_running (sn_LatestRun sn) then ContinueOutcomeStaleReconciled
      else if classifyAnchorDrift (baseline_anchor sn) g = DriftMajor then ContinueOutcomeBlockedDrift
      else if c_CurrentPhase (sn_Capsule sn) = PhaseAwaitingDecision
        \<or> classifyAnchorDrift (baseline_anchor sn) g = DriftMinor then ContinueOutcomeNeedsDecision
      else ContinueOutcomeSafe)"
  by (simp add: assess_snapshot_def Let_def)

text \<open>
  C16. The assessment of a loaded snapshot always succeeds, and its outcome is decided in this
  order: any violation blocks it as inconsistent, a RUNNING run asks for stale reconciliation,
  major drift blocks, a decision gate or minor drift asks for a decision, and only then is a
  safe resume available.
\<close>

theorem assess_outcome_order:
  "\<exists>vs a. validateContinuitySnapshot sn d = Inr vs
     \<and> rbnd (validateContinuitySnapshot sn d) (\<lambda>issues. Inr (assess_snapshot t sn issues g)) = Inr a
     \<and> ca_Outcome a =
       (if vs \<noteq> [] then ContinueOutcomeBlockedInconsistent
        else if is_running (sn_LatestRun sn) then ContinueOutcomeStaleReconciled
        else if classifyAnchorDrift (baseline_anchor sn) g = DriftMajor then ContinueOutcomeBlockedDrift
        else if c_CurrentPhase (sn_Capsule sn) = PhaseAwaitingDecision
          \<or> classifyAnchorDrift (baseline_anchor sn) g = DriftMinor then ContinueOutcomeNeedsDecision
        else ContinueOutcomeSafe)"
proof -
  obtain vs where vs: "validateContinuitySnapshot sn d = Inr vs" "\<forall>v \<in> set vs. v_Message v \<noteq> []"
    using validate_total by blast
  then show ?thesis by (simp add: assess_outcome_cases first_message_Nil)
qed

text \<open>
  An assessment that asks for no mutation names an existing latest checkpoint of the task to
  reuse, and that checkpoint's anchor is the fresh repository state: root, branch, head and
  dirtiness agree.
\<close>

theorem reuse_names_current_checkpoint:
  "let a = assess_snapshot t sn issues g in
     ca_RequiresMutation a
     \<or> (\<exists>cp. ca_LatestCheckpoint a = Some cp \<and> ca_ReuseCheckpointID a = k_CheckpointID cp
          \<and> k_TaskID cp = c_TaskID (ca_Capsule a) \<and> anchor_current cp g)"
proof (cases "sn_LatestCheckpoint sn")
  case None
  then show ?thesis
    by (auto simp: assess_snapshot_def Let_def canReuseInconsistencyCheckpoint_def
        canReuseDecisionCheckpoint_def canReuseSafeCheckpoint_def)
next
  case (Some cp)
  then show ?thesis
    by (auto simp: assess_snapshot_def Let_def canReuseInconsistencyCheckpoint_def
        canReuseDecisionCheckpoint_def canReuseSafeCheckpoint_def reusableCheckpointID_def)
qed

section \<open>Drift\<close>

text \<open>
  A repository that moved to another root, worktree or branch since the checkpoint is major
  drift, exactly; blank fields on either side of the branch comparison never count as moved,
  and a snapshot without a root always does.
\<close>

theorem major_drift_iff:
  "classifyAnchorDrift b g = DriftMajor \<longleftrightarrow>
     TrimSpace (g_RepoRoot g) = []
     \<or> (TrimSpace (an_RepoRoot b) \<noteq> [] \<and> filepath_Clean (an_RepoRoot b) \<noteq> filepath_Clean (g_RepoRoot g))
     \<or> (TrimSpace (an_WorktreePath b) \<noteq> [] \<and> filepath_Clean (an_WorktreePath b) \<noteq> filepath_Clean (g_RepoRoot g))
     \<or> (TrimSpace (an_BranchName b) \<noteq> [] \<and> TrimSpace (g_Branch g) \<noteq> [] \<and> an_BranchName b \<noteq> g_Branch g)"
  by (auto simp: classifyAnchorDrift_def)

lemma anchor_current_no_drift:
  assumes "anchor_current cp g" and "TrimSpace (g_RepoRoot g) \<noteq> []"
    and "TrimSpace (an_WorktreePath (k_Anchor cp)) = [] \<or> an_WorktreePath (k_Anchor cp) = g_RepoRoot g"
  shows "classifyAnchorDrift (k_Anchor cp) g = DriftNone"
  using assms by (auto simp: anchor_current_def classifyAnchorDrift_def)

end
