(* ===== verification/Recovery.thy ===== *)
theory Recovery
  imports Assess
begin

text \<open>
  internal/orchestrator/recovery.go: the recovery class of a task, the one recommended action
  and the readiness flags, derived from the continuity assessment and then adjusted by the
  latest recorded operator action.
\<close>

datatype RecoveryClass =
    RecoveryClassUnset
  | RecoveryClassReadyNextRun
  | RecoveryClassInterruptedRunRecoverable
  | RecoveryClassAcceptedHandoffLaunchReady
  | RecoveryClassHandoffLaunchPendingOutcome
  | RecoveryClassHandoffLaunchCompleted
  | RecoveryClassHandoffFollowThroughReviewRequired
  | RecoveryClassFailedRunReviewRequired
  | RecoveryClassValidationReviewRequired
  | RecoveryClassStaleRunReconciliationRequired
  | RecoveryClassDecisionRequired
  | RecoveryClassContinueExecutionRequired
  | RecoveryClassBlockedDrift
  | RecoveryClassRepairRequired
  | RecoveryClassRebriefRequired
  | RecoveryClassCompletedNoAction

primrec RecoveryClass_str :: "RecoveryClass \<Rightarrow> string" where
  "RecoveryClass_str RecoveryClassUnset = ''''"
| "RecoveryClass_str RecoveryClassReadyNextRun = ''READY_NEXT_RUN''"
| "RecoveryClass_str RecoveryClassInterruptedRunRecoverable = ''INTERRUPTED_RUN_RECOVERABLE''"
| "RecoveryClass_str RecoveryClassAcceptedHandoffLaunchReady = ''ACCEPTED_HANDOFF_LAUNCH_READY''"
| "RecoveryClass_str RecoveryClassHandoffLaunchPendingOutcome = ''HANDOFF_LAUNCH_PENDING_OUTCOME''"
| "RecoveryClass_str RecoveryClassHandoffLaunchCompleted = ''HANDOFF_LAUNCH_COMPLETED''"
| "RecoveryClass_str RecoveryClassHandoffFollowThroughReviewRequired = ''HANDOFF_FOLLOW_THROUGH_REVIEW_REQUIRED''"
| "RecoveryClass_str RecoveryClassFailedRunReviewRequired = ''FAILED_RUN_REVIEW_REQUIRED''"
| "RecoveryClass_str RecoveryClassValidationReviewRequired = ''VALIDATION_REVIEW_REQUIRED''"
| "RecoveryClass_str RecoveryClassStaleRunReconciliationRequired = ''STALE_RUN_RECONCILIATION_REQUIRED''"
| "RecoveryClass_str RecoveryClassDecisionRequired = ''DECISION_REQUIRED''"
| "RecoveryClass_str RecoveryClassContinueExecutionRequired = ''CONTINUE_EXECUTION_REQUIRED''"
| "RecoveryClass_str RecoveryClassBlockedDrift = ''BLOCKED_DRIFT''"
| "RecoveryClass_str RecoveryClassRepairRequired = ''REPAIR_REQUIRED''"
| "RecoveryClass_str RecoveryClassRebriefRequired = ''REBRIEF_REQUIRED''"
| "RecoveryClass_str RecoveryClassCompletedNoAction = ''COMPLETED_NO_ACTION''"

datatype RecoveryAction =
    RecoveryActionUnset
  | RecoveryActionNone
  | RecoveryActionStartNextRun
  | RecoveryActionResumeInterrupted
  | RecoveryActionLaunchAcceptedHandoff
  | RecoveryActionWaitForLaunchOutcome
  | RecoveryActionMonitorLaunchedHandoff
  | RecoveryActionReviewHandoffFollowThrough
  | RecoveryActionInspectFailedRun
  | RecoveryActionReviewValidation
  | RecoveryActionReconcileStaleRun
  | RecoveryActionMakeResumeDecision
  | RecoveryActionExecuteContinueRecovery
  | RecoveryActionRepairContinuity
  | RecoveryActionRegenerateBrief

primrec RecoveryAction_str :: "RecoveryAction \<Rightarrow> string" where
  "RecoveryAction_str RecoveryActionUnset = ''''"
| "RecoveryAction_str RecoveryActionNone = ''NONE''"
| "RecoveryAction_str RecoveryActionStartNextRun = ''START_NEXT_RUN''"
| "RecoveryAction_str RecoveryActionResumeInterrupted = ''RESUME_INTERRUPTED_RUN''"
| "RecoveryAction_str RecoveryActionLaunchAcceptedHandoff = ''LAUNCH_ACCEPTED_HANDOFF''"
| "RecoveryAction_str RecoveryActionWaitForLaunchOutcome = ''WAIT_FOR_LAUNCH_OUTCOME''"
| "RecoveryAction_str RecoveryActionMonitorLaunchedHandoff = ''MONITOR_LAUNCHED_HANDOFF''"
| "RecoveryAction_str RecoveryActionReviewHandoffFollowThrough = ''REVIEW_HANDOFF_FOLLOW_THROUGH''"
| "RecoveryAction_str RecoveryActionInspectFailedRun = ''INSPECT_FAILED_RUN''"
| "RecoveryAction_str RecoveryActionReviewValidation = ''REVIEW_VALIDATION_STATE''"
| "RecoveryAction_str RecoveryActionReconcileStaleRun = ''RECONCILE_STALE_RUN''"
| "RecoveryAction_str RecoveryActionMakeResumeDecision = ''MAKE_RESUME_DECISION''"
| "RecoveryAction_str RecoveryActionExecuteContinueRecovery = ''EXECUTE_CONTINUE_RECOVERY''"
| "RecoveryAction_str RecoveryActionRepairContinuity = ''REPAIR_CONTINUITY''"
| "RecoveryAction_str RecoveryActionRegenerateBrief = ''REGENERATE_BRIEF''"

record RecoveryIssue =
  ri_Code :: string
  ri_Message :: string

record RecoveryAssessment =
  rv_TaskID :: TaskID
  rv_ContinuityOutcome :: ContinueOutcome
  rv_RecoveryClass :: RecoveryClass
  rv_RecommendedAction :: RecoveryAction
  rv_ReadyForNextRun :: bool
  rv_ReadyForHandoffLaunch :: bool
  rv_RequiresDecision :: bool
  rv_RequiresRepair :: bool
  rv_RequiresReview :: bool
  rv_RequiresReconciliation :: bool
  rv_DriftClass :: DriftClass
  rv_Reason :: string
  rv_CheckpointID :: CheckpointID
  rv_RunID :: RunID
  rv_HandoffID :: string
  rv_HandoffStatus :: HandoffStatus
  rv_LatestAction :: "RecoveryRecord option"
  rv_Issues :: "RecoveryIssue list"

definition recoveryIssuesFromContinuity :: "continuityViolation list \<Rightarrow> RecoveryIssue list" where
  "recoveryIssuesFromContinuity vs =
     map (\<lambda>v. \<lparr>ri_Code = continuityViolationCode_str (v_Code v), ri_Message = v_Message v\<rparr>) vs"

text \<open>The block that clears every readiness and requirement flag, with a new class, action and reason.\<close>

definition cleared ::
  "RecoveryClass \<Rightarrow> RecoveryAction \<Rightarrow> string \<Rightarrow> RecoveryAssessment \<Rightarrow> RecoveryAssessment" where
  "cleared cls act reason r = r\<lparr>rv_RecoveryClass := cls, rv_RecommendedAction := act,
     rv_ReadyForNextRun := False, rv_ReadyForHandoffLaunch := False, rv_RequiresDecision := False,
     rv_RequiresReview := False, rv_RequiresRepair := False, rv_RequiresReconciliation := False,
     rv_Reason := reason\<rparr>"

section \<open>Progression by the latest operator action\<close>

definition msg_continue_pending :: string where
  "msg_continue_pending = ''operator chose to continue with the current brief, but explicit continue finalization is still required before the next bounded run: ''"

definition msg_resume_pending :: string where
  "msg_resume_pending = ''operator explicitly resumed interrupted execution lineage; continue recovery still must be executed before the next bounded run: ''"

definition briefReadyRecoveryOverride :: "RecoveryAssessment \<Rightarrow> RecoveryAssessment option" where
  "briefReadyRecoveryOverride r =
     (case rv_LatestAction r of
        None \<Rightarrow> None
      | Some act \<Rightarrow>
         (case ra_Kind act of
            KindDecisionContinue \<Rightarrow> Some (cleared RecoveryClassContinueExecutionRequired
              RecoveryActionExecuteContinueRecovery (msg_continue_pending @ ra_Summary act) r)
          | KindInterruptedResumeExecuted \<Rightarrow> Some (cleared RecoveryClassContinueExecutionRequired
              RecoveryActionExecuteContinueRecovery (msg_resume_pending @ ra_Summary act) r)
          | _ \<Rightarrow> None))"

definition progress_review :: "RecoveryRecord \<Rightarrow> RecoveryAssessment \<Rightarrow> RecoveryAssessment" where
  "progress_review act r =
     (case ra_Kind act of
        KindFailedRunReviewed \<Rightarrow>
          (if rv_RecoveryClass r = RecoveryClassFailedRunReviewRequired \<and> ra_RunID act = rv_RunID r
           then r\<lparr>rv_RecoveryClass := RecoveryClassDecisionRequired,
             rv_RecommendedAction := RecoveryActionMakeResumeDecision,
             rv_RequiresReview := False, rv_RequiresDecision := True,
             rv_Reason := ''failed run '' @ rv_RunID r
               @ '' was reviewed; choose whether to continue with the current brief or regenerate it''\<rparr>
           else r)
      | KindInterruptedRunReviewed \<Rightarrow>
          (if rv_RecoveryClass r = RecoveryClassInterruptedRunRecoverable
             \<and> (rv_RunID r = [] \<or> ra_RunID act = rv_RunID r)
           then cleared (rv_RecoveryClass r) RecoveryActionResumeInterrupted
             (''interrupted execution lineage was reviewed and remains recoverable from checkpoint ''
               @ nonEmpty (rv_CheckpointID r) ''unknown'' @ '': '' @ ra_Summary act) r
           else r)
      | KindValidationReviewed \<Rightarrow>
          (if rv_RecoveryClass r = RecoveryClassValidationReviewRequired
             \<and> (rv_RunID r = [] \<or> ra_RunID act = rv_RunID r)
           then r\<lparr>rv_RecoveryClass := RecoveryClassDecisionRequired,
             rv_RecommendedAction := RecoveryActionMakeResumeDecision,
             rv_RequiresReview := False, rv_RequiresDecision := True,
             rv_Reason := ''validation state for run '' @ nonEmpty (rv_RunID r) ''unknown''
               @ '' was reviewed; choose whether to continue with the current brief or regenerate it''\<rparr>
           else r)
      | _ \<Rightarrow> r)"

definition progress_decision :: "RecoveryRecord \<Rightarrow> RecoveryAssessment \<Rightarrow> RecoveryAssessment" where
  "progress_decision act r =
     (case ra_Kind act of
        KindInterruptedResumeExecuted \<Rightarrow>
          (if rv_RecoveryClass r \<in> {RecoveryClassInterruptedRunRecoverable, RecoveryClassReadyNextRun,
               RecoveryClassContinueExecutionRequired}
           then cleared RecoveryClassContinueExecutionRequired RecoveryActionExecuteContinueRecovery
             (msg_resume_pending @ ra_Summary act) r
           else r)
      | KindRepairIntentRecorded \<Rightarrow>
          (if rv_RecoveryClass r = RecoveryClassRepairRequired \<or> rv_RecoveryClass r = RecoveryClassBlockedDrift
           then r\<lparr>rv_Reason := ''repair intent recorded: '' @ ra_Summary act\<rparr> else r)
      | KindPendingLaunchReviewed \<Rightarrow>
          (if rv_RecoveryClass r = RecoveryClassHandoffLaunchPendingOutcome
           then r\<lparr>rv_Reason := ''pending handoff launch was reviewed: '' @ ra_Summary act\<rparr> else r)
      | KindDecisionContinue \<Rightarrow>
          (if rv_RecoveryClass r \<in> {RecoveryClassDecisionRequired, RecoveryClassFailedRunReviewRequired,
               RecoveryClassValidationReviewRequired, RecoveryClassReadyNextRun}
           then cleared RecoveryClassContinueExecutionRequired RecoveryActionExecuteContinueRecovery
             (msg_continue_pending @ ra_Summary act) r
           else r)
      | KindContinueExecuted \<Rightarrow>
          (if rv_RecoveryClass r = RecoveryClassReadyNextRun
           then (cleared (rv_RecoveryClass r) RecoveryActionStartNextRun
             (''operator explicitly confirmed the current brief for the next bounded run: '' @ ra_Summary act) r)
               \<lparr>rv_ReadyForNextRun := True\<rparr>
           else r)
      | KindDecisionRegenerateBrief \<Rightarrow>
          (if rv_RecoveryClass r = RecoveryClassReadyNextRun
           then r\<lparr>rv_Reason := ''execution brief was regenerated after operator decision: '' @ ra_Summary act\<rparr>
           else cleared RecoveryClassRebriefRequired RecoveryActionRegenerateBrief
             (''operator chose to regenerate the execution brief before another run: '' @ ra_Summary act) r)
      | _ \<Rightarrow> r)"

text \<open>
  \<open>applyRecoveryActionProgression\<close>: one \<open>switch\<close> on the kind of the latest action, split into
  the kinds that record a review and the kinds that record a decision or an execution.
\<close>

definition applyRecoveryActionProgression :: "RecoveryAssessment \<Rightarrow> RecoveryAssessment" where
  "applyRecoveryActionProgression r =
     (case rv_LatestAction r of
        None \<Rightarrow> r
      | Some act \<Rightarrow>
          (if ra_Kind act \<in> {KindFailedRunReviewed, KindInterruptedRunReviewed, KindValidationReviewed}
           then progress_review act r else progress_decision act r))"

section \<open>Classification\<close>

definition recovery_base :: "continueAssessment \<Rightarrow> RecoveryAssessment" where
  "recovery_base a = \<lparr>rv_TaskID = ca_TaskID a, rv_ContinuityOutcome = ca_Outcome a,
     rv_RecoveryClass = RecoveryClassUnset, rv_RecommendedAction = RecoveryActionUnset,
     rv_ReadyForNextRun = False, rv_ReadyForHandoffLaunch = False, rv_RequiresDecision = False,
     rv_RequiresRepair = False, rv_RequiresReview = False, rv_RequiresReconciliation = False,
     rv_DriftClass = ca_DriftClass a, rv_Reason = ca_Reason a,
     rv_CheckpointID = (case ca_LatestCheckpoint a of
        Some cp \<Rightarrow> k_CheckpointID cp | None \<Rightarrow> ca_ReuseCheckpointID a),
     rv_RunID = (case ca_LatestRun a of Some r \<Rightarrow> r_RunID r | None \<Rightarrow> []),
     rv_HandoffID = (case ca_LatestHandoff a of Some p \<Rightarrow> h_HandoffID p | None \<Rightarrow> []),
     rv_HandoffStatus = (case ca_LatestHandoff a of Some p \<Rightarrow> h_Status p | None \<Rightarrow> HandoffStatusOther []),
     rv_LatestAction = ca_LatestRecoveryAction a,
     rv_Issues = recoveryIssuesFromContinuity (ca_Issues a)\<rparr>"

definition with_class ::
  "RecoveryClass \<Rightarrow> RecoveryAction \<Rightarrow> string \<Rightarrow> RecoveryAssessment \<Rightarrow> RecoveryAssessment" where
  "with_class cls act reason r = r\<lparr>rv_RecoveryClass := cls, rv_RecommendedAction := act, rv_Reason := reason\<rparr>"

definition reason_or :: "RecoveryAssessment \<Rightarrow> string \<Rightarrow> string" where
  "reason_or r dflt = (if rv_Reason r = [] then dflt else rv_Reason r)"

definition repair_recovery :: "string \<Rightarrow> RecoveryAssessment \<Rightarrow> RecoveryAssessment" where
  "repair_recovery reason r =
     (with_class RecoveryClassRepairRequired RecoveryActionRepairContinuity reason r)\<lparr>rv_RequiresRepair := True\<rparr>"

definition review_recovery ::
  "RecoveryClass \<Rightarrow> RecoveryAction \<Rightarrow> string \<Rightarrow> RecoveryAssessment \<Rightarrow> RecoveryAssessment" where
  "review_recovery cls act reason r = (with_class cls act reason r)\<lparr>rv_RequiresReview := True\<rparr>"

definition hc_of :: "continueAssessment \<Rightarrow> HandoffContinuity" where
  "hc_of a = assessHandoffContinuity (ca_TaskID a) (ca_LatestHandoff a) (ca_LatestLaunch a)
     (ca_LatestAck a) (ca_LatestFollowThrough a) (ca_LatestResolution a)"

text \<open>The branch for an accepted, resumable Claude packet; \<open>None\<close> where control falls through.\<close>

definition handoff_recovery :: "continueAssessment \<Rightarrow> RecoveryAssessment \<Rightarrow> RecoveryAssessment option" where
  "handoff_recovery a r =
     (case ca_LatestHandoff a of
        None \<Rightarrow> None
      | Some p \<Rightarrow>
         (if h_Status p = HandoffStatusAccepted \<and> h_TargetWorker p = WorkerKindClaude \<and> h_IsResumable p
          then (let hc = hc_of a; reason = hc_Reason hc in
            (case hc_State hc of
               HandoffContinuityStateResolved \<Rightarrow> None
             | HandoffContinuityStateNotApplicable \<Rightarrow> None
             | HandoffContinuityStateLaunchPendingOutcome \<Rightarrow> Some (with_class
                 RecoveryClassHandoffLaunchPendingOutcome RecoveryActionWaitForLaunchOutcome reason r)
             | HandoffContinuityStateFollowThroughStalled \<Rightarrow> Some (review_recovery
                 RecoveryClassHandoffFollowThroughReviewRequired RecoveryActionReviewHandoffFollowThrough reason r)
             | HandoffContinuityStateLaunchCompletedAckLost \<Rightarrow> Some (repair_recovery reason r)
             | _ \<Rightarrow>
                 (if hc_State hc = HandoffContinuityStateAcceptedNotLaunched
                    \<or> hc_State hc = HandoffContinuityStateLaunchFailedRetryable
                  then Some ((with_class RecoveryClassAcceptedHandoffLaunchReady
                    RecoveryActionLaunchAcceptedHandoff reason r)\<lparr>rv_ReadyForHandoffLaunch := True\<rparr>)
                  else Some (with_class RecoveryClassHandoffLaunchCompleted
                    RecoveryActionMonitorLaunchedHandoff reason r))))
          else None))"

definition ready_recovery :: "continueAssessment \<Rightarrow> RecoveryAssessment \<Rightarrow> RecoveryAssessment" where
  "ready_recovery a r =
     (case briefReadyRecoveryOverride r of
        Some override \<Rightarrow> override
      | None \<Rightarrow> applyRecoveryActionProgression
          ((with_class RecoveryClassReadyNextRun RecoveryActionStartNextRun
             (''task is ready for the next bounded run with brief '' @ c_CurrentBriefID (ca_Capsule a)) r)
           \<lparr>rv_ReadyForNextRun := True\<rparr>))"

definition resumable_checkpoint :: "continueAssessment \<Rightarrow> Checkpoint option" where
  "resumable_checkpoint a =
     (case ca_LatestCheckpoint a of None \<Rightarrow> None | Some cp \<Rightarrow> if k_IsResumable cp then Some cp else None)"

text \<open>The switch on the latest run's status; \<open>None\<close> where control falls through to the phase.\<close>

definition run_recovery :: "continueAssessment \<Rightarrow> RecoveryAssessment \<Rightarrow> RecoveryAssessment option" where
  "run_recovery a r =
     (case ca_LatestRun a of
        None \<Rightarrow> None
      | Some run \<Rightarrow>
         (case r_Status run of
            RunStatusInterrupted \<Rightarrow> Some (applyRecoveryActionProgression
              (case resumable_checkpoint a of
                 Some cp \<Rightarrow> (with_class RecoveryClassInterruptedRunRecoverable RecoveryActionResumeInterrupted
                   (''interrupted run '' @ r_RunID run @ '' is recoverable from checkpoint '' @ k_CheckpointID cp) r)
                   \<lparr>rv_ReadyForNextRun := False\<rparr>
               | None \<Rightarrow> repair_recovery
                   (''interrupted run '' @ r_RunID run @ '' has no resumable checkpoint for recovery'') r))
          | RunStatusFailed \<Rightarrow> Some (applyRecoveryActionProgression
              (review_recovery RecoveryClassFailedRunReviewRequired RecoveryActionInspectFailedRun
                (''latest run '' @ r_RunID run
                  @ '' failed; inspect failure evidence before retrying or regenerating the brief'') r))
          | RunStatusCompleted \<Rightarrow>
             (case c_CurrentPhase (ca_Capsule a) of
                PhaseValidating \<Rightarrow> Some (applyRecoveryActionProgression
                  (review_recovery RecoveryClassValidationReviewRequired RecoveryActionReviewValidation
                    (''latest run '' @ r_RunID run @ '' completed and task is awaiting validation review'') r))
              | PhaseCompleted \<Rightarrow> Some (applyRecoveryActionProgression
                  (with_class RecoveryClassCompletedNoAction RecoveryActionNone
                    ''task is already completed; no recovery action is required'' r))
              | PhaseBriefReady \<Rightarrow> Some (ready_recovery a r)
              | _ \<Rightarrow> None)
          | _ \<Rightarrow> None))"

definition phase_recovery :: "continueAssessment \<Rightarrow> RecoveryAssessment \<Rightarrow> RecoveryAssessment" where
  "phase_recovery a r =
     (case c_CurrentPhase (ca_Capsule a) of
        PhasePaused \<Rightarrow>
          (case resumable_checkpoint a of
             Some cp \<Rightarrow> (with_class RecoveryClassInterruptedRunRecoverable RecoveryActionResumeInterrupted
               (''paused task is recoverable from checkpoint '' @ k_CheckpointID cp) r)\<lparr>rv_ReadyForNextRun := False\<rparr>
           | None \<Rightarrow> repair_recovery ''paused task has no resumable checkpoint for recovery'' r)
      | PhaseValidating \<Rightarrow> review_recovery RecoveryClassValidationReviewRequired RecoveryActionReviewValidation
          ''task is awaiting validation review before another run'' r
      | PhaseCompleted \<Rightarrow> with_class RecoveryClassCompletedNoAction RecoveryActionNone
          ''task is already completed; no recovery action is required'' r
      | _ \<Rightarrow> repair_recovery (reason_or r (''task phase '' @ Phase_str (c_CurrentPhase (ca_Capsule a))
            @ '' does not support deterministic recovery'')) r)"

definition safe_recovery :: "continueAssessment \<Rightarrow> RecoveryAssessment \<Rightarrow> RecoveryAssessment" where
  "safe_recovery a r =
     (case handoff_recovery a r of
        Some h \<Rightarrow> applyRecoveryActionProgression h
      | None \<Rightarrow>
         (if c_CurrentPhase (ca_Capsule a) = PhaseBriefReady then ready_recovery a r
          else (case run_recovery a r of
                  Some x \<Rightarrow> x
                | None \<Rightarrow> applyRecoveryActionProgression (phase_recovery a r))))"

definition recoveryFromContinueAssessment :: "continueAssessment \<Rightarrow> RecoveryAssessment" where
  "recoveryFromContinueAssessment a =
     (let r = recovery_base a in
      case ca_Outcome a of
        ContinueOutcomeBlockedInconsistent \<Rightarrow> applyRecoveryActionProgression
          (repair_recovery (reason_or r ''continuity state is inconsistent and must be repaired before recovery'') r)
      | ContinueOutcomeBlockedDrift \<Rightarrow> applyRecoveryActionProgression
          ((with_class RecoveryClassBlockedDrift RecoveryActionMakeResumeDecision
             (reason_or r ''repository drift blocks automatic recovery'') r)\<lparr>rv_RequiresDecision := True\<rparr>)
      | ContinueOutcomeNeedsDecision \<Rightarrow> applyRecoveryActionProgression
          ((with_class RecoveryClassDecisionRequired RecoveryActionMakeResumeDecision
             (reason_or r ''resume requires an explicit operator decision'') r)\<lparr>rv_RequiresDecision := True\<rparr>)
      | ContinueOutcomeStaleReconciled \<Rightarrow> applyRecoveryActionProgression
          ((with_class RecoveryClassStaleRunReconciliationRequired RecoveryActionReconcileStaleRun
             (reason_or r ''latest run is still durably RUNNING and must be reconciled before recovery'') r)
           \<lparr>rv_RequiresReconciliation := True\<rparr>)
      | ContinueOutcomeSafe \<Rightarrow> safe_recovery a r)"

definition AssessRecovery :: "(string \<Rightarrow> Snapshot) \<Rightarrow> string \<Rightarrow> Db \<Rightarrow> go_error + RecoveryAssessment" where
  "AssessRecovery capture taskID d =
     rbnd (assessContinue capture (TrimSpace taskID) d) (\<lambda>a. Inr (recoveryFromContinueAssessment a))"

definition runStartBlockedCanonical :: "RecoveryAssessment \<Rightarrow> string" where
  "runStartBlockedCanonical r =
     (case rv_RecoveryClass r of
        RecoveryClassContinueExecutionRequired \<Rightarrow> ''Execution cannot start yet because operator continue finalization is still required. Execute continue recovery first so Tuku can durably clear the current brief for the next bounded run.''
      | RecoveryClassDecisionRequired \<Rightarrow> ''Execution cannot start yet because recovery still requires an explicit operator decision.''
      | RecoveryClassFailedRunReviewRequired \<Rightarrow> ''Execution cannot start yet because the latest failed run still requires review.''
      | RecoveryClassValidationReviewRequired \<Rightarrow> ''Execution cannot start yet because validation review is still required.''
      | RecoveryClassRebriefRequired \<Rightarrow> ''Execution cannot start yet because the execution brief must be regenerated or replaced first.''
      | RecoveryClassBlockedDrift \<Rightarrow> ''Execution cannot start yet because repository drift is blocking deterministic recovery.''
      | RecoveryClassRepairRequired \<Rightarrow> ''Execution cannot start yet because continuity repair is still required.''
      | RecoveryClassAcceptedHandoffLaunchReady \<Rightarrow> ''Execution cannot start yet because the active recovery path is accepted handoff launch, not a new local run.''
      | RecoveryClassHandoffLaunchPendingOutcome \<Rightarrow> ''Execution cannot start yet because the latest handoff launch outcome is still pending.''
      | RecoveryClassHandoffLaunchCompleted \<Rightarrow> ''Execution cannot start yet because the latest handoff launch step is already complete and should be monitored rather than replaced by a new local run.''
      | RecoveryClassInterruptedRunRecoverable \<Rightarrow> ''Execution cannot start yet because the task is in interrupted-run recovery, not cleared for a fresh bounded run.''
      | RecoveryClassStaleRunReconciliationRequired \<Rightarrow> ''Execution cannot start yet because stale run reconciliation is still required.''
      | RecoveryClassCompletedNoAction \<Rightarrow> ''Execution cannot start because the task is already completed.''
      | _ \<Rightarrow> ''Execution cannot start yet because recovery posture is ''
          @ RecoveryClass_str (rv_RecoveryClass r) @ ''.'')"

section \<open>Coherence of class, action and flags\<close>

text \<open>The single action recommended for a class.\<close>

fun action_for :: "RecoveryClass \<Rightarrow> RecoveryAction" where
  "action_for RecoveryClassReadyNextRun = RecoveryActionStartNextRun"
| "action_for RecoveryClassInterruptedRunRecoverable = RecoveryActionResumeInterrupted"
| "action_for RecoveryClassAcceptedHandoffLaunchReady = RecoveryActionLaunchAcceptedHandoff"
| "action_for RecoveryClassHandoffLaunchPendingOutcome = RecoveryActionWaitForLaunchOutcome"
| "action_for RecoveryClassHandoffLaunchCompleted = RecoveryActionMonitorLaunchedHandoff"
| "action_for RecoveryClassHandoffFollowThroughReviewRequired = RecoveryActionReviewHandoffFollowThrough"
| "action_for RecoveryClassFailedRunReviewRequired = RecoveryActionInspectFailedRun"
| "action_for RecoveryClassValidationReviewRequired = RecoveryActionReviewValidation"
| "action_for RecoveryClassStaleRunReconciliationRequired = RecoveryActionReconcileStaleRun"
| "action_for RecoveryClassDecisionRequired = RecoveryActionMakeResumeDecision"
| "action_for RecoveryClassContinueExecutionRequired = RecoveryActionExecuteContinueRecovery"
| "action_for RecoveryClassBlockedDrift = RecoveryActionMakeResumeDecision"
| "action_for RecoveryClassRepairRequired = RecoveryActionRepairContinuity"
| "action_for RecoveryClassRebriefRequired = RecoveryActionRegenerateBrief"
| "action_for RecoveryClassCompletedNoAction = RecoveryActionNone"
| "action_for RecoveryClassUnset = RecoveryActionUnset"

definition flags_for :: "RecoveryClass \<Rightarrow> RecoveryAssessment \<Rightarrow> bool" where
  "flags_for c r \<longleftrightarrow>
     (rv_ReadyForNextRun r \<longleftrightarrow> c = RecoveryClassReadyNextRun)
     \<and> (rv_ReadyForHandoffLaunch r \<longleftrightarrow> c = RecoveryClassAcceptedHandoffLaunchReady)
     \<and> (rv_RequiresDecision r \<longleftrightarrow> c = RecoveryClassDecisionRequired \<or> c = RecoveryClassBlockedDrift)
     \<and> (rv_RequiresRepair r \<longleftrightarrow> c = RecoveryClassRepairRequired)
     \<and> (rv_RequiresReview r \<longleftrightarrow> c = RecoveryClassFailedRunReviewRequired
          \<or> c = RecoveryClassValidationReviewRequired \<or> c = RecoveryClassHandoffFollowThroughReviewRequired)
     \<and> (rv_RequiresReconciliation r \<longleftrightarrow> c = RecoveryClassStaleRunReconciliationRequired)"

definition coherent :: "RecoveryAssessment \<Rightarrow> bool" where
  "coherent r \<longleftrightarrow> rv_RecoveryClass r \<noteq> RecoveryClassUnset
     \<and> rv_RecommendedAction r = action_for (rv_RecoveryClass r) \<and> flags_for (rv_RecoveryClass r) r"

lemma coherentI:
  assumes "rv_RecoveryClass r = c" and "c \<noteq> RecoveryClassUnset"
    and "rv_RecommendedAction r = action_for c" and "flags_for c r"
  shows "coherent r"
  using assms by (simp add: coherent_def)

lemma cleared_sel [simp]:
  "rv_RecoveryClass (cleared c act m r) = c"
  "rv_RecommendedAction (cleared c act m r) = act"
  "rv_LatestAction (cleared c act m r) = rv_LatestAction r"
  "rv_Reason (cleared c act m r) = m"
  "rv_ReadyForNextRun (cleared c act m r) = False"
  "rv_RunID (cleared c act m r) = rv_RunID r"
  by (simp_all add: cleared_def)

lemma cleared_flags:
  assumes "c \<in> {RecoveryClassContinueExecutionRequired, RecoveryClassRebriefRequired,
      RecoveryClassInterruptedRunRecoverable}"
  shows "flags_for c (cleared c act m r)"
  using assms by (auto simp: cleared_def flags_for_def)

lemma cleared_coherent:
  assumes "c \<in> {RecoveryClassContinueExecutionRequired, RecoveryClassRebriefRequired,
      RecoveryClassInterruptedRunRecoverable}" and "act = action_for c"
  shows "coherent (cleared c act m r)"
  using assms cleared_flags[OF assms(1)] by (auto simp: coherent_def)

lemma ready_cleared_coherent:
  "coherent ((cleared RecoveryClassReadyNextRun RecoveryActionStartNextRun m r)\<lparr>rv_ReadyForNextRun := True\<rparr>)"
  by (simp add: coherent_def cleared_def flags_for_def)

lemma coherent_reason: "coherent r \<Longrightarrow> coherent (r\<lparr>rv_Reason := m\<rparr>)"
  by (simp add: coherent_def flags_for_def)

lemma reviewed_coherent:
  assumes "coherent r"
    and "rv_RecoveryClass r = RecoveryClassFailedRunReviewRequired
      \<or> rv_RecoveryClass r = RecoveryClassValidationReviewRequired"
  shows "coherent (r\<lparr>rv_RecoveryClass := RecoveryClassDecisionRequired,
    rv_RecommendedAction := RecoveryActionMakeResumeDecision, rv_RequiresReview := False,
    rv_RequiresDecision := True, rv_Reason := m\<rparr>)"
proof -
  have "\<not> rv_ReadyForNextRun r" "\<not> rv_ReadyForHandoffLaunch r" "\<not> rv_RequiresRepair r"
    "\<not> rv_RequiresReconciliation r"
    using assms(2) assms(1) unfolding coherent_def flags_for_def by (elim disjE; simp)+
  then show ?thesis by (simp add: coherent_def flags_for_def)
qed

lemma progress_review_coherent: "coherent r \<Longrightarrow> coherent (progress_review act r)"
  unfolding progress_review_def
  by (auto intro!: reviewed_coherent cleared_coherent split: RecoveryActionKind.split)

lemma progress_decision_coherent: "coherent r \<Longrightarrow> coherent (progress_decision act r)"
  unfolding progress_decision_def
  by (auto intro!: coherent_reason cleared_coherent ready_cleared_coherent split: RecoveryActionKind.split)

lemma progression_coherent: "coherent r \<Longrightarrow> coherent (applyRecoveryActionProgression r)"
  unfolding applyRecoveryActionProgression_def
  by (auto intro: progress_review_coherent progress_decision_coherent split: option.split)

definition flags_clear :: "RecoveryAssessment \<Rightarrow> bool" where
  "flags_clear r \<longleftrightarrow> \<not> rv_ReadyForNextRun r \<and> \<not> rv_ReadyForHandoffLaunch r \<and> \<not> rv_RequiresDecision r
     \<and> \<not> rv_RequiresRepair r \<and> \<not> rv_RequiresReview r \<and> \<not> rv_RequiresReconciliation r"

lemma base_clear [simp]: "flags_clear (recovery_base a)"
  by (simp add: flags_clear_def recovery_base_def)

lemma base_sel [simp]:
  "rv_LatestAction (recovery_base a) = ca_LatestRecoveryAction a"
  "rv_Reason (recovery_base a) = ca_Reason a"
  by (simp_all add: recovery_base_def)

lemma with_class_sel [simp]:
  "rv_RecoveryClass (with_class c act m r) = c"
  "rv_RecommendedAction (with_class c act m r) = act"
  "rv_LatestAction (with_class c act m r) = rv_LatestAction r"
  "rv_Reason (with_class c act m r) = m"
  "rv_ReadyForNextRun (with_class c act m r) = rv_ReadyForNextRun r"
  "rv_RecoveryClass (repair_recovery m r) = RecoveryClassRepairRequired"
  "rv_LatestAction (repair_recovery m r) = rv_LatestAction r"
  "rv_RecoveryClass (review_recovery c act m r) = c"
  "rv_LatestAction (review_recovery c act m r) = rv_LatestAction r"
  by (simp_all add: with_class_def repair_recovery_def review_recovery_def)

lemma repair_coherent: "flags_clear r \<Longrightarrow> coherent (repair_recovery m r)"
  by (simp add: coherent_def flags_for_def repair_recovery_def with_class_def flags_clear_def)

lemma review_coherent:
  assumes "flags_clear r" and "act = action_for c"
    and "c \<in> {RecoveryClassFailedRunReviewRequired, RecoveryClassValidationReviewRequired,
      RecoveryClassHandoffFollowThroughReviewRequired}"
  shows "coherent (review_recovery c act m r)"
  using assms by (auto simp: coherent_def flags_for_def review_recovery_def with_class_def flags_clear_def)

lemma plain_coherent:
  assumes "flags_clear r" and "act = action_for c"
    and "c \<in> {RecoveryClassHandoffLaunchPendingOutcome, RecoveryClassHandoffLaunchCompleted,
      RecoveryClassCompletedNoAction, RecoveryClassInterruptedRunRecoverable}"
  shows "coherent (with_class c act m r)"
  using assms by (auto simp: coherent_def flags_for_def with_class_def flags_clear_def)

lemma flagged_coherent:
  assumes "flags_clear r"
  shows "coherent ((with_class RecoveryClassAcceptedHandoffLaunchReady RecoveryActionLaunchAcceptedHandoff m r)
      \<lparr>rv_ReadyForHandoffLaunch := True\<rparr>)"
    and "coherent ((with_class RecoveryClassReadyNextRun RecoveryActionStartNextRun m r)
      \<lparr>rv_ReadyForNextRun := True\<rparr>)"
    and "coherent ((with_class RecoveryClassInterruptedRunRecoverable RecoveryActionResumeInterrupted m r)
      \<lparr>rv_ReadyForNextRun := False\<rparr>)"
    and "coherent ((with_class RecoveryClassStaleRunReconciliationRequired RecoveryActionReconcileStaleRun m r)
      \<lparr>rv_RequiresReconciliation := True\<rparr>)"
    and "c = RecoveryClassBlockedDrift \<or> c = RecoveryClassDecisionRequired \<Longrightarrow>
      coherent ((with_class c RecoveryActionMakeResumeDecision m r)\<lparr>rv_RequiresDecision := True\<rparr>)"
  using assms by (auto simp: coherent_def flags_for_def with_class_def flags_clear_def)

lemmas coherent_intros = progression_coherent repair_coherent review_coherent plain_coherent flagged_coherent

lemma override_coherent: "briefReadyRecoveryOverride r = Some x \<Longrightarrow> coherent x"
  unfolding briefReadyRecoveryOverride_def
  by (auto intro!: cleared_coherent split: option.splits RecoveryActionKind.splits)

lemma ready_recovery_coherent: "flags_clear r \<Longrightarrow> coherent (ready_recovery a r)"
  unfolding ready_recovery_def
  by (cases "briefReadyRecoveryOverride r")
    (simp_all only: option.case override_coherent progression_coherent flagged_coherent(2))

lemma handoff_recovery_coherent: "handoff_recovery a r = Some x \<Longrightarrow> flags_clear r \<Longrightarrow> coherent x"
  unfolding handoff_recovery_def Let_def
  by (cases "ca_LatestHandoff a"; cases "hc_State (hc_of a)")
    (auto simp del: append_Cons intro!: coherent_intros split: if_splits)

lemma run_recovery_coherent:
  assumes "run_recovery a r = Some x" and "flags_clear r"
  shows "coherent x"
proof -
  obtain run where run: "ca_LatestRun a = Some run"
    using assms(1) by (cases "ca_LatestRun a") (simp_all add: run_recovery_def)
  show ?thesis
  proof (cases "r_Status run")
    case RunStatusInterrupted
    then show ?thesis using assms run unfolding run_recovery_def
      by (cases "resumable_checkpoint a") (auto simp del: append_Cons intro!: coherent_intros)
  next
    case RunStatusFailed
    then show ?thesis using assms run unfolding run_recovery_def
      by (auto simp del: append_Cons intro!: coherent_intros)
  next
    case RunStatusCompleted
    then show ?thesis using assms run unfolding run_recovery_def
      by (cases "c_CurrentPhase (ca_Capsule a)")
        (auto simp del: append_Cons intro!: coherent_intros ready_recovery_coherent)
  qed (use assms run in \<open>simp_all add: run_recovery_def\<close>)
qed

lemma phase_recovery_coherent: "flags_clear r \<Longrightarrow> coherent (phase_recovery a r)"
  unfolding phase_recovery_def
  by (cases "c_CurrentPhase (ca_Capsule a)"; cases "resumable_checkpoint a")
    (simp_all only: Phase.case option.case repair_coherent review_coherent plain_coherent flagged_coherent
      action_for.simps insert_iff simp_thms)

lemma coherent_recovery: "coherent (recoveryFromContinueAssessment a)"
proof -
  have safe: "coherent (safe_recovery a (recovery_base a))"
    unfolding safe_recovery_def
    by (auto intro!: progression_coherent phase_recovery_coherent ready_recovery_coherent
        elim: handoff_recovery_coherent run_recovery_coherent split: option.split)
  show ?thesis
    unfolding recoveryFromContinueAssessment_def Let_def
    by (cases "ca_Outcome a") (simp_all add: coherent_intros safe)
qed

text \<open>
  C15. Whatever the assessment, the recovery class is one of the fifteen named classes, the
  recommended action is the one action of that class, and each readiness and requirement flag
  is set exactly for the classes it stands for: a task is never both ready for a run and in
  need of a decision, review, repair or reconciliation.
\<close>

theorem recovery_coherent: "coherent (recoveryFromContinueAssessment a)"
  by (rule coherent_recovery)

section \<open>When a next run is cleared\<close>

lemma progress_ready_class:
  "rv_RecoveryClass (applyRecoveryActionProgression r) = RecoveryClassReadyNextRun \<longleftrightarrow>
     rv_RecoveryClass r = RecoveryClassReadyNextRun
     \<and> (case rv_LatestAction r of None \<Rightarrow> True
        | Some act \<Rightarrow> ra_Kind act \<noteq> KindDecisionContinue \<and> ra_Kind act \<noteq> KindInterruptedResumeExecuted)"
proof (cases "rv_LatestAction r")
  case None
  then show ?thesis by (simp add: applyRecoveryActionProgression_def)
next
  case (Some act)
  then show ?thesis
    by (cases "ra_Kind act")
      (auto simp: applyRecoveryActionProgression_def progress_review_def progress_decision_def)
qed

definition held_by_action :: "continueAssessment \<Rightarrow> bool" where
  "held_by_action a = (case ca_LatestRecoveryAction a of None \<Rightarrow> False
     | Some act \<Rightarrow> ra_Kind act = KindDecisionContinue \<or> ra_Kind act = KindInterruptedResumeExecuted)"

lemma ready_recovery_class:
  "rv_RecoveryClass (ready_recovery a (recovery_base a)) =
     (if held_by_action a then RecoveryClassContinueExecutionRequired else RecoveryClassReadyNextRun)"
proof (cases "ca_LatestRecoveryAction a")
  case None
  then show ?thesis
    by (simp add: ready_recovery_def briefReadyRecoveryOverride_def held_by_action_def
        applyRecoveryActionProgression_def del: append_Cons)
next
  case (Some act)
  then show ?thesis
    by (cases "ra_Kind act")
      (simp_all add: ready_recovery_def briefReadyRecoveryOverride_def held_by_action_def
        applyRecoveryActionProgression_def progress_review_def progress_decision_def del: append_Cons)
qed

lemma handoff_recovery_not_ready:
  "handoff_recovery a r = Some h \<Longrightarrow> rv_RecoveryClass h \<noteq> RecoveryClassReadyNextRun"
  by (auto simp: handoff_recovery_def Let_def split: option.splits if_splits HandoffContinuityState.splits)

lemma run_recovery_not_ready:
  assumes "run_recovery a r = Some x" and "c_CurrentPhase (ca_Capsule a) \<noteq> PhaseBriefReady"
  shows "rv_RecoveryClass x \<noteq> RecoveryClassReadyNextRun"
proof -
  obtain run where run: "ca_LatestRun a = Some run"
    using assms(1) by (cases "ca_LatestRun a") (simp_all add: run_recovery_def)
  show ?thesis
    using assms run unfolding run_recovery_def
    by (cases "r_Status run"; cases "resumable_checkpoint a"; cases "c_CurrentPhase (ca_Capsule a)")
      (auto simp: progress_ready_class simp del: append_Cons)
qed

lemma phase_recovery_not_ready: "rv_RecoveryClass (phase_recovery a r) \<noteq> RecoveryClassReadyNextRun"
  unfolding phase_recovery_def
  by (cases "c_CurrentPhase (ca_Capsule a)"; cases "resumable_checkpoint a") (simp_all del: append_Cons)

lemma safe_recovery_class_ready:
  "rv_RecoveryClass (safe_recovery a (recovery_base a)) = RecoveryClassReadyNextRun \<longleftrightarrow>
     handoff_recovery a (recovery_base a) = None \<and> c_CurrentPhase (ca_Capsule a) = PhaseBriefReady
     \<and> \<not> held_by_action a"
proof (cases "handoff_recovery a (recovery_base a)")
  case (Some h)
  then show ?thesis
    using handoff_recovery_not_ready[OF Some] by (simp add: safe_recovery_def progress_ready_class)
next
  case None
  show ?thesis
  proof (cases "c_CurrentPhase (ca_Capsule a) = PhaseBriefReady")
    case True
    then show ?thesis using None by (simp add: safe_recovery_def ready_recovery_class)
  next
    case False
    then show ?thesis
      using None phase_recovery_not_ready run_recovery_not_ready
      by (auto simp: safe_recovery_def progress_ready_class split: option.split)
  qed
qed

lemma recovery_safe_only:
  "ca_Outcome a \<noteq> ContinueOutcomeSafe \<Longrightarrow>
     rv_RecoveryClass (recoveryFromContinueAssessment a) \<noteq> RecoveryClassReadyNextRun"
  by (cases "ca_Outcome a")
    (simp_all add: recoveryFromContinueAssessment_def Let_def progress_ready_class del: append_Cons)

lemma coherent_ready: "coherent r \<Longrightarrow> rv_ReadyForNextRun r \<longleftrightarrow> rv_RecoveryClass r = RecoveryClassReadyNextRun"
  by (simp add: coherent_def flags_for_def)

text \<open>
  C2. A task is ready for its next bounded run exactly when the continuity outcome is safe, no
  Claude handoff branch takes precedence, the capsule is in BRIEF_READY, and the latest operator
  action is neither an unfinished decision to continue nor an executed resume that still has to
  be finalized.
\<close>

theorem ready_for_next_run_iff:
  "rv_ReadyForNextRun (recoveryFromContinueAssessment a) \<longleftrightarrow>
     ca_Outcome a = ContinueOutcomeSafe \<and> handoff_recovery a (recovery_base a) = None
     \<and> c_CurrentPhase (ca_Capsule a) = PhaseBriefReady \<and> \<not> held_by_action a"
proof (cases "ca_Outcome a = ContinueOutcomeSafe")
  case True
  then have "recoveryFromContinueAssessment a = safe_recovery a (recovery_base a)"
    by (simp add: recoveryFromContinueAssessment_def)
  then show ?thesis
    using coherent_ready[OF coherent_recovery, of a] True by (simp add: safe_recovery_class_ready)
next
  case False
  then show ?thesis by (simp add: coherent_ready[OF coherent_recovery] recovery_safe_only)
qed

section \<open>A regenerate decision outlives its brief\<close>

lemma progress_regenerate:
  assumes "rv_LatestAction r = Some act" and "ra_Kind act = KindDecisionRegenerateBrief"
  shows "rv_RecoveryClass (applyRecoveryActionProgression r) =
    (if rv_RecoveryClass r = RecoveryClassReadyNextRun then RecoveryClassReadyNextRun
     else RecoveryClassRebriefRequired)"
  using assms by (simp add: applyRecoveryActionProgression_def progress_decision_def del: append_Cons)

text \<open>
  While the latest recorded operator action is the decision to regenerate the brief, every
  assessment that is not safe - a RUNNING run awaiting reconciliation, major or minor drift,
  inconsistent continuity - is reported as REBRIEF_REQUIRED, with no reconciliation, decision
  or repair required, even when the brief has been regenerated and a run was started since.
\<close>

theorem regenerate_decision_masks:
  assumes "ca_LatestRecoveryAction a = Some act" and "ra_Kind act = KindDecisionRegenerateBrief"
    and "ca_Outcome a \<noteq> ContinueOutcomeSafe"
  shows "rv_RecoveryClass (recoveryFromContinueAssessment a) = RecoveryClassRebriefRequired
    \<and> \<not> rv_RequiresReconciliation (recoveryFromContinueAssessment a)"
proof
  show c: "rv_RecoveryClass (recoveryFromContinueAssessment a) = RecoveryClassRebriefRequired"
    using assms
    by (cases "ca_Outcome a")
      (simp_all add: recoveryFromContinueAssessment_def Let_def progress_regenerate[where act = act]
        del: append_Cons)
  show "\<not> rv_RequiresReconciliation (recoveryFromContinueAssessment a)"
    using coherent_recovery[of a] c by (simp add: coherent_def flags_for_def)
qed

end
