(* ===== verification/Authority.thy ===== *)
theory Authority
  imports Recovery
begin

text \<open>
  Who may do what next: branch_provenance.go (which branch owns continuity),
  local_run_finalization.go, local_resume_authority.go and operator_action_authority.go (the
  state of each of the fourteen operator actions and the single required next one), and the
  run-start gate of recovery.go.
\<close>

section \<open>Branch provenance\<close>

datatype ActiveBranchClass =
    ActiveBranchClassUnset
  | ActiveBranchClassNotApplicable
  | ActiveBranchClassLocal
  | ActiveBranchClassHandoffClaude

primrec ActiveBranchClass_str :: "ActiveBranchClass \<Rightarrow> string" where
  "ActiveBranchClass_str ActiveBranchClassUnset = ''''"
| "ActiveBranchClass_str ActiveBranchClassNotApplicable = ''NOT_APPLICABLE''"
| "ActiveBranchClass_str ActiveBranchClassLocal = ''LOCAL''"
| "ActiveBranchClass_str ActiveBranchClassHandoffClaude = ''HANDOFF_CLAUDE''"

datatype ActiveBranchAnchorKind =
    ActiveBranchAnchorKindUnknown
  | ActiveBranchAnchorKindCapsule
  | ActiveBranchAnchorKindBrief
  | ActiveBranchAnchorKindCheckpoint
  | ActiveBranchAnchorKindHandoff

primrec ActiveBranchAnchorKind_str :: "ActiveBranchAnchorKind \<Rightarrow> string" where
  "ActiveBranchAnchorKind_str ActiveBranchAnchorKindUnknown = ''UNKNOWN''"
| "ActiveBranchAnchorKind_str ActiveBranchAnchorKindCapsule = ''CAPSULE''"
| "ActiveBranchAnchorKind_str ActiveBranchAnchorKindBrief = ''BRIEF''"
| "ActiveBranchAnchorKind_str ActiveBranchAnchorKindCheckpoint = ''CHECKPOINT''"
| "ActiveBranchAnchorKind_str ActiveBranchAnchorKindHandoff = ''HANDOFF''"

record ActiveBranchProvenance =
  bp_TaskID :: TaskID
  bp_Class :: ActiveBranchClass
  bp_BranchRef :: string
  bp_ActionabilityAnchor :: ActiveBranchAnchorKind
  bp_ActionabilityAnchorRef :: string
  bp_Reason :: string

definition deriveActiveBranchProvenance :: "WorkCapsule \<Rightarrow> RecoveryAssessment \<Rightarrow> ActiveBranchProvenance" where
  "deriveActiveBranchProvenance caps r =
     (let reason = TrimSpace (rv_Reason r) in
      if rv_HandoffID r \<noteq> []
      then \<lparr>bp_TaskID = c_TaskID caps, bp_Class = ActiveBranchClassHandoffClaude,
        bp_BranchRef = rv_HandoffID r, bp_ActionabilityAnchor = ActiveBranchAnchorKindHandoff,
        bp_ActionabilityAnchorRef = rv_HandoffID r,
        bp_Reason = (if reason \<noteq> [] then reason
          else ''Claude handoff branch '' @ rv_HandoffID r @ '' currently owns continuity'')\<rparr>
      else \<lparr>bp_TaskID = c_TaskID caps, bp_Class = ActiveBranchClassLocal,
        bp_BranchRef = c_TaskID caps,
        bp_ActionabilityAnchor =
          (if rv_CheckpointID r \<noteq> [] then ActiveBranchAnchorKindCheckpoint
           else if c_CurrentBriefID caps \<noteq> [] then ActiveBranchAnchorKindBrief
           else ActiveBranchAnchorKindCapsule),
        bp_ActionabilityAnchorRef =
          (if rv_CheckpointID r \<noteq> [] then rv_CheckpointID r
           else if c_CurrentBriefID caps \<noteq> [] then c_CurrentBriefID caps
           else c_TaskID caps),
        bp_Reason = (if reason \<noteq> []
          then ''local Tuku lineage currently controls canonical progression: '' @ reason
          else ''local Tuku lineage currently controls canonical progression'')\<rparr>)"

definition deriveActiveBranchProvenanceFromAssessment ::
  "continueAssessment \<Rightarrow> RecoveryAssessment \<Rightarrow> ActiveBranchProvenance" where
  "deriveActiveBranchProvenanceFromAssessment a r =
     (let hc = hc_of a in
      if ca_LatestHandoff a \<noteq> None \<and> hc_State hc \<noteq> HandoffContinuityStateNotApplicable
        \<and> hc_State hc \<noteq> HandoffContinuityStateResolved
      then \<lparr>bp_TaskID = ca_TaskID a, bp_Class = ActiveBranchClassHandoffClaude,
        bp_BranchRef = hc_HandoffID hc, bp_ActionabilityAnchor = ActiveBranchAnchorKindHandoff,
        bp_ActionabilityAnchorRef = hc_HandoffID hc, bp_Reason = hc_Reason hc\<rparr>
      else deriveActiveBranchProvenance (ca_Capsule a) r)"

section \<open>Local run finalization\<close>

datatype LocalRunFinalizationState =
    LocalRunFinalizationNoRelevantRun
  | LocalRunFinalizationFinalized
  | LocalRunFinalizationInterruptedRecoverable
  | LocalRunFinalizationInterruptedNeedsRepair
  | LocalRunFinalizationFailedReviewRequired
  | LocalRunFinalizationStaleReconciliationNeeded

primrec LocalRunFinalizationState_str :: "LocalRunFinalizationState \<Rightarrow> string" where
  "LocalRunFinalizationState_str LocalRunFinalizationNoRelevantRun = ''NO_RELEVANT_RUN''"
| "LocalRunFinalizationState_str LocalRunFinalizationFinalized = ''FINALIZED''"
| "LocalRunFinalizationState_str LocalRunFinalizationInterruptedRecoverable = ''INTERRUPTED_RECOVERABLE''"
| "LocalRunFinalizationState_str LocalRunFinalizationInterruptedNeedsRepair = ''INTERRUPTED_NEEDS_REPAIR''"
| "LocalRunFinalizationState_str LocalRunFinalizationFailedReviewRequired = ''FAILED_REVIEW_REQUIRED''"
| "LocalRunFinalizationState_str LocalRunFinalizationStaleReconciliationNeeded = ''STALE_RECONCILIATION_REQUIRED''"

record LocalRunFinalization =
  rf_TaskID :: TaskID
  rf_State :: LocalRunFinalizationState
  rf_RunID :: RunID
  rf_RunStatus :: RunStatus
  rf_CheckpointID :: CheckpointID
  rf_Reason :: string

definition checkpointIDFromAssessment :: "continueAssessment \<Rightarrow> RecoveryAssessment \<Rightarrow> CheckpointID" where
  "checkpointIDFromAssessment a r =
     (if rv_CheckpointID r \<noteq> [] then rv_CheckpointID r
      else (case ca_LatestCheckpoint a of Some cp \<Rightarrow> k_CheckpointID cp | None \<Rightarrow> []))"

definition deriveLocalRunFinalization ::
  "continueAssessment \<Rightarrow> RecoveryAssessment \<Rightarrow> LocalRunFinalization" where
  "deriveLocalRunFinalization a r =
     (let out0 = \<lparr>rf_TaskID = ca_TaskID a, rf_State = LocalRunFinalizationNoRelevantRun,
            rf_RunID = [], rf_RunStatus = RunStatusOther [], rf_CheckpointID = [],
            rf_Reason = ''no local run anchor is currently controlling recovery''\<rparr> in
      case ca_LatestRun a of
        None \<Rightarrow> out0
      | Some run \<Rightarrow>
         (let cpID = checkpointIDFromAssessment a r;
              out = out0\<lparr>rf_RunID := r_RunID run, rf_RunStatus := r_Status run, rf_CheckpointID := cpID\<rparr>
          in case r_Status run of
            RunStatusRunning \<Rightarrow> out\<lparr>rf_State := LocalRunFinalizationStaleReconciliationNeeded,
              rf_Reason := reason_or r (''latest run '' @ r_RunID run
                @ '' is still durably RUNNING and requires explicit stale reconciliation'')\<rparr>
          | RunStatusInterrupted \<Rightarrow>
              (if cpID \<noteq> [] \<and> (case ca_LatestCheckpoint a of None \<Rightarrow> True | Some cp \<Rightarrow> k_IsResumable cp)
               then out\<lparr>rf_State := LocalRunFinalizationInterruptedRecoverable,
                 rf_Reason := (if rv_RecoveryClass r = RecoveryClassContinueExecutionRequired
                     \<and> rv_RecommendedAction r = RecoveryActionExecuteContinueRecovery
                   then ''latest run '' @ r_RunID run
                     @ '' remains an interrupted local lineage with resumable checkpoint '' @ cpID
                     @ '', but explicit continue recovery is still required before any new bounded run''
                   else reason_or r (''interrupted run '' @ r_RunID run @ '' remains recoverable''))\<rparr>
               else out\<lparr>rf_State := LocalRunFinalizationInterruptedNeedsRepair,
                 rf_Reason := reason_or r (''interrupted run '' @ r_RunID run @ '' is not currently recoverable'')\<rparr>)
          | RunStatusFailed \<Rightarrow> out\<lparr>rf_State := LocalRunFinalizationFailedReviewRequired,
              rf_Reason := reason_or r (''latest run '' @ r_RunID run @ '' failed and still requires review'')\<rparr>
          | RunStatusCompleted \<Rightarrow> out\<lparr>rf_State := LocalRunFinalizationFinalized,
              rf_Reason := ''latest run '' @ r_RunID run @ '' is durably finalized with terminal status ''
                @ RunStatus_str (r_Status run)
                @ (if Phase_str (c_CurrentPhase (ca_Capsule a)) \<noteq> []
                   then ''; current task phase is '' @ Phase_str (c_CurrentPhase (ca_Capsule a)) else [])\<rparr>
          | _ \<Rightarrow> out\<lparr>rf_State := LocalRunFinalizationNoRelevantRun,
              rf_Reason := ''latest local run '' @ r_RunID run @ '' has unsupported status ''
                @ RunStatus_str (r_Status run)\<rparr>))"

section \<open>Local resume authority\<close>

datatype LocalResumeAuthorityState =
    LocalResumeAuthorityAllowed
  | LocalResumeAuthorityBlocked
  | LocalResumeAuthorityNotApplicable

primrec LocalResumeAuthorityState_str :: "LocalResumeAuthorityState \<Rightarrow> string" where
  "LocalResumeAuthorityState_str LocalResumeAuthorityAllowed = ''ALLOWED''"
| "LocalResumeAuthorityState_str LocalResumeAuthorityBlocked = ''BLOCKED''"
| "LocalResumeAuthorityState_str LocalResumeAuthorityNotApplicable = ''NOT_APPLICABLE''"

datatype LocalResumeMode =
    LocalResumeModeNone
  | LocalResumeModeResumeInterruptedLineage
  | LocalResumeModeFinalizeContinueRecovery
  | LocalResumeModeStartFreshNextRun

primrec LocalResumeMode_str :: "LocalResumeMode \<Rightarrow> string" where
  "LocalResumeMode_str LocalResumeModeNone = ''NONE''"
| "LocalResumeMode_str LocalResumeModeResumeInterruptedLineage = ''RESUME_INTERRUPTED_LINEAGE''"
| "LocalResumeMode_str LocalResumeModeFinalizeContinueRecovery = ''FINALIZE_CONTINUE_RECOVERY''"
| "LocalResumeMode_str LocalResumeModeStartFreshNextRun = ''START_FRESH_NEXT_RUN''"

record LocalResumeAuthority =
  lr_TaskID :: TaskID
  lr_State :: LocalResumeAuthorityState
  lr_Mode :: LocalResumeMode
  lr_CheckpointID :: CheckpointID
  lr_RunID :: RunID
  lr_BlockingBranchClass :: ActiveBranchClass
  lr_BlockingBranchRef :: string
  lr_Reason :: string

definition deriveLocalResumeAuthority ::
  "continueAssessment \<Rightarrow> RecoveryAssessment \<Rightarrow> LocalResumeAuthority" where
  "deriveLocalResumeAuthority a r =
     (let branch = deriveActiveBranchProvenanceFromAssessment a r;
          out = \<lparr>lr_TaskID = ca_TaskID a, lr_State = LocalResumeAuthorityNotApplicable,
            lr_Mode = LocalResumeModeNone, lr_CheckpointID = [], lr_RunID = [],
            lr_BlockingBranchClass = ActiveBranchClassUnset, lr_BlockingBranchRef = [], lr_Reason = []\<rparr> in
      if bp_Class branch = ActiveBranchClassHandoffClaude
      then out\<lparr>lr_State := LocalResumeAuthorityBlocked, lr_BlockingBranchClass := bp_Class branch,
        lr_BlockingBranchRef := bp_BranchRef branch,
        lr_Reason := ''local interrupted-lineage resume is blocked while Claude handoff branch ''
          @ bp_BranchRef branch @ '' owns continuity''\<rparr>
      else if rv_RecoveryClass r = RecoveryClassInterruptedRunRecoverable
        \<and> rv_RecommendedAction r = RecoveryActionResumeInterrupted
      then out\<lparr>lr_State := LocalResumeAuthorityAllowed,
        lr_Mode := LocalResumeModeResumeInterruptedLineage,
        lr_CheckpointID := rv_CheckpointID r, lr_RunID := rv_RunID r,
        lr_Reason := reason_or r (if rv_CheckpointID r \<noteq> []
          then ''local interrupted lineage is recoverable from checkpoint '' @ rv_CheckpointID r
          else ''local interrupted lineage is recoverable'')\<rparr>
      else if rv_RecoveryClass r = RecoveryClassContinueExecutionRequired
        \<and> rv_RecommendedAction r = RecoveryActionExecuteContinueRecovery
      then out\<lparr>lr_Mode := LocalResumeModeFinalizeContinueRecovery,
        lr_CheckpointID := rv_CheckpointID r, lr_RunID := rv_RunID r,
        lr_Reason := ''local interrupted-lineage resume is not applicable; explicit continue recovery must be executed before any new bounded run''\<rparr>
      else if rv_RecoveryClass r = RecoveryClassReadyNextRun
        \<and> rv_RecommendedAction r = RecoveryActionStartNextRun \<and> rv_ReadyForNextRun r
      then out\<lparr>lr_Mode := LocalResumeModeStartFreshNextRun, lr_CheckpointID := rv_CheckpointID r,
        lr_Reason := ''local interrupted-lineage resume is not applicable; task is cleared for a fresh bounded run''
          @ (if c_CurrentBriefID (ca_Capsule a) \<noteq> []
             then '' with brief '' @ c_CurrentBriefID (ca_Capsule a) else [])\<rparr>
      else out\<lparr>lr_CheckpointID := checkpointIDFromAssessment a r, lr_RunID := rv_RunID r,
        lr_Reason := ''local interrupted-lineage resume is not currently authorized''
          @ (if rv_Reason r \<noteq> [] then '': '' @ rv_Reason r else [])\<rparr>)"

definition localResumeDescriptorForReadyNextRun :: "CheckpointID \<Rightarrow> string" where
  "localResumeDescriptorForReadyNextRun cpID =
     (if cpID \<noteq> [] then ''Fresh next bounded run is ready; checkpoint '' @ cpID
        @ '' captures the current local recovery boundary.''
      else ''Fresh next bounded run is ready from current local recovery state.'')"

definition localResumeDescriptorForInterrupted :: "CheckpointID \<Rightarrow> string" where
  "localResumeDescriptorForInterrupted cpID =
     (if cpID \<noteq> [] then ''Interrupted execution lineage is recoverable from checkpoint '' @ cpID @ ''.''
      else ''Interrupted execution lineage is recoverable.'')"

section \<open>Operator action authority\<close>

datatype OperatorAction =
    OperatorActionNone
  | OperatorActionLocalMessageMutation
  | OperatorActionCreateCheckpoint
  | OperatorActionStartLocalRun
  | OperatorActionReconcileStaleRun
  | OperatorActionInspectFailedRun
  | OperatorActionReviewValidationState
  | OperatorActionMakeResumeDecision
  | OperatorActionResumeInterruptedLineage
  | OperatorActionFinalizeContinueRecovery
  | OperatorActionExecuteRebrief
  | OperatorActionLaunchAcceptedHandoff
  | OperatorActionReviewHandoffFollowUp
  | OperatorActionResolveActiveHandoff
  | OperatorActionRepairContinuity

primrec OperatorAction_str :: "OperatorAction \<Rightarrow> string" where
  "OperatorAction_str OperatorActionNone = ''NONE''"
| "OperatorAction_str OperatorActionLocalMessageMutation = ''LOCAL_MESSAGE_MUTATION''"
| "OperatorAction_str OperatorActionCreateCheckpoint = ''CREATE_CHECKPOINT''"
| "OperatorAction_str OperatorActionStartLocalRun = ''START_LOCAL_RUN''"
| "OperatorAction_str OperatorActionReconcileStaleRun = ''RECONCILE_STALE_RUN''"
| "OperatorAction_str OperatorActionInspectFailedRun = ''INSPECT_FAILED_RUN''"
| "OperatorAction_str OperatorActionReviewValidationState = ''REVIEW_VALIDATION_STATE''"
| "OperatorAction_str OperatorActionMakeResumeDecision = ''MAKE_RESUME_DECISION''"
| "OperatorAction_str OperatorActionResumeInterruptedLineage = ''RESUME_INTERRUPTED_LINEAGE''"
| "OperatorAction_str OperatorActionFinalizeContinueRecovery = ''FINALIZE_CONTINUE_RECOVERY''"
| "OperatorAction_str OperatorActionExecuteRebrief = ''EXECUTE_REBRIEF''"
| "OperatorAction_str OperatorActionLaunchAcceptedHandoff = ''LAUNCH_ACCEPTED_HANDOFF''"
| "OperatorAction_str OperatorActionReviewHandoffFollowUp = ''REVIEW_HANDOFF_FOLLOW_THROUGH''"
| "OperatorAction_str OperatorActionResolveActiveHandoff = ''RESOLVE_ACTIVE_HANDOFF''"
| "OperatorAction_str OperatorActionRepairContinuity = ''REPAIR_CONTINUITY''"

datatype OperatorActionAuthorityState =
    OperatorActionAuthorityAllowed
  | OperatorActionAuthorityBlocked
  | OperatorActionAuthorityNotApplicable
  | OperatorActionAuthorityRequiredNext

primrec OperatorActionAuthorityState_str :: "OperatorActionAuthorityState \<Rightarrow> string" where
  "OperatorActionAuthorityState_str OperatorActionAuthorityAllowed = ''ALLOWED''"
| "OperatorActionAuthorityState_str OperatorActionAuthorityBlocked = ''BLOCKED''"
| "OperatorActionAuthorityState_str OperatorActionAuthorityNotApplicable = ''NOT_APPLICABLE''"
| "OperatorActionAuthorityState_str OperatorActionAuthorityRequiredNext = ''REQUIRED_NEXT''"

record OperatorActionAuthority =
  oa_TaskID :: TaskID
  oa_Action :: OperatorAction
  oa_State :: OperatorActionAuthorityState
  oa_Reason :: string
  oa_BlockingBranchClass :: ActiveBranchClass
  oa_BlockingBranchRef :: string
  oa_AnchorKind :: ActiveBranchAnchorKind
  oa_AnchorRef :: string

record OperatorActionAuthoritySet =
  os_TaskID :: TaskID
  os_RequiredNextAction :: OperatorAction
  os_Actions :: "OperatorActionAuthority list"

definition operatorActionBase ::
  "TaskID \<Rightarrow> OperatorAction \<Rightarrow> ActiveBranchAnchorKind \<Rightarrow> string \<Rightarrow> OperatorActionAuthority" where
  "operatorActionBase t action anchorKind anchorRef = \<lparr>oa_TaskID = t, oa_Action = action,
     oa_State = OperatorActionAuthorityNotApplicable, oa_Reason = [],
     oa_BlockingBranchClass = ActiveBranchClassUnset, oa_BlockingBranchRef = [],
     oa_AnchorKind = anchorKind, oa_AnchorRef = TrimSpace anchorRef\<rparr>"

definition operatorActionAuthorityFor ::
  "OperatorActionAuthoritySet \<Rightarrow> OperatorAction \<Rightarrow> OperatorActionAuthority option" where
  "operatorActionAuthorityFor aset action = find (\<lambda>x. oa_Action x = action) (os_Actions aset)"

text \<open>The loop of \<open>setOperatorActionState\<close>: the first entry for the action is rewritten.\<close>

fun update_first ::
  "OperatorAction \<Rightarrow> (OperatorActionAuthority \<Rightarrow> OperatorActionAuthority) \<Rightarrow>
     OperatorActionAuthority list \<Rightarrow> OperatorActionAuthority list" where
  "update_first action f [] = []"
| "update_first action f (x # xs) =
     (if oa_Action x \<noteq> action then x # update_first action f xs else f x # xs)"

definition setOperatorActionState ::
  "OperatorAction \<Rightarrow> OperatorActionAuthorityState \<Rightarrow> string \<Rightarrow> ActiveBranchClass \<Rightarrow> string \<Rightarrow>
     OperatorActionAuthoritySet \<Rightarrow> OperatorActionAuthoritySet" where
  "setOperatorActionState action st reason branchClass branchRef aset =
     aset\<lparr>os_Actions := update_first action
       (\<lambda>x. x\<lparr>oa_State := st, oa_Reason := TrimSpace reason,
          oa_BlockingBranchClass := branchClass, oa_BlockingBranchRef := TrimSpace branchRef\<rparr>)
       (os_Actions aset)\<rparr>"

definition setActionAllowed ::
  "OperatorAction \<Rightarrow> string \<Rightarrow> OperatorActionAuthoritySet \<Rightarrow> OperatorActionAuthoritySet" where
  "setActionAllowed action reason aset =
     setOperatorActionState action OperatorActionAuthorityAllowed reason ActiveBranchClassNotApplicable [] aset"

definition setActionBlocked ::
  "OperatorAction \<Rightarrow> string \<Rightarrow> ActiveBranchClass \<Rightarrow> string \<Rightarrow> OperatorActionAuthoritySet \<Rightarrow> OperatorActionAuthoritySet" where
  "setActionBlocked action reason branchClass branchRef aset =
     setOperatorActionState action OperatorActionAuthorityBlocked reason branchClass branchRef aset"

definition setActionNotApplicable ::
  "OperatorAction \<Rightarrow> string \<Rightarrow> OperatorActionAuthoritySet \<Rightarrow> OperatorActionAuthoritySet" where
  "setActionNotApplicable action reason aset =
     setOperatorActionState action OperatorActionAuthorityNotApplicable reason ActiveBranchClassNotApplicable [] aset"

definition setActionRequiredNext ::
  "OperatorAction \<Rightarrow> string \<Rightarrow> OperatorActionAuthoritySet \<Rightarrow> OperatorActionAuthoritySet" where
  "setActionRequiredNext action reason aset =
     setOperatorActionState action OperatorActionAuthorityRequiredNext reason ActiveBranchClassNotApplicable []
       (aset\<lparr>os_RequiredNextAction := action\<rparr>)"

definition blockedByClaudeHandoffReason :: "HandoffContinuity \<Rightarrow> string \<Rightarrow> string" where
  "blockedByClaudeHandoffReason hc action =
     (case hc_State hc of
        HandoffContinuityStateLaunchPendingOutcome \<Rightarrow> ''Cannot '' @ action
          @ '' while Claude handoff launch attempt '' @ nonEmpty (hc_LaunchAttemptID hc) (hc_HandoffID hc)
          @ '' is still pending outcome. Downstream continuation remains unproven.''
      | HandoffContinuityStateFollowThroughStalled \<Rightarrow> ''Cannot '' @ action @ '' while Claude handoff ''
          @ hc_HandoffID hc @ '' is stalled and requires review.''
      | HandoffContinuityStateLaunchCompletedAckLost \<Rightarrow> ''Cannot '' @ action @ '' while Claude handoff ''
          @ hc_HandoffID hc @ '' has inconsistent continuity and must be repaired first.''
      | _ \<Rightarrow>
         (if hc_State hc \<in> {HandoffContinuityStateAcceptedNotLaunched, HandoffContinuityStateLaunchFailedRetryable}
          then ''Cannot '' @ action @ '' while Claude handoff '' @ hc_HandoffID hc
            @ '' is the active continuity branch. Launch or explicitly resolve that handoff first.''
          else if hc_State hc \<in> {HandoffContinuityStateLaunchCompletedAckSeen,
            HandoffContinuityStateLaunchCompletedAckEmpty, HandoffContinuityStateFollowThroughProofOfLife,
            HandoffContinuityStateFollowThroughConfirmed, HandoffContinuityStateFollowThroughUnknown}
          then ''Cannot '' @ action @ '' while launched Claude handoff '' @ hc_HandoffID hc
            @ '' remains the active continuity branch. Tuku has not proven downstream completion, so monitor or explicitly resolve that handoff first.''
          else ''Cannot '' @ action @ '' while Claude handoff branch ''
            @ nonEmpty (hc_HandoffID hc) ''unknown'' @ '' owns continuity.''))"

definition blockLocalAction ::
  "OperatorAction \<Rightarrow> ActiveBranchProvenance \<Rightarrow> HandoffContinuity \<Rightarrow> string \<Rightarrow>
     OperatorActionAuthoritySet \<Rightarrow> OperatorActionAuthoritySet" where
  "blockLocalAction action branch hc label aset =
     setActionBlocked action (blockedByClaudeHandoffReason hc label) (bp_Class branch) (bp_BranchRef branch) aset"

definition operatorActionFromRecovery :: "RecoveryAssessment \<Rightarrow> OperatorAction" where
  "operatorActionFromRecovery r =
     (case rv_RecommendedAction r of
        RecoveryActionStartNextRun \<Rightarrow> OperatorActionStartLocalRun
      | RecoveryActionResumeInterrupted \<Rightarrow> OperatorActionResumeInterruptedLineage
      | RecoveryActionLaunchAcceptedHandoff \<Rightarrow> OperatorActionLaunchAcceptedHandoff
      | RecoveryActionReviewHandoffFollowThrough \<Rightarrow> OperatorActionReviewHandoffFollowUp
      | RecoveryActionInspectFailedRun \<Rightarrow> OperatorActionInspectFailedRun
      | RecoveryActionReviewValidation \<Rightarrow> OperatorActionReviewValidationState
      | RecoveryActionReconcileStaleRun \<Rightarrow> OperatorActionReconcileStaleRun
      | RecoveryActionMakeResumeDecision \<Rightarrow> OperatorActionMakeResumeDecision
      | RecoveryActionExecuteContinueRecovery \<Rightarrow> OperatorActionFinalizeContinueRecovery
      | RecoveryActionRepairContinuity \<Rightarrow> OperatorActionRepairContinuity
      | RecoveryActionRegenerateBrief \<Rightarrow> OperatorActionExecuteRebrief
      | _ \<Rightarrow> OperatorActionNone)"

definition localRunStartReason :: "continueAssessment \<Rightarrow> RecoveryAssessment \<Rightarrow> string" where
  "localRunStartReason a r = reason_or r
     (if c_CurrentBriefID (ca_Capsule a) \<noteq> []
      then ''task is cleared for a fresh bounded local run with brief '' @ c_CurrentBriefID (ca_Capsule a)
      else ''task is cleared for a fresh bounded local run'')"

definition requiredNextReason :: "OperatorActionAuthoritySet \<Rightarrow> OperatorAction \<Rightarrow> string \<Rightarrow> string" where
  "requiredNextReason aset action fallback =
     (case operatorActionAuthorityFor aset action of
        Some x \<Rightarrow> (if TrimSpace (oa_Reason x) \<noteq> [] then oa_Reason x else TrimSpace fallback)
      | None \<Rightarrow> TrimSpace fallback)"

subsection \<open>The stages of deriveOperatorActionAuthoritySet\<close>

definition authority_base ::
  "continueAssessment \<Rightarrow> ActiveBranchProvenance \<Rightarrow> LocalRunFinalization \<Rightarrow> LocalResumeAuthority \<Rightarrow>
     OperatorActionAuthoritySet" where
  "authority_base a branch rf lr =
     (let t = ca_TaskID a; ak = bp_ActionabilityAnchor branch; ar = bp_ActionabilityAnchorRef branch;
          brief = c_CurrentBriefID (ca_Capsule a); hid = hc_HandoffID (hc_of a) in
      \<lparr>os_TaskID = t, os_RequiredNextAction = OperatorActionNone, os_Actions =
        [operatorActionBase t OperatorActionLocalMessageMutation ak ar,
         operatorActionBase t OperatorActionCreateCheckpoint ak ar,
         operatorActionBase t OperatorActionStartLocalRun ak ar,
         operatorActionBase t OperatorActionReconcileStaleRun ActiveBranchAnchorKindCheckpoint (rf_CheckpointID rf),
         operatorActionBase t OperatorActionInspectFailedRun ActiveBranchAnchorKindCheckpoint (rf_RunID rf),
         operatorActionBase t OperatorActionReviewValidationState ak ar,
         operatorActionBase t OperatorActionMakeResumeDecision ak ar,
         operatorActionBase t OperatorActionResumeInterruptedLineage ActiveBranchAnchorKindCheckpoint (lr_CheckpointID lr),
         operatorActionBase t OperatorActionFinalizeContinueRecovery ActiveBranchAnchorKindBrief brief,
         operatorActionBase t OperatorActionExecuteRebrief ActiveBranchAnchorKindBrief brief,
         operatorActionBase t OperatorActionLaunchAcceptedHandoff ActiveBranchAnchorKindHandoff hid,
         operatorActionBase t OperatorActionReviewHandoffFollowUp ActiveBranchAnchorKindHandoff hid,
         operatorActionBase t OperatorActionResolveActiveHandoff ActiveBranchAnchorKindHandoff hid,
         operatorActionBase t OperatorActionRepairContinuity ak ar]\<rparr>)"

text \<open>The ten local actions with the words used when a Claude branch blocks them.\<close>

definition local_actions :: "(OperatorAction \<times> string) list" where
  "local_actions =
     [(OperatorActionLocalMessageMutation, ''send a local task message''),
      (OperatorActionCreateCheckpoint, ''create a local checkpoint''),
      (OperatorActionStartLocalRun, ''start a fresh local run''),
      (OperatorActionReconcileStaleRun, ''reconcile stale local run state''),
      (OperatorActionInspectFailedRun, ''inspect failed local run evidence''),
      (OperatorActionReviewValidationState, ''review local validation state''),
      (OperatorActionMakeResumeDecision, ''make a local resume decision''),
      (OperatorActionResumeInterruptedLineage, ''resume interrupted local lineage''),
      (OperatorActionFinalizeContinueRecovery, ''finalize local continue recovery''),
      (OperatorActionExecuteRebrief, ''regenerate the local execution brief'')]"

definition authority_by_branch ::
  "ActiveBranchProvenance \<Rightarrow> HandoffContinuity \<Rightarrow> OperatorActionAuthoritySet \<Rightarrow> OperatorActionAuthoritySet" where
  "authority_by_branch branch hc s =
     (if bp_Class branch = ActiveBranchClassHandoffClaude
      then foldl (\<lambda>s (action, label). blockLocalAction action branch hc label s) s local_actions
      else setActionAllowed OperatorActionCreateCheckpoint
             ''local lineage owns continuity; capturing a local checkpoint is allowed''
             (setActionAllowed OperatorActionLocalMessageMutation
               ''local lineage owns canonical mutation; sending a task message is allowed'' s))"

definition block_run_start :: "RecoveryAssessment \<Rightarrow> OperatorActionAuthoritySet \<Rightarrow> OperatorActionAuthoritySet" where
  "block_run_start r s = setActionBlocked OperatorActionStartLocalRun (runStartBlockedCanonical r)
     ActiveBranchClassNotApplicable [] s"

definition authority_by_recovery ::
  "continueAssessment \<Rightarrow> RecoveryAssessment \<Rightarrow> LocalRunFinalization \<Rightarrow>
     OperatorActionAuthoritySet \<Rightarrow> OperatorActionAuthoritySet" where
  "authority_by_recovery a r rf s =
     (case rv_RecoveryClass r of
        RecoveryClassReadyNextRun \<Rightarrow> setActionAllowed OperatorActionStartLocalRun (localRunStartReason a r) s
      | RecoveryClassInterruptedRunRecoverable \<Rightarrow> block_run_start r s
      | RecoveryClassContinueExecutionRequired \<Rightarrow> block_run_start r s
      | RecoveryClassStaleRunReconciliationRequired \<Rightarrow> setActionAllowed OperatorActionReconcileStaleRun
          (nonEmpty (rf_Reason rf) (rv_Reason r)) (block_run_start r s)
      | RecoveryClassFailedRunReviewRequired \<Rightarrow> setActionAllowed OperatorActionInspectFailedRun
          (nonEmpty (rf_Reason rf) (rv_Reason r)) (block_run_start r s)
      | RecoveryClassValidationReviewRequired \<Rightarrow> setActionAllowed OperatorActionReviewValidationState
          (rv_Reason r) (block_run_start r s)
      | RecoveryClassDecisionRequired \<Rightarrow> setActionAllowed OperatorActionMakeResumeDecision
          (rv_Reason r) (block_run_start r s)
      | RecoveryClassBlockedDrift \<Rightarrow> setActionAllowed OperatorActionMakeResumeDecision
          (rv_Reason r) (block_run_start r s)
      | RecoveryClassRebriefRequired \<Rightarrow> setActionAllowed OperatorActionExecuteRebrief
          (rv_Reason r) (block_run_start r s)
      | RecoveryClassAcceptedHandoffLaunchReady \<Rightarrow>
          setActionAllowed OperatorActionLaunchAcceptedHandoff (rv_Reason r) s
      | RecoveryClassHandoffFollowThroughReviewRequired \<Rightarrow>
          setActionAllowed OperatorActionReviewHandoffFollowUp (rv_Reason r) s
      | RecoveryClassRepairRequired \<Rightarrow> setActionAllowed OperatorActionRepairContinuity
          (rv_Reason r) (block_run_start r s)
      | RecoveryClassCompletedNoAction \<Rightarrow> setActionNotApplicable OperatorActionStartLocalRun
          ''task is already completed; no fresh local run start is applicable'' s
      | _ \<Rightarrow> s)"

definition authority_by_resume ::
  "LocalRunFinalization \<Rightarrow> LocalResumeAuthority \<Rightarrow> OperatorActionAuthoritySet \<Rightarrow> OperatorActionAuthoritySet" where
  "authority_by_resume rf lr s =
     (case lr_State lr of
        LocalResumeAuthorityAllowed \<Rightarrow>
          (if lr_Mode lr = LocalResumeModeResumeInterruptedLineage
           then setActionAllowed OperatorActionResumeInterruptedLineage (lr_Reason lr) s else s)
      | LocalResumeAuthorityBlocked \<Rightarrow> setActionBlocked OperatorActionResumeInterruptedLineage
          (lr_Reason lr) (lr_BlockingBranchClass lr) (lr_BlockingBranchRef lr) s
      | LocalResumeAuthorityNotApplicable \<Rightarrow>
         (if lr_Mode lr = LocalResumeModeFinalizeContinueRecovery
          then setActionAllowed OperatorActionFinalizeContinueRecovery (lr_Reason lr)
            (setActionNotApplicable OperatorActionResumeInterruptedLineage (lr_Reason lr) s)
          else if lr_Mode lr = LocalResumeModeStartFreshNextRun
          then setActionNotApplicable OperatorActionResumeInterruptedLineage (lr_Reason lr) s
          else if rf_State rf = LocalRunFinalizationStaleReconciliationNeeded
          then setActionBlocked OperatorActionResumeInterruptedLineage
            ''interrupted-lineage resume is not authorized until stale local run state is reconciled''
            ActiveBranchClassNotApplicable [] s
          else if rf_State rf = LocalRunFinalizationFailedReviewRequired
          then setActionBlocked OperatorActionResumeInterruptedLineage
            ''interrupted-lineage resume is not authorized while the latest failed run still requires review''
            ActiveBranchClassNotApplicable [] s
          else setActionNotApplicable OperatorActionResumeInterruptedLineage (lr_Reason lr) s))"

definition authority_by_handoff ::
  "ActiveBranchProvenance \<Rightarrow> HandoffContinuity \<Rightarrow> OperatorActionAuthoritySet \<Rightarrow> OperatorActionAuthoritySet" where
  "authority_by_handoff branch hc s =
     (if bp_Class branch = ActiveBranchClassHandoffClaude
      then (if hc_State hc \<in> {HandoffContinuityStateAcceptedNotLaunched, HandoffContinuityStateLaunchFailedRetryable}
        then setActionAllowed OperatorActionResolveActiveHandoff
            ''active Claude handoff branch can be explicitly resolved without claiming downstream completion''
            (setActionAllowed OperatorActionLaunchAcceptedHandoff (hc_Reason hc) s)
        else if hc_State hc \<noteq> HandoffContinuityStateNotApplicable \<and> hc_State hc \<noteq> HandoffContinuityStateResolved
        then setActionAllowed OperatorActionResolveActiveHandoff
            ''active Claude handoff branch can be explicitly resolved without claiming downstream completion''
            (setActionNotApplicable OperatorActionLaunchAcceptedHandoff
              ''accepted-handoff launch is no longer applicable for the active Claude branch because launch state already exists'' s)
        else setActionNotApplicable OperatorActionResolveActiveHandoff
            ''no active Claude handoff branch currently requires explicit resolution''
            (setActionNotApplicable OperatorActionLaunchAcceptedHandoff
              ''no active accepted Claude handoff is waiting for launch'' s))
      else setActionNotApplicable OperatorActionResolveActiveHandoff
          ''no active Claude handoff branch currently requires explicit resolution''
          (setActionNotApplicable OperatorActionReviewHandoffFollowUp
            ''no active Claude handoff requires follow-through review''
            (setActionNotApplicable OperatorActionLaunchAcceptedHandoff
              ''no active accepted Claude handoff is waiting for launch'' s)))"

definition authority_required ::
  "RecoveryAssessment \<Rightarrow> OperatorActionAuthoritySet \<Rightarrow> OperatorActionAuthoritySet" where
  "authority_required r s =
     (let action = operatorActionFromRecovery r in
      if os_RequiredNextAction s = OperatorActionNone \<and> action \<noteq> OperatorActionNone
      then setActionRequiredNext action (requiredNextReason s action (rv_Reason r)) s
      else s)"

definition deriveOperatorActionAuthoritySet ::
  "continueAssessment \<Rightarrow> RecoveryAssessment \<Rightarrow> ActiveBranchProvenance \<Rightarrow> LocalRunFinalization \<Rightarrow>
     LocalResumeAuthority \<Rightarrow> OperatorActionAuthoritySet" where
  "deriveOperatorActionAuthoritySet a r branch rf lr =
     authority_required r (authority_by_handoff branch (hc_of a) (authority_by_resume rf lr
       (authority_by_recovery a r rf (authority_by_branch branch (hc_of a)
         (authority_base a branch rf lr)))))"

definition runStartEligibility :: "RecoveryAssessment \<Rightarrow> OperatorActionAuthoritySet \<Rightarrow> bool \<times> string" where
  "runStartEligibility r s =
     (let fallback = (if rv_RecoveryClass r = RecoveryClassReadyNextRun
            \<and> rv_RecommendedAction r = RecoveryActionStartNextRun \<and> rv_ReadyForNextRun r
          then (True, []) else (False, runStartBlockedCanonical r)) in
      case operatorActionAuthorityFor s OperatorActionStartLocalRun of
        None \<Rightarrow> fallback
      | Some x \<Rightarrow>
         (case oa_State x of
            OperatorActionAuthorityAllowed \<Rightarrow> (True, [])
          | OperatorActionAuthorityRequiredNext \<Rightarrow> (True, [])
          | OperatorActionAuthorityBlocked \<Rightarrow> (False, oa_Reason x)
          | OperatorActionAuthorityNotApplicable \<Rightarrow>
              (if TrimSpace (oa_Reason x) \<noteq> [] then (False, oa_Reason x) else fallback)))"

text \<open>The authorities of an assessment, composed as its callers compose them.\<close>

definition authorities_of :: "continueAssessment \<Rightarrow> OperatorActionAuthoritySet" where
  "authorities_of a =
     (let r = recoveryFromContinueAssessment a in
      deriveOperatorActionAuthoritySet a r (deriveActiveBranchProvenanceFromAssessment a r)
        (deriveLocalRunFinalization a r) (deriveLocalResumeAuthority a r))"

definition assessRunStartRecovery ::
  "(string \<Rightarrow> Snapshot) \<Rightarrow> TaskID \<Rightarrow> Db \<Rightarrow> go_error + (RecoveryAssessment \<times> bool \<times> string)" where
  "assessRunStartRecovery capture t d =
     rbnd (assessContinue capture t d) (\<lambda>a.
       Inr (recoveryFromContinueAssessment a,
            runStartEligibility (recoveryFromContinueAssessment a) (authorities_of a)))"

text \<open>\<open>localMutationBlockedByClaudeHandoff\<close>: the reason that blocks a mutation, empty when allowed.\<close>

definition mutation_action :: "string \<Rightarrow> OperatorAction option" where
  "mutation_action mutation =
     (if TrimSpace mutation = ''compile a new local execution brief'' then Some OperatorActionLocalMessageMutation
      else if TrimSpace mutation = ''capture a new local checkpoint'' then Some OperatorActionCreateCheckpoint
      else None)"

definition localMutationBlockedByClaudeHandoff ::
  "(string \<Rightarrow> Snapshot) \<Rightarrow> TaskID \<Rightarrow> string \<Rightarrow> Db \<Rightarrow> go_error + string" where
  "localMutationBlockedByClaudeHandoff capture t mutation d =
     rbnd (assessContinue capture t d) (\<lambda>a. Inr
       (case mutation_action mutation of
          None \<Rightarrow> []
        | Some action \<Rightarrow>
           (case operatorActionAuthorityFor (authorities_of a) action of
              None \<Rightarrow> []
            | Some x \<Rightarrow> (if oa_State x = OperatorActionAuthorityBlocked then oa_Reason x else []))))"

section \<open>The state of one action\<close>

definition auth_state :: "OperatorActionAuthoritySet \<Rightarrow> OperatorAction \<Rightarrow> OperatorActionAuthorityState option" where
  "auth_state s x = map_option oa_State (operatorActionAuthorityFor s x)"

text \<open>Every action but NONE has exactly one entry to be found.\<close>

definition present :: "OperatorActionAuthoritySet \<Rightarrow> bool" where
  "present s \<longleftrightarrow> (\<forall>x. auth_state s x = None \<longleftrightarrow> x = OperatorActionNone)"

lemma find_update_first:
  assumes "\<And>x. oa_Action (f x) = oa_Action x"
  shows "find (\<lambda>x. oa_Action x = b) (update_first a f xs) =
    (if b = a then map_option f (find (\<lambda>x. oa_Action x = b) xs) else find (\<lambda>x. oa_Action x = b) xs)"
  by (induction xs) (auto simp: assms)

lemma auth_state_set:
  "auth_state (setOperatorActionState a st m bc br s) x =
     (if x = a \<and> auth_state s a \<noteq> None then Some st else auth_state s x)"
proof (cases "operatorActionAuthorityFor s a")
  case None
  then show ?thesis
    by (auto simp: auth_state_def operatorActionAuthorityFor_def setOperatorActionState_def find_update_first)
next
  case (Some y)
  then show ?thesis
    by (auto simp: auth_state_def operatorActionAuthorityFor_def setOperatorActionState_def find_update_first)
qed

lemma present_set [simp]: "present (setOperatorActionState a st m bc br s) = present s"
proof -
  have "auth_state (setOperatorActionState a st m bc br s) x = None \<longleftrightarrow> auth_state s x = None" for x
    by (cases "x = a"; cases "auth_state s a = None") (simp_all add: auth_state_set)
  then show ?thesis by (simp add: present_def)
qed

lemma required_set [simp]:
  "os_RequiredNextAction (setOperatorActionState a st m bc br s) = os_RequiredNextAction s"
  by (simp add: setOperatorActionState_def)

lemma auth_state_of_set:
  assumes "present s" and "a \<noteq> OperatorActionNone"
  shows "auth_state (setOperatorActionState a st m bc br s) x = (if x = a then Some st else auth_state s x)"
proof -
  have "auth_state s a \<noteq> None" using assms by (simp add: present_def)
  then show ?thesis by (simp add: auth_state_set)
qed

lemmas setters = setActionAllowed_def setActionBlocked_def setActionNotApplicable_def

lemma auth_state_required [simp]: "auth_state (s\<lparr>os_RequiredNextAction := r\<rparr>) x = auth_state s x"
  by (simp add: auth_state_def operatorActionAuthorityFor_def)

lemma base_state:
  "auth_state (authority_base a branch rf lr) x =
     (if x = OperatorActionNone then None else Some OperatorActionAuthorityNotApplicable)"
  by (cases x) (simp_all add: authority_base_def auth_state_def operatorActionAuthorityFor_def
      operatorActionBase_def Let_def)

lemma base_present: "present (authority_base a branch rf lr)"
  by (simp add: present_def base_state)

lemma base_required: "os_RequiredNextAction (authority_base a branch rf lr) = OperatorActionNone"
  by (simp add: authority_base_def Let_def)

definition is_local_action :: "OperatorAction \<Rightarrow> bool" where
  "is_local_action x \<longleftrightarrow> x \<in> fst ` set local_actions"

lemma block_all_state:
  assumes "present s" and "OperatorActionNone \<notin> fst ` set acts"
  shows "auth_state (foldl (\<lambda>s (action, label). blockLocalAction action branch hc label s) s acts) x =
      (if x \<in> fst ` set acts then Some OperatorActionAuthorityBlocked else auth_state s x)
    \<and> present (foldl (\<lambda>s (action, label). blockLocalAction action branch hc label s) s acts)
    \<and> os_RequiredNextAction (foldl (\<lambda>s (action, label). blockLocalAction action branch hc label s) s acts)
      = os_RequiredNextAction s"
  using assms
proof (induction acts arbitrary: s)
  case Nil
  then show ?case by simp
next
  case (Cons al acts)
  obtain action label where al: "al = (action, label)" by (cases al)
  let ?s = "blockLocalAction action branch hc label s"
  have ne: "action \<noteq> OperatorActionNone" using Cons.prems(2) al by auto
  have "present ?s" "os_RequiredNextAction ?s = os_RequiredNextAction s"
    using Cons.prems(1) by (simp_all add: blockLocalAction_def setActionBlocked_def)
  moreover have "auth_state ?s x = (if x = action then Some OperatorActionAuthorityBlocked else auth_state s x)"
    using Cons.prems(1) ne by (simp add: blockLocalAction_def setActionBlocked_def auth_state_of_set)
  ultimately show ?case using Cons.IH[of ?s] Cons.prems(2) al by auto
qed

lemma local_actions_not_None: "OperatorActionNone \<notin> fst ` set local_actions"
  by (simp add: local_actions_def)

lemma by_branch_state:
  assumes "present s"
  shows "auth_state (authority_by_branch branch hc s) x =
      (if bp_Class branch = ActiveBranchClassHandoffClaude
       then (if is_local_action x then Some OperatorActionAuthorityBlocked else auth_state s x)
       else if x = OperatorActionLocalMessageMutation \<or> x = OperatorActionCreateCheckpoint
       then Some OperatorActionAuthorityAllowed else auth_state s x)"
    and "present (authority_by_branch branch hc s)"
    and "os_RequiredNextAction (authority_by_branch branch hc s) = os_RequiredNextAction s"
  using assms block_all_state[OF assms local_actions_not_None, of branch hc x]
    block_all_state[OF assms local_actions_not_None, of branch hc]
  by (auto simp: authority_by_branch_def is_local_action_def setters auth_state_of_set simp del: append_Cons)

lemma block_run_start_set [simp]:
  "present (block_run_start r s) = present s"
  "os_RequiredNextAction (block_run_start r s) = os_RequiredNextAction s"
  "present s \<Longrightarrow> auth_state (block_run_start r s) x =
     (if x = OperatorActionStartLocalRun then Some OperatorActionAuthorityBlocked else auth_state s x)"
  by (simp_all add: block_run_start_def setActionBlocked_def auth_state_of_set)

text \<open>The action the class allows, besides what it does to START_LOCAL_RUN.\<close>

fun class_action :: "RecoveryClass \<Rightarrow> OperatorAction" where
  "class_action RecoveryClassReadyNextRun = OperatorActionStartLocalRun"
| "class_action RecoveryClassStaleRunReconciliationRequired = OperatorActionReconcileStaleRun"
| "class_action RecoveryClassFailedRunReviewRequired = OperatorActionInspectFailedRun"
| "class_action RecoveryClassValidationReviewRequired = OperatorActionReviewValidationState"
| "class_action RecoveryClassDecisionRequired = OperatorActionMakeResumeDecision"
| "class_action RecoveryClassBlockedDrift = OperatorActionMakeResumeDecision"
| "class_action RecoveryClassRebriefRequired = OperatorActionExecuteRebrief"
| "class_action RecoveryClassAcceptedHandoffLaunchReady = OperatorActionLaunchAcceptedHandoff"
| "class_action RecoveryClassHandoffFollowThroughReviewRequired = OperatorActionReviewHandoffFollowUp"
| "class_action RecoveryClassRepairRequired = OperatorActionRepairContinuity"
| "class_action _ = OperatorActionNone"

definition start_state :: "RecoveryClass \<Rightarrow> OperatorActionAuthorityState option \<Rightarrow> OperatorActionAuthorityState option" where
  "start_state c old =
     (if c = RecoveryClassReadyNextRun then Some OperatorActionAuthorityAllowed
      else if c = RecoveryClassCompletedNoAction then Some OperatorActionAuthorityNotApplicable
      else if c \<in> {RecoveryClassAcceptedHandoffLaunchReady, RecoveryClassHandoffFollowThroughReviewRequired,
        RecoveryClassHandoffLaunchPendingOutcome, RecoveryClassHandoffLaunchCompleted, RecoveryClassUnset}
      then old else Some OperatorActionAuthorityBlocked)"

lemma by_recovery_state:
  assumes "present s"
  shows "auth_state (authority_by_recovery a r rf s) x =
      (if x = OperatorActionStartLocalRun then start_state (rv_RecoveryClass r) (auth_state s x)
       else if x = class_action (rv_RecoveryClass r) \<and> x \<noteq> OperatorActionNone
       then Some OperatorActionAuthorityAllowed else auth_state s x)"
    and "present (authority_by_recovery a r rf s)"
    and "os_RequiredNextAction (authority_by_recovery a r rf s) = os_RequiredNextAction s"
  using assms
  by (cases "rv_RecoveryClass r",
      simp_all add: authority_by_recovery_def setters auth_state_of_set start_state_def del: append_Cons)+

lemma by_resume_state:
  assumes "present s" and "x \<noteq> OperatorActionResumeInterruptedLineage"
    and "x = OperatorActionFinalizeContinueRecovery \<Longrightarrow> lr_State lr \<noteq> LocalResumeAuthorityNotApplicable
      \<or> lr_Mode lr \<noteq> LocalResumeModeFinalizeContinueRecovery"
  shows "auth_state (authority_by_resume rf lr s) x = auth_state s x"
  using assms
  by (cases "lr_State lr"; cases "x = OperatorActionFinalizeContinueRecovery")
    (auto simp: authority_by_resume_def setters auth_state_of_set simp del: append_Cons)

lemma by_resume_keep:
  assumes "present s"
  shows "present (authority_by_resume rf lr s)"
    and "os_RequiredNextAction (authority_by_resume rf lr s) = os_RequiredNextAction s"
    and "lr_State lr = LocalResumeAuthorityBlocked \<Longrightarrow>
      auth_state (authority_by_resume rf lr s) OperatorActionResumeInterruptedLineage
        = Some OperatorActionAuthorityBlocked"
    and "auth_state (authority_by_resume rf lr s) x = Some OperatorActionAuthorityRequiredNext \<Longrightarrow>
      auth_state s x = Some OperatorActionAuthorityRequiredNext"
  using assms
  by (cases "lr_State lr",
      auto simp: authority_by_resume_def setters auth_state_of_set simp del: append_Cons split: if_splits)+

lemma by_handoff_state:
  assumes "present s" and "x \<notin> {OperatorActionLaunchAcceptedHandoff, OperatorActionReviewHandoffFollowUp,
      OperatorActionResolveActiveHandoff}"
  shows "auth_state (authority_by_handoff branch hc s) x = auth_state s x"
  using assms by (simp add: authority_by_handoff_def setters auth_state_of_set del: append_Cons)

lemma by_handoff_keep:
  assumes "present s"
  shows "present (authority_by_handoff branch hc s)"
    and "os_RequiredNextAction (authority_by_handoff branch hc s) = os_RequiredNextAction s"
    and "auth_state (authority_by_handoff branch hc s) x = Some OperatorActionAuthorityRequiredNext \<Longrightarrow>
      auth_state s x = Some OperatorActionAuthorityRequiredNext"
  using assms
  by (auto simp: authority_by_handoff_def setters auth_state_of_set simp del: append_Cons split: if_splits)

lemma required_state:
  assumes "present s" and "os_RequiredNextAction s = OperatorActionNone"
  shows "auth_state (authority_required r s) x =
      (if x = operatorActionFromRecovery r \<and> x \<noteq> OperatorActionNone
       then Some OperatorActionAuthorityRequiredNext else auth_state s x)"
    and "os_RequiredNextAction (authority_required r s) = operatorActionFromRecovery r"
  using assms
  by (auto simp: authority_required_def setActionRequiredNext_def Let_def auth_state_set present_def)

section \<open>What the authorities guarantee\<close>

text \<open>The set just before the required next action is marked.\<close>

definition authorities_before ::
  "continueAssessment \<Rightarrow> OperatorActionAuthoritySet" where
  "authorities_before a =
     (let r = recoveryFromContinueAssessment a; branch = deriveActiveBranchProvenanceFromAssessment a r;
          rf = deriveLocalRunFinalization a r; lr = deriveLocalResumeAuthority a r
      in authority_by_handoff branch (hc_of a) (authority_by_resume rf lr
           (authority_by_recovery a r rf (authority_by_branch branch (hc_of a)
             (authority_base a branch rf lr)))))"

lemma authorities_of_before:
  "authorities_of a = authority_required (recoveryFromContinueAssessment a) (authorities_before a)"
  by (simp add: authorities_of_def authorities_before_def deriveOperatorActionAuthoritySet_def Let_def)

definition claude_owned :: "continueAssessment \<Rightarrow> bool" where
  "claude_owned a \<longleftrightarrow> bp_Class (deriveActiveBranchProvenanceFromAssessment a
     (recoveryFromContinueAssessment a)) = ActiveBranchClassHandoffClaude"

lemma lr_blocked_iff:
  "lr_State (deriveLocalResumeAuthority a (recoveryFromContinueAssessment a)) = LocalResumeAuthorityBlocked
     \<longleftrightarrow> claude_owned a"
  by (simp add: deriveLocalResumeAuthority_def claude_owned_def Let_def del: append_Cons)

lemma before_keep:
  "present (authorities_before a)"
  "os_RequiredNextAction (authorities_before a) = OperatorActionNone"
  unfolding authorities_before_def Let_def
  by (simp_all add: by_handoff_keep(1,2) by_resume_keep(1,2) by_recovery_state(2,3) by_branch_state(2,3)
      base_present base_required)

lemma before_not_required: "auth_state (authorities_before a) x \<noteq> Some OperatorActionAuthorityRequiredNext"
proof
  define r where "r = recoveryFromContinueAssessment a"
  define branch where "branch = deriveActiveBranchProvenanceFromAssessment a r"
  define rf where "rf = deriveLocalRunFinalization a r"
  define lr where "lr = deriveLocalResumeAuthority a r"
  define s where "s = authority_by_recovery a r rf (authority_by_branch branch (hc_of a) (authority_base a branch rf lr))"
  assume asm: "auth_state (authorities_before a) x = Some OperatorActionAuthorityRequiredNext"
  have p: "present s" unfolding s_def by (simp add: by_recovery_state by_branch_state base_present)
  have "auth_state (authority_by_handoff branch (hc_of a) (authority_by_resume rf lr s)) x
      = Some OperatorActionAuthorityRequiredNext"
    using asm by (simp add: authorities_before_def Let_def s_def r_def branch_def rf_def lr_def)
  then have "auth_state (authority_by_resume rf lr s) x = Some OperatorActionAuthorityRequiredNext"
    by (rule by_handoff_keep(3)[OF by_resume_keep(1)[OF p]])
  then have "auth_state s x = Some OperatorActionAuthorityRequiredNext" by (rule by_resume_keep(4)[OF p])
  then show False
    by (auto simp: s_def by_recovery_state by_branch_state base_present base_state start_state_def
        split: if_splits)
qed

lemma before_state:
  assumes "x \<notin> {OperatorActionResumeInterruptedLineage, OperatorActionFinalizeContinueRecovery,
      OperatorActionLaunchAcceptedHandoff, OperatorActionReviewHandoffFollowUp,
      OperatorActionResolveActiveHandoff, OperatorActionNone}"
  shows "auth_state (authorities_before a) x =
    (let c = rv_RecoveryClass (recoveryFromContinueAssessment a);
         b = (if claude_owned a \<and> is_local_action x then Some OperatorActionAuthorityBlocked
              else if \<not> claude_owned a \<and> (x = OperatorActionLocalMessageMutation \<or> x = OperatorActionCreateCheckpoint)
              then Some OperatorActionAuthorityAllowed else Some OperatorActionAuthorityNotApplicable)
     in if x = OperatorActionStartLocalRun then start_state c b
        else if x = class_action c then Some OperatorActionAuthorityAllowed else b)"
proof -
  define r where "r = recoveryFromContinueAssessment a"
  define branch where "branch = deriveActiveBranchProvenanceFromAssessment a r"
  define rf where "rf = deriveLocalRunFinalization a r"
  define lr where "lr = deriveLocalResumeAuthority a r"
  define s1 where "s1 = authority_by_branch branch (hc_of a) (authority_base a branch rf lr)"
  have p1: "present s1" unfolding s1_def by (simp add: by_branch_state(2) base_present)
  then have p2: "present (authority_by_recovery a r rf s1)" by (rule by_recovery_state(2))
  have owned: "claude_owned a \<longleftrightarrow> bp_Class branch = ActiveBranchClassHandoffClaude"
    by (simp add: claude_owned_def branch_def r_def)
  have "auth_state (authorities_before a) x =
      auth_state (authority_by_handoff branch (hc_of a) (authority_by_resume rf lr (authority_by_recovery a r rf s1))) x"
    by (simp add: authorities_before_def Let_def r_def branch_def rf_def lr_def s1_def)
  also have "\<dots> = auth_state (authority_by_resume rf lr (authority_by_recovery a r rf s1)) x"
    by (rule by_handoff_state[OF by_resume_keep(1)[OF p2]]) (use assms in auto)
  also have "\<dots> = auth_state (authority_by_recovery a r rf s1) x"
    by (rule by_resume_state[OF p2]) (use assms in auto)
  also have "\<dots> = (if x = OperatorActionStartLocalRun then start_state (rv_RecoveryClass r) (auth_state s1 x)
       else if x = class_action (rv_RecoveryClass r) \<and> x \<noteq> OperatorActionNone
       then Some OperatorActionAuthorityAllowed else auth_state s1 x)"
    by (rule by_recovery_state(1)[OF p1])
  also have "auth_state s1 x =
      (if bp_Class branch = ActiveBranchClassHandoffClaude
       then (if is_local_action x then Some OperatorActionAuthorityBlocked
             else Some OperatorActionAuthorityNotApplicable)
       else if x = OperatorActionLocalMessageMutation \<or> x = OperatorActionCreateCheckpoint
       then Some OperatorActionAuthorityAllowed else Some OperatorActionAuthorityNotApplicable)"
    using assms unfolding s1_def by_branch_state(1)[OF base_present] base_state by simp
  finally show ?thesis
    using assms unfolding Let_def owned r_def[symmetric] by simp
qed

lemma class_action_not_mutation:
  "class_action c \<noteq> OperatorActionLocalMessageMutation" "class_action c \<noteq> OperatorActionCreateCheckpoint"
  by (cases c; simp)+

lemma recovery_action_not_mutation:
  "operatorActionFromRecovery r \<noteq> OperatorActionLocalMessageMutation"
  "operatorActionFromRecovery r \<noteq> OperatorActionCreateCheckpoint"
  by (cases "rv_RecommendedAction r"; simp add: operatorActionFromRecovery_def)+

lemma mutation_authority:
  "auth_state (authorities_of a) OperatorActionLocalMessageMutation =
      Some (if claude_owned a then OperatorActionAuthorityBlocked else OperatorActionAuthorityAllowed)"
  "auth_state (authorities_of a) OperatorActionCreateCheckpoint =
      Some (if claude_owned a then OperatorActionAuthorityBlocked else OperatorActionAuthorityAllowed)"
proof -
  let ?r = "recoveryFromContinueAssessment a"
  have ne: "OperatorActionLocalMessageMutation \<noteq> class_action (rv_RecoveryClass ?r)"
    "OperatorActionCreateCheckpoint \<noteq> class_action (rv_RecoveryClass ?r)"
    "OperatorActionLocalMessageMutation \<noteq> operatorActionFromRecovery ?r"
    "OperatorActionCreateCheckpoint \<noteq> operatorActionFromRecovery ?r"
    by (metis class_action_not_mutation recovery_action_not_mutation)+
  have loc: "is_local_action OperatorActionLocalMessageMutation" "is_local_action OperatorActionCreateCheckpoint"
    by (simp_all add: is_local_action_def local_actions_def)
  show "auth_state (authorities_of a) OperatorActionLocalMessageMutation =
      Some (if claude_owned a then OperatorActionAuthorityBlocked else OperatorActionAuthorityAllowed)"
    and "auth_state (authorities_of a) OperatorActionCreateCheckpoint =
      Some (if claude_owned a then OperatorActionAuthorityBlocked else OperatorActionAuthorityAllowed)"
    unfolding authorities_of_before required_state(1)[OF before_keep]
    by (simp_all add: before_state ne loc Let_def)
qed

text \<open>
  Sending a task message and capturing a checkpoint are blocked exactly while a Claude
  handoff branch owns continuity, and allowed otherwise, whatever the recovery class.
\<close>

theorem local_mutation_authority:
  "auth_state (authorities_of a) OperatorActionLocalMessageMutation =
      Some (if claude_owned a then OperatorActionAuthorityBlocked else OperatorActionAuthorityAllowed)
   \<and> auth_state (authorities_of a) OperatorActionCreateCheckpoint =
      Some (if claude_owned a then OperatorActionAuthorityBlocked else OperatorActionAuthorityAllowed)"
  using mutation_authority by simp

text \<open>
  Exactly one action is required next, or none: it is the one the recommended recovery
  action names, and no other action carries the REQUIRED_NEXT state.
\<close>

theorem required_next_unique:
  "os_RequiredNextAction (authorities_of a) = operatorActionFromRecovery (recoveryFromContinueAssessment a)
   \<and> {x. auth_state (authorities_of a) x = Some OperatorActionAuthorityRequiredNext}
     = {operatorActionFromRecovery (recoveryFromContinueAssessment a)} - {OperatorActionNone}"
  using before_not_required
  by (auto simp: authorities_of_before required_state[OF before_keep] split: if_splits)

lemma run_start_state:
  "auth_state (authorities_of a) OperatorActionStartLocalRun =
     (let r = recoveryFromContinueAssessment a in
      if rv_RecoveryClass r = RecoveryClassReadyNextRun then Some OperatorActionAuthorityRequiredNext
      else start_state (rv_RecoveryClass r)
        (Some (if claude_owned a then OperatorActionAuthorityBlocked else OperatorActionAuthorityNotApplicable)))"
proof -
  let ?r = "recoveryFromContinueAssessment a"
  have act: "rv_RecommendedAction ?r = action_for (rv_RecoveryClass ?r)"
    using coherent_recovery[of a] by (simp add: coherent_def)
  have "operatorActionFromRecovery ?r = OperatorActionStartLocalRun \<longleftrightarrow> rv_RecoveryClass ?r = RecoveryClassReadyNextRun"
    by (cases "rv_RecoveryClass ?r") (simp_all add: operatorActionFromRecovery_def act)
  then show ?thesis
    unfolding authorities_of_before required_state(1)[OF before_keep]
    by (auto simp: before_state is_local_action_def local_actions_def Let_def)
qed

lemma eligibility_state:
  "fst (runStartEligibility r s) \<longleftrightarrow>
     (case auth_state s OperatorActionStartLocalRun of
        Some OperatorActionAuthorityAllowed \<Rightarrow> True
      | Some OperatorActionAuthorityRequiredNext \<Rightarrow> True
      | Some OperatorActionAuthorityBlocked \<Rightarrow> False
      | _ \<Rightarrow> fst (runStartEligibility r s))"
  by (auto simp: runStartEligibility_def auth_state_def Let_def
      split: option.split OperatorActionAuthorityState.split)

lemma eligibility_needs_ready:
  assumes "rv_RecoveryClass r \<noteq> RecoveryClassReadyNextRun"
    and "auth_state s OperatorActionStartLocalRun \<noteq> Some OperatorActionAuthorityAllowed"
    and "auth_state s OperatorActionStartLocalRun \<noteq> Some OperatorActionAuthorityRequiredNext"
  shows "\<not> fst (runStartEligibility r s)"
  using assms
  by (auto simp: runStartEligibility_def auth_state_def Let_def
      split: option.split OperatorActionAuthorityState.split)

lemma gate_iff_ready:
  "fst (runStartEligibility (recoveryFromContinueAssessment a) (authorities_of a))
     \<longleftrightarrow> rv_ReadyForNextRun (recoveryFromContinueAssessment a)"
proof (cases "rv_RecoveryClass (recoveryFromContinueAssessment a) = RecoveryClassReadyNextRun")
  case True
  then show ?thesis
    using coherent_ready[OF coherent_recovery, of a]
    by (subst eligibility_state) (simp add: run_start_state Let_def)
next
  case False
  have "auth_state (authorities_of a) OperatorActionStartLocalRun \<noteq> Some OperatorActionAuthorityAllowed"
    "auth_state (authorities_of a) OperatorActionStartLocalRun \<noteq> Some OperatorActionAuthorityRequiredNext"
    using False by (auto simp: run_start_state Let_def start_state_def)
  then show ?thesis
    using eligibility_needs_ready[OF False] coherent_ready[OF coherent_recovery, of a] False by simp
qed

text \<open>
  The run-start gate opens exactly for a task whose recovery assessment is ready for its
  next run; no authority entry can open it for any other recovery class, and none closes it.
\<close>

theorem run_start_gate_iff:
  "fst (runStartEligibility (recoveryFromContinueAssessment a) (authorities_of a))
     \<longleftrightarrow> rv_ReadyForNextRun (recoveryFromContinueAssessment a)"
  by (rule gate_iff_ready)

section \<open>An active Claude branch\<close>

definition handoff_classes :: "RecoveryClass set" where
  "handoff_classes = {RecoveryClassAcceptedHandoffLaunchReady, RecoveryClassHandoffLaunchPendingOutcome,
     RecoveryClassHandoffLaunchCompleted, RecoveryClassHandoffFollowThroughReviewRequired,
     RecoveryClassRepairRequired}"

lemma handoff_recovery_class:
  assumes "handoff_recovery a r = Some h"
  shows "rv_RecoveryClass h \<in> handoff_classes \<and> rv_LatestAction h = rv_LatestAction r
    \<and> ca_LatestHandoff a \<noteq> None \<and> hc_State (hc_of a) \<noteq> HandoffContinuityStateNotApplicable
    \<and> hc_State (hc_of a) \<noteq> HandoffContinuityStateResolved"
  using assms unfolding handoff_recovery_def Let_def
  by (cases "ca_LatestHandoff a"; cases "hc_State (hc_of a)")
    (auto simp: handoff_classes_def split: if_splits)

definition regenerate_pending :: "continueAssessment \<Rightarrow> bool" where
  "regenerate_pending a = (case ca_LatestRecoveryAction a of None \<Rightarrow> False
     | Some act \<Rightarrow> ra_Kind act = KindDecisionRegenerateBrief)"

lemma progress_handoff_class:
  assumes "rv_RecoveryClass h \<in> handoff_classes"
    and "\<And>act. rv_LatestAction h = Some act \<Longrightarrow> ra_Kind act \<noteq> KindDecisionRegenerateBrief"
  shows "rv_RecoveryClass (applyRecoveryActionProgression h) = rv_RecoveryClass h"
proof (cases "rv_LatestAction h")
  case None
  then show ?thesis by (simp add: applyRecoveryActionProgression_def)
next
  case (Some act)
  then show ?thesis
    using assms(1) assms(2)[OF Some]
    by (cases "ra_Kind act")
      (auto simp: applyRecoveryActionProgression_def progress_review_def progress_decision_def handoff_classes_def
        simp del: append_Cons)
qed

lemma active_branch_class:
  assumes "ca_Outcome a = ContinueOutcomeSafe" and "handoff_recovery a (recovery_base a) \<noteq> None"
    and "\<not> regenerate_pending a"
  shows "rv_RecoveryClass (recoveryFromContinueAssessment a) \<in> handoff_classes \<and> claude_owned a"
proof -
  obtain h where h: "handoff_recovery a (recovery_base a) = Some h" using assms(2) by auto
  note hc = handoff_recovery_class[OF h]
  have act: "ra_Kind act \<noteq> KindDecisionRegenerateBrief" if "rv_LatestAction h = Some act" for act
    using that hc assms(3) by (simp add: regenerate_pending_def)
  have "recoveryFromContinueAssessment a = applyRecoveryActionProgression h"
    using assms(1) h by (simp add: recoveryFromContinueAssessment_def safe_recovery_def)
  then have "rv_RecoveryClass (recoveryFromContinueAssessment a) = rv_RecoveryClass h"
    using progress_handoff_class hc act by metis
  moreover have "claude_owned a"
    using hc by (simp add: claude_owned_def deriveActiveBranchProvenanceFromAssessment_def Let_def)
  ultimately show ?thesis using hc by simp
qed

lemma before_state_resume:
  assumes "claude_owned a"
  shows "auth_state (authorities_before a) OperatorActionResumeInterruptedLineage = Some OperatorActionAuthorityBlocked"
    and "auth_state (authorities_before a) OperatorActionFinalizeContinueRecovery = Some OperatorActionAuthorityBlocked"
proof -
  define r where "r = recoveryFromContinueAssessment a"
  define branch where "branch = deriveActiveBranchProvenanceFromAssessment a r"
  define rf where "rf = deriveLocalRunFinalization a r"
  define lr where "lr = deriveLocalResumeAuthority a r"
  define s2 where "s2 = authority_by_recovery a r rf (authority_by_branch branch (hc_of a) (authority_base a branch rf lr))"
  have p2: "present s2" unfolding s2_def by (simp add: by_recovery_state(2) by_branch_state(2) base_present)
  have blocked: "lr_State lr = LocalResumeAuthorityBlocked"
    using assms lr_blocked_iff[of a] by (simp add: lr_def r_def)
  have before: "authorities_before a = authority_by_handoff branch (hc_of a) (authority_by_resume rf lr s2)"
    by (simp add: authorities_before_def Let_def r_def branch_def rf_def lr_def s2_def)
  have keep: "x \<notin> {OperatorActionLaunchAcceptedHandoff, OperatorActionReviewHandoffFollowUp,
      OperatorActionResolveActiveHandoff} \<Longrightarrow>
      auth_state (authorities_before a) x = auth_state (authority_by_resume rf lr s2) x" for x
    unfolding before by (rule by_handoff_state[OF by_resume_keep(1)[OF p2]])
  show "auth_state (authorities_before a) OperatorActionResumeInterruptedLineage = Some OperatorActionAuthorityBlocked"
    using keep by_resume_keep(3)[OF p2 blocked] by simp
  have "class_action (rv_RecoveryClass r) \<noteq> OperatorActionFinalizeContinueRecovery"
    by (cases "rv_RecoveryClass r") simp_all
  moreover have "is_local_action OperatorActionFinalizeContinueRecovery"
    by (simp add: is_local_action_def local_actions_def)
  moreover have "bp_Class branch = ActiveBranchClassHandoffClaude"
    using assms by (simp add: claude_owned_def branch_def r_def)
  ultimately have "auth_state s2 OperatorActionFinalizeContinueRecovery = Some OperatorActionAuthorityBlocked"
    unfolding s2_def
    by (subst by_recovery_state(1)[OF by_branch_state(2)[OF base_present]])
      (auto simp: by_branch_state(1)[OF base_present])
  then show "auth_state (authorities_before a) OperatorActionFinalizeContinueRecovery = Some OperatorActionAuthorityBlocked"
    using keep[of OperatorActionFinalizeContinueRecovery] blocked
      by_resume_state[OF p2, of OperatorActionFinalizeContinueRecovery lr rf] by simp
qed

lemma handoff_class_actions:
  assumes "c \<in> handoff_classes" and "is_local_action x"
  shows "class_action c \<noteq> x" and "coherent r \<Longrightarrow> rv_RecoveryClass r = c \<Longrightarrow> operatorActionFromRecovery r \<noteq> x"
    and "start_state c (Some OperatorActionAuthorityBlocked) = Some OperatorActionAuthorityBlocked"
  using assms
  by (auto simp: handoff_classes_def is_local_action_def local_actions_def start_state_def coherent_def
      operatorActionFromRecovery_def)

text \<open>
  C14. While continuity is safe, a launch-active Claude handoff is unresolved and the latest
  operator action is not a regenerate decision, every one of the ten local actions is blocked:
  no local message, checkpoint, run, review, decision, resume, continue or rebrief is
  authorized beside the handoff.
\<close>

theorem active_handoff_blocks_local:
  assumes "ca_Outcome a = ContinueOutcomeSafe" and "handoff_recovery a (recovery_base a) \<noteq> None"
    and "\<not> regenerate_pending a" and "is_local_action x"
  shows "auth_state (authorities_of a) x = Some OperatorActionAuthorityBlocked"
proof -
  let ?r = "recoveryFromContinueAssessment a"
  have c: "rv_RecoveryClass ?r \<in> handoff_classes" and owned: "claude_owned a"
    using active_branch_class[OF assms(1-3)] by blast+
  have "operatorActionFromRecovery ?r \<noteq> x"
    by (rule handoff_class_actions(2)[OF c assms(4) coherent_recovery refl])
  then have "auth_state (authorities_of a) x = auth_state (authorities_before a) x"
    unfolding authorities_of_before required_state(1)[OF before_keep] by auto
  also have "\<dots> = Some OperatorActionAuthorityBlocked"
  proof (cases "x = OperatorActionResumeInterruptedLineage \<or> x = OperatorActionFinalizeContinueRecovery")
    case True
    then show ?thesis using before_state_resume[OF owned] by auto
  next
    case False
    then have "x \<notin> {OperatorActionResumeInterruptedLineage, OperatorActionFinalizeContinueRecovery,
      OperatorActionLaunchAcceptedHandoff, OperatorActionReviewHandoffFollowUp,
      OperatorActionResolveActiveHandoff, OperatorActionNone}"
      using assms(4) by (auto simp: is_local_action_def local_actions_def)
    from before_state[OF this, of a] show ?thesis
      using handoff_class_actions(1)[OF c assms(4)] handoff_class_actions(3)[OF c assms(4)] owned assms(4)
      by (auto simp: Let_def)
  qed
  finally show ?thesis .
qed

end
