(* ===== verification/Coordinator.thy ===== *)
theory Coordinator
  imports Authority Shell
begin

text \<open>
  internal/orchestrator/service.go: the coordinator. The world is the database, the shell
  session table beside it and a counter of the calls that leave the process: reading a clock,
  making an id, asking git, compiling an intent, building a brief, synthesising a response and
  reading AGENTS.md each take the next count, so that every answer may differ. The answers
  are the fields of \<open>Deps\<close>; the coordinator's own code is translated statement by statement.
  \<open>withTx\<close> restores the database, and only the database, when the body fails.
\<close>

section \<open>Dependencies\<close>

record CompileInput =
  ci_TaskID :: TaskID
  ci_LatestMessage :: string
  ci_RecentMessages :: "string list"
  ci_CurrentPhase :: Phase
  ci_CurrentBlockers :: "string list"
  ci_CurrentGoal :: string
  ci_RepoAnchorSummary :: string

record BuildInput =
  bi_TaskID :: TaskID
  bi_IntentID :: IntentID
  bi_CapsuleVersion :: CapsuleVersion
  bi_Posture :: BriefPosture
  bi_Goal :: string
  bi_RequestedOutcome :: string
  bi_NormalizedAction :: string
  bi_ScopeSummary :: string
  bi_Constraints :: "string list"
  bi_ScopeHints :: "string list"
  bi_ScopeOutHints :: "string list"
  bi_DoneCriteria :: "string list"
  bi_AmbiguityFlags :: "string list"
  bi_ClarificationQuestions :: "string list"
  bi_RequiresClarification :: bool
  bi_WorkerFraming :: string
  bi_BoundedEvidenceMessages :: int
  bi_ContextPackID :: ContextPackID
  bi_Verbosity :: Verbosity
  bi_PolicyProfileID :: string

text \<open>
  The compiler, the builder and the synthesizer are the interfaces \<open>intent.Compiler\<close>,
  \<open>brief.Builder\<close> and \<open>canonical.Synthesizer\<close>; \<open>d_now\<close> is \<open>time.Now()\<close>, read by the git
  provider, \<open>d_clock\<close> the coordinator's own clock and \<open>d_wall\<close> what the shell store reads.
\<close>

record Deps =
  d_clock :: "nat \<Rightarrow> go_time"
  d_now :: "nat \<Rightarrow> go_time"
  d_newID :: "nat \<Rightarrow> string \<Rightarrow> string"
  d_git :: "nat \<Rightarrow> string \<Rightarrow> string list \<Rightarrow> string option"
  d_compile :: "nat \<Rightarrow> CompileInput \<Rightarrow> go_error + IntentState"
  d_build :: "nat \<Rightarrow> BuildInput \<Rightarrow> go_error + ExecutionBrief"
  d_synthesize :: "nat \<Rightarrow> WorkCapsule \<Rightarrow> Event list \<Rightarrow> go_error + string"
  d_readFile :: "nat \<Rightarrow> string \<Rightarrow> string option"
  d_sha256 :: "string \<Rightarrow> string"
  d_staleAfter :: int
  d_wall :: "nat \<Rightarrow> Wall"

record World =
  w_db :: Db
  w_sessions :: "SessionRecord list"
  w_shell :: ShellDb
  w_tick :: nat

type_synonym 'a op = "(World, 'a) sem"

section \<open>Primitive calls\<close>

definition tick :: "(nat \<Rightarrow> 'a) \<Rightarrow> 'a op" where
  "tick f = (\<lambda>w. (Inr (f (w_tick w)), w\<lparr>w_tick := Suc (w_tick w)\<rparr>))"

definition clock :: "Deps \<Rightarrow> go_time op" where
  "clock E = tick (d_clock E)"

definition idGenerator :: "Deps \<Rightarrow> string \<Rightarrow> string op" where
  "idGenerator E p = tick (\<lambda>n. d_newID E n p)"

definition captureAnchor :: "Deps \<Rightarrow> string \<Rightarrow> Snapshot op" where
  "captureAnchor E root = tick (\<lambda>n. Capture (d_git E n) (d_now E n) root)"

definition synthesize :: "Deps \<Rightarrow> WorkCapsule \<Rightarrow> Event list \<Rightarrow> string op" where
  "synthesize E c es = bnd (tick (\<lambda>n. d_synthesize E n c es)) lift_res"

definition db_read :: "(Db \<Rightarrow> go_error + 'a) \<Rightarrow> 'a op" where
  "db_read f = (\<lambda>w. (f (w_db w), w))"

definition db_write :: "(Db \<Rightarrow> go_error + Db) \<Rightarrow> unit op" where
  "db_write f = (\<lambda>w. case f (w_db w) of Inl e \<Rightarrow> (Inl e, w) | Inr d \<Rightarrow> (Inr (), w\<lparr>w_db := d\<rparr>))"

definition withTx :: "'a op \<Rightarrow> 'a op" where
  "withTx m = (\<lambda>w. case m w of
       (Inr a, w') \<Rightarrow> (Inr a, w')
     | (Inl e, w') \<Rightarrow> (Inl e, w'\<lparr>w_db := w_db w\<rparr>))"

section \<open>Evidence, messages and checkpoints\<close>

definition appendProof ::
  "Deps \<Rightarrow> WorkCapsule \<Rightarrow> EventType \<Rightarrow> ActorType \<Rightarrow> string \<Rightarrow> (string \<times> pval) list \<Rightarrow>
     RunID option \<Rightarrow> unit op" where
  "appendProof E caps typ actor actorID payload run =
     bnd (idGenerator E ''evt'') (\<lambda>eid.
     bnd (clock E) (\<lambda>now.
     db_write (proofs_Append
       \<lparr>e_EventID = eid, e_TaskID = c_TaskID caps, e_RunID = run, e_CheckpointID = None,
        e_SequenceNo = 0, e_Timestamp = now, e_Type = typ, e_ActorType = actor,
        e_ActorID = actorID, e_Payload = payload, e_CausalParentEventID = None,
        e_CapsuleVersion = c_Version caps\<rparr>)))"

definition emitCanonicalConversation ::
  "Deps \<Rightarrow> WorkCapsule \<Rightarrow> string \<Rightarrow> (string \<times> pval) list \<Rightarrow> RunID option \<Rightarrow> unit op" where
  "emitCanonicalConversation E caps text payload run =
     bnd (idGenerator E ''msg'') (\<lambda>mid.
     bnd (clock E) (\<lambda>now.
     seq (db_write (messages_Append
       \<lparr>m_MessageID = mid, m_ConversationID = c_ConversationID caps, m_TaskID = c_TaskID caps,
        m_Role = RoleSystem, m_Body = text, m_CreatedAt = now\<rparr>))
     (appendProof E caps EventCanonicalResponseEmitted ActorSystem ''tuku-daemon''
       (payload @ [(''message_id'', PStr mid)]) run)))"

definition latestProofEventID :: "TaskID \<Rightarrow> EventID op" where
  "latestProofEventID k = bnd (gets (\<lambda>w. proofs_ListByTask k 1 (w_db w))) (\<lambda>es.
     ret (if es = [] then [] else e_EventID (last es)))"

definition runIDPointer :: "RunID \<Rightarrow> RunID option" where
  "runIDPointer r = (if r = [] then None else Some r)"

definition appendCheckpointCreatedProof ::
  "Deps \<Rightarrow> WorkCapsule \<Rightarrow> Checkpoint \<Rightarrow> RunID option \<Rightarrow> unit op" where
  "appendCheckpointCreatedProof E caps cp run =
     bnd (idGenerator E ''evt'') (\<lambda>eid.
     bnd (clock E) (\<lambda>now.
     db_write (proofs_Append
       \<lparr>e_EventID = eid, e_TaskID = c_TaskID caps, e_RunID = run,
        e_CheckpointID = Some (k_CheckpointID cp), e_SequenceNo = 0, e_Timestamp = now,
        e_Type = EventCheckpointCreated, e_ActorType = ActorSystem, e_ActorID = ''tuku-daemon'',
        e_Payload = [(''checkpoint_id'', PStr (k_CheckpointID cp)),
          (''trigger'', PStr (Trigger_str (k_Trigger cp))),
          (''resumable'', PBool (k_IsResumable cp)),
          (''descriptor'', PStr (k_ResumeDescriptor cp))],
        e_CausalParentEventID = None, e_CapsuleVersion = c_Version caps\<rparr>)))"

definition createCheckpointWithOptions ::
  "Deps \<Rightarrow> WorkCapsule \<Rightarrow> RunID \<Rightarrow> Trigger \<Rightarrow> bool \<Rightarrow> string \<Rightarrow> bool \<Rightarrow> Checkpoint op" where
  "createCheckpointWithOptions E caps runID trigger resumable descriptor emitProof =
     bnd (latestProofEventID (c_TaskID caps)) (\<lambda>lastEventID.
     bnd (idGenerator E ''chk'') (\<lambda>cid.
     bnd (clock E) (\<lambda>now.
     let cp = \<lparr>k_Version = 1, k_CheckpointID = cid, k_TaskID = c_TaskID caps, k_RunID = runID,
            k_CreatedAt = now, k_Trigger = trigger, k_CapsuleVersion = c_Version caps,
            k_Phase = c_CurrentPhase caps, k_Anchor = anchorFromCapsule caps,
            k_IntentID = c_CurrentIntentID caps, k_BriefID = c_CurrentBriefID caps,
            k_ContextPackID = [], k_LastEventID = lastEventID, k_PendingDecisionIDs = [],
            k_ResumeDescriptor = (if TrimSpace descriptor = []
              then ''Checkpoint captured for continuity.'' else descriptor),
            k_IsResumable = resumable\<rparr> in
     seq (db_write (checkpoints_Create cp))
     (seq (when_do emitProof (appendCheckpointCreatedProof E caps cp (runIDPointer runID)))
     (ret cp)))))"

definition createCheckpoint ::
  "Deps \<Rightarrow> WorkCapsule \<Rightarrow> RunID \<Rightarrow> Trigger \<Rightarrow> bool \<Rightarrow> string \<Rightarrow> Checkpoint op" where
  "createCheckpoint E caps runID trigger resumable descriptor =
     createCheckpointWithOptions E caps runID trigger resumable descriptor True"

text \<open>The four anchor fields an operation copies from a fresh capture into the capsule.\<close>

definition with_anchor :: "Snapshot \<Rightarrow> WorkCapsule \<Rightarrow> WorkCapsule" where
  "with_anchor a c = c\<lparr>c_BranchName := g_Branch a, c_HeadSHA := g_HeadSHA a,
     c_WorkingTreeDirty := g_WorkingTreeDirty a, c_AnchorCapturedAt := g_CapturedAt a\<rparr>"

text \<open>The version and timestamp a changed capsule takes.\<close>

definition bumped :: "go_time \<Rightarrow> WorkCapsule \<Rightarrow> WorkCapsule" where
  "bumped now c = c\<lparr>c_Version := c_Version c + 1, c_UpdatedAt := now\<rparr>"

definition phase_event ::
  "Deps \<Rightarrow> WorkCapsule \<Rightarrow> string \<Rightarrow> RunID option \<Rightarrow> unit op" where
  "phase_event E caps reason run =
     appendProof E caps EventTaskPhaseTransitioned ActorSystem ''tuku-daemon''
       [(''phase'', PStr (Phase_str (c_CurrentPhase caps))), (''reason'', PStr reason)] run"

section \<open>Assessment and guards\<close>

definition assess :: "Deps \<Rightarrow> TaskID \<Rightarrow> continueAssessment op" where
  "assess E t =
     bnd (db_read (loadContinuitySnapshot t)) (\<lambda>sn.
     bnd (captureAnchor E (c_RepoRoot (sn_Capsule sn))) (\<lambda>anchor.
     bnd (db_read (validateContinuitySnapshot sn)) (\<lambda>issues.
     ret (assess_snapshot t sn issues anchor))))"

definition run_start :: "Deps \<Rightarrow> TaskID \<Rightarrow> (RecoveryAssessment \<times> bool \<times> string) op" where
  "run_start E t = bnd (assess E t) (\<lambda>a.
     ret (recoveryFromContinueAssessment a,
          runStartEligibility (recoveryFromContinueAssessment a) (authorities_of a)))"

definition mutation_block :: "continueAssessment \<Rightarrow> string \<Rightarrow> string" where
  "mutation_block a mutation =
     (case mutation_action mutation of
        None \<Rightarrow> []
      | Some action \<Rightarrow>
         (case operatorActionAuthorityFor (authorities_of a) action of
            None \<Rightarrow> []
          | Some x \<Rightarrow> (if oa_State x = OperatorActionAuthorityBlocked then oa_Reason x else [])))"

text \<open>\<open>if blocked != "" { return fmt.Errorf(blocked) }\<close> before the transaction opens.\<close>

definition guard_mutation :: "Deps \<Rightarrow> TaskID \<Rightarrow> string \<Rightarrow> unit op" where
  "guard_mutation E t mutation = bnd (assess E t) (\<lambda>a.
     if mutation_block a mutation \<noteq> [] then throw (ErrMsg (mutation_block a mutation)) else ret ())"

definition inferActiveShellSessionID :: "Deps \<Rightarrow> TaskID \<Rightarrow> string op" where
  "inferActiveShellSessionID E t =
     bnd (gets (\<lambda>w. sessions_ListByTask t (w_sessions w))) (\<lambda>records.
     if records = [] then ret []
     else bnd (clock E) (\<lambda>now.
       ret (active_session_id (classifyShellSessions records now (d_staleAfter E)))))"

end
