(* ===== verification/Calculus.thy ===== *)
theory Calculus
  imports Coordinator
begin

text \<open>
  Reasoning about single operations of the coordinator: what the primitive calls do, and a
  calculus of preconditions and postconditions for their compositions.
\<close>

section \<open>The primitive calls run\<close>

lemma tick_run: "tick f w = (Inr (f (w_tick w)), w\<lparr>w_tick := Suc (w_tick w)\<rparr>)"
  by (simp add: tick_def)

lemma db_read_run: "db_read f w = (f (w_db w), w)"
  by (simp add: db_read_def)

section \<open>Preconditions and postconditions\<close>

text \<open>Partial correctness: where \<open>P\<close> holds and \<open>m\<close> returns a value, \<open>Q\<close> holds of it.\<close>

definition triple :: "(World \<Rightarrow> bool) \<Rightarrow> 'a op \<Rightarrow> ('a \<Rightarrow> World \<Rightarrow> bool) \<Rightarrow> bool" where
  "triple P m Q \<longleftrightarrow> (\<forall>w a w'. P w \<longrightarrow> m w = (Inr a, w') \<longrightarrow> Q a w')"

lemma tripleI: "(\<And>w a w'. P w \<Longrightarrow> m w = (Inr a, w') \<Longrightarrow> Q a w') \<Longrightarrow> triple P m Q"
  by (simp add: triple_def)

lemma tripleD: "triple P m Q \<Longrightarrow> P w \<Longrightarrow> m w = (Inr a, w') \<Longrightarrow> Q a w'"
  by (simp add: triple_def)

lemma t_pre: "triple P' m Q \<Longrightarrow> (\<And>w. P w \<Longrightarrow> P' w) \<Longrightarrow> triple P m Q"
  unfolding triple_def by blast

lemma t_post: "triple P m Q' \<Longrightarrow> (\<And>a w. Q' a w \<Longrightarrow> Q a w) \<Longrightarrow> triple P m Q"
  unfolding triple_def by blast

lemma t_ret: "triple (Q a) (ret a) Q"
  by (rule tripleI) (simp add: ret_run)

lemma t_throw: "triple P (throw e) Q"
  by (rule tripleI) (simp add: throw_run)

lemma t_bnd: "triple P m S \<Longrightarrow> (\<And>a. triple (S a) (f a) Q) \<Longrightarrow> triple P (bnd m f) Q"
  unfolding triple_def bnd_Inr_iff by blast

lemma t_seq: "triple P m (\<lambda>_. S) \<Longrightarrow> triple S k Q \<Longrightarrow> triple P (seq m k) Q"
  unfolding seq_def by (rule t_bnd)

lemma t_if: "(c \<Longrightarrow> triple P m Q) \<Longrightarrow> (\<not> c \<Longrightarrow> triple P k Q) \<Longrightarrow> triple P (if c then m else k) Q"
  by simp

lemma t_option:
  "(v = None \<Longrightarrow> triple P m Q) \<Longrightarrow> (\<And>a. v = Some a \<Longrightarrow> triple P (f a) Q) \<Longrightarrow>
     triple P (case v of None \<Rightarrow> m | Some a \<Rightarrow> f a) Q"
  by (cases v) simp_all

lemma t_prod: "(\<And>a b. v = (a, b) \<Longrightarrow> triple P (f a b) Q) \<Longrightarrow> triple P (case v of (a, b) \<Rightarrow> f a b) Q"
  by (cases v) simp

lemma t_tx: "triple P m Q \<Longrightarrow> triple P (withTx m) Q"
  by (auto simp: triple_def withTx_def split: prod.splits sum.splits)

text \<open>The exact result of a call made in a known world.\<close>

lemma t_exact: "triple (\<lambda>w. w = w0) m (\<lambda>a w. m w0 = (Inr a, w))"
  by (rule tripleI) simp

lemma t_read: "triple P (db_read f) (\<lambda>a w. P w \<and> f (w_db w) = Inr a)"
  by (rule tripleI) (auto simp: db_read_run)

lemma t_frame:
  assumes "frames F m" and "\<And>w w'. P w \<Longrightarrow> F w w' \<Longrightarrow> P w'"
  shows "triple P m (\<lambda>_. P)"
  using assms(2) framesD[OF assms(1)] by (intro tripleI) blast

lemma t_write:
  assumes "\<And>w d. P w \<Longrightarrow> f (w_db w) = Inr d \<Longrightarrow> Q (w\<lparr>w_db := d\<rparr>)"
  shows "triple P (db_write f) (\<lambda>_. Q)"
  using assms by (intro tripleI) (auto simp: db_write_def split: sum.splits)

text \<open>A fact that does not mention the world.\<close>

lemma t_fact: "(C \<Longrightarrow> triple P m Q) \<Longrightarrow> triple (\<lambda>w. C \<and> P w) m Q"
  unfolding triple_def by blast

lemma t_known: "(\<And>w. P w \<Longrightarrow> C) \<Longrightarrow> (C \<Longrightarrow> triple P m Q) \<Longrightarrow> triple P m Q"
  unfolding triple_def by blast

section \<open>Session store\<close>

text \<open>The database operations leave the shell store alone.\<close>

definition same_shell :: "World \<Rightarrow> World \<Rightarrow> bool" where
  "same_shell w w' \<longleftrightarrow> w_shell w' = w_shell w"

interpretation shell: state_frame same_shell
  by unfold_locales (simp_all add: same_shell_def)

lemma shell_tick: "frames same_shell (tick f)"
  by (rule framesI) (auto simp: tick_run same_shell_def)

lemma shell_db_read: "frames same_shell (db_read f)"
  by (rule framesI) (auto simp: db_read_run same_shell_def)

lemma shell_db_write: "frames same_shell (db_write f)"
  by (rule framesI) (auto simp: db_write_def same_shell_def split: sum.splits)

lemma shell_withTx: "frames same_shell m \<Longrightarrow> frames same_shell (withTx m)"
  by (rule framesI) (auto simp: withTx_def same_shell_def split: prod.splits sum.splits dest: framesD)

lemma shell_clock: "frames same_shell (clock E)"
  unfolding clock_def by (rule shell_tick)

lemma shell_id: "frames same_shell (idGenerator E p)"
  unfolding idGenerator_def by (rule shell_tick)

lemma shell_proof: "frames same_shell (appendProof E caps typ' actor actorID payload run)"
  unfolding appendProof_def by (intro shell.frame_rules shell_id shell_clock shell_db_write)

lemmas shell_frames = shell.frame_rules shell_tick shell_db_read shell_db_write shell_withTx
  shell_clock shell_id shell_proof

end
