(* ===== verification/Operator.thy ===== *)
theory Operator
  imports Authority
begin

text \<open>
  The operator's summary and plan (operator_decision_summary.go, operator_execution_plan.go,
  operator_command_surface.go) and the classification of an executed step
  (operator_step_execution.go): the headline for a recovery class, the blocked actions, the
  primary, secondary and blocked steps, and the command that carries out an action.
\<close>

section \<open>Command surfaces\<close>

datatype OperatorCommandSurfaceType =
    OperatorCommandSurfaceNone
  | OperatorCommandSurfaceDedicated
  | OperatorCommandSurfaceInspectFallback

primrec OperatorCommandSurfaceType_str :: "OperatorCommandSurfaceType \<Rightarrow> string" where
  "OperatorCommandSurfaceType_str OperatorCommandSurfaceNone = ''NONE''"
| "OperatorCommandSurfaceType_str OperatorCommandSurfaceDedicated = ''DEDICATED''"
| "OperatorCommandSurfaceType_str OperatorCommandSurfaceInspectFallback = ''INSPECT_FALLBACK''"

record OperatorCommandSurface =
  cmd_Action :: OperatorAction
  cmd_CanonicalCLI :: string
  cmd_SurfaceType :: OperatorCommandSurfaceType

definition with_handoff :: "string \<Rightarrow> HandoffContinuity \<Rightarrow> string" where
  "with_handoff hint hc =
     (if TrimSpace (hc_HandoffID hc) \<noteq> [] then hint @ '' --handoff '' @ hc_HandoffID hc else hint)"

definition canonicalOperatorCommandSurface ::
  "TaskID \<Rightarrow> HandoffContinuity \<Rightarrow> OperatorAction \<Rightarrow> OperatorCommandSurface" where
  "canonicalOperatorCommandSurface t hc action =
     (let dedicated = (\<lambda>hint. \<lparr>cmd_Action = action, cmd_CanonicalCLI = hint,
            cmd_SurfaceType = OperatorCommandSurfaceDedicated\<rparr>);
          inspect = \<lparr>cmd_Action = action, cmd_CanonicalCLI = ''tuku inspect --task '' @ t,
            cmd_SurfaceType = OperatorCommandSurfaceInspectFallback\<rparr> in
      case action of
        OperatorActionLocalMessageMutation \<Rightarrow> dedicated (''tuku message --task '' @ t @ '' --text '' @ [CHR 0x22] @ ''<message>'' @ [CHR 0x22])
      | OperatorActionCreateCheckpoint \<Rightarrow> dedicated (''tuku checkpoint --task '' @ t)
      | OperatorActionStartLocalRun \<Rightarrow> dedicated (''tuku run --task '' @ t @ '' --action start'')
      | OperatorActionReconcileStaleRun \<Rightarrow> dedicated (''tuku continue --task '' @ t)
      | OperatorActionInspectFailedRun \<Rightarrow> inspect
      | OperatorActionReviewValidationState \<Rightarrow> inspect
      | OperatorActionReviewHandoffFollowUp \<Rightarrow> inspect
      | OperatorActionRepairContinuity \<Rightarrow> inspect
      | OperatorActionMakeResumeDecision \<Rightarrow> dedicated (''tuku recovery record --task '' @ t
          @ '' --action <decision-continue|decision-regenerate-brief>'')
      | OperatorActionResumeInterruptedLineage \<Rightarrow> dedicated (''tuku recovery resume-interrupted --task '' @ t)
      | OperatorActionFinalizeContinueRecovery \<Rightarrow> dedicated (''tuku recovery continue --task '' @ t)
      | OperatorActionExecuteRebrief \<Rightarrow> dedicated (''tuku recovery rebrief --task '' @ t)
      | OperatorActionLaunchAcceptedHandoff \<Rightarrow> dedicated (with_handoff (''tuku handoff-launch --task '' @ t) hc)
      | OperatorActionResolveActiveHandoff \<Rightarrow> dedicated (with_handoff (''tuku handoff-resolve --task '' @ t) hc
          @ '' --kind <abandoned|superseded-by-local|closed-unproven|reviewed-stale>'')
      | OperatorActionNone \<Rightarrow> \<lparr>cmd_Action = action, cmd_CanonicalCLI = [],
          cmd_SurfaceType = OperatorCommandSurfaceNone\<rparr>)"

section \<open>Decision summary\<close>

record OperatorDecisionBlockedAction =
  db_Action :: OperatorAction
  db_Reason :: string

record OperatorDecisionSummary =
  od_TaskID :: TaskID
  od_ActiveOwnerClass :: ActiveBranchClass
  od_ActiveOwnerRef :: string
  od_Headline :: string
  od_RequiredNextAction :: OperatorAction
  od_PrimaryReason :: string
  od_Guidance :: string
  od_IntegrityNote :: string
  od_BlockedActions :: "OperatorDecisionBlockedAction list"

definition blocked_priority :: "OperatorAction list" where
  "blocked_priority = [OperatorActionLocalMessageMutation, OperatorActionCreateCheckpoint,
     OperatorActionStartLocalRun, OperatorActionResumeInterruptedLineage]"

text \<open>The entry of an action that is in a given state.\<close>

definition authority_in ::
  "OperatorActionAuthorityState \<Rightarrow> OperatorActionAuthoritySet \<Rightarrow> OperatorAction \<Rightarrow> OperatorActionAuthority option" where
  "authority_in st s action =
     (case operatorActionAuthorityFor s action of
        None \<Rightarrow> None
      | Some x \<Rightarrow> (if oa_State x = st then Some x else None))"

fun scan_blocked ::
  "OperatorActionAuthoritySet \<Rightarrow> OperatorAction list \<Rightarrow> string list \<Rightarrow> nat \<Rightarrow> OperatorDecisionBlockedAction list" where
  "scan_blocked s [] seen n = []"
| "scan_blocked s (action # actions) seen n =
     (case authority_in OperatorActionAuthorityBlocked s action of
        None \<Rightarrow> scan_blocked s actions seen n
      | Some x \<Rightarrow>
         (let reason = TrimSpace (oa_Reason x); key = OperatorAction_str action @ ''|'' @ reason in
          if key \<in> set seen then scan_blocked s actions seen n
          else \<lparr>db_Action = action, db_Reason = reason\<rparr> #
            (if n \<le> 1 then [] else scan_blocked s actions (key # seen) (n - 1))))"

definition summarizeBlockedActions :: "OperatorActionAuthoritySet \<Rightarrow> OperatorDecisionBlockedAction list" where
  "summarizeBlockedActions s = scan_blocked s blocked_priority [] 2"

definition primaryDecisionReason ::
  "ActiveBranchProvenance \<Rightarrow> RecoveryAssessment \<Rightarrow> OperatorActionAuthoritySet \<Rightarrow> string" where
  "primaryDecisionReason branch r s =
     (let rest = (if TrimSpace (bp_Reason branch) \<noteq> [] then bp_Reason branch else TrimSpace (rv_Reason r)) in
      case operatorActionAuthorityFor s (os_RequiredNextAction s) of
        Some x \<Rightarrow> (if TrimSpace (oa_Reason x) \<noteq> [] then oa_Reason x else rest)
      | None \<Rightarrow> rest)"

definition decision_headline :: "RecoveryClass \<Rightarrow> ActiveBranchProvenance \<Rightarrow> string" where
  "decision_headline c branch =
     (case c of
        RecoveryClassReadyNextRun \<Rightarrow> ''Local fresh run ready''
      | RecoveryClassInterruptedRunRecoverable \<Rightarrow> ''Interrupted local lineage recoverable''
      | RecoveryClassContinueExecutionRequired \<Rightarrow> ''Continue finalization required''
      | RecoveryClassStaleRunReconciliationRequired \<Rightarrow> ''Stale local run reconciliation required''
      | RecoveryClassFailedRunReviewRequired \<Rightarrow> ''Failed local run review required''
      | RecoveryClassValidationReviewRequired \<Rightarrow> ''Validation review required''
      | RecoveryClassAcceptedHandoffLaunchReady \<Rightarrow> ''Accepted Claude handoff launch ready''
      | RecoveryClassHandoffLaunchPendingOutcome \<Rightarrow> ''Claude handoff launch pending''
      | RecoveryClassHandoffLaunchCompleted \<Rightarrow> ''Claude handoff branch active''
      | RecoveryClassHandoffFollowThroughReviewRequired \<Rightarrow> ''Claude follow-through review required''
      | RecoveryClassDecisionRequired \<Rightarrow> ''Operator decision required''
      | RecoveryClassBlockedDrift \<Rightarrow> ''Recovery blocked by repository drift''
      | RecoveryClassRebriefRequired \<Rightarrow> ''Execution brief regeneration required''
      | RecoveryClassRepairRequired \<Rightarrow> ''Continuity repair required''
      | RecoveryClassCompletedNoAction \<Rightarrow> ''Task completed''
      | RecoveryClassUnset \<Rightarrow> (if bp_Class branch = ActiveBranchClassHandoffClaude
          then ''Claude handoff branch active'' else ''Local lineage active''))"

definition decision_guidance :: "RecoveryClass \<Rightarrow> ActiveBranchProvenance \<Rightarrow> string" where
  "decision_guidance c branch =
     (case c of
        RecoveryClassReadyNextRun \<Rightarrow> ''Start the next bounded local run.''
      | RecoveryClassInterruptedRunRecoverable \<Rightarrow> ''Resume the interrupted local lineage; do not start a fresh run yet.''
      | RecoveryClassContinueExecutionRequired \<Rightarrow> ''Finalize continue recovery before any new bounded run.''
      | RecoveryClassStaleRunReconciliationRequired \<Rightarrow> ''Reconcile stale run state before starting a new local run.''
      | RecoveryClassFailedRunReviewRequired \<Rightarrow> ''Inspect the latest failed run before retrying or regenerating the brief.''
      | RecoveryClassValidationReviewRequired \<Rightarrow> ''Review validation state before another bounded run.''
      | RecoveryClassAcceptedHandoffLaunchReady \<Rightarrow> ''Launch the accepted Claude handoff before local canonical work continues.''
      | RecoveryClassHandoffLaunchPendingOutcome \<Rightarrow> ''Wait for launch outcome or explicitly resolve the active Claude branch before local work continues.''
      | RecoveryClassHandoffLaunchCompleted \<Rightarrow> ''Monitor or explicitly resolve the active Claude branch before local canonical work continues.''
      | RecoveryClassHandoffFollowThroughReviewRequired \<Rightarrow> ''Review the stalled Claude follow-through before resuming local work.''
      | RecoveryClassDecisionRequired \<Rightarrow> ''Choose whether to continue with the current brief or take the alternative recovery path.''
      | RecoveryClassBlockedDrift \<Rightarrow> ''Make an explicit recovery decision before continuing local execution.''
      | RecoveryClassRebriefRequired \<Rightarrow> ''Regenerate the execution brief before another bounded run.''
      | RecoveryClassRepairRequired \<Rightarrow> ''Repair continuity before relying on local or handoff execution state.''
      | RecoveryClassCompletedNoAction \<Rightarrow> ''No further control-plane action is currently required.''
      | RecoveryClassUnset \<Rightarrow> (if bp_Class branch = ActiveBranchClassHandoffClaude
          then ''Review the active Claude branch before local canonical work continues.''
          else ''Follow the current local recovery guidance.''))"

definition operatorDecisionIntegrityNote ::
  "continueAssessment \<Rightarrow> RecoveryAssessment \<Rightarrow> HandoffContinuity \<Rightarrow> ActiveBranchProvenance \<Rightarrow>
     LocalRunFinalization \<Rightarrow> LocalResumeAuthority \<Rightarrow> string" where
  "operatorDecisionIntegrityNote a r hc branch rf lr =
     (if hc_State hc \<in> {HandoffContinuityStateAcceptedNotLaunched, HandoffContinuityStateLaunchPendingOutcome,
        HandoffContinuityStateLaunchFailedRetryable, HandoffContinuityStateLaunchCompletedAckSeen,
        HandoffContinuityStateLaunchCompletedAckEmpty, HandoffContinuityStateFollowThroughProofOfLife,
        HandoffContinuityStateFollowThroughConfirmed, HandoffContinuityStateFollowThroughUnknown,
        HandoffContinuityStateFollowThroughStalled}
      then ''Downstream Claude completion remains unproven.''
      else if hc_State hc = HandoffContinuityStateLaunchCompletedAckLost
      then ''Launch completion without durable acknowledgment is a continuity inconsistency, not proof of downstream execution.''
      else if ca_LatestResolution a \<noteq> None \<and> bp_Class branch = ActiveBranchClassLocal
      then ''Historical Claude branch resolution closed that branch without proving downstream completion.''
      else if rf_State rf = LocalRunFinalizationStaleReconciliationNeeded
      then ''A stale durably RUNNING run is not treated as resumable interrupted lineage until reconciled.''
      else if rf_State rf = LocalRunFinalizationInterruptedRecoverable \<or> lr_State lr = LocalResumeAuthorityAllowed
        \<or> rv_RecoveryClass r = RecoveryClassContinueExecutionRequired
      then ''Checkpoint resumability is evidence for local recovery, not blanket authority for other actions.''
      else [])"

definition deriveOperatorDecisionSummary ::
  "continueAssessment \<Rightarrow> RecoveryAssessment \<Rightarrow> ActiveBranchProvenance \<Rightarrow> LocalRunFinalization \<Rightarrow>
     LocalResumeAuthority \<Rightarrow> OperatorActionAuthoritySet \<Rightarrow> OperatorDecisionSummary" where
  "deriveOperatorDecisionSummary a r branch rf lr s =
     (let reason = primaryDecisionReason branch r s in
      \<lparr>od_TaskID = ca_TaskID a, od_ActiveOwnerClass = bp_Class branch, od_ActiveOwnerRef = bp_BranchRef branch,
       od_Headline = decision_headline (rv_RecoveryClass r) branch,
       od_RequiredNextAction = os_RequiredNextAction s,
       od_PrimaryReason = (if TrimSpace reason = [] then rv_Reason r else reason),
       od_Guidance = decision_guidance (rv_RecoveryClass r) branch,
       od_IntegrityNote = operatorDecisionIntegrityNote a r (hc_of a) branch rf lr,
       od_BlockedActions = summarizeBlockedActions s\<rparr>)"

definition line_or_na :: "string \<Rightarrow> string" where
  "line_or_na s = (if TrimSpace s = [] then ''n/a'' else s)"

definition operatorDecisionHeadlineLine :: "OperatorDecisionSummary \<Rightarrow> string" where
  "operatorDecisionHeadlineLine y = line_or_na (od_Headline y)"

definition operatorDecisionGuidanceLine :: "OperatorDecisionSummary \<Rightarrow> string" where
  "operatorDecisionGuidanceLine y = line_or_na (od_Guidance y)"

definition operatorDecisionIntegrityLine :: "OperatorDecisionSummary \<Rightarrow> string" where
  "operatorDecisionIntegrityLine y = line_or_na (od_IntegrityNote y)"

definition humanizeOperatorDecisionConstant :: "string \<Rightarrow> string" where
  "humanizeOperatorDecisionConstant v =
     map (\<lambda>c. if c = CHR ''_'' then CHR '' '' else c) (TrimSpace (ToLower v))"

definition operatorDecisionBlockedLine :: "OperatorDecisionSummary \<Rightarrow> string" where
  "operatorDecisionBlockedLine y =
     (if od_BlockedActions y = [] then ''n/a''
      else ''blocked '' @ str_join (map (\<lambda>b. case db_Action b of
             OperatorActionLocalMessageMutation \<Rightarrow> ''local message''
           | OperatorActionCreateCheckpoint \<Rightarrow> ''checkpoint''
           | OperatorActionStartLocalRun \<Rightarrow> ''fresh run''
           | OperatorActionResumeInterruptedLineage \<Rightarrow> ''resume''
           | x \<Rightarrow> humanizeOperatorDecisionConstant (OperatorAction_str x)) (od_BlockedActions y)) '', '')"

section \<open>Execution plan\<close>

datatype OperatorExecutionDomain =
    OperatorExecutionDomainNotApplicable
  | OperatorExecutionDomainLocal
  | OperatorExecutionDomainHandoffClaude
  | OperatorExecutionDomainReview
  | OperatorExecutionDomainRepair

primrec OperatorExecutionDomain_str :: "OperatorExecutionDomain \<Rightarrow> string" where
  "OperatorExecutionDomain_str OperatorExecutionDomainNotApplicable = ''NOT_APPLICABLE''"
| "OperatorExecutionDomain_str OperatorExecutionDomainLocal = ''LOCAL''"
| "OperatorExecutionDomain_str OperatorExecutionDomainHandoffClaude = ''HANDOFF_CLAUDE''"
| "OperatorExecutionDomain_str OperatorExecutionDomainReview = ''REVIEW''"
| "OperatorExecutionDomain_str OperatorExecutionDomainRepair = ''REPAIR''"

record OperatorExecutionStep =
  es_Action :: OperatorAction
  es_Status :: OperatorActionAuthorityState
  es_Domain :: OperatorExecutionDomain
  es_CommandSurface :: OperatorCommandSurfaceType
  es_CommandHint :: string
  es_Reason :: string

record OperatorExecutionPlan =
  ep_TaskID :: TaskID
  ep_PrimaryStep :: "OperatorExecutionStep option"
  ep_MandatoryBeforeProgress :: bool
  ep_SecondarySteps :: "OperatorExecutionStep list"
  ep_BlockedSteps :: "OperatorExecutionStep list"

definition operatorExecutionDomainForAction :: "OperatorAction \<Rightarrow> OperatorExecutionDomain" where
  "operatorExecutionDomainForAction action =
     (if action \<in> {OperatorActionLaunchAcceptedHandoff, OperatorActionResolveActiveHandoff}
      then OperatorExecutionDomainHandoffClaude
      else if action \<in> {OperatorActionInspectFailedRun, OperatorActionReviewValidationState,
        OperatorActionMakeResumeDecision, OperatorActionReviewHandoffFollowUp}
      then OperatorExecutionDomainReview
      else if action = OperatorActionRepairContinuity then OperatorExecutionDomainRepair
      else if action = OperatorActionNone then OperatorExecutionDomainNotApplicable
      else OperatorExecutionDomainLocal)"

definition executionStepFromAuthority ::
  "TaskID \<Rightarrow> HandoffContinuity \<Rightarrow> OperatorActionAuthority \<Rightarrow> OperatorExecutionStep" where
  "executionStepFromAuthority t hc x =
     (let command = canonicalOperatorCommandSurface t hc (oa_Action x) in
      \<lparr>es_Action = oa_Action x, es_Status = oa_State x,
       es_Domain = operatorExecutionDomainForAction (oa_Action x),
       es_CommandSurface = cmd_SurfaceType command, es_CommandHint = cmd_CanonicalCLI command,
       es_Reason = TrimSpace (oa_Reason x)\<rparr>)"

text \<open>The loops over a priority list: the steps of the actions in the wanted state, in order.\<close>

definition steps_in ::
  "OperatorActionAuthorityState \<Rightarrow> TaskID \<Rightarrow> HandoffContinuity \<Rightarrow> OperatorActionAuthoritySet \<Rightarrow>
     OperatorAction list \<Rightarrow> OperatorExecutionStep list" where
  "steps_in st t hc s actions =
     List.map_filter (\<lambda>action. map_option (executionStepFromAuthority t hc) (authority_in st s action)) actions"

definition fallback_local :: "OperatorAction list" where
  "fallback_local = [OperatorActionResumeInterruptedLineage, OperatorActionFinalizeContinueRecovery,
     OperatorActionStartLocalRun, OperatorActionReconcileStaleRun, OperatorActionInspectFailedRun,
     OperatorActionExecuteRebrief, OperatorActionLocalMessageMutation, OperatorActionCreateCheckpoint]"

definition fallback_order :: "ActiveBranchClass \<Rightarrow> OperatorAction list" where
  "fallback_order c =
     (if c \<noteq> ActiveBranchClassHandoffClaude
      then fallback_local @ [OperatorActionLaunchAcceptedHandoff, OperatorActionResolveActiveHandoff,
        OperatorActionReviewHandoffFollowUp]
      else [OperatorActionResolveActiveHandoff, OperatorActionLaunchAcceptedHandoff,
        OperatorActionReviewHandoffFollowUp] @ fallback_local)"

definition primaryExecutionStep ::
  "TaskID \<Rightarrow> ActiveBranchProvenance \<Rightarrow> HandoffContinuity \<Rightarrow> OperatorActionAuthoritySet \<Rightarrow>
     OperatorDecisionSummary \<Rightarrow> OperatorExecutionStep option" where
  "primaryExecutionStep t branch hc s decision =
     (let fallback = (case steps_in OperatorActionAuthorityAllowed t hc s (fallback_order (bp_Class branch)) of
            [] \<Rightarrow> None | step # _ \<Rightarrow> Some step) in
      if od_RequiredNextAction decision \<noteq> OperatorActionNone
      then (case operatorActionAuthorityFor s (od_RequiredNextAction decision) of
              Some x \<Rightarrow> Some (executionStepFromAuthority t hc x)
            | None \<Rightarrow> fallback)
      else fallback)"

definition secondary_preferred :: "OperatorAction list" where
  "secondary_preferred = [OperatorActionResolveActiveHandoff, OperatorActionLaunchAcceptedHandoff] @ fallback_local"

definition secondaryExecutionSteps ::
  "TaskID \<Rightarrow> HandoffContinuity \<Rightarrow> OperatorActionAuthoritySet \<Rightarrow> OperatorExecutionStep option \<Rightarrow>
     OperatorExecutionStep list" where
  "secondaryExecutionSteps t hc s primary =
     take 2 (steps_in OperatorActionAuthorityAllowed t hc s
       (filter (\<lambda>action. case primary of None \<Rightarrow> True | Some p \<Rightarrow> action \<noteq> es_Action p) secondary_preferred))"

definition blockedExecutionSteps ::
  "TaskID \<Rightarrow> HandoffContinuity \<Rightarrow> OperatorActionAuthoritySet \<Rightarrow> OperatorExecutionStep list" where
  "blockedExecutionSteps t hc s = take 3 (steps_in OperatorActionAuthorityBlocked t hc s blocked_priority)"

definition executionPlanMandatoryByBlockingContext ::
  "OperatorExecutionStep \<Rightarrow> OperatorActionAuthoritySet \<Rightarrow> bool" where
  "executionPlanMandatoryByBlockingContext primary s \<longleftrightarrow>
     es_Action primary \<in> {OperatorActionResolveActiveHandoff, OperatorActionLaunchAcceptedHandoff,
       OperatorActionReviewHandoffFollowUp}
     \<and> list_ex (\<lambda>action. authority_in OperatorActionAuthorityBlocked s action \<noteq> None)
         [OperatorActionLocalMessageMutation, OperatorActionCreateCheckpoint, OperatorActionStartLocalRun]"

definition deriveOperatorExecutionPlan ::
  "continueAssessment \<Rightarrow> ActiveBranchProvenance \<Rightarrow> OperatorActionAuthoritySet \<Rightarrow>
     OperatorDecisionSummary \<Rightarrow> OperatorExecutionPlan" where
  "deriveOperatorExecutionPlan a branch s decision =
     (let hc = hc_of a; t = ca_TaskID a; primary = primaryExecutionStep t branch hc s decision in
      \<lparr>ep_TaskID = t, ep_PrimaryStep = primary,
       ep_MandatoryBeforeProgress = (case primary of None \<Rightarrow> False
         | Some p \<Rightarrow> es_Status p = OperatorActionAuthorityRequiredNext
             \<or> executionPlanMandatoryByBlockingContext p s),
       ep_SecondarySteps = secondaryExecutionSteps t hc s primary,
       ep_BlockedSteps = blockedExecutionSteps t hc s\<rparr>)"

record OperatorTruth =
  ot_Recovery :: RecoveryAssessment
  ot_Branch :: ActiveBranchProvenance
  ot_Actions :: OperatorActionAuthoritySet
  ot_Decision :: OperatorDecisionSummary
  ot_Plan :: OperatorExecutionPlan
  ot_Continuity :: HandoffContinuity
  ot_RunFinalization :: LocalRunFinalization
  ot_LocalResume :: LocalResumeAuthority

definition operatorTruthForAssessment :: "continueAssessment \<Rightarrow> OperatorTruth" where
  "operatorTruthForAssessment a =
     (let r = recoveryFromContinueAssessment a; branch = deriveActiveBranchProvenanceFromAssessment a r;
          rf = deriveLocalRunFinalization a r; lr = deriveLocalResumeAuthority a r;
          actions = deriveOperatorActionAuthoritySet a r branch rf lr;
          decision = deriveOperatorDecisionSummary a r branch rf lr actions in
      \<lparr>ot_Recovery = r, ot_Branch = branch, ot_Actions = actions, ot_Decision = decision,
       ot_Plan = deriveOperatorExecutionPlan a branch actions decision, ot_Continuity = hc_of a,
       ot_RunFinalization = rf, ot_LocalResume = lr\<rparr>)"

section \<open>The plan and the authorities\<close>

definition plan_of :: "continueAssessment \<Rightarrow> OperatorExecutionPlan" where
  "plan_of a = ot_Plan (operatorTruthForAssessment a)"

lemma authority_in_Some:
  "authority_in st s x = Some e \<Longrightarrow> oa_Action e = x \<and> oa_State e = st \<and> auth_state s x = Some st"
  by (auto simp: authority_in_def auth_state_def operatorActionAuthorityFor_def find_Some_iff
      split: option.splits if_splits)

lemma authority_in_None: "authority_in st s x = None \<longleftrightarrow> auth_state s x \<noteq> Some st"
  by (auto simp: authority_in_def auth_state_def split: option.splits)

lemma steps_in_simps [simp]:
  "steps_in st t hc s [] = []"
  "steps_in st t hc s (x # xs) = (case authority_in st s x of None \<Rightarrow> steps_in st t hc s xs
     | Some e \<Rightarrow> executionStepFromAuthority t hc e # steps_in st t hc s xs)"
  by (simp_all add: steps_in_def List.map_filter_simps split: option.split)

lemma step_fields [simp]:
  "es_Action (executionStepFromAuthority t hc e) = oa_Action e"
  "es_Status (executionStepFromAuthority t hc e) = oa_State e"
  by (simp_all add: executionStepFromAuthority_def Let_def)

lemma steps_in_actions: "map es_Action (steps_in st t hc s xs) = filter (\<lambda>x. auth_state s x = Some st) xs"
  by (induction xs) (auto simp: authority_in_None dest: authority_in_Some split: option.split)

lemma steps_in_status: "p \<in> set (steps_in st t hc s xs) \<Longrightarrow>
    es_Status p = st \<and> auth_state s (es_Action p) = Some st \<and> es_Action p \<in> set xs"
  by (induction xs) (auto dest: authority_in_Some split: option.splits)

abbreviation required_action :: "continueAssessment \<Rightarrow> OperatorAction" where
  "required_action a \<equiv> operatorActionFromRecovery (recoveryFromContinueAssessment a)"

definition planned_branch :: "continueAssessment \<Rightarrow> ActiveBranchProvenance" where
  "planned_branch a = deriveActiveBranchProvenanceFromAssessment a (recoveryFromContinueAssessment a)"

lemma planned_branch_class: "bp_Class (planned_branch a) = ActiveBranchClassHandoffClaude \<longleftrightarrow> claude_owned a"
  by (simp add: planned_branch_def claude_owned_def)

lemma truth_fields:
  "ot_Actions (operatorTruthForAssessment a) = authorities_of a"
  "od_RequiredNextAction (ot_Decision (operatorTruthForAssessment a)) = required_action a"
  by (simp_all add: operatorTruthForAssessment_def deriveOperatorDecisionSummary_def authorities_of_def Let_def)
    (simp add: authorities_of_before[unfolded authorities_of_def Let_def] required_state(2)[OF before_keep])

lemma plan_fields:
  "ep_PrimaryStep (plan_of a) = primaryExecutionStep (ca_TaskID a) (planned_branch a) (hc_of a) (authorities_of a)
     (ot_Decision (operatorTruthForAssessment a))"
  "ep_SecondarySteps (plan_of a) = secondaryExecutionSteps (ca_TaskID a) (hc_of a) (authorities_of a)
     (ep_PrimaryStep (plan_of a))"
  "ep_BlockedSteps (plan_of a) = blockedExecutionSteps (ca_TaskID a) (hc_of a) (authorities_of a)"
  "ep_MandatoryBeforeProgress (plan_of a) = (case ep_PrimaryStep (plan_of a) of None \<Rightarrow> False
     | Some p \<Rightarrow> es_Status p = OperatorActionAuthorityRequiredNext
         \<or> executionPlanMandatoryByBlockingContext p (authorities_of a))"
  unfolding plan_of_def operatorTruthForAssessment_def deriveOperatorExecutionPlan_def authorities_of_def
    planned_branch_def Let_def by simp_all

lemma required_state_of:
  "auth_state (authorities_of a) x = (if x = required_action a \<and> x \<noteq> OperatorActionNone
     then Some OperatorActionAuthorityRequiredNext else auth_state (authorities_before a) x)"
  unfolding authorities_of_before by (rule required_state(1)[OF before_keep])

text \<open>The primary step: the required action, or else the first allowed one of the fallback order.\<close>

lemma primary_required:
  assumes "required_action a \<noteq> OperatorActionNone"
  shows "\<exists>p. ep_PrimaryStep (plan_of a) = Some p \<and> es_Action p = required_action a
    \<and> es_Status p = OperatorActionAuthorityRequiredNext"
proof -
  have "auth_state (authorities_of a) (required_action a) = Some OperatorActionAuthorityRequiredNext"
    using assms by (simp add: required_state_of)
  then obtain e where e: "operatorActionAuthorityFor (authorities_of a) (required_action a) = Some e"
    "oa_State e = OperatorActionAuthorityRequiredNext"
    by (auto simp: auth_state_def)
  have "oa_Action e = required_action a"
    using e(1) by (auto simp: operatorActionAuthorityFor_def find_Some_iff)
  then show ?thesis using assms e
    by (simp add: plan_fields primaryExecutionStep_def truth_fields Let_def)
qed

lemma primary_fallback:
  assumes "required_action a = OperatorActionNone"
  shows "ep_PrimaryStep (plan_of a) = (case steps_in OperatorActionAuthorityAllowed (ca_TaskID a) (hc_of a)
      (authorities_of a) (fallback_order (bp_Class (planned_branch a))) of [] \<Rightarrow> None | p # _ \<Rightarrow> Some p)"
  using assms by (simp add: plan_fields primaryExecutionStep_def truth_fields Let_def)

lemma primary_status:
  assumes "ep_PrimaryStep (plan_of a) = Some p"
  shows "auth_state (authorities_of a) (es_Action p) = Some (es_Status p)
    \<and> es_Status p \<in> {OperatorActionAuthorityAllowed, OperatorActionAuthorityRequiredNext}
    \<and> (es_Status p = OperatorActionAuthorityRequiredNext \<longleftrightarrow> required_action a \<noteq> OperatorActionNone)"
proof (cases "required_action a = OperatorActionNone")
  case True
  then have "p \<in> set (steps_in OperatorActionAuthorityAllowed (ca_TaskID a) (hc_of a)
      (authorities_of a) (fallback_order (bp_Class (planned_branch a))))"
    using primary_fallback[OF True] assms by (auto split: list.splits)
  then show ?thesis using steps_in_status True by fastforce
next
  case False
  then show ?thesis using primary_required[OF False] assms by (auto simp: required_state_of)
qed

lemma secondary_status:
  assumes "p \<in> set (ep_SecondarySteps (plan_of a))"
  shows "auth_state (authorities_of a) (es_Action p) = Some OperatorActionAuthorityAllowed
    \<and> es_Status p = OperatorActionAuthorityAllowed"
  using assms steps_in_status unfolding plan_fields(2) secondaryExecutionSteps_def by (meson in_set_takeD)

lemma blocked_status:
  assumes "p \<in> set (ep_BlockedSteps (plan_of a))"
  shows "auth_state (authorities_of a) (es_Action p) = Some OperatorActionAuthorityBlocked
    \<and> es_Status p = OperatorActionAuthorityBlocked"
  using assms steps_in_status unfolding plan_fields(3) blockedExecutionSteps_def by (meson in_set_takeD)

text \<open>
  C28. (safety) The operator's plan never offers an action the authorities forbid: the primary step
  is the required action, or an allowed one when nothing is required, every secondary step is
  allowed and differs from the primary one, and every step listed as blocked is blocked.
\<close>
theorem plan_respects_authority:
  "(case ep_PrimaryStep (plan_of a) of
      None \<Rightarrow> required_action a = OperatorActionNone
    | Some p \<Rightarrow>
        (if required_action a = OperatorActionNone
         then es_Status p = OperatorActionAuthorityAllowed
         else es_Action p = required_action a \<and> es_Status p = OperatorActionAuthorityRequiredNext)
        \<and> list_all (\<lambda>q. auth_state (authorities_of a) (es_Action q) = Some (es_Status q))
            (p # ep_SecondarySteps (plan_of a) @ ep_BlockedSteps (plan_of a))
        \<and> es_Action p \<notin> es_Action ` set (ep_SecondarySteps (plan_of a)))
   \<and> list_all (\<lambda>q. es_Status q = OperatorActionAuthorityAllowed) (ep_SecondarySteps (plan_of a))
   \<and> list_all (\<lambda>q. es_Status q = OperatorActionAuthorityBlocked) (ep_BlockedSteps (plan_of a))"
proof -
  have fresh: "es_Action p \<noteq> es_Action q"
    if "ep_PrimaryStep (plan_of a) = Some p" "q \<in> set (ep_SecondarySteps (plan_of a))" for p q
    using that(2) steps_in_status
    unfolding plan_fields(2) secondaryExecutionSteps_def that(1) by (fastforce dest: in_set_takeD)
  have lists: "list_all (\<lambda>q. auth_state (authorities_of a) (es_Action q) = Some (es_Status q)
        \<and> es_Status q = OperatorActionAuthorityAllowed) (ep_SecondarySteps (plan_of a))"
      "list_all (\<lambda>q. auth_state (authorities_of a) (es_Action q) = Some (es_Status q)
        \<and> es_Status q = OperatorActionAuthorityBlocked) (ep_BlockedSteps (plan_of a))"
    using secondary_status blocked_status by (simp_all add: list_all_iff)
  show ?thesis
  proof (cases "ep_PrimaryStep (plan_of a)")
    case None
    then have "required_action a = OperatorActionNone" using primary_required[of a] by auto
    then show ?thesis using None lists by (simp add: list_all_iff)
  next
    case (Some p)
    have "required_action a \<noteq> OperatorActionNone \<Longrightarrow> es_Action p = required_action a"
      using primary_required[of a] Some by auto
    then show ?thesis using Some primary_status[OF Some] fresh[OF Some] lists
      by (auto simp: list_all_iff)
  qed
qed

section \<open>Mandatory steps\<close>

definition hands_off :: "OperatorAction set" where
  "hands_off = {OperatorActionResolveActiveHandoff, OperatorActionLaunchAcceptedHandoff,
     OperatorActionReviewHandoffFollowUp}"

definition branch_is_open :: "continueAssessment \<Rightarrow> bool" where
  "branch_is_open a \<longleftrightarrow> claude_owned a
     \<and> hc_State (hc_of a) \<notin> {HandoffContinuityStateNotApplicable, HandoffContinuityStateResolved}"

lemma required_by_class:
  "required_action a = OperatorActionNone \<Longrightarrow>
     rv_RecoveryClass (recoveryFromContinueAssessment a) \<noteq> RecoveryClassHandoffFollowThroughReviewRequired
     \<and> rv_RecoveryClass (recoveryFromContinueAssessment a) \<noteq> RecoveryClassAcceptedHandoffLaunchReady"
proof -
  have "rv_RecommendedAction (recoveryFromContinueAssessment a)
      = action_for (rv_RecoveryClass (recoveryFromContinueAssessment a))"
    using coherent_recovery[of a] by (simp add: coherent_def)
  then show "required_action a = OperatorActionNone \<Longrightarrow> ?thesis"
    by (auto simp: operatorActionFromRecovery_def)
qed

lemma by_handoff_hands_off:
  assumes "present s"
  shows "auth_state (authority_by_handoff branch hc s) OperatorActionResolveActiveHandoff =
      Some (if bp_Class branch = ActiveBranchClassHandoffClaude
          \<and> hc_State hc \<notin> {HandoffContinuityStateNotApplicable, HandoffContinuityStateResolved}
        then OperatorActionAuthorityAllowed else OperatorActionAuthorityNotApplicable)"
    and "\<not> (bp_Class branch = ActiveBranchClassHandoffClaude
          \<and> hc_State hc \<notin> {HandoffContinuityStateNotApplicable, HandoffContinuityStateResolved}) \<Longrightarrow>
      auth_state (authority_by_handoff branch hc s) OperatorActionLaunchAcceptedHandoff =
        Some OperatorActionAuthorityNotApplicable
      \<and> auth_state (authority_by_handoff branch hc s) OperatorActionReviewHandoffFollowUp =
        (if bp_Class branch = ActiveBranchClassHandoffClaude
         then auth_state s OperatorActionReviewHandoffFollowUp else Some OperatorActionAuthorityNotApplicable)"
  using assms by (auto simp: authority_by_handoff_def setters auth_state_of_set simp del: append_Cons)

lemma review_state_before:
  assumes "rv_RecoveryClass (recoveryFromContinueAssessment a) \<noteq> RecoveryClassHandoffFollowThroughReviewRequired"
    and "s = authority_by_resume rf lr (authority_by_recovery a (recoveryFromContinueAssessment a) rf
      (authority_by_branch branch hc (authority_base a branch rf lr)))"
  shows "auth_state s OperatorActionReviewHandoffFollowUp = Some OperatorActionAuthorityNotApplicable \<and> present s"
proof -
  have loc: "\<not> is_local_action OperatorActionReviewHandoffFollowUp"
    by (simp add: is_local_action_def local_actions_def)
  have cls: "class_action (rv_RecoveryClass (recoveryFromContinueAssessment a)) \<noteq> OperatorActionReviewHandoffFollowUp"
    using assms(1) by (cases "rv_RecoveryClass (recoveryFromContinueAssessment a)") simp_all
  show ?thesis unfolding assms(2) using cls loc
    by (subst by_resume_state)
      (auto simp: by_resume_keep(1) by_recovery_state by_branch_state base_present base_state)
qed

lemma handoff_states:
  assumes "required_action a = OperatorActionNone"
  shows "branch_is_open a \<Longrightarrow>
      auth_state (authorities_of a) OperatorActionResolveActiveHandoff = Some OperatorActionAuthorityAllowed"
    and "\<not> branch_is_open a \<Longrightarrow> x \<in> hands_off \<Longrightarrow>
      auth_state (authorities_of a) x \<noteq> Some OperatorActionAuthorityAllowed"
proof -
  define branch where "branch = planned_branch a"
  define s where "s = authority_by_resume (deriveLocalRunFinalization a (recoveryFromContinueAssessment a))
    (deriveLocalResumeAuthority a (recoveryFromContinueAssessment a))
    (authority_by_recovery a (recoveryFromContinueAssessment a)
      (deriveLocalRunFinalization a (recoveryFromContinueAssessment a))
      (authority_by_branch branch (hc_of a) (authority_base a branch
        (deriveLocalRunFinalization a (recoveryFromContinueAssessment a))
        (deriveLocalResumeAuthority a (recoveryFromContinueAssessment a)))))"
  have rev: "auth_state s OperatorActionReviewHandoffFollowUp = Some OperatorActionAuthorityNotApplicable" "present s"
    using review_state_before[OF _ s_def] required_by_class[OF assms] by blast+
  have same: "auth_state (authorities_of a) x = auth_state (authority_by_handoff branch (hc_of a) s) x" for x
    using assms unfolding required_state_of authorities_before_def Let_def s_def branch_def planned_branch_def by simp
  have open_iff: "branch_is_open a \<longleftrightarrow> bp_Class branch = ActiveBranchClassHandoffClaude
      \<and> hc_State (hc_of a) \<notin> {HandoffContinuityStateNotApplicable, HandoffContinuityStateResolved}"
    unfolding branch_is_open_def branch_def planned_branch_class by simp
  show "branch_is_open a \<Longrightarrow>
      auth_state (authorities_of a) OperatorActionResolveActiveHandoff = Some OperatorActionAuthorityAllowed"
    unfolding same open_iff by_handoff_hands_off(1)[OF rev(2)] by simp
  show "\<not> branch_is_open a \<Longrightarrow> x \<in> hands_off \<Longrightarrow>
      auth_state (authorities_of a) x \<noteq> Some OperatorActionAuthorityAllowed"
    unfolding same open_iff
    using by_handoff_hands_off[OF rev(2), of branch "hc_of a"] rev(1)
    by (auto simp: hands_off_def split: if_splits)
qed

lemma first_allowed:
  assumes "required_action a = OperatorActionNone" and "branch_is_open a"
  shows "\<exists>p. ep_PrimaryStep (plan_of a) = Some p \<and> es_Action p = OperatorActionResolveActiveHandoff"
proof -
  obtain e where "authority_in OperatorActionAuthorityAllowed (authorities_of a)
      OperatorActionResolveActiveHandoff = Some e"
    using handoff_states(1)[OF assms] authority_in_None by (metis not_None_eq)
  moreover have "bp_Class (planned_branch a) = ActiveBranchClassHandoffClaude"
    using assms(2) by (simp add: planned_branch_class branch_is_open_def)
  ultimately show ?thesis
    using primary_fallback[OF assms(1)] by (auto simp: fallback_order_def dest: authority_in_Some)
qed

lemma open_branch_blocks: "claude_owned a \<Longrightarrow>
  authority_in OperatorActionAuthorityBlocked (authorities_of a) OperatorActionLocalMessageMutation \<noteq> None"
  by (simp add: authority_in_None mutation_authority)

text \<open>
  (functional) The plan's first step is mandatory before any progress exactly when the
  recovery assessment requires an action, or an open Claude handoff branch owns continuity.
\<close>
theorem mandatory_step_iff:
  "ep_MandatoryBeforeProgress (plan_of a) \<longleftrightarrow>
     (if required_action a = OperatorActionNone then branch_is_open a else True)"
proof (cases "required_action a = OperatorActionNone")
  case False
  then show ?thesis using primary_required[OF False] by (auto simp: plan_fields(4))
next
  case True
  show ?thesis
  proof (cases "branch_is_open a")
    case True
    then show ?thesis using first_allowed[OF \<open>required_action a = OperatorActionNone\<close> True]
        open_branch_blocks[of a]
      by (auto simp: plan_fields(4) executionPlanMandatoryByBlockingContext_def branch_is_open_def)
  next
    case False
    have "\<not> executionPlanMandatoryByBlockingContext p (authorities_of a)
        \<and> es_Status p \<noteq> OperatorActionAuthorityRequiredNext"
      if p: "ep_PrimaryStep (plan_of a) = Some p" for p
      using primary_status[OF p] True handoff_states(2)[OF True False, of "es_Action p"]
      by (auto simp: executionPlanMandatoryByBlockingContext_def hands_off_def)
    then show ?thesis using True False by (auto simp: plan_fields(4) split: option.split)
  qed
qed

end
