(* ===== verification/Reviews.thy ===== *)
theory Reviews
  imports Operator Receipts
begin

text \<open>
  Shell sessions with their transcripts and reviews (internal/orchestrator/shell_sessions.go,
  shell_transcript.go, operator_review_progression.go): the view of a session, how far its
  transcript was reviewed, and what that means for the operator's next step.
\<close>

section \<open>Views\<close>

datatype ReviewClosureState =
    TranscriptReviewClosureNone
  | TranscriptReviewClosureGlobalCurrent
  | TranscriptReviewClosureGlobalStale
  | TranscriptReviewClosureSourceScopedCurrent
  | TranscriptReviewClosureSourceScopedStale

primrec ReviewClosureState_str :: "ReviewClosureState \<Rightarrow> string" where
  "ReviewClosureState_str TranscriptReviewClosureNone = ''none''"
| "ReviewClosureState_str TranscriptReviewClosureGlobalCurrent = ''global_review_current_within_retained''"
| "ReviewClosureState_str TranscriptReviewClosureGlobalStale = ''global_review_stale_within_retained''"
| "ReviewClosureState_str TranscriptReviewClosureSourceScopedCurrent =
     ''source_scoped_review_current_within_retained''"
| "ReviewClosureState_str TranscriptReviewClosureSourceScopedStale =
     ''source_scoped_review_stale_within_retained''"

abbreviation any_source :: TranscriptSource where
  "any_source \<equiv> TranscriptSourceOther []"

definition scoped :: "TranscriptSource \<Rightarrow> bool" where
  "scoped s \<longleftrightarrow> TranscriptSource_str s \<noteq> []"

record ShellTranscriptReviewSummary =
  rs_ReviewID :: EventID
  rs_SourceFilter :: TranscriptSource
  rs_ReviewedUpToSequence :: int
  rs_Summary :: string
  rs_CreatedAt :: go_time
  rs_TranscriptState :: TranscriptState
  rs_RetentionLimit :: int
  rs_RetainedChunks :: int
  rs_DroppedChunks :: int
  rs_OldestRetainedSequence :: int
  rs_NewestRetainedSequence :: int
  rs_StaleBehindLatest :: bool
  rs_NewerRetainedCount :: int
  rs_OldestUnreviewedSequence :: int
  rs_ClosureState :: ReviewClosureState

text \<open>The latest event's fields of \<open>ShellSessionView\<close> are set together, from one event.\<close>

record TranscriptView = ShellSessionView +
  vw_TranscriptState :: TranscriptState
  vw_RetainedChunks :: int
  vw_DroppedChunks :: int
  vw_RetentionLimit :: int
  vw_OldestSequence :: int
  vw_NewestSequence :: int
  vw_LastChunkAt :: go_time
  vw_ReviewID :: EventID
  vw_ReviewSource :: TranscriptSource
  vw_ReviewedUpTo :: int
  vw_ReviewSummary :: string
  vw_ReviewAt :: go_time
  vw_ReviewStale :: bool
  vw_ReviewNewer :: int
  vw_ReviewClosureState :: ReviewClosureState
  vw_ReviewOldestUnreviewed :: int
  vw_RecentReviews :: "ShellTranscriptReviewSummary list"
  vw_LatestEvent :: "SessionEvent option"

definition bare_view :: "ShellSessionView \<Rightarrow> TranscriptView" where
  "bare_view v = ShellSessionView.extend v (TranscriptView.fields (TranscriptStateOther [])
     0 0 0 0 0 0 [] any_source 0 [] 0 False 0 TranscriptReviewClosureNone 0 [] None)"

definition view_session :: "TranscriptView \<Rightarrow> string" where
  "view_session v = ss_SessionID (sv_Record v)"

definition enrich_view :: "SessionEvent list \<Rightarrow> TranscriptView \<Rightarrow> TranscriptView" where
  "enrich_view events v =
     (case find (\<lambda>e. TrimSpace (se_SessionID e) \<noteq> [] \<and> se_SessionID e = view_session v) events of
        None \<Rightarrow> v
      | Some e \<Rightarrow> v\<lparr>vw_LatestEvent := Some e\<rparr>)"

definition deriveTranscriptState :: "TranscriptView \<Rightarrow> TranscriptState" where
  "deriveTranscriptState v =
     (if vw_RetainedChunks v \<le> 0 then TranscriptStateNone
      else
        let only = isTranscriptOnlyMode (ss_HostMode (sv_Record v)) (ss_HostState (sv_Record v));
            partly = vw_DroppedChunks v > 0 in
        if only \<and> partly then TranscriptStateTranscriptOnlyPartial
        else if only then TranscriptStateTranscriptOnlyAvailable
        else if partly then TranscriptStateBoundedPartial
        else TranscriptStateBoundedAvailable)"

definition applyTranscriptSummaryToView :: "TranscriptSummary \<Rightarrow> TranscriptView \<Rightarrow> TranscriptView" where
  "applyTranscriptSummaryToView y v =
     (let u = v\<lparr>vw_RetainedChunks := ts_RetainedChunks y, vw_DroppedChunks := ts_DroppedChunks y,
            vw_RetentionLimit := ts_RetentionLimit y, vw_OldestSequence := ts_OldestSequenceNo y,
            vw_NewestSequence := ts_NewestSequenceNo y, vw_LastChunkAt := ts_LastChunkAt y\<rparr> in
      u\<lparr>vw_TranscriptState := deriveTranscriptState u\<rparr>)"

definition deriveTranscriptReviewClosureState :: "TranscriptSource \<Rightarrow> bool \<Rightarrow> ReviewClosureState" where
  "deriveTranscriptReviewClosureState scope stale =
     (if scoped scope
      then (if stale then TranscriptReviewClosureSourceScopedStale else TranscriptReviewClosureSourceScopedCurrent)
      else (if stale then TranscriptReviewClosureGlobalStale else TranscriptReviewClosureGlobalCurrent))"

definition shellTranscriptReviewSummary :: "TranscriptReview \<Rightarrow> int \<Rightarrow> ShellTranscriptReviewSummary" where
  "shellTranscriptReviewSummary r newestSequence =
     (let newest = (if newestSequence = 0 then tv_NewestRetainedSequence r else newestSequence);
          stale = newest > tv_ReviewedUpToSequence r in
      \<lparr>rs_ReviewID = tv_ReviewID r, rs_SourceFilter = tv_SourceFilter r,
       rs_ReviewedUpToSequence = tv_ReviewedUpToSequence r, rs_Summary = TrimSpace (tv_Summary r),
       rs_CreatedAt = tv_CreatedAt r, rs_TranscriptState = tv_TranscriptState r,
       rs_RetentionLimit = tv_RetentionLimit r, rs_RetainedChunks = tv_RetainedChunks r,
       rs_DroppedChunks = tv_DroppedChunks r, rs_OldestRetainedSequence = tv_OldestRetainedSequence r,
       rs_NewestRetainedSequence = newest, rs_StaleBehindLatest = stale,
       rs_NewerRetainedCount = (if stale then newest - tv_ReviewedUpToSequence r else 0),
       rs_OldestUnreviewedSequence = (if stale then tv_ReviewedUpToSequence r + 1 else 0),
       rs_ClosureState = deriveTranscriptReviewClosureState (tv_SourceFilter r) stale\<rparr>)"

definition applyTranscriptReviewToView :: "TranscriptReview option \<Rightarrow> int \<Rightarrow> TranscriptView \<Rightarrow> TranscriptView" where
  "applyTranscriptReviewToView review newestForScope v =
     (let u = v\<lparr>vw_ReviewID := [], vw_ReviewSource := any_source, vw_ReviewedUpTo := 0,
            vw_ReviewSummary := [], vw_ReviewAt := 0, vw_ReviewStale := False, vw_ReviewNewer := 0,
            vw_ReviewClosureState := TranscriptReviewClosureNone, vw_ReviewOldestUnreviewed := 0\<rparr> in
      case review of
        None \<Rightarrow> u
      | Some r \<Rightarrow>
        let newest = (if newestForScope = 0 then tv_NewestRetainedSequence r else newestForScope);
            stale = newest > tv_ReviewedUpToSequence r in
        u\<lparr>vw_ReviewID := tv_ReviewID r, vw_ReviewSource := tv_SourceFilter r,
          vw_ReviewedUpTo := tv_ReviewedUpToSequence r, vw_ReviewSummary := TrimSpace (tv_Summary r),
          vw_ReviewAt := tv_CreatedAt r, vw_ReviewStale := stale,
          vw_ReviewNewer := (if stale then newest - tv_ReviewedUpToSequence r else 0),
          vw_ReviewOldestUnreviewed := (if stale then tv_ReviewedUpToSequence r + 1 else 0),
          vw_ReviewClosureState := deriveTranscriptReviewClosureState (tv_SourceFilter r) stale\<rparr>)"

section \<open>Reading reviews\<close>

definition transcript_summary :: "ShellDb \<Rightarrow> TaskID \<Rightarrow> string \<Rightarrow> go_error + TranscriptSummary" where
  "transcript_summary d t s = shell_TranscriptSummary t (TrimSpace s) DefaultTranscriptRetentionChunks d"

definition latestShellTranscriptSequenceForSource ::
  "ShellDb \<Rightarrow> TaskID \<Rightarrow> string \<Rightarrow> TranscriptSource \<Rightarrow> go_error + int" where
  "latestShellTranscriptSequenceForSource d t s src =
     rbnd (shell_ListTranscriptPage t (TrimSpace s) 0 1 src d) (\<lambda>(chunks, more).
       Inr (if chunks = [] then 0 else tc_SequenceNo (last chunks)))"

definition newestTranscriptSequenceForReviewScope ::
  "ShellDb \<Rightarrow> TaskID \<Rightarrow> string \<Rightarrow> TranscriptReview option \<Rightarrow> int \<Rightarrow> go_error + int" where
  "newestTranscriptSequenceForReviewScope d t s review fallbackNewest =
     (case review of
        None \<Rightarrow> Inr fallbackNewest
      | Some r \<Rightarrow>
        let own = (if fallbackNewest > 0 then fallbackNewest else tv_NewestRetainedSequence r) in
        if \<not> scoped (tv_SourceFilter r) then Inr own
        else rbnd (latestShellTranscriptSequenceForSource d t s (tv_SourceFilter r)) (\<lambda>newest.
          Inr (if newest > 0 then newest else own)))"

text \<open>
  The summaries of a review history. What is remembered for a source is the number looked up,
  also when it was 0 and the first review of that source was compared with the overall newest.
\<close>

fun review_history ::
  "(TranscriptSource \<Rightarrow> go_error + int) \<Rightarrow> int \<Rightarrow> (TranscriptSource \<times> int) list \<Rightarrow> TranscriptReview list \<Rightarrow>
     go_error + ShellTranscriptReviewSummary list" where
  "review_history lookup overall seen [] = Inr []"
| "review_history lookup overall seen (r # rs) =
     (let emit = (\<lambda>newest seen'. rbnd (review_history lookup overall seen' rs) (\<lambda>ys.
            Inr (shellTranscriptReviewSummary r newest # ys))) in
      if \<not> scoped (tv_SourceFilter r) then emit overall seen
      else
        (case map_of seen (tv_SourceFilter r) of
           Some cached \<Rightarrow> emit cached seen
         | None \<Rightarrow> rbnd (lookup (tv_SourceFilter r)) (\<lambda>found.
             emit (if found > 0 then found else overall) ((tv_SourceFilter r, found) # seen))))"

definition applyTranscriptReviewHistoryToView ::
  "ShellDb \<Rightarrow> TaskID \<Rightarrow> string \<Rightarrow> TranscriptReview list \<Rightarrow> TranscriptView \<Rightarrow> go_error + TranscriptView" where
  "applyTranscriptReviewHistoryToView d t s reviews v =
     rbnd (review_history (latestShellTranscriptSequenceForSource d t s) (vw_NewestSequence v) [] reviews)
       (\<lambda>ys. Inr (v\<lparr>vw_RecentReviews := ys\<rparr>))"

definition defaultShellTranscriptReviewHistoryPreview :: int where
  "defaultShellTranscriptReviewHistoryPreview = 3"

text \<open>The part that \<open>classifiedShellSessionsFromRecords\<close> and \<open>ReportShellSession\<close> share.\<close>

definition reviewed_view :: "ShellDb \<Rightarrow> TaskID \<Rightarrow> TranscriptView \<Rightarrow> go_error + TranscriptView" where
  "reviewed_view d t v =
     (let s = view_session v in
      rbnd (transcript_summary d t s) (\<lambda>y.
      let u = applyTranscriptSummaryToView y v in
      rbnd (shell_LatestTranscriptReviewAnyScope t (TrimSpace s) d) (\<lambda>review.
      rbnd (newestTranscriptSequenceForReviewScope d t s review (vw_NewestSequence u)) (\<lambda>newest.
      let u' = applyTranscriptReviewToView review newest u in
      rbnd (shell_ListTranscriptReviewsAnyScope t (TrimSpace s) defaultShellTranscriptReviewHistoryPreview d) (\<lambda>reviews.
      applyTranscriptReviewHistoryToView d t s reviews u')))))"

fun rmap :: "('a \<Rightarrow> go_error + 'b) \<Rightarrow> 'a list \<Rightarrow> go_error + 'b list" where
  "rmap f [] = Inr []"
| "rmap f (x # xs) = rbnd (f x) (\<lambda>y. rbnd (rmap f xs) (\<lambda>ys. Inr (y # ys)))"

definition classifiedShellSessionsFromRecords ::
  "ShellDb \<Rightarrow> go_time \<Rightarrow> int \<Rightarrow> TaskID \<Rightarrow> SessionRecord list \<Rightarrow> go_error + TranscriptView list" where
  "classifiedShellSessionsFromRecords d now staleAfter t records =
     (let events = shell_ListEvents t [] (int (length records) * 5 + 20) d in
      rmap (\<lambda>v. reviewed_view d t (enrich_view events (bare_view v)))
        (classifyShellSessions records now staleAfter))"

section \<open>Closure of a review\<close>

record ShellTranscriptReviewClosure =
  rc_State :: ReviewClosureState
  rc_Scope :: TranscriptSource
  rc_HasReview :: bool
  rc_HasUnreadNewerEvidence :: bool
  rc_ReviewedUpToSequence :: int
  rc_OldestUnreviewedSequence :: int
  rc_NewestRetainedSequence :: int
  rc_UnreviewedRetainedCount :: int
  rc_RetentionLimit :: int
  rc_RetainedChunkCount :: int
  rc_DroppedChunkCount :: int

definition deriveTranscriptReviewClosureFromLatest ::
  "ShellTranscriptReviewSummary option \<Rightarrow> TranscriptSource \<Rightarrow> int \<Rightarrow> TranscriptSummary \<Rightarrow>
     ShellTranscriptReviewClosure" where
  "deriveTranscriptReviewClosureFromLatest latest requestedScope newestForScope y =
     (let closure = \<lparr>rc_State = TranscriptReviewClosureNone, rc_Scope = requestedScope, rc_HasReview = False,
            rc_HasUnreadNewerEvidence = False, rc_ReviewedUpToSequence = 0, rc_OldestUnreviewedSequence = 0,
            rc_NewestRetainedSequence = (if newestForScope = 0 then ts_NewestSequenceNo y else newestForScope),
            rc_UnreviewedRetainedCount = 0, rc_RetentionLimit = ts_RetentionLimit y,
            rc_RetainedChunkCount = ts_RetainedChunks y, rc_DroppedChunkCount = ts_DroppedChunks y\<rparr> in
      case latest of
        None \<Rightarrow> closure
      | Some r \<Rightarrow>
        let scope = (if scoped requestedScope then requestedScope else rs_SourceFilter r);
            newest = (if newestForScope = 0 then rs_NewestRetainedSequence r else newestForScope);
            unread = newest > rs_ReviewedUpToSequence r in
        closure\<lparr>rc_Scope := scope, rc_HasReview := True,
          rc_ReviewedUpToSequence := rs_ReviewedUpToSequence r, rc_NewestRetainedSequence := newest,
          rc_HasUnreadNewerEvidence := unread,
          rc_OldestUnreviewedSequence := (if unread then rs_ReviewedUpToSequence r + 1 else 0),
          rc_UnreviewedRetainedCount := (if unread then newest - rs_ReviewedUpToSequence r else 0),
          rc_State := deriveTranscriptReviewClosureState scope unread\<rparr>)"

definition latestShellTranscriptReviewForRead ::
  "ShellDb \<Rightarrow> TaskID \<Rightarrow> string \<Rightarrow> TranscriptSource \<Rightarrow> TranscriptSummary \<Rightarrow>
     go_error + (ShellTranscriptReviewSummary \<times> int) option" where
  "latestShellTranscriptReviewForRead d t s src y =
     rbnd (if \<not> scoped src then shell_LatestTranscriptReviewAnyScope t (TrimSpace s) d
       else rbnd (shell_LatestTranscriptReview t (TrimSpace s) src d) (\<lambda>review.
         case review of
           None \<Rightarrow> shell_LatestTranscriptReview t (TrimSpace s) any_source d
         | Some r \<Rightarrow> Inr (Some r))) (\<lambda>review.
     case review of
       None \<Rightarrow> Inr None
     | Some r \<Rightarrow>
       let scope = (if scoped src then src else tv_SourceFilter r) in
       rbnd (if scoped scope then latestShellTranscriptSequenceForSource d t s scope else Inr 0) (\<lambda>found.
       let newest = (if found > 0 then found else ts_NewestSequenceNo y) in
       Inr (Some (shellTranscriptReviewSummary r newest, newest))))"

definition parseTranscriptSourceFilter :: "string \<Rightarrow> go_error + TranscriptSource" where
  "parseTranscriptSourceFilter raw =
     (let s = TrimSpace raw in
      if s = [] then Inr any_source
      else (case source_of s of
              TranscriptSourceOther x \<Rightarrow> Inl (ErrMsg (''unsupported transcript source filter '' @ [CHR 0x22] @ s @ [CHR 0x22]))
            | src \<Rightarrow> Inr src))"

definition normalizeTranscriptReviewSummary :: "string \<Rightarrow> string" where
  "normalizeTranscriptReviewSummary raw = take 400 (TrimSpace raw)"

section \<open>Review progression\<close>

datatype ReviewProgressionState =
    operatorReviewProgressionNone
  | operatorReviewProgressionNoEvidence
  | operatorReviewProgressionEvidenceUnreviewed
  | operatorReviewProgressionGlobalCurrent
  | operatorReviewProgressionGlobalStale
  | operatorReviewProgressionSourceScopedCurrent
  | operatorReviewProgressionSourceScopedStale

primrec ReviewProgressionState_str :: "ReviewProgressionState \<Rightarrow> string" where
  "ReviewProgressionState_str operatorReviewProgressionNone = ''none''"
| "ReviewProgressionState_str operatorReviewProgressionNoEvidence = ''no_retained_evidence''"
| "ReviewProgressionState_str operatorReviewProgressionEvidenceUnreviewed = ''retained_evidence_unreviewed''"
| "ReviewProgressionState_str operatorReviewProgressionGlobalCurrent = ''global_review_current''"
| "ReviewProgressionState_str operatorReviewProgressionGlobalStale = ''global_review_stale''"
| "ReviewProgressionState_str operatorReviewProgressionSourceScopedCurrent = ''source_scoped_review_current''"
| "ReviewProgressionState_str operatorReviewProgressionSourceScopedStale = ''source_scoped_review_stale''"

record ReviewProgression =
  pg_State :: ReviewProgressionState
  pg_SessionID :: string
  pg_ReviewScope :: TranscriptSource
  pg_HasRetainedEvidence :: bool
  pg_HasReview :: bool
  pg_ReviewStale :: bool
  pg_ReviewedUpToSequence :: int
  pg_OldestUnreviewedSequence :: int
  pg_NewestRetainedSequence :: int
  pg_UnreviewedRetainedCount :: int
  pg_AcknowledgmentAdvisable :: bool
  pg_AcknowledgmentClass :: GapAckClass
  pg_TranscriptState :: TranscriptState
  pg_RetentionLimit :: int
  pg_RetainedChunkCount :: int
  pg_DroppedChunkCount :: int
  pg_Advisory :: string

definition reviewSessionLabel :: "string \<Rightarrow> string" where
  "reviewSessionLabel s = (if TrimSpace s = [] then ''latest'' else TrimSpace s)"

definition no_progression :: ReviewProgression where
  "no_progression = \<lparr>pg_State = operatorReviewProgressionNone, pg_SessionID = [], pg_ReviewScope = any_source,
     pg_HasRetainedEvidence = False, pg_HasReview = False, pg_ReviewStale = False,
     pg_ReviewedUpToSequence = 0, pg_OldestUnreviewedSequence = 0, pg_NewestRetainedSequence = 0,
     pg_UnreviewedRetainedCount = 0, pg_AcknowledgmentAdvisable = False,
     pg_AcknowledgmentClass = GapAckClassOther [], pg_TranscriptState = TranscriptStateOther [],
     pg_RetentionLimit = 0, pg_RetainedChunkCount = 0, pg_DroppedChunkCount = 0, pg_Advisory = []\<rparr>"

definition unreviewed_count :: "TranscriptView \<Rightarrow> int \<Rightarrow> int" where
  "unreviewed_count v oldest =
     (let n = (if vw_NewestSequence v \<ge> oldest then vw_NewestSequence v - oldest + 1 else 0);
          m = (if n \<le> 0 then vw_ReviewNewer v else n) in
      if m \<le> 0 then 1 else m)"

definition deriveOperatorReviewProgressionFromSession :: "TranscriptView \<Rightarrow> ReviewProgression" where
  "deriveOperatorReviewProgressionFromSession v =
     (let s = TrimSpace (view_session v);
          out = no_progression\<lparr>pg_State := operatorReviewProgressionNoEvidence, pg_SessionID := s,
            pg_ReviewScope := vw_ReviewSource v, pg_ReviewedUpToSequence := vw_ReviewedUpTo v,
            pg_NewestRetainedSequence := vw_NewestSequence v, pg_TranscriptState := vw_TranscriptState v,
            pg_RetentionLimit := vw_RetentionLimit v, pg_RetainedChunkCount := vw_RetainedChunks v,
            pg_DroppedChunkCount := vw_DroppedChunks v\<rparr> in
      if vw_RetainedChunks v \<le> 0 then out
      else if vw_ReviewedUpTo v \<le> 0 \<or> TrimSpace (vw_ReviewID v) = []
      then out\<lparr>pg_HasRetainedEvidence := True, pg_State := operatorReviewProgressionEvidenceUnreviewed,
        pg_AcknowledgmentAdvisable := True, pg_AcknowledgmentClass := GapAckMissingReviewMarker,
        pg_Advisory := ''Retained transcript evidence exists for shell session '' @ reviewSessionLabel s
          @ '' and has not been operator-reviewed yet. Review recent retained evidence before progressing.''\<rparr>
      else
        let stale = vw_ReviewStale v \<or> vw_NewestSequence v > vw_ReviewedUpTo v;
            oldest = (if vw_ReviewOldestUnreviewed v \<le> 0 then vw_ReviewedUpTo v + 1 else vw_ReviewOldestUnreviewed v);
            scope = TrimSpace (TranscriptSource_str (vw_ReviewSource v));
            out' = out\<lparr>pg_HasRetainedEvidence := True, pg_HasReview := True, pg_ReviewStale := stale,
              pg_OldestUnreviewedSequence := (if stale then oldest else 0),
              pg_UnreviewedRetainedCount := (if stale then unreviewed_count v oldest else 0)\<rparr> in
        if scope = []
        then (if stale
          then out'\<lparr>pg_State := operatorReviewProgressionGlobalStale, pg_AcknowledgmentAdvisable := True,
            pg_AcknowledgmentClass := GapAckStaleReview,
            pg_Advisory := ''Transcript review is stale for shell session '' @ reviewSessionLabel s
              @ ''; newer retained evidence starts at sequence '' @ itoa oldest @ ''.''\<rparr>
          else out'\<lparr>pg_State := operatorReviewProgressionGlobalCurrent\<rparr>)
        else if stale
        then out'\<lparr>pg_State := operatorReviewProgressionSourceScopedStale, pg_AcknowledgmentAdvisable := True,
          pg_AcknowledgmentClass := GapAckSourceScopedStale,
          pg_Advisory := ''Latest transcript review for shell session '' @ reviewSessionLabel s
            @ '' is source-scoped ('' @ scope @ '') and stale; newer retained evidence starts at sequence ''
            @ itoa oldest @ ''.''\<rparr>
        else out'\<lparr>pg_State := operatorReviewProgressionSourceScopedCurrent, pg_AcknowledgmentAdvisable := True,
          pg_AcknowledgmentClass := GapAckSourceScopedOnly\<rparr>)"

fun latest_view :: "TranscriptView \<Rightarrow> TranscriptView list \<Rightarrow> TranscriptView" where
  "latest_view v [] = v"
| "latest_view v (u # us) =
     latest_view (if ss_LastUpdatedAt (sv_Record u) > ss_LastUpdatedAt (sv_Record v) then u else v) us"

definition deriveOperatorReviewProgressionFromSessions :: "TranscriptView list \<Rightarrow> ReviewProgression" where
  "deriveOperatorReviewProgressionFromSessions sessions =
     (case sessions of
        [] \<Rightarrow> no_progression
      | v # vs \<Rightarrow> deriveOperatorReviewProgressionFromSession (latest_view v vs))"

definition deriveOperatorReviewProgressionForSessionID ::
  "TranscriptView list \<Rightarrow> string \<Rightarrow> go_error + ReviewProgression" where
  "deriveOperatorReviewProgressionForSessionID sessions sid0 =
     (let sid = TrimSpace sid0 in
      if sid = [] then Inr (deriveOperatorReviewProgressionFromSessions sessions)
      else (case find (\<lambda>v. TrimSpace (view_session v) = sid) sessions of
              Some v \<Rightarrow> Inr (deriveOperatorReviewProgressionFromSession v)
            | None \<Rightarrow> Inl (ErrMsg (''shell session '' @ sid
                @ '' is not available for transcript review-gap acknowledgment''))))"

definition appendOperatorSentence :: "string \<Rightarrow> string \<Rightarrow> string" where
  "appendOperatorSentence base0 addition0 =
     (let base = TrimSpace base0; addition = TrimSpace addition0 in
      if addition = [] then base
      else if base = [] then addition
      else if str_contains base addition then base
      else if suffix ''.'' base then base @ '' '' @ addition
      else base @ ''. '' @ addition)"

definition reviewProgressionIntegrityNote :: "ReviewProgression \<Rightarrow> string" where
  "reviewProgressionIntegrityNote p =
     (if pg_State p = operatorReviewProgressionEvidenceUnreviewed
      then ''Retained transcript evidence has no review marker yet; progression guidance remains advisory and evidence-bounded.''
      else if pg_State p \<in> {operatorReviewProgressionGlobalStale, operatorReviewProgressionSourceScopedStale}
      then ''Transcript review is behind retained evidence (oldest unreviewed sequence ''
        @ itoa (pg_OldestUnreviewedSequence p) @ '').''
      else [])"

definition reviewProgressionScopeIntegrityNote :: "ReviewProgression \<Rightarrow> string" where
  "reviewProgressionScopeIntegrityNote p =
     (if pg_State p \<in> {operatorReviewProgressionSourceScopedCurrent, operatorReviewProgressionSourceScopedStale}
        \<and> scoped (pg_ReviewScope p)
      then ''Latest transcript review is source-scoped to '' @ TranscriptSource_str (pg_ReviewScope p)
        @ '' and does not certify other sources.''
      else [])"

definition reviewProgressionPlanReason :: "ReviewProgression \<Rightarrow> string" where
  "reviewProgressionPlanReason p =
     (if pg_State p = operatorReviewProgressionEvidenceUnreviewed
      then ''Retained transcript evidence is unreviewed; proceed with explicit operator awareness.''
      else if pg_State p \<in> {operatorReviewProgressionGlobalStale, operatorReviewProgressionSourceScopedStale}
      then (if pg_OldestUnreviewedSequence p > 0
        then ''Newer retained transcript evidence exists starting at sequence ''
          @ itoa (pg_OldestUnreviewedSequence p) @ ''; review awareness is recommended while progressing.''
        else ''Newer retained transcript evidence exists beyond the latest review boundary; review awareness is recommended while progressing.'')
      else [])"

definition append_note :: "string \<Rightarrow> string \<Rightarrow> string" where
  "append_note base note = (if note \<noteq> [] then appendOperatorSentence base note else base)"

definition applyReviewProgressionToOperatorDecision ::
  "ReviewProgression \<Rightarrow> OperatorDecisionSummary \<Rightarrow> OperatorDecisionSummary" where
  "applyReviewProgressionToOperatorDecision p y =
     y\<lparr>od_Guidance := append_note (od_Guidance y) (pg_Advisory p),
       od_IntegrityNote := append_note (append_note (od_IntegrityNote y) (reviewProgressionIntegrityNote p))
         (reviewProgressionScopeIntegrityNote p)\<rparr>"

definition on_primary :: "(string \<Rightarrow> string) \<Rightarrow> OperatorExecutionPlan \<Rightarrow> OperatorExecutionPlan" where
  "on_primary f y = y\<lparr>ep_PrimaryStep := map_option (\<lambda>s. s\<lparr>es_Reason := f (es_Reason s)\<rparr>) (ep_PrimaryStep y)\<rparr>"

definition applyReviewProgressionToOperatorExecutionPlan ::
  "ReviewProgression \<Rightarrow> OperatorExecutionPlan \<Rightarrow> OperatorExecutionPlan" where
  "applyReviewProgressionToOperatorExecutionPlan p y =
     on_primary (\<lambda>reason. append_note reason (reviewProgressionPlanReason p)) y"

section \<open>What a review leaves uncovered\<close>

lemma summary_newest:
  assumes "transcript_ok t s d" and "session_chunks t s d \<noteq> []"
  shows "ts_NewestSequenceNo (summary_of t s n d) = dropped_of t s d + int (length (session_chunks t s d))"
proof -
  let ?cs = "session_chunks t s d"
  have num: "numbered (dropped_of t s d) ?cs" using assms(1) by (simp add: transcript_ok_def)
  note bounds = bounds_last(2)[OF num assms(2)]
  obtain c r where desc: "order_desc tc_SequenceNo ?cs = c # r"
    using assms(2) by (cases "order_desc tc_SequenceNo ?cs") simp_all
  show ?thesis
  proof (cases "tbl_get meta_key (t, s) (sx_metas d)")
    case None
    then show ?thesis using desc bounds assms(2) by (simp add: summary_of_def Let_def empty_summary_def)
  next
    case (Some m)
    then have "tm_RetainedChunks m > 0" using assms(1) by (simp add: transcript_ok_def)
    then show ?thesis using Some bounds by (simp add: summary_of_def Let_def empty_summary_def)
  qed
qed

lemma numbered_beyond:
  assumes "numbered k cs"
  shows "int (length (filter (\<lambda>c. u < tc_SequenceNo c) cs)) + max 0 (min (k + int (length cs)) k - u)
    = max 0 (k + int (length cs) - u)"
  using assms
proof (induction cs rule: rev_induct)
  case (snoc x xs)
  have num: "numbered k xs" "tc_SequenceNo x = k + 1 + int (length xs)"
    using snoc.prems numbered_append[of k xs "[x]"] by (auto simp: numbered_nth)
  then show ?case using snoc.IH by auto
qed simp

text \<open>
  (functional) A review without a source filter: what is reported as newer retained evidence
  is the number of retained chunks above the reviewed number plus the chunks above it that were
  already pruned, so after pruning past the review the count exceeds what is retained.
\<close>
theorem newer_count_includes_pruned:
  "(let d = appended calls; cs = session_chunks t s d in
    if cs = [] then True
    else rs_NewerRetainedCount (shellTranscriptReviewSummary r (ts_NewestSequenceNo (summary_of t s n d))) =
      int (length (filter (\<lambda>c. tv_ReviewedUpToSequence r < tc_SequenceNo c) cs))
      + max 0 (dropped_of t s d - tv_ReviewedUpToSequence r))"
proof (cases "session_chunks t s (appended calls) = []")
  case True
  then show ?thesis by (simp add: Let_def)
next
  case False
  let ?d = "appended calls"
  let ?cs = "session_chunks t s ?d"
  have tok: "transcript_ok t s ?d" using appended_ok[of calls] by (simp add: shell_ok_def)
  then have num: "numbered (dropped_of t s ?d) ?cs" by (simp add: transcript_ok_def)
  have newest: "ts_NewestSequenceNo (summary_of t s n ?d) = dropped_of t s ?d + int (length ?cs)"
    by (rule summary_newest[OF tok False])
  have "0 \<le> dropped_of t s ?d" by (rule dropped_nonneg[OF tok])
  moreover have "0 < int (length ?cs)" using False by simp
  ultimately have "ts_NewestSequenceNo (summary_of t s n ?d) \<noteq> 0" unfolding newest by linarith
  then have "rs_NewerRetainedCount (shellTranscriptReviewSummary r (ts_NewestSequenceNo (summary_of t s n ?d)))
      = max 0 (dropped_of t s ?d + int (length ?cs) - tv_ReviewedUpToSequence r)"
    by (simp add: shellTranscriptReviewSummary_def Let_def newest)
  then show ?thesis
    using numbered_beyond[OF num, of "tv_ReviewedUpToSequence r"] False by (simp add: Let_def)
qed

text \<open>
  (functional) Two reviews of the same source, of which no chunk is retained any more: the
  newer review is compared with the newest number of any source, the older one with the number
  it recorded itself.
\<close>
theorem pruned_source_reviews_disagree:
  "(case review_history (\<lambda>_. Inr 0) overall [] [r\<lparr>tv_SourceFilter := TranscriptSourceFallback\<rparr>,
        r'\<lparr>tv_SourceFilter := TranscriptSourceFallback\<rparr>] of
      Inl e \<Rightarrow> False
    | Inr ys \<Rightarrow> map rs_NewestRetainedSequence ys =
        [if overall = 0 then tv_NewestRetainedSequence r else overall, tv_NewestRetainedSequence r'])"
  by (simp add: shellTranscriptReviewSummary_def Let_def scoped_def)

end
