(* ===== verification/ShellOps.thy ===== *)
theory ShellOps
  imports Calculus Reviews
begin

text \<open>
  The coordinator's operations on shell sessions (internal/orchestrator/shell_sessions.go,
  shell_lifecycle.go, shell_session_events.go, shell_session_transcripts.go, shell_transcript.go,
  operator_review_acknowledgment.go). The session store writes outside the transactions: each
  call is one write, and what was written before an error stays.
\<close>

section \<open>The session store\<close>

definition shell_read :: "(ShellDb \<Rightarrow> go_error + 'a) \<Rightarrow> 'a op" where
  "shell_read f = (\<lambda>w. (f (w_shell w), w))"

definition shell_write :: "Deps \<Rightarrow> (Wall \<Rightarrow> ShellDb \<Rightarrow> (go_error + 'a) \<times> ShellDb) \<Rightarrow> 'a op" where
  "shell_write E f = (\<lambda>w. case f (d_wall E (w_tick w)) (w_shell w) of (r, d) \<Rightarrow>
     (r, w\<lparr>w_shell := d, w_tick := Suc (w_tick w)\<rparr>))"

definition records_of :: "TaskID \<Rightarrow> SessionRecord list op" where
  "records_of t = gets (\<lambda>w. sessions_ListByTask t (w_sessions w))"

definition loadShellSessionRecord :: "TaskID \<Rightarrow> string \<Rightarrow> SessionRecord op" where
  "loadShellSessionRecord t s = bnd (records_of t) (\<lambda>records.
     case find (\<lambda>r. ss_SessionID r = s) records of
       Some r \<Rightarrow> ret r
     | None \<Rightarrow> throw (ErrMsg (''shell session '' @ s @ '' not found for task '' @ t @ '' after upsert'')))"

definition classifiedShellSessions :: "Deps \<Rightarrow> TaskID \<Rightarrow> TranscriptView list op" where
  "classifiedShellSessions E t = bnd (records_of t) (\<lambda>records.
     bnd (clock E) (\<lambda>now.
     shell_read (\<lambda>d. classifiedShellSessionsFromRecords d now (d_staleAfter E) t records)))"

definition appendShellSessionEvent :: "Deps \<Rightarrow> SessionEvent \<Rightarrow> unit op" where
  "appendShellSessionEvent E e0 =
     bnd (if se_EventID e0 = [] then idGenerator E ''sev'' else ret (se_EventID e0)) (\<lambda>eid.
     let wid = TrimSpace (se_WorkerSessionID e0);
         e = e0\<lparr>se_EventID := eid, se_SessionID := TrimSpace (se_SessionID e0),
           se_HostMode := TrimSpace (se_HostMode e0), se_HostState := TrimSpace (se_HostState e0),
           se_WorkerSessionID := wid,
           se_WorkerSessionIDSource := normalizeWorkerSessionIDSource (se_WorkerSessionIDSource e0) wid,
           se_Note := TrimSpace (se_Note e0),
           se_AttachCapability := (if AttachCapability_str (se_AttachCapability e0) = []
             then AttachCapabilityNone else se_AttachCapability e0)\<rparr> in
     bnd (if is_zero_time (se_CreatedAt e) then clock E else ret (se_CreatedAt e)) (\<lambda>at.
     shell_write E (\<lambda>W. shell_AppendEvent W (e\<lparr>se_CreatedAt := at\<rparr>))))"

section \<open>Requests for one session\<close>

text \<open>The checks every request opens with: the ids, trimmed, then the capsule.\<close>

definition with_session :: "string \<Rightarrow> string \<Rightarrow> (TaskID \<Rightarrow> string \<Rightarrow> 'a op) \<Rightarrow> 'a op" where
  "with_session t0 s0 f =
     (let t = TrimSpace t0; s = TrimSpace s0 in
      if t = [] then throw (ErrMsg ''task id is required'')
      else if s = [] then throw (ErrMsg ''session id is required'')
      else f t s)"

record ReportShellSessionRequest =
  sr_TaskID :: string
  sr_SessionID :: string
  sr_WorkerPreference :: string
  sr_ResolvedWorker :: string
  sr_WorkerSessionID :: string
  sr_WorkerSessionIDSource :: WorkerSessionIDSource
  sr_AttachCapability :: AttachCapability
  sr_HostMode :: string
  sr_HostState :: string
  sr_StartedAt :: go_time
  sr_Active :: bool
  sr_Note :: string

definition reported_record :: "ReportShellSessionRequest \<Rightarrow> TaskID \<Rightarrow> string \<Rightarrow> go_time \<Rightarrow> SessionRecord" where
  "reported_record q t s now =
     \<lparr>ss_TaskID = t, ss_SessionID = s, ss_WorkerPreference = TrimSpace (sr_WorkerPreference q),
      ss_ResolvedWorker = TrimSpace (sr_ResolvedWorker q),
      ss_WorkerSessionID = TrimSpace (sr_WorkerSessionID q),
      ss_WorkerSessionIDSource =
        normalizeWorkerSessionIDSource (sr_WorkerSessionIDSource q) (TrimSpace (sr_WorkerSessionID q)),
      ss_AttachCapability = normalizeAttachCapability (sr_AttachCapability q),
      ss_HostMode = TrimSpace (sr_HostMode q), ss_HostState = TrimSpace (sr_HostState q),
      ss_StartedAt = sr_StartedAt q, ss_LastUpdatedAt = now, ss_Active = sr_Active q,
      ss_Note = TrimSpace (sr_Note q)\<rparr>"

definition reported_event :: "TaskID \<Rightarrow> string \<Rightarrow> SessionRecord \<Rightarrow> go_time \<Rightarrow> SessionEvent" where
  "reported_event t s r now =
     \<lparr>se_EventID = [], se_TaskID = t, se_SessionID = s, se_Kind = EventKindSessionReported,
      se_HostMode = ss_HostMode r, se_HostState = ss_HostState r,
      se_WorkerSessionID = ss_WorkerSessionID r, se_WorkerSessionIDSource = ss_WorkerSessionIDSource r,
      se_AttachCapability = ss_AttachCapability r, se_Active = ss_Active r, se_InputLive = ss_Active r,
      se_ExitCode = None, se_PaneWidth = 0, se_PaneHeight = 0, se_Note = ss_Note r, se_CreatedAt = now\<rparr>"

definition ReportShellSession :: "Deps \<Rightarrow> ReportShellSessionRequest \<Rightarrow> TranscriptView op" where
  "ReportShellSession E q = with_session (sr_TaskID q) (sr_SessionID q) (\<lambda>t s.
     bnd (db_read (capsules_Get t)) (\<lambda>caps.
     bnd (clock E) (\<lambda>now.
     seq (modify (\<lambda>w. w\<lparr>w_sessions := sessions_Upsert (reported_record q t s now) (w_sessions w)\<rparr>))
     (bnd (loadShellSessionRecord t s) (\<lambda>r.
     seq (appendShellSessionEvent E (reported_event t s r now))
     (shell_read (\<lambda>d. reviewed_view d t (enrich_view (shell_ListEvents t s 1 d)
        (bare_view (classifyShellSession r now (d_staleAfter E)))))))))))"

definition ListShellSessions :: "Deps \<Rightarrow> string \<Rightarrow> TranscriptView list op" where
  "ListShellSessions E t0 =
     (let t = TrimSpace t0 in
      if t = [] then throw (ErrMsg ''task id is required'')
      else bnd (db_read (capsules_Get t)) (\<lambda>caps. classifiedShellSessions E t))"

section \<open>Lifecycle events\<close>

datatype ShellLifecycleKind =
    ShellLifecycleHostStarted
  | ShellLifecycleHostExited
  | ShellLifecycleFallback
  | ShellLifecycleReattachRequested
  | ShellLifecycleReattachFailed
  | ShellLifecycleOther string

fun shellLifecycleEventType :: "ShellLifecycleKind \<Rightarrow> go_error + EventType" where
  "shellLifecycleEventType ShellLifecycleHostStarted = Inr EventShellHostStarted"
| "shellLifecycleEventType ShellLifecycleHostExited = Inr EventShellHostExited"
| "shellLifecycleEventType ShellLifecycleFallback = Inr EventShellFallbackActivated"
| "shellLifecycleEventType ShellLifecycleReattachRequested = Inr EventShellReattachRequested"
| "shellLifecycleEventType ShellLifecycleReattachFailed = Inr EventShellReattachFailed"
| "shellLifecycleEventType (ShellLifecycleOther s) = Inl (ErrMsg (''unsupported shell lifecycle kind: '' @ s))"

fun shellLifecycleEventKind :: "ShellLifecycleKind \<Rightarrow> SessionEventKind" where
  "shellLifecycleEventKind ShellLifecycleHostStarted = EventKindHostStarted"
| "shellLifecycleEventKind ShellLifecycleHostExited = EventKindHostExited"
| "shellLifecycleEventKind ShellLifecycleFallback = EventKindFallbackActivated"
| "shellLifecycleEventKind ShellLifecycleReattachRequested = EventKindReattachRequested"
| "shellLifecycleEventKind ShellLifecycleReattachFailed = EventKindReattachFailed"
| "shellLifecycleEventKind (ShellLifecycleOther s) = EventKindSessionReported"

record RecordShellLifecycleRequest =
  lf_TaskID :: string
  lf_SessionID :: string
  lf_Kind :: ShellLifecycleKind
  lf_HostMode :: string
  lf_HostState :: string
  lf_WorkerSessionID :: string
  lf_WorkerSessionIDSource :: WorkerSessionIDSource
  lf_AttachCapability :: AttachCapability
  lf_Note :: string
  lf_InputLive :: bool
  lf_ExitCode :: "int option"
  lf_PaneWidth :: int
  lf_PaneHeight :: int

definition lifecycle_payload :: "RecordShellLifecycleRequest \<Rightarrow> (string \<times> pval) list" where
  "lifecycle_payload q =
     (let wid = TrimSpace (lf_WorkerSessionID q);
          source = normalizeWorkerSessionIDSource (lf_WorkerSessionIDSource q) wid;
          attach = normalizeAttachCapability (lf_AttachCapability q);
          note = TrimSpace (lf_Note q) in
      [(''session_id'', PStr (lf_SessionID q)), (''host_mode'', PStr (lf_HostMode q)),
       (''host_state'', PStr (lf_HostState q)), (''input_live'', PBool (lf_InputLive q))]
      @ (if wid \<noteq> [] then [(''worker_session_id'', PStr wid)] else [])
      @ (if source \<noteq> WorkerSessionIDSourceNone
         then [(''worker_session_id_source'', PStr (WorkerSessionIDSource_str source))] else [])
      @ (if attach \<noteq> AttachCapabilityNone
         then [(''attach_capability'', PStr (AttachCapability_str attach))] else [])
      @ (if note \<noteq> [] then [(''note'', PStr note)] else [])
      @ (case lf_ExitCode q of None \<Rightarrow> [] | Some c \<Rightarrow> [(''exit_code'', PInt c)])
      @ (if lf_PaneWidth q > 0 then [(''pane_width'', PInt (lf_PaneWidth q))] else [])
      @ (if lf_PaneHeight q > 0 then [(''pane_height'', PInt (lf_PaneHeight q))] else []))"

text \<open>The zero record stands for a session that was never reported.\<close>

definition unknown_session :: SessionRecord where
  "unknown_session = \<lparr>ss_TaskID = [], ss_SessionID = [], ss_WorkerPreference = [], ss_ResolvedWorker = [],
     ss_WorkerSessionID = [], ss_WorkerSessionIDSource = WorkerSessionIDSourceOther [],
     ss_AttachCapability = AttachCapabilityOther [], ss_HostMode = [], ss_HostState = [],
     ss_StartedAt = 0, ss_LastUpdatedAt = 0, ss_Active = False, ss_Note = []\<rparr>"

definition lifecycle_event ::
  "RecordShellLifecycleRequest \<Rightarrow> TaskID \<Rightarrow> SessionRecord \<Rightarrow> go_time \<Rightarrow> SessionEvent" where
  "lifecycle_event q t r now =
     (let asked = TrimSpace (lf_WorkerSessionID q);
          wid = (if asked = [] then ss_WorkerSessionID r else asked) in
      \<lparr>se_EventID = [], se_TaskID = t, se_SessionID = TrimSpace (lf_SessionID q),
       se_Kind = shellLifecycleEventKind (lf_Kind q), se_HostMode = TrimSpace (lf_HostMode q),
       se_HostState = TrimSpace (lf_HostState q), se_WorkerSessionID = wid,
       se_WorkerSessionIDSource = normalizeWorkerSessionIDSource
         (if asked = [] then ss_WorkerSessionIDSource r else lf_WorkerSessionIDSource q) wid,
       se_AttachCapability = (if normalizeAttachCapability (lf_AttachCapability q) = AttachCapabilityNone
         then ss_AttachCapability r else normalizeAttachCapability (lf_AttachCapability q)),
       se_Active = ss_Active r, se_InputLive = lf_InputLive q, se_ExitCode = lf_ExitCode q,
       se_PaneWidth = lf_PaneWidth q, se_PaneHeight = lf_PaneHeight q, se_Note = TrimSpace (lf_Note q),
       se_CreatedAt = now\<rparr>)"

definition RecordShellLifecycle :: "Deps \<Rightarrow> RecordShellLifecycleRequest \<Rightarrow> TaskID op" where
  "RecordShellLifecycle E q = with_session (lf_TaskID q) (lf_SessionID q) (\<lambda>t s.
     bnd (db_read (capsules_Get t)) (\<lambda>caps.
     bnd (lift_res (shellLifecycleEventType (lf_Kind q))) (\<lambda>typ'.
     seq (appendProof E caps typ' ActorSystem ''tuku-shell'' (lifecycle_payload q) None)
     (bnd (attempt (loadShellSessionRecord t s)) (\<lambda>loaded.
     let r = (case loaded of Inl e \<Rightarrow> unknown_session | Inr x \<Rightarrow> x) in
     bnd (clock E) (\<lambda>now.
     seq (appendShellSessionEvent E (lifecycle_event q t r now)) (ret t)))))))"

section \<open>Transcripts\<close>

record RecordShellTranscriptChunk =
  rk_Source :: TranscriptSource
  rk_Content :: string
  rk_CreatedAt :: go_time

definition recorded_chunks ::
  "TaskID \<Rightarrow> string \<Rightarrow> RecordShellTranscriptChunk list \<Rightarrow> TranscriptChunk list" where
  "recorded_chunks t s cs =
     map (\<lambda>c. \<lparr>tc_ChunkID = [], tc_TaskID = t, tc_SessionID = s, tc_SequenceNo = 0,
         tc_Source = rk_Source c, tc_Content = TrimSpace (rk_Content c), tc_CreatedAt = rk_CreatedAt c\<rparr>)
       (filter (\<lambda>c. TrimSpace (rk_Content c) \<noteq> []) cs)"

definition RecordShellTranscript ::
  "Deps \<Rightarrow> string \<Rightarrow> string \<Rightarrow> RecordShellTranscriptChunk list \<Rightarrow> TranscriptSummary op" where
  "RecordShellTranscript E t0 s0 cs = with_session t0 s0 (\<lambda>t s.
     bnd (db_read (capsules_Get t)) (\<lambda>caps.
     bnd (loadShellSessionRecord t s) (\<lambda>r.
     let normalized = recorded_chunks t s cs in
     if normalized = [] then shell_read (\<lambda>d. transcript_summary d t s)
     else shell_write E (\<lambda>W. shell_AppendTranscript W t (TrimSpace s) normalized DefaultTranscriptRetentionChunks))))"

record ReadShellTranscriptResult =
  rd_TranscriptState :: TranscriptState
  rd_TranscriptOnly :: bool
  rd_Partial :: bool
  rd_Summary :: TranscriptSummary
  rd_RequestedLimit :: int
  rd_RequestedBeforeSequence :: "int option"
  rd_RequestedSource :: TranscriptSource
  rd_PageOldestSequence :: int
  rd_PageNewestSequence :: int
  rd_PageChunkCount :: int
  rd_HasMoreOlder :: bool
  rd_NextBeforeSequence :: "int option"
  rd_LatestReview :: "ShellTranscriptReviewSummary option"
  rd_HasUnreadNewerEvidence :: bool
  rd_PageFullyReviewed :: bool
  rd_PageCrossesReview :: bool
  rd_PageHasUnreviewed :: bool
  rd_Closure :: ShellTranscriptReviewClosure
  rd_Chunks :: "TranscriptChunk list"

definition clamp_limit :: "int \<Rightarrow> int \<Rightarrow> int \<Rightarrow> int" where
  "clamp_limit dflt most n = (if n \<le> 0 then dflt else if n > most then most else n)"

definition summarised_view :: "SessionRecord \<Rightarrow> go_time \<Rightarrow> int \<Rightarrow> TranscriptSummary \<Rightarrow> TranscriptView" where
  "summarised_view r now staleAfter y =
     applyTranscriptSummaryToView y (bare_view (classifyShellSession r now staleAfter))"

definition page_result ::
  "TranscriptView \<Rightarrow> TranscriptSummary \<Rightarrow> int \<Rightarrow> int \<Rightarrow> TranscriptSource \<Rightarrow>
     TranscriptChunk list \<times> bool \<Rightarrow> (ShellTranscriptReviewSummary \<times> int) option \<Rightarrow> ReadShellTranscriptResult" where
  "page_result v y limit before src page review =
     (let chunks = fst page; further = snd page;
          oldest = (if chunks = [] then 0 else tc_SequenceNo (hd chunks));
          newest = (if chunks = [] then 0 else tc_SequenceNo (last chunks));
          mark = (case review of None \<Rightarrow> 0 | Some (r, n) \<Rightarrow> rs_ReviewedUpToSequence r);
          reviewed = (review \<noteq> None \<and> chunks \<noteq> []) in
      \<lparr>rd_TranscriptState = vw_TranscriptState v,
       rd_TranscriptOnly = isTranscriptOnlyMode (ss_HostMode (sv_Record v)) (ss_HostState (sv_Record v)),
       rd_Partial = (ts_DroppedChunks y > 0), rd_Summary = y, rd_RequestedLimit = limit,
       rd_RequestedBeforeSequence = (if before > 0 then Some before else None), rd_RequestedSource = src,
       rd_PageOldestSequence = oldest, rd_PageNewestSequence = newest,
       rd_PageChunkCount = int (length chunks), rd_HasMoreOlder = further,
       rd_NextBeforeSequence = (if chunks \<noteq> [] \<and> further then Some oldest else None),
       rd_LatestReview = map_option fst review,
       rd_HasUnreadNewerEvidence = (case review of None \<Rightarrow> False
         | Some (r, n) \<Rightarrow> rs_StaleBehindLatest r \<or> chunks \<noteq> [] \<and> n > rs_ReviewedUpToSequence r),
       rd_PageFullyReviewed = (reviewed \<and> newest \<le> mark),
       rd_PageCrossesReview = (reviewed \<and> oldest \<le> mark \<and> newest > mark),
       rd_PageHasUnreviewed = (reviewed \<and> newest > mark),
       rd_Closure = (case review of
           None \<Rightarrow> deriveTranscriptReviewClosureFromLatest None src (ts_NewestSequenceNo y) y
         | Some (r, n) \<Rightarrow> deriveTranscriptReviewClosureFromLatest (Some r) src n y),
       rd_Chunks = chunks\<rparr>)"

definition ReadShellTranscript ::
  "Deps \<Rightarrow> string \<Rightarrow> string \<Rightarrow> int \<Rightarrow> int \<Rightarrow> string \<Rightarrow> ReadShellTranscriptResult op" where
  "ReadShellTranscript E t0 s0 limit0 before source = with_session t0 s0 (\<lambda>t s.
     bnd (db_read (capsules_Get t)) (\<lambda>caps.
     bnd (loadShellSessionRecord t s) (\<lambda>r.
     let limit = clamp_limit 40 200 limit0 in
     bnd (lift_res (parseTranscriptSourceFilter (TrimSpace source))) (\<lambda>src.
     bnd (shell_read (\<lambda>d. transcript_summary d t s)) (\<lambda>y.
     bnd (clock E) (\<lambda>now.
     bnd (shell_read (shell_ListTranscriptPage t (TrimSpace s) before limit src)) (\<lambda>page.
     bnd (shell_read (\<lambda>d. latestShellTranscriptReviewForRead d t s src y)) (\<lambda>review.
     ret (page_result (summarised_view r now (d_staleAfter E) y) y limit before src page review)))))))))"

section \<open>Reviews\<close>

record RecordShellTranscriptReviewResult =
  rw_Stored :: TranscriptReview
  rw_LatestReview :: ShellTranscriptReviewSummary
  rw_Closure :: ShellTranscriptReviewClosure

definition review_payload :: "TranscriptReview \<Rightarrow> string \<Rightarrow> ShellTranscriptReviewSummary \<Rightarrow> (string \<times> pval) list" where
  "review_payload r s y =
     [(''review_id'', PStr (tv_ReviewID r)), (''session_id'', PStr s),
      (''source_filter'', PStr (TranscriptSource_str (tv_SourceFilter r))),
      (''reviewed_up_to_sequence'', PInt (tv_ReviewedUpToSequence r)), (''summary'', PStr (tv_Summary r)),
      (''transcript_state'', PStr (TranscriptState_str (tv_TranscriptState r))),
      (''retention_limit'', PInt (tv_RetentionLimit r)), (''retained_chunks'', PInt (tv_RetainedChunks r)),
      (''dropped_chunks'', PInt (tv_DroppedChunks r)),
      (''oldest_retained_sequence'', PInt (tv_OldestRetainedSequence r)),
      (''newest_retained_sequence'', PInt (tv_NewestRetainedSequence r)),
      (''newer_retained_evidence'', PBool (rs_StaleBehindLatest y)),
      (''newer_retained_chunk_count'', PInt (rs_NewerRetainedCount y))]"

text \<open>The reviewed number must be one of the retained chunks of the selected source.\<close>

definition check_reviewed :: "int \<Rightarrow> TranscriptSource \<Rightarrow> TranscriptChunk list \<Rightarrow> go_error option" where
  "check_reviewed mark src chunks =
     (if chunks = []
      then Some (ErrMsg (if scoped src
        then ''no retained transcript evidence exists for source '' @ TranscriptSource_str src
        else ''no retained transcript evidence exists for this shell session''))
      else if mark < tc_SequenceNo (hd chunks) \<or> mark > tc_SequenceNo (last chunks)
      then Some (ErrMsg (''reviewed sequence '' @ itoa mark @ '' is outside retained transcript window ''
        @ itoa (tc_SequenceNo (hd chunks)) @ ''-'' @ itoa (tc_SequenceNo (last chunks)) @ '' for selected scope''))
      else if \<not> list_ex (\<lambda>c. tc_SequenceNo c = mark) chunks
      then Some (ErrMsg (''reviewed sequence '' @ itoa mark
        @ '' is not present in retained transcript evidence for selected scope''))
      else None)"

definition RecordShellTranscriptReview ::
  "Deps \<Rightarrow> string \<Rightarrow> string \<Rightarrow> int \<Rightarrow> string \<Rightarrow> string \<Rightarrow> RecordShellTranscriptReviewResult op" where
  "RecordShellTranscriptReview E t0 s0 mark source summary = with_session t0 s0 (\<lambda>t s.
     if mark \<le> 0 then throw (ErrMsg ''reviewed sequence must be greater than zero'')
     else
     bnd (lift_res (parseTranscriptSourceFilter (TrimSpace source))) (\<lambda>src.
     bnd (db_read (capsules_Get t)) (\<lambda>caps.
     bnd (loadShellSessionRecord t s) (\<lambda>r.
     bnd (shell_read (\<lambda>d. transcript_summary d t s)) (\<lambda>y.
     if ts_RetainedChunks y \<le> 0
     then throw (ErrMsg ''no retained transcript evidence exists for this shell session'')
     else
     let limit = (if ts_RetentionLimit y \<le> 0 then DefaultTranscriptRetentionChunks else ts_RetentionLimit y);
         window = max limit (ts_RetainedChunks y) in
     bnd (shell_read (shell_ListTranscriptPage t (TrimSpace s) 0 (window + 1) src)) (\<lambda>page.
     case check_reviewed mark src (fst page) of
       Some e \<Rightarrow> throw e
     | None \<Rightarrow>
     bnd (clock E) (\<lambda>now.
     bnd (idGenerator E ''srev'') (\<lambda>rid.
     bnd (clock E) (\<lambda>at.
     bnd (shell_write E (\<lambda>W. shell_AppendTranscriptReview W
       \<lparr>tv_ReviewID = rid, tv_TaskID = t, tv_SessionID = s, tv_SourceFilter = src,
        tv_ReviewedUpToSequence = mark, tv_Summary = normalizeTranscriptReviewSummary summary,
        tv_TranscriptState = vw_TranscriptState (summarised_view r now (d_staleAfter E) y),
        tv_RetentionLimit = ts_RetentionLimit y, tv_RetainedChunks = ts_RetainedChunks y,
        tv_DroppedChunks = ts_DroppedChunks y, tv_OldestRetainedSequence = ts_OldestSequenceNo y,
        tv_NewestRetainedSequence = ts_NewestSequenceNo y, tv_CreatedAt = at\<rparr>)) (\<lambda>stored.
     let z = shellTranscriptReviewSummary stored (ts_NewestSequenceNo y) in
     seq (appendProof E caps EventTranscriptEvidenceReviewed ActorUser ''user'' (review_payload stored s z) None)
     (ret \<lparr>rw_Stored = stored, rw_LatestReview = z,
        rw_Closure = deriveTranscriptReviewClosureFromLatest (Some z) src (rs_NewestRetainedSequence z) y\<rparr>)))))))))))"

record ReadShellTranscriptReviewHistoryResult =
  rh_TranscriptState :: TranscriptState
  rh_Summary :: TranscriptSummary
  rh_RequestedLimit :: int
  rh_RequestedSource :: TranscriptSource
  rh_Closure :: ShellTranscriptReviewClosure
  rh_Reviews :: "ShellTranscriptReviewSummary list"

definition history_of ::
  "ShellDb \<Rightarrow> TaskID \<Rightarrow> string \<Rightarrow> TranscriptSource \<Rightarrow> TranscriptSummary \<Rightarrow> TranscriptReview list \<Rightarrow>
     go_error + ShellTranscriptReviewSummary list \<times> ShellTranscriptReviewClosure" where
  "history_of d t s src y reviews =
     (let lookup = latestShellTranscriptSequenceForSource d t s in
      rbnd (lookup src) (\<lambda>sourceNewest.
      let closureNewest = (if scoped src \<and> sourceNewest > 0 then sourceNewest else ts_NewestSequenceNo y) in
      if reviews = [] then Inr ([], deriveTranscriptReviewClosureFromLatest None src closureNewest y)
      else
      rbnd (review_history lookup (ts_NewestSequenceNo y) [] reviews) (\<lambda>ys.
      let latest = hd ys in
      rbnd (if \<not> scoped src \<and> scoped (rs_SourceFilter latest) then lookup (rs_SourceFilter latest) else Inr 0)
        (\<lambda>scopeNewest.
      Inr (ys, deriveTranscriptReviewClosureFromLatest (Some latest) src
        (if scopeNewest > 0 then scopeNewest else closureNewest) y)))))"

definition ReadShellTranscriptReviewHistory ::
  "Deps \<Rightarrow> string \<Rightarrow> string \<Rightarrow> string \<Rightarrow> int \<Rightarrow> ReadShellTranscriptReviewHistoryResult op" where
  "ReadShellTranscriptReviewHistory E t0 s0 source limit0 = with_session t0 s0 (\<lambda>t s.
     bnd (db_read (capsules_Get t)) (\<lambda>caps.
     bnd (loadShellSessionRecord t s) (\<lambda>r.
     bnd (lift_res (parseTranscriptSourceFilter (TrimSpace source))) (\<lambda>src.
     let limit = clamp_limit 10 100 limit0 in
     bnd (shell_read (\<lambda>d. transcript_summary d t s)) (\<lambda>y.
     bnd (clock E) (\<lambda>now.
     bnd (shell_read (\<lambda>d. if \<not> scoped src then shell_ListTranscriptReviewsAnyScope t (TrimSpace s) limit d
       else shell_ListTranscriptReviews t (TrimSpace s) src limit d)) (\<lambda>reviews.
     bnd (shell_read (\<lambda>d. history_of d t s src y reviews)) (\<lambda>(ys, closure).
     ret \<lparr>rh_TranscriptState = vw_TranscriptState (summarised_view r now (d_staleAfter E) y), rh_Summary = y,
       rh_RequestedLimit = limit, rh_RequestedSource = src, rh_Closure = closure, rh_Reviews = ys\<rparr>))))))))"

section \<open>Acknowledged gaps\<close>

record GapAckSummary = GapAck +
  gs_StaleBehindCurrent :: bool
  gs_NewerRetainedCount :: int

definition transcriptReviewGapAcknowledgmentSummary :: "GapAck \<Rightarrow> int \<Rightarrow> GapAckSummary" where
  "transcriptReviewGapAcknowledgmentSummary r currentNewest =
     (let newest = (if currentNewest \<le> 0 then ga_NewestRetainedSequence r else currentNewest);
          behind = newest > ga_NewestRetainedSequence r in
      GapAck.extend (r\<lparr>ga_Summary := TrimSpace (ga_Summary r)\<rparr>)
        (GapAckSummary.fields behind (if behind then newest - ga_NewestRetainedSequence r else 0)))"

definition parseTranscriptReviewGapAckClass :: "string \<Rightarrow> GapAckClass option" where
  "parseTranscriptReviewGapAckClass raw =
     (let s = TrimSpace raw in
      if s = [] then Some (GapAckClassOther [])
      else if s = ''missing_review_marker'' then Some GapAckMissingReviewMarker
      else if s = ''stale_review'' then Some GapAckStaleReview
      else if s = ''source_scoped_only'' then Some GapAckSourceScopedOnly
      else if s = ''source_scoped_stale'' then Some GapAckSourceScopedStale
      else None)"

definition normalizeTranscriptReviewGapAckActionContext :: "string \<Rightarrow> string" where
  "normalizeTranscriptReviewGapAckActionContext raw =
     (if TrimSpace raw = [] then ''operator_acknowledge_review_gap'' else TrimSpace raw)"

definition ack_payload :: "GapAck \<Rightarrow> (string \<times> pval) list" where
  "ack_payload a =
     [(''ack_id'', PStr (ga_AcknowledgmentID a)), (''session_id'', PStr (ga_SessionID a)),
      (''ack_class'', PStr (GapAckClass_str (ga_Class a))), (''review_state'', PStr (ga_ReviewState a)),
      (''review_scope'', PStr (TranscriptSource_str (ga_ReviewScope a))),
      (''reviewed_up_to_sequence'', PInt (ga_ReviewedUpToSequence a)),
      (''oldest_unreviewed_sequence'', PInt (ga_OldestUnreviewedSequence a)),
      (''newest_retained_sequence'', PInt (ga_NewestRetainedSequence a)),
      (''unreviewed_retained_count'', PInt (ga_UnreviewedRetainedCount a)),
      (''action_context'', PStr (ga_ActionContext a)), (''summary'', PStr (ga_Summary a))]"

definition check_gap :: "ReviewProgression \<Rightarrow> string \<Rightarrow> go_error option" where
  "check_gap p requested =
     (if \<not> pg_AcknowledgmentAdvisable p \<or> GapAckClass_str (pg_AcknowledgmentClass p) = []
      then Some (ErrMsg ''no transcript review gap acknowledgment is required for the current retained evidence posture'')
      else if TrimSpace (pg_SessionID p) = []
      then Some (ErrMsg ''no shell session is available for transcript review-gap acknowledgment'')
      else if TrimSpace requested \<noteq> []
        \<and> parseTranscriptReviewGapAckClass requested \<noteq> Some (pg_AcknowledgmentClass p)
      then Some (ErrMsg (''requested acknowledgment kind '' @ [CHR 0x22] @ TrimSpace requested @ [CHR 0x22]
        @ '' does not match current review-gap class '' @ GapAckClass_str (pg_AcknowledgmentClass p)))
      else None)"

definition ack_proof_tx :: "Deps \<Rightarrow> TaskID \<Rightarrow> GapAck \<Rightarrow> unit op" where
  "ack_proof_tx E t a = withTx (bnd (db_read (capsules_Get t)) (\<lambda>caps.
     appendProof E caps EventTranscriptReviewGapAcknowledged ActorUser ''user'' (ack_payload a) None))"

definition recordOperatorReviewGapAcknowledgmentFromProgression ::
  "Deps \<Rightarrow> TaskID \<Rightarrow> ReviewProgression \<Rightarrow> string \<Rightarrow> string \<Rightarrow> string \<Rightarrow> GapAck op" where
  "recordOperatorReviewGapAcknowledgmentFromProgression E t p requested summary context =
     (case check_gap p requested of
        Some e \<Rightarrow> throw e
      | None \<Rightarrow>
        bnd (idGenerator E ''sack'') (\<lambda>aid.
        bnd (clock E) (\<lambda>now.
        bnd (shell_write E (\<lambda>W. shell_AppendGapAck W
          \<lparr>ga_AcknowledgmentID = aid, ga_TaskID = t, ga_SessionID = TrimSpace (pg_SessionID p),
           ga_Class = pg_AcknowledgmentClass p, ga_ReviewState = ReviewProgressionState_str (pg_State p),
           ga_ReviewScope = pg_ReviewScope p, ga_ReviewedUpToSequence = pg_ReviewedUpToSequence p,
           ga_OldestUnreviewedSequence = pg_OldestUnreviewedSequence p,
           ga_NewestRetainedSequence = pg_NewestRetainedSequence p,
           ga_UnreviewedRetainedCount = pg_UnreviewedRetainedCount p,
           ga_TranscriptState = pg_TranscriptState p, ga_RetentionLimit = pg_RetentionLimit p,
           ga_RetainedChunks = pg_RetainedChunkCount p, ga_DroppedChunks = pg_DroppedChunkCount p,
           ga_ActionContext = normalizeTranscriptReviewGapAckActionContext context,
           ga_Summary = normalizeTranscriptReviewSummary summary, ga_CreatedAt = now\<rparr>)) (\<lambda>stored.
        seq (ack_proof_tx E t stored) (ret stored)))))"

record RecordGapAckResult =
  rg_Acknowledgment :: GapAckSummary
  rg_Progression :: ReviewProgression
  rg_Recent :: "GapAckSummary list"

definition RecordOperatorReviewGapAcknowledgment ::
  "Deps \<Rightarrow> string \<Rightarrow> string \<Rightarrow> string \<Rightarrow> string \<Rightarrow> string \<Rightarrow> RecordGapAckResult op" where
  "RecordOperatorReviewGapAcknowledgment E t0 s0 kind summary context =
     (let t = TrimSpace t0 in
      if t = [] then throw (ErrMsg ''task id is required'')
      else bnd (db_read (capsules_Get t)) (\<lambda>caps.
        bnd (classifiedShellSessions E t) (\<lambda>sessions.
        bnd (lift_res (deriveOperatorReviewProgressionForSessionID sessions (TrimSpace s0))) (\<lambda>p.
        bnd (recordOperatorReviewGapAcknowledgmentFromProgression E t p kind summary context) (\<lambda>stored.
        let newest = (if pg_NewestRetainedSequence p \<le> 0 then ga_NewestRetainedSequence stored
              else pg_NewestRetainedSequence p) in
        bnd (shell_read (shell_ListGapAcks t (TrimSpace (pg_SessionID p)) 5)) (\<lambda>recent.
        ret \<lparr>rg_Acknowledgment = transcriptReviewGapAcknowledgmentSummary stored newest, rg_Progression = p,
          rg_Recent = map (\<lambda>a. transcriptReviewGapAcknowledgmentSummary a newest) recent\<rparr>))))))"

text \<open>Acknowledgments of a task, each against the newest number of its session (0 if unknown).\<close>

definition reviewGapAcknowledgmentProjection ::
  "ShellDb \<Rightarrow> TaskID \<Rightarrow> TranscriptView list \<Rightarrow> int \<Rightarrow> go_error + GapAckSummary list" where
  "reviewGapAcknowledgmentProjection d t sessions limit =
     rbnd (shell_ListGapAcks t [] (clamp_limit 5 50 limit) d) (\<lambda>records.
     Inr (map (\<lambda>a. transcriptReviewGapAcknowledgmentSummary a
       (case find (\<lambda>v. TrimSpace (view_session v) = TrimSpace (ga_SessionID a)) (rev sessions) of
          None \<Rightarrow> 0 | Some v \<Rightarrow> vw_NewestSequence v)) records))"

section \<open>What a review may claim\<close>

lemma known_filters:
  "normalizeTranscriptSourceFilter any_source = Inr None"
  "normalizeTranscriptSourceFilter TranscriptSourceWorkerOutput = Inr (Some TranscriptSourceWorkerOutput)"
  "normalizeTranscriptSourceFilter TranscriptSourceSystemNote = Inr (Some TranscriptSourceSystemNote)"
  "normalizeTranscriptSourceFilter TranscriptSourceFallback = Inr (Some TranscriptSourceFallback)"
  by code_simp+

lemma parsed_filter:
  assumes "parseTranscriptSourceFilter raw = Inr src"
  shows "normalizeTranscriptSourceFilter src = Inr (if scoped src then Some src else None)"
proof -
  have "src = any_source \<or> src = TranscriptSourceWorkerOutput \<or> src = TranscriptSourceSystemNote
      \<or> src = TranscriptSourceFallback"
    using assms by (auto simp: parseTranscriptSourceFilter_def source_of_def Let_def split: if_splits)
  then show ?thesis by (auto simp: known_filters scoped_def)
qed

text \<open>The chunk of a number and source is still retained for the session.\<close>

definition retains :: "ShellDb \<Rightarrow> TaskID \<Rightarrow> string \<Rightarrow> TranscriptSource \<Rightarrow> int \<Rightarrow> bool" where
  "retains d t s src n = list_ex (\<lambda>c. tc_SequenceNo c = n \<and> (scoped src \<longrightarrow> tc_Source c = src)) (session_chunks t s d)"

lemma page_retained:
  assumes "shell_ListTranscriptPage t s before limit src d = Inr page"
    and "normalizeTranscriptSourceFilter src = Inr (if scoped src then Some src else None)"
    and "c \<in> set (fst page)"
  shows "retains d t (TrimSpace s) src (tc_SequenceNo c)"
  using assms
  by (auto simp: shell_ListTranscriptPage_def Let_def order_desc_def retains_def list_ex_iff
    split: option.splits if_splits dest!: in_set_takeD) blast+

lemma checked_mark: "check_reviewed n src cs = None \<Longrightarrow> \<exists>c \<in> set cs. tc_SequenceNo c = n"
  by (auto simp: check_reviewed_def list_ex_iff split: if_splits)

lemma review_stored:
  assumes "shell_AppendTranscriptReview W r d = (Inr r', d')"
  shows "sx_reviews d' = sx_reviews d @ [r'] \<and> sx_chunks d' = sx_chunks d
    \<and> tv_ReviewedUpToSequence r' = tv_ReviewedUpToSequence r"
  using assms
  by (auto simp: shell_AppendTranscriptReview_def Let_def tbl_insert_def split: option.splits if_splits)

lemma t_shell_read: "triple P (shell_read f) (\<lambda>a w. P w \<and> f (w_shell w) = Inr a)"
  by (rule tripleI) (auto simp: shell_read_def)

lemma t_same_shell:
  "frames same_shell m \<Longrightarrow> (\<And>w w'. P w \<Longrightarrow> w_shell w' = w_shell w \<Longrightarrow> P w') \<Longrightarrow> triple P m (\<lambda>_. P)"
  by (rule t_frame[where F = same_shell]) (auto simp: same_shell_def)

lemma shell_record: "frames same_shell (loadShellSessionRecord t s)"
  unfolding loadShellSessionRecord_def records_of_def by (intro shell_frames)

lemma t_shell_write:
  "triple (\<lambda>w. w_shell w = d) (shell_write E f) (\<lambda>a w. \<exists>n. f n d = (Inr a, w_shell w))"
  by (rule tripleI) (auto simp: shell_write_def split: prod.splits)

lemma review_outcome:
  "triple (\<lambda>w. w_shell w = d) (RecordShellTranscriptReview E t s n source note)
     (\<lambda>r w. tv_ReviewedUpToSequence (rw_Stored r) = n
        \<and> retains d (TrimSpace t) (TrimSpace s) (source_of (TrimSpace source)) n
        \<and> sx_reviews (w_shell w) = sx_reviews d @ [rw_Stored r] \<and> sx_chunks (w_shell w) = sx_chunks d)"
  (is "triple ?P _ ?Q")
proof -
  let ?t = "TrimSpace t" and ?s = "TrimSpace s"
  have src: "source_of (TrimSpace source) = src" if "parseTranscriptSourceFilter (TrimSpace source) = Inr src" for src
    using that by (auto simp: parseTranscriptSourceFilter_def Let_def source_of_def split: if_splits)
  have quiet: "triple ?P m (\<lambda>_. ?P)" if "frames same_shell m" for m :: "'x op"
    using that by (rule t_same_shell) simp
  show ?thesis
    unfolding RecordShellTranscriptReview_def with_session_def Let_def
    apply (rule t_if, rule t_throw, rule t_if, rule t_throw, rule t_if, rule t_throw)
    apply (rule t_bnd[where S = "\<lambda>src w. ?P w \<and> parseTranscriptSourceFilter (TrimSpace source) = Inr src"])
     apply (rule tripleI, (auto simp: lift_res_run)[1])
    subgoal for src
      apply (rule t_known[where C = "parseTranscriptSourceFilter (TrimSpace source) = Inr src"], simp)
      apply (rule t_pre[where P' = ?P])
       apply (rule t_bnd[OF quiet[OF shell_db_read]], rule t_bnd[OF quiet[OF shell_record]],
          rule t_bnd[OF t_shell_read])
       apply (rule t_if, rule t_throw)
       apply (rule t_bnd[OF t_shell_read])
      subgoal for caps r y page
        apply (rule t_option)
         prefer 2 apply (rule t_throw)
        apply (rule t_known[where C = "retains d ?t ?s src n"])
         apply (auto dest!: checked_mark dest: page_retained[OF _ parsed_filter])[1]
        apply (rule t_pre[where P' = ?P])
         apply (rule t_bnd[OF quiet[OF shell_clock]], rule t_bnd[OF quiet[OF shell_id]],
            rule t_bnd[OF quiet[OF shell_clock]], rule t_bnd[OF t_shell_write])
         apply (rule t_seq[OF t_same_shell[OF shell_proof]], simp)
         apply (rule tripleI, (auto simp: ret_run src dest!: review_stored)[1])
        apply simp
        done
      apply simp
      done
    done
qed

text \<open>
  C25. A transcript review that is recorded marks evidence which is there: a chunk with the reviewed
  number, of the selected source, is retained for the session, the review is the one row added
  to the reviews, and the transcript is left as it was.
\<close>

theorem review_marks_retained_evidence:
  "case RecordShellTranscriptReview E t s n source note w of
     (Inl e, w') \<Rightarrow> True
   | (Inr r, w') \<Rightarrow> tv_ReviewedUpToSequence (rw_Stored r) = n
       \<and> retains (w_shell w) (TrimSpace t) (TrimSpace s) (source_of (TrimSpace source)) n
       \<and> sx_reviews (w_shell w') = sx_reviews (w_shell w) @ [rw_Stored r]
       \<and> sx_chunks (w_shell w') = sx_chunks (w_shell w)"
  using tripleD[OF review_outcome refl] by (fastforce split: prod.splits sum.splits)

end
