(* ===== verification/Paging.thy ===== *)
theory Paging
  imports Tables
begin

text \<open>
  Reading a descending listing page by page: each page holds the newest rows below the last row
  of the page before, so the pages together are the listing.
\<close>

lemma order_desc_filter: "order_desc ord (filter P rows) = filter P (order_desc ord rows)"
  by (simp only: order_desc_def rev_filter filter_sort[symmetric])

lemma order_desc_length [simp]: "length (order_desc ord rows) = length rows"
  by (simp add: order_desc_def)

lemma order_desc_strict:
  assumes "distinct (map ord rows)"
  shows "sorted_wrt (\<lambda>x y. ord y < ord x) (order_desc ord rows)"
proof -
  have "distinct (map ord (sort_key ord (rev rows)))"
    using assms by (simp add: distinct_map)
  moreover have "sorted (map ord (sort_key ord (rev rows)))" by simp
  ultimately have "sorted_wrt (<) (map ord (sort_key ord (rev rows)))"
    using strict_sorted_iff by blast
  then show ?thesis by (simp add: order_desc_def sorted_wrt_rev sorted_wrt_map)
qed

lemma below_last:
  assumes "sorted_wrt (\<lambda>x y. ord y < (ord x :: 'o::linorder)) (xs @ x # ys)"
  shows "filter (\<lambda>r. ord r < ord x) (xs @ x # ys) = ys"
proof -
  have "\<forall>r \<in> set xs. ord x < ord r" and "\<forall>r \<in> set ys. ord r < ord x"
    using assms by (simp_all add: sorted_wrt_append)
  then show ?thesis by (auto simp: filter_empty_conv less_not_sym filter_id_conv)
qed

lemma next_page:
  assumes "sorted_wrt (\<lambda>x y. ord y < (ord x :: 'o::linorder)) rows" and "0 < n" and "n \<le> length rows"
  shows "filter (\<lambda>r. ord r < ord (last (take n rows))) rows = drop n rows"
proof -
  have ne: "take n rows \<noteq> []" using assms(2,3) by auto
  have rows: "rows = butlast (take n rows) @ last (take n rows) # drop n rows"
    using append_butlast_last_id[OF ne] by (metis append_Cons append_Nil append_assoc append_take_drop_id)
  show ?thesis using below_last[of ord "butlast (take n rows)" "last (take n rows)" "drop n rows"]
      assms(1) rows by simp
qed

text \<open>The rows on either side of a row, each cut after a bounded number.\<close>

lemma split_at:
  assumes "sorted_wrt (\<lambda>x y. ord x < (ord y :: 'o::linorder)) rows" and "a \<in> set rows"
  shows "rows = filter (\<lambda>r. ord r < ord a) rows @ a # filter (\<lambda>r. ord a < ord r) rows"
proof -
  obtain xs ys where rows: "rows = xs @ a # ys" using split_list[OF assms(2)] by blast
  have "\<forall>r \<in> set xs. ord r < ord a" and "\<forall>r \<in> set ys. ord a < ord r"
    using assms(1) unfolding rows by (simp_all add: sorted_wrt_append)
  then show ?thesis unfolding rows by (auto simp: filter_empty_conv filter_id_conv less_not_sym)
qed

lemma order_desc_rev:
  assumes "distinct (map ord rows)"
  shows "order_desc ord rows = rev (sort_key ord rows)"
proof -
  have "sort_key ord (rev rows) = sort_key ord rows"
    using assms by (intro map_sorted_distinct_set_unique[of ord]) (simp_all add: distinct_map)
  then show ?thesis by (simp add: order_desc_def)
qed

lemma window_segment:
  assumes "distinct (map ord rows)" and "a \<in> set rows"
    and "older = order_desc ord (filter (\<lambda>r. ord r < ord a) rows)"
    and "newer = sort_key ord (filter (\<lambda>r. ord a < ord r) rows)"
  shows "sort_key ord rows = rev (drop n older) @ (rev (take n older) @ a # take n newer) @ drop n newer"
proof -
  have "sorted_wrt (\<lambda>x y. ord x < ord y) (sort_key ord rows)"
    using order_desc_strict[OF assms(1)] by (simp add: order_desc_rev[OF assms(1)] sorted_wrt_rev)
  then have "sort_key ord rows = filter (\<lambda>r. ord r < ord a) (sort_key ord rows) @ a
      # filter (\<lambda>r. ord a < ord r) (sort_key ord rows)"
    using assms(2) by (intro split_at) simp_all
  moreover have "rev older = sort_key ord (filter (\<lambda>r. ord r < ord a) rows)"
    unfolding assms(3) by (subst order_desc_rev) (use assms(1) in \<open>simp_all add: distinct_map_filter\<close>)
  ultimately have "sort_key ord rows = rev older @ a # newer"
    by (simp add: filter_sort assms(4))
  then show ?thesis by (simp add: rev_append[symmetric] flip: rev_append)
qed


end
