(* ===== verification/Transitions.thy ===== *)
theory Transitions
  imports ShellOps Operator Paging
begin

text \<open>
  internal/orchestrator/continuity_transition_receipts.go: what continuity looks like before and
  after an operation, the receipt of a material change, and the history of receipts read page
  by page with the id of the oldest receipt seen as cursor.
\<close>

section \<open>Snapshots\<close>

record continuityTransitionSnapshot =
  cs_Branch :: ActiveBranchProvenance
  cs_HandoffContinuity :: HandoffContinuity
  cs_LaunchControl :: LaunchControl
  cs_Review :: ReviewProgression
  cs_LatestReviewID :: EventID
  cs_LatestReviewAckID :: EventID
  cs_LatestReviewAckClass :: GapAckClass
  cs_AcknowledgmentPresent :: bool

definition transitionReviewMarkerIDForSession :: "TranscriptView list \<Rightarrow> string \<Rightarrow> EventID" where
  "transitionReviewMarkerIDForSession sessions s0 =
     (let s = TrimSpace s0 in
      if s = [] then []
      else (case find (\<lambda>v. TrimSpace (view_session v) = s) sessions of
              None \<Rightarrow> [] | Some v \<Rightarrow> vw_ReviewID v))"

definition transitionReviewGapAckCurrent :: "ReviewProgression \<Rightarrow> GapAck option \<Rightarrow> bool" where
  "transitionReviewGapAckCurrent p ack = (case ack of
     None \<Rightarrow> False
   | Some a \<Rightarrow> pg_AcknowledgmentAdvisable p
       \<and> TrimSpace (pg_SessionID p) \<noteq> [] \<and> TrimSpace (ga_SessionID a) = TrimSpace (pg_SessionID p)
       \<and> GapAckClass_str (ga_Class a) \<noteq> [] \<and> ga_Class a = pg_AcknowledgmentClass p
       \<and> \<not> (pg_NewestRetainedSequence p > 0 \<and> ga_NewestRetainedSequence a < pg_NewestRetainedSequence p))"

definition transitionReviewPostureFromProgression :: "ReviewProgression \<Rightarrow> ReviewPosture" where
  "transitionReviewPostureFromProgression p = (case pg_State p of
     operatorReviewProgressionNone \<Rightarrow> ReviewPostureNone
   | operatorReviewProgressionNoEvidence \<Rightarrow> ReviewPostureNoRetainedEvidence
   | operatorReviewProgressionEvidenceUnreviewed \<Rightarrow> ReviewPostureRetainedEvidenceUnreviewed
   | operatorReviewProgressionGlobalCurrent \<Rightarrow> ReviewPostureGlobalReviewCurrent
   | operatorReviewProgressionGlobalStale \<Rightarrow> ReviewPostureGlobalReviewStale
   | operatorReviewProgressionSourceScopedCurrent \<Rightarrow> ReviewPostureSourceScopedReviewCurrent
   | operatorReviewProgressionSourceScopedStale \<Rightarrow> ReviewPostureSourceScopedReviewStale)"

definition transition_snapshot ::
  "continueAssessment \<Rightarrow> TaskID \<Rightarrow> TranscriptView list \<Rightarrow> ReviewProgression \<Rightarrow> GapAck option \<Rightarrow>
     continuityTransitionSnapshot" where
  "transition_snapshot a t sessions review ack =
     \<lparr>cs_Branch = deriveActiveBranchProvenanceFromAssessment a (recoveryFromContinueAssessment a),
      cs_HandoffContinuity = assessHandoffContinuity t (ca_LatestHandoff a) (ca_LatestLaunch a)
        (ca_LatestAck a) (ca_LatestFollowThrough a) (ca_LatestResolution a),
      cs_LaunchControl = assessLaunchControl t (ca_LatestHandoff a) (ca_LatestLaunch a),
      cs_Review = review,
      cs_LatestReviewID = transitionReviewMarkerIDForSession sessions (pg_SessionID review),
      cs_LatestReviewAckID = (case ack of None \<Rightarrow> [] | Some x \<Rightarrow> ga_AcknowledgmentID x),
      cs_LatestReviewAckClass = (case ack of None \<Rightarrow> GapAckClassOther [] | Some x \<Rightarrow> ga_Class x),
      cs_AcknowledgmentPresent = transitionReviewGapAckCurrent review ack\<rparr>"

definition captureContinuityTransitionSnapshot :: "Deps \<Rightarrow> TaskID \<Rightarrow> continuityTransitionSnapshot op" where
  "captureContinuityTransitionSnapshot E t =
     bnd (assess E t) (\<lambda>a.
     bnd (classifiedShellSessions E t) (\<lambda>sessions.
     let review = deriveOperatorReviewProgressionFromSessions sessions in
     bnd (shell_read (shell_LatestGapAck t (TrimSpace (pg_SessionID review)))) (\<lambda>ack.
     ret (transition_snapshot a t sessions review ack))))"

section \<open>Receipts\<close>

definition materialContinuityTransition ::
  "continuityTransitionSnapshot \<Rightarrow> continuityTransitionSnapshot \<Rightarrow> bool" where
  "materialContinuityTransition x y =
     (let b = cs_Branch x; b' = cs_Branch y; h = cs_HandoffContinuity x; h' = cs_HandoffContinuity y;
          l = cs_LaunchControl x; l' = cs_LaunchControl y in
      bp_Class b \<noteq> bp_Class b' \<or> bp_BranchRef b \<noteq> bp_BranchRef b'
      \<or> hc_State h \<noteq> hc_State h' \<or> hc_HandoffID h \<noteq> hc_HandoffID h'
      \<or> hc_LaunchAttemptID h \<noteq> hc_LaunchAttemptID h' \<or> hc_LaunchID h \<noteq> hc_LaunchID h'
      \<or> hc_ResolutionID h \<noteq> hc_ResolutionID h'
      \<or> lc_State l \<noteq> lc_State l' \<or> lc_AttemptID l \<noteq> lc_AttemptID l' \<or> lc_LaunchID l \<noteq> lc_LaunchID l')"

record continuityTransitionRecordInput =
  ti_TaskID :: TaskID
  ti_TransitionKind :: TransitionKind
  ti_TransitionHandle :: string
  ti_TriggerAction :: string
  ti_TriggerSource :: string
  ti_HandoffID :: string
  ti_LaunchAttemptID :: string
  ti_LaunchID :: string
  ti_ResolutionID :: string
  ti_Summary :: string
  ti_Before :: continuityTransitionSnapshot
  ti_After :: continuityTransitionSnapshot

definition review_awareness :: "continuityTransitionSnapshot \<Rightarrow> ReviewAwareness" where
  "review_awareness x =
     (let p = cs_Review x in
      \<lparr>aw_ReviewGapPresent = pg_AcknowledgmentAdvisable p,
       aw_ReviewPosture = transitionReviewPostureFromProgression p,
       aw_ReviewState = ReviewProgressionState_str (pg_State p), aw_ReviewScope = pg_ReviewScope p,
       aw_ReviewedUpToSequence = pg_ReviewedUpToSequence p,
       aw_OldestUnreviewedSequence = pg_OldestUnreviewedSequence p,
       aw_NewestRetainedSequence = pg_NewestRetainedSequence p,
       aw_UnreviewedRetainedCount = pg_UnreviewedRetainedCount p,
       aw_LatestReviewID = cs_LatestReviewID x, aw_LatestReviewAckID = cs_LatestReviewAckID x,
       aw_AcknowledgmentPresent = cs_AcknowledgmentPresent x,
       aw_AcknowledgmentClass = cs_LatestReviewAckClass x\<rparr>)"

definition transition_text :: "continuityTransitionRecordInput \<Rightarrow> string" where
  "transition_text q =
     (if TrimSpace (ti_Summary q) = []
      then TransitionKind_str (ti_TransitionKind q) @ '' transition recorded (''
        @ HandoffContinuityState_str (hc_State (cs_HandoffContinuity (ti_Before q))) @ '' -> ''
        @ HandoffContinuityState_str (hc_State (cs_HandoffContinuity (ti_After q))) @ '')''
      else TrimSpace (ti_Summary q))"

definition transition_receipt ::
  "continuityTransitionRecordInput \<Rightarrow> EventID \<Rightarrow> go_time \<Rightarrow> TransitionReceipt" where
  "transition_receipt q rid now =
     (let x = ti_Before q; y = ti_After q in
      \<lparr>tr_ReceiptID = rid, tr_TaskID = ti_TaskID q,
       tr_ShellSessionID = TrimSpace (pg_SessionID (cs_Review x)),
       tr_TransitionKind = ti_TransitionKind q,
       tr_TransitionHandle = TrimSpace (ti_TransitionHandle q),
       tr_TriggerAction = TrimSpace (ti_TriggerAction q), tr_TriggerSource = TrimSpace (ti_TriggerSource q),
       tr_HandoffID = TrimSpace (ti_HandoffID q), tr_LaunchAttemptID = TrimSpace (ti_LaunchAttemptID q),
       tr_LaunchID = TrimSpace (ti_LaunchID q), tr_ResolutionID = TrimSpace (ti_ResolutionID q),
       tr_BranchClassBefore = ActiveBranchClass_str (bp_Class (cs_Branch x)),
       tr_BranchRefBefore = bp_BranchRef (cs_Branch x),
       tr_BranchClassAfter = ActiveBranchClass_str (bp_Class (cs_Branch y)),
       tr_BranchRefAfter = bp_BranchRef (cs_Branch y),
       tr_HandoffContinuityBefore = HandoffContinuityState_str (hc_State (cs_HandoffContinuity x)),
       tr_HandoffContinuityAfter = HandoffContinuityState_str (hc_State (cs_HandoffContinuity y)),
       tr_LaunchControlBefore = LaunchControlState_str (lc_State (cs_LaunchControl x)),
       tr_LaunchControlAfter = LaunchControlState_str (lc_State (cs_LaunchControl y)),
       tr_Review = review_awareness x, tr_Summary = transition_text q, tr_CreatedAt = now,
       tr_Version = 1\<rparr>)"

definition review_payload_fields :: "ReviewAwareness \<Rightarrow> (string \<times> pval) list" where
  "review_payload_fields v =
     [(''review_gap_present'', PBool (aw_ReviewGapPresent v)),
      (''review_posture'', PStr (ReviewPosture_str (aw_ReviewPosture v))),
      (''review_state'', PStr (aw_ReviewState v)),
      (''review_scope'', PStr (TranscriptSource_str (aw_ReviewScope v))),
      (''reviewed_up_to_sequence'', PInt (aw_ReviewedUpToSequence v)),
      (''oldest_unreviewed_sequence'', PInt (aw_OldestUnreviewedSequence v)),
      (''newest_retained_sequence'', PInt (aw_NewestRetainedSequence v)),
      (''unreviewed_retained_count'', PInt (aw_UnreviewedRetainedCount v)),
      (''latest_review_id'', PStr (aw_LatestReviewID v)),
      (''latest_review_gap_ack_id'', PStr (aw_LatestReviewAckID v)),
      (''acknowledgment_present'', PBool (aw_AcknowledgmentPresent v)),
      (''acknowledgment_class'', PStr (GapAckClass_str (aw_AcknowledgmentClass v)))]"

definition transition_payload :: "TransitionReceipt \<Rightarrow> (string \<times> pval) list" where
  "transition_payload r =
     [(''transition_receipt_id'', PStr (tr_ReceiptID r)),
      (''transition_kind'', PStr (TransitionKind_str (tr_TransitionKind r))),
      (''transition_handle'', PStr (tr_TransitionHandle r)), (''trigger_action'', PStr (tr_TriggerAction r)),
      (''trigger_source'', PStr (tr_TriggerSource r)), (''handoff_id'', PStr (tr_HandoffID r)),
      (''launch_attempt_id'', PStr (tr_LaunchAttemptID r)), (''launch_id'', PStr (tr_LaunchID r)),
      (''resolution_id'', PStr (tr_ResolutionID r)),
      (''branch_class_before'', PStr (tr_BranchClassBefore r)),
      (''branch_ref_before'', PStr (tr_BranchRefBefore r)),
      (''branch_class_after'', PStr (tr_BranchClassAfter r)),
      (''branch_ref_after'', PStr (tr_BranchRefAfter r)),
      (''handoff_continuity_before'', PStr (tr_HandoffContinuityBefore r)),
      (''handoff_continuity_after'', PStr (tr_HandoffContinuityAfter r)),
      (''launch_control_before'', PStr (tr_LaunchControlBefore r)),
      (''launch_control_after'', PStr (tr_LaunchControlAfter r))]
     @ review_payload_fields (tr_Review r) @ [(''summary'', PStr (tr_Summary r))]"

text \<open>\<open>None\<close> when nothing material changed: no receipt is recorded then.\<close>

definition recordContinuityTransitionReceipt ::
  "Deps \<Rightarrow> WorkCapsule \<Rightarrow> continuityTransitionRecordInput \<Rightarrow> TransitionReceipt option op" where
  "recordContinuityTransitionReceipt E caps q =
     (if \<not> materialContinuityTransition (ti_Before q) (ti_After q) then ret None
      else
        bnd (clock E) (\<lambda>now.
        bnd (idGenerator E ''ctr'') (\<lambda>rid.
        let r = transition_receipt q rid now in
        seq (db_write (transitions_Create r))
        (seq (appendProof E caps EventBranchHandoffTransitionRecorded ActorUser ''user''
           (transition_payload r) None)
        (ret (Some r))))))"

section \<open>History\<close>

record ContinuityTransitionRiskSummary =
  tk_WindowSize :: int
  tk_ReviewGapTransitions :: int
  tk_AcknowledgedReviewGapTransitions :: int
  tk_UnacknowledgedReviewGapTransitions :: int
  tk_StaleReviewPostureTransitions :: int
  tk_SourceScopedReviewPostureTransitions :: int
  tk_IntoClaudeOwnershipTransitions :: int
  tk_BackToLocalOwnershipTransitions :: int
  tk_OperationallyNotable :: bool
  tk_Summary :: string

definition continuityTransitionPostureIsStale :: "ReviewPosture \<Rightarrow> bool" where
  "continuityTransitionPostureIsStale p \<longleftrightarrow> p \<in> {ReviewPostureRetainedEvidenceUnreviewed,
     ReviewPostureGlobalReviewStale, ReviewPostureSourceScopedReviewStale}"

definition continuityTransitionPostureIsSourceScoped :: "ReviewPosture \<Rightarrow> bool" where
  "continuityTransitionPostureIsSourceScoped p \<longleftrightarrow>
     p \<in> {ReviewPostureSourceScopedReviewCurrent, ReviewPostureSourceScopedReviewStale}"

definition into_claude :: "ContinuityTransitionReceiptSummary \<Rightarrow> bool" where
  "into_claude r \<longleftrightarrow> tr_BranchClassAfter r = ActiveBranchClass_str ActiveBranchClassHandoffClaude
     \<and> tr_BranchClassBefore r \<noteq> ActiveBranchClass_str ActiveBranchClassHandoffClaude"

definition back_to_local :: "ContinuityTransitionReceiptSummary \<Rightarrow> bool" where
  "back_to_local r \<longleftrightarrow> tr_BranchClassBefore r = ActiveBranchClass_str ActiveBranchClassHandoffClaude
     \<and> tr_BranchClassAfter r = ActiveBranchClass_str ActiveBranchClassLocal"

definition count_of :: "('a \<Rightarrow> bool) \<Rightarrow> 'a list \<Rightarrow> int" where
  "count_of P xs = int (length (filter P xs))"

definition transition_notes :: "int \<Rightarrow> int \<Rightarrow> int \<Rightarrow> int \<Rightarrow> int \<Rightarrow> int \<Rightarrow> string list" where
  "transition_notes unack acked stale source into back =
     (if unack > 0 then [itoa unack @ '' transition(s) recorded with unacknowledged transcript review gaps'']
      else if acked > 0 then [itoa acked @ '' transition(s) recorded under explicit review-gap acknowledgment'']
      else [])
     @ (if stale > 0
        then [itoa stale @ '' transition(s) carried stale or unreviewed retained transcript posture''] else [])
     @ (if source > 0
        then [itoa source @ '' transition(s) used source-scoped transcript review posture''] else [])
     @ (if into > 0
        then [itoa into @ '' transition(s) moved continuity ownership into Claude handoff branch''] else [])
     @ (if back > 0
        then [itoa back @ '' transition(s) moved continuity ownership back to local lineage''] else [])"

definition deriveContinuityTransitionRiskSummary ::
  "ContinuityTransitionReceiptSummary list \<Rightarrow> ContinuityTransitionRiskSummary" where
  "deriveContinuityTransitionRiskSummary rs =
     (let gap = (\<lambda>r. aw_ReviewGapPresent (tr_Review r)); ack = (\<lambda>r. aw_AcknowledgmentPresent (tr_Review r));
          gaps = count_of gap rs; acked = count_of (\<lambda>r. gap r \<and> ack r) rs;
          unack = count_of (\<lambda>r. gap r \<and> \<not> ack r) rs;
          stale = count_of (\<lambda>r. continuityTransitionPostureIsStale (aw_ReviewPosture (tr_Review r))) rs;
          source = count_of (\<lambda>r. continuityTransitionPostureIsSourceScoped (aw_ReviewPosture (tr_Review r))) rs;
          into = count_of into_claude rs; back = count_of back_to_local rs;
          ns = transition_notes unack acked stale source into back in
      \<lparr>tk_WindowSize = int (length rs), tk_ReviewGapTransitions = gaps,
       tk_AcknowledgedReviewGapTransitions = acked, tk_UnacknowledgedReviewGapTransitions = unack,
       tk_StaleReviewPostureTransitions = stale, tk_SourceScopedReviewPostureTransitions = source,
       tk_IntoClaudeOwnershipTransitions = into, tk_BackToLocalOwnershipTransitions = back,
       tk_OperationallyNotable = (gaps > 0 \<or> stale > 0 \<or> source > 0 \<or> into > 0 \<or> back > 0),
       tk_Summary = (if rs = [] then ''No continuity transition receipts were found in this bounded window.''
         else if ns = [] then ''Recent continuity transitions in this bounded window did not carry explicit transcript review-gap risk signals.''
         else str_join ns ''; '')\<rparr>)"

definition parseContinuityTransitionKindFilter :: "string \<Rightarrow> go_error + TransitionKind" where
  "parseContinuityTransitionKindFilter raw =
     (let s = map (\<lambda>c. if c = CHR ''_'' \<or> c = CHR 0x20 then CHR ''-'' else c) (ToLower (TrimSpace raw)) in
      if TrimSpace raw = [] then Inr (TransitionKindOther [])
      else if s = ''handoff-launch'' then Inr KindHandoffLaunch
      else if s = ''handoff-resolution'' then Inr KindHandoffResolution
      else Inl (ErrMsg (''unsupported transition kind filter '' @ [CHR 0x22] @ raw @ [CHR 0x22])))"

definition continuityTransitionReceiptProjection ::
  "TaskID \<Rightarrow> int \<Rightarrow> Db \<Rightarrow> ContinuityTransitionReceiptSummary list" where
  "continuityTransitionReceiptProjection t limit d =
     map continuityTransitionReceiptSummary (transitions_ListByTask t (clamp_limit 5 50 limit) d)"

record ReadContinuityTransitionHistoryRequest =
  th_TaskID :: string
  th_Limit :: int
  th_BeforeReceiptID :: string
  th_TransitionKind :: string
  th_HandoffID :: string

record ReadContinuityTransitionHistoryResult =
  tx_RequestedLimit :: int
  tx_RequestedBeforeReceiptID :: EventID
  tx_RequestedTransitionKind :: TransitionKind
  tx_RequestedHandoffID :: string
  tx_HasMoreOlder :: bool
  tx_NextBeforeReceiptID :: EventID
  tx_Latest :: "ContinuityTransitionReceiptSummary option"
  tx_Receipts :: "ContinuityTransitionReceiptSummary list"
  tx_RiskSummary :: ContinuityTransitionRiskSummary

text \<open>The time of the receipt a cursor names; an unknown receipt is the caller's error.\<close>

definition cursor_time :: "TaskID \<Rightarrow> EventID \<Rightarrow> (EventID \<Rightarrow> go_error + go_time) \<Rightarrow> go_error + go_time" where
  "cursor_time t before lookup =
     (if before = [] then Inr 0
      else (case lookup before of
              Inr at \<Rightarrow> Inr at
            | Inl e \<Rightarrow> Inl (if is_no_rows e
                then ErrMsg (''before receipt '' @ before @ '' was not found for task '' @ t) else e)))"

definition transition_history ::
  "ReadContinuityTransitionHistoryRequest \<Rightarrow> Db \<Rightarrow> go_error + ReadContinuityTransitionHistoryResult" where
  "transition_history q d =
     (let t = TrimSpace (th_TaskID q); limit = clamp_limit 10 100 (th_Limit q);
          before = TrimSpace (th_BeforeReceiptID q) in
      if t = [] then Inl (ErrMsg ''task id is required'')
      else
      rbnd (capsules_Get t d) (\<lambda>caps.
      rbnd (cursor_time t before (\<lambda>i. map_sum id tr_CreatedAt (transitions_GetByTaskReceipt t i d))) (\<lambda>beforeAt.
      rbnd (parseContinuityTransitionKindFilter (th_TransitionKind q)) (\<lambda>kind.
      let handoff = TrimSpace (th_HandoffID q);
          rows = transitions_ListByTaskFiltered t
            \<lparr>rl_Limit = limit + 1, rl_BeforeReceiptID = before, rl_BeforeCreatedAt = beforeAt,
             rl_TransitionKind = kind, rl_HandoffID = handoff\<rparr> d;
          further = int (length rows) > limit;
          receipts = map continuityTransitionReceiptSummary (take (nat limit) rows) in
      Inr \<lparr>tx_RequestedLimit = limit, tx_RequestedBeforeReceiptID = before, tx_RequestedTransitionKind = kind,
           tx_RequestedHandoffID = handoff, tx_HasMoreOlder = further,
           tx_NextBeforeReceiptID = (if further \<and> receipts \<noteq> [] then tr_ReceiptID (last receipts) else []),
           tx_Latest = (case receipts of [] \<Rightarrow> None | r # rs \<Rightarrow> Some r), tx_Receipts = receipts,
           tx_RiskSummary = deriveContinuityTransitionRiskSummary receipts\<rparr>))))"

definition ReadContinuityTransitionHistory ::
  "ReadContinuityTransitionHistoryRequest \<Rightarrow> ReadContinuityTransitionHistoryResult op" where
  "ReadContinuityTransitionHistory q = db_read (transition_history q)"

section \<open>Reading the whole history\<close>

definition wanted :: "TaskID \<Rightarrow> TransitionKind \<Rightarrow> string \<Rightarrow> TransitionReceipt \<Rightarrow> bool" where
  "wanted t kind handoff r \<longleftrightarrow> tr_TaskID r = t
     \<and> (TransitionKind_str kind = [] \<or> TransitionKind_str (tr_TransitionKind r) = TransitionKind_str kind)
     \<and> (handoff = [] \<or> tr_HandoffID r = handoff)"

definition matching_receipts :: "TaskID \<Rightarrow> TransitionKind \<Rightarrow> string \<Rightarrow> Db \<Rightarrow> TransitionReceipt list" where
  "matching_receipts t kind handoff d =
     order_desc transition_order (filter (wanted t kind handoff) (db_transitions d))"

definition below :: "EventID \<Rightarrow> go_time \<Rightarrow> TransitionReceipt \<Rightarrow> bool" where
  "below before at r = before_cursor before at (tr_CreatedAt r) (tr_ReceiptID r)"

definition receipts_ok :: "Db \<Rightarrow> bool" where
  "receipts_ok d \<longleftrightarrow> tbl_ok tr_ReceiptID (db_transitions d)
     \<and> list_all (\<lambda>r. tr_ReceiptID r \<noteq> [] \<and> TrimSpace (tr_ReceiptID r) = tr_ReceiptID r
         \<and> \<not> is_zero_time (tr_CreatedAt r)) (db_transitions d)"

lemma listed_rows:
  "transitions_ListByTaskFiltered t \<lparr>rl_Limit = n, rl_BeforeReceiptID = before, rl_BeforeCreatedAt = at,
     rl_TransitionKind = kind, rl_HandoffID = TrimSpace handoff\<rparr> d =
   take (list_limit 10 n) (filter (below before at) (matching_receipts t kind (TrimSpace handoff) d))"
  by (simp add: transitions_ListByTaskFiltered_def tbl_list_def matching_receipts_def wanted_def below_def
      order_desc_filter[symmetric] conj_ac cong: filter_cong)

lemma below_receipt:
  "tr_ReceiptID x \<noteq> [] \<Longrightarrow> \<not> is_zero_time (tr_CreatedAt x) \<Longrightarrow>
     below (tr_ReceiptID x) (tr_CreatedAt x) r \<longleftrightarrow> transition_order r < transition_order x"
  by (auto simp: below_def before_cursor_def transition_order_def)

lemma cursor_of_receipt:
  assumes "receipts_ok d" and "x \<in> set (db_transitions d)"
  shows "cursor_time (tr_TaskID x) (tr_ReceiptID x)
    (\<lambda>i. map_sum id tr_CreatedAt (transitions_GetByTaskReceipt (tr_TaskID x) i d)) = Inr (tr_CreatedAt x)"
proof -
  have ne: "tr_ReceiptID x \<noteq> []" and ok: "tbl_ok tr_ReceiptID (db_transitions d)"
    using assms by (auto simp: receipts_ok_def list_all_iff)
  have "find (\<lambda>r. tr_TaskID r = tr_TaskID x \<and> tr_ReceiptID r = tr_ReceiptID x) rows = Some x"
    if "tbl_ok tr_ReceiptID rows" "x \<in> set rows" for rows
    using that by (induction rows) (auto simp: tbl_ok_def)
  then show ?thesis using ne ok assms(2)
    by (simp add: cursor_time_def transitions_GetByTaskReceipt_def found_def)
qed

lemma matching_strict:
  assumes "receipts_ok d"
  shows "sorted_wrt (\<lambda>x y. transition_order y < transition_order x) (matching_receipts t kind handoff d)"
proof -
  have "distinct (map transition_order (filter P (db_transitions d)))" for P
  proof -
    have "inj_on transition_order (set (db_transitions d))" and "distinct (db_transitions d)"
      using assms by (auto simp: receipts_ok_def tbl_ok_def distinct_map transition_order_def inj_on_def)
    then show ?thesis by (auto simp: distinct_map inj_on_def)
  qed
  then show ?thesis unfolding matching_receipts_def by (rule order_desc_strict)
qed

lemma matching_member: "x \<in> set (matching_receipts t kind handoff d) \<Longrightarrow> x \<in> set (db_transitions d) \<and> tr_TaskID x = t"
  by (auto simp: matching_receipts_def wanted_def)

text \<open>The rows below a cursor that is itself below another cursor.\<close>

lemma rows_after_page:
  assumes ok: "receipts_ok d"
    and rows: "rows = filter (below before at) (matching_receipts t kind handoff d)"
    and n: "0 < n" "n \<le> length rows" and x: "x = last (take n rows)"
  shows "filter (below (tr_ReceiptID x) (tr_CreatedAt x)) (matching_receipts t kind handoff d) = drop n rows"
proof -
  let ?L = "matching_receipts t kind handoff d"
  have strict: "sorted_wrt (\<lambda>x y. transition_order y < transition_order x) rows"
    unfolding rows by (rule sorted_wrt_filter[OF matching_strict[OF ok]])
  have "take n rows \<noteq> []" using n by auto
  then have "x \<in> set rows" unfolding x by (metis in_set_takeD last_in_set)
  then have mem: "x \<in> set (db_transitions d)" and q: "below before at x"
    using matching_member by (auto simp: rows)
  then have id: "tr_ReceiptID x \<noteq> []" "\<not> is_zero_time (tr_CreatedAt x)"
    using ok by (auto simp: receipts_ok_def list_all_iff)
  have down: "below before at r" if "transition_order r < transition_order x" for r
    using that q by (auto simp: below_def before_cursor_def transition_order_def)
  have "filter (below (tr_ReceiptID x) (tr_CreatedAt x)) ?L
      = filter (\<lambda>r. transition_order r < transition_order x) rows"
    unfolding rows filter_filter by (rule filter_cong) (auto simp: below_receipt[OF id] dest: down)
  also have "\<dots> = drop n rows" unfolding x by (rule next_page[OF strict n])
  finally show ?thesis .
qed

text \<open>A caller who follows the cursor until no older receipts are left; \<open>None\<close> when it gives up.\<close>

fun read_all ::
  "nat \<Rightarrow> ReadContinuityTransitionHistoryRequest \<Rightarrow> Db \<Rightarrow>
     (go_error + ContinuityTransitionReceiptSummary list) option" where
  "read_all 0 q d = None"
| "read_all (Suc n) q d = (case transition_history q d of
     Inl e \<Rightarrow> Some (Inl e)
   | Inr p \<Rightarrow>
     if tx_HasMoreOlder p
     then map_option (\<lambda>rest. rbnd rest (\<lambda>rs. Inr (tx_Receipts p @ rs)))
       (read_all n (q\<lparr>th_BeforeReceiptID := tx_NextBeforeReceiptID p\<rparr>) d)
     else Some (Inr (tx_Receipts p)))"

lemma limit_pos: "0 < clamp_limit 10 100 n"
  by (simp add: clamp_limit_def)

lemma one_page:
  assumes ok: "receipts_ok d" and cap: "capsules_Get t d = Inr caps" and t: "TrimSpace (th_TaskID q) = t" "t \<noteq> []"
    and kind: "parseContinuityTransitionKindFilter (th_TransitionKind q) = Inr kind"
    and cursor: "TrimSpace (th_BeforeReceiptID q) = before"
      "cursor_time t before (\<lambda>i. map_sum id tr_CreatedAt (transitions_GetByTaskReceipt t i d)) = Inr at"
    and n: "n = nat (clamp_limit 10 100 (th_Limit q))"
    and rows: "rows = filter (below before at) (matching_receipts t kind (TrimSpace (th_HandoffID q)) d)"
  shows "\<exists>p. transition_history q d = Inr p
    \<and> tx_Receipts p = map continuityTransitionReceiptSummary (take n rows)
    \<and> tx_HasMoreOlder p = (n < length rows)
    \<and> (n < length rows \<longrightarrow> tx_NextBeforeReceiptID p = tr_ReceiptID (last (take n rows)))"
proof -
  define limit where "limit = clamp_limit 10 100 (th_Limit q)"
  have pos: "0 < limit" unfolding limit_def by (rule limit_pos)
  then have "list_limit 10 (limit + 1) = Suc n"
    by (simp add: n limit_def[symmetric] list_limit_def nat_add_distrib)
  then have listed: "transitions_ListByTaskFiltered t \<lparr>rl_Limit = limit + 1, rl_BeforeReceiptID = before,
      rl_BeforeCreatedAt = at, rl_TransitionKind = kind, rl_HandoffID = TrimSpace (th_HandoffID q)\<rparr> d
      = take (Suc n) rows"
    by (simp add: listed_rows rows)
  have n': "nat limit = n" "0 < n" "limit = int n" using pos by (simp_all add: n limit_def[symmetric])
  have nx: "take n rows \<noteq> []" if "n < length rows" using that n' by auto
  have further: "int (length (take (Suc n) rows)) > limit \<longleftrightarrow> n < length rows"
    unfolding n'(3) by (simp add: min_def)
  show ?thesis
    using t kind cursor cap further nx
    by (simp add: transition_history_def Let_def limit_def[symmetric] listed n'(1) last_map
        continuityTransitionReceiptSummary_def ContinuityTransitionReceiptSummary.defs)
qed

lemma read_rest:
  assumes ok: "receipts_ok d" and cap: "capsules_Get t d = Inr caps" and t: "t \<noteq> []"
    and kind: "parseContinuityTransitionKindFilter k = Inr kind"
  shows "TrimSpace (th_TaskID q) = t \<Longrightarrow> th_TransitionKind q = k \<Longrightarrow>
    TrimSpace (th_HandoffID q) = handoff \<Longrightarrow>
    cursor_time t (TrimSpace (th_BeforeReceiptID q))
      (\<lambda>i. map_sum id tr_CreatedAt (transitions_GetByTaskReceipt t i d)) = Inr at \<Longrightarrow>
    length (filter (below (TrimSpace (th_BeforeReceiptID q)) at) (matching_receipts t kind handoff d)) < fuel \<Longrightarrow>
    read_all fuel q d = Some (Inr (map continuityTransitionReceiptSummary
      (filter (below (TrimSpace (th_BeforeReceiptID q)) at) (matching_receipts t kind handoff d))))"
proof (induction fuel arbitrary: q at)
  case 0
  then show ?case by simp
next
  case (Suc fuel)
  let ?before = "TrimSpace (th_BeforeReceiptID q)" and ?n = "nat (clamp_limit 10 100 (th_Limit q))"
  define rows where "rows = filter (below ?before at) (matching_receipts t kind handoff d)"
  have pos: "0 < ?n" using limit_pos by simp
  obtain p where p: "transition_history q d = Inr p"
      "tx_Receipts p = map continuityTransitionReceiptSummary (take ?n rows)"
      "tx_HasMoreOlder p = (?n < length rows)"
      "?n < length rows \<longrightarrow> tx_NextBeforeReceiptID p = tr_ReceiptID (last (take ?n rows))"
    using one_page[OF ok cap Suc.prems(1) t _ refl Suc.prems(4) refl refl] kind
    unfolding Suc.prems(2,3) rows_def by blast
  show ?case
  proof (cases "?n < length rows")
    case False
    then show ?thesis using p by (simp add: rows_def[symmetric])
  next
    case True
    define x where "x = last (take ?n rows)"
    have "x \<in> set rows" using pos True unfolding x_def by (metis in_set_takeD last_in_set length_0_conv length_take min_less_iff_conj not_gr_zero order_less_trans)
    then have mem: "x \<in> set (db_transitions d)" "tr_TaskID x = t"
      using matching_member by (auto simp: rows_def)
    have trimmed: "TrimSpace (tr_ReceiptID x) = tr_ReceiptID x"
      using ok mem(1) by (auto simp: receipts_ok_def list_all_iff)
    let ?q = "q\<lparr>th_BeforeReceiptID := tx_NextBeforeReceiptID p\<rparr>"
    have cur: "TrimSpace (th_BeforeReceiptID ?q) = tr_ReceiptID x" using p(4) True trimmed by (simp add: x_def)
    have rest: "filter (below (tr_ReceiptID x) (tr_CreatedAt x)) (matching_receipts t kind handoff d) = drop ?n rows"
      by (rule rows_after_page[OF ok rows_def pos _ x_def]) (use True in simp)
    have "read_all fuel ?q d = Some (Inr (map continuityTransitionReceiptSummary (drop ?n rows)))"
      using Suc.IH[of ?q "tr_CreatedAt x"] Suc.prems cursor_of_receipt[OF ok mem(1)] mem(2) pos True
      unfolding cur rest by (simp add: rows_def[symmetric] id_def)
    then show ?thesis using p True by (simp add: rows_def[symmetric] map_append[symmetric] del: map_append)
  qed
qed


end
