(* ===== verification/Incidents.thy ===== *)
theory Incidents
  imports Transitions
begin

text \<open>
  What the receipts of transitions, triages and follow-ups say about incidents
  (internal/orchestrator/continuity_incident_triage.go, _triage_history.go, _followup.go,
  _closure.go, _task_risk.go and the risk part of _slice.go): pure functions of bounded windows of
  receipts, newest first. Maps keyed by anchor are lists of groups in the order of their first
  receipt; where the code ranges over such a map it only counts, or sorts by a total order.
\<close>

section \<open>Risk of an anchor\<close>

definition continuityIncidentAmbiguityFromHandoffState :: "string \<Rightarrow> bool" where
  "continuityIncidentAmbiguityFromHandoffState s \<longleftrightarrow>
     s \<in> set (map HandoffContinuityState_str [HandoffContinuityStateLaunchPendingOutcome,
       HandoffContinuityStateLaunchCompletedAckSeen, HandoffContinuityStateLaunchCompletedAckEmpty,
       HandoffContinuityStateLaunchCompletedAckLost, HandoffContinuityStateFollowThroughProofOfLife,
       HandoffContinuityStateFollowThroughConfirmed, HandoffContinuityStateFollowThroughUnknown,
       HandoffContinuityStateFollowThroughStalled])"

definition risk_notes :: "IncidentRisk \<Rightarrow> string list" where
  "risk_notes r =
     (if ir_ReviewGapPresent r
      then [if ir_AcknowledgmentPresent r
        then ''anchor transition recorded under explicit transcript review-gap acknowledgment''
        else ''anchor transition recorded with unacknowledged transcript review gap''] else [])
     @ (if ir_StaleOrUnreviewedReviewPosture r
        then [''anchor transition carried stale or unreviewed retained transcript posture''] else [])
     @ (if ir_SourceScopedReviewPosture r
        then [''anchor transition used source-scoped transcript review posture''] else [])
     @ (if ir_IntoClaudeOwnershipTransition r
        then [''anchor transition moved continuity ownership into Claude handoff branch''] else [])
     @ (if ir_BackToLocalOwnershipTransition r
        then [''anchor transition moved continuity ownership back to local lineage''] else [])
     @ (if ir_UnresolvedContinuityAmbiguity r
        then [''anchor transition ended in a continuity state that remains operationally unproven''] else [])
     @ (if ir_RecentFailureOrRecoveryActivity r
        then [''bounded incident slice includes '' @ itoa (ir_NearbyFailedOrInterruptedRuns r)
          @ '' failed/interrupted run(s) and '' @ itoa (ir_NearbyRecoveryActions r) @ '' recovery action(s)''] else [])"

definition continuityIncidentRiskSummaryFromAnchor ::
  "ContinuityTransitionReceiptSummary \<Rightarrow> int \<Rightarrow> int \<Rightarrow> IncidentRisk" where
  "continuityIncidentRiskSummaryFromAnchor a failed recovered =
     (let posture = aw_ReviewPosture (tr_Review a);
          r = \<lparr>ir_ReviewGapPresent = aw_ReviewGapPresent (tr_Review a),
            ir_AcknowledgmentPresent = aw_AcknowledgmentPresent (tr_Review a),
            ir_StaleOrUnreviewedReviewPosture = continuityTransitionPostureIsStale posture,
            ir_SourceScopedReviewPosture = continuityTransitionPostureIsSourceScoped posture,
            ir_IntoClaudeOwnershipTransition = into_claude a,
            ir_BackToLocalOwnershipTransition = back_to_local a,
            ir_UnresolvedContinuityAmbiguity =
              continuityIncidentAmbiguityFromHandoffState (tr_HandoffContinuityAfter a),
            ir_NearbyFailedOrInterruptedRuns = failed, ir_NearbyRecoveryActions = recovered,
            ir_RecentFailureOrRecoveryActivity = (failed > 0 \<or> recovered > 0),
            ir_OperationallyNotable = False, ir_Summary = []\<rparr>;
          ns = risk_notes r in
      r\<lparr>ir_OperationallyNotable := (ir_ReviewGapPresent r \<or> ir_StaleOrUnreviewedReviewPosture r
           \<or> ir_SourceScopedReviewPosture r \<or> ir_IntoClaudeOwnershipTransition r
           \<or> ir_BackToLocalOwnershipTransition r \<or> ir_UnresolvedContinuityAmbiguity r
           \<or> ir_RecentFailureOrRecoveryActivity r),
        ir_Summary := (if ns = []
          then ''Bounded incident slice shows no explicit review-gap or failure/recovery risk flags around the anchor transition.''
          else str_join ns ''; '')\<rparr>)"

definition failed_or_interrupted :: "RunStatus \<Rightarrow> bool" where
  "failed_or_interrupted s \<longleftrightarrow> s \<in> {RunStatusFailed, RunStatusInterrupted}"

definition continuityIncidentSummaryProjection ::
  "ContinuityTransitionReceiptSummary option \<Rightarrow> ExecutionRun option \<Rightarrow> RecoveryRecord option \<Rightarrow>
     IncidentRisk option" where
  "continuityIncidentSummaryProjection anchor run action = map_option (\<lambda>a.
     continuityIncidentRiskSummaryFromAnchor a
       (case run of None \<Rightarrow> 0 | Some r \<Rightarrow> if failed_or_interrupted (r_Status r) then 1 else 0)
       (case action of None \<Rightarrow> 0 | Some x \<Rightarrow> 1)) anchor"

section \<open>Groups of receipts by anchor\<close>

definition first_seen :: "'k list \<Rightarrow> 'k list" where
  "first_seen ks = rev (remdups (rev ks))"

definition groups_by :: "('r \<Rightarrow> 'k) \<Rightarrow> 'r list \<Rightarrow> 'r list list" where
  "groups_by key rs = map (\<lambda>k. filter (\<lambda>r. key r = k) rs) (first_seen (map key rs))"

definition anchor_key :: "EventID \<Rightarrow> EventID \<Rightarrow> EventID" where
  "anchor_key anchor receipt = (if anchor = [] then ''receipt:'' @ receipt else anchor)"

definition repeated :: "('r \<Rightarrow> 'a) \<Rightarrow> 'r list \<Rightarrow> bool" where
  "repeated f g \<longleftrightarrow> length g > 1 \<and> length (remdups (map f g)) = 1"

definition behind_latest :: "ContinuityTransitionReceiptSummary option \<Rightarrow> EventID \<Rightarrow> bool" where
  "behind_latest latest anchor =
     (case latest of None \<Rightarrow> False | Some x \<Rightarrow> anchor \<noteq> [] \<and> anchor \<noteq> tr_ReceiptID x)"

definition counted :: "int \<Rightarrow> string \<Rightarrow> string list" where
  "counted n note = (if n > 0 then [itoa n @ note] else [])"

section \<open>Triage history\<close>

record ContinuityIncidentTriageHistoryRollupSummary =
  hv_WindowSize :: int
  hv_BoundedWindow :: bool
  hv_DistinctAnchors :: int
  hv_AnchorsTriagedCurrent :: int
  hv_AnchorsNeedsFollowUp :: int
  hv_AnchorsDeferred :: int
  hv_AnchorsBehindLatestTransition :: int
  hv_AnchorsWithOpenFollowUp :: int
  hv_AnchorsRepeatedWithoutProgression :: int
  hv_ReviewRiskReceipts :: int
  hv_AcknowledgedReviewGapReceipts :: int
  hv_OperationallyNotable :: bool
  hv_Summary :: string

definition triage_key :: "ContinuityIncidentTriageReceiptSummary \<Rightarrow> EventID" where
  "triage_key r = anchor_key (tg_AnchorTransitionReceiptID r) (tg_ReceiptID r)"

definition review_risk :: "ContinuityIncidentTriageReceiptSummary \<Rightarrow> bool" where
  "review_risk r \<longleftrightarrow> ir_StaleOrUnreviewedReviewPosture (tg_Risk r)
     \<or> ir_SourceScopedReviewPosture (tg_Risk r) \<or> aw_ReviewGapPresent (tg_Review r)"

definition triage_open ::
  "ContinuityTransitionReceiptSummary option \<Rightarrow> ContinuityIncidentTriageReceiptSummary \<Rightarrow> bool" where
  "triage_open latest r \<longleftrightarrow> tg_Posture r \<in> {PostureNeedsFollowUp, PostureDeferred}
     \<or> behind_latest latest (tg_AnchorTransitionReceiptID r)"

definition triage_rollup_notes :: "int \<Rightarrow> int \<Rightarrow> int \<Rightarrow> int \<Rightarrow> string list" where
  "triage_rollup_notes opened behind again risky =
     counted opened '' anchor(s) remain in open follow-up posture''
     @ counted behind '' anchor(s) are behind the latest transition anchor''
     @ counted again '' anchor(s) have repeated triage receipts without posture progression in this window''
     @ counted risky '' triage receipt(s) were recorded under retained transcript review-risk posture''"

definition deriveContinuityIncidentTriageHistoryRollup ::
  "ContinuityIncidentTriageReceiptSummary list \<Rightarrow> ContinuityTransitionReceiptSummary option \<Rightarrow>
     ContinuityIncidentTriageHistoryRollupSummary" where
  "deriveContinuityIncidentTriageHistoryRollup rs latest =
     (let gs = groups_by triage_key rs; heads = map hd gs;
          need = count_of (\<lambda>r. tg_Posture r = PostureNeedsFollowUp) heads;
          deferred = count_of (\<lambda>r. tg_Posture r = PostureDeferred) heads;
          behind = count_of (\<lambda>r. behind_latest latest (tg_AnchorTransitionReceiptID r)) heads;
          opened = count_of (triage_open latest) heads;
          again = count_of (repeated tg_Posture) gs;
          risky = count_of review_risk rs;
          ns = triage_rollup_notes opened behind again risky in
      \<lparr>hv_WindowSize = int (length rs), hv_BoundedWindow = True, hv_DistinctAnchors = int (length gs),
       hv_AnchorsTriagedCurrent = int (length gs) - need - deferred, hv_AnchorsNeedsFollowUp = need,
       hv_AnchorsDeferred = deferred, hv_AnchorsBehindLatestTransition = behind,
       hv_AnchorsWithOpenFollowUp = opened, hv_AnchorsRepeatedWithoutProgression = again,
       hv_ReviewRiskReceipts = risky,
       hv_AcknowledgedReviewGapReceipts =
         count_of (\<lambda>r. aw_ReviewGapPresent (tg_Review r) \<and> aw_AcknowledgmentPresent (tg_Review r)) rs,
       hv_OperationallyNotable = (opened > 0 \<or> again > 0 \<or> risky > 0),
       hv_Summary = (if rs = [] then ''No continuity incident triage receipts were found in this bounded window.''
         else if ns = [] then ''Incident triage receipts in this bounded window do not show open follow-up posture signals.''
         else str_join ns ''; '')\<rparr>)"

section \<open>Follow-up history\<close>

record ContinuityIncidentFollowUpHistoryRollupSummary =
  fv_WindowSize :: int
  fv_BoundedWindow :: bool
  fv_DistinctAnchors :: int
  fv_ReceiptsRecordedPending :: int
  fv_ReceiptsProgressed :: int
  fv_ReceiptsClosed :: int
  fv_ReceiptsReopened :: int
  fv_AnchorsWithOpenFollowUp :: int
  fv_AnchorsClosed :: int
  fv_AnchorsReopened :: int
  fv_OpenAnchorsBehindLatestTransition :: int
  fv_AnchorsRepeatedWithoutProgression :: int
  fv_AnchorsTriagedWithoutFollowUp :: int
  fv_OperationallyNotable :: bool
  fv_Summary :: string

definition distinctIncidentTriageAnchors :: "ContinuityIncidentTriageReceiptSummary list \<Rightarrow> EventID list" where
  "distinctIncidentTriageAnchors rs = remdups (filter (\<lambda>k. k \<noteq> []) (map tg_AnchorTransitionReceiptID rs))"

definition followup_key :: "ContinuityIncidentFollowUpReceiptSummary \<Rightarrow> EventID" where
  "followup_key r = anchor_key (fu_AnchorTransitionReceiptID r) (fu_ReceiptID r)"

definition followup_open :: "ContinuityIncidentFollowUpReceiptSummary \<Rightarrow> bool" where
  "followup_open r \<longleftrightarrow>
     fu_ActionKind r \<in> {FollowUpActionReopened, FollowUpActionProgressed, FollowUpActionRecordedPending}"

definition followup_rollup_notes :: "int \<Rightarrow> int \<Rightarrow> int \<Rightarrow> int \<Rightarrow> string list" where
  "followup_rollup_notes opened behind bare again =
     counted opened '' anchor(s) have open follow-up receipts''
     @ counted behind '' open anchor(s) are behind the latest transition anchor''
     @ counted bare '' triaged anchor(s) have no follow-up receipts in this bounded window''
     @ counted again '' anchor(s) have repeated follow-up receipts without action progression in this window''"

text \<open>An empty window keeps its zero flags, also when triaged anchors have no follow-up.\<close>

definition deriveContinuityIncidentFollowUpHistoryRollup ::
  "ContinuityIncidentFollowUpReceiptSummary list \<Rightarrow> ContinuityTransitionReceiptSummary option \<Rightarrow>
     ContinuityIncidentTriageReceiptSummary list \<Rightarrow> ContinuityIncidentFollowUpHistoryRollupSummary" where
  "deriveContinuityIncidentFollowUpHistoryRollup rs latest triages =
     (let gs = groups_by followup_key rs; heads = map hd gs;
          kind = (\<lambda>k r. fu_ActionKind r = k);
          opened = count_of followup_open heads;
          behind = count_of (\<lambda>r. followup_open r \<and> behind_latest latest (fu_AnchorTransitionReceiptID r)) heads;
          again = count_of (repeated fu_ActionKind) gs;
          bare = count_of (\<lambda>k. k \<notin> set (map followup_key rs)) (distinctIncidentTriageAnchors triages);
          ns = followup_rollup_notes opened behind bare again in
      \<lparr>fv_WindowSize = int (length rs), fv_BoundedWindow = True, fv_DistinctAnchors = int (length gs),
       fv_ReceiptsRecordedPending = count_of (kind FollowUpActionRecordedPending) rs,
       fv_ReceiptsProgressed = count_of (kind FollowUpActionProgressed) rs,
       fv_ReceiptsClosed = count_of (kind FollowUpActionClosed) rs,
       fv_ReceiptsReopened = count_of (kind FollowUpActionReopened) rs,
       fv_AnchorsWithOpenFollowUp = opened,
       fv_AnchorsClosed = count_of (kind FollowUpActionClosed) heads,
       fv_AnchorsReopened = count_of (kind FollowUpActionReopened) heads,
       fv_OpenAnchorsBehindLatestTransition = behind, fv_AnchorsRepeatedWithoutProgression = again,
       fv_AnchorsTriagedWithoutFollowUp = bare,
       fv_OperationallyNotable = (rs \<noteq> [] \<and> (opened > 0 \<or> behind > 0 \<or> again > 0 \<or> bare > 0)),
       fv_Summary = (if rs = [] then ''No continuity incident follow-up receipts were found in this bounded window.''
         else if ns = [] then ''Incident follow-up receipts in this bounded window do not show open or lagging closure posture signals.''
         else str_join ns ''; '')\<rparr>)"

section \<open>Closure\<close>

datatype ContinuityIncidentClosureClass =
    ContinuityIncidentClosureNone
  | ContinuityIncidentClosureStableBounded
  | ContinuityIncidentClosureOperationallyUnresolved
  | ContinuityIncidentClosureWeakReopened
  | ContinuityIncidentClosureWeakLoop
  | ContinuityIncidentClosureWeakStagnant

primrec ContinuityIncidentClosureClass_str :: "ContinuityIncidentClosureClass \<Rightarrow> string" where
  "ContinuityIncidentClosureClass_str ContinuityIncidentClosureNone = ''NONE''"
| "ContinuityIncidentClosureClass_str ContinuityIncidentClosureStableBounded = ''STABLE_BOUNDED''"
| "ContinuityIncidentClosureClass_str ContinuityIncidentClosureOperationallyUnresolved = ''OPERATIONALLY_UNRESOLVED''"
| "ContinuityIncidentClosureClass_str ContinuityIncidentClosureWeakReopened = ''WEAK_CLOSURE_REOPENED''"
| "ContinuityIncidentClosureClass_str ContinuityIncidentClosureWeakLoop = ''WEAK_CLOSURE_LOOP''"
| "ContinuityIncidentClosureClass_str ContinuityIncidentClosureWeakStagnant = ''WEAK_CLOSURE_STAGNANT''"

record ContinuityIncidentClosureAnchorItem =
  ka_AnchorTransitionReceiptID :: string
  ka_Class :: ContinuityIncidentClosureClass
  ka_Digest :: string
  ka_Explanation :: string
  ka_LatestFollowUpReceiptID :: EventID
  ka_LatestFollowUpActionKind :: FollowUpActionKind
  ka_LatestFollowUpAt :: go_time

record ContinuityIncidentClosureSummary =
  kv_Class :: ContinuityIncidentClosureClass
  kv_Digest :: string
  kv_WindowAdvisory :: string
  kv_Detail :: string
  kv_BoundedWindow :: bool
  kv_WindowSize :: int
  kv_DistinctAnchors :: int
  kv_OperationallyUnresolved :: bool
  kv_ClosureAppearsWeak :: bool
  kv_ReopenedAfterClosure :: bool
  kv_RepeatedReopenLoop :: bool
  kv_StagnantProgression :: bool
  kv_TriagedWithoutFollowUp :: bool
  kv_AnchorsWithOpenFollowUp :: int
  kv_AnchorsClosed :: int
  kv_AnchorsReopened :: int
  kv_AnchorsBehindLatestTransition :: int
  kv_AnchorsRepeatedWithoutProgression :: int
  kv_AnchorsTriagedWithoutFollowUp :: int
  kv_ReopenedAfterClosureAnchors :: int
  kv_RepeatedReopenLoopAnchors :: int
  kv_StagnantProgressionAnchors :: int
  kv_RecentAnchors :: "ContinuityIncidentClosureAnchorItem list"

text \<open>What the loop gathers for one anchor, from its receipts oldest first.\<close>

record anchorSignals =
  sg_anchorID :: EventID
  sg_closedCount :: int
  sg_reopenedCount :: int
  sg_progressedOrPendingCount :: int
  sg_reopenedAfterClosureCount :: int
  sg_latestFollowUpReceiptID :: EventID
  sg_latestFollowUpActionKind :: FollowUpActionKind
  sg_latestFollowUpAt :: go_time

primrec reopened_after_closure :: "bool \<Rightarrow> FollowUpActionKind list \<Rightarrow> int" where
  "reopened_after_closure closedSeen [] = 0"
| "reopened_after_closure closedSeen (k # ks) =
     (if k = FollowUpActionReopened \<and> closedSeen then 1 else 0)
     + reopened_after_closure (closedSeen \<or> k = FollowUpActionClosed) ks"

definition later_signal ::
  "anchorSignals \<Rightarrow> ContinuityIncidentFollowUpReceiptSummary \<Rightarrow> anchorSignals" where
  "later_signal g r =
     (if is_zero_time (sg_latestFollowUpAt g) \<or> sg_latestFollowUpAt g < fu_CreatedAt r
      then g\<lparr>sg_latestFollowUpAt := fu_CreatedAt r, sg_latestFollowUpReceiptID := fu_ReceiptID r,
             sg_latestFollowUpActionKind := fu_ActionKind r\<rparr> else g)"

definition anchor_signals :: "ContinuityIncidentFollowUpReceiptSummary list \<Rightarrow> anchorSignals" where
  "anchor_signals rs =
     (let ks = map fu_ActionKind (rev rs) in
      foldl later_signal
       \<lparr>sg_anchorID = fu_AnchorTransitionReceiptID (hd rs),
        sg_closedCount = count_of (\<lambda>k. k = FollowUpActionClosed) ks,
        sg_reopenedCount = count_of (\<lambda>k. k = FollowUpActionReopened) ks,
        sg_progressedOrPendingCount =
          count_of (\<lambda>k. k \<in> {FollowUpActionProgressed, FollowUpActionRecordedPending}) ks,
        sg_reopenedAfterClosureCount = reopened_after_closure False ks,
        sg_latestFollowUpReceiptID = [], sg_latestFollowUpActionKind = FollowUpActionOther [],
        sg_latestFollowUpAt = 0\<rparr> (rev rs))"

definition stagnant_signals :: "anchorSignals \<Rightarrow> bool" where
  "stagnant_signals g \<longleftrightarrow>
     sg_progressedOrPendingCount g \<ge> 2 \<and> sg_closedCount g = 0 \<and> sg_reopenedCount g = 0"

definition signals_verdict :: "anchorSignals \<Rightarrow> ContinuityIncidentClosureClass \<times> string \<times> string" where
  "signals_verdict g =
     (if sg_reopenedAfterClosureCount g > 1 then (ContinuityIncidentClosureWeakLoop,
        ''closure loop signals'', ''repeated reopen-after-closure pattern in recent bounded evidence'')
      else if sg_reopenedAfterClosureCount g > 0 then (ContinuityIncidentClosureWeakReopened,
        ''closure reopened after close'', ''reopened after closure in recent bounded evidence'')
      else if stagnant_signals g then (ContinuityIncidentClosureWeakStagnant,
        ''follow-up progression stagnant'', ''follow-up progression remains stagnant in recent bounded evidence'')
      else if sg_closedCount g > 0 \<and> sg_reopenedCount g = 0 then (ContinuityIncidentClosureStableBounded,
        ''stable within bounded evidence'', ''stable bounded closure progression'')
      else (ContinuityIncidentClosureOperationallyUnresolved, ''operationally unresolved'',
        ''follow-up posture remains operationally unresolved in recent bounded evidence''))"

definition deriveContinuityIncidentClosureAnchorItem ::
  "anchorSignals \<Rightarrow> ContinuityIncidentClosureAnchorItem" where
  "deriveContinuityIncidentClosureAnchorItem g = (case signals_verdict g of (class', digest, explanation) \<Rightarrow>
     \<lparr>ka_AnchorTransitionReceiptID = sg_anchorID g, ka_Class = class', ka_Digest = digest,
      ka_Explanation = explanation, ka_LatestFollowUpReceiptID = sg_latestFollowUpReceiptID g,
      ka_LatestFollowUpActionKind = sg_latestFollowUpActionKind g,
      ka_LatestFollowUpAt = sg_latestFollowUpAt g\<rparr>)"

definition closure_signals :: "ContinuityIncidentFollowUpReceiptSummary list \<Rightarrow> anchorSignals list" where
  "closure_signals rs = map anchor_signals
     (groups_by fu_AnchorTransitionReceiptID (filter (\<lambda>r. fu_AnchorTransitionReceiptID r \<noteq> []) rs))"

definition recent_anchors :: "anchorSignals list \<Rightarrow> ContinuityIncidentClosureAnchorItem list" where
  "recent_anchors gs = take 5 (order_desc (\<lambda>i. (ka_LatestFollowUpAt i, ka_AnchorTransitionReceiptID i))
     (map deriveContinuityIncidentClosureAnchorItem gs))"

text \<open>The counts and flags, before the class and the texts.\<close>

definition closure_flags ::
  "ContinuityIncidentFollowUpHistoryRollupSummary \<Rightarrow> anchorSignals list \<Rightarrow>
     ContinuityIncidentClosureSummary" where
  "closure_flags v gs =
     (let once = count_of (\<lambda>g. sg_reopenedAfterClosureCount g > 0) gs;
          loops = count_of (\<lambda>g. sg_reopenedAfterClosureCount g > 1) gs;
          stagnant = count_of stagnant_signals gs;
          still = (stagnant > 0 \<or> fv_AnchorsRepeatedWithoutProgression v > 0);
          weak = (once > 0 \<or> loops > 0 \<or> still \<or> fv_OpenAnchorsBehindLatestTransition v > 0);
          bare = (fv_AnchorsTriagedWithoutFollowUp v > 0) in
      \<lparr>kv_Class = ContinuityIncidentClosureNone, kv_Digest = [], kv_WindowAdvisory = [], kv_Detail = [],
       kv_BoundedWindow = fv_BoundedWindow v, kv_WindowSize = fv_WindowSize v,
       kv_DistinctAnchors = fv_DistinctAnchors v,
       kv_OperationallyUnresolved =
         (weak \<or> bare \<or> fv_AnchorsWithOpenFollowUp v > 0 \<or> fv_AnchorsReopened v > 0),
       kv_ClosureAppearsWeak = weak, kv_ReopenedAfterClosure = (once > 0), kv_RepeatedReopenLoop = (loops > 0),
       kv_StagnantProgression = still, kv_TriagedWithoutFollowUp = bare,
       kv_AnchorsWithOpenFollowUp = fv_AnchorsWithOpenFollowUp v, kv_AnchorsClosed = fv_AnchorsClosed v,
       kv_AnchorsReopened = fv_AnchorsReopened v,
       kv_AnchorsBehindLatestTransition = fv_OpenAnchorsBehindLatestTransition v,
       kv_AnchorsRepeatedWithoutProgression = fv_AnchorsRepeatedWithoutProgression v,
       kv_AnchorsTriagedWithoutFollowUp = fv_AnchorsTriagedWithoutFollowUp v,
       kv_ReopenedAfterClosureAnchors = once, kv_RepeatedReopenLoopAnchors = loops,
       kv_StagnantProgressionAnchors = stagnant, kv_RecentAnchors = recent_anchors gs\<rparr>)"

definition closure_verdict ::
  "ContinuityIncidentClosureSummary \<Rightarrow> ContinuityIncidentClosureClass \<times> string \<times> string list" where
  "closure_verdict y =
     (if kv_RepeatedReopenLoop y then (ContinuityIncidentClosureWeakLoop, ''closure loop signals'',
        [itoa (kv_RepeatedReopenLoopAnchors y)
          @ '' anchor(s) show repeated reopen-after-closure patterns in this bounded window''])
      else if kv_ReopenedAfterClosure y then (ContinuityIncidentClosureWeakReopened,
        ''closure reopened after close'', [itoa (kv_ReopenedAfterClosureAnchors y)
          @ '' anchor(s) were reopened after closure in this bounded window''])
      else if kv_StagnantProgression y then (ContinuityIncidentClosureWeakStagnant,
        ''follow-up progression stagnant'', [''follow-up progression appears stagnant in this bounded window''])
      else if kv_OperationallyUnresolved y
      then (ContinuityIncidentClosureOperationallyUnresolved, ''operationally unresolved'', [])
      else if kv_AnchorsClosed y > 0
      then (ContinuityIncidentClosureStableBounded, ''stable within bounded evidence'', [])
      else (ContinuityIncidentClosureNone, ''no closure intelligence signals'', []))"

definition closure_notes :: "ContinuityIncidentClosureSummary \<Rightarrow> string list" where
  "closure_notes y =
     counted (kv_AnchorsTriagedWithoutFollowUp y)
       '' triaged anchor(s) still have no follow-up receipts in this bounded window''
     @ counted (kv_AnchorsWithOpenFollowUp y)
       '' anchor(s) remain in open follow-up posture in this bounded window''
     @ counted (kv_AnchorsBehindLatestTransition y)
       '' open anchor(s) are behind the latest transition anchor in this bounded window''"

definition deriveContinuityIncidentClosureSummary ::
  "ContinuityIncidentFollowUpHistoryRollupSummary option \<Rightarrow> ContinuityIncidentFollowUpReceiptSummary list \<Rightarrow>
     ContinuityIncidentClosureSummary option" where
  "deriveContinuityIncidentClosureSummary rollup rs = map_option (\<lambda>v.
     let y = closure_flags v (closure_signals rs) in
     case closure_verdict y of (class', digest, ns) \<Rightarrow>
     let notes' = ns @ closure_notes y in
     y\<lparr>kv_Class := class', kv_Digest := digest,
       kv_WindowAdvisory := ''bounded window anchors='' @ itoa (kv_DistinctAnchors y)
         @ '' open='' @ itoa (kv_AnchorsWithOpenFollowUp y) @ '' closed='' @ itoa (kv_AnchorsClosed y)
         @ '' reopened='' @ itoa (kv_AnchorsReopened y)
         @ '' triaged-without-follow-up='' @ itoa (kv_AnchorsTriagedWithoutFollowUp y)
         @ '' repeated='' @ itoa (kv_AnchorsRepeatedWithoutProgression y)
         @ '' behind-latest='' @ itoa (kv_AnchorsBehindLatestTransition y),
       kv_Detail := (if kv_OperationallyUnresolved y
         then ''Recent bounded evidence suggests incident closure remains operationally unresolved.''
           @ (if notes' = [] then [] else '' '' @ str_join notes' ''; '' @ ''.'')
         else if class' = ContinuityIncidentClosureStableBounded
         then ''Recent bounded evidence does not show reopen or stagnation closure signals.''
         else ''No closure-intelligence signals were detected in this bounded window.'')\<rparr>) rollup"

section \<open>Follow-up of the latest incident\<close>

datatype ContinuityIncidentFollowUpState =
    ContinuityIncidentFollowUpNone
  | ContinuityIncidentFollowUpUntriaged
  | ContinuityIncidentFollowUpTriagedCurrent
  | ContinuityIncidentFollowUpNeedsFollowUp
  | ContinuityIncidentFollowUpDeferred
  | ContinuityIncidentFollowUpTriageBehindLatest
  | ContinuityIncidentFollowUpPending
  | ContinuityIncidentFollowUpProgressed
  | ContinuityIncidentFollowUpClosed
  | ContinuityIncidentFollowUpReopened

record ContinuityIncidentFollowUpSummary =
  iv_State :: ContinuityIncidentFollowUpState
  iv_Digest :: string
  iv_WindowAdvisory :: string
  iv_Advisory :: string
  iv_ClosureIntelligence :: "ContinuityIncidentClosureSummary option"
  iv_FollowUpAdvised :: bool
  iv_NeedsFollowUp :: bool
  iv_Deferred :: bool
  iv_TriageBehindLatest :: bool
  iv_TriagedUnderReviewRisk :: bool
  iv_LatestTransitionReceiptID :: EventID
  iv_LatestTriageReceiptID :: EventID
  iv_TriageAnchorReceiptID :: EventID
  iv_TriagePosture :: TriagePosture
  iv_LatestFollowUpReceiptID :: EventID
  iv_LatestFollowUpActionKind :: FollowUpActionKind
  iv_LatestFollowUpSummary :: string
  iv_LatestFollowUpAt :: go_time
  iv_FollowUpReceiptPresent :: bool
  iv_FollowUpOpen :: bool
  iv_FollowUpClosed :: bool
  iv_FollowUpReopened :: bool
  iv_FollowUpProgressed :: bool

text \<open>The ids of the latest records, with no flag raised yet.\<close>

definition follow_up_ids ::
  "ContinuityTransitionReceiptSummary option \<Rightarrow> ContinuityIncidentTriageReceiptSummary option \<Rightarrow>
     ContinuityIncidentFollowUpReceiptSummary option \<Rightarrow> ContinuityIncidentFollowUpSummary" where
  "follow_up_ids transition triage follow =
     \<lparr>iv_State = ContinuityIncidentFollowUpNone, iv_Digest = [], iv_WindowAdvisory = [], iv_Advisory = [],
      iv_ClosureIntelligence = None, iv_FollowUpAdvised = False, iv_NeedsFollowUp = False,
      iv_Deferred = False, iv_TriageBehindLatest = False, iv_TriagedUnderReviewRisk = False,
      iv_LatestTransitionReceiptID = (case transition of None \<Rightarrow> [] | Some x \<Rightarrow> tr_ReceiptID x),
      iv_LatestTriageReceiptID = (case triage of None \<Rightarrow> [] | Some x \<Rightarrow> tg_ReceiptID x),
      iv_TriageAnchorReceiptID = (case triage of None \<Rightarrow> [] | Some x \<Rightarrow> tg_AnchorTransitionReceiptID x),
      iv_TriagePosture = (case triage of None \<Rightarrow> PostureOther [] | Some x \<Rightarrow> tg_Posture x),
      iv_LatestFollowUpReceiptID = (case follow of None \<Rightarrow> [] | Some x \<Rightarrow> fu_ReceiptID x),
      iv_LatestFollowUpActionKind = (case follow of None \<Rightarrow> FollowUpActionOther [] | Some x \<Rightarrow> fu_ActionKind x),
      iv_LatestFollowUpSummary = (case follow of None \<Rightarrow> [] | Some x \<Rightarrow> fu_Summary x),
      iv_LatestFollowUpAt = (case follow of None \<Rightarrow> 0 | Some x \<Rightarrow> fu_CreatedAt x),
      iv_FollowUpReceiptPresent = (follow \<noteq> None), iv_FollowUpOpen = False, iv_FollowUpClosed = False,
      iv_FollowUpReopened = False, iv_FollowUpProgressed = False\<rparr>"

definition triaged_posture ::
  "ContinuityIncidentTriageReceiptSummary \<Rightarrow> ContinuityIncidentFollowUpSummary \<Rightarrow>
     ContinuityIncidentFollowUpSummary" where
  "triaged_posture g y =
     (if tg_Posture g = PostureNeedsFollowUp
      then y\<lparr>iv_State := ContinuityIncidentFollowUpNeedsFollowUp, iv_FollowUpAdvised := True,
        iv_NeedsFollowUp := True, iv_FollowUpOpen := True, iv_Advisory :=
        ''Latest continuity incident triage is marked NEEDS_FOLLOW_UP; operator follow-up is still advised.''\<rparr>
      else if tg_Posture g = PostureDeferred
      then y\<lparr>iv_State := ContinuityIncidentFollowUpDeferred, iv_FollowUpAdvised := True,
        iv_Deferred := True, iv_FollowUpOpen := True, iv_Advisory :=
        ''Latest continuity incident triage is DEFERRED; follow-up remains intentionally open.''\<rparr>
      else let y = y\<lparr>iv_State := ContinuityIncidentFollowUpTriagedCurrent\<rparr> in
        if ir_StaleOrUnreviewedReviewPosture (tg_Risk g) \<or> ir_SourceScopedReviewPosture (tg_Risk g)
        then y\<lparr>iv_TriagedUnderReviewRisk := True, iv_Advisory :=
          ''Latest continuity incident was triaged under stale or source-scoped retained transcript review posture.''\<rparr>
        else y\<lparr>iv_Advisory :=
          ''Latest continuity incident triage is current within retained evidence bounds.''\<rparr>)"

definition followed_up ::
  "FollowUpActionKind \<Rightarrow> ContinuityIncidentFollowUpSummary \<Rightarrow> ContinuityIncidentFollowUpSummary" where
  "followed_up k y = (case k of
     FollowUpActionRecordedPending \<Rightarrow> y\<lparr>iv_State := ContinuityIncidentFollowUpPending,
       iv_FollowUpAdvised := True, iv_NeedsFollowUp := True, iv_FollowUpOpen := True, iv_Advisory :=
       ''Latest incident follow-up receipt is RECORDED_PENDING; follow-up remains open.''\<rparr>
   | FollowUpActionProgressed \<Rightarrow> y\<lparr>iv_State := ContinuityIncidentFollowUpProgressed,
       iv_FollowUpAdvised := True, iv_NeedsFollowUp := True, iv_FollowUpProgressed := True,
       iv_FollowUpOpen := True, iv_Advisory :=
       ''Latest incident follow-up receipt is PROGRESSED; explicit closure remains open.''\<rparr>
   | FollowUpActionClosed \<Rightarrow> y\<lparr>iv_State := ContinuityIncidentFollowUpClosed,
       iv_FollowUpAdvised := False, iv_NeedsFollowUp := False, iv_Deferred := False,
       iv_FollowUpClosed := True, iv_FollowUpOpen := False, iv_Advisory :=
       ''Latest incident follow-up receipt is CLOSED within this bounded audit workflow.''\<rparr>
   | FollowUpActionReopened \<Rightarrow> y\<lparr>iv_State := ContinuityIncidentFollowUpReopened,
       iv_FollowUpAdvised := True, iv_NeedsFollowUp := True, iv_FollowUpReopened := True,
       iv_FollowUpOpen := True, iv_Advisory :=
       ''Latest incident follow-up receipt is REOPENED; follow-up remains explicitly open.''\<rparr>
   | FollowUpActionOther s \<Rightarrow> y)"

definition noted :: "string \<Rightarrow> ContinuityIncidentFollowUpSummary \<Rightarrow> ContinuityIncidentFollowUpSummary" where
  "noted note y = (if TrimSpace note \<noteq> []
     then y\<lparr>iv_Advisory := appendOperatorSentence (iv_Advisory y) (TrimSpace note)\<rparr> else y)"

definition deriveContinuityIncidentFollowUpSummary ::
  "ContinuityTransitionReceiptSummary option \<Rightarrow> ContinuityIncidentTriageReceiptSummary option \<Rightarrow>
     ContinuityIncidentFollowUpReceiptSummary option \<Rightarrow> ContinuityIncidentFollowUpSummary option" where
  "deriveContinuityIncidentFollowUpSummary transition triage follow =
     (let y = follow_up_ids transition triage follow in
      case transition of
        None \<Rightarrow> (case triage of None \<Rightarrow> None | Some g \<Rightarrow> Some (y\<lparr>iv_Advisory :=
          ''Continuity incident triage receipts are historical evidence only until a latest continuity transition anchor exists.''\<rparr>))
      | Some x \<Rightarrow> (case triage of
          None \<Rightarrow> Some (y\<lparr>iv_State := ContinuityIncidentFollowUpUntriaged, iv_FollowUpAdvised := True,
            iv_NeedsFollowUp := True, iv_Advisory :=
            ''Latest continuity incident has not been triaged yet; operator triage is advised before progression.''\<rparr>)
        | Some g \<Rightarrow> Some
           (if tg_AnchorTransitionReceiptID g \<noteq> tr_ReceiptID x
            then y\<lparr>iv_State := ContinuityIncidentFollowUpTriageBehindLatest, iv_FollowUpAdvised := True,
              iv_NeedsFollowUp := True, iv_TriageBehindLatest := True, iv_Advisory :=
              ''Latest continuity incident triage is anchored to '' @ tg_AnchorTransitionReceiptID g
              @ '' while newest transition is '' @ tr_ReceiptID x
              @ ''; triage the latest incident anchor for current audit closure.''\<rparr>
            else let y = triaged_posture g y in
              case follow of
                None \<Rightarrow> y
              | Some f \<Rightarrow> if fu_AnchorTransitionReceiptID f = tg_AnchorTransitionReceiptID g
                  then noted (fu_Summary f) (followed_up (fu_ActionKind f) y) else y)))"

definition followUpTriagedWithoutReceipt :: "ContinuityIncidentFollowUpSummary \<Rightarrow> bool" where
  "followUpTriagedWithoutReceipt y \<longleftrightarrow> \<not> iv_FollowUpReceiptPresent y
     \<and> iv_LatestTransitionReceiptID y \<noteq> [] \<and> iv_LatestTriageReceiptID y \<noteq> []
     \<and> iv_TriageAnchorReceiptID y \<noteq> []
     \<and> iv_TriageAnchorReceiptID y = iv_LatestTransitionReceiptID y"

definition continuityIncidentFollowUpRollupAdvisory ::
  "ContinuityIncidentFollowUpHistoryRollupSummary \<Rightarrow> string" where
  "continuityIncidentFollowUpRollupAdvisory v =
     (let ns = counted (fv_AnchorsTriagedWithoutFollowUp v)
            '' triaged anchor(s) have no follow-up receipt in this bounded window''
          @ counted (fv_AnchorsWithOpenFollowUp v)
            '' anchor(s) remain in open follow-up posture in this bounded window''
          @ counted (fv_AnchorsReopened v) '' anchor(s) were reopened in this bounded window''
          @ counted (fv_AnchorsRepeatedWithoutProgression v)
            '' anchor(s) show repeated follow-up progression without closure in this bounded window'' in
      if fv_WindowSize v \<le> 0 \<or> ns = [] then [] else str_join ns ''; '' @ ''.'')"

definition deriveContinuityIncidentFollowUpDigest :: "ContinuityIncidentFollowUpSummary \<Rightarrow> string" where
  "deriveContinuityIncidentFollowUpDigest y =
     (if followUpTriagedWithoutReceipt y then ''triaged without follow-up''
      else case iv_State y of
        ContinuityIncidentFollowUpNone \<Rightarrow> []
      | ContinuityIncidentFollowUpUntriaged \<Rightarrow> ''latest anchor untriaged''
      | ContinuityIncidentFollowUpTriageBehindLatest \<Rightarrow> ''triage behind latest anchor''
      | ContinuityIncidentFollowUpNeedsFollowUp \<Rightarrow> ''follow-up open''
      | ContinuityIncidentFollowUpDeferred \<Rightarrow> ''follow-up open''
      | ContinuityIncidentFollowUpPending \<Rightarrow> ''follow-up open''
      | ContinuityIncidentFollowUpProgressed \<Rightarrow> ''follow-up open''
      | ContinuityIncidentFollowUpReopened \<Rightarrow> ''follow-up reopened''
      | ContinuityIncidentFollowUpClosed \<Rightarrow> ''follow-up closed (audit only)''
      | ContinuityIncidentFollowUpTriagedCurrent \<Rightarrow> ''follow-up posture current'')"

definition deriveContinuityIncidentFollowUpWindowAdvisory ::
  "ContinuityIncidentFollowUpHistoryRollupSummary option \<Rightarrow> string" where
  "deriveContinuityIncidentFollowUpWindowAdvisory rollup = (case rollup of
     None \<Rightarrow> []
   | Some v \<Rightarrow>
     (let part = (\<lambda>name n. if n > 0 then [name @ itoa n] else []);
          ps = part ''triaged-without-follow-up='' (fv_AnchorsTriagedWithoutFollowUp v)
            @ part ''open='' (fv_AnchorsWithOpenFollowUp v) @ part ''reopened='' (fv_AnchorsReopened v)
            @ part ''repeated-progression='' (fv_AnchorsRepeatedWithoutProgression v) in
      if fv_WindowSize v \<le> 0 \<or> ps = [] then [] else ''bounded window '' @ str_join ps '' ''))"

definition closure_aware ::
  "ContinuityIncidentClosureSummary option \<Rightarrow> ContinuityIncidentFollowUpSummary \<Rightarrow>
     ContinuityIncidentFollowUpSummary" where
  "closure_aware closure y0 =
     (let y = y0\<lparr>iv_ClosureIntelligence := closure\<rparr> in
      case closure of
        None \<Rightarrow> y
      | Some c \<Rightarrow>
          let y = noted (kv_Detail c) y in
          if kv_OperationallyUnresolved c then y\<lparr>iv_FollowUpAdvised := True, iv_NeedsFollowUp := True\<rparr> else y)"

definition deriveFollowUpAwareAdvisory ::
  "ContinuityIncidentFollowUpSummary option \<Rightarrow> ContinuityIncidentFollowUpHistoryRollupSummary option \<Rightarrow>
     ContinuityIncidentFollowUpReceiptSummary list \<Rightarrow> ContinuityIncidentFollowUpSummary option" where
  "deriveFollowUpAwareAdvisory followUp rollup rs = map_option (\<lambda>y0.
     let y1 = (if followUpTriagedWithoutReceipt y0
           then y0\<lparr>iv_FollowUpAdvised := True, iv_NeedsFollowUp := True, iv_FollowUpOpen := True,
             iv_Advisory := appendOperatorSentence (iv_Advisory y0)
               ''Latest continuity incident anchor is triaged, but no follow-up receipt is recorded yet.''\<rparr>
           else y0);
         y2 = (case rollup of None \<Rightarrow> y1
           | Some v \<Rightarrow> y1\<lparr>iv_Advisory := append_note (iv_Advisory y1) (continuityIncidentFollowUpRollupAdvisory v)\<rparr>);
         y3 = closure_aware (deriveContinuityIncidentClosureSummary rollup rs) y2;
         y4 = (if iv_FollowUpClosed y3 then y3\<lparr>iv_Advisory := appendOperatorSentence (iv_Advisory y3)
             ''Follow-up closure is an audit marker only and does not certify correctness, completion, or resumability.''\<rparr>
           else y3) in
     y4\<lparr>iv_Digest := deriveContinuityIncidentFollowUpDigest y4,
        iv_WindowAdvisory := deriveContinuityIncidentFollowUpWindowAdvisory rollup\<rparr>) followUp"

section \<open>What the operator is told\<close>

definition follow_up_guidance :: "ContinuityIncidentFollowUpSummary \<Rightarrow> string \<Rightarrow> string" where
  "follow_up_guidance y base =
     (let base = (if TrimSpace (iv_Digest y) = [] then base
            else appendOperatorSentence base (''Follow-up advisory: '' @ TrimSpace (iv_Digest y)));
          base = append_note base (TrimSpace (iv_WindowAdvisory y)) in
      append_note base (TrimSpace (iv_Advisory y)))"

definition applyContinuityIncidentFollowUpToOperatorDecision ::
  "ContinuityIncidentFollowUpSummary option \<Rightarrow> OperatorDecisionSummary \<Rightarrow> OperatorDecisionSummary" where
  "applyContinuityIncidentFollowUpToOperatorDecision followUp s = (case followUp of
     None \<Rightarrow> s
   | Some y \<Rightarrow>
     (let note = od_IntegrityNote s;
          note = (if iv_FollowUpAdvised y then appendOperatorSentence note
            ''Continuity incident triage follow-up remains open; guidance is advisory and does not override authority constraints.''
            else note);
          note = (if iv_FollowUpClosed y then appendOperatorSentence note
            ''Incident follow-up closure remains bounded audit evidence and does not imply correctness or completion.''
            else note) in
      s\<lparr>od_Guidance := follow_up_guidance y (od_Guidance s), od_IntegrityNote := note\<rparr>))"

definition applyContinuityIncidentFollowUpToOperatorExecutionPlan ::
  "ContinuityIncidentFollowUpSummary option \<Rightarrow> OperatorExecutionPlan \<Rightarrow> OperatorExecutionPlan" where
  "applyContinuityIncidentFollowUpToOperatorExecutionPlan followUp p = (case followUp of
     None \<Rightarrow> p | Some y \<Rightarrow> on_primary (follow_up_guidance y) p)"

section \<open>Risk of a task\<close>

datatype ContinuityIncidentTaskRiskClass =
    ContinuityIncidentTaskRiskNone
  | ContinuityIncidentTaskRiskStableBounded
  | ContinuityIncidentTaskRiskRecurringWeakClosure
  | ContinuityIncidentTaskRiskRecurringUnresolved
  | ContinuityIncidentTaskRiskRecurringStagnantFollowUp
  | ContinuityIncidentTaskRiskRecurringTriagedNoFollowUp

record ContinuityIncidentTaskRiskSummary =
  xr_Class :: ContinuityIncidentTaskRiskClass
  xr_Digest :: string
  xr_WindowAdvisory :: string
  xr_Detail :: string
  xr_BoundedWindow :: bool
  xr_WindowSize :: int
  xr_DistinctAnchors :: int
  xr_RecurringWeakClosure :: bool
  xr_RecurringUnresolved :: bool
  xr_RecurringStagnantFollowUp :: bool
  xr_RecurringTriagedWithoutFollowUp :: bool
  xr_ReopenedAfterClosureAnchors :: int
  xr_RepeatedReopenLoopAnchors :: int
  xr_StagnantProgressionAnchors :: int
  xr_AnchorsTriagedWithoutFollowUp :: int
  xr_AnchorsWithOpenFollowUp :: int
  xr_AnchorsReopened :: int
  xr_OperationallyUnresolvedAnchorSignal :: int
  xr_RecentAnchorClasses :: "ContinuityIncidentClosureClass list"

definition recent_anchor_classes :: "ContinuityIncidentClosureAnchorItem list \<Rightarrow> ContinuityIncidentClosureClass list" where
  "recent_anchor_classes items = take 5 (sort_key ContinuityIncidentClosureClass_str
     (first_seen (filter (\<lambda>k. k \<noteq> ContinuityIncidentClosureNone) (map ka_Class items))))"

definition closure_risk :: "ContinuityIncidentClosureSummary \<Rightarrow> ContinuityIncidentTaskRiskSummary" where
  "closure_risk c =
     (let signal = kv_AnchorsWithOpenFollowUp c + kv_AnchorsReopened c + kv_AnchorsTriagedWithoutFollowUp c in
      \<lparr>xr_Class = ContinuityIncidentTaskRiskNone, xr_Digest = [], xr_WindowAdvisory = [], xr_Detail = [],
       xr_BoundedWindow = kv_BoundedWindow c, xr_WindowSize = kv_WindowSize c,
       xr_DistinctAnchors = kv_DistinctAnchors c,
       xr_RecurringWeakClosure =
         (kv_ReopenedAfterClosureAnchors c \<ge> 2 \<or> kv_RepeatedReopenLoopAnchors c \<ge> 1),
       xr_RecurringUnresolved =
         (kv_OperationallyUnresolved c \<and> kv_DistinctAnchors c \<ge> 2 \<and> signal \<ge> 2),
       xr_RecurringStagnantFollowUp =
         (kv_StagnantProgressionAnchors c \<ge> 2 \<or> kv_AnchorsRepeatedWithoutProgression c \<ge> 2),
       xr_RecurringTriagedWithoutFollowUp = (kv_AnchorsTriagedWithoutFollowUp c \<ge> 2),
       xr_ReopenedAfterClosureAnchors = kv_ReopenedAfterClosureAnchors c,
       xr_RepeatedReopenLoopAnchors = kv_RepeatedReopenLoopAnchors c,
       xr_StagnantProgressionAnchors = kv_StagnantProgressionAnchors c,
       xr_AnchorsTriagedWithoutFollowUp = kv_AnchorsTriagedWithoutFollowUp c,
       xr_AnchorsWithOpenFollowUp = kv_AnchorsWithOpenFollowUp c, xr_AnchorsReopened = kv_AnchorsReopened c,
       xr_OperationallyUnresolvedAnchorSignal = signal,
       xr_RecentAnchorClasses = recent_anchor_classes (kv_RecentAnchors c)\<rparr>)"

definition rollup_risk :: "ContinuityIncidentFollowUpHistoryRollupSummary \<Rightarrow> ContinuityIncidentTaskRiskSummary" where
  "rollup_risk v =
     \<lparr>xr_Class = ContinuityIncidentTaskRiskNone, xr_Digest = [], xr_WindowAdvisory = [], xr_Detail = [],
      xr_BoundedWindow = fv_BoundedWindow v, xr_WindowSize = fv_WindowSize v,
      xr_DistinctAnchors = fv_DistinctAnchors v, xr_RecurringWeakClosure = False,
      xr_RecurringUnresolved = False, xr_RecurringStagnantFollowUp = False,
      xr_RecurringTriagedWithoutFollowUp = (fv_AnchorsTriagedWithoutFollowUp v \<ge> 2),
      xr_ReopenedAfterClosureAnchors = 0, xr_RepeatedReopenLoopAnchors = 0, xr_StagnantProgressionAnchors = 0,
      xr_AnchorsTriagedWithoutFollowUp = fv_AnchorsTriagedWithoutFollowUp v,
      xr_AnchorsWithOpenFollowUp = fv_AnchorsWithOpenFollowUp v, xr_AnchorsReopened = fv_AnchorsReopened v,
      xr_OperationallyUnresolvedAnchorSignal =
        fv_AnchorsWithOpenFollowUp v + fv_AnchorsReopened v + fv_AnchorsTriagedWithoutFollowUp v,
      xr_RecentAnchorClasses = []\<rparr>"

definition risk_verdict ::
  "ContinuityIncidentClosureSummary option \<Rightarrow> ContinuityIncidentTaskRiskSummary \<Rightarrow>
     ContinuityIncidentTaskRiskClass \<times> string \<times> string" where
  "risk_verdict closure y =
     (if xr_RecurringWeakClosure y then (ContinuityIncidentTaskRiskRecurringWeakClosure,
        ''recurring continuity weakness in recent bounded evidence'',
        ''Recent bounded evidence suggests recurring weak closure posture across incidents.'')
      else if xr_RecurringStagnantFollowUp y then (ContinuityIncidentTaskRiskRecurringStagnantFollowUp,
        ''repeated stagnant follow-up posture in recent bounded evidence'',
        ''Recent bounded evidence suggests repeated stagnant follow-up progression across incidents.'')
      else if xr_RecurringTriagedWithoutFollowUp y then (ContinuityIncidentTaskRiskRecurringTriagedNoFollowUp,
        ''repeated triaged-without-follow-up posture in recent bounded evidence'',
        ''Recent bounded evidence suggests repeated triaged incidents still lack follow-up receipts.'')
      else if xr_RecurringUnresolved y then (ContinuityIncidentTaskRiskRecurringUnresolved,
        ''repeated unresolved incident posture in recent bounded evidence'',
        ''Recent bounded evidence suggests multiple unresolved incident postures across anchors.'')
      else if (case closure of None \<Rightarrow> False
          | Some c \<Rightarrow> kv_DistinctAnchors c > 0 \<and> \<not> kv_OperationallyUnresolved c)
      then (ContinuityIncidentTaskRiskStableBounded, ''stable bounded recent incident posture'',
        ''Recent bounded evidence suggests stable incident posture across recent anchors.'')
      else (ContinuityIncidentTaskRiskNone, ''no recurring incident-risk signals'',
        ''No recurring task-level incident-risk signals were detected in this bounded window.''))"

definition deriveContinuityIncidentTaskRiskSummary ::
  "ContinuityIncidentClosureSummary option \<Rightarrow> ContinuityIncidentFollowUpHistoryRollupSummary option \<Rightarrow>
     ContinuityIncidentTaskRiskSummary option" where
  "deriveContinuityIncidentTaskRiskSummary closure rollup =
     map_option (\<lambda>y. case risk_verdict closure y of (class', digest, detail) \<Rightarrow>
       y\<lparr>xr_Class := class', xr_Digest := digest, xr_Detail := detail,
         xr_WindowAdvisory := ''bounded incident window anchors='' @ itoa (xr_DistinctAnchors y)
           @ '' open='' @ itoa (xr_AnchorsWithOpenFollowUp y) @ '' reopened='' @ itoa (xr_AnchorsReopened y)
           @ '' triaged-without-follow-up='' @ itoa (xr_AnchorsTriagedWithoutFollowUp y)
           @ '' stagnant='' @ itoa (xr_StagnantProgressionAnchors y)\<rparr>)
     (case closure of Some c \<Rightarrow> Some (closure_risk c) | None \<Rightarrow> map_option rollup_risk rollup)"

section \<open>Requests\<close>

definition underscored :: "string \<Rightarrow> string" where
  "underscored raw = map (\<lambda>c. if c = CHR ''-'' then CHR ''_'' else c) (ToLower (TrimSpace raw))"

definition quoted :: "string \<Rightarrow> string" where
  "quoted raw = [CHR 0x22] @ raw @ [CHR 0x22]"

definition parseContinuityIncidentTriagePosture :: "string \<Rightarrow> go_error + TriagePosture" where
  "parseContinuityIncidentTriagePosture raw =
     (let s = underscored raw in
      if s = ''triaged'' then Inr PostureTriaged
      else if s = ''needs_follow_up'' then Inr PostureNeedsFollowUp
      else if s = ''deferred'' then Inr PostureDeferred
      else Inl (ErrMsg (''invalid posture '' @ quoted raw @ '' (expected triaged|needs_follow_up|deferred)'')))"

definition parseContinuityIncidentTriagePostureFilter :: "string \<Rightarrow> go_error + TriagePosture" where
  "parseContinuityIncidentTriagePostureFilter raw =
     (if TrimSpace raw = [] then Inr (PostureOther [])
      else case parseContinuityIncidentTriagePosture raw of
        Inr p \<Rightarrow> Inr p
      | Inl e \<Rightarrow> Inl (ErrMsg (''unsupported triage posture filter '' @ quoted raw
          @ '' (expected triaged|needs_follow_up|deferred)'')))"

definition parseContinuityIncidentFollowUpActionKind :: "string \<Rightarrow> go_error + FollowUpActionKind" where
  "parseContinuityIncidentFollowUpActionKind raw =
     (let s = underscored raw in
      if s \<in> {''recorded'', ''pending'', ''recorded_pending''} then Inr FollowUpActionRecordedPending
      else if s = ''progressed'' then Inr FollowUpActionProgressed
      else if s = ''closed'' then Inr FollowUpActionClosed
      else if s = ''reopened'' then Inr FollowUpActionReopened
      else Inl (ErrMsg (''invalid follow-up action '' @ quoted raw
        @ '' (expected recorded_pending|progressed|closed|reopened)'')))"

definition parseContinuityIncidentFollowUpActionFilter :: "string \<Rightarrow> go_error + FollowUpActionKind" where
  "parseContinuityIncidentFollowUpActionFilter raw =
     (if TrimSpace raw = [] then Inr (FollowUpActionOther [])
      else case parseContinuityIncidentFollowUpActionKind raw of
        Inr p \<Rightarrow> Inr p
      | Inl e \<Rightarrow> Inl (ErrMsg (''unsupported follow-up action filter '' @ quoted raw
          @ '' (expected recorded_pending|progressed|closed|reopened)'')))"

text \<open>Both summaries are trimmed and cut after 400 bytes.\<close>

definition normalizeContinuityIncidentTriageSummary :: "string \<Rightarrow> string" where
  "normalizeContinuityIncidentTriageSummary raw = take 400 (TrimSpace raw)"

definition followUpPostureFromTriagePosture :: "TriagePosture \<Rightarrow> FollowUpPosture" where
  "followUpPostureFromTriagePosture p =
     (if p = PostureNeedsFollowUp then FollowUpPostureAdvisory
      else if p = PostureDeferred then FollowUpPostureDeferred
      else FollowUpPostureNone)"

end
