(* ===== verification/Briefs.thy ===== *)
theory Briefs
  imports Coordinator
begin

text \<open>
  internal/orchestrator/compiled_brief.go and brief_builder.go: from a compiled intent (and,
  when a brief is regenerated, the previous brief) to the input of the brief builder, and the
  builder \<open>BriefBuilderV1\<close>. The SHA-256 of the JSON of the hashed fields is a parameter.
\<close>

section \<open>Lists of distinct non-blank texts\<close>

text \<open>\<open>dedupeNonEmpty\<close> (intent_stub.go): \<open>seen\<close> are the lower-cased texts already kept.\<close>

fun dedupe_from :: "nat \<Rightarrow> string list \<Rightarrow> string list \<Rightarrow> string list" where
  "dedupe_from room seen [] = []"
| "dedupe_from room seen (item # rest) =
     (let trimmed = TrimSpace item; key = ToLower trimmed in
      if trimmed = [] \<or> key \<in> set seen then dedupe_from room seen rest
      else if room \<le> 1 then [trimmed]
      else trimmed # dedupe_from (room - 1) (key # seen) rest)"

definition dedupeNonEmpty :: "string list \<Rightarrow> int \<Rightarrow> string list" where
  "dedupeNonEmpty values limit = (if limit \<le> 0 then [] else dedupe_from (nat limit) [] values)"

section \<open>Builder input\<close>

definition deriveBriefPostureFromIntent :: "IntentState \<Rightarrow> BriefPosture" where
  "deriveBriefPostureFromIntent i =
     (if i_RequiresClarification i \<or> i_ExecutionReadiness i = ReadinessClarificationNeeded
         \<or> i_Posture i = IntentPostureClarificationNeeded
         \<or> i_Posture i = IntentPostureExploratoryAmbiguous
      then BriefPostureClarificationNeeded
      else (case i_ExecutionReadiness i of
              ReadinessPlanningInProgress \<Rightarrow> BriefPosturePlanningOriented
            | ReadinessValidationFocused \<Rightarrow> BriefPostureValidationOriented
            | ReadinessRepairRecovery \<Rightarrow> BriefPostureRepairOriented
            | _ \<Rightarrow> BriefPostureExecutionReady))"

definition normalizedBriefPosture :: "BriefPosture \<Rightarrow> bool \<Rightarrow> BriefPosture" where
  "normalizedBriefPosture p requiresClarification =
     (if requiresClarification then BriefPostureClarificationNeeded
      else if p \<in> {BriefPostureExecutionReady, BriefPosturePlanningOriented,
        BriefPostureValidationOriented, BriefPostureRepairOriented} then p
      else BriefPostureClarificationNeeded)"

definition defaultDoneCriteriaForBriefPosture :: "BriefPosture \<Rightarrow> string list" where
  "defaultDoneCriteriaForBriefPosture p =
     (case p of
        BriefPosturePlanningOriented \<Rightarrow>
          [''Bounded execution plan is explicit and scoped for the immediate next step.'']
      | BriefPostureValidationOriented \<Rightarrow>
          [''Validation findings are recorded with bounded evidence and no overclaiming.'']
      | BriefPostureRepairOriented \<Rightarrow>
          [''Repair step and bounded evidence summary are produced for the targeted issue.'']
      | BriefPostureClarificationNeeded \<Rightarrow>
          [''Clarification questions are captured before execution claims are made.'']
      | _ \<Rightarrow> [''Execution step is bounded by explicit constraints and done criteria.''])"

definition defaultWorkerFramingForPosture :: "BriefPosture \<Rightarrow> bool \<Rightarrow> string" where
  "defaultWorkerFramingForPosture p requiresClarification =
     (if requiresClarification \<or> p = BriefPostureClarificationNeeded
      then ''Clarification-focused brief: do not fabricate missing requirements; surface unresolved questions before bounded execution.''
      else (case p of
        BriefPosturePlanningOriented \<Rightarrow>
          ''Planning-oriented brief: produce a bounded execution plan and explicit scope/constraint framing.''
      | BriefPostureValidationOriented \<Rightarrow>
          ''Validation-oriented brief: validate current state and report bounded evidence without overclaiming completion.''
      | BriefPostureRepairOriented \<Rightarrow>
          ''Repair-oriented brief: perform bounded repair/debug work and report concrete evidence.''
      | _ \<Rightarrow> ''Execution-ready brief: execute the bounded task scope using explicit constraints and done criteria.''))"

text \<open>The first text that is not blank, trimmed.\<close>

fun first_text :: "string list \<Rightarrow> string" where
  "first_text [] = []"
| "first_text (s # ss) = (if TrimSpace s \<noteq> [] then TrimSpace s else first_text ss)"

definition previousStringSlice :: "ExecutionBrief option \<Rightarrow> (ExecutionBrief \<Rightarrow> string list) \<Rightarrow> string list" where
  "previousStringSlice previous sel = (case previous of None \<Rightarrow> [] | Some b \<Rightarrow> sel b)"

definition previousText :: "ExecutionBrief option \<Rightarrow> (ExecutionBrief \<Rightarrow> string) \<Rightarrow> string" where
  "previousText previous sel = (case previous of None \<Rightarrow> [] | Some b \<Rightarrow> sel b)"

definition clarification_questions :: "IntentState \<Rightarrow> bool \<Rightarrow> string list" where
  "clarification_questions i required =
     (let qs = dedupeNonEmpty (i_ClarificationQuestions i) 6 in
      if required \<and> qs = []
      then [''What concrete bounded next step should this brief target?''] else qs)"

definition buildBriefInputV2 ::
  "WorkCapsule \<Rightarrow> IntentState \<Rightarrow> ExecutionBrief option \<Rightarrow> CapsuleVersion \<Rightarrow> BuildInput" where
  "buildBriefInputV2 caps i previous nextVersion =
     (let posture = deriveBriefPostureFromIntent i;
          action = first_text [i_NormalizedAction i, previousText previous b_NormalizedAction];
          scope = first_text [i_ScopeSummary i, previousText previous b_ScopeSummary];
          done = dedupeNonEmpty (i_DoneCriteria i @ previousStringSlice previous b_DoneCriteria) 8;
          required = (i_RequiresClarification i \<or> posture = BriefPostureClarificationNeeded)
      in \<lparr>bi_TaskID = c_TaskID caps, bi_IntentID = i_IntentID i, bi_CapsuleVersion = nextVersion,
          bi_Posture = posture,
          bi_Goal = first_text [i_Objective i, c_Goal caps, previousText previous b_Objective],
          bi_RequestedOutcome =
            first_text [i_RequestedOutcome i, previousText previous b_RequestedOutcome],
          bi_NormalizedAction = (if action = [] then ''prepare bounded next step'' else action),
          bi_ScopeSummary = (if scope = []
            then ''bounded scope not explicitly provided; operator clarification may improve execution targeting''
            else scope),
          bi_Constraints = dedupeNonEmpty (i_ExplicitConstraints i @ c_Constraints caps
            @ previousStringSlice previous b_Constraints) 16,
          bi_ScopeHints = (if c_TouchedFiles caps = [] then previousStringSlice previous b_ScopeIn
            else c_TouchedFiles caps),
          bi_ScopeOutHints = previousStringSlice previous b_ScopeOut,
          bi_DoneCriteria = (if done = [] then defaultDoneCriteriaForBriefPosture posture else done),
          bi_AmbiguityFlags = dedupeNonEmpty (i_AmbiguityFlags i) 8,
          bi_ClarificationQuestions = clarification_questions i required,
          bi_RequiresClarification = required,
          bi_WorkerFraming = defaultWorkerFramingForPosture posture required,
          bi_BoundedEvidenceMessages = i_BoundedEvidenceMessages i,
          bi_ContextPackID = previousText previous b_ContextPackID,
          bi_Verbosity = (case previous of
              Some b \<Rightarrow> (if Verbosity_str (b_Verbosity b) \<noteq> [] then b_Verbosity b else VerbosityStandard)
            | None \<Rightarrow> VerbosityStandard),
          bi_PolicyProfileID = (if TrimSpace (previousText previous b_PolicyProfileID) \<noteq> []
            then previousText previous b_PolicyProfileID else ''default-safe-v1'')\<rparr>)"

section \<open>BriefBuilderV1\<close>

text \<open>The defaults the builder fills in before hashing.\<close>

definition brief_payload :: "BuildInput \<Rightarrow> BuildInput" where
  "brief_payload b =
     (let posture = (if BriefPosture_str (bi_Posture b) = [] then BriefPostureClarificationNeeded
            else bi_Posture b);
          scope = TrimSpace (bi_ScopeSummary b);
          framing = TrimSpace (bi_WorkerFraming b) in
      b\<lparr>bi_Posture := posture,
        bi_ScopeSummary := (if scope = [] then ''bounded scope not explicitly provided'' else scope),
        bi_WorkerFraming := (if framing = []
          then defaultWorkerFramingForPosture posture (bi_RequiresClarification b) else framing)\<rparr>)"

definition brief_objective :: "BuildInput \<Rightarrow> string" where
  "brief_objective b =
     (let o1 = first_text [bi_Goal b, bi_NormalizedAction b] in
      if o1 = [] then ''Clarify and bound the next execution step from current task intent.'' else o1)"

text \<open>\<open>hash\<close> is the hexadecimal SHA-256 of the JSON of version 2 and the payload's fields.\<close>

definition BriefBuilderV1_Build ::
  "(BuildInput \<Rightarrow> string) \<Rightarrow> BriefID \<Rightarrow> go_time \<Rightarrow> BuildInput \<Rightarrow> ExecutionBrief" where
  "BriefBuilderV1_Build hash newID now b =
     (let p = brief_payload b in
      \<lparr>b_Version = 2, b_BriefID = newID, b_TaskID = bi_TaskID b, b_IntentID = bi_IntentID b,
       b_CapsuleVersion = bi_CapsuleVersion b, b_CreatedAt = now, b_Posture = bi_Posture p,
       b_Objective = brief_objective b, b_RequestedOutcome = TrimSpace (bi_RequestedOutcome b),
       b_NormalizedAction = bi_NormalizedAction b, b_ScopeSummary = bi_ScopeSummary p,
       b_ScopeIn = bi_ScopeHints b, b_ScopeOut = bi_ScopeOutHints b,
       b_Constraints = bi_Constraints b, b_DoneCriteria = bi_DoneCriteria b,
       b_AmbiguityFlags = bi_AmbiguityFlags b,
       b_ClarificationQuestions = bi_ClarificationQuestions b,
       b_RequiresClarification = bi_RequiresClarification b,
       b_WorkerFraming = bi_WorkerFraming p,
       b_BoundedEvidenceMessages = bi_BoundedEvidenceMessages b,
       b_ContextPackID = bi_ContextPackID b, b_Verbosity = bi_Verbosity b,
       b_PolicyProfileID = bi_PolicyProfileID b, b_BriefHash = hash p\<rparr>)"

section \<open>Laws\<close>

lemma dedupe_from_kept:
  assumes "room \<ge> 1" and "seen' = set seen"
  shows "length (dedupe_from room seen xs) \<le> room
    \<and> distinct (map ToLower (dedupe_from room seen xs))
    \<and> ToLower ` set (dedupe_from room seen xs) \<inter> seen' = {}
    \<and> (\<forall>y \<in> set (dedupe_from room seen xs). y \<noteq> [] \<and> y \<in> TrimSpace ` set xs)
    \<and> (length (dedupe_from room seen xs) < room \<longrightarrow>
        (\<forall>x \<in> set xs. TrimSpace x \<noteq> [] \<longrightarrow>
           ToLower (TrimSpace x) \<in> ToLower ` set (dedupe_from room seen xs) \<union> seen'))"
  using assms
proof (induction room seen xs arbitrary: seen' rule: dedupe_from.induct)
  case (2 room seen item rest)
  let ?t = "TrimSpace item"
  show ?case
  proof (cases "?t = [] \<or> ToLower ?t \<in> set seen")
    case True
    then show ?thesis using 2(1)[OF refl refl True 2(3) refl] 2(4) by (auto simp: Let_def)
  next
    case new: False
    show ?thesis
    proof (cases "room \<le> 1")
      case True
      then show ?thesis using new 2(3,4) by (auto simp: Let_def)
    next
      case False
      have "1 \<le> room - 1" using False by simp
      from 2(2)[OF refl refl new False this refl] show ?thesis
        using new False 2(4) by (auto simp: Let_def)
    qed
  qed
qed simp

text \<open>
  For a positive limit the deduplicated list is at most that long, holds only trimmed,
  non-blank texts of the input, no two of them equal up to ASCII case, and unless the limit
  was reached every non-blank input text is represented in it.
\<close>

theorem dedupeNonEmpty_spec:
  assumes "limit > 0"
  shows "int (length (dedupeNonEmpty xs limit)) \<le> limit
    \<and> distinct (map ToLower (dedupeNonEmpty xs limit))
    \<and> set (dedupeNonEmpty xs limit) \<subseteq> TrimSpace ` set xs - {[]}
    \<and> (int (length (dedupeNonEmpty xs limit)) < limit \<longrightarrow>
        (\<lambda>x. ToLower (TrimSpace x)) ` {x \<in> set xs. TrimSpace x \<noteq> []}
          \<subseteq> ToLower ` set (dedupeNonEmpty xs limit))"
proof -
  have "1 \<le> nat limit" using assms by simp
  note k = dedupe_from_kept[OF this refl, of "[]" xs]
  then show ?thesis using assms
    by (auto simp: dedupeNonEmpty_def image_subset_iff nat_less_iff zless_nat_eq_int_zless)
qed

theorem dedupeNonEmpty_spec_witness:
  "distinct (map ToLower (dedupeNonEmpty [''a'', ''A'', ''b''] 2))"
  using dedupeNonEmpty_spec[of 2 "[''a'', ''A'', ''b'']"] by simp

lemma first_text_nonblank: "first_text ss = [] \<longleftrightarrow> (\<forall>s \<in> set ss. TrimSpace s = [])"
  by (induction ss) auto

lemma posture_str_nonempty [simp]: "BriefPosture_str (deriveBriefPostureFromIntent i) \<noteq> []"
  by (simp add: deriveBriefPostureFromIntent_def split: Readiness.split)

lemma criteria_nonempty [simp]: "defaultDoneCriteriaForBriefPosture p \<noteq> []"
  by (simp add: defaultDoneCriteriaForBriefPosture_def split: BriefPosture.split)

definition brief_ok :: "ExecutionBrief \<Rightarrow> bool" where
  "brief_ok b \<longleftrightarrow>
     (b_RequiresClarification b \<longleftrightarrow> b_Posture b = BriefPostureClarificationNeeded)
     \<and> \<not> (b_RequiresClarification b \<and> b_ClarificationQuestions b = [])
     \<and> normalizedBriefPosture (b_Posture b) (b_RequiresClarification b) = b_Posture b
     \<and> b_Objective b \<noteq> [] \<and> b_NormalizedAction b \<noteq> [] \<and> b_ScopeSummary b \<noteq> []
     \<and> b_DoneCriteria b \<noteq> [] \<and> b_WorkerFraming b \<noteq> []"

lemma framing_trim [simp]: "defaultWorkerFramingForPosture p r \<noteq> []"
  by (simp add: defaultWorkerFramingForPosture_def split: BriefPosture.split)

lemma objective_text [simp]: "brief_objective b \<noteq> []"
  by (simp add: brief_objective_def Let_def del: first_text.simps)

lemma payload_text [simp]:
  "bi_ScopeSummary (brief_payload b) \<noteq> []" "bi_WorkerFraming (brief_payload b) \<noteq> []"
  by (simp_all add: brief_payload_def Let_def)

lemma input_done [simp]: "bi_DoneCriteria (buildBriefInputV2 caps i previous v) \<noteq> []"
  by (simp add: buildBriefInputV2_def Let_def)

lemma input_action [simp]: "bi_NormalizedAction (buildBriefInputV2 caps i previous v) \<noteq> []"
  by (simp add: buildBriefInputV2_def Let_def del: first_text.simps)

text \<open>
  C22. A brief built from an intent asks for clarification exactly when its posture is
  CLARIFICATION_NEEDED, and then carries at least one question; its posture survives the
  reader's normalisation, so it is one of the five named ones; its objective, action, scope,
  done criteria and framing are never empty, and it names the task, the intent and the capsule
  version it was built for.
\<close>

theorem built_brief_ok:
  "brief_ok (BriefBuilderV1_Build hash newID now (buildBriefInputV2 caps i previous v))
   \<and> b_TaskID (BriefBuilderV1_Build hash newID now (buildBriefInputV2 caps i previous v)) = c_TaskID caps
   \<and> b_IntentID (BriefBuilderV1_Build hash newID now (buildBriefInputV2 caps i previous v)) = i_IntentID i
   \<and> b_CapsuleVersion (BriefBuilderV1_Build hash newID now (buildBriefInputV2 caps i previous v)) = v"
proof -
  let ?in = "buildBriefInputV2 caps i previous v"
  let ?p = "deriveBriefPostureFromIntent i"
  have posture: "bi_Posture (brief_payload ?in) = ?p" "bi_Posture ?in = ?p"
    by (simp_all add: brief_payload_def buildBriefInputV2_def Let_def)
  have req: "bi_RequiresClarification ?in \<longleftrightarrow> ?p = BriefPostureClarificationNeeded"
    by (auto simp: buildBriefInputV2_def Let_def deriveBriefPostureFromIntent_def)
  have qs: "bi_RequiresClarification ?in \<Longrightarrow> bi_ClarificationQuestions ?in \<noteq> []"
    by (simp add: buildBriefInputV2_def Let_def clarification_questions_def)
  have norm: "normalizedBriefPosture ?p (bi_RequiresClarification ?in) = ?p"
    unfolding req by (auto simp: normalizedBriefPosture_def deriveBriefPostureFromIntent_def
        split: Readiness.split)
  have ids: "bi_TaskID ?in = c_TaskID caps" "bi_IntentID ?in = i_IntentID i" "bi_CapsuleVersion ?in = v"
    by (simp_all add: buildBriefInputV2_def Let_def del: first_text.simps)
  show ?thesis
    using req qs norm
    by (simp add: brief_ok_def BriefBuilderV1_Build_def Let_def posture ids)
qed

end
