(* ===== verification/Tasks.thy ===== *)
theory Tasks
  imports Briefs
begin

text \<open>
  internal/orchestrator/service.go: the operations that start a task, take a message and
  capture a manual checkpoint. Each is one transaction; messages and manual checkpoints are
  first refused when a Claude handoff owns the continuity of the task.
\<close>

section \<open>StartTask\<close>

record StartTaskResult =
  st_TaskID :: TaskID
  st_ConversationID :: ConversationID
  st_Phase :: Phase
  st_CanonicalResponse :: string
  st_RepoAnchor :: Snapshot

definition new_capsule ::
  "TaskID \<Rightarrow> ConversationID \<Rightarrow> go_time \<Rightarrow> string \<Rightarrow> Snapshot \<Rightarrow> WorkCapsule" where
  "new_capsule taskID convID now goal anchor =
     \<lparr>c_TaskID = taskID, c_ConversationID = convID, c_Version = 1, c_CreatedAt = now,
      c_UpdatedAt = now, c_Goal = TrimSpace goal, c_AcceptanceCriteria = [], c_Constraints = [],
      c_RepoRoot = g_RepoRoot anchor, c_WorktreePath = g_RepoRoot anchor,
      c_BranchName = g_Branch anchor, c_HeadSHA = g_HeadSHA anchor,
      c_WorkingTreeDirty = g_WorkingTreeDirty anchor, c_AnchorCapturedAt = g_CapturedAt anchor,
      c_CurrentPhase = PhaseIntake, c_Status = ''ACTIVE'', c_CurrentIntentID = [],
      c_CurrentBriefID = [], c_TouchedFiles = [], c_Blockers = [],
      c_NextAction = ''Await user message for intent interpretation'', c_ParentTaskID = None,
      c_ChildTaskIDs = [], c_EdgeRefs = []\<rparr>"

definition start_text :: string where
  "start_text = ''Tuku task initialized. Repo anchor captured. I am tracking canonical task state and evidence. Send your first implementation instruction to generate an execution brief.''"

definition start_root :: "string \<Rightarrow> string" where
  "start_root repoRoot =
     filepath_Clean (if TrimSpace repoRoot = [] then ''.'' else TrimSpace repoRoot)"

definition StartTask :: "Deps \<Rightarrow> string \<Rightarrow> string \<Rightarrow> StartTaskResult op" where
  "StartTask E goal repoRoot = withTx (
     bnd (clock E) (\<lambda>now.
     bnd (idGenerator E ''tsk'') (\<lambda>taskID.
     bnd (idGenerator E ''conv'') (\<lambda>convID.
     bnd (captureAnchor E (start_root repoRoot)) (\<lambda>anchor.
     let caps = new_capsule taskID convID now goal anchor in
     seq (db_write (capsules_Create caps))
     (seq (phase_event E caps ''task created'' None)
     (seq (emitCanonicalConversation E caps start_text [(''summary'', PStr ''task initialized'')] None)
     (ret \<lparr>st_TaskID = taskID, st_ConversationID = convID, st_Phase = c_CurrentPhase caps,
           st_CanonicalResponse = start_text, st_RepoAnchor = anchor\<rparr>))))))))"

section \<open>MessageTask\<close>

record MessageTaskResult =
  mt_TaskID :: TaskID
  mt_Phase :: Phase
  mt_IntentClass :: IntentClass
  mt_BriefID :: BriefID
  mt_BriefHash :: string
  mt_CanonicalResponse :: string
  mt_RepoAnchor :: Snapshot

definition brief_next_action :: "BriefPosture \<Rightarrow> string" where
  "brief_next_action p =
     (case p of
        BriefPostureClarificationNeeded \<Rightarrow> ''Execution brief is clarification-needed. Refine scope/objective or continue with bounded planning before execution.''
      | BriefPosturePlanningOriented \<Rightarrow> ''Execution brief is planning-oriented. Validate scope/constraints, then execute the next bounded step.''
      | BriefPostureValidationOriented \<Rightarrow> ''Execution brief is validation-oriented. Run bounded validation and record evidence.''
      | BriefPostureRepairOriented \<Rightarrow> ''Execution brief is repair-oriented. Execute bounded repair work and record evidence.''
      | _ \<Rightarrow> ''Execution brief is ready. Start a run with `tuku run --task <id>`.'')"

definition compile_input :: "WorkCapsule \<Rightarrow> string \<Rightarrow> Message list \<Rightarrow> CompileInput" where
  "compile_input caps message recent =
     \<lparr>ci_TaskID = c_TaskID caps, ci_LatestMessage = message,
      ci_RecentMessages = map m_Body recent, ci_CurrentPhase = c_CurrentPhase caps,
      ci_CurrentBlockers = c_Blockers caps, ci_CurrentGoal = c_Goal caps,
      ci_RepoAnchorSummary = ''repo='' @ c_RepoRoot caps @ '' branch='' @ c_BranchName caps
        @ '' head='' @ c_HeadSHA caps @ '' dirty='' @ btoa (c_WorkingTreeDirty caps)\<rparr>"

definition intent_payload :: "IntentState \<Rightarrow> (string \<times> pval) list" where
  "intent_payload i =
     [(''intent_id'', PStr (i_IntentID i)), (''class'', PStr (IntentClass_str (i_Class i))),
      (''normalized_action'', PStr (i_NormalizedAction i)), (''confidence'', PInt (i_Confidence i))]"

definition brief_payload_of :: "ExecutionBrief \<Rightarrow> IntentState \<Rightarrow> (string \<times> pval) list" where
  "brief_payload_of b i =
     [(''brief_id'', PStr (b_BriefID b)), (''brief_hash'', PStr (b_BriefHash b)),
      (''intent_id'', PStr (i_IntentID i)),
      (''brief_posture'', PStr (BriefPosture_str (b_Posture b))),
      (''requires_clarification'', PBool (b_RequiresClarification b)),
      (''bounded_evidence_messages'', PInt (b_BoundedEvidenceMessages b))]"

text \<open>The capsule once the brief is stored.\<close>

definition with_brief :: "ExecutionBrief \<Rightarrow> WorkCapsule \<Rightarrow> WorkCapsule" where
  "with_brief b c = c\<lparr>c_CurrentBriefID := b_BriefID b, c_CurrentPhase := PhaseBriefReady,
     c_NextAction := brief_next_action (b_Posture b)\<rparr>"

definition message_tx :: "Deps \<Rightarrow> TaskID \<Rightarrow> string \<Rightarrow> MessageTaskResult op" where
  "message_tx E taskID message = withTx (
     bnd (db_read (capsules_Get taskID)) (\<lambda>caps0.
     bnd (clock E) (\<lambda>now.
     bnd (captureAnchor E (c_RepoRoot caps0)) (\<lambda>anchor.
     let caps1 = with_anchor anchor caps0 in
     bnd (idGenerator E ''msg'') (\<lambda>mid.
     seq (db_write (messages_Append
       \<lparr>m_MessageID = mid, m_ConversationID = c_ConversationID caps1, m_TaskID = c_TaskID caps1,
        m_Role = RoleUser, m_Body = message, m_CreatedAt = now\<rparr>))
     (seq (appendProof E caps1 EventUserMessageReceived ActorUser ''user''
       [(''message_id'', PStr mid)] None)
     (bnd (gets (\<lambda>w. messages_ListRecent (c_ConversationID caps1) 12 (w_db w))) (\<lambda>recent.
     bnd (bnd (tick (\<lambda>n. d_compile E n (compile_input caps1 message recent))) lift_res) (\<lambda>intent0.
     let intent = intent0\<lparr>i_SourceMessageIDs := [mid]\<rparr> in
     seq (db_write (intents_Save intent))
     (let caps2 = (bumped now caps1)\<lparr>c_CurrentIntentID := i_IntentID intent,
            c_CurrentPhase := i_ProposedPhase intent\<rparr> in
     seq (appendProof E caps2 EventIntentCompiled ActorSystem ''tuku-intent-stub''
       (intent_payload intent) None)
     (bnd (bnd (tick (\<lambda>n. d_build E n (buildBriefInputV2 caps2 intent None (c_Version caps2)))) lift_res) (\<lambda>b.
     seq (db_write (briefs_Save b))
     (let caps3 = with_brief b caps2 in
     seq (db_write (capsules_Update caps3))
     (seq (appendProof E caps3 EventBriefCreated ActorSystem ''tuku-brief-builder''
       (brief_payload_of b intent) None)
     (seq (phase_event E caps3 ''intent and brief prepared'' None)
     (bnd (gets (\<lambda>w. proofs_ListByTask (c_TaskID caps3) 10 (w_db w))) (\<lambda>events.
     bnd (synthesize E caps3 events) (\<lambda>text.
     seq (emitCanonicalConversation E caps3 text
       [(''intent_id'', PStr (i_IntentID intent)), (''brief_id'', PStr (b_BriefID b))] None)
     (ret \<lparr>mt_TaskID = c_TaskID caps3, mt_Phase = c_CurrentPhase caps3,
           mt_IntentClass = i_Class intent, mt_BriefID = b_BriefID b, mt_BriefHash = b_BriefHash b,
           mt_CanonicalResponse = text, mt_RepoAnchor = anchor\<rparr>)))))))))))))))))))"

definition MessageTask :: "Deps \<Rightarrow> TaskID \<Rightarrow> string \<Rightarrow> MessageTaskResult op" where
  "MessageTask E taskID message =
     seq (guard_mutation E taskID ''compile a new local execution brief'')
     (message_tx E taskID message)"

section \<open>CreateCheckpoint\<close>

record CreateCheckpointResult =
  cc_TaskID :: TaskID
  cc_CheckpointID :: CheckpointID
  cc_Trigger :: Trigger
  cc_IsResumable :: bool
  cc_CanonicalResponse :: string

definition manual_resumable :: "WorkCapsule \<Rightarrow> bool" where
  "manual_resumable c \<longleftrightarrow> c_CurrentBriefID c \<noteq> [] \<and> c_CurrentPhase c \<noteq> PhaseBlocked
     \<and> c_CurrentPhase c \<noteq> PhaseAwaitingDecision"

definition manual_text :: "WorkCapsule \<Rightarrow> Checkpoint \<Rightarrow> bool \<Rightarrow> string" where
  "manual_text caps cp resumable =
     (if resumable
      then ''Manual checkpoint '' @ k_CheckpointID cp @ '' captured. Task is resumable from branch ''
        @ c_BranchName caps @ '' (head '' @ c_HeadSHA caps @ '').''
      else ''Manual checkpoint '' @ k_CheckpointID cp @ '' captured on branch '' @ c_BranchName caps
        @ '' (head '' @ c_HeadSHA caps @ ''), but direct resume is not currently ready.'')"

definition checkpoint_tx :: "Deps \<Rightarrow> TaskID \<Rightarrow> CreateCheckpointResult op" where
  "checkpoint_tx E taskID = withTx (
     bnd (db_read (capsules_Get taskID)) (\<lambda>caps0.
     bnd (captureAnchor E (c_RepoRoot caps0)) (\<lambda>anchor.
     bnd (clock E) (\<lambda>now.
     let caps = bumped now (with_anchor anchor caps0); resumable = manual_resumable caps in
     seq (db_write (capsules_Update caps))
     (bnd (createCheckpoint E caps [] TriggerManual resumable
       (if resumable then ''Manual checkpoint captured for deterministic continue.''
        else ''Manual checkpoint captured for recovery inspection; direct resume is not currently ready.''))
       (\<lambda>cp.
     seq (emitCanonicalConversation E caps (manual_text caps cp resumable)
       [(''checkpoint_id'', PStr (k_CheckpointID cp)), (''trigger'', PStr (Trigger_str (k_Trigger cp))),
        (''is_resumable'', PBool (k_IsResumable cp))] None)
     (ret \<lparr>cc_TaskID = c_TaskID caps, cc_CheckpointID = k_CheckpointID cp,
           cc_Trigger = k_Trigger cp, cc_IsResumable = k_IsResumable cp,
           cc_CanonicalResponse = manual_text caps cp resumable\<rparr>)))))))"

definition CreateCheckpoint :: "Deps \<Rightarrow> TaskID \<Rightarrow> CreateCheckpointResult op" where
  "CreateCheckpoint E taskID =
     seq (guard_mutation E taskID ''capture a new local checkpoint'') (checkpoint_tx E taskID)"

end
