(* ===== verification/Runs.thy ===== *)
theory Runs
  imports Tasks
begin

text \<open>
  internal/orchestrator/service.go: RunTask. A placeholder run lives in one transaction per
  action (start, complete, interrupt); a real run is prepared in a first transaction, executed
  by the worker adapter outside any transaction and finalized in a second one. The worker
  adapter is a parameter; \<open>None\<close> is an unconfigured one.
\<close>

section \<open>Requests and results\<close>

record RunTaskRequest =
  rq_TaskID :: TaskID
  rq_Action :: string
  rq_Mode :: string
  rq_RunID :: RunID
  rq_ShellSessionID :: string
  rq_SimulateInterrupt :: bool
  rq_InterruptionReason :: string

record RunTaskResult =
  rt_TaskID :: TaskID
  rt_RunID :: RunID
  rt_RunStatus :: RunStatus
  rt_Phase :: Phase
  rt_CanonicalResponse :: string

record ContextPack =
  cp_TaskID :: TaskID
  cp_Mode :: string
  cp_RepoAnchorHash :: string
  cp_FreshnessState :: string
  cp_IncludedFiles :: "string list"
  cp_SelectionRationale :: "string list"
  cp_CreatedAt :: go_time

record ExecutionRequest =
  xq_RunID :: RunID
  xq_TaskID :: TaskID
  xq_Worker :: WorkerKind
  xq_Brief :: ExecutionBrief
  xq_ContextPack :: ContextPack
  xq_RepoAnchor :: RepoAnchor
  xq_PolicyProfileID :: string
  xq_AgentsChecksum :: string
  xq_AgentsInstructions :: string
  xq_ContextSummary :: string

record ExecutionResult =
  x_WorkerRunID :: string
  x_ExitCode :: int
  x_StartedAt :: go_time
  x_EndedAt :: go_time
  x_Command :: string
  x_Args :: "string list"
  x_Stdout :: string
  x_Stderr :: string
  x_ChangedFiles :: "string list"
  x_ChangedFilesSemantics :: string
  x_ValidationSignals :: "string list"
  x_OutputArtifactRef :: string
  x_Summary :: string
  x_StructuredSummary :: string
  x_ErrorMessage :: string

text \<open>
  The adapter's error: whether \<open>errors.Is\<close> finds \<open>context.Canceled\<close> or
  \<open>context.DeadlineExceeded\<close> in it, and its text.
\<close>

record exec_error =
  xe_Canceled :: bool
  xe_Text :: string

type_synonym worker = "(nat \<Rightarrow> ExecutionRequest \<Rightarrow> ExecutionResult \<times> exec_error option) option"

record preparedRealRun =
  p_TaskID :: TaskID
  p_RunID :: RunID
  p_Brief :: ExecutionBrief
  p_Capsule :: WorkCapsule

section \<open>Texts\<close>

text \<open>
  \<open>truncate\<close> cuts after a number of code points; on UTF-8 a code point starts at every byte
  that is not a continuation byte (10xxxxxx).
\<close>

definition continuation_byte :: "char \<Rightarrow> bool" where
  "continuation_byte c \<longleftrightarrow> digit7 c \<and> \<not> digit6 c"

definition rune_count :: "string \<Rightarrow> nat" where
  "rune_count s = length (filter (\<lambda>c. \<not> continuation_byte c) s)"

fun take_runes :: "nat \<Rightarrow> string \<Rightarrow> string" where
  "take_runes n [] = []"
| "take_runes n (c # s) =
     (if continuation_byte c then c # take_runes n s
      else (case n of 0 \<Rightarrow> [] | Suc m \<Rightarrow> c # take_runes m s))"

definition truncate_text :: "string \<Rightarrow> nat \<Rightarrow> string" where
  "truncate_text s n =
     (if n = 0 then [] else if rune_count s \<le> n then s else take_runes n s @ ''...(truncated)'')"

text \<open>\<open>UnixMilli\<close> of a time counted in nanoseconds from the zero time, 1 January of year 1.\<close>

definition unix_ms :: "go_time \<Rightarrow> int" where
  "unix_ms t = t div 1000000 - 62135596800000"

definition hexdigits :: string where
  "hexdigits = ''0123456789abcdef''"

definition hexString :: "string \<Rightarrow> string" where
  "hexString bytes = concat (map (\<lambda>b.
     [hexdigits ! (of_char b div 16), hexdigits ! (of_char b mod 16)]) bytes)"

definition agents_path :: "string \<Rightarrow> string" where
  "agents_path root = filepath_Clean (if root = [] then ''AGENTS.md'' else root @ ''/'' @ ''AGENTS.md'')"

text \<open>Checksum of AGENTS.md and its first six non-blank lines; both empty when it cannot be read.\<close>

definition agentsMetadata :: "Deps \<Rightarrow> string \<Rightarrow> (string \<times> string) op" where
  "agentsMetadata E root = tick (\<lambda>n.
     case d_readFile E n (agents_path root) of
       None \<Rightarrow> ([], [])
     | Some text \<Rightarrow> (hexString (d_sha256 E text),
         str_join (take 6 (filter (\<lambda>l. l \<noteq> []) (map TrimSpace (split_char (CHR 0x0A) text)))) '' | ''))"

section \<open>Refused starts\<close>

definition missing_brief_text :: string where
  "missing_brief_text = ''Execution cannot start yet because no execution brief is available. Send a task message first so Tuku can compile intent and create a brief.''"

text \<open>A start that is refused: a message to the task, a FAILED result and no run.\<close>

definition refuse_run ::
  "Deps \<Rightarrow> WorkCapsule \<Rightarrow> string \<Rightarrow> (string \<times> pval) list \<Rightarrow> RunTaskResult op" where
  "refuse_run E caps text payload =
     seq (emitCanonicalConversation E caps text payload None)
     (ret \<lparr>rt_TaskID = c_TaskID caps, rt_RunID = [], rt_RunStatus = RunStatusFailed,
           rt_Phase = c_CurrentPhase caps, rt_CanonicalResponse = text\<rparr>)"

definition gate_payload :: "RecoveryAssessment \<Rightarrow> (string \<times> pval) list" where
  "gate_payload r =
     [(''reason'', PStr ''recovery_gate_blocked''),
      (''recovery_class'', PStr (RecoveryClass_str (rv_RecoveryClass r))),
      (''recommended_action'', PStr (RecoveryAction_str (rv_RecommendedAction r))),
      (''ready_for_next_run'', PBool (rv_ReadyForNextRun r)),
      (''ready_for_handoff_launch'', PBool (rv_ReadyForHandoffLaunch r)),
      (''recovery_reason'', PStr (rv_Reason r))]"

definition chosen_run_id :: "Deps \<Rightarrow> RunTaskRequest \<Rightarrow> RunID op" where
  "chosen_run_id E req = (if rq_RunID req = [] then idGenerator E ''run'' else ret (rq_RunID req))"

definition chosen_session :: "Deps \<Rightarrow> RunTaskRequest \<Rightarrow> TaskID \<Rightarrow> string op" where
  "chosen_session E req t =
     (if TrimSpace (rq_ShellSessionID req) = [] then inferActiveShellSessionID E t
      else ret (TrimSpace (rq_ShellSessionID req)))"

definition new_run ::
  "RunID \<Rightarrow> TaskID \<Rightarrow> BriefID \<Rightarrow> WorkerKind \<Rightarrow> string \<Rightarrow> RunStatus \<Rightarrow> go_time \<Rightarrow> Phase \<Rightarrow> string \<Rightarrow> ExecutionRun" where
  "new_run runID t bid kind session status now ph summary =
     \<lparr>r_RunID = runID, r_TaskID = t, r_BriefID = bid, r_WorkerKind = kind, r_WorkerRunID = [],
      r_ShellSessionID = session, r_Status = status, r_Command = [], r_Args = [],
      r_ExitCode = Some (-1), r_Stdout = [], r_Stderr = [], r_ChangedFiles = [],
      r_ChangedFilesSemantics = [], r_ValidationSignals = [], r_OutputArtifactRef = [],
      r_StructuredSummary = [], r_StartedAt = now, r_EndedAt = None, r_InterruptionReason = [],
      r_CreatedFromPhase = ph, r_LastKnownSummary = summary, r_CreatedAt = now, r_UpdatedAt = now\<rparr>"

definition in_phase :: "Phase \<Rightarrow> string \<Rightarrow> WorkCapsule \<Rightarrow> WorkCapsule" where
  "in_phase ph action c = c\<lparr>c_CurrentPhase := ph, c_NextAction := action\<rparr>"

text \<open>The closing steps of every run action: recent evidence, synthesis, message, result.\<close>

definition conclude ::
  "Deps \<Rightarrow> WorkCapsule \<Rightarrow> int \<Rightarrow> RunID \<Rightarrow> RunStatus \<Rightarrow> (string \<times> pval) list \<Rightarrow> RunTaskResult op" where
  "conclude E caps limit runID status extra =
     bnd (gets (\<lambda>w. proofs_ListByTask (c_TaskID caps) limit (w_db w))) (\<lambda>events.
     bnd (synthesize E caps events) (\<lambda>text.
     seq (emitCanonicalConversation E caps text
       ([(''run_id'', PStr runID), (''status'', PStr (RunStatus_str status))] @ extra) (Some runID))
     (ret \<lparr>rt_TaskID = c_TaskID caps, rt_RunID = runID, rt_RunStatus = status,
           rt_Phase = c_CurrentPhase caps, rt_CanonicalResponse = text\<rparr>)))"

section \<open>Settling a run\<close>

text \<open>
  The statements that complete, interrupt and fail a run have in common: the run and the
  capsule are updated, the outcome and the phase are recorded, a checkpoint is taken, and the
  action concludes.
\<close>

definition settle_run ::
  "Deps \<Rightarrow> WorkCapsule \<Rightarrow> ExecutionRun \<Rightarrow> EventType \<Rightarrow> (string \<times> pval) list \<Rightarrow> string \<Rightarrow>
     Trigger \<Rightarrow> bool \<Rightarrow> string \<Rightarrow> int \<Rightarrow> (string \<times> pval) list \<Rightarrow> RunTaskResult op" where
  "settle_run E caps r typ payload reason trigger resumable descriptor limit extra =
     seq (db_write (runs_Update r))
     (seq (db_write (capsules_Update caps))
     (seq (appendProof E caps typ ActorSystem ''tuku-runner'' payload (Some (r_RunID r)))
     (seq (phase_event E caps reason (Some (r_RunID r)))
     (seq (createCheckpoint E caps (r_RunID r) trigger resumable descriptor)
     (conclude E caps limit (r_RunID r) (r_Status r) extra)))))"

definition ended :: "RunStatus \<Rightarrow> string \<Rightarrow> go_time \<Rightarrow> ExecutionRun \<Rightarrow> ExecutionRun" where
  "ended status summary now r = r\<lparr>r_Status := status, r_LastKnownSummary := summary,
     r_EndedAt := Some now, r_UpdatedAt := now\<rparr>"

definition resolveRunForAction :: "TaskID \<Rightarrow> RunID \<Rightarrow> ExecutionRun op" where
  "resolveRunForAction t preferred =
     bnd (db_read (if preferred \<noteq> [] then runs_Get preferred else runs_LatestRunningByTask t)) (\<lambda>r.
     if r_Status r \<noteq> RunStatusRunning
     then throw (ErrMsg (''run '' @ r_RunID r @ '' is not RUNNING (status=''
            @ RunStatus_str (r_Status r) @ '')''))
     else ret r)"

definition completeRun :: "Deps \<Rightarrow> WorkCapsule \<Rightarrow> RunTaskRequest \<Rightarrow> RunTaskResult op" where
  "completeRun E caps req =
     bnd (attempt (resolveRunForAction (c_TaskID caps) (rq_RunID req))) (\<lambda>res. case res of
       Inl e \<Rightarrow> refuse_run E caps
         ''Execution cannot complete because there is no active run for this task.''
         [(''reason'', PStr ''missing_running_run'')]
     | Inr r0 \<Rightarrow>
       bnd (clock E) (\<lambda>now.
       let r = ended RunStatusCompleted ''Execution placeholder completed'' now r0;
           caps' = in_phase PhaseValidating ''Execution placeholder completed. Validation logic is deferred to the next milestone.'' (bumped now caps) in
       settle_run E caps' r EventWorkerRunCompleted
         [(''run_id'', PStr (r_RunID r)), (''status'', PStr (RunStatus_str (r_Status r)))]
         ''run completed'' TriggerAfterExecution True
         ''Run completed and task moved to validation.'' 12 []))"

definition interruptRun :: "Deps \<Rightarrow> WorkCapsule \<Rightarrow> RunTaskRequest \<Rightarrow> RunTaskResult op" where
  "interruptRun E caps req =
     bnd (attempt (resolveRunForAction (c_TaskID caps) (rq_RunID req))) (\<lambda>res. case res of
       Inl e \<Rightarrow> refuse_run E caps
         ''Execution cannot be interrupted because there is no active run for this task.''
         [(''reason'', PStr ''missing_running_run'')]
     | Inr r0 \<Rightarrow>
       bnd (clock E) (\<lambda>now.
       let reason = (if TrimSpace (rq_InterruptionReason req) = [] then ''manual interruption''
             else TrimSpace (rq_InterruptionReason req));
           r = (ended RunStatusInterrupted ''Execution placeholder interrupted'' now r0)
             \<lparr>r_InterruptionReason := reason\<rparr>;
           caps' = in_phase PhasePaused ''Run interrupted. Use `tuku continue --task <id>` to reconcile and resume safely.'' (bumped now caps) in
       settle_run E caps' r EventRunInterrupted
         [(''run_id'', PStr (r_RunID r)), (''reason'', PStr reason)]
         ''run interrupted'' TriggerInterruption True
         ''Run interrupted and task is resumable from paused state.'' 12
         [(''reason'', PStr reason)]))"

section \<open>Placeholder runs\<close>

definition startRunNoop :: "Deps \<Rightarrow> WorkCapsule \<Rightarrow> RunTaskRequest \<Rightarrow> RunTaskResult op" where
  "startRunNoop E caps req =
     (if c_CurrentBriefID caps = []
      then refuse_run E caps missing_brief_text [(''reason'', PStr ''missing_brief'')]
      else
       bnd (run_start E (c_TaskID caps)) (\<lambda>(recovery, allowed, canonical).
       if \<not> allowed then refuse_run E caps canonical (gate_payload recovery)
       else
       bnd (db_read (briefs_Get (c_CurrentBriefID caps))) (\<lambda>b.
       bnd (clock E) (\<lambda>now.
       bnd (chosen_run_id E req) (\<lambda>runID.
       bnd (chosen_session E req (c_TaskID caps)) (\<lambda>session.
       let r0 = new_run runID (c_TaskID caps) (b_BriefID b) WorkerKindNoop session RunStatusCreated
             now (c_CurrentPhase caps) ''No-op run created and awaiting placeholder execution'' in
       seq (db_write (runs_Create r0))
       (bnd (clock E) (\<lambda>t1.
       let r = r0\<lparr>r_Status := RunStatusRunning,
             r_LastKnownSummary := ''No-op execution placeholder started'', r_UpdatedAt := t1\<rparr> in
       seq (db_write (runs_Update r))
       (bnd (clock E) (\<lambda>t2.
       let caps' = in_phase PhaseExecuting ''No-op run is active. Complete with `tuku run --task <id> --action complete` or interrupt with `--action interrupt`.'' (bumped t2 caps) in
       seq (db_write (capsules_Update caps'))
       (seq (appendProof E caps' EventWorkerRunStarted ActorSystem ''tuku-runner''
         [(''run_id'', PStr runID), (''brief_id'', PStr (b_BriefID b)),
          (''worker_kind'', PStr (WorkerKind_str (r_WorkerKind r))), (''mode'', PStr ''noop'')] (Some runID))
       (seq (phase_event E caps' ''execution run started'' (Some runID))
       (seq (createCheckpoint E caps' runID TriggerBeforeExecution True ''No-op run entered RUNNING state.'')
       (if rq_SimulateInterrupt req
        then interruptRun E caps' \<lparr>rq_TaskID = c_TaskID caps', rq_Action = ''interrupt'', rq_Mode = [],
          rq_RunID = runID, rq_ShellSessionID = [], rq_SimulateInterrupt = False,
          rq_InterruptionReason = ''simulated interruption''\<rparr>
        else conclude E caps' 12 runID (r_Status r) []))))))))))))))"

section \<open>Real runs\<close>

text \<open>\<open>prepareRealRun\<close>: a refusal, or the prepared run.\<close>

definition prepareRealRun ::
  "Deps \<Rightarrow> worker \<Rightarrow> RunTaskRequest \<Rightarrow> (RunTaskResult + preparedRealRun) op" where
  "prepareRealRun E worker req = withTx (
     bnd (db_read (capsules_Get (rq_TaskID req))) (\<lambda>caps0.
     if c_CurrentBriefID caps0 = []
     then bnd (refuse_run E caps0 missing_brief_text [(''reason'', PStr ''missing_brief'')]) (\<lambda>x. ret (Inl x))
     else
     bnd (run_start E (c_TaskID caps0)) (\<lambda>(recovery, allowed, canonical).
     if \<not> allowed
     then bnd (refuse_run E caps0 canonical (gate_payload recovery)) (\<lambda>x. ret (Inl x))
     else if Option.is_none worker
     then bnd (refuse_run E caps0
       ''Execution adapter is not configured. Tuku cannot run Codex in real mode yet.''
       [(''reason'', PStr ''missing_worker_adapter'')]) (\<lambda>x. ret (Inl x))
     else
     bnd (db_read (briefs_Get (c_CurrentBriefID caps0))) (\<lambda>b.
     bnd (captureAnchor E (c_RepoRoot caps0)) (\<lambda>anchor.
     let caps1 = with_anchor anchor caps0 in
     bnd (clock E) (\<lambda>now.
     bnd (chosen_run_id E req) (\<lambda>runID.
     bnd (chosen_session E req (c_TaskID caps1)) (\<lambda>session.
     seq (db_write (runs_Create (new_run runID (c_TaskID caps1) (b_BriefID b) WorkerKindCodex session
       RunStatusRunning now (c_CurrentPhase caps1) ''Codex execution started'')))
     (bnd (clock E) (\<lambda>t1.
     let caps = in_phase PhaseExecuting ''Real execution run is in progress.'' (bumped t1 caps1) in
     seq (db_write (capsules_Update caps))
     (seq (appendProof E caps EventWorkerRunStarted ActorSystem ''tuku-runner''
       [(''run_id'', PStr runID), (''brief_id'', PStr (b_BriefID b)),
        (''worker_kind'', PStr (WorkerKind_str WorkerKindCodex)), (''mode'', PStr ''real'')] (Some runID))
     (seq (phase_event E caps ''real codex run started'' (Some runID))
     (seq (createCheckpointWithOptions E caps runID TriggerBeforeExecution True
       ''Run started and durably marked RUNNING before worker execution.'' False)
     (ret (Inr \<lparr>p_TaskID = c_TaskID caps, p_RunID = runID, p_Brief = b, p_Capsule = caps\<rparr>)))))))))))))))"

definition buildExecutionRequest :: "Deps \<Rightarrow> preparedRealRun \<Rightarrow> ExecutionRequest op" where
  "buildExecutionRequest E p =
     bnd (agentsMetadata E (c_RepoRoot (p_Capsule p))) (\<lambda>(checksum, instructions).
     bnd (clock E) (\<lambda>now.
     ret \<lparr>xq_RunID = p_RunID p, xq_TaskID = p_TaskID p, xq_Worker = WorkerKindCodex,
          xq_Brief = p_Brief p,
          xq_ContextPack = \<lparr>cp_TaskID = p_TaskID p, cp_Mode = ''compact'',
            cp_RepoAnchorHash = c_HeadSHA (p_Capsule p), cp_FreshnessState = ''current'',
            cp_IncludedFiles = c_TouchedFiles (p_Capsule p),
            cp_SelectionRationale = [''placeholder context pack for bounded milestone 4 execution''],
            cp_CreatedAt = now\<rparr>,
          xq_RepoAnchor = anchorFromCapsule (p_Capsule p),
          xq_PolicyProfileID = b_PolicyProfileID (p_Brief p),
          xq_AgentsChecksum = checksum, xq_AgentsInstructions = instructions,
          xq_ContextSummary = ''phase='' @ Phase_str (c_CurrentPhase (p_Capsule p))
            @ '' touched_files='' @ itoa (int (length (c_TouchedFiles (p_Capsule p))))\<rparr>))"

definition applyExecutionEvidence :: "ExecutionResult \<Rightarrow> ExecutionRun \<Rightarrow> ExecutionRun" where
  "applyExecutionEvidence x r =
     r\<lparr>r_WorkerRunID := TrimSpace (x_WorkerRunID x), r_Command := TrimSpace (x_Command x),
       r_Args := x_Args x, r_Stdout := x_Stdout x, r_Stderr := x_Stderr x,
       r_ChangedFiles := x_ChangedFiles x,
       r_ChangedFilesSemantics := TrimSpace (x_ChangedFilesSemantics x),
       r_ValidationSignals := x_ValidationSignals x,
       r_OutputArtifactRef := TrimSpace (x_OutputArtifactRef x),
       r_StructuredSummary := TrimSpace (x_StructuredSummary x),
       r_ExitCode := Some (x_ExitCode x)\<rparr>"

definition markRunCompleted ::
  "Deps \<Rightarrow> WorkCapsule \<Rightarrow> ExecutionRun \<Rightarrow> ExecutionResult \<Rightarrow> RunTaskResult op" where
  "markRunCompleted E caps r0 x =
     bnd (clock E) (\<lambda>now.
     let r = ended RunStatusCompleted (x_Summary x) now (applyExecutionEvidence x r0);
         caps' = in_phase PhaseValidating ''Codex run completed. Review evidence and decide validation/follow-up.'' (bumped now caps) in
     settle_run E caps' r EventWorkerRunCompleted
       [(''run_id'', PStr (r_RunID r)), (''status'', PStr (RunStatus_str (r_Status r))),
        (''exit_code'', PInt (x_ExitCode x)), (''changed_files'', PStrs (x_ChangedFiles x)),
        (''changed_files_semantics'', PStr (x_ChangedFilesSemantics x)),
        (''summary'', PStr (x_Summary x)), (''validation_hints'', PStrs (x_ValidationSignals x))]
       ''run completed'' TriggerAfterExecution True
       ''Run completed with captured evidence; ready for validation follow-up.'' 20
       [(''exit_code'', PInt (x_ExitCode x))])"

definition markRunFailed ::
  "Deps \<Rightarrow> WorkCapsule \<Rightarrow> ExecutionRun \<Rightarrow> ExecutionResult \<Rightarrow> exec_error \<Rightarrow> RunTaskResult op" where
  "markRunFailed E caps r0 x err =
     bnd (clock E) (\<lambda>now.
     if xe_Canceled err
     then
       let r = (ended RunStatusInterrupted ''Codex run interrupted'' now (applyExecutionEvidence x r0))
             \<lparr>r_InterruptionReason := xe_Text err\<rparr>;
           caps' = in_phase PhasePaused ''Codex run was interrupted. Check execution evidence and retry.'' (bumped now caps) in
       settle_run E caps' r EventRunInterrupted
         [(''run_id'', PStr (r_RunID r)), (''reason'', PStr (xe_Text err))]
         ''run interrupted'' TriggerInterruption True
         ''Run interrupted during execution; resumable from paused phase.'' 20
         [(''reason'', PStr (xe_Text err))]
     else
       let r = ended RunStatusFailed (''Codex run failed: '' @ x_Summary x) now (applyExecutionEvidence x r0);
           caps' = in_phase PhaseBlocked ''Codex run failed. Inspect proof evidence and adjust brief or constraints.'' (bumped now caps) in
       settle_run E caps' r EventWorkerRunFailed
         [(''run_id'', PStr (r_RunID r)), (''error'', PStr (xe_Text err)),
          (''exit_code'', PInt (x_ExitCode x)), (''summary'', PStr (x_Summary x)),
          (''stderr_excerpt'', PStr (truncate_text (x_Stderr x) 2000)),
          (''changed_files'', PStrs (x_ChangedFiles x)),
          (''changed_files_semantics'', PStr (x_ChangedFilesSemantics x))]
         ''run failed'' TriggerAfterExecution False
         ''Run failed with evidence captured; inspect failure evidence before retrying or regenerating the brief.'' 20
         [(''error'', PStr (xe_Text err))])"

definition output_payload :: "RunID \<Rightarrow> ExecutionResult \<Rightarrow> (string \<times> pval) list" where
  "output_payload runID x =
     [(''run_id'', PStr runID), (''exit_code'', PInt (x_ExitCode x)),
      (''started_at_unix_ms'', PInt (unix_ms (x_StartedAt x))),
      (''ended_at_unix_ms'', PInt (unix_ms (x_EndedAt x))),
      (''stdout_excerpt'', PStr (truncate_text (x_Stdout x) 2000)),
      (''stderr_excerpt'', PStr (truncate_text (x_Stderr x) 2000)),
      (''changed_files'', PStrs (x_ChangedFiles x)),
      (''changed_files_semantics'', PStr (x_ChangedFilesSemantics x)),
      (''validation_signals'', PStrs (x_ValidationSignals x)),
      (''summary'', PStr (x_Summary x)), (''error_message'', PStr (x_ErrorMessage x))]"

definition finalizeRealRun ::
  "Deps \<Rightarrow> preparedRealRun \<Rightarrow> ExecutionResult \<Rightarrow> exec_error option \<Rightarrow> RunTaskResult op" where
  "finalizeRealRun E p x err = withTx (
     bnd (db_read (capsules_Get (p_TaskID p))) (\<lambda>caps.
     bnd (db_read (runs_Get (p_RunID p))) (\<lambda>r.
     if r_Status r \<noteq> RunStatusRunning
     then throw (ErrMsg (''run '' @ r_RunID r @ '' is not RUNNING during finalization (status=''
            @ RunStatus_str (r_Status r) @ '')''))
     else
     seq (appendProof E caps EventWorkerOutputCaptured ActorSystem ''tuku-runner''
       (output_payload (p_RunID p) x) (Some (p_RunID p)))
     (seq (when_do (x_ChangedFiles x \<noteq> [])
       (appendProof E caps EventFileChangeDetected ActorSystem ''tuku-runner''
         [(''run_id'', PStr (p_RunID p)), (''changed_files'', PStrs (x_ChangedFiles x)),
          (''changed_files_semantics'', PStr (x_ChangedFilesSemantics x)),
          (''count'', PInt (int (length (x_ChangedFiles x))))] (Some (p_RunID p))))
     (case err of
        Some e \<Rightarrow> markRunFailed E caps r x e
      | None \<Rightarrow>
         (if x_ExitCode x \<noteq> 0
          then markRunFailed E caps r x
            \<lparr>xe_Canceled = False, xe_Text = ''codex exit code '' @ itoa (x_ExitCode x)\<rparr>
          else markRunCompleted E caps r x))))))"

text \<open>\<open>fmt.Errorf("...%w", err)\<close> around the error of a call.\<close>

definition wrapping :: "string \<Rightarrow> 'a op \<Rightarrow> 'a op" where
  "wrapping prefix_text m = (\<lambda>w. case m w of
     (Inl e, t) \<Rightarrow> (Inl (ErrWrap prefix_text e), t) | (Inr a, t) \<Rightarrow> (Inr a, t))"

definition startRunRealStaged :: "Deps \<Rightarrow> worker \<Rightarrow> RunTaskRequest \<Rightarrow> RunTaskResult op" where
  "startRunRealStaged E worker req =
     bnd (prepareRealRun E worker req) (\<lambda>outcome. case outcome of
       Inl refusal \<Rightarrow> ret refusal
     | Inr p \<Rightarrow>
         bnd (buildExecutionRequest E p) (\<lambda>xreq.
         bnd (tick (\<lambda>n. case worker of
             Some execute \<Rightarrow> Inr (execute n xreq)
           | None \<Rightarrow> Inl (ErrMsg ''nil worker adapter''))) (\<lambda>res.
         bnd (lift_res res) (\<lambda>(x, err).
         wrapping (''finalize run '' @ p_RunID p @ '' after worker execution: '')
           (finalizeRealRun E p x err)))))"

definition run_action :: "RunTaskRequest \<Rightarrow> string" where
  "run_action req = (let a = TrimSpace (ToLower (rq_Action req)) in if a = [] then ''start'' else a)"

definition run_mode :: "RunTaskRequest \<Rightarrow> string" where
  "run_mode req = (let m = TrimSpace (ToLower (rq_Mode req)) in if m = [] then ''real'' else m)"

definition on_capsule :: "TaskID \<Rightarrow> (WorkCapsule \<Rightarrow> 'a op) \<Rightarrow> 'a op" where
  "on_capsule t f = withTx (bnd (db_read (capsules_Get t)) f)"

definition RunTask :: "Deps \<Rightarrow> worker \<Rightarrow> RunTaskRequest \<Rightarrow> RunTaskResult op" where
  "RunTask E worker req =
     (if run_action req = ''start'' then
        (if run_mode req = ''real'' then startRunRealStaged E worker req
         else on_capsule (rq_TaskID req) (\<lambda>caps. startRunNoop E caps req))
      else if run_action req = ''complete''
      then on_capsule (rq_TaskID req) (\<lambda>caps. completeRun E caps req)
      else if run_action req = ''interrupt''
      then on_capsule (rq_TaskID req) (\<lambda>caps. interruptRun E caps req)
      else throw (ErrMsg (''unsupported run action: '' @ rq_Action req)))"

end
