(* ===== verification/Continue.thy ===== *)
theory Continue
  imports Runs
begin

text \<open>
  internal/orchestrator/service.go: ContinueTask. The assessment is made outside the
  transaction; the transaction re-reads the capsule, compares its version with the assessed
  one and acts on the assessed outcome, each branch recording the phase, a checkpoint and the
  canonical response. Assessments that need no mutation only leave evidence.
\<close>

record ContinueTaskResult =
  ct_TaskID :: TaskID
  ct_Outcome :: ContinueOutcome
  ct_DriftClass :: DriftClass
  ct_Phase :: Phase
  ct_RunID :: RunID
  ct_CheckpointID :: CheckpointID
  ct_ResumeDescriptor :: string
  ct_RecoveryClass :: RecoveryClass
  ct_RecommendedAction :: RecoveryAction
  ct_ReadyForNextRun :: bool
  ct_ReadyForHandoffLaunch :: bool
  ct_RecoveryReason :: string
  ct_CanonicalResponse :: string

text \<open>\<open>applyRecoveryAssessmentToContinueResult\<close>\<close>

definition with_recovery :: "RecoveryAssessment \<Rightarrow> ContinueTaskResult \<Rightarrow> ContinueTaskResult" where
  "with_recovery r c = c\<lparr>ct_RecoveryClass := rv_RecoveryClass r,
     ct_RecommendedAction := rv_RecommendedAction r, ct_ReadyForNextRun := rv_ReadyForNextRun r,
     ct_ReadyForHandoffLaunch := rv_ReadyForHandoffLaunch r, ct_RecoveryReason := rv_Reason r\<rparr>"

definition continue_result ::
  "WorkCapsule \<Rightarrow> ContinueOutcome \<Rightarrow> DriftClass \<Rightarrow> RunID \<Rightarrow> CheckpointID \<Rightarrow> string \<Rightarrow> string \<Rightarrow> ContinueTaskResult" where
  "continue_result caps outcome drift runID cpID descriptor text =
     \<lparr>ct_TaskID = c_TaskID caps, ct_Outcome = outcome, ct_DriftClass = drift,
      ct_Phase = c_CurrentPhase caps, ct_RunID = runID, ct_CheckpointID = cpID,
      ct_ResumeDescriptor = descriptor, ct_RecoveryClass = RecoveryClassUnset,
      ct_RecommendedAction = RecoveryActionUnset, ct_ReadyForNextRun = False,
      ct_ReadyForHandoffLaunch = False, ct_RecoveryReason = [], ct_CanonicalResponse = text\<rparr>"

section \<open>The branches that change state\<close>

text \<open>The recovery a branch reports about itself; the fields it leaves out are zero.\<close>

definition branch_recovery ::
  "TaskID \<Rightarrow> ContinueOutcome \<Rightarrow> RecoveryClass \<Rightarrow> RecoveryAction \<Rightarrow> DriftClass \<Rightarrow> bool \<Rightarrow> bool \<Rightarrow>
     string \<Rightarrow> CheckpointID \<Rightarrow> RunID \<Rightarrow> RecoveryAssessment" where
  "branch_recovery t outcome cls act drift decision repair reason cpID runID =
     \<lparr>rv_TaskID = t, rv_ContinuityOutcome = outcome, rv_RecoveryClass = cls,
      rv_RecommendedAction = act, rv_ReadyForNextRun = False, rv_ReadyForHandoffLaunch = False,
      rv_RequiresDecision = decision, rv_RequiresRepair = repair, rv_RequiresReview = False,
      rv_RequiresReconciliation = False, rv_DriftClass = drift, rv_Reason = reason,
      rv_CheckpointID = cpID, rv_RunID = runID, rv_HandoffID = [],
      rv_HandoffStatus = HandoffStatusOther [], rv_LatestAction = None, rv_Issues = []\<rparr>"

definition stale_reason :: string where
  "stale_reason = ''stale RUNNING reconciled during continue: no active execution handle''"

definition reconcileStaleRun :: "Deps \<Rightarrow> WorkCapsule \<Rightarrow> ExecutionRun \<Rightarrow> ContinueTaskResult op" where
  "reconcileStaleRun E caps0 run0 =
     bnd (clock E) (\<lambda>now.
     let r = (ended RunStatusInterrupted ''Reconciled stale RUNNING run as INTERRUPTED'' now run0)
           \<lparr>r_InterruptionReason := stale_reason\<rparr>;
         caps = in_phase PhasePaused ''A stale RUNNING run was reconciled to INTERRUPTED. Review evidence and restart execution when ready.'' (bumped now caps0) in
     seq (db_write (runs_Update r))
     (seq (db_write (capsules_Update caps))
     (seq (appendProof E caps EventRunInterrupted ActorSystem ''tuku-daemon''
       [(''run_id'', PStr (r_RunID r)), (''reason'', PStr (r_InterruptionReason r)),
        (''reconciliation'', PBool True),
        (''previous_run_status'', PStr (RunStatus_str RunStatusRunning))] (Some (r_RunID r)))
     (seq (phase_event E caps ''stale running run reconciled on continue'' (Some (r_RunID r)))
     (bnd (createCheckpoint E caps (r_RunID r) TriggerInterruption True
       ''Stale RUNNING run reconciled to INTERRUPTED; resumable from paused state.'') (\<lambda>cp.
     let text = ''I found run '' @ r_RunID r @ '' still marked RUNNING but no active execution handle was present. I reconciled it as INTERRUPTED and created resumable checkpoint '' @ k_CheckpointID cp
           @ ''. Resume the interrupted execution path from brief '' @ c_CurrentBriefID caps @ ''.'' in
     seq (emitCanonicalConversation E caps text
       [(''outcome'', PStr (ContinueOutcome_str ContinueOutcomeStaleReconciled)),
        (''run_id'', PStr (r_RunID r)), (''checkpoint_id'', PStr (k_CheckpointID cp))] (Some (r_RunID r)))
     (ret (with_recovery
       (branch_recovery (c_TaskID caps) ContinueOutcomeSafe RecoveryClassInterruptedRunRecoverable
         RecoveryActionResumeInterrupted DriftUnset False False
         (''stale run '' @ r_RunID r @ '' was reconciled and is now recoverable from checkpoint ''
           @ k_CheckpointID cp) (k_CheckpointID cp) (r_RunID r))
       (continue_result caps ContinueOutcomeStaleReconciled DriftNone (r_RunID r)
         (k_CheckpointID cp) (k_ResumeDescriptor cp) text)))))))))"

text \<open>
  What the three blocking branches share: the capsule is saved in its new phase, the phase is
  recorded, a checkpoint that cannot be resumed is taken and the response is emitted.
\<close>

definition blocked_continue ::
  "Deps \<Rightarrow> WorkCapsule \<Rightarrow> Phase \<Rightarrow> string \<Rightarrow> string \<Rightarrow> string \<Rightarrow> (CheckpointID \<Rightarrow> string) \<Rightarrow>
     (string \<times> pval) list \<Rightarrow> (Checkpoint \<Rightarrow> string \<Rightarrow> WorkCapsule \<Rightarrow> ContinueTaskResult) \<Rightarrow>
     ContinueTaskResult op" where
  "blocked_continue E caps0 ph action reason descriptor text payload result =
     bnd (clock E) (\<lambda>now.
     let caps = in_phase ph action (bumped now caps0) in
     seq (db_write (capsules_Update caps))
     (seq (phase_event E caps reason None)
     (bnd (createCheckpoint E caps [] TriggerAwaitingDecision False descriptor) (\<lambda>cp.
     seq (emitCanonicalConversation E caps (text (k_CheckpointID cp))
       (payload @ [(''checkpoint_id'', PStr (k_CheckpointID cp))]) None)
     (ret (result cp (text (k_CheckpointID cp)) caps))))))"

definition blockedContinueByDrift :: "Deps \<Rightarrow> WorkCapsule \<Rightarrow> DriftClass \<Rightarrow> ContinueTaskResult op" where
  "blockedContinueByDrift E caps0 drift =
     blocked_continue E caps0 PhaseAwaitingDecision
       ''Direct resume is blocked by major repo drift. Re-anchor or create a new brief before executing.''
       ''major anchor drift blocked resume''
       ''Major repo drift detected. Direct resume blocked pending user decision.''
       (\<lambda>cp. ''Direct resume is not safe. I detected major repo drift versus the last continuity anchor, so I blocked automatic resume and recorded checkpoint '' @ cp @ '' for decision review.'')
       [(''outcome'', PStr (ContinueOutcome_str ContinueOutcomeBlockedDrift)),
        (''drift_class'', PStr (DriftClass_str drift))]
       (\<lambda>cp text caps. with_recovery
         (branch_recovery (c_TaskID caps) ContinueOutcomeBlockedDrift RecoveryClassBlockedDrift
           RecoveryActionMakeResumeDecision drift True False
           ''repository drift blocks automatic recovery'' (k_CheckpointID cp) [])
         (continue_result caps ContinueOutcomeBlockedDrift drift [] (k_CheckpointID cp)
           (k_ResumeDescriptor cp) text))"

definition blockedContinueByInconsistency ::
  "Deps \<Rightarrow> WorkCapsule \<Rightarrow> string \<Rightarrow> ContinueTaskResult op" where
  "blockedContinueByInconsistency E caps0 reason =
     blocked_continue E caps0 PhaseBlocked
       ''Continuity state is inconsistent. Re-anchor state or regenerate intent/brief before continuing.''
       ''continue blocked by inconsistent continuity state''
       (''Continue blocked by inconsistent continuity state: '' @ reason)
       (\<lambda>cp. ''Resume is blocked because continuity state is inconsistent: '' @ reason
          @ ''. I recorded checkpoint '' @ cp @ '' for explicit recovery decisions.'')
       [(''outcome'', PStr (ContinueOutcome_str ContinueOutcomeBlockedInconsistent)),
        (''reason'', PStr reason)]
       (\<lambda>cp text caps. with_recovery
         (branch_recovery (c_TaskID caps) ContinueOutcomeBlockedInconsistent RecoveryClassRepairRequired
           RecoveryActionRepairContinuity DriftUnset False True reason (k_CheckpointID cp) [])
         (continue_result caps ContinueOutcomeBlockedInconsistent DriftNone [] (k_CheckpointID cp)
           (k_ResumeDescriptor cp) text))"

definition awaitDecisionOnContinue :: "Deps \<Rightarrow> WorkCapsule \<Rightarrow> DriftClass \<Rightarrow> ContinueTaskResult op" where
  "awaitDecisionOnContinue E caps0 drift =
     blocked_continue E caps0 PhaseAwaitingDecision
       ''Minor repo drift detected. Confirm whether to continue with the existing brief or regenerate intent/brief.''
       ''minor anchor drift requires decision''
       ''Minor repo drift detected. Awaiting explicit decision before resume.''
       (\<lambda>cp. ''I found minor repo drift since the last checkpoint. I paused at decision state and created checkpoint '' @ cp @ ''. Confirm whether to continue with brief '' @ c_CurrentBriefID caps0 @ '' or regenerate the brief.'')
       [(''outcome'', PStr (ContinueOutcome_str ContinueOutcomeNeedsDecision)),
        (''drift_class'', PStr (DriftClass_str drift))]
       (\<lambda>cp text caps. with_recovery
         (branch_recovery (c_TaskID caps) ContinueOutcomeNeedsDecision RecoveryClassDecisionRequired
           RecoveryActionMakeResumeDecision drift True False
           ''resume requires an explicit operator decision'' (k_CheckpointID cp) [])
         (continue_result caps ContinueOutcomeNeedsDecision drift [] (k_CheckpointID cp)
           (k_ResumeDescriptor cp) text))"

section \<open>The safe branch\<close>

text \<open>A safe outcome without a usable brief only answers; no recovery is reported.\<close>

definition briefless_continue ::
  "Deps \<Rightarrow> WorkCapsule \<Rightarrow> string \<Rightarrow> string \<Rightarrow> ContinueTaskResult op" where
  "briefless_continue E caps text reason =
     seq (emitCanonicalConversation E caps text
       [(''outcome'', PStr (ContinueOutcome_str ContinueOutcomeBlockedInconsistent)),
        (''reason'', PStr reason)] None)
     (ret (continue_result caps ContinueOutcomeBlockedInconsistent DriftNone [] [] [] text))"

definition safe_descriptor :: "RecoveryAssessment \<Rightarrow> Checkpoint option \<Rightarrow> string" where
  "safe_descriptor recovery cp =
     (let base = (case cp of Some k \<Rightarrow> k_CheckpointID k | None \<Rightarrow> []) in
      if rv_RecoveryClass recovery = RecoveryClassInterruptedRunRecoverable
      then localResumeDescriptorForInterrupted base else localResumeDescriptorForReadyNextRun base)"

definition safe_text :: "WorkCapsule \<Rightarrow> RecoveryAssessment \<Rightarrow> CheckpointID \<Rightarrow> string" where
  "safe_text caps recovery cp =
     (if rv_RecoveryClass recovery = RecoveryClassInterruptedRunRecoverable
      then ''Interrupted execution is recoverable. Use checkpoint '' @ cp @ '' with brief ''
        @ c_CurrentBriefID caps @ '' on branch '' @ c_BranchName caps @ '' (head '' @ c_HeadSHA caps
        @ '') to resume the interrupted execution path.''
      else ''Fresh next bounded run is ready. Checkpoint '' @ cp
        @ '' captures the current local recovery boundary for brief '' @ c_CurrentBriefID caps
        @ '' on branch '' @ c_BranchName caps @ '' (head '' @ c_HeadSHA caps @ '').'')"

definition safeContinue ::
  "Deps \<Rightarrow> WorkCapsule \<Rightarrow> Checkpoint option \<Rightarrow> ExecutionRun option \<Rightarrow> RecoveryAssessment \<Rightarrow>
     ContinueTaskResult op" where
  "safeContinue E caps0 latestCheckpoint latestRun recovery =
     bnd (clock E) (\<lambda>now.
     if c_CurrentBriefID caps0 = []
     then briefless_continue E caps0 ''Resume is blocked because no execution brief exists for this task. Send a task message to compile intent and generate a brief first.'' ''missing_brief''
     else
     bnd (optional (db_read (briefs_Get (c_CurrentBriefID caps0)))) (\<lambda>found_brief.
     if found_brief = None
     then briefless_continue E caps0 ''Resume is blocked because capsule state references a missing execution brief. Recompile intent to restore continuity.'' ''brief_pointer_missing''
     else
     let runID = (case latestRun of Some r \<Rightarrow> r_RunID r | None \<Rightarrow> []);
         interrupted = (rv_RecoveryClass recovery = RecoveryClassInterruptedRunRecoverable);
         caps1 = (bumped now caps0)\<lparr>c_NextAction := ''Fresh next bounded run is ready. Start the next bounded run when local execution should proceed.''\<rparr>;
         caps = (if interrupted then caps1\<lparr>c_NextAction := ''Interrupted recovery is available. Resume the interrupted execution path from the recoverable checkpoint.''\<rparr> else caps1) in
     seq (db_write (capsules_Update caps1))
     (bnd (createCheckpoint E caps1 runID TriggerContinue True (safe_descriptor recovery latestCheckpoint)) (\<lambda>cp.
     seq (when_do interrupted (db_write (capsules_Update caps)))
     (seq (emitCanonicalConversation E caps (safe_text caps recovery (k_CheckpointID cp))
       [(''outcome'', PStr (ContinueOutcome_str ContinueOutcomeSafe)),
        (''checkpoint_id'', PStr (k_CheckpointID cp)), (''brief_id'', PStr (c_CurrentBriefID caps)),
        (''recovery_class'', PStr (RecoveryClass_str (rv_RecoveryClass recovery))),
        (''recommended_action'', PStr (RecoveryAction_str (rv_RecommendedAction recovery)))]
       (runIDPointer runID))
     (ret (with_recovery recovery
       (continue_result caps ContinueOutcomeSafe DriftNone runID (k_CheckpointID cp)
         (k_ResumeDescriptor cp) (safe_text caps recovery (k_CheckpointID cp))))))))))"

section \<open>Finalization\<close>

definition finalizeContinue ::
  "Deps \<Rightarrow> continueAssessment \<Rightarrow> RecoveryAssessment \<Rightarrow> ContinueTaskResult op" where
  "finalizeContinue E a recovery =
     bnd (db_read (capsules_Get (ca_TaskID a))) (\<lambda>caps0.
     if c_Version caps0 \<noteq> c_Version (ca_Capsule a)
     then blockedContinueByInconsistency E caps0
       (''task state changed during continue assessment (capsule version ''
         @ itoa (sint (c_Version (ca_Capsule a))) @ '' -> '' @ itoa (sint (c_Version caps0)) @ '')'')
     else
     let caps = with_anchor (ca_FreshAnchor a) caps0 in
     case ca_Outcome a of
       ContinueOutcomeStaleReconciled \<Rightarrow>
         (case ca_LatestRun a of
            None \<Rightarrow> blockedContinueByInconsistency E caps ''stale reconciliation requested without latest run''
          | Some lr \<Rightarrow>
             bnd (optional (db_read (runs_Get (r_RunID lr)))) (\<lambda>res. case res of
               None \<Rightarrow> blockedContinueByInconsistency E caps ''latest run referenced by assessment is missing''
             | Some r \<Rightarrow>
                (if r_Status r \<noteq> RunStatusRunning
                 then blockedContinueByInconsistency E caps (''latest run '' @ r_RunID r
                   @ '' is not RUNNING (status='' @ RunStatus_str (r_Status r) @ '')'')
                 else reconcileStaleRun E caps r)))
     | ContinueOutcomeBlockedDrift \<Rightarrow> blockedContinueByDrift E caps (ca_DriftClass a)
     | ContinueOutcomeNeedsDecision \<Rightarrow> awaitDecisionOnContinue E caps (ca_DriftClass a)
     | ContinueOutcomeBlockedInconsistent \<Rightarrow> blockedContinueByInconsistency E caps (ca_Reason a)
     | ContinueOutcomeSafe \<Rightarrow>
         safeContinue E caps (ca_LatestCheckpoint a) (ca_LatestRun a) recovery)"

section \<open>Outcomes without a mutation\<close>

definition unchanged_safe_text :: "continueAssessment \<Rightarrow> RecoveryAssessment \<Rightarrow> string" where
  "unchanged_safe_text a rv =
     (let cp = ca_ReuseCheckpointID a;
          bid = c_CurrentBriefID (ca_Capsule a);
          runID = (case ca_LatestRun a of Some r \<Rightarrow> r_RunID r | None \<Rightarrow> []);
          place = '' on branch '' @ g_Branch (ca_FreshAnchor a) @ '' (head '' @ g_HeadSHA (ca_FreshAnchor a) @ ''). '' in
      case rv_RecoveryClass rv of
        RecoveryClassInterruptedRunRecoverable \<Rightarrow>
          ''Interrupted execution is already recoverable from checkpoint '' @ cp @ '' using brief '' @ bid
          @ place @ ''No new checkpoint was created because the interrupted recovery state is unchanged; resume the interrupted execution path from that checkpoint.''
      | RecoveryClassAcceptedHandoffLaunchReady \<Rightarrow>
          ''Continuity is intact and accepted handoff '' @ rv_HandoffID rv
          @ '' is ready to launch. No new checkpoint was created because the handoff-based recovery state is unchanged.''
      | RecoveryClassHandoffLaunchPendingOutcome \<Rightarrow>
          ''Continuity is intact, but handoff launch is not retryable yet: '' @ rv_Reason rv
          @ ''. No new checkpoint was created.''
      | RecoveryClassHandoffLaunchCompleted \<Rightarrow>
          ''Continuity is intact, and the latest handoff launch step is already complete: '' @ rv_Reason rv
          @ ''. No new checkpoint was created.''
      | RecoveryClassFailedRunReviewRequired \<Rightarrow>
          ''Continuity is intact, but the next run is not ready because latest run '' @ runID
          @ '' failed. Review failure evidence before retrying or regenerating the brief. No new checkpoint was created.''
      | RecoveryClassContinueExecutionRequired \<Rightarrow>
          ''Continuity is intact, but the current brief is not yet cleared for execution. Explicit continue finalization must happen before the next bounded run. No new checkpoint was created.''
      | RecoveryClassValidationReviewRequired \<Rightarrow>
          ''Continuity is intact, but the task is still in validation review after run '' @ runID
          @ ''. Review validation state before starting another bounded run. No new checkpoint was created.''
      | RecoveryClassCompletedNoAction \<Rightarrow>
          ''Continuity is intact, and the task is already completed. No recovery action was taken.''
      | RecoveryClassRepairRequired \<Rightarrow>
          ''Continuity facts are present, but deterministic recovery is not ready: '' @ rv_Reason rv
          @ ''. No new checkpoint was created.''
      | RecoveryClassRebriefRequired \<Rightarrow>
          ''Continuity is intact, but the next run is blocked until the execution brief is regenerated or replaced. No new checkpoint was created.''
      | RecoveryClassReadyNextRun \<Rightarrow>
          ''Fresh next bounded run is already ready from checkpoint '' @ cp @ '' using brief '' @ bid
          @ place @ ''No new checkpoint was created because the local recovery boundary is unchanged.''
      | _ \<Rightarrow> ''Continuity is intact. No new checkpoint was created because recovery state is unchanged.'')"

definition unchanged_text :: "continueAssessment \<Rightarrow> RecoveryAssessment \<Rightarrow> string" where
  "unchanged_text a rv =
     (case ca_Outcome a of
        ContinueOutcomeSafe \<Rightarrow> unchanged_safe_text a rv
      | ContinueOutcomeNeedsDecision \<Rightarrow>
          ''Resume still requires a decision. I reused checkpoint '' @ ca_ReuseCheckpointID a
          @ '' and did not create a new one because the decision-gated continuity state is unchanged.''
      | ContinueOutcomeBlockedDrift \<Rightarrow>
          ''Direct resume is still blocked by major repo drift. I reused checkpoint '' @ ca_ReuseCheckpointID a
          @ '' and did not create a new continuity record because state is unchanged.''
      | ContinueOutcomeBlockedInconsistent \<Rightarrow>
          ''Resume remains blocked due to inconsistent continuity state. I reused checkpoint '' @ ca_ReuseCheckpointID a
          @ '' and did not create a new one because the blocked state is unchanged.''
      | ContinueOutcomeStaleReconciled \<Rightarrow> ''Continue assessment completed with no state mutation.'')"

definition noMutationContinueResult :: "continueAssessment \<Rightarrow> RecoveryAssessment \<Rightarrow> ContinueTaskResult" where
  "noMutationContinueResult a rv =
     with_recovery rv (continue_result (ca_Capsule a) (ca_Outcome a) (ca_DriftClass a)
       (case ca_LatestRun a of Some r \<Rightarrow> r_RunID r | None \<Rightarrow> [])
       (ca_ReuseCheckpointID a)
       (case ca_LatestCheckpoint a of Some k \<Rightarrow> k_ResumeDescriptor k | None \<Rightarrow> [])
       (unchanged_text a rv))"

definition recordNoMutationContinueOutcome ::
  "Deps \<Rightarrow> continueAssessment \<Rightarrow> RecoveryAssessment \<Rightarrow> ContinueTaskResult op" where
  "recordNoMutationContinueOutcome E a rv =
     (let result = noMutationContinueResult a rv;
          run = runIDPointer (ct_RunID result);
          payload = [(''outcome'', PStr (ContinueOutcome_str (ct_Outcome result))),
            (''drift_class'', PStr (DriftClass_str (ct_DriftClass result))),
            (''checkpoint_id'', PStr (ct_CheckpointID result)),
            (''resume_descriptor'', PStr (ct_ResumeDescriptor result)),
            (''no_state_mutation'', PBool True),
            (''checkpoint_reused'', PBool (ct_CheckpointID result \<noteq> [])),
            (''assessment_reason'', PStr (ca_Reason a)),
            (''recovery_class'', PStr (RecoveryClass_str (ct_RecoveryClass result))),
            (''recommended_action'', PStr (RecoveryAction_str (ct_RecommendedAction result))),
            (''ready_for_next_run'', PBool (ct_ReadyForNextRun result)),
            (''ready_for_handoff_launch'', PBool (ct_ReadyForHandoffLaunch result)),
            (''recovery_reason'', PStr (ct_RecoveryReason result))] in
      withTx (
      bnd (db_read (capsules_Get (ca_TaskID a))) (\<lambda>caps.
      seq (appendProof E caps EventContinueAssessed ActorSystem ''tuku-daemon'' payload run)
      (seq (emitCanonicalConversation E caps (ct_CanonicalResponse result) payload run)
      (ret result)))))"

definition continue_mutates :: "continueAssessment \<Rightarrow> bool" where
  "continue_mutates a \<longleftrightarrow> ca_RequiresMutation a
     \<and> \<not> (ca_Outcome a = ContinueOutcomeSafe
           \<and> \<not> rv_ReadyForNextRun (recoveryFromContinueAssessment a))"

definition ContinueTask :: "Deps \<Rightarrow> TaskID \<Rightarrow> ContinueTaskResult op" where
  "ContinueTask E taskID =
     bnd (assess E taskID) (\<lambda>a.
     let recovery = recoveryFromContinueAssessment a in
     if continue_mutates a then withTx (finalizeContinue E a recovery)
     else recordNoMutationContinueOutcome E (a\<lparr>ca_RequiresMutation := False\<rparr>) recovery)"

end
