(* ===== verification/Repositories.thy ===== *)
theory Repositories
  imports Store
begin

text \<open>
  The contracts the coordinator relies on, as locales: a repository of rows with a primary
  key, one whose rows can be replaced, and one that answers "the latest of a task". Each is
  interpreted on the SQLite repositories of theory Store.
\<close>

locale keyed_repo =
  fixes key :: "'r \<Rightarrow> string"
    and get :: "string \<Rightarrow> Db \<Rightarrow> go_error + 'r"
    and create :: "'r \<Rightarrow> Db \<Rightarrow> go_error + Db"
  assumes get_key: "get k d = Inr r \<Longrightarrow> key r = k"
    and get_err: "get k d = Inl e \<Longrightarrow> e = ErrNoRows"
    and create_get: "create r d = Inr d' \<Longrightarrow> get k d' = (if k = key r then Inr r else get k d)"
    and create_taken: "create r d = Inl e \<Longrightarrow> \<exists>r'. get (key r) d = Inr r'"
    and create_free: "create r d = Inr d' \<Longrightarrow> get (key r) d = Inl ErrNoRows"
begin

lemma create_persists:
  assumes "create r d = Inr d'" and "get k d = Inr x"
  shows "get k d' = Inr x"
  using assms create_get[OF assms(1), of k] create_free[OF assms(1)] by (cases "k = key r") auto

lemma create_once: "create r d = Inr d' \<Longrightarrow> key r' = key r \<Longrightarrow> \<exists>e. create r' d' = Inl e"
proof -
  assume c: "create r d = Inr d'" and k: "key r' = key r"
  have "get (key r') d' = Inr r" using create_get[OF c] k by simp
  then show ?thesis using create_free[of r' d'] by (cases "create r' d'") auto
qed

lemma create_succeeds_iff: "(\<exists>d'. create r d = Inr d') \<longleftrightarrow> get (key r) d = Inl ErrNoRows"
proof
  assume "\<exists>d'. create r d = Inr d'"
  then show "get (key r) d = Inl ErrNoRows" using create_free by blast
next
  assume free: "get (key r) d = Inl ErrNoRows"
  show "\<exists>d'. create r d = Inr d'"
  proof (cases "create r d")
    case (Inl e)
    then show ?thesis using create_taken[OF Inl] free by auto
  qed blast
qed

end

locale updatable_repo = keyed_repo key get create
  for key :: "'r \<Rightarrow> string"
    and get :: "string \<Rightarrow> Db \<Rightarrow> go_error + 'r"
    and create :: "'r \<Rightarrow> Db \<Rightarrow> go_error + Db" +
  fixes update :: "'r \<Rightarrow> Db \<Rightarrow> go_error + Db"
  assumes update_get: "update r d = Inr d' \<Longrightarrow> get k d' = (if k = key r then Inr r else get k d)"
    and update_known: "(\<exists>d'. update r d = Inr d') \<longleftrightarrow> (\<exists>x. get (key r) d = Inr x)"
begin

lemma update_same: "update r d = Inr d' \<Longrightarrow> get (key r) d' = Inr r"
  by (simp add: update_get)

lemma update_other: "update r d = Inr d' \<Longrightarrow> k \<noteq> key r \<Longrightarrow> get k d' = get k d"
  by (simp add: update_get)

lemma update_after_create:
  assumes "create r d = Inr d'" and "key r' = key r"
  shows "\<exists>d''. update r' d' = Inr d''"
  using create_get[OF assms(1), of "key r"] assms(2) update_known[of r' d'] by auto

end

locale latest_repo =
  fixes rows :: "Db \<Rightarrow> 'r list"
    and belongs :: "string \<Rightarrow> 'r \<Rightarrow> bool"
    and ord :: "'r \<Rightarrow> 'o::linorder"
    and latest :: "string \<Rightarrow> Db \<Rightarrow> go_error + 'r"
  assumes latest_none: "latest t d = Inl e \<longleftrightarrow> e = ErrNoRows \<and> (\<forall>r \<in> set (rows d). \<not> belongs t r)"
    and latest_some: "latest t d = Inr r \<Longrightarrow>
      r \<in> set (rows d) \<and> belongs t r \<and> (\<forall>x \<in> set (rows d). belongs t x \<longrightarrow> ord x \<le> ord r)"
begin

lemma latest_exists: "r \<in> set (rows d) \<Longrightarrow> belongs t r \<Longrightarrow> \<exists>x. latest t d = Inr x"
  using latest_none[of t d] by (cases "latest t d") auto

lemma latest_is_new:
  assumes "rows d' = rows d @ [r]" and "belongs t r"
    and "\<And>x. x \<in> set (rows d) \<Longrightarrow> belongs t x \<Longrightarrow> ord x < ord r"
  shows "latest t d' = Inr r"
proof -
  obtain y where y: "latest t d' = Inr y" using latest_exists[of r d' t] assms(1,2) by auto
  have "y \<in> set (rows d) \<union> {r}" "belongs t y" "ord r \<le> ord y"
    using latest_some[OF y] assms(1,2) by auto
  then have "y = r" using assms(3)[of y] by (auto dest: leD)
  then show ?thesis using y by simp
qed

end

section \<open>The SQLite repositories meet the contracts\<close>

lemma inserted_Inl_tbl:
  "inserted what tab upd (tbl_insert key r rows) = Inl e \<Longrightarrow> \<exists>r'. found (tbl_get key (key r) rows) = Inr r'"
  by (auto simp: inserted_def tbl_insert_def split: option.splits if_splits)

lemma inserted_Inr_free:
  "inserted what tab upd (tbl_insert key r rows) = Inr d' \<Longrightarrow> found (tbl_get key (key r) rows) = Inl ErrNoRows"
  by (auto simp: inserted_def tbl_insert_def split: option.splits if_splits)

lemma found_key: "found (tbl_get key k rows) = Inr r \<Longrightarrow> key r = k"
  by (auto dest: tbl_get_SomeD)

lemma updated_known:
  "(\<exists>d'. updated upd (tbl_update key k f rows) = Inr d') \<longleftrightarrow> (\<exists>x. found (tbl_get key k rows) = Inr x)"
  by (auto simp: updated_def tbl_update_def)

lemma tbl_replace_get:
  assumes "tbl_update key (key r) (\<lambda>_. r) rows = Some rows'"
  shows "tbl_get key k rows' = (if k = key r then Some r else tbl_get key k rows)"
proof -
  have rows': "rows' = map (\<lambda>x. if key x = key r then r else x) rows"
    and known: "tbl_get key (key r) rows \<noteq> None"
    using assms by (auto simp: tbl_update_def split: if_splits)
  have "tbl_get key k (map (\<lambda>x. if key x = key r then r else x) xs) =
      (if k = key r then (if tbl_get key k xs = None then None else Some r) else tbl_get key k xs)" for xs
    by (induction xs) (auto simp: tbl_get_def)
  then show ?thesis using known by (auto simp: rows')
qed

interpretation capsule_repo: updatable_repo c_TaskID capsules_Get capsules_Create capsules_Update
proof
  fix k d r e d'
  show "capsules_Get k d = Inr r \<Longrightarrow> c_TaskID r = k" unfolding capsules_Get_def by (rule found_key)
  show "capsules_Get k d = Inl e \<Longrightarrow> e = ErrNoRows" by (simp add: capsules_Get_def)
  show "capsules_Create r d = Inr d' \<Longrightarrow>
      capsules_Get k d' = (if k = c_TaskID r then Inr r else capsules_Get k d)"
    by (auto simp: capsules_Get_def capsules_Create_def inserted_Inr_iff tbl_get_insert)
  show "capsules_Create r d = Inl e \<Longrightarrow> \<exists>r'. capsules_Get (c_TaskID r) d = Inr r'"
    unfolding capsules_Get_def capsules_Create_def by (rule inserted_Inl_tbl)
  show "capsules_Create r d = Inr d' \<Longrightarrow> capsules_Get (c_TaskID r) d = Inl ErrNoRows"
    unfolding capsules_Get_def capsules_Create_def by (rule inserted_Inr_free)
  show "capsules_Update r d = Inr d' \<Longrightarrow>
      capsules_Get k d' = (if k = c_TaskID r then Inr r else capsules_Get k d)"
    by (auto simp: capsules_Get_def capsules_Update_def updated_Inr_iff tbl_replace_get)
  show "(\<exists>d'. capsules_Update r d = Inr d') \<longleftrightarrow> (\<exists>x. capsules_Get (c_TaskID r) d = Inr x)"
    unfolding capsules_Get_def capsules_Update_def by (rule updated_known)
qed

interpretation run_repo: updatable_repo r_RunID runs_Get runs_Create runs_Update
proof
  fix k d r e d'
  show "runs_Get k d = Inr r \<Longrightarrow> r_RunID r = k" unfolding runs_Get_def by (rule found_key)
  show "runs_Get k d = Inl e \<Longrightarrow> e = ErrNoRows" by (simp add: runs_Get_def)
  show "runs_Create r d = Inr d' \<Longrightarrow> runs_Get k d' = (if k = r_RunID r then Inr r else runs_Get k d)"
    by (auto simp: runs_Get_def runs_Create_def inserted_Inr_iff tbl_get_insert)
  show "runs_Create r d = Inl e \<Longrightarrow> \<exists>r'. runs_Get (r_RunID r) d = Inr r'"
    unfolding runs_Get_def runs_Create_def by (rule inserted_Inl_tbl)
  show "runs_Create r d = Inr d' \<Longrightarrow> runs_Get (r_RunID r) d = Inl ErrNoRows"
    unfolding runs_Get_def runs_Create_def by (rule inserted_Inr_free)
  show "runs_Update r d = Inr d' \<Longrightarrow> runs_Get k d' = (if k = r_RunID r then Inr r else runs_Get k d)"
    by (auto simp: runs_Get_def runs_Update_def updated_Inr_iff tbl_replace_get)
  show "(\<exists>d'. runs_Update r d = Inr d') \<longleftrightarrow> (\<exists>x. runs_Get (r_RunID r) d = Inr x)"
    unfolding runs_Get_def runs_Update_def by (rule updated_known)
qed

interpretation checkpoint_repo: keyed_repo k_CheckpointID checkpoints_Get checkpoints_Create
proof
  fix k d r e d'
  show "checkpoints_Get k d = Inr r \<Longrightarrow> k_CheckpointID r = k" unfolding checkpoints_Get_def by (rule found_key)
  show "checkpoints_Get k d = Inl e \<Longrightarrow> e = ErrNoRows" by (simp add: checkpoints_Get_def)
  show "checkpoints_Create r d = Inr d' \<Longrightarrow>
      checkpoints_Get k d' = (if k = k_CheckpointID r then Inr r else checkpoints_Get k d)"
    by (auto simp: checkpoints_Get_def checkpoints_Create_def inserted_Inr_iff tbl_get_insert)
  show "checkpoints_Create r d = Inl e \<Longrightarrow> \<exists>r'. checkpoints_Get (k_CheckpointID r) d = Inr r'"
    unfolding checkpoints_Get_def checkpoints_Create_def by (rule inserted_Inl_tbl)
  show "checkpoints_Create r d = Inr d' \<Longrightarrow> checkpoints_Get (k_CheckpointID r) d = Inl ErrNoRows"
    unfolding checkpoints_Get_def checkpoints_Create_def by (rule inserted_Inr_free)
qed

interpretation brief_repo: keyed_repo b_BriefID briefs_Get briefs_Save
proof
  fix k d r e d'
  show "briefs_Get k d = Inr r \<Longrightarrow> b_BriefID r = k" unfolding briefs_Get_def by (rule found_key)
  show "briefs_Get k d = Inl e \<Longrightarrow> e = ErrNoRows" by (simp add: briefs_Get_def)
  show "briefs_Save r d = Inr d' \<Longrightarrow> briefs_Get k d' = (if k = b_BriefID r then Inr r else briefs_Get k d)"
    by (auto simp: briefs_Get_def briefs_Save_def inserted_Inr_iff tbl_get_insert)
  show "briefs_Save r d = Inl e \<Longrightarrow> \<exists>r'. briefs_Get (b_BriefID r) d = Inr r'"
    unfolding briefs_Get_def briefs_Save_def by (rule inserted_Inl_tbl)
  show "briefs_Save r d = Inr d' \<Longrightarrow> briefs_Get (b_BriefID r) d = Inl ErrNoRows"
    unfolding briefs_Get_def briefs_Save_def by (rule inserted_Inr_free)
qed

interpretation run_latest: latest_repo db_runs "\<lambda>t r. r_TaskID r = t" run_order runs_LatestByTask
  by unfold_locales
    (auto simp: runs_LatestByTask_def tbl_latest_None_iff dest: tbl_latest_SomeD)

interpretation checkpoint_latest: latest_repo db_checkpoints "\<lambda>t c. k_TaskID c = t"
  checkpoint_order checkpoints_LatestByTask
  by unfold_locales
    (auto simp: checkpoints_LatestByTask_def tbl_latest_None_iff dest: tbl_latest_SomeD)

interpretation brief_latest: latest_repo db_briefs "\<lambda>t b. b_TaskID b = t"
  "\<lambda>b. stamp_key (b_CreatedAt b)" briefs_LatestByTask
  by unfold_locales
    (auto simp: briefs_LatestByTask_def tbl_latest_None_iff dest: tbl_latest_SomeD)

end
