(* ===== verification/Frames.thy ===== *)
theory Frames
  imports Continue Repositories Calculus
begin

text \<open>
  What every operation of the coordinator does to the database, proved once for all relations
  between databases that are reflexive, transitive and hold across the individual writes
  (locale \<open>write_frame\<close>). A run may only be written over as a step of its life cycle
  (\<open>run_step\<close>): the operations establish that by reading the run first.
\<close>

definition on_db :: "(Db \<Rightarrow> Db \<Rightarrow> bool) \<Rightarrow> World \<Rightarrow> World \<Rightarrow> bool" where
  "on_db R w w' \<longleftrightarrow> R (w_db w) (w_db w')"

locale db_frame =
  fixes R :: "Db \<Rightarrow> Db \<Rightarrow> bool"
  assumes db_refl: "R d d"
    and db_trans: "R d d' \<Longrightarrow> R d' d'' \<Longrightarrow> R d d''"

sublocale db_frame \<subseteq> world: state_frame "on_db R"
  by unfold_locales (auto simp: on_db_def intro: db_refl db_trans)

context db_frame
begin

lemma frame_tick: "frames (on_db R) (tick f)"
  by (rule framesI) (auto simp: tick_run on_db_def db_refl)

lemma frame_clock: "frames (on_db R) (clock E)"
  unfolding clock_def by (rule frame_tick)

lemma frame_id: "frames (on_db R) (idGenerator E p)"
  unfolding idGenerator_def by (rule frame_tick)

lemma frame_capture: "frames (on_db R) (captureAnchor E root)"
  unfolding captureAnchor_def by (rule frame_tick)

lemma frame_synthesize: "frames (on_db R) (synthesize E c es)"
  unfolding synthesize_def by (intro world.frame_rules frame_tick)

lemma frame_read: "frames (on_db R) (db_read f)"
  by (rule framesI) (auto simp: db_read_run on_db_def db_refl)

lemma frame_write:
  assumes "\<And>d d'. f d = Inr d' \<Longrightarrow> R d d'"
  shows "frames (on_db R) (db_write f)"
  by (rule framesI) (auto simp: db_write_def on_db_def db_refl split: sum.splits intro: assms)

lemma frame_withTx: "frames (on_db R) m \<Longrightarrow> frames (on_db R) (withTx m)"
  by (rule framesI) (auto simp: withTx_def on_db_def db_refl split: prod.splits sum.splits dest: framesD)

lemma frame_wrapping: "frames (on_db R) m \<Longrightarrow> frames (on_db R) (wrapping p m)"
  by (rule framesI) (auto simp: wrapping_def split: prod.splits sum.splits dest: framesD)

lemma frame_latest_proof: "frames (on_db R) (latestProofEventID t)"
  unfolding latestProofEventID_def by (intro world.frame_rules)

lemma frame_assess: "frames (on_db R) (assess E t)"
  unfolding assess_def by (intro world.frame_rules frame_read frame_capture)

lemma frame_run_start: "frames (on_db R) (run_start E t)"
  unfolding run_start_def by (intro world.frame_rules frame_assess)

lemma frame_guard: "frames (on_db R) (guard_mutation E t m)"
  unfolding guard_mutation_def by (intro world.frame_rules frame_assess)

lemma frame_infer: "frames (on_db R) (inferActiveShellSessionID E t)"
  unfolding inferActiveShellSessionID_def by (intro world.frame_rules frame_clock)

lemma frame_agents: "frames (on_db R) (agentsMetadata E root)"
  unfolding agentsMetadata_def by (rule frame_tick)

lemma frame_request: "frames (on_db R) (buildExecutionRequest E p)"
  unfolding buildExecutionRequest_def by (intro world.frame_rules frame_agents frame_clock)

lemma frame_resolve: "frames (on_db R) (resolveRunForAction t p)"
  unfolding resolveRunForAction_def by (intro world.frame_rules frame_read)

lemma frame_chosen: "frames (on_db R) (chosen_run_id E req)" "frames (on_db R) (chosen_session E req t)"
  unfolding chosen_run_id_def chosen_session_def by (intro world.frame_rules frame_id frame_infer)+

lemmas call_frames = world.frame_rules frame_tick frame_clock frame_id frame_capture frame_synthesize
  frame_read frame_withTx frame_wrapping frame_latest_proof frame_assess frame_run_start frame_guard
  frame_infer frame_agents frame_request frame_resolve frame_chosen

end

text \<open>Operations that leave the database as it is.\<close>

interpretation quiet: db_frame "(=)"
  by unfold_locales auto

lemma quietD: "frames (on_db (=)) m \<Longrightarrow> m w = (r, w') \<Longrightarrow> w_db w' = w_db w"
  by (auto dest: framesD simp: on_db_def)

section \<open>Runs\<close>

definition runs_ok :: "Db \<Rightarrow> bool" where
  "runs_ok d \<longleftrightarrow> tbl_ok r_RunID (db_runs d)"

definition same_run :: "ExecutionRun \<Rightarrow> ExecutionRun \<Rightarrow> bool" where
  "same_run old new \<longleftrightarrow> r_RunID new = r_RunID old \<and> r_TaskID new = r_TaskID old
     \<and> r_BriefID new = r_BriefID old \<and> r_WorkerKind new = r_WorkerKind old
     \<and> r_ShellSessionID new = r_ShellSessionID old \<and> r_StartedAt new = r_StartedAt old
     \<and> r_CreatedFromPhase new = r_CreatedFromPhase old \<and> r_CreatedAt new = r_CreatedAt old"

text \<open>One step of the life cycle: CREATED, RUNNING, then INTERRUPTED, COMPLETED or FAILED.\<close>

definition run_step :: "ExecutionRun \<Rightarrow> ExecutionRun \<Rightarrow> bool" where
  "run_step old new \<longleftrightarrow> same_run old new
     \<and> (r_Status old = RunStatusCreated \<and> r_Status new = RunStatusRunning
        \<or> r_Status old = RunStatusRunning
          \<and> r_Status new \<in> {RunStatusInterrupted, RunStatusCompleted, RunStatusFailed})"

lemma tbl_get_member:
  "tbl_ok key rows \<Longrightarrow> r \<in> set rows \<Longrightarrow> tbl_get key (key r) rows = Some r"
  by (induction rows) (auto simp: tbl_ok_def tbl_get_def)

lemma runs_Create_ok: "runs_Create r d = Inr d' \<Longrightarrow> runs_ok d \<Longrightarrow> runs_ok d'"
  by (auto simp: runs_Create_def runs_ok_def inserted_Inr_iff dest: tbl_insert_ok)

lemma tbl_update_same_key_ok:
  assumes "tbl_update key j f rows = Some rows'" and "\<And>x. key (f x) = j" and "tbl_ok key rows"
  shows "tbl_ok key rows'"
proof -
  have "rows' = map (\<lambda>x. if key x = j then f x else x) rows"
    using assms(1) by (simp add: tbl_update_def split: if_splits)
  then have "map key rows' = map key rows" by (simp add: assms(2))
  then show ?thesis using assms(3) by (simp add: tbl_ok_def)
qed

lemma runs_Update_ok: "runs_Update r d = Inr d' \<Longrightarrow> runs_ok d \<Longrightarrow> runs_ok d'"
  by (auto simp: runs_Update_def runs_ok_def updated_Inr_iff intro: tbl_update_same_key_ok)

lemma latest_running_get:
  assumes "runs_ok d" and "runs_LatestRunningByTask t d = Inr r"
  shows "runs_Get (r_RunID r) d = Inr r"
  using assms by (auto simp: runs_ok_def runs_LatestRunningByTask_def runs_Get_def
      dest!: tbl_latest_SomeD intro: tbl_get_member)

lemma runs_Get_id: "runs_Get k d = Inr r \<Longrightarrow> r_RunID r = k"
  by (auto simp: runs_Get_def dest: tbl_get_SomeD)

section \<open>Preconditions on the database\<close>

text \<open>
  Started in a database with unique run ids where \<open>P\<close> holds, \<open>m\<close> relates the databases by \<open>R\<close>,
  keeps the run ids unique and, when it returns, \<open>Q\<close> holds of the result and the database.
\<close>

definition holds :: "(Db \<Rightarrow> Db \<Rightarrow> bool) \<Rightarrow> (Db \<Rightarrow> bool) \<Rightarrow> 'a op \<Rightarrow> ('a \<Rightarrow> Db \<Rightarrow> bool) \<Rightarrow> bool" where
  "holds R P m Q \<longleftrightarrow> (\<forall>w r w'. runs_ok (w_db w) \<longrightarrow> P (w_db w) \<longrightarrow> m w = (r, w') \<longrightarrow>
     runs_ok (w_db w') \<and> R (w_db w) (w_db w')
     \<and> (case r of Inl e \<Rightarrow> True | Inr a \<Rightarrow> Q a (w_db w')))"

definition guarded :: "(Db \<Rightarrow> Db \<Rightarrow> bool) \<Rightarrow> Db \<Rightarrow> Db \<Rightarrow> bool" where
  "guarded R d d' \<longleftrightarrow> (runs_ok d \<longrightarrow> runs_ok d' \<and> R d d')"

lemma holdsI:
  assumes "\<And>w r w'. runs_ok (w_db w) \<Longrightarrow> P (w_db w) \<Longrightarrow> m w = (r, w') \<Longrightarrow>
     runs_ok (w_db w') \<and> R (w_db w) (w_db w')
     \<and> (case r of Inl e \<Rightarrow> True | Inr a \<Rightarrow> Q a (w_db w'))"
  shows "holds R P m Q"
  using assms unfolding holds_def by blast

lemma holdsD:
  assumes "holds R P m Q" and "runs_ok (w_db w)" and "P (w_db w)" and "m w = (r, w')"
  shows "runs_ok (w_db w') \<and> R (w_db w) (w_db w')
     \<and> (case r of Inl e \<Rightarrow> True | Inr a \<Rightarrow> Q a (w_db w'))"
  using assms unfolding holds_def by blast

lemma holds_frames: "holds R (\<lambda>_. True) m Q \<Longrightarrow> frames (on_db (guarded R)) m"
  by (rule framesI) (auto simp: on_db_def guarded_def dest: holdsD)

lemma frames_holds: "frames (on_db (guarded R)) m \<Longrightarrow> holds R P m (\<lambda>_ _. True)"
  by (rule holdsI) (auto simp: on_db_def guarded_def dest: framesD split: sum.splits)

lemma holds_pre: "holds R P' m Q \<Longrightarrow> (\<And>d. runs_ok d \<Longrightarrow> P d \<Longrightarrow> P' d) \<Longrightarrow> holds R P m Q"
  unfolding holds_def by blast

lemma holds_case: "(\<And>d. P d \<Longrightarrow> C) \<Longrightarrow> (C \<Longrightarrow> holds R P m Q) \<Longrightarrow> holds R P m Q"
  unfolding holds_def by blast

lemma holds_quiet:
  assumes "frames (on_db (=)) m" and "\<And>d. R d d"
  shows "holds R P m (\<lambda>_. P)"
  using assms(2) by (intro holdsI) (auto dest!: quietD[OF assms(1)] split: sum.splits)

lemma holds_read:
  assumes "\<And>d. R d d"
  shows "holds R P (db_read f) (\<lambda>a d. P d \<and> f d = Inr a)"
  using assms by (intro holdsI) (auto simp: db_read_def split: sum.splits)

lemma holds_write:
  assumes "\<And>d. R d d"
    and "\<And>d d'. runs_ok d \<Longrightarrow> P d \<Longrightarrow> f d = Inr d' \<Longrightarrow> runs_ok d' \<and> R d d' \<and> Q d'"
  shows "holds R P (db_write f) (\<lambda>_. Q)"
  using assms by (intro holdsI) (auto simp: db_write_def split: sum.splits)

lemma holds_bnd:
  assumes "holds R P m Q" and "\<And>a. holds R (Q a) (f a) S"
    and "\<And>d d' d''. R d d' \<Longrightarrow> R d' d'' \<Longrightarrow> R d d''"
  shows "holds R P (bnd m f) S"
proof (rule holdsI)
  fix w r w'
  assume ok: "runs_ok (w_db w)" and P: "P (w_db w)" and run: "bnd m f w = (r, w')"
  obtain q u where m: "m w = (q, u)" by fastforce
  note mid = holdsD[OF assms(1) ok P m]
  show "runs_ok (w_db w') \<and> R (w_db w) (w_db w') \<and> (case r of Inl e \<Rightarrow> True | Inr a \<Rightarrow> S a (w_db w'))"
  proof (cases q)
    case (Inl e)
    then show ?thesis using run m mid by (auto simp: bnd_def)
  next
    case (Inr a)
    have "f a u = (r, w')" using run m Inr by (simp add: bnd_def)
    then have "runs_ok (w_db w') \<and> R (w_db u) (w_db w') \<and> (case r of Inl e \<Rightarrow> True | Inr b \<Rightarrow> S b (w_db w'))"
      using holdsD[OF assms(2), of u a] mid Inr by simp
    then show ?thesis using mid assms(3) by blast
  qed
qed

section \<open>Operations under a relation that holds across the writes\<close>

lemma writes_keep_runs:
  "proofs_Append e d = Inr d' \<Longrightarrow> db_runs d' = db_runs d"
  "messages_Append m d = Inr d' \<Longrightarrow> db_runs d' = db_runs d"
  "checkpoints_Create cp d = Inr d' \<Longrightarrow> db_runs d' = db_runs d"
  "capsules_Create c d = Inr d' \<Longrightarrow> db_runs d' = db_runs d"
  "capsules_Update c d = Inr d' \<Longrightarrow> db_runs d' = db_runs d"
  "intents_Save i d = Inr d' \<Longrightarrow> db_runs d' = db_runs d"
  "briefs_Save b d = Inr d' \<Longrightarrow> db_runs d' = db_runs d"
  "actions_Create a d = Inr d' \<Longrightarrow> db_runs d' = db_runs d"
  by (auto simp: proofs_Append_def messages_Append_def checkpoints_Create_def capsules_Create_def
      capsules_Update_def intents_Save_def briefs_Save_def actions_Create_def
      inserted_Inr_iff updated_Inr_iff Let_def)

locale write_frame =
  fixes R :: "Db \<Rightarrow> Db \<Rightarrow> bool"
  assumes w_refl: "R d d"
    and w_trans: "R d d' \<Longrightarrow> R d' d'' \<Longrightarrow> R d d''"
    and w_proof: "proofs_Append e d = Inr d' \<Longrightarrow> e_SequenceNo e = 0 \<Longrightarrow> R d d'"
    and w_message: "messages_Append m d = Inr d' \<Longrightarrow> R d d'"
    and w_checkpoint: "checkpoints_Create cp d = Inr d' \<Longrightarrow> R d d'"
    and w_capsule_new: "capsules_Create c d = Inr d' \<Longrightarrow> R d d'"
    and w_capsule: "capsules_Update c d = Inr d' \<Longrightarrow> R d d'"
    and w_intent: "intents_Save i d = Inr d' \<Longrightarrow> R d d'"
    and w_brief: "briefs_Save b d = Inr d' \<Longrightarrow> R d d'"
    and w_action: "actions_Create a d = Inr d' \<Longrightarrow> R d d'"
    and w_run_new: "runs_Create r d = Inr d' \<Longrightarrow> R d d'"
    and w_run: "runs_Get (r_RunID r) d = Inr old \<Longrightarrow> run_step old r \<Longrightarrow> runs_Update r d = Inr d' \<Longrightarrow> R d d'"

sublocale write_frame \<subseteq> g: db_frame "guarded R"
  by unfold_locales (auto simp: guarded_def intro: w_refl w_trans)

context write_frame
begin

lemma writes:
  "e_SequenceNo e = 0 \<Longrightarrow> frames (on_db (guarded R)) (db_write (proofs_Append e))"
  "frames (on_db (guarded R)) (db_write (messages_Append m))"
  "frames (on_db (guarded R)) (db_write (checkpoints_Create cp))"
  "frames (on_db (guarded R)) (db_write (capsules_Create c))"
  "frames (on_db (guarded R)) (db_write (capsules_Update c))"
  "frames (on_db (guarded R)) (db_write (intents_Save i))"
  "frames (on_db (guarded R)) (db_write (briefs_Save b))"
  "frames (on_db (guarded R)) (db_write (actions_Create a))"
  "frames (on_db (guarded R)) (db_write (runs_Create r))"
  by (rule g.frame_write, simp add: guarded_def runs_ok_def writes_keep_runs w_proof w_message
      w_checkpoint w_capsule_new w_capsule w_intent w_brief w_action; fail)+
    (rule g.frame_write, auto simp: guarded_def intro: runs_Create_ok w_run_new)

lemma op_append: "frames (on_db (guarded R)) (appendProof E caps typ actor who payload run)"
  unfolding appendProof_def by (intro g.call_frames writes) simp

lemma op_phase: "frames (on_db (guarded R)) (phase_event E caps reason run)"
  unfolding phase_event_def by (rule op_append)

lemma op_emit: "frames (on_db (guarded R)) (emitCanonicalConversation E caps text payload run)"
  unfolding emitCanonicalConversation_def by (intro g.call_frames writes op_append)

lemma op_checkpoint_proof: "frames (on_db (guarded R)) (appendCheckpointCreatedProof E caps cp run)"
  unfolding appendCheckpointCreatedProof_def by (intro g.call_frames writes) simp

lemma op_checkpoint:
  "frames (on_db (guarded R)) (createCheckpointWithOptions E caps runID trigger res descr emit)"
  "frames (on_db (guarded R)) (createCheckpoint E caps runID trigger res descr)"
  unfolding createCheckpoint_def createCheckpointWithOptions_def Let_def
  by (intro g.call_frames writes op_checkpoint_proof)+

lemma op_refuse: "frames (on_db (guarded R)) (refuse_run E caps text payload)"
  unfolding refuse_run_def by (intro g.call_frames op_emit)

lemma op_conclude: "frames (on_db (guarded R)) (conclude E caps limit runID status extra)"
  unfolding conclude_def by (intro g.call_frames op_emit)

lemmas op_frames = g.call_frames writes op_append op_phase op_emit op_checkpoint op_refuse op_conclude

lemma op_StartTask: "frames (on_db (guarded R)) (StartTask E goal root)"
  unfolding StartTask_def Let_def by (intro op_frames)

lemma op_MessageTask: "frames (on_db (guarded R)) (MessageTask E t message)"
  unfolding MessageTask_def message_tx_def Let_def by (intro op_frames)

lemma op_CreateCheckpoint: "frames (on_db (guarded R)) (CreateCheckpoint E t)"
  unfolding CreateCheckpoint_def checkpoint_tx_def Let_def by (intro op_frames)

end

section \<open>Settling a run\<close>

definition running :: "ExecutionRun \<Rightarrow> Db \<Rightarrow> bool" where
  "running r d \<longleftrightarrow> runs_Get (r_RunID r) d = Inr r \<and> r_Status r = RunStatusRunning"

lemma resolve_running:
  assumes "runs_ok (w_db w)" and "resolveRunForAction t p w = (Inr r, w')"
  shows "running r (w_db w')"
proof -
  have r: "(if p \<noteq> [] then runs_Get p else runs_LatestRunningByTask t) (w_db w) = Inr r"
    and st: "r_Status r = RunStatusRunning" and w': "w' = w"
    using assms(2) by (auto simp: resolveRunForAction_def bnd_Inr_iff db_read_run run_simps split: if_splits)
  have "runs_Get (r_RunID r) (w_db w) = Inr r"
    using r latest_running_get[OF assms(1)] by (cases "p \<noteq> []") (auto dest: runs_Get_id)
  then show ?thesis using st w' by (simp add: running_def)
qed

lemma ended_step:
  "r_Status r = RunStatusRunning \<Longrightarrow> s \<in> {RunStatusInterrupted, RunStatusCompleted, RunStatusFailed}
     \<Longrightarrow> run_step r (ended s summary now r)"
  by (auto simp: run_step_def same_run_def ended_def)

lemma run_step_reason [simp]: "run_step r (x\<lparr>r_InterruptionReason := reason\<rparr>) = run_step r x"
  by (simp add: run_step_def same_run_def)

lemma run_step_evidence:
  "run_step r (ended s summary now (applyExecutionEvidence x r)) = run_step r (ended s summary now r)"
  by (simp add: run_step_def same_run_def ended_def applyExecutionEvidence_def)

lemma run_ids [simp]:
  "r_RunID (ended s summary now r) = r_RunID r" "r_RunID (applyExecutionEvidence x r) = r_RunID r"
  by (simp_all add: ended_def applyExecutionEvidence_def)

definition steps_to :: "ExecutionRun \<Rightarrow> Db \<Rightarrow> bool" where
  "steps_to r d \<longleftrightarrow> (\<exists>old. runs_Get (r_RunID r) d = Inr old \<and> run_step old r)"

lemma running_steps: "running r0 d \<Longrightarrow> r_RunID r = r_RunID r0 \<Longrightarrow> run_step r0 r \<Longrightarrow> steps_to r d"
  by (auto simp: running_def steps_to_def)

context write_frame
begin

lemma R_bnd:
  "holds R P m Q \<Longrightarrow> (\<And>a. holds R (Q a) (f a) S) \<Longrightarrow> holds R P (bnd m f) S"
  by (rule holds_bnd) (auto intro: w_trans)

lemma R_quiet: "frames (on_db (=)) m \<Longrightarrow> holds R P m (\<lambda>_. P)"
  by (rule holds_quiet) (auto intro: w_refl)

lemma R_frames: "frames (on_db (guarded R)) m \<Longrightarrow> holds R P m (\<lambda>_ _. True)"
  by (rule holds_pre[OF frames_holds]) simp

lemma R_update: "holds R (steps_to r) (db_write (runs_Update r)) (\<lambda>_ _. True)"
  by (rule holds_write) (auto simp: steps_to_def intro: w_refl w_run runs_Update_ok)

lemma R_settle:
  "holds R (steps_to r)
     (settle_run E caps r typ payload reason trigger resumable descriptor limit extra) (\<lambda>_ _. True)"
  unfolding settle_run_def seq_def
  by (rule R_bnd[OF R_update]) (intro R_frames op_frames)

lemma R_settle_running:
  assumes "\<And>now. run_step r0 (r now)" and "\<And>now. r_RunID (r now) = r_RunID r0"
  shows "holds R (running r0) (bnd (clock E) (\<lambda>now.
     settle_run E (caps now) (r now) (typ now) (payload now) reason trigger resumable descriptor limit extra))
     (\<lambda>_ _. True)"
  by (rule R_bnd[OF R_quiet[OF quiet.frame_clock]], rule holds_pre[OF R_settle])
    (auto intro: running_steps assms)

lemma R_resolve:
  "holds R P (attempt (resolveRunForAction t p))
     (\<lambda>res d. case res of Inl e \<Rightarrow> True | Inr r \<Rightarrow> running r d)"
proof (rule holdsI)
  fix w r w'
  assume ok: "runs_ok (w_db w)" and run: "attempt (resolveRunForAction t p) w = (r, w')"
  obtain q u where m: "resolveRunForAction t p w = (q, u)" by fastforce
  have "w_db u = w_db w" by (rule quietD[OF quiet.frame_resolve m])
  moreover have "r = Inr q" "w' = u" using run m by (simp_all add: attempt_def)
  moreover have "running x (w_db u)" if "q = Inr x" for x using resolve_running[OF ok] m that by simp
  ultimately show "runs_ok (w_db w') \<and> R (w_db w) (w_db w') \<and> (case r of Inl e \<Rightarrow> True
      | Inr a \<Rightarrow> (case a of Inl e \<Rightarrow> True | Inr r \<Rightarrow> running r (w_db w')))"
    using ok by (auto intro: w_refl split: sum.split)
qed

lemma R_resolved:
  assumes "\<And>e. frames (on_db (guarded R)) (f e)"
    and "\<And>r. r_Status r = RunStatusRunning \<Longrightarrow> holds R (running r) (g r) (\<lambda>_ _. True)"
  shows "holds R (\<lambda>d. case res of Inl e \<Rightarrow> True | Inr r \<Rightarrow> running r d)
    (case res of Inl e \<Rightarrow> f e | Inr r \<Rightarrow> g r) (\<lambda>_ _. True)"
proof (cases res)
  case (Inl e)
  then show ?thesis by (simp add: R_frames[OF assms(1)])
next
  case (Inr r)
  have "holds R (running r) (g r) (\<lambda>_ _. True)"
    by (rule holds_case[where C = "r_Status r = RunStatusRunning"]) (simp add: running_def, rule assms(2))
  then show ?thesis unfolding Inr sum.case .
qed

lemma op_completeRun: "frames (on_db (guarded R)) (completeRun E caps req)"
  unfolding completeRun_def Let_def
  by (rule holds_frames, rule R_bnd[OF R_resolve], rule R_resolved, rule op_refuse)
    (rule R_settle_running, rule ended_step, simp_all)

lemma op_interruptRun: "frames (on_db (guarded R)) (interruptRun E caps req)"
  unfolding interruptRun_def Let_def
  by (rule holds_frames, rule R_bnd[OF R_resolve], rule R_resolved, rule op_refuse)
    (rule R_settle_running, unfold run_step_reason, rule ended_step, simp_all)

lemma R_markRunCompleted:
  "r_Status r0 = RunStatusRunning \<Longrightarrow>
     holds R (running r0) (markRunCompleted E caps r0 x) (\<lambda>_ _. True)"
  unfolding markRunCompleted_def Let_def
  by (rule R_settle_running, unfold run_step_evidence, rule ended_step, simp_all)

lemma R_markRunFailed:
  "r_Status r0 = RunStatusRunning \<Longrightarrow>
     holds R (running r0) (markRunFailed E caps r0 x err) (\<lambda>_ _. True)"
  unfolding markRunFailed_def Let_def
  by (cases "xe_Canceled err"; simp only: if_True if_False)
    (rule R_settle_running, unfold run_step_reason run_step_evidence, rule ended_step, simp_all)+

end

section \<open>Starting, finalizing and reconciling runs\<close>

interpretation runs_same: db_frame "\<lambda>d d'. db_runs d' = db_runs d"
  by unfold_locales auto

lemma append_same_runs:
  "frames (on_db (\<lambda>d d'. db_runs d' = db_runs d)) (appendProof E caps typ actor who payload run)"
  unfolding appendProof_def
  by (intro runs_same.call_frames runs_same.frame_write) (rule writes_keep_runs)

lemma running_cong: "db_runs d' = db_runs d \<Longrightarrow> running r d' = running r d"
  by (simp add: running_def runs_Get_def)

context write_frame
begin

lemma R_keep_running:
  assumes "frames (on_db (guarded R)) m" and "frames (on_db (\<lambda>d d'. db_runs d' = db_runs d)) m"
  shows "holds R (running r) m (\<lambda>_. running r)"
proof (rule holdsI)
  fix w q w'
  assume ok: "runs_ok (w_db w)" "running r (w_db w)" and m: "m w = (q, w')"
  have "guarded R (w_db w) (w_db w')" "db_runs (w_db w') = db_runs (w_db w)"
    using framesD[OF assms(1) m] framesD[OF assms(2) m] by (simp_all add: on_db_def)
  then show "runs_ok (w_db w') \<and> R (w_db w) (w_db w')
      \<and> (case q of Inl e \<Rightarrow> True | Inr a \<Rightarrow> running r (w_db w'))"
    using ok running_cong[of "w_db w'" "w_db w" r] by (simp add: guarded_def split: sum.split)
qed

lemma R_created:
  "holds R P (db_write (runs_Create r0)) (\<lambda>_ d. runs_Get (r_RunID r0) d = Inr r0)"
proof (rule holds_write)
  show "R d d" for d by (rule w_refl)
next
  fix d d'
  assume "runs_ok d" and c: "runs_Create r0 d = Inr d'"
  then show "runs_ok d' \<and> R d d' \<and> runs_Get (r_RunID r0) d' = Inr r0"
    using run_repo.create_get[OF c, of "r_RunID r0"] runs_Create_ok[OF c] w_run_new[OF c] by simp
qed

lemma frame_create_start:
  assumes "\<And>t. run_step r0 (f t)" and "\<And>t. frames (on_db (guarded R)) (k t)"
  shows "frames (on_db (guarded R)) (seq (db_write (runs_Create r0))
    (bnd (clock E) (\<lambda>t. seq (db_write (runs_Update (f t))) (k t))))"
proof -
  have id: "r_RunID (f t) = r_RunID r0" for t using assms(1)[of t] by (simp add: run_step_def same_run_def)
  show ?thesis unfolding seq_def
    by (rule holds_frames, rule R_bnd[OF R_created], rule R_bnd[OF R_quiet[OF quiet.frame_clock]],
        rule R_bnd[OF holds_pre[OF R_update] R_frames[OF assms(2)]])
      (auto simp: steps_to_def id assms(1))
qed

lemma op_startRunNoop: "frames (on_db (guarded R)) (startRunNoop E caps req)"
  unfolding startRunNoop_def Let_def
  by (intro frame_create_start op_interruptRun op_frames) (simp add: run_step_def same_run_def new_run_def)

lemma op_prepareRealRun: "frames (on_db (guarded R)) (prepareRealRun E worker req)"
  unfolding prepareRealRun_def Let_def by (intro op_frames)

lemma R_finalize_run:
  assumes "r_Status r = RunStatusRunning"
  shows "holds R (running r)
     (seq (appendProof E caps EventWorkerOutputCaptured ActorSystem who payload run)
     (seq (when_do c (appendProof E caps EventFileChangeDetected ActorSystem who payload' run))
     (case err of
        Some e \<Rightarrow> markRunFailed E caps r x e
      | None \<Rightarrow>
         (if x_ExitCode x \<noteq> 0 then markRunFailed E caps r x exit_err
          else markRunCompleted E caps r x)))) (\<lambda>_ _. True)"
  unfolding seq_def
  by (rule R_bnd[OF R_keep_running[OF op_append append_same_runs]],
      rule R_bnd[OF R_keep_running[OF g.world.frame_when[OF op_append]
        runs_same.world.frame_when[OF append_same_runs]]])
    (auto split: option.split intro: R_markRunFailed R_markRunCompleted assms)

lemma frame_read_running:
  assumes "\<And>r. frames (on_db (guarded R)) (k r)"
    and "\<And>r. r_Status r = RunStatusRunning \<Longrightarrow> holds R (running r) (m r) (\<lambda>_ _. True)"
  shows "frames (on_db (guarded R))
    (bnd (db_read (runs_Get i)) (\<lambda>r. if r_Status r \<noteq> RunStatusRunning then k r else m r))"
proof (rule holds_frames, rule R_bnd[OF holds_read[OF w_refl]])
  fix r
  show "holds R (\<lambda>d. True \<and> runs_Get i d = Inr r) (if r_Status r \<noteq> RunStatusRunning then k r else m r) (\<lambda>_ _. True)"
  proof (cases "r_Status r = RunStatusRunning")
    case True
    then show ?thesis
      using holds_pre[OF assms(2)[OF True], of "\<lambda>d. True \<and> runs_Get i d = Inr r"]
      by (auto simp: running_def dest: runs_Get_id)
  next
    case False
    then show ?thesis using R_frames[OF assms(1)] by simp
  qed
qed

lemma op_finalizeRealRun: "frames (on_db (guarded R)) (finalizeRealRun E p x err)"
  unfolding finalizeRealRun_def
  by (rule g.frame_withTx, rule g.world.frame_bnd[OF g.frame_read], rule frame_read_running)
    (rule g.call_frames, rule R_finalize_run)

lemma op_RunTask: "frames (on_db (guarded R)) (RunTask E worker req)"
  unfolding RunTask_def startRunRealStaged_def on_capsule_def
  by (intro op_prepareRealRun op_finalizeRealRun op_startRunNoop op_completeRun op_interruptRun op_frames)

end

lemma frames_outcome:
  assumes "frames Q a" "frames Q b" "frames Q c" "frames Q d" "frames Q e"
  shows "frames Q (case x of ContinueOutcomeSafe \<Rightarrow> a | ContinueOutcomeStaleReconciled \<Rightarrow> b
    | ContinueOutcomeNeedsDecision \<Rightarrow> c | ContinueOutcomeBlockedDrift \<Rightarrow> d
    | ContinueOutcomeBlockedInconsistent \<Rightarrow> e)"
  using assms by (cases x) simp_all

context write_frame
begin

lemma R_reconcile:
  assumes "r_Status r = RunStatusRunning"
  shows "holds R (running r) (reconcileStaleRun E caps r) (\<lambda>_ _. True)"
  unfolding reconcileStaleRun_def Let_def seq_def
  by (rule R_bnd[OF R_quiet[OF quiet.frame_clock]], rule R_bnd[OF holds_pre[OF R_update]],
      erule running_steps, simp, simp only: run_step_reason, rule ended_step)
    (use assms in \<open>simp_all\<close>, intro R_frames op_frames)

lemma frame_stale:
  assumes "frames (on_db (guarded R)) m" and "\<And>r. frames (on_db (guarded R)) (k r)"
  shows "frames (on_db (guarded R))
    (bnd (optional (db_read (runs_Get i))) (\<lambda>res. case res of None \<Rightarrow> m
     | Some r \<Rightarrow> if r_Status r \<noteq> RunStatusRunning then k r else reconcileStaleRun E caps r))"
proof -
  have eq: "bnd (optional (db_read (runs_Get i))) (\<lambda>res. case res of None \<Rightarrow> m
     | Some r \<Rightarrow> if r_Status r \<noteq> RunStatusRunning then k r else reconcileStaleRun E caps r) w
     = (case runs_Get i (w_db w) of
          Inl e \<Rightarrow> m w
        | Inr r \<Rightarrow> bnd (db_read (runs_Get i)) (\<lambda>r. if r_Status r \<noteq> RunStatusRunning then k r
             else reconcileStaleRun E caps r) w)" for w
    by (auto simp: bnd_def optional_def db_read_run runs_Get_def split: sum.split)
  have running: "frames (on_db (guarded R)) (bnd (db_read (runs_Get i)) (\<lambda>r.
      if r_Status r \<noteq> RunStatusRunning then k r else reconcileStaleRun E caps r))"
    by (rule frame_read_running[OF assms(2) R_reconcile])
  show ?thesis
    by (rule framesI) (auto simp: eq split: sum.splits dest: framesD[OF assms(1)] framesD[OF running])
qed

lemma op_blocked:
  "frames (on_db (guarded R)) (blocked_continue E caps ph action reason descriptor text payload result)"
  unfolding blocked_continue_def Let_def by (intro op_frames)

lemma op_blocks:
  "frames (on_db (guarded R)) (blockedContinueByDrift E caps drift)"
  "frames (on_db (guarded R)) (blockedContinueByInconsistency E caps reason)"
  "frames (on_db (guarded R)) (awaitDecisionOnContinue E caps drift)"
  unfolding blockedContinueByDrift_def blockedContinueByInconsistency_def awaitDecisionOnContinue_def
  by (rule op_blocked)+

lemma op_safeContinue: "frames (on_db (guarded R)) (safeContinue E caps cp run recovery)"
  unfolding safeContinue_def briefless_continue_def Let_def by (intro op_frames)

lemma op_finalizeContinue: "frames (on_db (guarded R)) (finalizeContinue E a recovery)"
  unfolding finalizeContinue_def Let_def
  by (rule g.world.frame_bnd[OF g.frame_read], rule g.world.frame_if[OF op_blocks(2)],
      rule frames_outcome[OF op_safeContinue _ op_blocks(3) op_blocks(1) op_blocks(2)],
      rule g.world.frame_option[OF op_blocks(2)], rule frame_stale[OF op_blocks(2) op_blocks(2)])

lemma op_ContinueTask: "frames (on_db (guarded R)) (ContinueTask E t)"
  unfolding ContinueTask_def recordNoMutationContinueOutcome_def Let_def
  by (intro op_finalizeContinue op_frames)

end

end
