(* ===== verification/RecoveryOps.thy ===== *)
theory RecoveryOps
  imports Frames
begin

text \<open>
  internal/orchestrator/recovery_action.go, interrupted_resume.go, continue_execution.go and
  rebrief.go: the operator's recovery steps. Each assesses the task first, refuses outside the
  recovery class it is meant for, and then, in one transaction that fails when the capsule
  version has moved, records what was decided.
\<close>

section \<open>Recording an action\<close>

record RecordRecoveryActionRequest =
  rr_TaskID :: string
  rr_Kind :: RecoveryActionKind
  rr_Summary :: string
  rr_Notes :: "string list"

record RecoveryOutcome =
  ro_TaskID :: TaskID
  ro_BriefID :: BriefID
  ro_BriefHash :: string
  ro_PreviousBriefID :: BriefID
  ro_Action :: "RecoveryRecord option"
  ro_RecoveryClass :: RecoveryClass
  ro_RecommendedAction :: RecoveryAction
  ro_ReadyForNextRun :: bool
  ro_ReadyForHandoffLaunch :: bool
  ro_RecoveryReason :: string
  ro_CanonicalResponse :: string

text \<open>The part the four result structs share: the recovery after the step and the response.\<close>

definition recovery_outcome ::
  "TaskID \<Rightarrow> ExecutionBrief option \<Rightarrow> BriefID \<Rightarrow> RecoveryRecord option \<Rightarrow> RecoveryAssessment \<Rightarrow> string \<Rightarrow>
     RecoveryOutcome" where
  "recovery_outcome t b prev action r text =
     \<lparr>ro_TaskID = t, ro_BriefID = (case b of Some x \<Rightarrow> b_BriefID x | None \<Rightarrow> []),
      ro_BriefHash = (case b of Some x \<Rightarrow> b_BriefHash x | None \<Rightarrow> []), ro_PreviousBriefID = prev,
      ro_Action = action, ro_RecoveryClass = rv_RecoveryClass r,
      ro_RecommendedAction = rv_RecommendedAction r, ro_ReadyForNextRun = rv_ReadyForNextRun r,
      ro_ReadyForHandoffLaunch = rv_ReadyForHandoffLaunch r, ro_RecoveryReason = rv_Reason r,
      ro_CanonicalResponse = text\<rparr>"

definition normalizedRecoveryNotes :: "string list \<Rightarrow> string list" where
  "normalizedRecoveryNotes values = filter (\<lambda>v. v \<noteq> []) (map TrimSpace values)"

definition nonEmptyRecoverySummary :: "string \<Rightarrow> string \<Rightarrow> string" where
  "nonEmptyRecoverySummary requested alt =
     (if TrimSpace requested = [] then alt else TrimSpace requested)"

definition recoveryActionRunID :: "RecoveryRecord \<Rightarrow> RunID option" where
  "recoveryActionRunID r = (if ra_RunID r = [] then None else Some (ra_RunID r))"

record recoveryPhaseUpdate =
  pu_Phase :: Phase
  pu_NextAction :: string
  pu_Reason :: string

definition recovery_template ::
  "continueAssessment \<Rightarrow> RecordRecoveryActionRequest \<Rightarrow> RunID \<Rightarrow> CheckpointID \<Rightarrow> string \<Rightarrow> string \<Rightarrow>
     string \<Rightarrow> RecoveryRecord" where
  "recovery_template a req run cp handoff attemptID alt =
     \<lparr>ra_Version = 1, ra_ActionID = [], ra_TaskID = ca_TaskID a, ra_Kind = rr_Kind req,
      ra_RunID = run, ra_CheckpointID = cp, ra_HandoffID = handoff, ra_LaunchAttemptID = attemptID,
      ra_Summary = nonEmptyRecoverySummary (rr_Summary req) alt,
      ra_Notes = normalizedRecoveryNotes (rr_Notes req), ra_CreatedAt = 0\<rparr>"

text \<open>The recovery classes in which a kind of action may be recorded; none for other kinds.\<close>

definition recordable_in :: "RecoveryActionKind \<Rightarrow> RecoveryClass set" where
  "recordable_in kind =
     (case kind of
        KindFailedRunReviewed \<Rightarrow> {RecoveryClassFailedRunReviewRequired}
      | KindInterruptedRunReviewed \<Rightarrow> {RecoveryClassInterruptedRunRecoverable}
      | KindValidationReviewed \<Rightarrow> {RecoveryClassValidationReviewRequired}
      | KindDecisionContinue \<Rightarrow> {RecoveryClassDecisionRequired}
      | KindDecisionRegenerateBrief \<Rightarrow> {RecoveryClassDecisionRequired}
      | KindRepairIntentRecorded \<Rightarrow> {RecoveryClassRepairRequired, RecoveryClassBlockedDrift}
      | KindPendingLaunchReviewed \<Rightarrow> {RecoveryClassHandoffLaunchPendingOutcome}
      | _ \<Rightarrow> {})"

definition refusal_text :: "RecoveryActionKind \<Rightarrow> string" where
  "refusal_text kind =
     (case kind of
        KindFailedRunReviewed \<Rightarrow> ''failed-run review can only be recorded while recovery class is FAILED_RUN_REVIEW_REQUIRED''
      | KindInterruptedRunReviewed \<Rightarrow> ''interrupted-run review can only be recorded while recovery class is INTERRUPTED_RUN_RECOVERABLE''
      | KindValidationReviewed \<Rightarrow> ''validation review can only be recorded while recovery class is VALIDATION_REVIEW_REQUIRED''
      | KindDecisionContinue \<Rightarrow> ''continue decision can only be recorded while recovery class is DECISION_REQUIRED''
      | KindDecisionRegenerateBrief \<Rightarrow> ''regenerate-brief decision can only be recorded while recovery class is DECISION_REQUIRED''
      | KindRepairIntentRecorded \<Rightarrow> ''repair intent can only be recorded while recovery class is REPAIR_REQUIRED or BLOCKED_DRIFT''
      | KindPendingLaunchReviewed \<Rightarrow> ''pending-launch review can only be recorded while recovery class is HANDOFF_LAUNCH_PENDING_OUTCOME''
      | _ \<Rightarrow> ''unsupported recovery action kind: '' @ RecoveryActionKind_str kind)"

definition action_template ::
  "continueAssessment \<Rightarrow> RecoveryAssessment \<Rightarrow> RecordRecoveryActionRequest \<Rightarrow> RecoveryRecord" where
  "action_template a r req =
     (let run = rv_RunID r; cp = rv_CheckpointID r; h = rv_HandoffID r; named = nonEmpty run ''unknown'' in
      case rr_Kind req of
        KindFailedRunReviewed \<Rightarrow> recovery_template a req run cp [] [] (''Failed run '' @ named @ '' reviewed.'')
      | KindInterruptedRunReviewed \<Rightarrow> recovery_template a req run cp [] [] (''Interrupted run '' @ named @ '' reviewed.'')
      | KindValidationReviewed \<Rightarrow> recovery_template a req run cp [] [] (''Validation state for run '' @ named @ '' reviewed.'')
      | KindDecisionContinue \<Rightarrow> recovery_template a req run cp h [] ''Operator chose to continue with the current brief.''
      | KindDecisionRegenerateBrief \<Rightarrow> recovery_template a req run cp h [] ''Operator chose to regenerate the execution brief before another run.''
      | KindRepairIntentRecorded \<Rightarrow> recovery_template a req [] cp [] [] ''Operator recorded repair intent for the current continuity issue.''
      | KindPendingLaunchReviewed \<Rightarrow> recovery_template a req [] [] h
          (case ca_LatestLaunch a of Some l \<Rightarrow> l_AttemptID l | None \<Rightarrow> [])
          ''Pending handoff launch reviewed; waiting for durable outcome.''
      | _ \<Rightarrow> recovery_template a req [] [] [] [] [])"

definition action_phase_update :: "RecoveryActionKind \<Rightarrow> recoveryPhaseUpdate option" where
  "action_phase_update kind =
     (case kind of
        KindDecisionContinue \<Rightarrow> Some \<lparr>pu_Phase = PhaseBriefReady,
          pu_NextAction = ''Continue branch selected. Execute continue recovery before starting the next bounded run.'',
          pu_Reason = ''operator recorded decision to continue with current brief''\<rparr>
      | KindDecisionRegenerateBrief \<Rightarrow> Some \<lparr>pu_Phase = PhaseBlocked,
          pu_NextAction = ''Regenerate or replace the execution brief before starting another bounded run.'',
          pu_Reason = ''operator recorded decision to regenerate brief before continuing''\<rparr>
      | _ \<Rightarrow> None)"

definition prepareRecoveryActionRecord ::
  "continueAssessment \<Rightarrow> RecoveryAssessment \<Rightarrow> RecordRecoveryActionRequest \<Rightarrow>
     go_error + RecoveryRecord \<times> recoveryPhaseUpdate option" where
  "prepareRecoveryActionRecord a r req =
     (if rv_RecoveryClass r \<in> recordable_in (rr_Kind req)
      then Inr (action_template a r req, action_phase_update (rr_Kind req))
      else Inl (ErrMsg (refusal_text (rr_Kind req))))"

definition reusableRecoveryAction :: "RecoveryRecord \<Rightarrow> RecoveryRecord option \<Rightarrow> bool" where
  "reusableRecoveryAction c latest =
     (case latest of
        None \<Rightarrow> False
      | Some l \<Rightarrow> ra_TaskID l = ra_TaskID c \<and> ra_Kind l = ra_Kind c \<and> ra_RunID l = ra_RunID c
          \<and> ra_CheckpointID l = ra_CheckpointID c \<and> ra_HandoffID l = ra_HandoffID c
          \<and> ra_LaunchAttemptID l = ra_LaunchAttemptID c
          \<and> TrimSpace (ra_Summary l) = TrimSpace (ra_Summary c) \<and> ra_Notes l = ra_Notes c)"

definition replayableLatestRecoveryAction ::
  "RecordRecoveryActionRequest \<Rightarrow> RecoveryRecord option \<Rightarrow> bool" where
  "replayableLatestRecoveryAction req latest =
     (case latest of
        None \<Rightarrow> False
      | Some l \<Rightarrow> ra_Kind l = rr_Kind req
          \<and> stringSlicesEqual (normalizedRecoveryNotes (rr_Notes req)) (ra_Notes l)
          \<and> (TrimSpace (rr_Summary req) = [] \<or> TrimSpace (rr_Summary req) = TrimSpace (ra_Summary l)))"

definition recoveryActionReplayAllowed :: "RecoveryActionKind \<Rightarrow> RecoveryAssessment \<Rightarrow> bool" where
  "recoveryActionReplayAllowed kind r =
     (if kind = KindInterruptedRunReviewed
      then rv_RecoveryClass r = RecoveryClassInterruptedRunRecoverable else True)"

definition recoveryActionCanonical :: "RecoveryRecord \<Rightarrow> RecoveryAssessment \<Rightarrow> string" where
  "recoveryActionCanonical act r =
     (let named = nonEmpty (ra_RunID act) ''unknown'' in
      case ra_Kind act of
        KindFailedRunReviewed \<Rightarrow> ''I recorded review of failed run '' @ named
          @ ''. The next explicit recovery step is to decide whether to continue with the current brief or regenerate it.''
      | KindInterruptedRunReviewed \<Rightarrow> ''I recorded review of interrupted run '' @ named
          @ ''. The task remains in interrupted recovery posture; Tuku is preserving the interrupted execution path rather than claiming fresh-run readiness.''
      | KindValidationReviewed \<Rightarrow> ''I recorded validation review for run '' @ named
          @ ''. The next explicit recovery step is to decide whether to continue with the current brief or regenerate it.''
      | KindDecisionContinue \<Rightarrow> ''I recorded the operator decision to continue with the current brief. Execute continue recovery before starting the next bounded run.''
      | KindDecisionRegenerateBrief \<Rightarrow> ''I recorded the operator decision to regenerate the execution brief before another run. Tuku will not claim next-run readiness until a new or revised brief exists.''
      | KindRepairIntentRecorded \<Rightarrow> ''I recorded repair intent for the current continuity issue. The task remains blocked until the repair is carried out. '' @ TrimSpace (rv_Reason r)
      | KindPendingLaunchReviewed \<Rightarrow> ''I recorded review of the pending handoff launch. Retry remains blocked until Tuku has a durable launch outcome.''
      | _ \<Rightarrow> ''I recorded recovery action '' @ RecoveryActionKind_str (ra_Kind act)
          @ ''. Current recovery state is '' @ RecoveryClass_str (rv_RecoveryClass r) @ ''.'')"

definition version_moved :: "string \<Rightarrow> continueAssessment \<Rightarrow> WorkCapsule \<Rightarrow> go_error" where
  "version_moved what a caps = ErrMsg (''task state changed during '' @ what @ '' preparation (capsule version ''
     @ itoa (sint (c_Version (ca_Capsule a))) @ '' -> '' @ itoa (sint (c_Version caps)) @ '')'')"

text \<open>\<open>afterRecovery\<close>: the assessment repeated inside the transaction.\<close>

definition after_recovery :: "Deps \<Rightarrow> TaskID \<Rightarrow> RecoveryAssessment op" where
  "after_recovery E t = bnd (assess E t) (\<lambda>a. ret (recoveryFromContinueAssessment a))"

definition recovery_payload :: "RecoveryAssessment \<Rightarrow> (string \<times> pval) list" where
  "recovery_payload r =
     [(''recovery_class'', PStr (RecoveryClass_str (rv_RecoveryClass r))),
      (''recommended_action'', PStr (RecoveryAction_str (rv_RecommendedAction r))),
      (''ready_for_next_run'', PBool (rv_ReadyForNextRun r)),
      (''ready_for_handoff_launch'', PBool (rv_ReadyForHandoffLaunch r)),
      (''recovery_reason'', PStr (rv_Reason r))]"

definition commitRecoveryAction ::
  "Deps \<Rightarrow> TaskID \<Rightarrow> continueAssessment \<Rightarrow> RecoveryRecord \<Rightarrow> recoveryPhaseUpdate option \<Rightarrow> RecoveryOutcome op" where
  "commitRecoveryAction E t a template update = withTx (
     bnd (db_read (capsules_Get t)) (\<lambda>caps0.
     if c_Version caps0 \<noteq> c_Version (ca_Capsule a) then throw (version_moved ''recovery action'' a caps0)
     else
     bnd (case update of
            None \<Rightarrow> ret caps0
          | Some u \<Rightarrow>
             bnd (clock E) (\<lambda>now.
             let caps = in_phase (pu_Phase u) (pu_NextAction u) (bumped now caps0) in
             seq (db_write (capsules_Update caps))
             (seq (phase_event E caps (pu_Reason u) (recoveryActionRunID template))
             (ret caps)))) (\<lambda>caps.
     bnd (idGenerator E ''ract'') (\<lambda>aid.
     bnd (clock E) (\<lambda>now.
     let act = template\<lparr>ra_ActionID := aid, ra_CreatedAt := now\<rparr> in
     seq (db_write (actions_Create act))
     (bnd (after_recovery E t) (\<lambda>after.
     let text = recoveryActionCanonical act after;
         typ = (if ra_Kind act = KindInterruptedRunReviewed then EventInterruptedRunReviewed
                else EventRecoveryActionRecorded);
         payload = [(''action_id'', PStr (ra_ActionID act)),
           (''kind'', PStr (RecoveryActionKind_str (ra_Kind act))), (''summary'', PStr (ra_Summary act)),
           (''notes'', PStrs (ra_Notes act)), (''run_id'', PStr (ra_RunID act)),
           (''checkpoint_id'', PStr (ra_CheckpointID act)), (''handoff_id'', PStr (ra_HandoffID act)),
           (''launch_attempt_id'', PStr (ra_LaunchAttemptID act))] @ recovery_payload after in
     seq (appendProof E caps typ ActorUser ''user'' payload (recoveryActionRunID template))
     (seq (emitCanonicalConversation E caps text payload (recoveryActionRunID template))
     (ret (recovery_outcome t None [] (Some act) after text))))))))))"

definition RecordRecoveryAction :: "Deps \<Rightarrow> RecordRecoveryActionRequest \<Rightarrow> RecoveryOutcome op" where
  "RecordRecoveryAction E req =
     (let t = TrimSpace (rr_TaskID req) in
      if t = [] then throw (ErrMsg ''task id is required'')
      else if RecoveryActionKind_str (rr_Kind req) = []
      then throw (ErrMsg ''recovery action kind is required'')
      else
      bnd (assess E t) (\<lambda>a.
      let r = recoveryFromContinueAssessment a;
          replay = (case ca_LatestRecoveryAction a of
              Some l \<Rightarrow> ret (recovery_outcome t None [] (Some l) r (recoveryActionCanonical l r))
            | None \<Rightarrow> throw (ErrMsg [])) in
      if replayableLatestRecoveryAction req (ca_LatestRecoveryAction a)
         \<and> recoveryActionReplayAllowed (rr_Kind req) r
      then replay
      else
      bnd (lift_res (prepareRecoveryActionRecord a r req)) (\<lambda>(template, update).
      if reusableRecoveryAction template (ca_LatestRecoveryAction a) then replay
      else commitRecoveryAction E t a template update)))"

section \<open>Resuming an interrupted run\<close>

definition new_action ::
  "string \<Rightarrow> TaskID \<Rightarrow> RecoveryActionKind \<Rightarrow> RunID \<Rightarrow> CheckpointID \<Rightarrow> string \<Rightarrow> string \<Rightarrow> string list \<Rightarrow>
     go_time \<Rightarrow> RecoveryRecord" where
  "new_action aid t kind run cp handoff summary notes now =
     \<lparr>ra_Version = 1, ra_ActionID = aid, ra_TaskID = t, ra_Kind = kind, ra_RunID = run,
      ra_CheckpointID = cp, ra_HandoffID = handoff, ra_LaunchAttemptID = [], ra_Summary = summary,
      ra_Notes = notes, ra_CreatedAt = now\<rparr>"

definition after_payload :: "RecoveryAssessment \<Rightarrow> (string \<times> pval) list" where
  "after_payload r =
     [(''recovery_class'', PStr (RecoveryClass_str (rv_RecoveryClass r))),
      (''recommended_action'', PStr (RecoveryAction_str (rv_RecommendedAction r))),
      (''recovery_reason'', PStr (rv_Reason r))]"

definition resume_refusal :: "continueAssessment \<Rightarrow> RecoveryAssessment \<Rightarrow> go_error option" where
  "resume_refusal a r =
     (if (case ca_LatestRecoveryAction a of
            Some l \<Rightarrow> ra_Kind l = KindInterruptedResumeExecuted | None \<Rightarrow> False)
         \<and> rv_RecoveryClass r = RecoveryClassContinueExecutionRequired
      then Some (ErrMsg ''interrupted resume has already been executed for the current interrupted lineage'')
      else if rv_RecoveryClass r \<noteq> RecoveryClassInterruptedRunRecoverable
         \<or> rv_RecommendedAction r \<noteq> RecoveryActionResumeInterrupted
      then Some (ErrMsg ''interrupted resume can only be executed while recovery class is INTERRUPTED_RUN_RECOVERABLE and recommended action is RESUME_INTERRUPTED_RUN'')
      else None)"

definition resume_tx ::
  "Deps \<Rightarrow> TaskID \<Rightarrow> continueAssessment \<Rightarrow> RecoveryAssessment \<Rightarrow> string \<Rightarrow> string list \<Rightarrow> RecoveryOutcome op" where
  "resume_tx E t a r summary notes = withTx (
      bnd (db_read (capsules_Get t)) (\<lambda>caps0.
      if c_Version caps0 \<noteq> c_Version (ca_Capsule a) then throw (version_moved ''interrupted resume'' a caps0)
      else
      bnd (db_read (briefs_Get (c_CurrentBriefID caps0))) (\<lambda>b.
      bnd (clock E) (\<lambda>now.
      let caps = in_phase PhaseBriefReady ''Interrupted lineage continuation selected. Execute continue recovery before starting the next bounded run.'' (bumped now caps0);
          run = runIDPointer (rv_RunID r) in
      seq (db_write (capsules_Update caps))
      (seq (phase_event E caps ''interrupted lineage continuation selected'' run)
      (bnd (idGenerator E ''ract'') (\<lambda>aid.
      bnd (clock E) (\<lambda>t1.
      let act = new_action aid t KindInterruptedResumeExecuted (rv_RunID r) (rv_CheckpointID r) []
            (nonEmptyRecoverySummary summary (''Operator resumed interrupted lineage for run ''
              @ nonEmpty (rv_RunID r) ''unknown'' @ '' using current brief '' @ b_BriefID b @ ''.''))
            (normalizedRecoveryNotes notes) t1;
          payload = [(''action_id'', PStr (ra_ActionID act)),
            (''action_kind'', PStr (RecoveryActionKind_str (ra_Kind act))),
            (''action_summary'', PStr (ra_Summary act)), (''action_notes'', PStrs (ra_Notes act)),
            (''brief_id'', PStr (b_BriefID b)), (''brief_hash'', PStr (b_BriefHash b)),
            (''run_id'', PStr (rv_RunID r)), (''checkpoint_id'', PStr (rv_CheckpointID r)),
            (''ready_for_next_run'', PBool False), (''ready_for_handoff_launch'', PBool False)] in
      seq (db_write (actions_Create act))
      (seq (appendProof E caps EventInterruptedRunResumeExecuted ActorUser ''user'' payload run)
      (bnd (after_recovery E t) (\<lambda>after.
      let text = ''I resumed interrupted execution lineage for run '' @ nonEmpty (rv_RunID r) ''unknown''
            @ '' as a control-plane step. Current brief '' @ b_BriefID b
            @ '' remains canonical, but Tuku is not claiming fresh-run readiness. Continue recovery still must be executed before any new bounded run.'' in
      seq (emitCanonicalConversation E caps text (payload @ after_payload after) run)
      (ret (recovery_outcome t (Some b) [] (Some act) after text)))))))))))))"

definition ExecuteInterruptedResume :: "Deps \<Rightarrow> string \<Rightarrow> string \<Rightarrow> string list \<Rightarrow> RecoveryOutcome op" where
  "ExecuteInterruptedResume E rawTask summary notes =
     (let t = TrimSpace rawTask in
      if t = [] then throw (ErrMsg ''task id is required'')
      else
      bnd (assess E t) (\<lambda>a.
      let r = recoveryFromContinueAssessment a in
      case resume_refusal a r of
        Some e \<Rightarrow> throw e
      | None \<Rightarrow> resume_tx E t a r summary notes))"

section \<open>Executing a continue decision\<close>

definition continueRecoveryTriggerAllowed :: "RecoveryActionKind \<Rightarrow> bool" where
  "continueRecoveryTriggerAllowed kind \<longleftrightarrow> kind = KindDecisionContinue \<or> kind = KindInterruptedResumeExecuted"

text \<open>The action that triggers the continue, when it may be executed.\<close>

definition continue_trigger :: "continueAssessment \<Rightarrow> RecoveryAssessment \<Rightarrow> go_error + RecoveryRecord" where
  "continue_trigger a r =
     (case ca_LatestRecoveryAction a of
        Some l \<Rightarrow>
          (if ra_Kind l = KindContinueExecuted
           then Inl (ErrMsg ''continue recovery has already been executed for the current brief'')
           else if rv_RecoveryClass r \<noteq> RecoveryClassContinueExecutionRequired
             \<or> \<not> continueRecoveryTriggerAllowed (ra_Kind l)
           then Inl (ErrMsg ''continue recovery can only be executed while recovery class is CONTINUE_EXECUTION_REQUIRED and latest action is DECISION_CONTINUE or INTERRUPTED_RESUME_EXECUTED'')
           else Inr l)
      | None \<Rightarrow> Inl (ErrMsg ''continue recovery can only be executed while recovery class is CONTINUE_EXECUTION_REQUIRED and latest action is DECISION_CONTINUE or INTERRUPTED_RESUME_EXECUTED''))"

definition trigger_payload :: "RecoveryRecord \<Rightarrow> (string \<times> pval) list" where
  "trigger_payload l =
     [(''trigger_action_id'', PStr (ra_ActionID l)),
      (''trigger_action_kind'', PStr (RecoveryActionKind_str (ra_Kind l))),
      (''trigger_action_summary'', PStr (ra_Summary l))]"

definition continue_tx ::
  "Deps \<Rightarrow> TaskID \<Rightarrow> continueAssessment \<Rightarrow> RecoveryAssessment \<Rightarrow> RecoveryRecord \<Rightarrow> RecoveryOutcome op" where
  "continue_tx E t a r l = withTx (
      bnd (db_read (capsules_Get t)) (\<lambda>caps0.
      if c_Version caps0 \<noteq> c_Version (ca_Capsule a) then throw (version_moved ''continue recovery'' a caps0)
      else
      bnd (db_read (briefs_Get (c_CurrentBriefID caps0))) (\<lambda>b.
      bnd (clock E) (\<lambda>now.
      let caps = in_phase PhaseBriefReady ''Current brief confirmed for the next bounded run. Start a run with `tuku run --task <id>`.'' (bumped now caps0);
          run = recoveryActionRunID l in
      seq (db_write (capsules_Update caps))
      (bnd (idGenerator E ''ract'') (\<lambda>aid.
      bnd (clock E) (\<lambda>t1.
      let act = new_action aid t KindContinueExecuted (rv_RunID r) (rv_CheckpointID r) (rv_HandoffID r)
            (''Operator confirmed current brief '' @ b_BriefID b @ '' for the next bounded run.'') [] t1;
          payload = [(''action_id'', PStr (ra_ActionID act)),
            (''action_kind'', PStr (RecoveryActionKind_str (ra_Kind act))),
            (''action_summary'', PStr (ra_Summary act)), (''brief_id'', PStr (b_BriefID b)),
            (''brief_hash'', PStr (b_BriefHash b))] @ trigger_payload l
            @ [(''ready_for_next_run'', PBool True), (''ready_for_handoff_launch'', PBool False)] in
      seq (db_write (actions_Create act))
      (seq (appendProof E caps EventRecoveryContinueExecuted ActorUser ''user'' payload run)
      (bnd (after_recovery E t) (\<lambda>after.
      let text = ''I confirmed continuation with current brief '' @ b_BriefID b @ ''. The task remains in ''
            @ Phase_str (c_CurrentPhase caps) @ '' and is explicitly cleared for the next bounded run. The next recommended action is ''
            @ RecoveryAction_str (rv_RecommendedAction after) @ ''.'' in
      seq (emitCanonicalConversation E caps text (payload @ after_payload after) run)
      (ret (recovery_outcome t (Some b) [] (Some act) after text))))))))))))"

definition ExecuteContinueRecovery :: "Deps \<Rightarrow> string \<Rightarrow> RecoveryOutcome op" where
  "ExecuteContinueRecovery E rawTask =
     (let t = TrimSpace rawTask in
      if t = [] then throw (ErrMsg ''task id is required'')
      else
      bnd (assess E t) (\<lambda>a.
      let r = recoveryFromContinueAssessment a in
      bnd (lift_res (continue_trigger a r)) (\<lambda>l. continue_tx E t a r l)))"

section \<open>Regenerating the brief\<close>

definition rebrief_next_action :: "BriefPosture \<Rightarrow> string" where
  "rebrief_next_action p =
     (case p of
        BriefPostureClarificationNeeded \<Rightarrow> ''Execution brief regenerated as clarification-needed. Refine scope/objective before execution.''
      | BriefPosturePlanningOriented \<Rightarrow> ''Execution brief regenerated as planning-oriented. Finalize plan details, then execute bounded work.''
      | BriefPostureValidationOriented \<Rightarrow> ''Execution brief regenerated as validation-oriented. Run bounded validation and record evidence.''
      | BriefPostureRepairOriented \<Rightarrow> ''Execution brief regenerated as repair-oriented. Execute bounded repair work and record evidence.''
      | _ \<Rightarrow> ''Execution brief regenerated. Start a run with `tuku run --task <id>`.'')"

definition rebrief_trigger :: "continueAssessment \<Rightarrow> RecoveryAssessment \<Rightarrow> go_error + RecoveryRecord" where
  "rebrief_trigger a r =
     (if rv_RecoveryClass r \<noteq> RecoveryClassRebriefRequired
      then Inl (ErrMsg ''rebrief can only be executed while recovery class is REBRIEF_REQUIRED'')
      else (case ca_LatestRecoveryAction a of
              Some l \<Rightarrow> (if ra_Kind l = KindDecisionRegenerateBrief then Inr l
                else Inl (ErrMsg ''rebrief requires latest recovery action DECISION_REGENERATE_BRIEF''))
            | None \<Rightarrow> Inl (ErrMsg ''rebrief requires latest recovery action DECISION_REGENERATE_BRIEF'')))"

definition rebrief_tx :: "Deps \<Rightarrow> TaskID \<Rightarrow> continueAssessment \<Rightarrow> RecoveryRecord \<Rightarrow> RecoveryOutcome op" where
  "rebrief_tx E t a l = withTx (
      bnd (db_read (capsules_Get t)) (\<lambda>caps0.
      if c_Version caps0 \<noteq> c_Version (ca_Capsule a) then throw (version_moved ''rebrief'' a caps0)
      else
      bnd (db_read (briefs_Get (c_CurrentBriefID caps0))) (\<lambda>prev.
      bnd (db_read (intents_LatestByTask t)) (\<lambda>intent.
      if c_CurrentIntentID caps0 \<noteq> [] \<and> i_IntentID intent \<noteq> c_CurrentIntentID caps0
      then throw (ErrMsg (''latest intent '' @ i_IntentID intent @ '' does not match capsule current intent ''
             @ c_CurrentIntentID caps0))
      else
      bnd (bnd (tick (\<lambda>n. d_build E n (buildBriefInputV2 caps0 intent (Some prev) (c_Version caps0 + 1)))) lift_res) (\<lambda>b.
      seq (db_write (briefs_Save b))
      (bnd (clock E) (\<lambda>now.
      let caps = (in_phase PhaseBriefReady (rebrief_next_action (b_Posture b)) (bumped now caps0))
            \<lparr>c_CurrentBriefID := b_BriefID b\<rparr>;
          run = recoveryActionRunID l in
      seq (db_write (capsules_Update caps))
      (seq (appendProof E caps EventBriefRegenerated ActorSystem ''tuku-brief-builder''
        ([(''previous_brief_id'', PStr (b_BriefID prev)), (''previous_brief_hash'', PStr (b_BriefHash prev)),
          (''new_brief_id'', PStr (b_BriefID b)), (''new_brief_hash'', PStr (b_BriefHash b)),
          (''new_brief_posture'', PStr (BriefPosture_str (b_Posture b))),
          (''requires_clarification'', PBool (b_RequiresClarification b))] @ trigger_payload l) run)
      (seq (phase_event E caps ''rebrief executed from durable operator decision'' run)
      (bnd (after_recovery E t) (\<lambda>after.
      let text = ''I regenerated the execution brief after operator decision '' @ ra_ActionID l
            @ ''. New brief '' @ b_BriefID b @ '' is now canonical current state. Recovery posture is ''
            @ RecoveryClass_str (rv_RecoveryClass after) @ '', and the next recommended action is ''
            @ RecoveryAction_str (rv_RecommendedAction after) @ ''.'' in
      seq (emitCanonicalConversation E caps text
        [(''previous_brief_id'', PStr (b_BriefID prev)), (''new_brief_id'', PStr (b_BriefID b)),
         (''new_brief_hash'', PStr (b_BriefHash b)),
         (''recovery_class'', PStr (RecoveryClass_str (rv_RecoveryClass after))),
         (''recommended_action'', PStr (RecoveryAction_str (rv_RecommendedAction after))),
         (''ready_for_next_run'', PBool (rv_ReadyForNextRun after)),
         (''ready_for_handoff_launch'', PBool (rv_ReadyForHandoffLaunch after))] run)
      (ret (recovery_outcome t (Some b) (b_BriefID prev) None after text)))))))))))))"

definition ExecuteRebrief :: "Deps \<Rightarrow> string \<Rightarrow> RecoveryOutcome op" where
  "ExecuteRebrief E rawTask =
     (let t = TrimSpace rawTask in
      if t = [] then throw (ErrMsg ''task id is required'')
      else
      bnd (assess E t) (\<lambda>a.
      let r = recoveryFromContinueAssessment a in
      bnd (lift_res (rebrief_trigger a r)) (\<lambda>l. rebrief_tx E t a l)))"

section \<open>Frames\<close>

context write_frame
begin

lemma op_after: "frames (on_db (guarded R)) (after_recovery E t)"
  unfolding after_recovery_def by (intro op_frames)

lemma op_RecordRecoveryAction: "frames (on_db (guarded R)) (RecordRecoveryAction E req)"
  unfolding RecordRecoveryAction_def commitRecoveryAction_def Let_def by (intro op_after op_frames)

lemma op_ExecuteInterruptedResume:
  "frames (on_db (guarded R)) (ExecuteInterruptedResume E t summary notes)"
  unfolding ExecuteInterruptedResume_def resume_tx_def Let_def by (intro op_after op_frames)

lemma op_ExecuteContinueRecovery: "frames (on_db (guarded R)) (ExecuteContinueRecovery E t)"
  unfolding ExecuteContinueRecovery_def continue_tx_def Let_def by (intro op_after op_frames)

lemma op_ExecuteRebrief: "frames (on_db (guarded R)) (ExecuteRebrief E t)"
  unfolding ExecuteRebrief_def rebrief_tx_def Let_def by (intro op_after op_frames)

end

end
