(* ===== verification/Handoff.thy ===== *)
theory Handoff
  imports RecoveryOps
begin

text \<open>
  internal/orchestrator/handoff.go, handoff_launch.go and handoff_followthrough.go: creating a
  handoff packet, accepting it, preparing its launch and recording what was seen downstream.
  A handoff that cannot be made safely is a blocked result with its evidence, not an error.
  The launch is modelled up to the durable request that precedes the launcher's invocation.
\<close>

section \<open>Requests and results\<close>

record CreateHandoffRequest =
  hq_TaskID :: string
  hq_TargetWorker :: WorkerKind
  hq_Reason :: string
  hq_Mode :: HandoffMode
  hq_Notes :: "string list"

record CreateHandoffResult =
  ch_TaskID :: TaskID
  ch_HandoffID :: string
  ch_SourceWorker :: WorkerKind
  ch_TargetWorker :: WorkerKind
  ch_Status :: HandoffStatus
  ch_CheckpointID :: CheckpointID
  ch_BriefID :: BriefID
  ch_CanonicalResponse :: string
  ch_Packet :: "Packet option"

record AcceptHandoffRequest =
  aq_TaskID :: string
  aq_HandoffID :: string
  aq_AcceptedBy :: WorkerKind
  aq_Notes :: "string list"

record AcceptHandoffResult =
  ah_TaskID :: TaskID
  ah_HandoffID :: string
  ah_Status :: HandoffStatus
  ah_CanonicalResponse :: string

section \<open>Which checkpoints and packets serve a handoff\<close>

definition normalizeHandoffMode :: "HandoffMode \<Rightarrow> HandoffMode" where
  "normalizeHandoffMode mode =
     (case mode of HandoffModeOther s \<Rightarrow> ModeResume | _ \<Rightarrow> mode)"

definition isRepoAnchorDirty :: "RepoAnchor \<Rightarrow> bool" where
  "isRepoAnchorDirty a \<longleftrightarrow> TrimSpace (ToLower (an_DirtyHash a)) \<in> {''true'', ''1'', ''yes''}"

definition buildHandoffUnknowns ::
  "WorkCapsule \<Rightarrow> Checkpoint \<Rightarrow> ExecutionRun option \<Rightarrow> string list" where
  "buildHandoffUnknowns caps cp run =
     (case run of
        None \<Rightarrow> [''No prior worker run is recorded for this task.'']
      | Some r \<Rightarrow>
         (case r_Status r of
            RunStatusInterrupted \<Rightarrow> [''Latest run is INTERRUPTED; completion status is unresolved.'']
          | RunStatusFailed \<Rightarrow> [''Latest run FAILED; target worker should validate root cause before proceeding.'']
          | _ \<Rightarrow> []))
     @ (if c_CurrentPhase caps \<noteq> PhaseCompleted
        then [''End-to-end validation is not marked complete in continuity state.''] else [])
     @ (if isRepoAnchorDirty (k_Anchor cp) \<or> c_WorkingTreeDirty caps
        then [''Repository is currently dirty; handoff may include uncommitted state.''] else [])
     @ (if c_Blockers caps \<noteq> []
        then [''Task blockers are present and may require human decision.''] else [])"

definition hasValidResumableHandoffCheckpoint :: "WorkCapsule \<Rightarrow> Checkpoint option \<Rightarrow> bool" where
  "hasValidResumableHandoffCheckpoint caps cp =
     (case cp of
        None \<Rightarrow> False
      | Some k \<Rightarrow> k_IsResumable k \<and> k_TaskID k = c_TaskID caps
          \<and> k_BriefID k \<noteq> [] \<and> k_BriefID k = c_CurrentBriefID caps
          \<and> \<not> (k_IntentID k \<noteq> [] \<and> c_CurrentIntentID caps \<noteq> [] \<and> k_IntentID k \<noteq> c_CurrentIntentID caps)
          \<and> k_Phase k = c_CurrentPhase caps)"

definition canCreateHandoffCheckpoint :: "continueAssessment \<Rightarrow> bool" where
  "canCreateHandoffCheckpoint a \<longleftrightarrow>
     ca_Outcome a = ContinueOutcomeSafe \<and> ca_DriftClass a \<noteq> DriftMajor
     \<and> c_CurrentBriefID (ca_Capsule a) \<noteq> []
     \<and> c_CurrentPhase (ca_Capsule a) \<notin> {PhaseExecuting, PhaseAwaitingDecision, PhaseBlocked}
     \<and> \<not> is_running (ca_LatestRun a)"

definition canReuseHandoffCheckpoint :: "WorkCapsule \<Rightarrow> continueAssessment \<Rightarrow> Checkpoint \<Rightarrow> bool" where
  "canReuseHandoffCheckpoint caps a latest =
     (case ca_LatestCheckpoint a of
        None \<Rightarrow> False
      | Some k \<Rightarrow> k_CheckpointID latest = k_CheckpointID k
          \<and> hasValidResumableHandoffCheckpoint caps (Some latest))"

definition canReuseHandoffPacket ::
  "Packet \<Rightarrow> WorkCapsule \<Rightarrow> continueAssessment \<Rightarrow> WorkerKind \<Rightarrow> CreateHandoffRequest \<Rightarrow> Db \<Rightarrow> bool" where
  "canReuseHandoffPacket p caps a target req d \<longleftrightarrow>
     h_Status p \<in> {HandoffStatusCreated, HandoffStatusAccepted}
     \<and> (case ca_LatestResolution a of Some s \<Rightarrow> s_HandoffID s \<noteq> h_HandoffID p | None \<Rightarrow> True)
     \<and> h_TaskID p = c_TaskID caps \<and> h_TargetWorker p = target
     \<and> h_HandoffMode p = normalizeHandoffMode (hq_Mode req)
     \<and> TrimSpace (h_Reason p) = TrimSpace (hq_Reason req)
     \<and> stringSlicesEqual (h_HandoffNotes p) (hq_Notes req)
     \<and> h_BriefID p = c_CurrentBriefID caps \<and> h_IntentID p = c_CurrentIntentID caps
     \<and> h_CurrentPhase p = c_CurrentPhase caps \<and> h_CapsuleVersion p = c_Version caps
     \<and> (case ca_LatestRun a of
          Some r \<Rightarrow> h_LatestRunID p = r_RunID r \<and> h_LatestRunStatus p = r_Status r
        | None \<Rightarrow> h_LatestRunID p = [] \<and> RunStatus_str (h_LatestRunStatus p) = [])
     \<and> (case checkpoints_Get (h_CheckpointID p) d of
          Inl e \<Rightarrow> False
        | Inr cp \<Rightarrow> hasValidResumableHandoffCheckpoint caps (Some cp)
            \<and> repoAnchorsEqual (h_RepoAnchor p) (k_Anchor cp))"

text \<open>\<open>validateHandoffSafety\<close>: the reason a handoff is blocked, empty when it may proceed.\<close>

definition validateHandoffSafety :: "continueAssessment \<Rightarrow> Db \<Rightarrow> go_error + string" where
  "validateHandoffSafety a d =
     (let reusable = hasValidResumableHandoffCheckpoint (ca_Capsule a) (ca_LatestCheckpoint a);
          b = c_CurrentBriefID (ca_Capsule a);
          checks =
           (if ca_DriftClass a = DriftMajor then Inr ''handoff blocked by major repository drift''
            else if is_running (ca_LatestRun a)
            then Inr ''handoff blocked because a RUNNING execution state is unresolved''
            else if c_CurrentPhase (ca_Capsule a) = PhaseExecuting
            then Inr ''handoff blocked because task phase is EXECUTING''
            else if b = [] then Inr ''handoff blocked because no current brief exists''
            else (case briefs_Get b d of
                    Inl e \<Rightarrow> (if is_no_rows e
                      then Inr (''handoff blocked because current brief '' @ b @ '' is missing'') else Inl e)
                  | Inr x \<Rightarrow>
                      (if reusable \<or> canCreateHandoffCheckpoint a then Inr []
                       else Inr ''handoff blocked because no reusable or safely creatable resumable checkpoint is available''))) in
      case ca_Outcome a of
        ContinueOutcomeBlockedInconsistent \<Rightarrow>
          Inr (''handoff blocked by inconsistent continuity state: '' @ ca_Reason a)
      | ContinueOutcomeStaleReconciled \<Rightarrow>
          Inr ''handoff blocked because latest run is still unresolved and requires reconciliation''
      | ContinueOutcomeBlockedDrift \<Rightarrow>
          (if \<not> reusable then Inr ''handoff blocked by major repository drift'' else checks)
      | ContinueOutcomeNeedsDecision \<Rightarrow>
          (if \<not> reusable then Inr ''handoff blocked while task is in decision-gated continuity state'' else checks)
      | ContinueOutcomeSafe \<Rightarrow> checks)"

section \<open>CreateHandoff\<close>

definition recordBlockedHandoffTx ::
  "Deps \<Rightarrow> WorkCapsule \<Rightarrow> string \<Rightarrow> WorkerKind \<Rightarrow> CreateHandoffRequest \<Rightarrow> CreateHandoffResult op" where
  "recordBlockedHandoffTx E caps reason target req =
     (let payload = [(''target_worker'', PStr (WorkerKind_str target)),
            (''reason'', PStr (TrimSpace reason)),
            (''mode'', PStr (HandoffMode_str (normalizeHandoffMode (hq_Mode req))))];
          text = ''Handoff to '' @ WorkerKind_str target @ '' is blocked: '' @ TrimSpace reason in
      seq (appendProof E caps EventHandoffBlocked ActorSystem ''tuku-daemon'' payload None)
      (seq (emitCanonicalConversation E caps text payload None)
      (ret \<lparr>ch_TaskID = c_TaskID caps, ch_HandoffID = [], ch_SourceWorker = WorkerKindUnknown,
            ch_TargetWorker = target, ch_Status = HandoffStatusBlocked, ch_CheckpointID = [],
            ch_BriefID = [], ch_CanonicalResponse = text, ch_Packet = None\<rparr>)))"

definition packet_result :: "Packet \<Rightarrow> string \<Rightarrow> CreateHandoffResult" where
  "packet_result p text =
     \<lparr>ch_TaskID = h_TaskID p, ch_HandoffID = h_HandoffID p, ch_SourceWorker = h_SourceWorker p,
      ch_TargetWorker = h_TargetWorker p, ch_Status = h_Status p,
      ch_CheckpointID = h_CheckpointID p, ch_BriefID = h_BriefID p,
      ch_CanonicalResponse = text, ch_Packet = Some p\<rparr>"

definition tryReuseExistingHandoff ::
  "TaskID \<Rightarrow> WorkCapsule \<Rightarrow> continueAssessment \<Rightarrow> WorkerKind \<Rightarrow> CreateHandoffRequest \<Rightarrow>
     CreateHandoffResult option op" where
  "tryReuseExistingHandoff t caps a target req =
     bnd (optional (db_read (handoffs_LatestByTask t))) (\<lambda>latest. case latest of
       None \<Rightarrow> ret None
     | Some p \<Rightarrow> bnd (gets w_db) (\<lambda>d.
         ret (if canReuseHandoffPacket p caps a target req d
           then Some (packet_result p (''Reused existing handoff packet '' @ h_HandoffID p @ '' for ''
             @ WorkerKind_str (h_TargetWorker p) @ ''. Continuity remains anchored to checkpoint ''
             @ h_CheckpointID p @ '' and brief '' @ h_BriefID p @ ''.''))
           else None)))"

definition buildHandoffPacket ::
  "Deps \<Rightarrow> WorkCapsule \<Rightarrow> ExecutionBrief \<Rightarrow> Checkpoint \<Rightarrow> ExecutionRun option \<Rightarrow> WorkerKind \<Rightarrow>
     CreateHandoffRequest \<Rightarrow> Packet op" where
  "buildHandoffPacket E caps b cp run target req =
     bnd (idGenerator E ''hnd'') (\<lambda>hid.
     bnd (clock E) (\<lambda>now.
     ret \<lparr>h_Version = 1, h_HandoffID = hid, h_TaskID = c_TaskID caps,
          h_Status = HandoffStatusCreated,
          h_SourceWorker = (case run of Some r \<Rightarrow> r_WorkerKind r | None \<Rightarrow> WorkerKindUnknown),
          h_TargetWorker = target, h_HandoffMode = normalizeHandoffMode (hq_Mode req),
          h_Reason = TrimSpace (hq_Reason req), h_CurrentPhase = c_CurrentPhase caps,
          h_CheckpointID = k_CheckpointID cp, h_BriefID = b_BriefID b,
          h_IntentID = c_CurrentIntentID caps, h_CapsuleVersion = c_Version caps,
          h_RepoAnchor = k_Anchor cp, h_IsResumable = k_IsResumable cp,
          h_ResumeDescriptor = k_ResumeDescriptor cp,
          h_LatestRunID = (case run of Some r \<Rightarrow> r_RunID r | None \<Rightarrow> []),
          h_LatestRunStatus = (case run of Some r \<Rightarrow> r_Status r | None \<Rightarrow> RunStatusOther []),
          h_Goal = c_Goal caps, h_BriefObjective = b_Objective b,
          h_NormalizedAction = b_NormalizedAction b, h_Constraints = b_Constraints b,
          h_DoneCriteria = b_DoneCriteria b, h_TouchedFiles = c_TouchedFiles caps,
          h_Blockers = c_Blockers caps, h_NextAction = c_NextAction caps,
          h_Unknowns = buildHandoffUnknowns caps cp run, h_HandoffNotes = hq_Notes req,
          h_CreatedAt = now, h_AcceptedAt = None, h_AcceptedBy = WorkerKindOther []\<rparr>))"

text \<open>The latest checkpoint when it serves, a new one otherwise.\<close>

definition handoff_checkpoint ::
  "Deps \<Rightarrow> TaskID \<Rightarrow> WorkCapsule \<Rightarrow> continueAssessment \<Rightarrow> Checkpoint op" where
  "handoff_checkpoint E t caps a =
     bnd (if ca_LatestCheckpoint a = None then ret None
          else bnd (db_read (checkpoints_LatestByTask t)) (\<lambda>latest.
            ret (if canReuseHandoffCheckpoint caps a latest then Some latest else None))) (\<lambda>reused.
     case reused of
       Some cp \<Rightarrow> (if k_CheckpointID cp \<noteq> [] then ret cp
         else createCheckpoint E caps (case ca_LatestRun a of Some r \<Rightarrow> r_RunID r | None \<Rightarrow> [])
           TriggerHandoff True ''Checkpoint created for cross-worker handoff packet generation.'')
     | None \<Rightarrow> createCheckpoint E caps (case ca_LatestRun a of Some r \<Rightarrow> r_RunID r | None \<Rightarrow> [])
         TriggerHandoff True ''Checkpoint created for cross-worker handoff packet generation.'')"

definition create_packet ::
  "Deps \<Rightarrow> WorkCapsule \<Rightarrow> ExecutionBrief \<Rightarrow> Checkpoint \<Rightarrow> continueAssessment \<Rightarrow> WorkerKind \<Rightarrow>
     CreateHandoffRequest \<Rightarrow> CreateHandoffResult op" where
  "create_packet E caps b cp a target req =
     bnd (buildHandoffPacket E caps b cp (ca_LatestRun a) target req) (\<lambda>p.
     let payload = [(''handoff_id'', PStr (h_HandoffID p)),
           (''source_worker'', PStr (WorkerKind_str (h_SourceWorker p))),
           (''target_worker'', PStr (WorkerKind_str (h_TargetWorker p))),
           (''checkpoint_id'', PStr (h_CheckpointID p)), (''brief_id'', PStr (h_BriefID p)),
           (''mode'', PStr (HandoffMode_str (h_HandoffMode p))), (''reason'', PStr (h_Reason p)),
           (''is_resumable'', PBool (h_IsResumable p))];
         run = runIDPointer (h_LatestRunID p);
         text = ''I created handoff packet '' @ h_HandoffID p @ '' for '' @ WorkerKind_str (h_TargetWorker p)
           @ ''. It is anchored to checkpoint '' @ h_CheckpointID p @ '' and brief '' @ h_BriefID p
           @ '' on branch '' @ an_BranchName (h_RepoAnchor p) @ '' (head '' @ an_HeadSHA (h_RepoAnchor p) @ '').'' in
     seq (db_write (handoffs_Create p))
     (seq (appendProof E caps EventHandoffCreated ActorSystem ''tuku-daemon'' payload run)
     (seq (emitCanonicalConversation E caps text payload run)
     (ret (packet_result p text)))))"

definition blocked_tx ::
  "Deps \<Rightarrow> TaskID \<Rightarrow> string \<Rightarrow> WorkerKind \<Rightarrow> CreateHandoffRequest \<Rightarrow> CreateHandoffResult op" where
  "blocked_tx E t reason target req = withTx (bnd (db_read (capsules_Get t)) (\<lambda>caps.
     recordBlockedHandoffTx E caps reason target req))"

definition handoff_tx ::
  "Deps \<Rightarrow> TaskID \<Rightarrow> continueAssessment \<Rightarrow> WorkerKind \<Rightarrow> CreateHandoffRequest \<Rightarrow> CreateHandoffResult op" where
  "handoff_tx E t a target req = withTx (
     bnd (db_read (capsules_Get t)) (\<lambda>caps.
     if c_Version caps \<noteq> c_Version (ca_Capsule a)
     then recordBlockedHandoffTx E caps ''task state changed during handoff assessment'' target req
     else
     bnd (optional (db_read (briefs_Get (c_CurrentBriefID caps)))) (\<lambda>found_brief. case found_brief of
       None \<Rightarrow> recordBlockedHandoffTx E caps (''brief '' @ c_CurrentBriefID caps @ '' not found'') target req
     | Some b \<Rightarrow>
     bnd (tryReuseExistingHandoff t caps a target req) (\<lambda>reused. case reused of
       Some result \<Rightarrow> ret result
     | None \<Rightarrow>
     bnd (handoff_checkpoint E t caps a) (\<lambda>cp.
     create_packet E caps b cp a target req)))))"

definition CreateHandoff :: "Deps \<Rightarrow> CreateHandoffRequest \<Rightarrow> CreateHandoffResult op" where
  "CreateHandoff E req =
     (let t = TrimSpace (hq_TaskID req);
          target = (if WorkerKind_str (hq_TargetWorker req) = [] then WorkerKindClaude else hq_TargetWorker req) in
      if t = [] then throw (ErrMsg ''task id is required'')
      else if target \<noteq> WorkerKindClaude
      then throw (ErrMsg (''unsupported handoff target worker: '' @ WorkerKind_str target))
      else
      bnd (assess E t) (\<lambda>a.
      bnd (db_read (validateHandoffSafety a)) (\<lambda>blocked.
      if blocked \<noteq> [] then blocked_tx E t blocked target req
      else handoff_tx E t a target req)))"

section \<open>AcceptHandoff\<close>

definition AcceptHandoff :: "Deps \<Rightarrow> AcceptHandoffRequest \<Rightarrow> AcceptHandoffResult op" where
  "AcceptHandoff E req =
     (let t = TrimSpace (aq_TaskID req); hid = TrimSpace (aq_HandoffID req) in
      if t = [] then throw (ErrMsg ''task id is required'')
      else if hid = [] then throw (ErrMsg ''handoff id is required'')
      else withTx (
      bnd (db_read (handoffs_Get hid)) (\<lambda>p.
      if h_TaskID p \<noteq> t
      then throw (ErrMsg (''handoff task mismatch: packet task='' @ h_TaskID p @ '' request task='' @ t))
      else
      let acceptedBy = (if WorkerKind_str (aq_AcceptedBy req) = [] then h_TargetWorker p else aq_AcceptedBy req) in
      if h_Status p = HandoffStatusAccepted
      then
        (if WorkerKind_str (h_AcceptedBy p) \<noteq> [] \<and> WorkerKind_str acceptedBy \<noteq> [] \<and> h_AcceptedBy p \<noteq> acceptedBy
         then throw (ErrMsg (''handoff '' @ hid @ '' is already accepted by '' @ WorkerKind_str (h_AcceptedBy p)))
         else ret \<lparr>ah_TaskID = t, ah_HandoffID = hid, ah_Status = HandoffStatusAccepted,
           ah_CanonicalResponse = ''Handoff '' @ hid @ '' was already accepted by '' @ WorkerKind_str (h_AcceptedBy p)
             @ ''. Reusing the durable acceptance anchored at checkpoint '' @ h_CheckpointID p @ ''.''\<rparr>)
      else if h_Status p \<noteq> HandoffStatusCreated
      then throw (ErrMsg (''handoff '' @ hid @ '' is not accept-ready in status '' @ HandoffStatus_str (h_Status p)))
      else
      bnd (clock E) (\<lambda>now.
      seq (db_write (handoffs_UpdateStatus t hid HandoffStatusAccepted acceptedBy (aq_Notes req) now))
      (bnd (db_read (capsules_Get t)) (\<lambda>caps.
      let payload = [(''handoff_id'', PStr hid), (''accepted_by'', PStr (WorkerKind_str acceptedBy)),
            (''target_worker'', PStr (WorkerKind_str (h_TargetWorker p))),
            (''checkpoint_id'', PStr (h_CheckpointID p)), (''brief_id'', PStr (h_BriefID p))];
          run = runIDPointer (h_LatestRunID p);
          text = ''Handoff '' @ hid @ '' accepted by '' @ WorkerKind_str acceptedBy
            @ ''. Continuity remains anchored at checkpoint '' @ h_CheckpointID p @ ''.'' in
      seq (appendProof E caps EventHandoffAccepted ActorSystem ''tuku-daemon'' payload run)
      (seq (emitCanonicalConversation E caps text payload run)
      (ret \<lparr>ah_TaskID = t, ah_HandoffID = hid, ah_Status = HandoffStatusAccepted,
            ah_CanonicalResponse = text\<rparr>))))))))"

section \<open>Preparing a launch\<close>

datatype HandoffLaunchStatus =
    HandoffLaunchStatusBlocked
  | HandoffLaunchStatusCompleted
  | HandoffLaunchStatusFailed

record LaunchHandoffRequest =
  lq_TaskID :: string
  lq_HandoffID :: string
  lq_TargetWorker :: WorkerKind

record LaunchPayload =
  y_Version :: int
  y_TaskID :: TaskID
  y_HandoffID :: string
  y_SourceWorker :: WorkerKind
  y_TargetWorker :: WorkerKind
  y_HandoffMode :: HandoffMode
  y_CurrentPhase :: Phase
  y_CheckpointID :: CheckpointID
  y_BriefID :: BriefID
  y_IntentID :: IntentID
  y_CapsuleVersion :: CapsuleVersion
  y_RepoAnchor :: RepoAnchor
  y_IsResumable :: bool
  y_ResumeDescriptor :: string
  y_LatestRunID :: RunID
  y_LatestRunStatus :: RunStatus
  y_LatestRunSummary :: string
  y_Goal :: string
  y_BriefObjective :: string
  y_NormalizedAction :: string
  y_Constraints :: "string list"
  y_DoneCriteria :: "string list"
  y_TouchedFiles :: "string list"
  y_Blockers :: "string list"
  y_NextAction :: string
  y_Unknowns :: "string list"
  y_HandoffNotes :: "string list"
  y_GeneratedAt :: go_time

record LaunchHandoffResult =
  lr_TaskID :: TaskID
  lr_HandoffID :: string
  lr_TargetWorker :: WorkerKind
  lr_LaunchStatus :: HandoffLaunchStatus
  lr_LaunchID :: string
  lr_TransitionReceiptID :: EventID
  lr_CanonicalResponse :: string
  lr_Payload :: "LaunchPayload option"

record preparedHandoffLaunch =
  pl_TaskID :: TaskID
  pl_Packet :: Packet
  pl_Payload :: LaunchPayload
  pl_Launch :: Launch

text \<open>\<open>json.Marshal\<close> of a launch payload; \<open>None\<close> when it fails.\<close>

type_synonym encoder = "LaunchPayload \<Rightarrow> string option"

definition hashLaunchPayload :: "Deps \<Rightarrow> encoder \<Rightarrow> LaunchPayload \<Rightarrow> string" where
  "hashLaunchPayload E J y =
     (case J y of None \<Rightarrow> [] | Some bytes \<Rightarrow> hexString (take 8 (d_sha256 E bytes)))"

definition resolveBlockedLaunchTarget :: "WorkerKind \<Rightarrow> WorkerKind \<Rightarrow> WorkerKind" where
  "resolveBlockedLaunchTarget reqTarget packetTarget =
     (if WorkerKind_str reqTarget \<noteq> [] then reqTarget
      else if WorkerKind_str packetTarget \<noteq> [] then packetTarget else WorkerKindClaude)"

definition launch_result ::
  "TaskID \<Rightarrow> string \<Rightarrow> WorkerKind \<Rightarrow> HandoffLaunchStatus \<Rightarrow> string \<Rightarrow> string \<Rightarrow> LaunchHandoffResult" where
  "launch_result t hid target status launchID text =
     \<lparr>lr_TaskID = t, lr_HandoffID = hid, lr_TargetWorker = target, lr_LaunchStatus = status,
      lr_LaunchID = launchID, lr_TransitionReceiptID = [], lr_CanonicalResponse = text,
      lr_Payload = None\<rparr>"

definition recordHandoffLaunchBlocked ::
  "Deps \<Rightarrow> WorkCapsule \<Rightarrow> LaunchHandoffRequest \<Rightarrow> WorkerKind \<Rightarrow> string \<Rightarrow> LaunchHandoffResult op" where
  "recordHandoffLaunchBlocked E caps req packetTarget reason =
     (let target = resolveBlockedLaunchTarget (lq_TargetWorker req) packetTarget;
          payload = [(''handoff_id'', PStr (TrimSpace (lq_HandoffID req))),
            (''target_worker'', PStr (WorkerKind_str target)), (''reason'', PStr (TrimSpace reason))];
          text = ''Handoff launch is blocked: '' @ TrimSpace reason in
      seq (appendProof E caps EventHandoffLaunchBlocked ActorSystem ''tuku-daemon'' payload None)
      (seq (emitCanonicalConversation E caps text payload None)
      (ret (launch_result (c_TaskID caps) (TrimSpace (lq_HandoffID req)) target
        HandoffLaunchStatusBlocked [] text))))"

definition recordHandoffLaunchBlockedWithoutAdapter ::
  "Deps \<Rightarrow> TaskID \<Rightarrow> LaunchHandoffRequest \<Rightarrow> LaunchHandoffResult op" where
  "recordHandoffLaunchBlockedWithoutAdapter E t req = withTx (
     bnd (db_read (capsules_Get t)) (\<lambda>caps.
     recordHandoffLaunchBlocked E caps req (WorkerKindOther []) ''Claude handoff launcher is not configured''))"

definition resolveLaunchPacket :: "TaskID \<Rightarrow> string \<Rightarrow> Db \<Rightarrow> go_error + Packet" where
  "resolveLaunchPacket t hid d =
     (if hid = []
      then rbnd (loadActiveClaudeHandoffBranch t d) (\<lambda>(p, l, a, f).
        case p of None \<Rightarrow> Inl ErrNoRows | Some x \<Rightarrow> Inr x)
      else handoffs_Get hid d)"

definition buildLaunchCanonicalSuccess :: "string \<Rightarrow> string \<Rightarrow> Acknowledgment \<Rightarrow> string" where
  "buildLaunchCanonicalSuccess hid launchID ack =
     (if a_Status ack = AcknowledgmentCaptured
      then ''Claude handoff launch invocation succeeded for packet '' @ hid @ '' (launch '' @ TrimSpace launchID
        @ ''). I captured an initial acknowledgment: '' @ a_Summary ack
        @ ''. This proves launcher invocation and initial Claude acknowledgment only; downstream coding execution is not yet proven complete.''
      else ''Claude handoff launch invocation succeeded for packet '' @ hid @ '' (launch '' @ TrimSpace launchID
        @ ''), but no usable initial acknowledgment was captured. Downstream coding execution is not yet proven complete.'')"

definition buildReplayBlockedLaunchResponse :: "Packet \<Rightarrow> LaunchHandoffResult" where
  "buildReplayBlockedLaunchResponse p =
     launch_result (h_TaskID p) (h_HandoffID p) (h_TargetWorker p) HandoffLaunchStatusBlocked []
       (''Launch for handoff '' @ h_HandoffID p
        @ '' was previously requested, but Tuku does not have a durable completion or failure record for that request. The outcome is unknown, so automatic retry is blocked to avoid duplicate worker launch.'')"

text \<open>The answer a durable earlier launch dictates; \<open>None\<close> when a launch may be requested.\<close>

definition tryReusePriorLaunchOutcome :: "TaskID \<Rightarrow> Packet \<Rightarrow> Db \<Rightarrow> go_error + LaunchHandoffResult option" where
  "tryReusePriorLaunchOutcome t p d =
     rbnd (opt_rows (handoffs_LatestLaunchByHandoff (h_HandoffID p) d)) (\<lambda>launch. case launch of
       None \<Rightarrow> Inr None
     | Some l \<Rightarrow>
        (case lc_State (assessLaunchControl t (Some p) (Some l)) of
           LaunchControlStateCompleted \<Rightarrow>
             rbnd (opt_rows (handoffs_LatestAcknowledgment (h_HandoffID p) d)) (\<lambda>ack. case ack of
               None \<Rightarrow> Inr (Some (launch_result t (h_HandoffID p) (h_TargetWorker p) HandoffLaunchStatusBlocked []
                 (''Launch for handoff '' @ h_HandoffID p
                  @ '' is inconsistent: Tuku has a durable completion record for launch attempt '' @ l_AttemptID l
                  @ '' but no persisted acknowledgment. Automatic retry is blocked until continuity is repaired.'')))
             | Some k \<Rightarrow> Inr (Some (launch_result t (h_HandoffID p) (h_TargetWorker p)
                 HandoffLaunchStatusCompleted (l_LaunchID l)
                 (buildLaunchCanonicalSuccess (h_HandoffID p) (l_LaunchID l) k))))
         | LaunchControlStateRequestedOutcomeUnknown \<Rightarrow> Inr (Some (buildReplayBlockedLaunchResponse p))
         | LaunchControlStateNotRequested \<Rightarrow> Inr None
         | LaunchControlStateFailed \<Rightarrow> Inr None
         | LaunchControlStateNotApplicable \<Rightarrow> Inr None))"

definition validateLaunchSafety :: "Packet \<Rightarrow> continueAssessment \<Rightarrow> Db \<Rightarrow> go_error + string" where
  "validateLaunchSafety p a d =
     rbnd (opt_rows (handoffs_LatestResolution (h_HandoffID p) d)) (\<lambda>resolved.
     if resolved \<noteq> None
     then Inr (''handoff launch blocked because Claude handoff branch '' @ h_HandoffID p
       @ '' was explicitly resolved and is no longer the active continuity branch'')
     else
     (case ca_Outcome a of
        ContinueOutcomeStaleReconciled \<Rightarrow> Inr ''handoff launch blocked because a stale RUNNING execution state requires reconciliation first''
      | ContinueOutcomeBlockedInconsistent \<Rightarrow> Inr (''handoff launch blocked by inconsistent continuity state: '' @ ca_Reason a)
      | ContinueOutcomeBlockedDrift \<Rightarrow> Inr ''handoff launch blocked by major repository drift''
      | ContinueOutcomeNeedsDecision \<Rightarrow> Inr ''handoff launch blocked while task is in decision-gated continuity state''
      | ContinueOutcomeSafe \<Rightarrow>
         (if h_BriefID p = [] then Inr ''handoff launch blocked because packet brief reference is empty''
          else if h_CheckpointID p = [] then Inr ''handoff launch blocked because packet checkpoint reference is empty''
          else if \<not> h_IsResumable p then Inr ''handoff launch blocked because packet checkpoint is not resumable''
          else
          rbnd (opt_rows (checkpoints_Get (h_CheckpointID p) d)) (\<lambda>found_cp. case found_cp of
            None \<Rightarrow> Inr (''handoff launch blocked because checkpoint '' @ h_CheckpointID p @ '' is missing'')
          | Some cp \<Rightarrow>
             (if k_TaskID cp \<noteq> ca_TaskID a
              then Inr (''handoff launch blocked because checkpoint '' @ h_CheckpointID p @ '' belongs to task '' @ k_TaskID cp)
              else if \<not> k_IsResumable cp
              then Inr (''handoff launch blocked because checkpoint '' @ h_CheckpointID p @ '' is not resumable'')
              else if h_BriefID p \<noteq> [] \<and> k_BriefID cp \<noteq> [] \<and> h_BriefID p \<noteq> k_BriefID cp
              then Inr (''handoff launch blocked because packet brief '' @ h_BriefID p
                @ '' does not match checkpoint brief '' @ k_BriefID cp)
              else if is_running (ca_LatestRun a)
              then Inr ''handoff launch blocked because an execution run is still marked RUNNING''
              else rbnd (opt_rows (briefs_Get (h_BriefID p) d)) (\<lambda>b.
                if b = None then Inr (''handoff launch blocked because brief '' @ h_BriefID p @ '' is missing'')
                else Inr []))))))"

definition resolveLaunchRunSummary :: "Packet \<Rightarrow> TaskID \<Rightarrow> Db \<Rightarrow> string \<times> RunStatus \<times> RunID" where
  "resolveLaunchRunSummary p t d =
     (let latest = (case runs_LatestByTask t d of
            Inr r \<Rightarrow> (r_LastKnownSummary r, r_Status r, r_RunID r)
          | Inl e \<Rightarrow> ([], h_LatestRunStatus p, h_LatestRunID p)) in
      if h_LatestRunID p \<noteq> []
      then (case runs_Get (h_LatestRunID p) d of
              Inr r \<Rightarrow> (r_LastKnownSummary r, r_Status r, r_RunID r)
            | Inl e \<Rightarrow> latest)
      else latest)"

definition materializeLaunchPayload ::
  "Packet \<Rightarrow> ExecutionBrief \<Rightarrow> string \<Rightarrow> RunStatus \<Rightarrow> RunID \<Rightarrow> go_time \<Rightarrow> LaunchPayload" where
  "materializeLaunchPayload p b runSummary runStatus runID now =
     \<lparr>y_Version = 1, y_TaskID = h_TaskID p, y_HandoffID = h_HandoffID p,
      y_SourceWorker = h_SourceWorker p, y_TargetWorker = h_TargetWorker p,
      y_HandoffMode = h_HandoffMode p, y_CurrentPhase = h_CurrentPhase p,
      y_CheckpointID = h_CheckpointID p, y_BriefID = b_BriefID b, y_IntentID = h_IntentID p,
      y_CapsuleVersion = h_CapsuleVersion p, y_RepoAnchor = h_RepoAnchor p,
      y_IsResumable = h_IsResumable p, y_ResumeDescriptor = h_ResumeDescriptor p,
      y_LatestRunID = runID, y_LatestRunStatus = runStatus,
      y_LatestRunSummary = TrimSpace runSummary, y_Goal = h_Goal p,
      y_BriefObjective = b_Objective b, y_NormalizedAction = b_NormalizedAction b,
      y_Constraints = b_Constraints b, y_DoneCriteria = b_DoneCriteria b,
      y_TouchedFiles = h_TouchedFiles p, y_Blockers = h_Blockers p, y_NextAction = h_NextAction p,
      y_Unknowns = h_Unknowns p, y_HandoffNotes = h_HandoffNotes p, y_GeneratedAt = now\<rparr>"

definition buildRequestedLaunch :: "Deps \<Rightarrow> TaskID \<Rightarrow> Packet \<Rightarrow> string \<Rightarrow> Launch op" where
  "buildRequestedLaunch E t p payloadHash =
     bnd (clock E) (\<lambda>now.
     bnd (idGenerator E ''hlc'') (\<lambda>aid.
     ret \<lparr>l_Version = 1, l_AttemptID = aid, l_HandoffID = h_HandoffID p, l_TaskID = t,
          l_TargetWorker = h_TargetWorker p, l_Status = LaunchStatusRequested, l_LaunchID = [],
          l_PayloadHash = payloadHash, l_RequestedAt = now, l_StartedAt = 0, l_EndedAt = 0,
          l_Command = [], l_Args = [], l_ExitCode = None, l_Summary = [], l_ErrorMessage = [],
          l_OutputArtifactRef = [], l_CreatedAt = now, l_UpdatedAt = now\<rparr>))"

text \<open>The request that is durable before the launcher is invoked.\<close>

definition request_launch ::
  "Deps \<Rightarrow> encoder \<Rightarrow> TaskID \<Rightarrow> WorkCapsule \<Rightarrow> Packet \<Rightarrow> ExecutionBrief \<Rightarrow> preparedHandoffLaunch op" where
  "request_launch E J t caps p b =
     bnd (gets (\<lambda>w. resolveLaunchRunSummary p t (w_db w))) (\<lambda>(runSummary, runStatus, runID).
     bnd (clock E) (\<lambda>now.
     let y = materializeLaunchPayload p b runSummary runStatus runID now;
         payloadHash = hashLaunchPayload E J y in
     bnd (buildRequestedLaunch E t p payloadHash) (\<lambda>l.
     let payload = [(''handoff_id'', PStr (h_HandoffID p)),
           (''target_worker'', PStr (WorkerKind_str (h_TargetWorker p))),
           (''source_worker'', PStr (WorkerKind_str (h_SourceWorker p))),
           (''checkpoint_id'', PStr (h_CheckpointID p)), (''brief_id'', PStr (h_BriefID p)),
           (''launch_attempt_id'', PStr (l_AttemptID l)), (''launch_payload_hash'', PStr payloadHash)];
         run = runIDPointer (y_LatestRunID y);
         text = ''I prepared Claude handoff launch for packet '' @ h_HandoffID p
           @ ''. The launch payload is anchored to checkpoint '' @ h_CheckpointID p @ '' and brief ''
           @ h_BriefID p @ ''.'' in
     seq (db_write (handoffs_CreateLaunch l))
     (seq (appendProof E caps EventHandoffLaunchRequested ActorSystem ''tuku-daemon'' payload run)
     (seq (emitCanonicalConversation E caps text payload run)
     (ret \<lparr>pl_TaskID = t, pl_Packet = p, pl_Payload = y, pl_Launch = l\<rparr>))))))"

definition prepareHandoffLaunch ::
  "Deps \<Rightarrow> encoder \<Rightarrow> TaskID \<Rightarrow> LaunchHandoffRequest \<Rightarrow> (LaunchHandoffResult + preparedHandoffLaunch) op" where
  "prepareHandoffLaunch E J t req = withTx (
     bnd (db_read (capsules_Get t)) (\<lambda>caps.
     let blocked = (\<lambda>target reason.
           bnd (recordHandoffLaunchBlocked E caps req target reason) (\<lambda>x. ret (Inl x))) in
     bnd (optional (db_read (resolveLaunchPacket t (TrimSpace (lq_HandoffID req))))) (\<lambda>packet. case packet of
       None \<Rightarrow> blocked (WorkerKindOther []) ''handoff packet not found for this task''
     | Some p \<Rightarrow>
     if h_TaskID p \<noteq> t
     then blocked (h_TargetWorker p) (''handoff task mismatch: packet task='' @ h_TaskID p @ '' request task='' @ t)
     else if WorkerKind_str (lq_TargetWorker req) \<noteq> [] \<and> lq_TargetWorker req \<noteq> h_TargetWorker p
     then blocked (h_TargetWorker p) (''requested target worker '' @ WorkerKind_str (lq_TargetWorker req)
       @ '' does not match packet target '' @ WorkerKind_str (h_TargetWorker p))
     else if h_TargetWorker p \<noteq> WorkerKindClaude
     then blocked (h_TargetWorker p) (''unsupported handoff launch target: '' @ WorkerKind_str (h_TargetWorker p))
     else if h_Status p \<noteq> HandoffStatusCreated \<and> h_Status p \<noteq> HandoffStatusAccepted
     then blocked (h_TargetWorker p) (''handoff '' @ h_HandoffID p @ '' is not launchable in status ''
       @ HandoffStatus_str (h_Status p))
     else
     bnd (db_read (tryReusePriorLaunchOutcome t p)) (\<lambda>prior. case prior of
       Some x \<Rightarrow> ret (Inl x)
     | None \<Rightarrow>
     bnd (assess E t) (\<lambda>a.
     bnd (db_read (validateLaunchSafety p a)) (\<lambda>reason.
     if reason \<noteq> [] then blocked (h_TargetWorker p) reason
     else
     bnd (optional (db_read (briefs_Get (h_BriefID p)))) (\<lambda>found_brief. case found_brief of
       None \<Rightarrow> blocked (h_TargetWorker p) (''handoff brief '' @ h_BriefID p @ '' is missing'')
     | Some b \<Rightarrow> bnd (request_launch E J t caps p b) (\<lambda>x. ret (Inr x)))))))))"

section \<open>Follow-through\<close>

record RecordHandoffFollowThroughRequest =
  fq_TaskID :: string
  fq_Kind :: FollowThroughKind
  fq_Summary :: string
  fq_Notes :: "string list"

record RecordHandoffFollowThroughResult =
  fr_TaskID :: TaskID
  fr_Record :: FollowThrough
  fr_HandoffContinuity :: HandoffContinuity
  fr_RecoveryClass :: RecoveryClass
  fr_RecommendedAction :: RecoveryAction
  fr_ReadyForNextRun :: bool
  fr_ReadyForHandoffLaunch :: bool
  fr_RecoveryReason :: string
  fr_CanonicalResponse :: string

definition validateHandoffFollowThroughPosture ::
  "HandoffContinuity \<Rightarrow> FollowThroughKind \<Rightarrow> go_error option" where
  "validateHandoffFollowThroughPosture hc kind =
     (if hc_TargetWorker hc \<noteq> WorkerKindClaude
      then Some (ErrMsg ''handoff follow-through can only be recorded for Claude handoffs'')
      else if hc_State hc \<in> {HandoffContinuityStateLaunchCompletedAckSeen,
          HandoffContinuityStateLaunchCompletedAckEmpty, HandoffContinuityStateFollowThroughProofOfLife,
          HandoffContinuityStateFollowThroughConfirmed, HandoffContinuityStateFollowThroughUnknown,
          HandoffContinuityStateFollowThroughStalled}
      then None
      else Some (ErrMsg (''handoff follow-through kind '' @ FollowThroughKind_str kind
        @ '' can only be recorded while handoff continuity state is a launched Claude follow-through posture, got ''
        @ HandoffContinuityState_str (hc_State hc))))"

definition replayableHandoffFollowThrough ::
  "RecordHandoffFollowThroughRequest \<Rightarrow> FollowThrough option \<Rightarrow> HandoffContinuity \<Rightarrow> bool" where
  "replayableHandoffFollowThrough req latest hc =
     (case latest of
        None \<Rightarrow> False
      | Some f \<Rightarrow> validateHandoffFollowThroughPosture hc (fq_Kind req) = None
          \<and> f_Kind f = fq_Kind req
          \<and> f_HandoffID f = hc_HandoffID hc \<and> f_LaunchAttemptID f = hc_LaunchAttemptID hc
          \<and> (TrimSpace (fq_Summary req) = [] \<or> TrimSpace (fq_Summary req) = TrimSpace (f_Summary f)))"

definition normalizeHandoffFollowThroughSummary :: "FollowThroughKind \<Rightarrow> string \<Rightarrow> string" where
  "normalizeHandoffFollowThroughSummary kind requested =
     (if TrimSpace requested \<noteq> [] then TrimSpace requested
      else (case kind of
        FollowThroughProofOfLifeObserved \<Rightarrow> ''post-launch downstream proof of life observed''
      | FollowThroughContinuationConfirmed \<Rightarrow> ''operator confirmed downstream continuation occurred''
      | FollowThroughContinuationUnknown \<Rightarrow> ''downstream follow-through remains unknown''
      | FollowThroughStalledReviewRequired \<Rightarrow> ''downstream follow-through appears stalled and needs review''
      | FollowThroughKindOther s \<Rightarrow> ''handoff follow-through recorded''))"

definition buildHandoffFollowThroughCanonical :: "HandoffContinuity \<Rightarrow> FollowThrough \<Rightarrow> string" where
  "buildHandoffFollowThroughCanonical hc f =
     (case f_Kind f of
        FollowThroughProofOfLifeObserved \<Rightarrow> ''I recorded downstream proof-of-life evidence for Claude handoff ''
          @ hc_HandoffID hc @ '': '' @ f_Summary f @ ''. This is stronger than initial launch acknowledgment, but it still does not prove downstream task completion.''
      | FollowThroughContinuationConfirmed \<Rightarrow> ''I recorded operator confirmation that downstream Claude continuation occurred for handoff ''
          @ hc_HandoffID hc @ '': '' @ f_Summary f @ ''. This does not prove downstream task completion or full transcript visibility.''
      | FollowThroughContinuationUnknown \<Rightarrow> ''I recorded that downstream Claude follow-through remains unknown for handoff ''
          @ hc_HandoffID hc @ '': '' @ f_Summary f @ ''. Tuku still does not have proof of downstream task completion.''
      | FollowThroughStalledReviewRequired \<Rightarrow> ''I recorded that downstream Claude follow-through appears stalled for handoff ''
          @ hc_HandoffID hc @ '': '' @ f_Summary f @ ''. Local fresh-run readiness remains blocked while this launched handoff needs review.''
      | FollowThroughKindOther s \<Rightarrow> ''I recorded downstream follow-through evidence for Claude handoff '' @ hc_HandoffID hc @ ''.'')"

definition follow_result ::
  "TaskID \<Rightarrow> FollowThrough \<Rightarrow> HandoffContinuity \<Rightarrow> RecoveryAssessment \<Rightarrow> RecordHandoffFollowThroughResult" where
  "follow_result t f hc r =
     \<lparr>fr_TaskID = t, fr_Record = f, fr_HandoffContinuity = hc, fr_RecoveryClass = rv_RecoveryClass r,
      fr_RecommendedAction = rv_RecommendedAction r, fr_ReadyForNextRun = rv_ReadyForNextRun r,
      fr_ReadyForHandoffLaunch = rv_ReadyForHandoffLaunch r, fr_RecoveryReason = rv_Reason r,
      fr_CanonicalResponse = buildHandoffFollowThroughCanonical hc f\<rparr>"

definition new_follow_through ::
  "string \<Rightarrow> TaskID \<Rightarrow> Packet \<Rightarrow> Launch \<Rightarrow> RecordHandoffFollowThroughRequest \<Rightarrow> go_time \<Rightarrow> FollowThrough" where
  "new_follow_through fid t p l req now =
     \<lparr>f_Version = 1, f_RecordID = fid, f_HandoffID = h_HandoffID p, f_LaunchAttemptID = l_AttemptID l,
      f_LaunchID = l_LaunchID l, f_TaskID = t, f_TargetWorker = WorkerKindClaude, f_Kind = fq_Kind req,
      f_Summary = normalizeHandoffFollowThroughSummary (fq_Kind req) (fq_Summary req),
      f_Notes = fq_Notes req, f_CreatedAt = now\<rparr>"

text \<open>Go's run-time error for the dereference of a nil pointer.\<close>

definition nil_dereference :: go_error where
  "nil_dereference = ErrMsg ''runtime error: invalid memory address or nil pointer dereference''"

definition follow_tx ::
  "Deps \<Rightarrow> TaskID \<Rightarrow> RecordHandoffFollowThroughRequest \<Rightarrow> RecordHandoffFollowThroughResult op" where
  "follow_tx E t req = withTx (
      bnd (assess E t) (\<lambda>a.
      case validateHandoffFollowThroughPosture (hc_of a) (fq_Kind req) of
        Some e \<Rightarrow> throw e
      | None \<Rightarrow>
      bnd (db_read (capsules_Get t)) (\<lambda>caps.
      bnd (idGenerator E ''hft'') (\<lambda>fid.
      case (ca_LatestHandoff a, ca_LatestLaunch a) of
        (Some p, Some l) \<Rightarrow>
         bnd (clock E) (\<lambda>now.
         let f = new_follow_through fid t p l req now;
             a' = a\<lparr>ca_LatestFollowThrough := Some f\<rparr>;
             payload = [(''record_id'', PStr (f_RecordID f)), (''handoff_id'', PStr (f_HandoffID f)),
               (''launch_attempt_id'', PStr (f_LaunchAttemptID f)), (''launch_id'', PStr (f_LaunchID f)),
               (''target_worker'', PStr (WorkerKind_str (f_TargetWorker f))),
               (''kind'', PStr (FollowThroughKind_str (f_Kind f))), (''summary'', PStr (f_Summary f)),
               (''notes'', PStrs (f_Notes f)), (''downstream_completion_proven'', PBool False)];
             run = runIDPointer (case ca_LatestRun a of Some r \<Rightarrow> r_RunID r | None \<Rightarrow> []);
             result = follow_result t f (hc_of a') (recoveryFromContinueAssessment a') in
         seq (db_write (handoffs_SaveFollowThrough f))
         (seq (appendProof E caps EventHandoffFollowThroughRecorded ActorSystem ''tuku-daemon'' payload run)
         (seq (emitCanonicalConversation E caps (fr_CanonicalResponse result) payload run)
         (ret result))))
      | _ \<Rightarrow> throw nil_dereference))))"

definition RecordHandoffFollowThrough ::
  "Deps \<Rightarrow> RecordHandoffFollowThroughRequest \<Rightarrow> RecordHandoffFollowThroughResult op" where
  "RecordHandoffFollowThrough E req =
     (let t = TrimSpace (fq_TaskID req) in
      if t = [] then throw (ErrMsg ''task id is required'')
      else if FollowThroughKind_str (fq_Kind req) = []
      then throw (ErrMsg ''follow-through kind is required'')
      else
      bnd (assess E t) (\<lambda>a0.
      case validateHandoffFollowThroughPosture (hc_of a0) (fq_Kind req) of
        Some e \<Rightarrow> throw e
      | None \<Rightarrow>
      if replayableHandoffFollowThrough req (ca_LatestFollowThrough a0) (hc_of a0)
      then (case ca_LatestFollowThrough a0 of
          Some f \<Rightarrow> ret (follow_result t f (hc_of a0) (recoveryFromContinueAssessment a0))
        | None \<Rightarrow> throw nil_dereference)
      else follow_tx E t req))"

section \<open>Frames\<close>

text \<open>
  The writes to the handoff tables join those of \<open>write_frame\<close>. A packet's status is only
  written over as a step from CREATED to ACCEPTED; \<open>w_now\<close> is the wall clock moving on.
\<close>

lemma handoff_writes_keep_runs:
  "handoffs_Create p d = Inr d' \<Longrightarrow> db_runs d' = db_runs d"
  "handoffs_UpdateStatus t k st who notes at d = Inr d' \<Longrightarrow> db_runs d' = db_runs d"
  "handoffs_CreateLaunch l d = Inr d' \<Longrightarrow> db_runs d' = db_runs d"
  "handoffs_SaveFollowThrough f d = Inr d' \<Longrightarrow> db_runs d' = db_runs d"
  by (auto simp: handoffs_Create_def handoffs_UpdateStatus_def handoffs_CreateLaunch_def
      handoffs_SaveFollowThrough_def inserted_Inr_iff updated_Inr_iff Let_def
      split: option.splits if_splits)

locale handoff_frame = write_frame R for R :: "Db \<Rightarrow> Db \<Rightarrow> bool" +
  assumes w_packet: "handoffs_Create p d = Inr d' \<Longrightarrow> R d d'"
    and w_accept: "handoffs_Get k d = Inr p \<Longrightarrow> h_Status p = HandoffStatusCreated \<Longrightarrow>
      handoffs_UpdateStatus t k HandoffStatusAccepted who notes at d = Inr d' \<Longrightarrow> R d d'"
    and w_launch: "handoffs_CreateLaunch l d = Inr d' \<Longrightarrow> R d d'"
    and w_follow: "handoffs_SaveFollowThrough f d = Inr d' \<Longrightarrow> R d d'"
    and w_now: "R d (d\<lparr>db_now := now\<rparr>)"
begin

lemma handoff_writes:
  "frames (on_db (guarded R)) (db_write (handoffs_Create p))"
  "frames (on_db (guarded R)) (db_write (handoffs_CreateLaunch l))"
  "frames (on_db (guarded R)) (db_write (handoffs_SaveFollowThrough f))"
  by (rule g.frame_write, simp add: guarded_def runs_ok_def handoff_writes_keep_runs w_packet
      w_launch w_follow; fail)+

lemma R_if: "(c \<Longrightarrow> holds R P m Q) \<Longrightarrow> (\<not> c \<Longrightarrow> holds R P k Q) \<Longrightarrow> holds R P (if c then m else k) Q"
  by simp

lemma R_accept:
  assumes "h_Status p = HandoffStatusCreated"
  shows "holds R (\<lambda>d. handoffs_Get k d = Inr p)
    (db_write (handoffs_UpdateStatus t k HandoffStatusAccepted who notes at)) (\<lambda>_ _. True)"
  by (rule holds_write)
    (auto simp: runs_ok_def handoff_writes_keep_runs intro: w_refl w_accept assms)

lemma op_recordBlocked: "frames (on_db (guarded R)) (recordBlockedHandoffTx E caps reason target req)"
  unfolding recordBlockedHandoffTx_def Let_def by (intro op_frames)

lemma op_CreateHandoff: "frames (on_db (guarded R)) (CreateHandoff E req)"
  unfolding CreateHandoff_def blocked_tx_def handoff_tx_def tryReuseExistingHandoff_def handoff_checkpoint_def create_packet_def
    buildHandoffPacket_def Let_def
  by (intro op_recordBlocked handoff_writes op_frames)

lemma op_AcceptHandoff: "frames (on_db (guarded R)) (AcceptHandoff E req)"
  unfolding AcceptHandoff_def Let_def
  by (intro g.world.frame_if g.world.frame_throw g.frame_withTx)
    (rule holds_frames, rule R_bnd[OF holds_read[OF w_refl]], rule holds_pre[where P' = "\<lambda>d. handoffs_Get k d = Inr p" for k p],
      intro R_if, (rule R_frames, intro op_frames; fail)+,
      rule R_bnd[OF R_quiet[OF quiet.frame_clock]], unfold seq_def,
      rule R_bnd[OF R_accept], simp, rule R_frames, intro op_frames, simp)

lemma op_blockedLaunch: "frames (on_db (guarded R)) (recordHandoffLaunchBlocked E caps req target reason)"
  unfolding recordHandoffLaunchBlocked_def Let_def by (intro op_frames)

lemma op_withoutAdapter:
  "frames (on_db (guarded R)) (recordHandoffLaunchBlockedWithoutAdapter E t req)"
  unfolding recordHandoffLaunchBlockedWithoutAdapter_def by (intro op_blockedLaunch op_frames)

lemma op_request_launch: "frames (on_db (guarded R)) (request_launch E J t caps p b)"
  unfolding request_launch_def buildRequestedLaunch_def Let_def by (intro handoff_writes op_frames)

lemma op_prepareHandoffLaunch: "frames (on_db (guarded R)) (prepareHandoffLaunch E J t req)"
  unfolding prepareHandoffLaunch_def Let_def
  by (intro op_blockedLaunch op_request_launch handoff_writes op_frames)

lemma op_RecordHandoffFollowThrough:
  "frames (on_db (guarded R)) (RecordHandoffFollowThrough E req)"
  unfolding RecordHandoffFollowThrough_def follow_tx_def Let_def prod.case by (intro handoff_writes op_frames)

end

end
