(* ===== verification/Outcomes.thy ===== *)
theory Outcomes
  imports Handoff Transitions
begin

text \<open>
  The second half of internal/orchestrator/handoff_launch.go (LaunchHandoff,
  finalizeHandoffLaunch) and internal/orchestrator/handoff_resolution.go: what comes back from
  the launcher and the operator's resolution of a handoff. Both compare continuity before and
  after and leave a transition receipt. The launcher is a parameter.
\<close>

section \<open>The outcome of a launch\<close>

record HandoffLaunchRequest =
  hq_TaskID :: TaskID
  hq_HandoffID :: string
  hq_SourceWorker :: WorkerKind
  hq_TargetWorker :: WorkerKind
  hq_Payload :: LaunchPayload

record HandoffLaunchResult =
  ho_LaunchID :: string
  ho_StartedAt :: go_time
  ho_EndedAt :: go_time
  ho_Command :: string
  ho_Args :: "string list"
  ho_ExitCode :: int
  ho_Stdout :: string
  ho_Stderr :: string
  ho_OutputArtifactRef :: string
  ho_Summary :: string

text \<open>
  A configured launcher answers the request made at a count of the outside world with a result
  and, when the invocation failed, the text of its error.
\<close>

type_synonym launcher = "(nat \<Rightarrow> HandoffLaunchRequest \<Rightarrow> HandoffLaunchResult \<times> string option) option"

definition summarizeAcknowledgment :: "HandoffLaunchResult \<Rightarrow> string" where
  "summarizeAcknowledgment x =
     (if TrimSpace (ho_Summary x) \<noteq> [] then truncate_text (TrimSpace (ho_Summary x)) 280
      else (case filter (\<lambda>s. s \<noteq> []) (map TrimSpace (split_char (CHR 0x0A) (TrimSpace (ho_Stdout x)))) of
              [] \<Rightarrow> []
            | s # ss \<Rightarrow> truncate_text s 280))"

definition buildLaunchAcknowledgment ::
  "Deps \<Rightarrow> TaskID \<Rightarrow> string \<Rightarrow> WorkerKind \<Rightarrow> HandoffLaunchResult \<Rightarrow> Acknowledgment op" where
  "buildLaunchAcknowledgment E t hid target x =
     (let summary = summarizeAcknowledgment x; usable = summary \<noteq> [] in
      bnd (idGenerator E ''hak'') (\<lambda>aid.
      bnd (clock E) (\<lambda>now.
      ret \<lparr>a_Version = 1, a_AckID = aid, a_HandoffID = hid, a_LaunchID = TrimSpace (ho_LaunchID x),
           a_TaskID = t, a_TargetWorker = target,
           a_Status = (if usable then AcknowledgmentCaptured else AcknowledgmentUnavailable),
           a_Summary = (if usable then summary
             else ''No usable initial acknowledgment text was returned by the target worker.''),
           a_Unknowns = (if usable then []
             else [''Initial target-worker acknowledgment text was empty or unusable.''])
             @ [''Acknowledgment alone does not prove downstream coding execution completed.''],
           a_CreatedAt = now\<rparr>)))"

text \<open>The launch record with the launcher's answer; \<open>err\<close> is its error.\<close>

definition launch_outcome :: "HandoffLaunchResult \<Rightarrow> string option \<Rightarrow> go_time \<Rightarrow> Launch \<Rightarrow> Launch" where
  "launch_outcome x err now l =
     l\<lparr>l_Status := (if err = None then LaunchStatusCompleted else LaunchStatusFailed),
       l_LaunchID := TrimSpace (ho_LaunchID x), l_StartedAt := ho_StartedAt x, l_EndedAt := ho_EndedAt x,
       l_Command := ho_Command x, l_Args := ho_Args x, l_Summary := ho_Summary x,
       l_ErrorMessage := (case err of None \<Rightarrow> [] | Some s \<Rightarrow> s),
       l_OutputArtifactRef := ho_OutputArtifactRef x, l_UpdatedAt := now,
       l_ExitCode := (if ho_ExitCode x \<noteq> 0 then Some (ho_ExitCode x)
         else if err = None then None else l_ExitCode l)\<rparr>"

definition failed_payload ::
  "preparedHandoffLaunch \<Rightarrow> WorkerKind \<Rightarrow> Launch \<Rightarrow> HandoffLaunchResult \<Rightarrow> string \<Rightarrow> (string \<times> pval) list" where
  "failed_payload p target l x err =
     [(''handoff_id'', PStr (h_HandoffID (pl_Packet p))), (''target_worker'', PStr (WorkerKind_str target)),
      (''launch_attempt_id'', PStr (l_AttemptID l)), (''launch_id'', PStr (ho_LaunchID x)),
      (''error'', PStr err), (''started_at'', PTime (ho_StartedAt x)), (''ended_at'', PTime (ho_EndedAt x)),
      (''command'', PStr (ho_Command x)), (''args'', PStrs (ho_Args x)), (''exit_code'', PInt (ho_ExitCode x)),
      (''stdout_excerpt'', PStr (truncate_text (ho_Stdout x) 1200)),
      (''stderr_excerpt'', PStr (truncate_text (ho_Stderr x) 1200)), (''summary'', PStr (ho_Summary x)),
      (''launch_scope'', PStr ''launcher invocation only''),
      (''completion_semantics'', PStr ''invocation attempted; downstream coding completion not observed by Tuku'')]"

definition completed_payload ::
  "preparedHandoffLaunch \<Rightarrow> WorkerKind \<Rightarrow> Launch \<Rightarrow> HandoffLaunchResult \<Rightarrow> Acknowledgment \<Rightarrow> (string \<times> pval) list" where
  "completed_payload p target l x a =
     [(''handoff_id'', PStr (h_HandoffID (pl_Packet p))), (''target_worker'', PStr (WorkerKind_str target)),
      (''launch_attempt_id'', PStr (l_AttemptID l)), (''launch_id'', PStr (l_LaunchID l)),
      (''started_at'', PTime (ho_StartedAt x)), (''ended_at'', PTime (ho_EndedAt x)),
      (''command'', PStr (ho_Command x)), (''args'', PStrs (ho_Args x)), (''exit_code'', PInt (ho_ExitCode x)),
      (''summary'', PStr (ho_Summary x)), (''output_artifact_ref'', PStr (ho_OutputArtifactRef x)),
      (''launch_scope'', PStr ''launcher invocation only''),
      (''completion_semantics'', PStr ''launch request submitted; downstream coding completion not observed by Tuku''),
      (''ack_id'', PStr (a_AckID a)), (''ack_status'', PStr (AcknowledgmentStatus_str (a_Status a))),
      (''ack_summary'', PStr (a_Summary a)), (''ack_unknowns'', PStrs (a_Unknowns a))]"

definition acknowledgment_payload :: "Acknowledgment \<Rightarrow> (string \<times> pval) list" where
  "acknowledgment_payload a =
     [(''ack_id'', PStr (a_AckID a)), (''handoff_id'', PStr (a_HandoffID a)),
      (''launch_id'', PStr (a_LaunchID a)), (''target_worker'', PStr (WorkerKind_str (a_TargetWorker a))),
      (''status'', PStr (AcknowledgmentStatus_str (a_Status a))), (''summary'', PStr (a_Summary a)),
      (''unknowns'', PStrs (a_Unknowns a)), (''timestamp'', PTime (a_CreatedAt a))]"

definition receipt_id :: "TransitionReceipt option \<Rightarrow> EventID" where
  "receipt_id r = (case r of None \<Rightarrow> [] | Some x \<Rightarrow> tr_ReceiptID x)"

definition receipt_field :: "TransitionReceipt option \<Rightarrow> (string \<times> pval) list" where
  "receipt_field r = (case r of None \<Rightarrow> [] | Some x \<Rightarrow> [(''transition_receipt_id'', PStr (tr_ReceiptID x))])"

definition change_text :: "continuityTransitionSnapshot \<Rightarrow> continuityTransitionSnapshot \<Rightarrow> string" where
  "change_text x y = ''('' @ HandoffContinuityState_str (hc_State (cs_HandoffContinuity x)) @ '' -> ''
     @ HandoffContinuityState_str (hc_State (cs_HandoffContinuity y)) @ '') under review posture ''
     @ ReviewPosture_str (transitionReviewPostureFromProgression (cs_Review x))"

text \<open>The snapshot after the change and the receipt, when the change is material.\<close>

definition launch_receipt ::
  "Deps \<Rightarrow> WorkCapsule \<Rightarrow> preparedHandoffLaunch \<Rightarrow> Launch \<Rightarrow> string \<Rightarrow> continuityTransitionSnapshot \<Rightarrow>
     TransitionReceipt option op" where
  "launch_receipt E caps p l verb before =
     bnd (captureContinuityTransitionSnapshot E (pl_TaskID p)) (\<lambda>after'.
     recordContinuityTransitionReceipt E caps
       \<lparr>ti_TaskID = pl_TaskID p, ti_TransitionKind = KindHandoffLaunch, ti_TransitionHandle = l_AttemptID l,
        ti_TriggerAction = ''handoff.launch'', ti_TriggerSource = ''user'',
        ti_HandoffID = h_HandoffID (pl_Packet p), ti_LaunchAttemptID = l_AttemptID l,
        ti_LaunchID = l_LaunchID l, ti_ResolutionID = [],
        ti_Summary = ''handoff launch attempt '' @ l_AttemptID l @ verb @ change_text before after',
        ti_Before = before, ti_After = after'\<rparr>)"

definition finalized_result ::
  "preparedHandoffLaunch \<Rightarrow> WorkerKind \<Rightarrow> HandoffLaunchStatus \<Rightarrow> Launch \<Rightarrow> TransitionReceipt option \<Rightarrow> string \<Rightarrow>
     LaunchHandoffResult" where
  "finalized_result p target status l receipt text =
     \<lparr>lr_TaskID = pl_TaskID p, lr_HandoffID = h_HandoffID (pl_Packet p), lr_TargetWorker = target,
      lr_LaunchStatus = status, lr_LaunchID = l_LaunchID l, lr_TransitionReceiptID = receipt_id receipt,
      lr_CanonicalResponse = text, lr_Payload = Some (pl_Payload p)\<rparr>"

definition launch_failed ::
  "Deps \<Rightarrow> WorkCapsule \<Rightarrow> preparedHandoffLaunch \<Rightarrow> WorkerKind \<Rightarrow> Launch \<Rightarrow> HandoffLaunchResult \<Rightarrow> string \<Rightarrow>
     continuityTransitionSnapshot \<Rightarrow> LaunchHandoffResult op" where
  "launch_failed E caps p target l0 x err before =
     bnd (clock E) (\<lambda>now.
     let l = launch_outcome x (Some err) now l0; run = runIDPointer (y_LatestRunID (pl_Payload p));
         payload = failed_payload p target l x err;
         text = ''Claude handoff launch failed for packet '' @ h_HandoffID (pl_Packet p) @ '': '' @ err
           @ ''. No execution worker state was mutated; review the launch evidence and retry.'' in
     seq (db_write (handoffs_UpdateLaunch l))
     (seq (appendProof E caps EventHandoffLaunchFailed ActorSystem ''tuku-daemon'' payload run)
     (bnd (launch_receipt E caps p l '' failed '' before) (\<lambda>receipt.
     seq (emitCanonicalConversation E caps text (payload @ receipt_field receipt) run)
     (ret (finalized_result p target HandoffLaunchStatusFailed l receipt text))))))"

definition launch_completed_tx ::
  "Deps \<Rightarrow> WorkCapsule \<Rightarrow> preparedHandoffLaunch \<Rightarrow> WorkerKind \<Rightarrow> Launch \<Rightarrow> HandoffLaunchResult \<Rightarrow>
     continuityTransitionSnapshot \<Rightarrow> LaunchHandoffResult op" where
  "launch_completed_tx E caps p target l0 x before =
     bnd (clock E) (\<lambda>now.
     let l = launch_outcome x None now l0; run = runIDPointer (y_LatestRunID (pl_Payload p)) in
     seq (db_write (handoffs_UpdateLaunch l))
     (bnd (buildLaunchAcknowledgment E (pl_TaskID p) (h_HandoffID (pl_Packet p)) target x) (\<lambda>a.
     let payload = completed_payload p target l x a;
         text = buildLaunchCanonicalSuccess (h_HandoffID (pl_Packet p)) (ho_LaunchID x) a in
     seq (db_write (handoffs_SaveAcknowledgment a))
     (seq (appendProof E caps
        (if a_Status a = AcknowledgmentUnavailable then EventHandoffAcknowledgmentUnavailable
         else EventHandoffAcknowledgmentCaptured) ActorSystem ''tuku-daemon'' (acknowledgment_payload a) run)
     (seq (appendProof E caps EventHandoffLaunchCompleted ActorSystem ''tuku-daemon'' payload run)
     (bnd (launch_receipt E caps p l '' completed '' before) (\<lambda>receipt.
     seq (emitCanonicalConversation E caps text (payload @ receipt_field receipt) run)
     (ret (finalized_result p target HandoffLaunchStatusCompleted l receipt text)))))))))"

definition finalizeHandoffLaunch ::
  "Deps \<Rightarrow> preparedHandoffLaunch \<Rightarrow> HandoffLaunchResult \<Rightarrow> string option \<Rightarrow> LaunchHandoffResult op" where
  "finalizeHandoffLaunch E p x err = withTx (
     bnd (db_read (capsules_Get (pl_TaskID p))) (\<lambda>caps.
     bnd (captureContinuityTransitionSnapshot E (pl_TaskID p)) (\<lambda>before.
     bnd (db_read (handoffs_GetLaunch (l_AttemptID (pl_Launch p)))) (\<lambda>l.
     if l_Status l \<noteq> LaunchStatusRequested
     then throw (ErrMsg (''launch attempt '' @ l_AttemptID l @ '' is not REQUESTED during finalization (status=''
       @ LaunchStatus_str (l_Status l) @ '')''))
     else
     let target = (if WorkerKind_str (h_TargetWorker (pl_Packet p)) = [] then y_TargetWorker (pl_Payload p)
           else h_TargetWorker (pl_Packet p)) in
     case err of
       Some s \<Rightarrow> launch_failed E caps p target l x s before
     | None \<Rightarrow> launch_completed_tx E caps p target l x before))))"

definition adapterWorkerKind :: "WorkerKind \<Rightarrow> WorkerKind" where
  "adapterWorkerKind k = (if k \<in> {WorkerKindClaude, WorkerKindCodex} then k else WorkerKindOther ''unknown'')"

definition launch_request :: "preparedHandoffLaunch \<Rightarrow> HandoffLaunchRequest" where
  "launch_request p = \<lparr>hq_TaskID = pl_TaskID p, hq_HandoffID = h_HandoffID (pl_Packet p),
     hq_SourceWorker = adapterWorkerKind (h_SourceWorker (pl_Packet p)),
     hq_TargetWorker = adapterWorkerKind (h_TargetWorker (pl_Packet p)),
     hq_Payload = pl_Payload p\<rparr>"

definition LaunchHandoff :: "Deps \<Rightarrow> encoder \<Rightarrow> launcher \<Rightarrow> LaunchHandoffRequest \<Rightarrow> LaunchHandoffResult op" where
  "LaunchHandoff E J L req =
     (let t = TrimSpace (lq_TaskID req) in
      if t = [] then throw (ErrMsg ''task id is required'')
      else (case L of
         None \<Rightarrow> recordHandoffLaunchBlockedWithoutAdapter E t req
       | Some invoke \<Rightarrow>
         bnd (prepareHandoffLaunch E J t req) (\<lambda>prepared. case prepared of
           Inl blocked \<Rightarrow> ret blocked
         | Inr p \<Rightarrow>
           bnd (tick (\<lambda>n. invoke n (launch_request p))) (\<lambda>(x, err).
           finalizeHandoffLaunch E p x err))))"

section \<open>Resolving a handoff\<close>

record RecordHandoffResolutionRequest =
  sq_TaskID :: string
  sq_HandoffID :: string
  sq_Kind :: ResolutionKind
  sq_Summary :: string
  sq_Notes :: "string list"

record RecordHandoffResolutionResult =
  sz_TaskID :: TaskID
  sz_Record :: Resolution
  sz_TransitionReceiptID :: EventID
  sz_HandoffContinuity :: HandoffContinuity
  sz_RecoveryClass :: RecoveryClass
  sz_RecommendedAction :: RecoveryAction
  sz_ReadyForNextRun :: bool
  sz_ReadyForHandoffLaunch :: bool
  sz_RecoveryReason :: string
  sz_CanonicalResponse :: string

definition validHandoffResolutionKind :: "ResolutionKind \<Rightarrow> bool" where
  "validHandoffResolutionKind k \<longleftrightarrow> k \<in> {ResolutionAbandoned, ResolutionSupersededByLocal,
     ResolutionClosedUnproven, ResolutionReviewedStale}"

definition validateHandoffResolutionTarget ::
  "RecordHandoffResolutionRequest \<Rightarrow> HandoffContinuity \<Rightarrow> go_error option" where
  "validateHandoffResolutionTarget q hc =
     (let hid = TrimSpace (sq_HandoffID q) in
      if hc_State hc = HandoffContinuityStateNotApplicable \<or> hc_HandoffID hc = []
      then Some (ErrMsg ''no active Claude handoff branch exists for handoff resolution'')
      else if hc_TargetWorker hc \<noteq> WorkerKindClaude
      then Some (ErrMsg ''handoff resolution can only be recorded for Claude handoff continuity'')
      else if hid \<noteq> [] \<and> hid \<noteq> hc_HandoffID hc
      then Some (ErrMsg (''handoff resolution target '' @ hid @ '' does not match active Claude handoff branch ''
        @ hc_HandoffID hc))
      else if hc_State hc \<in> {HandoffContinuityStateAcceptedNotLaunched,
          HandoffContinuityStateLaunchPendingOutcome, HandoffContinuityStateLaunchFailedRetryable,
          HandoffContinuityStateLaunchCompletedAckSeen, HandoffContinuityStateLaunchCompletedAckEmpty,
          HandoffContinuityStateLaunchCompletedAckLost, HandoffContinuityStateFollowThroughProofOfLife,
          HandoffContinuityStateFollowThroughConfirmed, HandoffContinuityStateFollowThroughUnknown,
          HandoffContinuityStateFollowThroughStalled}
      then None
      else if hc_State hc = HandoffContinuityStateResolved
      then Some (ErrMsg (''Claude handoff branch '' @ hc_HandoffID hc @ '' is already resolved''))
      else Some (ErrMsg (''handoff resolution kind '' @ ResolutionKind_str (sq_Kind q)
        @ '' requires an active Claude handoff branch, got '' @ HandoffContinuityState_str (hc_State hc))))"

definition replayableHandoffResolution ::
  "RecordHandoffResolutionRequest \<Rightarrow> Resolution option \<Rightarrow> HandoffContinuity \<Rightarrow> bool" where
  "replayableHandoffResolution q latest hc =
     (case latest of
        None \<Rightarrow> False
      | Some s \<Rightarrow> hc_HandoffID hc = []
          \<and> (TrimSpace (sq_HandoffID q) = [] \<or> TrimSpace (sq_HandoffID q) = s_HandoffID s)
          \<and> s_Kind s = sq_Kind q
          \<and> (TrimSpace (sq_Summary q) = [] \<or> TrimSpace (sq_Summary q) = TrimSpace (s_Summary s)))"

definition normalizeHandoffResolutionSummary :: "ResolutionKind \<Rightarrow> string \<Rightarrow> string" where
  "normalizeHandoffResolutionSummary k requested =
     (if TrimSpace requested \<noteq> [] then TrimSpace requested
      else (case k of
        ResolutionAbandoned \<Rightarrow> ''operator explicitly abandoned the Claude handoff branch''
      | ResolutionSupersededByLocal \<Rightarrow> ''operator explicitly returned canonical control to the local Tuku branch''
      | ResolutionClosedUnproven \<Rightarrow> ''operator explicitly closed the Claude handoff branch without downstream completion proof''
      | ResolutionReviewedStale \<Rightarrow> ''operator reviewed the Claude handoff branch as stale and closed it''
      | ResolutionKindOther s \<Rightarrow> ''operator explicitly resolved the Claude handoff branch''))"

definition normalizedResolutionNotes :: "string list \<Rightarrow> string list" where
  "normalizedResolutionNotes ns = filter (\<lambda>s. s \<noteq> []) (map TrimSpace ns)"

definition buildHandoffResolutionCanonical :: "Resolution \<Rightarrow> string" where
  "buildHandoffResolutionCanonical r =
     (case s_Kind r of
        ResolutionAbandoned \<Rightarrow> ''I explicitly abandoned Claude handoff branch '' @ s_HandoffID r @ '': '' @ s_Summary r
          @ ''. Tuku is not claiming downstream completion, but the Claude continuity branch is no longer active-blocking for local control.''
      | ResolutionSupersededByLocal \<Rightarrow> ''I explicitly superseded Claude handoff branch '' @ s_HandoffID r
          @ '' with local Tuku control: '' @ s_Summary r
          @ ''. This closes the Claude continuity branch without claiming downstream completion.''
      | ResolutionClosedUnproven \<Rightarrow> ''I explicitly closed Claude handoff branch '' @ s_HandoffID r @ '' as unproven: ''
          @ s_Summary r @ ''. Tuku is not claiming downstream completion.''
      | ResolutionReviewedStale \<Rightarrow> ''I reviewed Claude handoff branch '' @ s_HandoffID r
          @ '' as stale and explicitly closed it: '' @ s_Summary r @ ''. Tuku is not claiming downstream completion.''
      | ResolutionKindOther s \<Rightarrow> ''I explicitly resolved Claude handoff branch '' @ s_HandoffID r @ '': '' @ s_Summary r @ ''.'')"

definition continuity_for :: "TaskID \<Rightarrow> continueAssessment \<Rightarrow> HandoffContinuity" where
  "continuity_for t a = assessHandoffContinuity t (ca_LatestHandoff a) (ca_LatestLaunch a)
     (ca_LatestAck a) (ca_LatestFollowThrough a) (ca_LatestResolution a)"

definition resolution_result ::
  "TaskID \<Rightarrow> Resolution \<Rightarrow> EventID \<Rightarrow> HandoffContinuity \<Rightarrow> RecoveryAssessment \<Rightarrow> RecordHandoffResolutionResult" where
  "resolution_result t s receipt hc r =
     \<lparr>sz_TaskID = t, sz_Record = s, sz_TransitionReceiptID = receipt, sz_HandoffContinuity = hc,
      sz_RecoveryClass = rv_RecoveryClass r, sz_RecommendedAction = rv_RecommendedAction r,
      sz_ReadyForNextRun = rv_ReadyForNextRun r, sz_ReadyForHandoffLaunch = rv_ReadyForHandoffLaunch r,
      sz_RecoveryReason = rv_Reason r, sz_CanonicalResponse = buildHandoffResolutionCanonical s\<rparr>"

definition new_resolution ::
  "string \<Rightarrow> TaskID \<Rightarrow> Packet \<Rightarrow> Launch option \<Rightarrow> RecordHandoffResolutionRequest \<Rightarrow> go_time \<Rightarrow> Resolution" where
  "new_resolution rid t p l q now =
     \<lparr>s_Version = 1, s_ResolutionID = rid, s_HandoffID = h_HandoffID p,
      s_LaunchAttemptID = (case l of None \<Rightarrow> [] | Some x \<Rightarrow> l_AttemptID x),
      s_LaunchID = (case l of None \<Rightarrow> [] | Some x \<Rightarrow> l_LaunchID x), s_TaskID = t,
      s_TargetWorker = WorkerKindClaude, s_Kind = sq_Kind q,
      s_Summary = normalizeHandoffResolutionSummary (sq_Kind q) (sq_Summary q),
      s_Notes = normalizedResolutionNotes (sq_Notes q), s_CreatedAt = now\<rparr>"

definition resolution_payload :: "Resolution \<Rightarrow> (string \<times> pval) list" where
  "resolution_payload s =
     [(''resolution_id'', PStr (s_ResolutionID s)), (''handoff_id'', PStr (s_HandoffID s)),
      (''launch_attempt_id'', PStr (s_LaunchAttemptID s)), (''launch_id'', PStr (s_LaunchID s)),
      (''target_worker'', PStr (WorkerKind_str (s_TargetWorker s))), (''kind'', PStr (ResolutionKind_str (s_Kind s))),
      (''summary'', PStr (s_Summary s)), (''notes'', PStrs (s_Notes s)), (''downstream_completion_proven'', PBool False)]"

definition resolution_after :: "HandoffContinuity \<Rightarrow> RecoveryAssessment \<Rightarrow> (string \<times> pval) list" where
  "resolution_after hc r =
     [(''handoff_continuity_state'', PStr (HandoffContinuityState_str (hc_State hc))),
      (''recovery_class'', PStr (RecoveryClass_str (rv_RecoveryClass r))),
      (''recommended_action'', PStr (RecoveryAction_str (rv_RecommendedAction r))),
      (''ready_for_next_run'', PBool (rv_ReadyForNextRun r)),
      (''ready_for_handoff_launch'', PBool (rv_ReadyForHandoffLaunch r)),
      (''recovery_reason'', PStr (rv_Reason r))]"

definition resolution_tx ::
  "Deps \<Rightarrow> TaskID \<Rightarrow> RecordHandoffResolutionRequest \<Rightarrow> RecordHandoffResolutionResult op" where
  "resolution_tx E t q = withTx (
     bnd (assess E t) (\<lambda>a.
     bnd (captureContinuityTransitionSnapshot E t) (\<lambda>before.
     case validateHandoffResolutionTarget q (continuity_for t a) of
       Some e \<Rightarrow> throw e
     | None \<Rightarrow>
     bnd (db_read (capsules_Get t)) (\<lambda>caps.
     bnd (idGenerator E ''hrs'') (\<lambda>rid.
     case ca_LatestHandoff a of
       None \<Rightarrow> throw nil_dereference
     | Some p \<Rightarrow>
     bnd (clock E) (\<lambda>now.
     let s = new_resolution rid t p (ca_LatestLaunch a) q now;
         run = runIDPointer (case ca_LatestRun a of Some r \<Rightarrow> r_RunID r | None \<Rightarrow> []);
         a' = a\<lparr>ca_LatestResolution := Some s\<rparr>;
         hc = continuity_for t a'; r = recoveryFromContinueAssessment a' in
     seq (db_write (handoffs_SaveResolution s))
     (seq (appendProof E caps EventHandoffResolutionRecorded ActorUser ''user'' (resolution_payload s) run)
     (bnd (captureContinuityTransitionSnapshot E t) (\<lambda>after'.
     bnd (recordContinuityTransitionReceipt E caps
       \<lparr>ti_TaskID = t, ti_TransitionKind = KindHandoffResolution, ti_TransitionHandle = s_ResolutionID s,
        ti_TriggerAction = ''handoff.resolve'', ti_TriggerSource = ''user'', ti_HandoffID = s_HandoffID s,
        ti_LaunchAttemptID = s_LaunchAttemptID s, ti_LaunchID = s_LaunchID s, ti_ResolutionID = s_ResolutionID s,
        ti_Summary = ''handoff resolution '' @ s_ResolutionID s @ '' recorded '' @ change_text before after',
        ti_Before = before, ti_After = after'\<rparr>) (\<lambda>receipt.
     seq (emitCanonicalConversation E caps (buildHandoffResolutionCanonical s)
       (resolution_payload s @ resolution_after hc r @ receipt_field receipt) run)
     (ret (resolution_result t s (receipt_id receipt) hc r))))))))))))"

definition already_resolved :: "RecordHandoffResolutionRequest \<Rightarrow> Resolution option \<Rightarrow> HandoffContinuity \<Rightarrow> go_error option" where
  "already_resolved q latest hc =
     (case latest of
        None \<Rightarrow> None
      | Some s \<Rightarrow> (if hc_HandoffID hc = []
            \<and> (TrimSpace (sq_HandoffID q) = [] \<or> TrimSpace (sq_HandoffID q) = s_HandoffID s)
          then Some (ErrMsg (''Claude handoff branch '' @ s_HandoffID s @ '' is already resolved'')) else None))"

definition RecordHandoffResolution ::
  "Deps \<Rightarrow> RecordHandoffResolutionRequest \<Rightarrow> RecordHandoffResolutionResult op" where
  "RecordHandoffResolution E q =
     (let t = TrimSpace (sq_TaskID q) in
      if t = [] then throw (ErrMsg ''task id is required'')
      else if ResolutionKind_str (sq_Kind q) = [] then throw (ErrMsg ''handoff resolution kind is required'')
      else if \<not> validHandoffResolutionKind (sq_Kind q)
      then throw (ErrMsg (''unsupported handoff resolution kind: '' @ ResolutionKind_str (sq_Kind q)))
      else
      bnd (assess E t) (\<lambda>a.
      let hc = continuity_for t a in
      if replayableHandoffResolution q (ca_LatestResolution a) hc
      then (case ca_LatestResolution a of
              None \<Rightarrow> throw nil_dereference
            | Some s \<Rightarrow> ret (resolution_result t s [] hc (recoveryFromContinueAssessment a)))
      else (case already_resolved q (ca_LatestResolution a) hc of
              Some e \<Rightarrow> throw e
            | None \<Rightarrow>
              (case validateHandoffResolutionTarget q hc of
                 Some e \<Rightarrow> throw e
               | None \<Rightarrow> resolution_tx E t q))))"

section \<open>Frames\<close>

context db_frame
begin

lemma frame_shell_read: "frames (on_db R) (shell_read f)"
  by (rule framesI) (auto simp: shell_read_def on_db_def db_refl)

lemma frame_shell_write: "frames (on_db R) (shell_write E f)"
  by (rule framesI) (auto simp: shell_write_def on_db_def db_refl split: prod.splits)

lemma frame_sessions: "frames (on_db R) (classifiedShellSessions E t)"
  unfolding classifiedShellSessions_def records_of_def by (intro call_frames frame_shell_read)

lemma frame_snapshot: "frames (on_db R) (captureContinuityTransitionSnapshot E t)"
  unfolding captureContinuityTransitionSnapshot_def Let_def
  by (intro call_frames frame_sessions frame_shell_read)

lemmas session_frames = frame_shell_read frame_shell_write frame_sessions frame_snapshot

end

text \<open>A launch is written over once, from REQUESTED to its outcome; its identity stays.\<close>

definition same_launch :: "Launch \<Rightarrow> Launch \<Rightarrow> bool" where
  "same_launch old new \<longleftrightarrow> l_Version new = l_Version old \<and> l_AttemptID new = l_AttemptID old
     \<and> l_HandoffID new = l_HandoffID old \<and> l_TaskID new = l_TaskID old
     \<and> l_TargetWorker new = l_TargetWorker old \<and> l_PayloadHash new = l_PayloadHash old
     \<and> l_RequestedAt new = l_RequestedAt old \<and> l_CreatedAt new = l_CreatedAt old"

definition launch_step :: "Launch \<Rightarrow> Launch \<Rightarrow> bool" where
  "launch_step old new \<longleftrightarrow> same_launch old new \<and> l_Status old = LaunchStatusRequested
     \<and> l_Status new \<in> {LaunchStatusCompleted, LaunchStatusFailed}"

lemma outcome_step: "l_Status l = LaunchStatusRequested \<Longrightarrow> launch_step l (launch_outcome x err now l)"
  by (simp add: launch_step_def same_launch_def launch_outcome_def)

lemma outcome_attempt [simp]: "l_AttemptID (launch_outcome x err now l) = l_AttemptID l"
  by (simp add: launch_outcome_def)

lemma GetLaunch_id: "handoffs_GetLaunch k d = Inr l \<Longrightarrow> l_AttemptID l = k"
  by (auto simp: handoffs_GetLaunch_def found_def dest: tbl_get_SomeD split: option.splits)

lemma outcome_writes_keep_runs:
  "handoffs_UpdateLaunch l d = Inr d' \<Longrightarrow> db_runs d' = db_runs d"
  "handoffs_SaveAcknowledgment a d = Inr d' \<Longrightarrow> db_runs d' = db_runs d"
  "handoffs_SaveResolution s d = Inr d' \<Longrightarrow> db_runs d' = db_runs d"
  "transitions_Create tr d = Inr d' \<Longrightarrow> db_runs d' = db_runs d"
  "opsteps_Create os d = Inr d' \<Longrightarrow> db_runs d' = db_runs d"
  "triages_Create tg d = Inr d' \<Longrightarrow> db_runs d' = db_runs d"
  "followups_Create fu d = Inr d' \<Longrightarrow> db_runs d' = db_runs d"
  by (auto simp: handoffs_UpdateLaunch_def handoffs_SaveAcknowledgment_def handoffs_SaveResolution_def
      transitions_Create_def opsteps_Create_def triages_Create_def followups_Create_def
      inserted_Inr_iff updated_Inr_iff)

locale outcome_frame = handoff_frame R for R :: "Db \<Rightarrow> Db \<Rightarrow> bool" +
  assumes w_outcome: "handoffs_GetLaunch (l_AttemptID l) d = Inr old \<Longrightarrow> launch_step old l \<Longrightarrow>
      handoffs_UpdateLaunch l d = Inr d' \<Longrightarrow> R d d'"
    and w_ack: "handoffs_SaveAcknowledgment a d = Inr d' \<Longrightarrow> R d d'"
    and w_resolution: "handoffs_SaveResolution s d = Inr d' \<Longrightarrow> R d d'"
    and w_transition: "transitions_Create tr d = Inr d' \<Longrightarrow> R d d'"
    and w_triage: "TrimSpace (tg_Summary tg) \<noteq> [] \<Longrightarrow> triages_Create tg d = Inr d' \<Longrightarrow> R d d'"
    and w_followup: "TrimSpace (fu_Summary fu) \<noteq> [] \<Longrightarrow> followups_Create fu d = Inr d' \<Longrightarrow> R d d'"
begin

lemma outcome_writes:
  "frames (on_db (guarded R)) (db_write (handoffs_SaveAcknowledgment a))"
  "frames (on_db (guarded R)) (db_write (handoffs_SaveResolution s))"
  "frames (on_db (guarded R)) (db_write (transitions_Create tr))"
  by (rule g.frame_write, simp add: guarded_def runs_ok_def outcome_writes_keep_runs w_ack
      w_resolution w_transition; fail)+

lemma incident_writes:
  "TrimSpace (tg_Summary tg) \<noteq> [] \<Longrightarrow> frames (on_db (guarded R)) (db_write (triages_Create tg))"
  "TrimSpace (fu_Summary fu) \<noteq> [] \<Longrightarrow> frames (on_db (guarded R)) (db_write (followups_Create fu))"
  by (rule g.frame_write, simp add: guarded_def runs_ok_def outcome_writes_keep_runs w_triage w_followup; fail)+

lemma R_outcome:
  assumes "l_Status l = LaunchStatusRequested"
  shows "holds R (\<lambda>d. handoffs_GetLaunch (l_AttemptID l) d = Inr l)
    (db_write (handoffs_UpdateLaunch (launch_outcome x err now l))) (\<lambda>_ _. True)"
proof (rule holds_write[OF w_refl])
  fix d d'
  assume "runs_ok d" and "handoffs_GetLaunch (l_AttemptID l) d = Inr l"
    and upd: "handoffs_UpdateLaunch (launch_outcome x err now l) d = Inr d'"
  then show "runs_ok d' \<and> R d d' \<and> True"
    using w_outcome[OF _ outcome_step[OF assms] upd] outcome_writes_keep_runs(1)[OF upd]
    by (simp add: runs_ok_def)
qed

lemma op_receipt: "frames (on_db (guarded R)) (recordContinuityTransitionReceipt E caps q)"
  unfolding recordContinuityTransitionReceipt_def Let_def by (intro outcome_writes op_frames)

lemma op_launch_receipt: "frames (on_db (guarded R)) (launch_receipt E caps p l verb before)"
  unfolding launch_receipt_def by (intro op_receipt g.session_frames op_frames)

lemma op_ack: "frames (on_db (guarded R)) (buildLaunchAcknowledgment E t hid target x)"
  unfolding buildLaunchAcknowledgment_def Let_def by (intro op_frames)

lemma op_finalizeHandoffLaunch: "frames (on_db (guarded R)) (finalizeHandoffLaunch E p x err)"
  unfolding finalizeHandoffLaunch_def Let_def
  apply (rule g.frame_withTx, rule holds_frames[where Q = "\<lambda>_ _. True"], rule R_bnd[OF holds_read[OF w_refl]])
  apply (rule R_bnd[OF R_quiet[OF quiet.frame_snapshot]], rule R_bnd[OF holds_read[OF w_refl]])
  subgoal for caps before l
    apply (rule R_if, rule R_frames, intro op_frames)
    apply (rule holds_pre[where P' = "\<lambda>d. handoffs_GetLaunch (l_AttemptID l) d = Inr l"])
     apply (cases err)
      apply (simp_all only: option.case)
    subgoal
      unfolding launch_completed_tx_def Let_def
      by (rule R_bnd[OF R_quiet[OF quiet.frame_clock]], unfold seq_def, rule R_bnd[OF R_outcome], simp)
        (fold seq_def, rule R_frames, intro op_launch_receipt op_ack outcome_writes op_frames)
    subgoal
      unfolding launch_failed_def Let_def
      by (rule R_bnd[OF R_quiet[OF quiet.frame_clock]], unfold seq_def, rule R_bnd[OF R_outcome], simp)
        (fold seq_def, rule R_frames, intro op_launch_receipt outcome_writes op_frames)
    subgoal for d using GetLaunch_id[of "l_AttemptID (pl_Launch p)" d l] by simp
    done
  done

lemma op_LaunchHandoff: "frames (on_db (guarded R)) (LaunchHandoff E J L req)"
  unfolding LaunchHandoff_def Let_def
  by (intro op_withoutAdapter op_prepareHandoffLaunch op_finalizeHandoffLaunch op_frames)

lemma op_resolution_tx: "frames (on_db (guarded R)) (resolution_tx E t q)"
  unfolding resolution_tx_def Let_def
  by (intro op_receipt g.session_frames outcome_writes op_frames)

lemma op_RecordHandoffResolution: "frames (on_db (guarded R)) (RecordHandoffResolution E q)"
  unfolding RecordHandoffResolution_def Let_def by (intro op_resolution_tx op_frames)

end

end
