(* ===== verification/IncidentOps.thy ===== *)
theory IncidentOps
  imports Incidents Outcomes
begin

text \<open>
  The operations on incidents: recording a triage of a transition and a follow-up on a triage, the
  histories and rollups read back, and the slice of evidence around one transition
  (internal/orchestrator/continuity_incident_*.go). Reads happen outside a transaction; only the
  receipt and its proof event are written in one.
\<close>

section \<open>Evidence near an anchor\<close>

text \<open>\<open>time.Time.Sub\<close> saturates at the range of a 64-bit count of nanoseconds.\<close>

definition time_sub :: "go_time \<Rightarrow> go_time \<Rightarrow> int" where
  "time_sub s t = max (- (2 ^ 63)) (min (2 ^ 63 - 1) (s - t))"

definition absoluteDuration :: "int \<Rightarrow> int" where
  "absoluteDuration v = (if v < 0 then (if v = - (2 ^ 63) then v else - v) else v)"

definition distance :: "go_time \<Rightarrow> go_time \<Rightarrow> int" where
  "distance s t = absoluteDuration (time_sub s t)"

definition scan_limit :: "int \<Rightarrow> int \<Rightarrow> int \<Rightarrow> int \<Rightarrow> int" where
  "scan_limit factor low high limit = min high (max low (limit * factor))"

record ContinuityIncidentRunSummary =
  nr_RunID :: RunID
  nr_WorkerKind :: WorkerKind
  nr_Status :: RunStatus
  nr_ShellSessionID :: string
  nr_ExitCode :: "int option"
  nr_OccurredAt :: go_time
  nr_StartedAt :: go_time
  nr_EndedAt :: "go_time option"
  nr_Summary :: string

definition continuityIncidentRunSummary :: "ExecutionRun \<Rightarrow> ContinuityIncidentRunSummary" where
  "continuityIncidentRunSummary r =
     (let at = r_CreatedAt r;
          at = (if is_zero_time (r_StartedAt r) then at else r_StartedAt r);
          at = (if is_zero_time (r_UpdatedAt r) then at else r_UpdatedAt r);
          at = (case r_EndedAt r of None \<Rightarrow> at | Some e \<Rightarrow> if is_zero_time e then at else e);
          y = TrimSpace (r_StructuredSummary r);
          y = (if y = [] then TrimSpace (r_LastKnownSummary r) else y);
          y = (if y = [] then ToLower (RunStatus_str (r_Status r)) else y) in
      \<lparr>nr_RunID = r_RunID r, nr_WorkerKind = r_WorkerKind r, nr_Status = r_Status r,
       nr_ShellSessionID = r_ShellSessionID r, nr_ExitCode = r_ExitCode r, nr_OccurredAt = at,
       nr_StartedAt = r_StartedAt r, nr_EndedAt = r_EndedAt r, nr_Summary = y\<rparr>)"

text \<open>
  The rows nearest to the anchor, of equally near ones the later, then the greater id first; shown
  in the order of their times. Ids are unique, so the two orders are total.
\<close>

definition nearest :: "nat \<Rightarrow> go_time \<Rightarrow> ('r \<Rightarrow> go_time) \<Rightarrow> ('r \<Rightarrow> 'o::linorder) \<Rightarrow> 'r list \<Rightarrow> 'r list" where
  "nearest n anchor at ord rows = take n (order_desc (\<lambda>r. (- distance (at r) anchor, ord r)) rows)"

definition incidentRunsNearAnchor :: "TaskID \<Rightarrow> go_time \<Rightarrow> int \<Rightarrow> Db \<Rightarrow> ContinuityIncidentRunSummary list" where
  "incidentRunsNearAnchor t anchor limit d =
     (let ord = (\<lambda>r. (nr_OccurredAt r, nr_RunID r)) in
      if limit \<le> 0 then []
      else sort_key ord (nearest (nat limit) anchor nr_OccurredAt ord
        (map continuityIncidentRunSummary (runs_ListByTask t (scan_limit 12 24 300 limit) d))))"

record ContinuityIncidentRecoveryActionSummary =
  na_ActionID :: string
  na_Kind :: RecoveryActionKind
  na_RunID :: RunID
  na_CheckpointID :: CheckpointID
  na_HandoffID :: string
  na_LaunchAttemptID :: string
  na_Summary :: string
  na_CreatedAt :: go_time

definition recovery_action_summary :: "RecoveryRecord \<Rightarrow> ContinuityIncidentRecoveryActionSummary" where
  "recovery_action_summary r =
     \<lparr>na_ActionID = ra_ActionID r, na_Kind = ra_Kind r, na_RunID = ra_RunID r,
      na_CheckpointID = ra_CheckpointID r, na_HandoffID = ra_HandoffID r,
      na_LaunchAttemptID = ra_LaunchAttemptID r, na_Summary = ra_Summary r, na_CreatedAt = ra_CreatedAt r\<rparr>"

definition incidentRecoveryActionsNearAnchor ::
  "TaskID \<Rightarrow> go_time \<Rightarrow> int \<Rightarrow> Db \<Rightarrow> ContinuityIncidentRecoveryActionSummary list" where
  "incidentRecoveryActionsNearAnchor t anchor limit d =
     (if limit \<le> 0 then []
      else sort_key (\<lambda>r. (na_CreatedAt r, na_ActionID r)) (map recovery_action_summary
        (nearest (nat limit) anchor ra_CreatedAt (\<lambda>r. (ra_CreatedAt r, ra_ActionID r))
          (actions_ListByTask t (scan_limit 12 24 300 limit) d))))"

fun summarizeProofEvent :: "EventType \<Rightarrow> string" where
  "summarizeProofEvent EventUserMessageReceived = ''User message recorded''"
| "summarizeProofEvent EventIntentCompiled = ''Intent compiled''"
| "summarizeProofEvent EventBriefCreated = ''Execution brief updated''"
| "summarizeProofEvent EventBriefRegenerated = ''Execution brief regenerated''"
| "summarizeProofEvent EventWorkerRunStarted = ''Worker run started''"
| "summarizeProofEvent EventWorkerRunCompleted = ''Worker run completed''"
| "summarizeProofEvent EventWorkerRunFailed = ''Worker run failed''"
| "summarizeProofEvent EventRunInterrupted = ''Run interrupted''"
| "summarizeProofEvent EventCheckpointCreated = ''Checkpoint created''"
| "summarizeProofEvent EventContinueAssessed = ''Continuity assessed''"
| "summarizeProofEvent EventHandoffCreated = ''Handoff packet created''"
| "summarizeProofEvent EventHandoffAccepted = ''Handoff accepted''"
| "summarizeProofEvent EventHandoffLaunchRequested = ''Handoff launch prepared''"
| "summarizeProofEvent EventHandoffLaunchCompleted = ''Handoff launch invoked''"
| "summarizeProofEvent EventHandoffLaunchFailed = ''Handoff launch failed''"
| "summarizeProofEvent EventHandoffLaunchBlocked = ''Handoff launch blocked''"
| "summarizeProofEvent EventHandoffAcknowledgmentCaptured = ''Worker acknowledgment captured''"
| "summarizeProofEvent EventHandoffAcknowledgmentUnavailable = ''Worker acknowledgment unavailable''"
| "summarizeProofEvent EventHandoffFollowThroughRecorded = ''Downstream follow-through recorded''"
| "summarizeProofEvent EventHandoffResolutionRecorded = ''Handoff resolution recorded''"
| "summarizeProofEvent EventOperatorStepExecutionRecorded = ''Operator step receipt recorded''"
| "summarizeProofEvent EventRecoveryActionRecorded = ''Recovery action recorded''"
| "summarizeProofEvent EventInterruptedRunReviewed = ''Interrupted run reviewed''"
| "summarizeProofEvent EventInterruptedRunResumeExecuted = ''Interrupted lineage continuation selected''"
| "summarizeProofEvent EventRecoveryContinueExecuted = ''Continue recovery executed''"
| "summarizeProofEvent EventShellHostStarted = ''Shell live host started''"
| "summarizeProofEvent EventShellHostExited = ''Shell live host ended''"
| "summarizeProofEvent EventShellFallbackActivated = ''Shell transcript fallback activated''"
| "summarizeProofEvent EventTranscriptEvidenceReviewed = ''Transcript evidence review recorded''"
| "summarizeProofEvent EventTranscriptReviewGapAcknowledged = ''Transcript review-gap acknowledgment recorded''"
| "summarizeProofEvent EventBranchHandoffTransitionRecorded = ''Branch/handoff transition receipt recorded''"
| "summarizeProofEvent EventCanonicalResponseEmitted = ''Canonical response emitted''"
| "summarizeProofEvent k = map (\<lambda>c. if c = CHR ''_'' then CHR 0x20 else c) (ToLower (EventType_str k))"

record ContinuityIncidentProofSummary =
  np_EventID :: EventID
  np_Type :: EventType
  np_ActorType :: ActorType
  np_ActorID :: string
  np_Timestamp :: go_time
  np_Summary :: string
  np_SequenceNo :: int

definition proof_summary :: "Event \<Rightarrow> ContinuityIncidentProofSummary" where
  "proof_summary e =
     \<lparr>np_EventID = e_EventID e, np_Type = e_Type e, np_ActorType = e_ActorType e, np_ActorID = e_ActorID e,
      np_Timestamp = e_Timestamp e, np_Summary = summarizeProofEvent (e_Type e), np_SequenceNo = e_SequenceNo e\<rparr>"

definition incidentProofEventsNearAnchor ::
  "TaskID \<Rightarrow> go_time \<Rightarrow> int \<Rightarrow> Db \<Rightarrow> ContinuityIncidentProofSummary list" where
  "incidentProofEventsNearAnchor t anchor limit d =
     (if limit \<le> 0 then []
      else sort_key (\<lambda>e. (np_SequenceNo e, np_EventID e)) (map proof_summary
        (nearest (nat limit) anchor e_Timestamp (\<lambda>e. (e_SequenceNo e, e_EventID e))
          (proofs_ListByTask t (scan_limit 20 40 500 limit) d))))"

definition continuityIncidentRiskSnapshotForAnchor ::
  "TaskID \<Rightarrow> ContinuityTransitionReceiptSummary \<Rightarrow> Db \<Rightarrow> IncidentRisk" where
  "continuityIncidentRiskSnapshotForAnchor t anchor d =
     continuityIncidentRiskSummaryFromAnchor anchor
       (count_of (\<lambda>r. failed_or_interrupted (nr_Status r)) (incidentRunsNearAnchor t (tr_CreatedAt anchor) 3 d))
       (int (length (incidentRecoveryActionsNearAnchor t (tr_CreatedAt anchor) 3 d)))"

section \<open>The slice around a transition\<close>

definition session_newest :: "TranscriptView list \<Rightarrow> string \<Rightarrow> int" where
  "session_newest sessions s =
     (case find (\<lambda>v. TrimSpace (view_session v) = TrimSpace s) (rev sessions) of
        None \<Rightarrow> 0 | Some v \<Rightarrow> vw_NewestSequence v)"

type_synonym review_evidence =
  "ShellTranscriptReviewSummary option \<times> GapAckSummary option \<times> GapAckSummary list"

definition first_row :: "'a list \<Rightarrow> 'a option" where
  "first_row rows = (case rows of [] \<Rightarrow> None | r # rs \<Rightarrow> Some r)"

definition anchored_ack :: "EventID \<Rightarrow> GapAckSummary list \<Rightarrow> GapAckSummary option" where
  "anchored_ack ackID recent =
     (case (if ackID = [] then None else find (\<lambda>a. ga_AcknowledgmentID a = ackID) recent) of
        Some a \<Rightarrow> Some a
      | None \<Rightarrow> first_row recent)"

definition incidentTranscriptReviewEvidence ::
  "Deps \<Rightarrow> TaskID \<Rightarrow> ContinuityTransitionReceiptSummary \<Rightarrow> int \<Rightarrow> review_evidence op" where
  "incidentTranscriptReviewEvidence E t anchor ackLimit =
     (let s = TrimSpace (tr_ShellSessionID anchor) in
      if s = [] then
        bnd (classifiedShellSessions E t) (\<lambda>sessions.
        bnd (shell_read (\<lambda>d. reviewGapAcknowledgmentProjection d t sessions ackLimit)) (\<lambda>recent.
        ret (None, first_row recent, recent)))
      else
        bnd (attempt (ReadShellTranscriptReviewHistory E t s [] 1)) (\<lambda>history.
        let latestReview = (case history of Inl e \<Rightarrow> None | Inr h \<Rightarrow> first_row (rh_Reviews h)) in
        bnd (classifiedShellSessions E t) (\<lambda>sessions.
        bnd (shell_read (shell_ListGapAcks t s ackLimit)) (\<lambda>records.
        let recent = map (\<lambda>a. transcriptReviewGapAcknowledgmentSummary a (session_newest sessions (ga_SessionID a)))
          records in
        ret (latestReview, anchored_ack (aw_LatestReviewAckID (tr_Review anchor)) recent, recent)))))"

definition anchor_receipt :: "TaskID \<Rightarrow> EventID \<Rightarrow> Db \<Rightarrow> go_error + TransitionReceipt" where
  "anchor_receipt t i d =
     (case (if i = [] then transitions_LatestByTask t d else transitions_GetByTaskReceipt t i d) of
        Inr r \<Rightarrow> Inr r
      | Inl e \<Rightarrow> Inl (if \<not> is_no_rows e then e
          else if i = [] then ErrMsg (''no continuity transition receipt exists for task '' @ t)
          else ErrMsg (''anchor transition receipt '' @ i @ '' was not found for task '' @ t)))"

record transition_window =
  wn_Transitions :: "ContinuityTransitionReceiptSummary list"
  wn_HasOlder :: bool
  wn_HasNewer :: bool

definition slice_window :: "TaskID \<Rightarrow> TransitionReceipt \<Rightarrow> int \<Rightarrow> Db \<Rightarrow> go_error + transition_window" where
  "slice_window t anchor n d =
     (let older = transitions_ListByTaskFiltered t
            \<lparr>rl_Limit = n + 1, rl_BeforeReceiptID = tr_ReceiptID anchor, rl_BeforeCreatedAt = tr_CreatedAt anchor,
             rl_TransitionKind = TransitionKindOther [], rl_HandoffID = []\<rparr> d in
      rbnd (transitions_ListByTaskAfter t (tr_ReceiptID anchor) (tr_CreatedAt anchor) (n + 1) d) (\<lambda>newer.
      Inr \<lparr>wn_Transitions = map continuityTransitionReceiptSummary
             (rev (take (nat n) older) @ anchor # take (nat n) newer),
           wn_HasOlder = int (length older) > n, wn_HasNewer = int (length newer) > n\<rparr>))"

record ReadContinuityIncidentSliceRequest =
  iq_TaskID :: string
  iq_AnchorTransitionReceiptID :: string
  iq_TransitionNeighborLimit :: int
  iq_RunLimit :: int
  iq_RecoveryLimit :: int
  iq_ProofLimit :: int
  iq_AckLimit :: int

record ReadContinuityIncidentSliceResult =
  sl_TaskID :: TaskID
  sl_AnchorMode :: AnchorMode
  sl_RequestedAnchorTransitionReceiptID :: EventID
  sl_Anchor :: ContinuityTransitionReceiptSummary
  sl_TransitionNeighborLimit :: int
  sl_RunLimit :: int
  sl_RecoveryLimit :: int
  sl_ProofLimit :: int
  sl_AckLimit :: int
  sl_Window :: transition_window
  sl_WindowStartAt :: go_time
  sl_WindowEndAt :: go_time
  sl_Runs :: "ContinuityIncidentRunSummary list"
  sl_RecoveryActions :: "ContinuityIncidentRecoveryActionSummary list"
  sl_ProofEvents :: "ContinuityIncidentProofSummary list"
  sl_ReviewEvidence :: review_evidence
  sl_RiskSummary :: IncidentRisk

definition slice_result ::
  "ReadContinuityIncidentSliceRequest \<Rightarrow> TaskID \<Rightarrow> TransitionReceipt \<Rightarrow> transition_window \<Rightarrow> review_evidence \<Rightarrow>
     Db \<Rightarrow> ReadContinuityIncidentSliceResult" where
  "slice_result q t r window evidence d =
     (let anchor = continuityTransitionReceiptSummary r; at = tr_CreatedAt r;
          runLimit = clamp_limit 3 20 (iq_RunLimit q); recoveryLimit = clamp_limit 3 20 (iq_RecoveryLimit q);
          proofLimit = clamp_limit 8 50 (iq_ProofLimit q);
          requested = TrimSpace (iq_AnchorTransitionReceiptID q);
          runs = incidentRunsNearAnchor t at runLimit d;
          recovered = incidentRecoveryActionsNearAnchor t at recoveryLimit d in
      \<lparr>sl_TaskID = t,
       sl_AnchorMode = (if requested = [] then AnchorModeLatestTransition else AnchorModeTransitionID),
       sl_RequestedAnchorTransitionReceiptID = requested, sl_Anchor = anchor,
       sl_TransitionNeighborLimit = clamp_limit 2 20 (iq_TransitionNeighborLimit q), sl_RunLimit = runLimit,
       sl_RecoveryLimit = recoveryLimit, sl_ProofLimit = proofLimit,
       sl_AckLimit = clamp_limit 3 20 (iq_AckLimit q), sl_Window = window,
       sl_WindowStartAt = tr_CreatedAt (hd (wn_Transitions window)),
       sl_WindowEndAt = tr_CreatedAt (last (wn_Transitions window)), sl_Runs = runs,
       sl_RecoveryActions = recovered, sl_ProofEvents = incidentProofEventsNearAnchor t at proofLimit d,
       sl_ReviewEvidence = evidence,
       sl_RiskSummary = continuityIncidentRiskSummaryFromAnchor anchor
         (count_of (\<lambda>x. failed_or_interrupted (nr_Status x)) runs) (int (length recovered))\<rparr>)"

definition ReadContinuityIncidentSlice ::
  "Deps \<Rightarrow> ReadContinuityIncidentSliceRequest \<Rightarrow> ReadContinuityIncidentSliceResult op" where
  "ReadContinuityIncidentSlice E q =
     (let t = TrimSpace (iq_TaskID q) in
      if t = [] then throw (ErrMsg ''task id is required'')
      else bnd (db_read (capsules_Get t)) (\<lambda>caps.
        bnd (db_read (anchor_receipt t (TrimSpace (iq_AnchorTransitionReceiptID q)))) (\<lambda>r.
        bnd (db_read (slice_window t r (clamp_limit 2 20 (iq_TransitionNeighborLimit q)))) (\<lambda>window.
        bnd (incidentTranscriptReviewEvidence E t (continuityTransitionReceiptSummary r)
          (clamp_limit 3 20 (iq_AckLimit q))) (\<lambda>evidence.
        db_read (\<lambda>d. Inr (slice_result q t r window evidence d)))))))"

section \<open>Histories\<close>

definition continuityIncidentTriageReceiptSummary ::
  "TriageReceipt \<Rightarrow> ContinuityIncidentTriageReceiptSummary" where
  "continuityIncidentTriageReceiptSummary r = ContinuityIncidentTriageReceiptSummary.truncate r"

definition continuityIncidentFollowUpReceiptSummary ::
  "FollowUpReceipt \<Rightarrow> ContinuityIncidentFollowUpReceiptSummary" where
  "continuityIncidentFollowUpReceiptSummary r = ContinuityIncidentFollowUpReceiptSummary.truncate r"

definition latest_transition :: "TaskID \<Rightarrow> Db \<Rightarrow> go_error + ContinuityTransitionReceiptSummary option" where
  "latest_transition t d =
     rbnd (opt_rows (transitions_LatestByTask t d)) (\<lambda>r. Inr (map_option continuityTransitionReceiptSummary r))"

record ReadContinuityIncidentTriageHistoryRequest =
  hr_TaskID :: string
  hr_Limit :: int
  hr_BeforeReceiptID :: string
  hr_AnchorTransitionReceiptID :: string
  hr_Posture :: string

record ReadContinuityIncidentTriageHistoryResult =
  ht_TaskID :: TaskID
  ht_RequestedLimit :: int
  ht_RequestedBeforeReceiptID :: EventID
  ht_RequestedAnchorTransitionReceiptID :: EventID
  ht_RequestedPosture :: TriagePosture
  ht_HasMoreOlder :: bool
  ht_NextBeforeReceiptID :: EventID
  ht_Latest :: "ContinuityIncidentTriageReceiptSummary option"
  ht_Receipts :: "ContinuityIncidentTriageReceiptSummary list"
  ht_LatestTransitionReceiptID :: EventID
  ht_Rollup :: ContinuityIncidentTriageHistoryRollupSummary

definition triage_history ::
  "ReadContinuityIncidentTriageHistoryRequest \<Rightarrow> Db \<Rightarrow> go_error + ReadContinuityIncidentTriageHistoryResult" where
  "triage_history q d =
     (let t = TrimSpace (hr_TaskID q); limit = clamp_limit 10 100 (hr_Limit q);
          before = TrimSpace (hr_BeforeReceiptID q); anchor = TrimSpace (hr_AnchorTransitionReceiptID q) in
      if t = [] then Inl (ErrMsg ''task id is required'')
      else
      rbnd (capsules_Get t d) (\<lambda>caps.
      rbnd (cursor_time t before (\<lambda>i. map_sum id tg_CreatedAt (triages_GetByTaskReceipt t i d))) (\<lambda>beforeAt.
      rbnd (parseContinuityIncidentTriagePostureFilter (hr_Posture q)) (\<lambda>posture.
      let rows = triages_ListByTaskFiltered t
            \<lparr>tl_Limit = limit + 1, tl_BeforeReceiptID = before, tl_BeforeCreatedAt = beforeAt,
             tl_AnchorTransitionReceiptID = anchor, tl_Posture = posture\<rparr> d;
          further = int (length rows) > limit;
          receipts = map continuityIncidentTriageReceiptSummary (take (nat limit) rows) in
      rbnd (latest_transition t d) (\<lambda>latest.
      Inr \<lparr>ht_TaskID = t, ht_RequestedLimit = limit, ht_RequestedBeforeReceiptID = before,
           ht_RequestedAnchorTransitionReceiptID = anchor, ht_RequestedPosture = posture,
           ht_HasMoreOlder = further,
           ht_NextBeforeReceiptID = (if further \<and> receipts \<noteq> [] then tg_ReceiptID (last receipts) else []),
           ht_Latest = first_row receipts, ht_Receipts = receipts,
           ht_LatestTransitionReceiptID = (case latest of None \<Rightarrow> [] | Some x \<Rightarrow> tr_ReceiptID x),
           ht_Rollup = deriveContinuityIncidentTriageHistoryRollup receipts latest\<rparr>)))))"

definition ReadContinuityIncidentTriageHistory ::
  "ReadContinuityIncidentTriageHistoryRequest \<Rightarrow> ReadContinuityIncidentTriageHistoryResult op" where
  "ReadContinuityIncidentTriageHistory q = db_read (triage_history q)"

record ReadContinuityIncidentFollowUpHistoryRequest =
  hf_TaskID :: string
  hf_Limit :: int
  hf_BeforeReceiptID :: string
  hf_AnchorTransitionReceiptID :: string
  hf_TriageReceiptID :: string
  hf_ActionKind :: string

record ReadContinuityIncidentFollowUpHistoryResult =
  hx_TaskID :: TaskID
  hx_RequestedLimit :: int
  hx_RequestedBeforeReceiptID :: EventID
  hx_RequestedAnchorTransitionReceiptID :: EventID
  hx_RequestedTriageReceiptID :: EventID
  hx_RequestedActionKind :: FollowUpActionKind
  hx_HasMoreOlder :: bool
  hx_NextBeforeReceiptID :: EventID
  hx_LatestTransitionReceiptID :: EventID
  hx_Latest :: "ContinuityIncidentFollowUpReceiptSummary option"
  hx_Receipts :: "ContinuityIncidentFollowUpReceiptSummary list"
  hx_Rollup :: ContinuityIncidentFollowUpHistoryRollupSummary

definition followup_history ::
  "ReadContinuityIncidentFollowUpHistoryRequest \<Rightarrow> Db \<Rightarrow> go_error + ReadContinuityIncidentFollowUpHistoryResult" where
  "followup_history q d =
     (let t = TrimSpace (hf_TaskID q); limit = clamp_limit 10 100 (hf_Limit q);
          before = TrimSpace (hf_BeforeReceiptID q); anchor = TrimSpace (hf_AnchorTransitionReceiptID q);
          triage = TrimSpace (hf_TriageReceiptID q) in
      if t = [] then Inl (ErrMsg ''task id is required'')
      else
      rbnd (capsules_Get t d) (\<lambda>caps.
      rbnd (cursor_time t before (\<lambda>i. map_sum id fu_CreatedAt (followups_GetByTaskReceipt t i d))) (\<lambda>beforeAt.
      rbnd (parseContinuityIncidentFollowUpActionFilter (hf_ActionKind q)) (\<lambda>kind.
      let rows = followups_ListByTaskFiltered t
            \<lparr>fl_Limit = limit + 1, fl_BeforeReceiptID = before, fl_BeforeCreatedAt = beforeAt,
             fl_AnchorTransitionReceiptID = anchor, fl_TriageReceiptID = triage, fl_ActionKind = kind\<rparr> d;
          further = int (length rows) > limit;
          receipts = map continuityIncidentFollowUpReceiptSummary (take (nat limit) rows) in
      rbnd (latest_transition t d) (\<lambda>latest.
      let triages = map continuityIncidentTriageReceiptSummary (triages_ListByTask t (max 10 (limit * 3)) d) in
      Inr \<lparr>hx_TaskID = t, hx_RequestedLimit = limit, hx_RequestedBeforeReceiptID = before,
           hx_RequestedAnchorTransitionReceiptID = anchor, hx_RequestedTriageReceiptID = triage,
           hx_RequestedActionKind = kind, hx_HasMoreOlder = further,
           hx_NextBeforeReceiptID = (if further \<and> receipts \<noteq> [] then fu_ReceiptID (last receipts) else []),
           hx_LatestTransitionReceiptID = (case latest of None \<Rightarrow> [] | Some x \<Rightarrow> tr_ReceiptID x),
           hx_Latest = first_row receipts, hx_Receipts = receipts,
           hx_Rollup = deriveContinuityIncidentFollowUpHistoryRollup receipts latest triages\<rparr>)))))"

definition ReadContinuityIncidentFollowUpHistory ::
  "ReadContinuityIncidentFollowUpHistoryRequest \<Rightarrow> ReadContinuityIncidentFollowUpHistoryResult op" where
  "ReadContinuityIncidentFollowUpHistory q = db_read (followup_history q)"

definition recent_followups :: "TaskID \<Rightarrow> int \<Rightarrow> EventID \<Rightarrow> ReadContinuityIncidentFollowUpHistoryRequest" where
  "recent_followups t limit before = \<lparr>hf_TaskID = t, hf_Limit = limit, hf_BeforeReceiptID = before,
     hf_AnchorTransitionReceiptID = [], hf_TriageReceiptID = [], hf_ActionKind = []\<rparr>"

type_synonym triage_history_projection =
  "ContinuityIncidentTriageReceiptSummary option \<times> ContinuityIncidentTriageReceiptSummary list
     \<times> ContinuityIncidentTriageHistoryRollupSummary option"

definition continuityIncidentTriageHistoryProjection ::
  "TaskID \<Rightarrow> int \<Rightarrow> Db \<Rightarrow> go_error + triage_history_projection" where
  "continuityIncidentTriageHistoryProjection t limit d =
     rbnd (triage_history \<lparr>hr_TaskID = t, hr_Limit = limit, hr_BeforeReceiptID = [],
       hr_AnchorTransitionReceiptID = [], hr_Posture = []\<rparr> d) (\<lambda>h.
     Inr (if ht_Receipts h = [] then (None, [], None) else (ht_Latest h, ht_Receipts h, Some (ht_Rollup h))))"

type_synonym followup_history_projection =
  "ContinuityIncidentFollowUpReceiptSummary option \<times> ContinuityIncidentFollowUpReceiptSummary list
     \<times> ContinuityIncidentFollowUpHistoryRollupSummary option"

definition continuityIncidentFollowUpHistoryProjection ::
  "TaskID \<Rightarrow> int \<Rightarrow> Db \<Rightarrow> go_error + followup_history_projection" where
  "continuityIncidentFollowUpHistoryProjection t limit d =
     rbnd (followup_history (recent_followups t limit []) d) (\<lambda>h.
     Inr (if hx_Receipts h = [] then (None, [], Some (hx_Rollup h))
       else (hx_Latest h, hx_Receipts h, Some (hx_Rollup h))))"

definition continuityIncidentTriageProjection ::
  "TaskID \<Rightarrow> int \<Rightarrow> Db \<Rightarrow> ContinuityIncidentTriageReceiptSummary list" where
  "continuityIncidentTriageProjection t limit d =
     map continuityIncidentTriageReceiptSummary (triages_ListByTask t (clamp_limit 5 50 limit) d)"

section \<open>Closure and task risk\<close>

record ReadContinuityIncidentClosureResult =
  cl_History :: ReadContinuityIncidentFollowUpHistoryResult
  cl_FollowUp :: "ContinuityIncidentFollowUpSummary option"
  cl_Closure :: "ContinuityIncidentClosureSummary option"

definition incident_closure :: "string \<Rightarrow> int \<Rightarrow> string \<Rightarrow> Db \<Rightarrow> go_error + ReadContinuityIncidentClosureResult" where
  "incident_closure t0 limit before d =
     rbnd (followup_history (recent_followups t0 (clamp_limit 10 100 limit) before) d) (\<lambda>h.
     let transition = first_row (continuityTransitionReceiptProjection (hx_TaskID h) 1 d);
         triage = first_row (continuityIncidentTriageProjection (hx_TaskID h) 1 d);
         y = deriveFollowUpAwareAdvisory (deriveContinuityIncidentFollowUpSummary transition triage (hx_Latest h))
           (Some (hx_Rollup h)) (hx_Receipts h) in
     Inr \<lparr>cl_History = h, cl_FollowUp = y,
          cl_Closure = (case y of None \<Rightarrow> None | Some s \<Rightarrow> iv_ClosureIntelligence s)\<rparr>)"

definition ReadContinuityIncidentClosure ::
  "string \<Rightarrow> int \<Rightarrow> string \<Rightarrow> ReadContinuityIncidentClosureResult op" where
  "ReadContinuityIncidentClosure t0 limit before = db_read (incident_closure t0 limit before)"

record ReadContinuityIncidentTaskRiskResult =
  xk_History :: ReadContinuityIncidentFollowUpHistoryResult
  xk_Summary :: "ContinuityIncidentTaskRiskSummary option"
  xk_Closure :: "ContinuityIncidentClosureSummary option"

definition task_risk :: "string \<Rightarrow> int \<Rightarrow> string \<Rightarrow> Db \<Rightarrow> go_error + ReadContinuityIncidentTaskRiskResult" where
  "task_risk t0 limit before d =
     (let t = TrimSpace t0 in
      if t = [] then Inl (ErrMsg ''task id is required'')
      else rbnd (incident_closure t (clamp_limit 20 100 limit) before d) (\<lambda>c.
        Inr \<lparr>xk_History = cl_History c,
             xk_Summary = deriveContinuityIncidentTaskRiskSummary (cl_Closure c) (Some (hx_Rollup (cl_History c))),
             xk_Closure = cl_Closure c\<rparr>))"

definition ReadContinuityIncidentTaskRisk ::
  "string \<Rightarrow> int \<Rightarrow> string \<Rightarrow> ReadContinuityIncidentTaskRiskResult op" where
  "ReadContinuityIncidentTaskRisk t0 limit before = db_read (task_risk t0 limit before)"

definition continuityIncidentTaskRiskProjection ::
  "TaskID \<Rightarrow> int \<Rightarrow> Db \<Rightarrow> go_error + ContinuityIncidentTaskRiskSummary option" where
  "continuityIncidentTaskRiskProjection t limit d = map_sum id xk_Summary (task_risk t limit [] d)"

section \<open>Recording a triage\<close>

definition anchor_mode :: "string \<Rightarrow> EventID \<Rightarrow> go_error + AnchorMode" where
  "anchor_mode rawMode receipt =
     (let mode = ToLower (TrimSpace rawMode) in
      if TrimSpace rawMode = []
      then Inr (if receipt \<noteq> [] then AnchorModeTransitionID else AnchorModeLatestTransition)
      else if mode \<in> {''latest'', ''latest_transition''} then Inr AnchorModeLatestTransition
      else if mode \<in> {''receipt'', ''transition_receipt_id'', ''transition_receipt''}
      then Inr AnchorModeTransitionID
      else Inl (ErrMsg (''unsupported anchor mode '' @ quoted rawMode @ '' (expected latest|receipt)'')))"

definition resolveContinuityIncidentTriageAnchor ::
  "TaskID \<Rightarrow> string \<Rightarrow> string \<Rightarrow> Db \<Rightarrow> go_error + ContinuityTransitionReceiptSummary \<times> AnchorMode" where
  "resolveContinuityIncidentTriageAnchor t rawMode rawReceipt d =
     (let i = TrimSpace rawReceipt in
      rbnd (anchor_mode rawMode i) (\<lambda>mode.
      if mode = AnchorModeLatestTransition \<and> i \<noteq> []
      then Inl (ErrMsg ''anchor receipt id cannot be combined with anchor mode latest'')
      else if mode = AnchorModeTransitionID \<and> i = []
      then Inl (ErrMsg ''anchor receipt id is required when anchor mode is receipt'')
      else rbnd (anchor_receipt t i d) (\<lambda>r. Inr (continuityTransitionReceiptSummary r, mode))))"

definition continuityIncidentTriageEquivalent ::
  "TriageReceipt \<Rightarrow> AnchorMode \<Rightarrow> TriagePosture \<Rightarrow> FollowUpPosture \<Rightarrow> string \<Rightarrow> bool" where
  "continuityIncidentTriageEquivalent r mode posture follow note \<longleftrightarrow>
     tg_AnchorMode r = mode \<and> tg_Posture r = posture \<and> tg_FollowUpPosture r = follow
     \<and> TrimSpace (tg_Summary r) = note"

definition new_triage ::
  "EventID \<Rightarrow> TaskID \<Rightarrow> ContinuityTransitionReceiptSummary \<Rightarrow> AnchorMode \<Rightarrow> TriagePosture \<Rightarrow> string \<Rightarrow>
     IncidentRisk \<Rightarrow> go_time \<Rightarrow> TriageReceipt" where
  "new_triage i t anchor mode posture note risk now =
     \<lparr>tg_ReceiptID = i, tg_TaskID = t, tg_AnchorMode = mode,
      tg_AnchorTransitionReceiptID = tr_ReceiptID anchor, tg_AnchorTransitionKind = tr_TransitionKind anchor,
      tg_AnchorHandoffID = tr_HandoffID anchor, tg_AnchorShellSessionID = tr_ShellSessionID anchor,
      tg_Posture = posture, tg_FollowUpPosture = followUpPostureFromTriagePosture posture,
      tg_Summary = (if note = [] then ''continuity incident '' @ ToLower (TriagePosture_str posture)
        @ '' at transition '' @ tr_ReceiptID anchor else note),
      tg_Review = tr_Review anchor, tg_Risk = risk, tg_CreatedAt = now, tg_Version = 1\<rparr>"

definition risk_payload :: "IncidentRisk \<Rightarrow> (string \<times> pval) list" where
  "risk_payload r =
     [(''risk_review_gap_present'', PBool (ir_ReviewGapPresent r)),
      (''risk_acknowledgment_present'', PBool (ir_AcknowledgmentPresent r)),
      (''risk_stale_or_unreviewed'', PBool (ir_StaleOrUnreviewedReviewPosture r)),
      (''risk_source_scoped'', PBool (ir_SourceScopedReviewPosture r)),
      (''risk_into_claude'', PBool (ir_IntoClaudeOwnershipTransition r)),
      (''risk_back_to_local'', PBool (ir_BackToLocalOwnershipTransition r)),
      (''risk_unresolved_continuity'', PBool (ir_UnresolvedContinuityAmbiguity r)),
      (''risk_nearby_failed_runs'', PInt (ir_NearbyFailedOrInterruptedRuns r)),
      (''risk_nearby_recovery_actions'', PInt (ir_NearbyRecoveryActions r)),
      (''risk_recent_failure_or_recovery'', PBool (ir_RecentFailureOrRecoveryActivity r)),
      (''risk_operationally_notable'', PBool (ir_OperationallyNotable r)),
      (''risk_summary'', PStr (ir_Summary r))]"

definition triage_payload :: "TriageReceipt \<Rightarrow> (string \<times> pval) list" where
  "triage_payload r =
     [(''incident_triage_receipt_id'', PStr (tg_ReceiptID r)),
      (''anchor_mode'', PStr (AnchorMode_str (tg_AnchorMode r))),
      (''anchor_transition_receipt_id'', PStr (tg_AnchorTransitionReceiptID r)),
      (''anchor_transition_kind'', PStr (TransitionKind_str (tg_AnchorTransitionKind r))),
      (''anchor_handoff_id'', PStr (tg_AnchorHandoffID r)),
      (''anchor_shell_session_id'', PStr (tg_AnchorShellSessionID r)),
      (''posture'', PStr (TriagePosture_str (tg_Posture r))),
      (''follow_up_posture'', PStr (FollowUpPosture_str (tg_FollowUpPosture r))),
      (''summary'', PStr (tg_Summary r))]
     @ review_payload_fields (tg_Review r) @ risk_payload (tg_Risk r)"

type_synonym triage_projection =
  "ContinuityTransitionReceiptSummary option \<times> ContinuityIncidentTriageReceiptSummary list
     \<times> ContinuityIncidentFollowUpSummary option \<times> ContinuityIncidentFollowUpReceiptSummary option"

definition continuityIncidentTriageReadProjection :: "TaskID \<Rightarrow> Db \<Rightarrow> go_error + triage_projection" where
  "continuityIncidentTriageReadProjection t d =
     (let transition = first_row (continuityTransitionReceiptProjection t 5 d);
          triages = continuityIncidentTriageProjection t 5 d; latest = first_row triages in
      rbnd (case latest of None \<Rightarrow> Inr None
          | Some g \<Rightarrow> opt_rows (followups_LatestByTaskAnchor t (tg_AnchorTransitionReceiptID g) d)) (\<lambda>found.
      let follow = map_option continuityIncidentFollowUpReceiptSummary found in
      Inr (transition, triages, deriveFollowUpAwareAdvisory
        (deriveContinuityIncidentFollowUpSummary transition latest follow) None [], follow)))"

record RecordContinuityIncidentTriageRequest =
  tq_TaskID :: string
  tq_AnchorMode :: string
  tq_AnchorTransitionReceiptID :: string
  tq_Posture :: string
  tq_Summary :: string

record RecordContinuityIncidentTriageResult =
  ty_TaskID :: TaskID
  ty_AnchorMode :: AnchorMode
  ty_AnchorTransitionReceiptID :: EventID
  ty_Posture :: TriagePosture
  ty_Reused :: bool
  ty_Receipt :: ContinuityIncidentTriageReceiptSummary
  ty_LatestContinuityTransition :: "ContinuityTransitionReceiptSummary option"
  ty_RecentContinuityIncidentTriages :: "ContinuityIncidentTriageReceiptSummary list"
  ty_FollowUp :: "ContinuityIncidentFollowUpSummary option"

definition triage_result ::
  "TaskID \<Rightarrow> AnchorMode \<Rightarrow> EventID \<Rightarrow> bool \<Rightarrow> TriageReceipt \<Rightarrow> RecordContinuityIncidentTriageResult op" where
  "triage_result t mode anchor reused r =
     bnd (db_read (continuityIncidentTriageReadProjection t)) (\<lambda>(transition, triages, followUp, follow).
     ret \<lparr>ty_TaskID = t, ty_AnchorMode = mode, ty_AnchorTransitionReceiptID = anchor,
          ty_Posture = tg_Posture r, ty_Reused = reused, ty_Receipt = continuityIncidentTriageReceiptSummary r,
          ty_LatestContinuityTransition = transition, ty_RecentContinuityIncidentTriages = triages,
          ty_FollowUp = followUp\<rparr>)"

definition triage_tx :: "Deps \<Rightarrow> TaskID \<Rightarrow> TriageReceipt \<Rightarrow> unit op" where
  "triage_tx E t r = withTx (
     seq (db_write (triages_Create r))
     (bnd (db_read (capsules_Get t)) (\<lambda>caps.
     appendProof E caps EventContinuityIncidentTriaged ActorUser ''user'' (triage_payload r) None)))"

definition RecordContinuityIncidentTriage ::
  "Deps \<Rightarrow> RecordContinuityIncidentTriageRequest \<Rightarrow> RecordContinuityIncidentTriageResult op" where
  "RecordContinuityIncidentTriage E q =
     (let t = TrimSpace (tq_TaskID q); note = normalizeContinuityIncidentTriageSummary (tq_Summary q) in
      if t = [] then throw (ErrMsg ''task id is required'')
      else
      bnd (db_read (capsules_Get t)) (\<lambda>caps.
      bnd (db_read (resolveContinuityIncidentTriageAnchor t (tq_AnchorMode q)
        (tq_AnchorTransitionReceiptID q))) (\<lambda>(anchor, mode).
      bnd (lift_res (parseContinuityIncidentTriagePosture (tq_Posture q))) (\<lambda>posture.
      bnd (db_read (\<lambda>d. Inr (continuityIncidentRiskSnapshotForAnchor t anchor d))) (\<lambda>risk.
      bnd (db_read (\<lambda>d. opt_rows (triages_LatestByTaskAnchor t (tr_ReceiptID anchor) d))) (\<lambda>known.
      case (case known of None \<Rightarrow> None | Some r \<Rightarrow>
          if continuityIncidentTriageEquivalent r mode posture (followUpPostureFromTriagePosture posture) note
          then Some r else None) of
        Some r \<Rightarrow> triage_result t mode (tr_ReceiptID anchor) True r
      | None \<Rightarrow>
          bnd (idGenerator E ''citr'') (\<lambda>i.
          bnd (clock E) (\<lambda>now.
          let r = new_triage i t anchor mode posture note risk now in
          seq (triage_tx E t r) (triage_result t mode (tr_ReceiptID anchor) False r)))))))))"

section \<open>Recording a follow-up\<close>

definition continuityIncidentFollowUpEquivalent ::
  "FollowUpReceipt \<Rightarrow> AnchorMode \<Rightarrow> EventID \<Rightarrow> FollowUpActionKind \<Rightarrow> string \<Rightarrow> bool" where
  "continuityIncidentFollowUpEquivalent r mode triage kind note \<longleftrightarrow>
     fu_AnchorMode r = mode \<and> fu_TriageReceiptID r = triage \<and> fu_ActionKind r = kind
     \<and> TrimSpace (fu_Summary r) = note"

definition normalizeContinuityIncidentFollowUpSummary :: "string \<Rightarrow> string" where
  "normalizeContinuityIncidentFollowUpSummary raw = take 400 (TrimSpace raw)"

text \<open>The triage a follow-up is on: the one named, if it has the same anchor, or the latest there.\<close>

definition followed_triage :: "TaskID \<Rightarrow> EventID \<Rightarrow> string \<Rightarrow> Db \<Rightarrow> go_error + TriageReceipt" where
  "followed_triage t anchor rawTriage d =
     (let i = TrimSpace rawTriage in
      if i \<noteq> [] then
        (case triages_GetByTaskReceipt t i d of
           Inl e \<Rightarrow> Inl (if is_no_rows e
             then ErrMsg (''triage receipt '' @ i @ '' was not found for task '' @ t) else e)
         | Inr g \<Rightarrow> if tg_AnchorTransitionReceiptID g \<noteq> anchor
             then Inl (ErrMsg (''triage receipt '' @ tg_ReceiptID g @ '' is anchored to ''
               @ tg_AnchorTransitionReceiptID g @ '', expected '' @ anchor))
             else Inr g)
      else
        (case triages_LatestByTaskAnchor t anchor d of
           Inl e \<Rightarrow> Inl (if is_no_rows e
             then ErrMsg (''no continuity incident triage receipt exists for anchor '' @ anchor @ '' on task '' @ t)
             else e)
         | Inr g \<Rightarrow> Inr g))"

definition new_follow_up ::
  "EventID \<Rightarrow> TaskID \<Rightarrow> ContinuityTransitionReceiptSummary \<Rightarrow> AnchorMode \<Rightarrow> TriageReceipt \<Rightarrow>
     FollowUpActionKind \<Rightarrow> string \<Rightarrow> go_time \<Rightarrow> FollowUpReceipt" where
  "new_follow_up i t anchor mode g kind note now =
     \<lparr>fu_ReceiptID = i, fu_TaskID = t, fu_AnchorMode = mode,
      fu_AnchorTransitionReceiptID = tr_ReceiptID anchor, fu_AnchorTransitionKind = tr_TransitionKind anchor,
      fu_AnchorHandoffID = tr_HandoffID anchor, fu_AnchorShellSessionID = tr_ShellSessionID anchor,
      fu_TriageReceiptID = tg_ReceiptID g, fu_TriagePosture = tg_Posture g,
      fu_TriageFollowUpState = tg_FollowUpPosture g, fu_ActionKind = kind,
      fu_Summary = (if note = [] then ''continuity incident follow-up ''
        @ ToLower (map (\<lambda>c. if c = CHR ''_'' then CHR 0x20 else c) (FollowUpActionKind_str kind))
        @ '' at transition '' @ tr_ReceiptID anchor else note),
      fu_Review = tg_Review g,
      fu_TriagedUnderReviewRisk = (ir_StaleOrUnreviewedReviewPosture (tg_Risk g)
        \<or> ir_SourceScopedReviewPosture (tg_Risk g) \<or> ir_ReviewGapPresent (tg_Risk g)),
      fu_CreatedAt = now, fu_Version = 1\<rparr>"

definition follow_up_payload :: "FollowUpReceipt \<Rightarrow> (string \<times> pval) list" where
  "follow_up_payload r =
     [(''incident_follow_up_receipt_id'', PStr (fu_ReceiptID r)),
      (''anchor_mode'', PStr (AnchorMode_str (fu_AnchorMode r))),
      (''anchor_transition_receipt_id'', PStr (fu_AnchorTransitionReceiptID r)),
      (''anchor_transition_kind'', PStr (TransitionKind_str (fu_AnchorTransitionKind r))),
      (''triage_receipt_id'', PStr (fu_TriageReceiptID r)),
      (''triage_posture'', PStr (TriagePosture_str (fu_TriagePosture r))),
      (''triage_follow_up_posture'', PStr (FollowUpPosture_str (fu_TriageFollowUpState r))),
      (''action_kind'', PStr (FollowUpActionKind_str (fu_ActionKind r))),
      (''summary'', PStr (fu_Summary r))]
     @ review_payload_fields (fu_Review r)
     @ [(''triaged_under_review_risk'', PBool (fu_TriagedUnderReviewRisk r))]"

record RecordContinuityIncidentFollowUpRequest =
  uq_TaskID :: string
  uq_AnchorMode :: string
  uq_AnchorTransitionReceiptID :: string
  uq_TriageReceiptID :: string
  uq_ActionKind :: string
  uq_Summary :: string

record RecordContinuityIncidentFollowUpResult =
  uy_TaskID :: TaskID
  uy_AnchorMode :: AnchorMode
  uy_AnchorTransitionReceiptID :: EventID
  uy_TriageReceiptID :: EventID
  uy_ActionKind :: FollowUpActionKind
  uy_Reused :: bool
  uy_Receipt :: ContinuityIncidentFollowUpReceiptSummary
  uy_LatestContinuityTransition :: "ContinuityTransitionReceiptSummary option"
  uy_LatestContinuityIncidentTriage :: "ContinuityIncidentTriageReceiptSummary option"
  uy_RecentContinuityIncidentTriages :: "ContinuityIncidentTriageReceiptSummary list"
  uy_LatestContinuityIncidentFollowUp :: "ContinuityIncidentFollowUpReceiptSummary option"
  uy_RecentContinuityIncidentFollowUps :: "ContinuityIncidentFollowUpReceiptSummary list"
  uy_FollowUpHistoryRollup :: "ContinuityIncidentFollowUpHistoryRollupSummary option"
  uy_FollowUp :: "ContinuityIncidentFollowUpSummary option"

definition follow_up_result ::
  "TaskID \<Rightarrow> AnchorMode \<Rightarrow> EventID \<Rightarrow> bool \<Rightarrow> FollowUpReceipt \<Rightarrow> RecordContinuityIncidentFollowUpResult op" where
  "follow_up_result t mode anchor reused r =
     bnd (db_read (continuityIncidentTriageReadProjection t)) (\<lambda>(transition, triages, followUp, forAnchor).
     bnd (db_read (continuityIncidentFollowUpHistoryProjection t 10)) (\<lambda>(latest, recent, rollup).
     ret \<lparr>uy_TaskID = t, uy_AnchorMode = mode, uy_AnchorTransitionReceiptID = anchor,
          uy_TriageReceiptID = fu_TriageReceiptID r, uy_ActionKind = fu_ActionKind r, uy_Reused = reused,
          uy_Receipt = continuityIncidentFollowUpReceiptSummary r,
          uy_LatestContinuityTransition = transition,
          uy_LatestContinuityIncidentTriage = first_row triages,
          uy_RecentContinuityIncidentTriages = triages,
          uy_LatestContinuityIncidentFollowUp = (case forAnchor of None \<Rightarrow> latest | Some f \<Rightarrow> Some f),
          uy_RecentContinuityIncidentFollowUps = recent, uy_FollowUpHistoryRollup = rollup,
          uy_FollowUp = deriveFollowUpAwareAdvisory followUp rollup recent\<rparr>))"

definition follow_up_tx :: "Deps \<Rightarrow> TaskID \<Rightarrow> FollowUpReceipt \<Rightarrow> unit op" where
  "follow_up_tx E t r = withTx (
     seq (db_write (followups_Create r))
     (bnd (db_read (capsules_Get t)) (\<lambda>caps.
     appendProof E caps EventContinuityIncidentFollowUpRecorded ActorUser ''user'' (follow_up_payload r) None)))"

definition RecordContinuityIncidentFollowUp ::
  "Deps \<Rightarrow> RecordContinuityIncidentFollowUpRequest \<Rightarrow> RecordContinuityIncidentFollowUpResult op" where
  "RecordContinuityIncidentFollowUp E q =
     (let t = TrimSpace (uq_TaskID q); note = normalizeContinuityIncidentFollowUpSummary (uq_Summary q) in
      if t = [] then throw (ErrMsg ''task id is required'')
      else
      bnd (db_read (capsules_Get t)) (\<lambda>caps.
      bnd (lift_res (parseContinuityIncidentFollowUpActionKind (uq_ActionKind q))) (\<lambda>kind.
      bnd (db_read (resolveContinuityIncidentTriageAnchor t (uq_AnchorMode q)
        (uq_AnchorTransitionReceiptID q))) (\<lambda>(anchor, mode).
      bnd (db_read (followed_triage t (tr_ReceiptID anchor) (uq_TriageReceiptID q))) (\<lambda>g.
      bnd (db_read (\<lambda>d. opt_rows (followups_LatestByTaskAnchor t (tr_ReceiptID anchor) d))) (\<lambda>known.
      case (case known of None \<Rightarrow> None | Some r \<Rightarrow>
          if continuityIncidentFollowUpEquivalent r mode (tg_ReceiptID g) kind note then Some r else None) of
        Some r \<Rightarrow> follow_up_result t mode (tr_ReceiptID anchor) True r
      | None \<Rightarrow>
          bnd (idGenerator E ''cifr'') (\<lambda>i.
          bnd (clock E) (\<lambda>now.
          let r = new_follow_up i t anchor mode g kind note now in
          seq (follow_up_tx E t r) (follow_up_result t mode (tr_ReceiptID anchor) False r)))))))))"

section \<open>Frames\<close>

lemma new_triage_spoken:
  "TrimSpace (tg_Summary (new_triage i t a m p (normalizeContinuityIncidentTriageSummary raw) risk now)) \<noteq> []"
proof -
  have literal: "TrimSpace (''continuity incident '' @ x) \<noteq> []" for x
    using TrimSpace_nonempty[of "CHR ''c''"] by (simp add: ascii_blank_def non_ascii_def)
  show ?thesis
    using TrimSpace_take[of raw 400] literal
    by (auto simp: new_triage_def normalizeContinuityIncidentTriageSummary_def simp del: append_Cons)
qed

lemma new_follow_up_spoken:
  "TrimSpace (fu_Summary (new_follow_up i t a m g k (normalizeContinuityIncidentFollowUpSummary raw) now)) \<noteq> []"
proof -
  have literal: "TrimSpace (''continuity incident follow-up '' @ x) \<noteq> []" for x
    using TrimSpace_nonempty[of "CHR ''c''"] by (simp add: ascii_blank_def non_ascii_def)
  show ?thesis
    using TrimSpace_take[of raw 400] literal
    by (auto simp: new_follow_up_def normalizeContinuityIncidentFollowUpSummary_def simp del: append_Cons)
qed

context outcome_frame
begin

lemma op_triage_tx:
  "TrimSpace (tg_Summary r) \<noteq> [] \<Longrightarrow> frames (on_db (guarded R)) (triage_tx E t r)"
  unfolding triage_tx_def by (intro incident_writes op_frames)

lemma op_follow_up_tx:
  "TrimSpace (fu_Summary r) \<noteq> [] \<Longrightarrow> frames (on_db (guarded R)) (follow_up_tx E t r)"
  unfolding follow_up_tx_def by (intro incident_writes op_frames)

lemma op_RecordTriage: "frames (on_db (guarded R)) (RecordContinuityIncidentTriage E q)"
  unfolding RecordContinuityIncidentTriage_def triage_result_def Let_def
  by (intro op_triage_tx new_triage_spoken op_frames)

lemma op_RecordFollowUp: "frames (on_db (guarded R)) (RecordContinuityIncidentFollowUp E q)"
  unfolding RecordContinuityIncidentFollowUp_def follow_up_result_def Let_def
  by (intro op_follow_up_tx new_follow_up_spoken op_frames)

end

end
