(* ===== verification/OperatorSteps.thy ===== *)
theory OperatorSteps
  imports IncidentOps Operator
begin

text \<open>
  The execution of the primary operator step (operator_step_execution.go): the plan of the task is
  derived, its primary step is dispatched to the operation behind it, and a receipt of what came
  of it is recorded.
\<close>

section \<open>Requests, results, dispatch\<close>

record ExecutePrimaryOperatorStepRequest =
  nq_TaskID :: string
  nq_AcknowledgeReviewGap :: bool
  nq_ReviewGapSessionID :: string
  nq_ReviewGapAcknowledgmentKind :: string
  nq_ReviewGapSummary :: string

record ExecutePrimaryOperatorStepResult =
  nz_TaskID :: TaskID
  nz_Receipt :: OperatorStepReceipt
  nz_ActiveBranch :: ActiveBranchProvenance
  nz_OperatorDecision :: OperatorDecisionSummary
  nz_OperatorExecutionPlan :: OperatorExecutionPlan
  nz_RecoveryClass :: RecoveryClass
  nz_RecommendedAction :: RecoveryAction
  nz_ReadyForNextRun :: bool
  nz_ReadyForHandoffLaunch :: bool
  nz_RecoveryReason :: string
  nz_CanonicalResponse :: string
  nz_RecentOperatorStepReceipts :: "OperatorStepReceipt list"
  nz_RecentTransitions :: "ContinuityTransitionReceiptSummary list"
  nz_Triages :: triage_history_projection
  nz_FollowUps :: followup_history_projection
  nz_FollowUp :: "ContinuityIncidentFollowUpSummary option"
  nz_RecentAcknowledgments :: "GapAckSummary list"

record operatorStepExecutionDispatch =
  dp_attempted :: bool
  dp_resultClass :: StepResultClass
  dp_summary :: string
  dp_reason :: string
  dp_canonicalResponse :: string
  dp_runID :: RunID
  dp_checkpointID :: CheckpointID
  dp_briefID :: BriefID
  dp_handoffID :: string
  dp_launchAttemptID :: string
  dp_launchID :: string
  dp_transitionReceiptID :: EventID
  dp_transitionKind :: TransitionKind

text \<open>A dispatch with only the fields every case sets.\<close>

definition plain_dispatch ::
  "bool \<Rightarrow> StepResultClass \<Rightarrow> string \<Rightarrow> string \<Rightarrow> string \<Rightarrow> operatorStepExecutionDispatch" where
  "plain_dispatch attempted class' summary reason response =
     \<lparr>dp_attempted = attempted, dp_resultClass = class', dp_summary = summary, dp_reason = reason,
      dp_canonicalResponse = response, dp_runID = [], dp_checkpointID = [], dp_briefID = [],
      dp_handoffID = [], dp_launchAttemptID = [], dp_launchID = [], dp_transitionReceiptID = [],
      dp_transitionKind = TransitionKindOther []\<rparr>"

definition stepExecutionLabel :: "OperatorAction \<Rightarrow> string" where
  "stepExecutionLabel action = ToLower (TrimSpace (OperatorAction_str action))"

definition rejection_tokens :: "string list" where
  "rejection_tokens = [''already'', ''blocked'', ''cannot'', ''requires'', ''not '', ''missing'', ''unsupported'',
     ''mismatch'', ''guidance-only'', ''no active'', ''no primary'', ''only be executed'', ''rejected'']"

definition classifyOperatorStepError ::
  "OperatorExecutionStep \<Rightarrow> go_error \<Rightarrow> operatorStepExecutionDispatch" where
  "classifyOperatorStepError s e =
     (let reason = TrimSpace (err_text e);
          refused = list_ex (str_contains (ToLower reason)) rejection_tokens in
      plain_dispatch True (if refused then ResultRejected else ResultFailed)
        ((if refused then ''rejected '' else ''failed '') @ stepExecutionLabel (es_Action s)) reason [])"

definition launchDispatchFromResult ::
  "HandoffContinuity \<Rightarrow> LaunchHandoffResult \<Rightarrow> operatorStepExecutionDispatch" where
  "launchDispatchFromResult hc x =
     (let h = nonEmpty (lr_HandoffID x) (hc_HandoffID hc);
          reused = (hc_LaunchID hc \<noteq> [] \<and> hc_LaunchID hc = lr_LaunchID x);
          (class', summary, reason) = (case lr_LaunchStatus x of
              HandoffLaunchStatusBlocked \<Rightarrow> (ResultRejected, ''rejected launch of accepted handoff '' @ h,
                TrimSpace (lr_CanonicalResponse x))
            | HandoffLaunchStatusFailed \<Rightarrow> (ResultFailed, ''failed launch of accepted handoff '' @ h,
                TrimSpace (lr_CanonicalResponse x))
            | HandoffLaunchStatusCompleted \<Rightarrow>
                (if reused then (ResultNoopReused, ''reused durable launch result for handoff '' @ h, [])
                 else (ResultSucceeded, ''launched accepted handoff '' @ h, []))) in
      (plain_dispatch False class' summary reason (lr_CanonicalResponse x))
        \<lparr>dp_handoffID := h, dp_launchID := lr_LaunchID x, dp_transitionReceiptID := lr_TransitionReceiptID x,
         dp_transitionKind := (if lr_TransitionReceiptID x \<noteq> [] then KindHandoffLaunch else TransitionKindOther [])\<rparr>)"

text \<open>The run and checkpoint of the recovery action a step recorded.\<close>

definition with_action :: "RecoveryRecord option \<Rightarrow> operatorStepExecutionDispatch \<Rightarrow> operatorStepExecutionDispatch" where
  "with_action act x = (case act of None \<Rightarrow> x
     | Some a \<Rightarrow> x\<lparr>dp_runID := ra_RunID a, dp_checkpointID := ra_CheckpointID a\<rparr>)"

definition recovery_dispatch :: "string \<Rightarrow> RecoveryOutcome \<Rightarrow> operatorStepExecutionDispatch" where
  "recovery_dispatch what x = with_action (ro_Action x)
     ((plain_dispatch True ResultSucceeded (what @ ro_BriefID x) [] (ro_CanonicalResponse x))\<lparr>dp_briefID := ro_BriefID x\<rparr>)"

definition started_dispatch :: "RunTaskResult \<Rightarrow> operatorStepExecutionDispatch" where
  "started_dispatch x = (plain_dispatch True ResultSucceeded (''started local run '' @ rt_RunID x) []
     (rt_CanonicalResponse x))\<lparr>dp_runID := rt_RunID x\<rparr>"

definition rebriefed_dispatch :: "RecoveryOutcome \<Rightarrow> operatorStepExecutionDispatch" where
  "rebriefed_dispatch x = (plain_dispatch True ResultSucceeded (''regenerated brief '' @ ro_BriefID x) []
     (ro_CanonicalResponse x))\<lparr>dp_briefID := ro_BriefID x\<rparr>"

definition resolved_dispatch :: "RecordHandoffResolutionResult \<Rightarrow> operatorStepExecutionDispatch" where
  "resolved_dispatch x =
     (let s = sz_Record x in
      (plain_dispatch True ResultSucceeded (''resolved active handoff '' @ s_HandoffID s @ '' as ''
         @ ResolutionKind_str (s_Kind s)) [] (sz_CanonicalResponse x))
        \<lparr>dp_handoffID := s_HandoffID s, dp_launchAttemptID := s_LaunchAttemptID s,
         dp_launchID := s_LaunchID s, dp_transitionReceiptID := sz_TransitionReceiptID x,
         dp_transitionKind := (if sz_TransitionReceiptID x \<noteq> [] then KindHandoffResolution
           else TransitionKindOther [])\<rparr>)"

text \<open>\<open>out, err := m; if err != nil { return classifyOperatorStepError(step, err) }\<close>\<close>

definition dispatched ::
  "OperatorExecutionStep \<Rightarrow> 'a op \<Rightarrow> ('a \<Rightarrow> operatorStepExecutionDispatch) \<Rightarrow> operatorStepExecutionDispatch op" where
  "dispatched s m f = bnd (attempt m) (\<lambda>r. ret (case r of
     Inl e \<Rightarrow> classifyOperatorStepError s e | Inr x \<Rightarrow> f x))"

definition start_request :: "TaskID \<Rightarrow> RunTaskRequest" where
  "start_request t = \<lparr>rq_TaskID = t, rq_Action = ''start'', rq_Mode = ''real'', rq_RunID = [], rq_ShellSessionID = [],
     rq_SimulateInterrupt = False, rq_InterruptionReason = []\<rparr>"

definition dispatchPrimaryOperatorStep ::
  "Deps \<Rightarrow> worker \<Rightarrow> encoder \<Rightarrow> launcher \<Rightarrow> TaskID \<Rightarrow> OperatorExecutionStep \<Rightarrow> HandoffContinuity \<Rightarrow>
     operatorStepExecutionDispatch op" where
  "dispatchPrimaryOperatorStep E W J L t s hc = (case es_Action s of
     OperatorActionStartLocalRun \<Rightarrow> dispatched s (RunTask E W (start_request t)) started_dispatch
   | OperatorActionResumeInterruptedLineage \<Rightarrow> dispatched s (ExecuteInterruptedResume E t [] [])
       (recovery_dispatch ''resumed interrupted lineage for brief '')
   | OperatorActionFinalizeContinueRecovery \<Rightarrow> dispatched s (ExecuteContinueRecovery E t)
       (recovery_dispatch ''finalized continue recovery for brief '')
   | OperatorActionExecuteRebrief \<Rightarrow> dispatched s (ExecuteRebrief E t) rebriefed_dispatch
   | OperatorActionLaunchAcceptedHandoff \<Rightarrow>
       dispatched s (LaunchHandoff E J L \<lparr>lq_TaskID = t, lq_HandoffID = hc_HandoffID hc,
         lq_TargetWorker = WorkerKindOther []\<rparr>) (\<lambda>x. (launchDispatchFromResult hc x)\<lparr>dp_attempted := True\<rparr>)
   | OperatorActionResolveActiveHandoff \<Rightarrow>
       dispatched s (RecordHandoffResolution E \<lparr>sq_TaskID = t, sq_HandoffID = hc_HandoffID hc,
         sq_Kind = ResolutionSupersededByLocal, sq_Summary = ''operator-next returned canonical local control'',
         sq_Notes = []\<rparr>) resolved_dispatch
   | _ \<Rightarrow> ret (plain_dispatch False ResultRejected (''rejected '' @ stepExecutionLabel (es_Action s))
       (''primary operator step '' @ OperatorAction_str (es_Action s)
         @ '' does not have a dedicated unified backend execution path'') []))"

section \<open>The receipt\<close>

definition step_receipt ::
  "string \<Rightarrow> TaskID \<Rightarrow> go_time \<Rightarrow> HandoffContinuity \<Rightarrow> operatorStepExecutionDispatch \<Rightarrow>
     OperatorExecutionStep option \<Rightarrow> ReviewProgression \<Rightarrow> GapAck option \<Rightarrow> OperatorStepReceipt" where
  "step_receipt i t now hc x step p ack =
     (let first = (\<lambda>a b. if a = [] then b else a) in
      \<lparr>or_Version = 1, or_ReceiptID = i, or_TaskID = t,
       or_ActionHandle = (case step of None \<Rightarrow> [] | Some s \<Rightarrow> OperatorAction_str (es_Action s)),
       or_ExecutionDomain = (case step of None \<Rightarrow> [] | Some s \<Rightarrow> OperatorExecutionDomain_str (es_Domain s)),
       or_CommandSurfaceKind =
         (case step of None \<Rightarrow> [] | Some s \<Rightarrow> OperatorCommandSurfaceType_str (es_CommandSurface s)),
       or_ExecutionAttempted = dp_attempted x, or_ResultClass = dp_resultClass x,
       or_Summary = TrimSpace (dp_summary x), or_Reason = TrimSpace (dp_reason x),
       or_RunID = dp_runID x, or_CheckpointID = dp_checkpointID x, or_BriefID = dp_briefID x,
       or_HandoffID = first (dp_handoffID x) (hc_HandoffID hc),
       or_LaunchAttemptID = first (dp_launchAttemptID x) (hc_LaunchAttemptID hc),
       or_LaunchID = first (dp_launchID x) (hc_LaunchID hc),
       or_ReviewGapState = ReviewProgressionState_str (pg_State p),
       or_ReviewGapSessionID = TrimSpace (pg_SessionID p),
       or_ReviewGapClass = GapAckClass_str (pg_AcknowledgmentClass p),
       or_ReviewGapPresent = pg_AcknowledgmentAdvisable p,
       or_ReviewGapReviewedUpTo = pg_ReviewedUpToSequence p,
       or_ReviewGapOldestUnreviewed = pg_OldestUnreviewedSequence p,
       or_ReviewGapNewestRetained = pg_NewestRetainedSequence p,
       or_ReviewGapUnreviewedRetainedCount = pg_UnreviewedRetainedCount p,
       or_ReviewGapAcknowledged = (ack \<noteq> None),
       or_ReviewGapAcknowledgmentID = (case ack of None \<Rightarrow> [] | Some a \<Rightarrow> ga_AcknowledgmentID a),
       or_ReviewGapAcknowledgmentClass = (case ack of None \<Rightarrow> [] | Some a \<Rightarrow> GapAckClass_str (ga_Class a)),
       or_TransitionReceiptID = dp_transitionReceiptID x,
       or_TransitionKind = TransitionKind_str (dp_transitionKind x),
       or_CreatedAt = now, or_CompletedAt = Some now\<rparr>)"

definition step_payload :: "OperatorStepReceipt \<Rightarrow> (string \<times> pval) list" where
  "step_payload r =
     [(''receipt_id'', PStr (or_ReceiptID r)), (''action_handle'', PStr (or_ActionHandle r)),
      (''execution_domain'', PStr (or_ExecutionDomain r)),
      (''command_surface_kind'', PStr (or_CommandSurfaceKind r)),
      (''execution_attempted'', PBool (or_ExecutionAttempted r)),
      (''result_class'', PStr (StepResultClass_str (or_ResultClass r))),
      (''summary'', PStr (or_Summary r)), (''reason'', PStr (or_Reason r)),
      (''handoff_id'', PStr (or_HandoffID r)), (''launch_attempt_id'', PStr (or_LaunchAttemptID r)),
      (''launch_id'', PStr (or_LaunchID r)), (''brief_id'', PStr (or_BriefID r)),
      (''checkpoint_id'', PStr (or_CheckpointID r)), (''run_id'', PStr (or_RunID r)),
      (''review_gap_state'', PStr (or_ReviewGapState r)),
      (''review_gap_session_id'', PStr (or_ReviewGapSessionID r)),
      (''review_gap_class'', PStr (or_ReviewGapClass r)),
      (''review_gap_present'', PBool (or_ReviewGapPresent r)),
      (''review_gap_acknowledged'', PBool (or_ReviewGapAcknowledged r)),
      (''review_gap_acknowledgment_id'', PStr (or_ReviewGapAcknowledgmentID r)),
      (''review_gap_acknowledgment_class'', PStr (or_ReviewGapAcknowledgmentClass r)),
      (''review_gap_reviewed_up_to_seq'', PInt (or_ReviewGapReviewedUpTo r)),
      (''review_gap_oldest_unreviewed'', PInt (or_ReviewGapOldestUnreviewed r)),
      (''review_gap_newest_retained'', PInt (or_ReviewGapNewestRetained r)),
      (''review_gap_unreviewed_count'', PInt (or_ReviewGapUnreviewedRetainedCount r)),
      (''transition_receipt_id'', PStr (or_TransitionReceiptID r)),
      (''transition_kind'', PStr (or_TransitionKind r))]"

definition step_tx :: "Deps \<Rightarrow> TaskID \<Rightarrow> OperatorStepReceipt \<Rightarrow> unit op" where
  "step_tx E t r = withTx (
     seq (db_write (opsteps_Create r))
     (bnd (db_read (capsules_Get t)) (\<lambda>caps.
     appendProof E caps EventOperatorStepExecutionRecorded ActorUser ''user'' (step_payload r)
       (runIDPointer (or_RunID r)))))"

definition recordOperatorStepReceipt ::
  "Deps \<Rightarrow> TaskID \<Rightarrow> OperatorExecutionPlan \<Rightarrow> HandoffContinuity \<Rightarrow> operatorStepExecutionDispatch \<Rightarrow>
     OperatorExecutionStep option \<Rightarrow> ReviewProgression \<Rightarrow> GapAck option \<Rightarrow> OperatorStepReceipt op" where
  "recordOperatorStepReceipt E t plan hc x step p ack =
     bnd (clock E) (\<lambda>now.
     bnd (idGenerator E ''orec'') (\<lambda>i.
     let r = step_receipt i t now hc x (if step = None then ep_PrimaryStep plan else step) p ack in
     seq (step_tx E t r) (ret r)))"

section \<open>The result\<close>

definition buildPrimaryOperatorStepExecutionResult ::
  "Deps \<Rightarrow> TaskID \<Rightarrow> OperatorStepReceipt \<Rightarrow> string \<Rightarrow> ExecutePrimaryOperatorStepResult op" where
  "buildPrimaryOperatorStepExecutionResult E t r response =
     bnd (assess E t) (\<lambda>a.
     let truth = operatorTruthForAssessment a; rv = ot_Recovery truth in
     bnd (classifiedShellSessions E t) (\<lambda>sessions.
     let p = deriveOperatorReviewProgressionFromSessions sessions in
     bnd (db_read (\<lambda>d. Inr (opsteps_ListByTask t 5 d))) (\<lambda>recent.
     bnd (shell_read (\<lambda>d. reviewGapAcknowledgmentProjection d t sessions 5)) (\<lambda>acks.
     bnd (db_read (\<lambda>d. Inr (continuityTransitionReceiptProjection t 5 d))) (\<lambda>transitions.
     bnd (db_read (continuityIncidentTriageHistoryProjection t 5)) (\<lambda>triages.
     bnd (db_read (continuityIncidentFollowUpHistoryProjection t 10)) (\<lambda>follows.
     let (latest, recentFollows, rollup) = follows;
         follow = deriveFollowUpAwareAdvisory (deriveContinuityIncidentFollowUpSummary
           (first_row transitions) (fst triages) latest) rollup recentFollows in
     ret \<lparr>nz_TaskID = t, nz_Receipt = r, nz_ActiveBranch = ot_Branch truth,
          nz_OperatorDecision = applyContinuityIncidentFollowUpToOperatorDecision follow
            (applyReviewProgressionToOperatorDecision p (ot_Decision truth)),
          nz_OperatorExecutionPlan = applyContinuityIncidentFollowUpToOperatorExecutionPlan follow
            (applyReviewProgressionToOperatorExecutionPlan p (ot_Plan truth)),
          nz_RecoveryClass = rv_RecoveryClass rv, nz_RecommendedAction = rv_RecommendedAction rv,
          nz_ReadyForNextRun = rv_ReadyForNextRun rv, nz_ReadyForHandoffLaunch = rv_ReadyForHandoffLaunch rv,
          nz_RecoveryReason = rv_Reason rv, nz_CanonicalResponse = response,
          nz_RecentOperatorStepReceipts = recent, nz_RecentTransitions = transitions, nz_Triages = triages,
          nz_FollowUps = follows, nz_FollowUp = follow, nz_RecentAcknowledgments = acks\<rparr>)))))))"

section \<open>Executing the primary step\<close>

text \<open>What a step that has no backend path is refused with.\<close>

definition refused_dispatch :: "OperatorExecutionStep option \<Rightarrow> operatorStepExecutionDispatch" where
  "refused_dispatch step = (case step of
     None \<Rightarrow> plain_dispatch False ResultRejected ''primary operator step is unavailable''
       ''no primary operator step is currently available'' []
   | Some s \<Rightarrow> plain_dispatch False ResultRejected (''rejected '' @ stepExecutionLabel (es_Action s))
       (''primary operator step '' @ OperatorAction_str (es_Action s)
         @ '' is guidance-only and cannot be executed directly'') [])"

definition executable_step :: "OperatorExecutionPlan \<Rightarrow> OperatorExecutionStep option" where
  "executable_step plan = (case ep_PrimaryStep plan of None \<Rightarrow> None
     | Some s \<Rightarrow> if es_CommandSurface s = OperatorCommandSurfaceDedicated then Some s else None)"

definition ExecutePrimaryOperatorStep ::
  "Deps \<Rightarrow> worker \<Rightarrow> encoder \<Rightarrow> launcher \<Rightarrow> ExecutePrimaryOperatorStepRequest \<Rightarrow>
     ExecutePrimaryOperatorStepResult op" where
  "ExecutePrimaryOperatorStep E W J L q =
     (let t = TrimSpace (nq_TaskID q) in
      if t = [] then throw (ErrMsg ''task id is required'')
      else
      bnd (assess E t) (\<lambda>a.
      let plan = plan_of a; hc = ot_Continuity (operatorTruthForAssessment a) in
      bnd (classifiedShellSessions E t) (\<lambda>sessions.
      bnd (lift_res (deriveOperatorReviewProgressionForSessionID sessions
        (TrimSpace (nq_ReviewGapSessionID q)))) (\<lambda>p.
      bnd (if nq_AcknowledgeReviewGap q
           then bnd (recordOperatorReviewGapAcknowledgmentFromProgression E t p
             (nq_ReviewGapAcknowledgmentKind q) (nq_ReviewGapSummary q) ''task.operator.next'') (\<lambda>g. ret (Some g))
           else ret None) (\<lambda>ack.
      bnd (case executable_step plan of
          None \<Rightarrow> ret (refused_dispatch (ep_PrimaryStep plan))
        | Some s \<Rightarrow> dispatchPrimaryOperatorStep E W J L t s hc) (\<lambda>x.
      bnd (recordOperatorStepReceipt E t plan hc x (ep_PrimaryStep plan) p ack) (\<lambda>r.
      buildPrimaryOperatorStepExecutionResult E t r (dp_canonicalResponse x))))))))"

section \<open>Frames\<close>

context outcome_frame
begin

lemma op_dispatched: "frames (on_db (guarded R)) m \<Longrightarrow> frames (on_db (guarded R)) (dispatched s m f)"
  unfolding dispatched_def by (intro op_frames)

lemma op_dispatch: "frames (on_db (guarded R)) (dispatchPrimaryOperatorStep E W J L t s hc)"
  unfolding dispatchPrimaryOperatorStep_def
  by (cases "es_Action s"; simp only: OperatorAction.case)
    (intro op_dispatched op_RunTask op_ExecuteInterruptedResume op_ExecuteContinueRecovery
      op_ExecuteRebrief op_LaunchHandoff op_RecordHandoffResolution op_frames)+

end

text \<open>A relation that the row of a step receipt satisfies as well.\<close>

locale opstep_frame = outcome_frame R for R :: "Db \<Rightarrow> Db \<Rightarrow> bool" +
  assumes w_opstep: "opsteps_Create os d = Inr d' \<Longrightarrow> R d d'"
begin

lemma op_step_tx: "frames (on_db (guarded R)) (step_tx E t r)"
proof -
  have "frames (on_db (guarded R)) (db_write (opsteps_Create r))"
    by (rule g.frame_write) (simp add: guarded_def runs_ok_def outcome_writes_keep_runs w_opstep)
  then show ?thesis unfolding step_tx_def by (intro op_frames)
qed

end

end
