(* ===== verification/Ledger.thy ===== *)
theory Ledger
  imports OperatorSteps "HOL-Library.Sublist"
begin

text \<open>
  What the coordinator's transactions promise about the database, as relations between the
  database before and after: the histories only grow, the proof ledger of a task is numbered
  without a gap, a run follows its life cycle and a packet its own. Each relation is shown to
  hold across the individual writes (interpretations of \<open>opstep_frame\<close>).
\<close>

section \<open>Single writes\<close>

lemma tbl_insert_append: "tbl_insert key r rows = Some rows' \<Longrightarrow> rows' = rows @ [r]"
  by (simp add: tbl_insert_def split: if_splits)

lemma tbl_replace_keys:
  assumes "tbl_update key (key r) (\<lambda>_. r) rows = Some rows'"
  shows "map key rows' = map key rows"
proof -
  have "rows' = map (\<lambda>x. if key x = key r then r else x) rows"
    using assms by (simp add: tbl_update_def split: if_splits)
  then show ?thesis by simp
qed

lemmas write_defs = proofs_Append_def messages_Append_def checkpoints_Create_def capsules_Create_def
  capsules_Update_def intents_Save_def briefs_Save_def actions_Create_def runs_Create_def
  runs_Update_def handoffs_Create_def handoffs_CreateLaunch_def
  handoffs_SaveFollowThrough_def handoffs_UpdateLaunch_def handoffs_SaveAcknowledgment_def
  handoffs_SaveResolution_def transitions_Create_def opsteps_Create_def triages_Create_def
  followups_Create_def Let_def inserted_Inr_iff updated_Inr_iff

lemma accept_rows:
  assumes "handoffs_UpdateStatus t k st who notes at d = Inr d'"
  obtains row where "tbl_get pr_key k (db_packets d) = Some row"
    and "d' = d\<lparr>db_packets := map (\<lambda>r. if pr_key r = k
      then r\<lparr>pr_packet := packet_with_status st who notes at (pr_packet row)\<rparr> else r) (db_packets d)\<rparr>"
  using assms
  by (auto simp: handoffs_UpdateStatus_def updated_Inr_iff tbl_update_def split: option.splits if_splits)

lemma pr_key_with_status [simp]:
  "pr_key (r\<lparr>pr_packet := packet_with_status st who notes at p\<rparr>) = h_HandoffID p"
  by (simp add: pr_key_def packet_with_status_def Let_def)

lemma tbl_get_key: "tbl_get key k rows = Some row \<Longrightarrow> key row = k"
  by (drule tbl_get_SomeD) simp

section \<open>Histories only grow\<close>

definition history_kept :: "Db \<Rightarrow> Db \<Rightarrow> bool" where
  "history_kept d d' \<longleftrightarrow>
     prefix (db_proofs d) (db_proofs d') \<and> prefix (db_messages d) (db_messages d')
     \<and> prefix (db_intents d) (db_intents d') \<and> prefix (db_briefs d) (db_briefs d')
     \<and> prefix (db_checkpoints d) (db_checkpoints d') \<and> prefix (db_actions d) (db_actions d')
     \<and> prefix (db_acks d) (db_acks d') \<and> prefix (db_follow d) (db_follow d')
     \<and> prefix (db_resolutions d) (db_resolutions d')
     \<and> prefix (db_transitions d) (db_transitions d') \<and> prefix (db_opsteps d) (db_opsteps d')
     \<and> prefix (db_triages d) (db_triages d') \<and> prefix (db_followups d) (db_followups d')
     \<and> prefix (map c_TaskID (db_capsules d)) (map c_TaskID (db_capsules d'))
     \<and> prefix (map r_RunID (db_runs d)) (map r_RunID (db_runs d'))
     \<and> prefix (map pr_key (db_packets d)) (map pr_key (db_packets d'))
     \<and> prefix (map l_AttemptID (db_launches d)) (map l_AttemptID (db_launches d'))"

lemma accept_keys:
  assumes "handoffs_UpdateStatus t k st who notes at d = Inr d'"
  shows "map pr_key (db_packets d') = map pr_key (db_packets d)"
proof -
  obtain row where row: "tbl_get pr_key k (db_packets d) = Some row"
    and d': "d' = d\<lparr>db_packets := map (\<lambda>r. if pr_key r = k
      then r\<lparr>pr_packet := packet_with_status st who notes at (pr_packet row)\<rparr> else r) (db_packets d)\<rparr>"
    using assms by (rule accept_rows)
  have "h_HandoffID (pr_packet row) = k" using tbl_get_key[OF row] by (simp add: pr_key_def)
  then show ?thesis by (simp add: d')
qed

lemma launch_keys:
  assumes "handoffs_UpdateLaunch l d = Inr d'"
  shows "map l_AttemptID (db_launches d') = map l_AttemptID (db_launches d)"
  using assms by (auto simp: handoffs_UpdateLaunch_def updated_Inr_iff intro: tbl_update_keys)

interpretation hist: opstep_frame history_kept
proof unfold_locales
  fix l old and d d' :: Db
  assume upd: "handoffs_UpdateLaunch l d = Inr d'"
  then show "history_kept d d'"
    using launch_keys[OF upd] by (auto simp: history_kept_def handoffs_UpdateLaunch_def updated_Inr_iff)
next
  fix k t who remarks at and d d' :: Db
  assume upd: "handoffs_UpdateStatus t k HandoffStatusAccepted who remarks at d = Inr d'"
  then show "history_kept d d'"
    using accept_keys[OF upd] by (auto simp: history_kept_def elim: accept_rows)
next
  fix d d' d'' :: Db
  show "history_kept d d' \<Longrightarrow> history_kept d' d'' \<Longrightarrow> history_kept d d''"
    unfolding history_kept_def by (blast intro: prefix_order.trans)
qed (auto simp: history_kept_def write_defs dest!: tbl_insert_append tbl_replace_keys)

section \<open>The ledger is numbered without a gap\<close>

definition task_numbers :: "TaskID \<Rightarrow> Event list \<Rightarrow> int list" where
  "task_numbers t es = map e_SequenceNo (filter (\<lambda>e. e_TaskID e = t) es)"

definition ledger_ok :: "Db \<Rightarrow> bool" where
  "ledger_ok d \<longleftrightarrow> (\<forall>t. let ns = task_numbers t (db_proofs d) in ns = map int [1..<Suc (length ns)])"

lemma foldl_max_upto: "foldl max m (map int [k..<k + n]) = (if n = 0 then m else max m (int (k + n) - 1))"
  by (induction n) (auto simp: max_def)

lemma next_number:
  assumes "task_numbers t es = map int [1..<Suc n]"
  shows "next_sequence t es = int (Suc n)"
proof (cases n)
  case 0
  then show ?thesis using assms by (simp add: next_sequence.simps task_numbers_def)
next
  case (Suc m)
  have "[1..<Suc n] = 1 # [2..<2 + m]" by (simp add: Suc upt_conv_Cons numeral_2_eq_2)
  then have "task_numbers t es = 1 # map int [2..<2 + m]" using assms by simp
  moreover have "foldl max 1 (map int [2..<2 + m]) = int (Suc m)"
    unfolding foldl_max_upto by auto
  ultimately show ?thesis
    unfolding next_sequence.simps task_numbers_def[symmetric] by (simp only: list.case Suc)
qed

lemma ledger_append:
  assumes "proofs_Append e d = Inr d'" and "e_SequenceNo e = 0" and ok: "ledger_ok d"
  shows "ledger_ok d'"
proof -
  let ?n = "next_sequence (e_TaskID e) (db_proofs d)"
  have rows: "db_proofs d' = db_proofs d @ [e\<lparr>e_SequenceNo := ?n\<rparr>]"
    using assms(1,2) by (auto simp: proofs_Append_def Let_def inserted_Inr_iff dest!: tbl_insert_append)
  have "task_numbers t (db_proofs d') = map int [1..<Suc (length (task_numbers t (db_proofs d')))]" for t
  proof -
    let ?ns = "task_numbers t (db_proofs d)"
    have ns: "?ns = map int [1..<Suc (length ?ns)]" using ok by (simp add: ledger_ok_def Let_def)
    have "task_numbers t (db_proofs d') = ?ns @ (if e_TaskID e = t then [?n] else [])"
      by (simp add: rows task_numbers_def)
    then show ?thesis using ns next_number[OF ns] by auto
  qed
  then show ?thesis by (simp add: ledger_ok_def Let_def)
qed

lemma ledger_same: "db_proofs d' = db_proofs d \<Longrightarrow> ledger_ok d' = ledger_ok d"
  by (simp add: ledger_ok_def)

lemma ledger_now: "ledger_ok (d\<lparr>db_now := now\<rparr>) = ledger_ok d"
  by (rule ledger_same) simp

lemma other_writes_proofs:
  "messages_Append m d = Inr d' \<Longrightarrow> db_proofs d' = db_proofs d"
  "checkpoints_Create cp d = Inr d' \<Longrightarrow> db_proofs d' = db_proofs d"
  "capsules_Create c d = Inr d' \<Longrightarrow> db_proofs d' = db_proofs d"
  "capsules_Update c d = Inr d' \<Longrightarrow> db_proofs d' = db_proofs d"
  "intents_Save i d = Inr d' \<Longrightarrow> db_proofs d' = db_proofs d"
  "briefs_Save b d = Inr d' \<Longrightarrow> db_proofs d' = db_proofs d"
  "actions_Create a d = Inr d' \<Longrightarrow> db_proofs d' = db_proofs d"
  "runs_Create r d = Inr d' \<Longrightarrow> db_proofs d' = db_proofs d"
  "runs_Update r d = Inr d' \<Longrightarrow> db_proofs d' = db_proofs d"
  "handoffs_Create p d = Inr d' \<Longrightarrow> db_proofs d' = db_proofs d"
  "handoffs_UpdateStatus t k st who notes at d = Inr d' \<Longrightarrow> db_proofs d' = db_proofs d"
  "handoffs_CreateLaunch l d = Inr d' \<Longrightarrow> db_proofs d' = db_proofs d"
  "handoffs_SaveFollowThrough f d = Inr d' \<Longrightarrow> db_proofs d' = db_proofs d"
  "handoffs_UpdateLaunch l d = Inr d' \<Longrightarrow> db_proofs d' = db_proofs d"
  "handoffs_SaveAcknowledgment ak d = Inr d' \<Longrightarrow> db_proofs d' = db_proofs d"
  "handoffs_SaveResolution s d = Inr d' \<Longrightarrow> db_proofs d' = db_proofs d"
  "transitions_Create tr d = Inr d' \<Longrightarrow> db_proofs d' = db_proofs d"
  "opsteps_Create os d = Inr d' \<Longrightarrow> db_proofs d' = db_proofs d"
  "triages_Create tg d = Inr d' \<Longrightarrow> db_proofs d' = db_proofs d"
  "followups_Create fu d = Inr d' \<Longrightarrow> db_proofs d' = db_proofs d"
  by (auto simp: write_defs elim: accept_rows)

interpretation ledger: opstep_frame "\<lambda>d d'. ledger_ok d \<longrightarrow> ledger_ok d'"
  by unfold_locales
    (simp_all add: ledger_append ledger_now other_writes_proofs[THEN ledger_same])

section \<open>Runs follow their life cycle\<close>

definition run_later :: "ExecutionRun \<Rightarrow> ExecutionRun \<Rightarrow> bool" where
  "run_later = run_step\<^sup>*\<^sup>*"

definition runs_progress :: "Db \<Rightarrow> Db \<Rightarrow> bool" where
  "runs_progress d d' \<longleftrightarrow>
     (\<forall>k r. runs_Get k d = Inr r \<longrightarrow> (\<exists>r'. runs_Get k d' = Inr r' \<and> run_later r r'))"

definition terminal :: "RunStatus \<Rightarrow> bool" where
  "terminal s \<longleftrightarrow> s \<in> {RunStatusInterrupted, RunStatusCompleted, RunStatusFailed}"

lemma run_later_refl [simp]: "run_later r r"
  by (simp add: run_later_def)

lemma run_later_trans: "run_later r r' \<Longrightarrow> run_later r' r'' \<Longrightarrow> run_later r r''"
  by (simp add: run_later_def)

lemma run_later_step: "run_step r r' \<Longrightarrow> run_later r r'"
  by (auto simp: run_later_def)

lemma terminal_no_step: "terminal (r_Status r) \<Longrightarrow> \<not> run_step r r'"
  by (auto simp: terminal_def run_step_def)

lemma terminal_later: "run_later r r' \<Longrightarrow> terminal (r_Status r) \<Longrightarrow> r' = r"
  unfolding run_later_def by (induction rule: rtranclp_induct) (auto dest: terminal_no_step)

lemma run_later_identity: "run_later r r' \<Longrightarrow> same_run r r'"
  unfolding run_later_def
  by (induction rule: rtranclp_induct) (auto simp: same_run_def run_step_def)

lemma progress_same: "db_runs d' = db_runs d \<Longrightarrow> runs_progress d d'"
  by (auto simp: runs_progress_def runs_Get_def intro: run_later_refl)

interpretation progress: opstep_frame runs_progress
proof unfold_locales
  fix d d' d'' :: Db
  show "runs_progress d d' \<Longrightarrow> runs_progress d' d'' \<Longrightarrow> runs_progress d d''"
    unfolding runs_progress_def by (blast intro: run_later_trans)
next
  fix r and d d' :: Db
  assume new: "runs_Create r d = Inr d'"
  show "runs_progress d d'"
    using run_repo.create_persists[OF new] by (auto simp: runs_progress_def)
next
  fix r old and d d' :: Db
  assume get: "runs_Get (r_RunID r) d = Inr old" and step: "run_step old r"
    and upd: "runs_Update r d = Inr d'"
  have "runs_Get k d' = (if k = r_RunID r then Inr r else runs_Get k d)" for k
    by (rule run_repo.update_get[OF upd])
  then show "runs_progress d d'"
    using get run_later_step[OF step] by (auto simp: runs_progress_def)
qed (auto intro!: progress_same simp: writes_keep_runs handoff_writes_keep_runs outcome_writes_keep_runs)

section \<open>Packets\<close>

definition packet_later :: "Packet \<Rightarrow> Packet \<Rightarrow> bool" where
  "packet_later p p' \<longleftrightarrow> p' = p \<or> h_Status p = HandoffStatusCreated
     \<and> (\<exists>who notes at. p' = packet_with_status HandoffStatusAccepted who notes at p)"

definition packets_progress :: "Db \<Rightarrow> Db \<Rightarrow> bool" where
  "packets_progress d d' \<longleftrightarrow>
     (\<forall>k p. handoffs_Get k d = Inr p \<longrightarrow> (\<exists>p'. handoffs_Get k d' = Inr p' \<and> packet_later p p'))"

lemma packet_with_status_status [simp]: "h_Status (packet_with_status st who notes at p) = st"
  by (simp add: packet_with_status_def Let_def)

lemma packet_later_trans: "packet_later p p' \<Longrightarrow> packet_later p' p'' \<Longrightarrow> packet_later p p''"
  by (auto simp: packet_later_def)

lemma packets_same: "db_packets d' = db_packets d \<Longrightarrow> packets_progress d d'"
  by (auto simp: packets_progress_def handoffs_Get_def packet_later_def)

lemma packet_created: "handoffs_Create p d = Inr d' \<Longrightarrow> packets_progress d d'"
  by (auto simp: packets_progress_def handoffs_Create_def handoffs_Get_def Let_def inserted_Inr_iff
      packet_later_def tbl_get_append dest!: tbl_insert_append split: option.splits)

lemma packet_accepted:
  assumes "handoffs_UpdateStatus t k HandoffStatusAccepted who notes at d = Inr d'"
    and "handoffs_Get k d = Inr p" and "h_Status p = HandoffStatusCreated"
  shows "packets_progress d d'"
proof -
  let ?p' = "packet_with_status HandoffStatusAccepted who notes at p"
  obtain row where row: "tbl_get pr_key k (db_packets d) = Some row"
    and d': "d' = d\<lparr>db_packets := map (\<lambda>r. if pr_key r = k
      then r\<lparr>pr_packet := packet_with_status HandoffStatusAccepted who notes at (pr_packet row)\<rparr> else r) (db_packets d)\<rparr>"
    using assms(1) by (rule accept_rows)
  have p: "pr_packet row = p" using assms(2) row by (simp add: handoffs_Get_def)
  have kp: "h_HandoffID p = k" using tbl_get_key[OF row] by (simp add: pr_key_def p)
  have "tbl_get pr_key j (map (\<lambda>r. if pr_key r = k then r\<lparr>pr_packet := ?p'\<rparr> else r) rows) =
      map_option (\<lambda>r. if j = k then r\<lparr>pr_packet := ?p'\<rparr> else r) (tbl_get pr_key j rows)" for j rows
    by (induction rows) (auto simp: tbl_get_def kp)
  then have "tbl_get pr_key j (db_packets d') =
      map_option (\<lambda>r. if j = k then r\<lparr>pr_packet := ?p'\<rparr> else r) (tbl_get pr_key j (db_packets d))" for j
    unfolding d' p by simp
  then have "handoffs_Get j d' = (if j = k then Inr ?p' else handoffs_Get j d)" for j
    using row by (cases "tbl_get pr_key j (db_packets d)") (auto simp: handoffs_Get_def)
  then show ?thesis
    using assms(2,3) by (auto simp: packets_progress_def packet_later_def)
qed

interpretation packets: opstep_frame packets_progress
proof unfold_locales
  fix d d' d'' :: Db
  show "packets_progress d d' \<Longrightarrow> packets_progress d' d'' \<Longrightarrow> packets_progress d d''"
    unfolding packets_progress_def by (blast intro: packet_later_trans)
next
  fix p and d d' :: Db
  show "handoffs_Create p d = Inr d' \<Longrightarrow> packets_progress d d'" by (rule packet_created)
next
  fix k p t who remarks at and d d' :: Db
  show "handoffs_Get k d = Inr p \<Longrightarrow> h_Status p = HandoffStatusCreated \<Longrightarrow>
      handoffs_UpdateStatus t k HandoffStatusAccepted who remarks at d = Inr d' \<Longrightarrow> packets_progress d d'"
    by (rule packet_accepted)
qed (auto intro!: packets_same simp: write_defs)

section \<open>Launches\<close>

definition launches_progress :: "Db \<Rightarrow> Db \<Rightarrow> bool" where
  "launches_progress d d' \<longleftrightarrow> (\<forall>k l. handoffs_GetLaunch k d = Inr l \<longrightarrow>
     (\<exists>l'. handoffs_GetLaunch k d' = Inr l' \<and> (l' = l \<or> launch_step l l')))"

lemma launches_same: "db_launches d' = db_launches d \<Longrightarrow> launches_progress d d'"
  by (auto simp: launches_progress_def handoffs_GetLaunch_def)

lemma launch_settled: "launch_step l l' \<Longrightarrow> \<not> launch_step l' l''"
  by (auto simp: launch_step_def)

lemma launch_created: "handoffs_CreateLaunch l d = Inr d' \<Longrightarrow> launches_progress d d'"
  by (auto simp: launches_progress_def handoffs_CreateLaunch_def handoffs_GetLaunch_def found_def
      inserted_Inr_iff tbl_get_append dest!: tbl_insert_append split: option.splits)

lemma launch_written:
  assumes "handoffs_UpdateLaunch l d = Inr d'" and "handoffs_GetLaunch (l_AttemptID l) d = Inr old"
    and "launch_step old l"
  shows "launches_progress d d'"
proof -
  let ?f = "\<lambda>old. l\<lparr>l_Version := l_Version old, l_AttemptID := l_AttemptID old, l_HandoffID := l_HandoffID old,
    l_TaskID := l_TaskID old, l_TargetWorker := l_TargetWorker old, l_CreatedAt := l_CreatedAt old\<rparr>"
  have upd: "tbl_update l_AttemptID (l_AttemptID l) ?f (db_launches d) = Some (db_launches d')"
    using assms(1) by (auto simp: handoffs_UpdateLaunch_def updated_Inr_iff)
  obtain row where row: "tbl_get l_AttemptID (l_AttemptID l) (db_launches d) = Some row"
    and old: "old = row\<lparr>l_Version := 1\<rparr>"
    using assms(2) by (auto simp: handoffs_GetLaunch_def found_def split: option.splits)
  have same: "(?f row)\<lparr>l_Version := 1\<rparr> = l"
    using assms(3) by (simp add: old launch_step_def same_launch_def)
  have "tbl_get l_AttemptID k (db_launches d') = (if k = l_AttemptID l
      then map_option ?f (tbl_get l_AttemptID k (db_launches d)) else tbl_get l_AttemptID k (db_launches d))" for k
    by (rule tbl_get_update[OF upd]) simp
  then have "handoffs_GetLaunch k d' = (if k = l_AttemptID l then Inr l else handoffs_GetLaunch k d)" for k
    using row same by (simp add: handoffs_GetLaunch_def found_def)
  then show ?thesis using assms(2,3) by (auto simp: launches_progress_def)
qed

interpretation launches: opstep_frame launches_progress
proof unfold_locales
  fix d d' d'' :: Db
  show "launches_progress d d' \<Longrightarrow> launches_progress d' d'' \<Longrightarrow> launches_progress d d''"
    unfolding launches_progress_def using launch_settled by metis
next
  fix l and d d' :: Db
  show "handoffs_CreateLaunch l d = Inr d' \<Longrightarrow> launches_progress d d'" by (rule launch_created)
next
  fix l old and d d' :: Db
  show "handoffs_GetLaunch (l_AttemptID l) d = Inr old \<Longrightarrow> launch_step old l \<Longrightarrow>
      handoffs_UpdateLaunch l d = Inr d' \<Longrightarrow> launches_progress d d'"
    by (rule launch_written)
qed (auto intro!: launches_same simp: write_defs elim: accept_rows)

end
