(* ===== verification/Steps.thy ===== *)
theory Steps
  imports Ledger
begin

text \<open>
  The daemon serves requests concurrently; what is atomic is the transaction. \<open>coord_step\<close> is
  one transaction of one operation, or the world around the coordinator moving on. The values
  a transaction takes from before it opened - an assessment, a prepared run, the worker's
  result - are arbitrary, so any interleaving of operations is a sequence of steps. Every
  operation of the coordinator is shown to be such a sequence.
\<close>

section \<open>Transactions as steps\<close>

inductive coord_step :: "Deps \<Rightarrow> worker \<Rightarrow> encoder \<Rightarrow> World \<Rightarrow> World \<Rightarrow> bool" for E W J where
  step_tick: "coord_step E W J w (w\<lparr>w_tick := n\<rparr>)"
| step_sessions: "coord_step E W J w (w\<lparr>w_sessions := ss\<rparr>)"
| step_shell: "coord_step E W J w (w\<lparr>w_shell := x\<rparr>)"
| step_now: "coord_step E W J w (w\<lparr>w_db := (w_db w)\<lparr>db_now := now\<rparr>\<rparr>)"
| step_start: "StartTask E goal root w = (r, w') \<Longrightarrow> coord_step E W J w w'"
| step_message: "message_tx E t text w = (r, w') \<Longrightarrow> coord_step E W J w w'"
| step_checkpoint: "checkpoint_tx E t w = (r, w') \<Longrightarrow> coord_step E W J w w'"
| step_noop: "on_capsule t (\<lambda>caps. startRunNoop E caps rq) w = (r, w') \<Longrightarrow> coord_step E W J w w'"
| step_complete: "on_capsule t (\<lambda>caps. completeRun E caps rq) w = (r, w') \<Longrightarrow> coord_step E W J w w'"
| step_interrupt: "on_capsule t (\<lambda>caps. interruptRun E caps rq) w = (r, w') \<Longrightarrow> coord_step E W J w w'"
| step_prepare: "prepareRealRun E W rq w = (pr, w') \<Longrightarrow> coord_step E W J w w'"
| step_finalize: "finalizeRealRun E p x err w = (r, w') \<Longrightarrow> coord_step E W J w w'"
| step_continue: "withTx (finalizeContinue E a rv) w = (ct, w') \<Longrightarrow> coord_step E W J w w'"
| step_no_mutation: "recordNoMutationContinueOutcome E a rv w = (ct, w') \<Longrightarrow> coord_step E W J w w'"
| step_action: "commitRecoveryAction E t a act update w = (ro, w') \<Longrightarrow> coord_step E W J w w'"
| step_resume: "resume_tx E t a rv summary ns w = (ro, w') \<Longrightarrow> coord_step E W J w w'"
| step_continue_recovery: "continue_tx E t a rv l w = (ro, w') \<Longrightarrow> coord_step E W J w w'"
| step_rebrief: "rebrief_tx E t a l w = (ro, w') \<Longrightarrow> coord_step E W J w w'"
| step_blocked_handoff: "blocked_tx E t reason target hq w = (ch, w') \<Longrightarrow> coord_step E W J w w'"
| step_handoff: "handoff_tx E t a target hq w = (ch, w') \<Longrightarrow> coord_step E W J w w'"
| step_accept: "AcceptHandoff E aq w = (ah, w') \<Longrightarrow> coord_step E W J w w'"
| step_no_launcher: "recordHandoffLaunchBlockedWithoutAdapter E t lq w = (lr, w') \<Longrightarrow> coord_step E W J w w'"
| step_prepare_launch: "prepareHandoffLaunch E J t lq w = (pl, w') \<Longrightarrow> coord_step E W J w w'"
| step_follow: "follow_tx E t fq w = (fr, w') \<Longrightarrow> coord_step E W J w w'"
| step_launched: "finalizeHandoffLaunch E pl lx lerr w = (lr, w') \<Longrightarrow> coord_step E W J w w'"
| step_resolution: "resolution_tx E t sq w = (sr, w') \<Longrightarrow> coord_step E W J w w'"
| step_proof: "appendProof E caps ev who what details run w = (u, w') \<Longrightarrow> coord_step E W J w w'"
| step_acknowledged: "ack_proof_tx E t gap w = (u, w') \<Longrightarrow> coord_step E W J w w'"
| step_operator: "step_tx E t os w = (u, w') \<Longrightarrow> coord_step E W J w w'"
| step_triage: "TrimSpace (tg_Summary tg) \<noteq> [] \<Longrightarrow> triage_tx E t tg w = (u, w') \<Longrightarrow>
    coord_step E W J w w'"
| step_follow_up: "TrimSpace (fu_Summary fu) \<noteq> [] \<Longrightarrow> follow_up_tx E t fu w = (u, w') \<Longrightarrow>
    coord_step E W J w w'"

definition steps :: "Deps \<Rightarrow> worker \<Rightarrow> encoder \<Rightarrow> World \<Rightarrow> World \<Rightarrow> bool" where
  "steps E W J = (coord_step E W J)\<^sup>*\<^sup>*"

section \<open>What holds across every transaction holds across every step\<close>

context opstep_frame
begin

lemma tx_frames:
  "frames (on_db (guarded R)) (message_tx E t text)"
  "frames (on_db (guarded R)) (checkpoint_tx E t)"
  "frames (on_db (guarded R)) (resume_tx E t a rv summary ns)"
  "frames (on_db (guarded R)) (continue_tx E t a rv l)"
  "frames (on_db (guarded R)) (rebrief_tx E t a l)"
  "frames (on_db (guarded R)) (commitRecoveryAction E t a act update)"
  unfolding message_tx_def checkpoint_tx_def resume_tx_def continue_tx_def rebrief_tx_def
    commitRecoveryAction_def Let_def
  by (intro op_after op_frames)+

lemma run_frames:
  "frames (on_db (guarded R)) (on_capsule t (\<lambda>caps. startRunNoop E caps rq))"
  "frames (on_db (guarded R)) (on_capsule t (\<lambda>caps. completeRun E caps rq))"
  "frames (on_db (guarded R)) (on_capsule t (\<lambda>caps. interruptRun E caps rq))"
  unfolding on_capsule_def by (intro op_startRunNoop op_completeRun op_interruptRun op_frames)+

lemma continue_frames:
  "frames (on_db (guarded R)) (withTx (finalizeContinue E a rv))"
  "frames (on_db (guarded R)) (recordNoMutationContinueOutcome E a rv)"
  unfolding recordNoMutationContinueOutcome_def Let_def
  by (intro op_finalizeContinue op_frames)+

lemma handoff_frames:
  "frames (on_db (guarded R)) (blocked_tx E t reason target hq)"
  "frames (on_db (guarded R)) (handoff_tx E t a target hq)"
  "frames (on_db (guarded R)) (follow_tx E t fq)"
  unfolding blocked_tx_def handoff_tx_def follow_tx_def tryReuseExistingHandoff_def
    handoff_checkpoint_def create_packet_def buildHandoffPacket_def Let_def
  by (intro op_recordBlocked handoff_writes op_frames)+

lemma op_ack_proof: "frames (on_db (guarded R)) (ack_proof_tx E t gap)"
  unfolding ack_proof_tx_def by (intro op_frames)

lemmas step_frames = op_StartTask tx_frames run_frames op_prepareRealRun op_finalizeRealRun
  continue_frames handoff_frames op_AcceptHandoff op_withoutAdapter op_prepareHandoffLaunch
  op_finalizeHandoffLaunch op_resolution_tx op_append op_ack_proof op_step_tx

lemma step_holds: "coord_step E W J w w' \<Longrightarrow> on_db (guarded R) w w'"
proof (induction rule: coord_step.induct)
  case (step_now w now)
  then show ?case by (simp add: on_db_def guarded_def runs_ok_def w_now)
next
  case (step_tick w n)
  then show ?case by (simp add: on_db_def guarded_def w_refl)
next
  case (step_sessions w ss)
  then show ?case by (simp add: on_db_def guarded_def w_refl)
next
  case (step_shell w x)
  then show ?case by (simp add: on_db_def guarded_def w_refl)
next
  case (step_triage tg t w u w')
  then show ?case by (rule framesD[OF op_triage_tx])
next
  case (step_follow_up fu t w u w')
  then show ?case by (rule framesD[OF op_follow_up_tx])
qed (erule framesD[rotated], rule step_frames)+

lemma steps_hold: "steps E W J w w' \<Longrightarrow> on_db (guarded R) w w'"
  unfolding steps_def
proof (induction rule: rtranclp_induct)
  case base
  then show ?case by (rule g.world.frame_refl)
next
  case (step w' w'')
  then show ?case using g.world.frame_trans step_holds by blast
qed

lemma steps_relate: "steps E W J w w' \<Longrightarrow> runs_ok (w_db w) \<Longrightarrow> R (w_db w) (w_db w')"
  using steps_hold by (auto simp: on_db_def guarded_def)

lemma steps_runs_ok: "steps E W J w w' \<Longrightarrow> runs_ok (w_db w) \<Longrightarrow> runs_ok (w_db w')"
  using steps_hold by (auto simp: on_db_def guarded_def)

end

section \<open>Every operation is a sequence of steps\<close>

interpretation atomic: state_frame "steps E W J"
  by unfold_locales (auto simp: steps_def)

lemma one_step: "(\<And>w r w'. m w = (r, w') \<Longrightarrow> coord_step E W J w w') \<Longrightarrow> frames (steps E W J) m"
  by (rule framesI) (auto simp: steps_def)

lemma atomic_tick: "frames (steps E W J) (tick f)"
  by (rule one_step) (auto simp: tick_run intro: step_tick)

lemma atomic_read: "frames (steps E W J) (db_read f)"
  by (rule framesI) (auto simp: db_read_run steps_def)

lemma atomic_assess: "frames (steps E W J) (assess E t)"
  unfolding assess_def captureAnchor_def by (intro atomic.frame_rules atomic_tick atomic_read)

lemma atomic_guard: "frames (steps E W J) (guard_mutation E t mutation)"
  unfolding guard_mutation_def by (intro atomic.frame_rules atomic_assess)

lemma atomic_wrapping: "frames (steps E W J) m \<Longrightarrow> frames (steps E W J) (wrapping s m)"
  by (rule framesI) (auto simp: wrapping_def split: prod.splits sum.splits dest: framesD)

lemma atomic_txs:
  "frames (steps E W J) (StartTask E goal root)"
  "frames (steps E W J) (message_tx E t text)"
  "frames (steps E W J) (checkpoint_tx E t)"
  "frames (steps E W J) (on_capsule t (\<lambda>caps. startRunNoop E caps rq))"
  "frames (steps E W J) (on_capsule t (\<lambda>caps. completeRun E caps rq))"
  "frames (steps E W J) (on_capsule t (\<lambda>caps. interruptRun E caps rq))"
  "frames (steps E W J) (prepareRealRun E W rq)"
  "frames (steps E W J) (finalizeRealRun E p x err)"
  "frames (steps E W J) (withTx (finalizeContinue E a rv))"
  "frames (steps E W J) (recordNoMutationContinueOutcome E a rv)"
  "frames (steps E W J) (commitRecoveryAction E t a act update)"
  "frames (steps E W J) (resume_tx E t a rv summary ns)"
  "frames (steps E W J) (continue_tx E t a rv l)"
  "frames (steps E W J) (rebrief_tx E t a l)"
  "frames (steps E W J) (blocked_tx E t reason target hq)"
  "frames (steps E W J) (handoff_tx E t a target hq)"
  "frames (steps E W J) (AcceptHandoff E aq)"
  "frames (steps E W J) (recordHandoffLaunchBlockedWithoutAdapter E t lq)"
  "frames (steps E W J) (prepareHandoffLaunch E J t lq)"
  "frames (steps E W J) (follow_tx E t fq)"
  "frames (steps E W J) (finalizeHandoffLaunch E pl lx lerr)"
  "frames (steps E W J) (resolution_tx E t sq)"
  "frames (steps E W J) (appendProof E caps ev who what details run)"
  "frames (steps E W J) (ack_proof_tx E t gap)"
  "frames (steps E W J) (step_tx E t os)"
  by (rule one_step, erule coord_step.intros)+

lemma atomic_incidents:
  "TrimSpace (tg_Summary tg) \<noteq> [] \<Longrightarrow> frames (steps E W J) (triage_tx E t tg)"
  "TrimSpace (fu_Summary fu) \<noteq> [] \<Longrightarrow> frames (steps E W J) (follow_up_tx E t fu)"
  by (rule one_step, rule coord_step.intros; assumption)+

lemma atomic_shell_read: "frames (steps E W J) (shell_read f)"
  by (rule framesI) (auto simp: shell_read_def steps_def)

lemma atomic_shell_write: "frames (steps E W J) (shell_write E f)"
proof (rule framesI)
  fix w r w'
  assume run: "shell_write E f w = (r, w')"
  then obtain x where w': "w' = w\<lparr>w_shell := x, w_tick := Suc (w_tick w)\<rparr>"
    by (auto simp: shell_write_def split: prod.splits)
  have "coord_step E W J w (w\<lparr>w_shell := x\<rparr>)" by (rule step_shell)
  moreover have "coord_step E W J (w\<lparr>w_shell := x\<rparr>) w'" using step_tick[of E W J "w\<lparr>w_shell := x\<rparr>"] by (simp add: w')
  ultimately show "steps E W J w w'" unfolding steps_def by (meson rtranclp.simps)
qed

lemma atomic_upsert: "frames (steps E W J) (modify (\<lambda>w. w\<lparr>w_sessions := g w\<rparr>))"
  by (rule one_step) (auto simp: modify_def intro: step_sessions)

lemmas atomic_rules = atomic_txs atomic.frame_rules atomic_tick atomic_read atomic_assess
  atomic_guard atomic_wrapping atomic_shell_read atomic_shell_write atomic_upsert
  atomic_incidents

lemma atomic_dispatched: "frames (steps E W J) m \<Longrightarrow> frames (steps E W J) (dispatched s m f)"
  unfolding dispatched_def by (intro atomic_rules)

lemmas atomic_unfold = RunTask_def startRunRealStaged_def buildExecutionRequest_def agentsMetadata_def
  ExecuteInterruptedResume_def ExecuteContinueRecovery_def ExecuteRebrief_def LaunchHandoff_def
  RecordHandoffResolution_def clock_def idGenerator_def Let_def

lemma atomic_dispatch: "frames (steps E W J) (dispatchPrimaryOperatorStep E W J L t s hc)"
  unfolding dispatchPrimaryOperatorStep_def atomic_unfold
  by (cases "es_Action s"; simp only: OperatorAction.case) (intro atomic_dispatched atomic_rules)+

lemma atomic_next: "frames (steps E W J) (ExecutePrimaryOperatorStep E W J L q)"
  unfolding ExecutePrimaryOperatorStep_def recordOperatorStepReceipt_def
    buildPrimaryOperatorStepExecutionResult_def recordOperatorReviewGapAcknowledgmentFromProgression_def
    classifiedShellSessions_def records_of_def clock_def idGenerator_def Let_def
  by (intro atomic_dispatch atomic_rules)


section \<open>Reachable worlds\<close>

text \<open>The world the daemon starts from: an empty database.\<close>

definition start_world :: "go_time \<Rightarrow> World" where
  "start_world now = \<lparr>w_db = empty_db now, w_sessions = [], w_shell = empty_shell, w_tick = 0\<rparr>"

definition reachable :: "Deps \<Rightarrow> worker \<Rightarrow> encoder \<Rightarrow> World \<Rightarrow> bool" where
  "reachable E W J w \<longleftrightarrow> (\<exists>now. steps E W J (start_world now) w)"

lemma start_ok: "runs_ok (w_db (start_world now))" "ledger_ok (w_db (start_world now))"
  by (simp_all add: start_world_def empty_db_def runs_ok_def tbl_ok_def ledger_ok_def task_numbers_def)

lemma reachable_runs_ok: "reachable E W J w \<Longrightarrow> runs_ok (w_db w)"
  using hist.steps_runs_ok start_ok(1) unfolding reachable_def by blast

lemma reachable_steps: "reachable E W J w \<Longrightarrow> steps E W J w w' \<Longrightarrow> reachable E W J w'"
  unfolding reachable_def using atomic.frame_trans by blast

text \<open>
  C0. Along every sequence of steps the recorded history only grows: proof events, messages,
  intents, briefs, checkpoints, recovery actions, acknowledgments, follow-throughs and
  resolutions are appended to and never changed or removed, and no task, run, packet or launch
  disappears. Run ids are unique in every reachable world (\<open>reachable_runs_ok\<close>).
\<close>

theorem history_append_only:
  assumes "runs_ok (w_db w)" and "steps E W J w w'"
  shows "history_kept (w_db w) (w_db w')"
  using assms(2,1) by (rule hist.steps_relate)


lemma run_persists:
  assumes "runs_ok (w_db w)" and "steps E W J w w'" and "runs_Get k (w_db w) = Inr r"
  obtains r' where "runs_Get k (w_db w') = Inr r'" and "run_later r r'"
  using progress.steps_relate[OF assms(2,1)] assms(3) unfolding runs_progress_def by blast

lemma settled_run_kept:
  assumes "runs_ok (w_db w)" and "steps E W J w w'" and "runs_Get k (w_db w) = Inr r"
    and "terminal (r_Status r)"
  shows "runs_Get k (w_db w') = Inr r"
  using run_persists[OF assms(1-3)] terminal_later assms(4) by metis

text \<open>
  C5. A run, once recorded, is found under its id for ever; it keeps its identity, its status
  moves only along CREATED, RUNNING and then one of INTERRUPTED, COMPLETED, FAILED, and once
  it has one of these three nothing about it changes again.
\<close>

theorem runs_follow_life_cycle:
  assumes "runs_ok (w_db w)" and "steps E W J w w'" and "runs_Get k (w_db w) = Inr r"
  shows "\<exists>r'. runs_Get k (w_db w') = Inr r' \<and> run_step\<^sup>*\<^sup>* r r' \<and> same_run r r'
     \<and> (if terminal (r_Status r) then r' = r else True)"
proof -
  obtain r' where "runs_Get k (w_db w') = Inr r'" and "run_later r r'"
    using run_persists[OF assms] by blast
  then show ?thesis
    using run_later_identity terminal_later unfolding run_later_def[symmetric] by auto
qed

text \<open>
  C20. A handoff packet, once created, is found under its id for ever and changes at most once:
  when it is accepted. Everything but its acceptance and its notes is fixed at creation.
\<close>

theorem packets_accepted_once:
  assumes "runs_ok (w_db w)" and "steps E W J w w'" and "handoffs_Get k (w_db w) = Inr p"
  shows "\<exists>p'. handoffs_Get k (w_db w') = Inr p' \<and> (p' = p \<or> h_Status p = HandoffStatusCreated
     \<and> (\<exists>who notes at. p' = packet_with_status HandoffStatusAccepted who notes at p))"
  using packets.steps_relate[OF assms(2,1)] assms(3)
  unfolding packets_progress_def packet_later_def by blast

text \<open>
  C24. A handoff launch, once requested, is found under its attempt for ever and is settled at
  most once: a requested launch becomes completed or failed, keeping its packet, worker, payload
  and times, and a launch that has settled is never written again.
\<close>

theorem launches_settle_once:
  assumes "runs_ok (w_db w)" and "steps E W J w w'" and "handoffs_GetLaunch k (w_db w) = Inr l"
  shows "\<exists>l'. handoffs_GetLaunch k (w_db w') = Inr l'
     \<and> (l' = l \<or> same_launch l l' \<and> l_Status l = LaunchStatusRequested
           \<and> l_Status l' \<in> {LaunchStatusCompleted, LaunchStatusFailed})"
  using launches.steps_relate[OF assms(2,1)] assms(3)
  unfolding launches_progress_def launch_step_def by blast

text \<open>
  C11. Once a run has been interrupted, completed or failed - by an operator, or by a continue
  that took it for stale while its worker was still executing - the result the worker brings
  back is refused at whatever later time it arrives, and the database is left as it is.
\<close>

theorem late_result_refused:
  assumes "runs_ok (w_db w)" and "steps E W J w w'" and "runs_Get (p_RunID p) (w_db w) = Inr r"
    and "terminal (r_Status r)"
  shows "(case finalizeRealRun E p x err w' of
       (Inl e, w'') \<Rightarrow> w_db w'' = w_db w' | (Inr result, w'') \<Rightarrow> False)"
proof -
  have run: "runs_Get (p_RunID p) (w_db w') = Inr r" using assms by (rule settled_run_kept)
  have st: "r_Status r \<noteq> RunStatusRunning" using assms(4) by (auto simp: terminal_def)
  show ?thesis
    by (cases "capsules_Get (p_TaskID p) (w_db w')")
      (simp_all add: finalizeRealRun_def withTx_def bnd_def db_read_run run st throw_run del: append_Cons)
qed

end
