(* ===== verification/Guarantees.thy ===== *)
theory Guarantees
  imports Steps
begin

text \<open>
  What single operations guarantee: failed operations leave the database alone, runs start
  only behind the recovery gate, local mutations are refused while a Claude branch owns the
  task, decisions are recorded only in the recovery class they answer, and launches are not
  requested twice. The proofs follow the operations with a calculus of preconditions.
\<close>

lemma frames_snd: "frames F m \<Longrightarrow> F w (snd (m w))"
  by (rule framesD[where r = "fst (m w)"]) simp_all

section \<open>Failed operations\<close>

definition failure_keeps_db :: "'a op \<Rightarrow> bool" where
  "failure_keeps_db m \<longleftrightarrow>
     (\<forall>w. case m w of (Inl e, w') \<Rightarrow> w_db w' = w_db w | (Inr a, w') \<Rightarrow> True)"

lemma keepsI: "(\<And>w e w'. m w = (Inl e, w') \<Longrightarrow> w_db w' = w_db w) \<Longrightarrow> failure_keeps_db m"
  by (auto simp: failure_keeps_db_def split: prod.splits sum.splits)

lemma keepsD: "failure_keeps_db m \<Longrightarrow> m w = (Inl e, w') \<Longrightarrow> w_db w' = w_db w"
  by (auto simp: failure_keeps_db_def split: prod.splits sum.splits dest!: spec[of _ w])

lemma keeps_tx: "failure_keeps_db (withTx m)"
  by (rule keepsI) (auto simp: withTx_def split: prod.splits sum.splits)

lemma keeps_quiet: "frames (on_db (=)) m \<Longrightarrow> failure_keeps_db m"
  by (rule keepsI) (rule quietD)

lemma keeps_bnd:
  assumes "frames (on_db (=)) m" and "\<And>a. failure_keeps_db (f a)"
  shows "failure_keeps_db (bnd m f)"
proof (rule keepsI)
  fix w e w'
  assume run: "bnd m f w = (Inl e, w')"
  obtain q u where m: "m w = (q, u)" by fastforce
  have "w_db u = w_db w" by (rule quietD[OF assms(1) m])
  then show "w_db w' = w_db w"
    using run m keepsD[OF assms(2)] by (cases q) (auto simp: bnd_def)
qed

lemma keeps_seq: "frames (on_db (=)) m \<Longrightarrow> failure_keeps_db k \<Longrightarrow> failure_keeps_db (seq m k)"
  unfolding seq_def by (rule keeps_bnd)

lemma keeps_if: "failure_keeps_db m \<Longrightarrow> failure_keeps_db k \<Longrightarrow> failure_keeps_db (if c then m else k)"
  by simp

lemma keeps_option:
  "failure_keeps_db m \<Longrightarrow> (\<And>a. failure_keeps_db (f a)) \<Longrightarrow>
     failure_keeps_db (case v of None \<Rightarrow> m | Some a \<Rightarrow> f a)"
  by (cases v) simp_all

lemma keeps_prod: "(\<And>a b. failure_keeps_db (f a b)) \<Longrightarrow> failure_keeps_db (case v of (a, b) \<Rightarrow> f a b)"
  by (cases v) simp

lemma keeps_plain: "failure_keeps_db (throw e)" "failure_keeps_db (ret a)"
  by (auto simp: failure_keeps_db_def throw_run ret_run)

lemmas keeps_rules = keeps_plain keeps_tx keeps_if keeps_option keeps_prod keeps_bnd keeps_seq

text \<open>Reads and calls that touch no table, for the first argument of \<open>keeps_bnd\<close>.\<close>

lemmas quiet_rules = quiet.call_frames

lemma t_quiet: "frames (on_db (=)) m \<Longrightarrow> triple (\<lambda>u. w_db u = d) m (\<lambda>_ u. w_db u = d)"
  by (erule t_frame) (simp add: on_db_def)

text \<open>A recorded receipt is answered with reads that cannot fail.\<close>

lemma keeps_then_total:
  assumes "failure_keeps_db m" and "\<And>w a w'. m w = (Inr a, w') \<Longrightarrow> \<exists>b u. k w' = (Inr b, u)"
  shows "failure_keeps_db (seq m k)"
  by (rule keepsI) (auto simp: seq_def bnd_def split: prod.splits sum.splits dest: keepsD[OF assms(1)] assms(2))

lemma projection_total: "\<exists>x. continuityIncidentTriageReadProjection t d = Inr x"
  by (auto simp: continuityIncidentTriageReadProjection_def Let_def followups_LatestByTaskAnchor_def
      rbnd_def split: option.splits)

lemma triage_resulkeeps_then_total: "\<exists>r. triage_result t m a reused g w = (Inr r, w)"
  using projection_total[of t "w_db w"]
  by (auto simp: triage_result_def bnd_def db_read_run ret_run split: prod.splits)

lemma history_total:
  assumes "capsules_Get t d = Inr caps" and "TrimSpace t = t" and "t \<noteq> []"
  shows "\<exists>x. continuityIncidentFollowUpHistoryProjection t n d = Inr x"
  using assms
  by (simp add: continuityIncidentFollowUpHistoryProjection_def followup_history_def recent_followups_def
      Let_def cursor_time_def parseContinuityIncidentFollowUpActionFilter_def latest_transition_def
      transitions_LatestByTask_def)

lemma follow_up_resulkeeps_then_total:
  assumes "capsules_Get t (w_db w) = Inr caps" and "TrimSpace t = t" and "t \<noteq> []"
  shows "\<exists>r. follow_up_result t m a reused g w = (Inr r, w)"
  using projection_total[of t "w_db w"] history_total[OF assms, of 10]
  by (auto simp: follow_up_result_def bnd_def db_read_run ret_run split: prod.splits)

lemma keeps_results:
  "failure_keeps_db (triage_tx E t g)" "failure_keeps_db (follow_up_tx E t f)"
  "failure_keeps_db (triage_result t m a reused g)" "failure_keeps_db (follow_up_result t m a reused f)"
  unfolding triage_tx_def follow_up_tx_def triage_result_def follow_up_result_def
  by (intro keeps_tx keeps_quiet quiet_rules)+

lemma keeps_RecordTriage: "failure_keeps_db (RecordContinuityIncidentTriage E q)"
  unfolding RecordContinuityIncidentTriage_def Let_def
  by (intro keeps_then_total keeps_rules keeps_results quiet_rules) (use triage_resulkeeps_then_total in blast)

interpretation capsules_same: db_frame "\<lambda>d d'. db_capsules d' = db_capsules d"
  by unfold_locales auto

lemma follow_up_keeps_capsule:
  "triple (\<lambda>_. True) (follow_up_tx E t g) (\<lambda>_ u. \<exists>caps. capsules_Get t (w_db u) = Inr caps)"
  unfolding follow_up_tx_def
  apply (rule t_tx, rule t_seq[where S = "\<lambda>_. True"], rule tripleI, simp, rule t_bnd[OF t_read])
  apply (rule t_pre[OF t_frame[where F = "on_db (\<lambda>d d'. db_capsules d' = db_capsules d)"]])
    apply (unfold appendProof_def, intro capsules_same.call_frames capsules_same.frame_write)
    apply (auto simp: proofs_Append_def Let_def inserted_Inr_iff capsules_Get_def on_db_def)
  done

lemma keeps_RecordFollowUp: "failure_keeps_db (RecordContinuityIncidentFollowUp E q)"
proof (cases "TrimSpace (uq_TaskID q) = []")
  case True
  then show ?thesis by (simp add: RecordContinuityIncidentFollowUp_def Let_def keeps_plain)
next
  case False
  have step: "failure_keeps_db (seq (follow_up_tx E (TrimSpace (uq_TaskID q)) g)
      (follow_up_result (TrimSpace (uq_TaskID q)) m a False g))" for m a g
    by (rule keeps_then_total[OF keeps_results(2)], drule tripleD[OF follow_up_keeps_capsule TrueI], elim exE,
        drule follow_up_resulkeeps_then_total[OF _ TrimSpace_idem False]) blast
  show ?thesis using False
    unfolding RecordContinuityIncidentFollowUp_def Let_def
    by (simp only: if_False) (intro step keeps_rules(5-7) keeps_results quiet_rules)
qed

text \<open>
  C3. An operation that returns an error leaves the database as it found it: starting a task,
  messages, checkpoints, placeholder runs and the settling of runs, continue, the recovery
  steps, creating, accepting, launching, following up and resolving a handoff, and recording what
  came of a launch, and recording a triage or a follow-up.
\<close>

theorem failed_operations_keep_database:
  "failure_keeps_db (StartTask E goal root) \<and> failure_keeps_db (MessageTask E t text)
   \<and> failure_keeps_db (CreateCheckpoint E t)
   \<and> failure_keeps_db (on_capsule t (\<lambda>caps. startRunNoop E caps rq))
   \<and> failure_keeps_db (on_capsule t (\<lambda>caps. completeRun E caps rq))
   \<and> failure_keeps_db (on_capsule t (\<lambda>caps. interruptRun E caps rq))
   \<and> failure_keeps_db (ContinueTask E t) \<and> failure_keeps_db (RecordRecoveryAction E rr)
   \<and> failure_keeps_db (ExecuteInterruptedResume E s summary ns)
   \<and> failure_keeps_db (ExecuteContinueRecovery E s) \<and> failure_keeps_db (ExecuteRebrief E s)
   \<and> failure_keeps_db (CreateHandoff E hq) \<and> failure_keeps_db (AcceptHandoff E aq)
   \<and> failure_keeps_db (prepareHandoffLaunch E J t lq)
   \<and> failure_keeps_db (recordHandoffLaunchBlockedWithoutAdapter E t lq)
   \<and> failure_keeps_db (RecordHandoffFollowThrough E fq)
   \<and> failure_keeps_db (finalizeHandoffLaunch E pl lx lerr)
   \<and> failure_keeps_db (RecordHandoffResolution E sq)
   \<and> failure_keeps_db (RecordContinuityIncidentTriage E gq)
   \<and> failure_keeps_db (RecordContinuityIncidentFollowUp E uq)"
  unfolding StartTask_def MessageTask_def message_tx_def CreateCheckpoint_def checkpoint_tx_def
    on_capsule_def ContinueTask_def recordNoMutationContinueOutcome_def RecordRecoveryAction_def
    commitRecoveryAction_def ExecuteInterruptedResume_def resume_tx_def ExecuteContinueRecovery_def
    continue_tx_def ExecuteRebrief_def rebrief_tx_def CreateHandoff_def blocked_tx_def handoff_tx_def
    AcceptHandoff_def prepareHandoffLaunch_def recordHandoffLaunchBlockedWithoutAdapter_def
    RecordHandoffFollowThrough_def follow_tx_def finalizeHandoffLaunch_def
    RecordHandoffResolution_def resolution_tx_def Let_def
  by (intro conjI keeps_RecordTriage keeps_RecordFollowUp keeps_rules quiet_rules)

section \<open>Starting a run\<close>

lemma runs_same_writes:
  "frames (on_db (\<lambda>d d'. db_runs d' = db_runs d)) (db_write (messages_Append m))"
  "frames (on_db (\<lambda>d d'. db_runs d' = db_runs d)) (db_write (checkpoints_Create cp))"
  "frames (on_db (\<lambda>d d'. db_runs d' = db_runs d)) (db_write (capsules_Update caps))"
  by (rule runs_same.frame_write, erule writes_keep_runs)+

lemma emit_same_runs:
  "frames (on_db (\<lambda>d d'. db_runs d' = db_runs d)) (emitCanonicalConversation E caps text payload run)"
  unfolding emitCanonicalConversation_def
  by (intro append_same_runs runs_same_writes runs_same.call_frames)

lemma phase_same_runs:
  "frames (on_db (\<lambda>d d'. db_runs d' = db_runs d)) (phase_event E caps reason run)"
  unfolding phase_event_def by (rule append_same_runs)

lemma checkpoint_same_runs:
  "frames (on_db (\<lambda>d d'. db_runs d' = db_runs d))
     (createCheckpointWithOptions E caps runID trigger res descr False)"
  unfolding createCheckpointWithOptions_def Let_def when_do_def if_False
  by (intro runs_same_writes runs_same.call_frames)

lemma refuse_same_runs:
  "frames (on_db (\<lambda>d d'. db_runs d' = db_runs d)) (refuse_run E caps text payload)"
  unfolding refuse_run_def by (intro emit_same_runs runs_same.call_frames)

lemma refuse_result:
  assumes "\<And>w. P w \<Longrightarrow> db_runs (w_db w) = rs"
  shows "triple P (refuse_run E caps text payload)
    (\<lambda>x w. db_runs (w_db w) = rs \<and> rt_RunStatus x = RunStatusFailed \<and> rt_RunID x = [])"
proof (rule tripleI)
  fix w x w'
  assume P: "P w" and run: "refuse_run E caps text payload w = (Inr x, w')"
  have "db_runs (w_db w') = rs" using framesD[OF refuse_same_runs run] assms[OF P] by (simp add: on_db_def)
  moreover have "rt_RunStatus x = RunStatusFailed \<and> rt_RunID x = []"
    using run by (auto simp: refuse_run_def seq_def bnd_Inr_iff ret_run)
  ultimately show "db_runs (w_db w') = rs \<and> rt_RunStatus x = RunStatusFailed \<and> rt_RunID x = []" by simp
qed

text \<open>The run \<open>k\<close> is new since \<open>d0\<close> and RUNNING for the task.\<close>

definition started :: "Db \<Rightarrow> TaskID \<Rightarrow> RunID \<Rightarrow> World \<Rightarrow> bool" where
  "started d0 t k w \<longleftrightarrow> runs_Get k d0 = Inl ErrNoRows
     \<and> (\<exists>r. runs_Get k (w_db w) = Inr r \<and> r_Status r = RunStatusRunning \<and> r_TaskID r = t)"

lemma started_frame:
  "frames (on_db (\<lambda>d d'. db_runs d' = db_runs d)) m \<Longrightarrow> triple (started d0 t k) m (\<lambda>_. started d0 t k)"
  by (erule t_frame) (simp add: started_def on_db_def runs_Get_def)

lemma quiet_frame:
  "frames (on_db (=)) m \<Longrightarrow> triple (\<lambda>w. w_db w = d) m (\<lambda>_ w. w_db w = d)"
  by (erule t_frame) (simp add: on_db_def)

lemma started_create:
  assumes "r_RunID r = k" and "r_TaskID r = t" and "r_Status r = RunStatusRunning"
  shows "triple (\<lambda>w. w_db w = d0) (db_write (runs_Create r)) (\<lambda>_. started d0 t k)"
proof (rule t_write)
  fix w :: World and d
  assume w: "w_db w = d0" and c: "runs_Create r (w_db w) = Inr d"
  show "started d0 t k (w\<lparr>w_db := d\<rparr>)"
    using run_repo.create_get[OF c, of k] run_repo.create_free[OF c] w assms by (simp add: started_def)
qed

definition gate_open :: "Deps \<Rightarrow> TaskID \<Rightarrow> World \<Rightarrow> bool" where
  "gate_open E t w \<longleftrightarrow> (\<exists>r c u. run_start E t w = (Inr (r, True, c), u) \<and> rv_ReadyForNextRun r)"

lemma run_start_allowed:
  assumes "run_start E t w = (Inr (r, allowed, c), u)" and "allowed"
  shows "gate_open E t w"
proof -
  obtain a where "r = recoveryFromContinueAssessment a"
    and "(allowed, c) = runStartEligibility r (authorities_of a)"
    using assms(1) by (auto simp: run_start_def bnd_Inr_iff ret_run)
  then have "rv_ReadyForNextRun r" using gate_iff_ready[of a] assms(2) by (metis fst_conv)
  then show ?thesis using assms unfolding gate_open_def by auto
qed

lemma capsule_task: "capsules_Get t d = Inr caps \<Longrightarrow> c_TaskID caps = t"
  by (rule capsule_repo.get_key)

lemma prepare_outcome:
  "triple (\<lambda>w. w = w0) (prepareRealRun E W rq) (\<lambda>res w. case res of
     Inl x \<Rightarrow> db_runs (w_db w) = db_runs (w_db w0) \<and> rt_RunStatus x = RunStatusFailed \<and> rt_RunID x = []
   | Inr p \<Rightarrow> gate_open E (rq_TaskID rq) w0 \<and> started (w_db w0) (rq_TaskID rq) (p_RunID p) w)"
  (is "triple _ _ ?Q")
proof -
  let ?t = "rq_TaskID rq"
  have refused: "triple P (bnd (refuse_run E caps msg pl) (\<lambda>x. ret (Inl x))) ?Q"
    if "\<And>w. P w \<Longrightarrow> db_runs (w_db w) = db_runs (w_db w0)" for P caps msg pl
    by (rule t_bnd[OF refuse_result[OF that]]) (auto intro!: tripleI simp: ret_run)
  show ?thesis
    unfolding prepareRealRun_def Let_def
    apply (rule t_tx, rule t_bnd[OF t_read])
    subgoal for caps0
      apply (rule t_if)
       apply (rule refused, simp)
      apply (rule t_bnd[where S = "\<lambda>v w. c_TaskID caps0 = ?t \<and> run_start E ?t w0 = (Inr v, w)"])
       apply (rule tripleI, (auto dest: capsule_task)[1])
      apply (rule t_prod, rule t_prod)
      apply (rule t_if, rule refused, (auto dest: quietD[OF quiet.frame_run_start])[1])
      apply (rule t_if, rule refused, (auto dest: quietD[OF quiet.frame_run_start])[1])
      apply (rule t_known[where C = "c_TaskID caps0 = ?t \<and> gate_open E ?t w0"])
       apply (auto intro: run_start_allowed)[1]
      apply (rule t_pre[where P' = "\<lambda>w. w_db w = w_db w0"])
       apply (rule t_bnd[OF quiet_frame[OF quiet.frame_read]], rule t_bnd[OF quiet_frame[OF quiet.frame_capture]],
          rule t_bnd[OF quiet_frame[OF quiet.frame_clock]], rule t_bnd[OF quiet_frame[OF quiet.frame_chosen(1)]],
          rule t_bnd[OF quiet_frame[OF quiet.frame_chosen(2)]])
       apply (rule t_seq[OF started_create], simp add: new_run_def, simp add: new_run_def with_anchor_def, simp add: new_run_def)
       apply (rule t_bnd[OF started_frame[OF runs_same.frame_clock]], rule t_seq[OF started_frame[OF runs_same_writes(3)]],
          rule t_seq[OF started_frame[OF append_same_runs]], rule t_seq[OF started_frame[OF phase_same_runs]],
          rule t_seq[OF started_frame[OF checkpoint_same_runs]])
       apply (auto intro!: tripleI simp: ret_run)[1]
      apply (auto dest: quietD[OF quiet.frame_run_start])[1]
      done
    done
qed

text \<open>
  A real run is prepared only behind an open gate: the run is new, RUNNING and of the
  requested task, and the recovery assessment made in the same world was ready for the next
  run. A refusal reports FAILED without a run id and records no run.
\<close>

theorem run_prepared_behind_gate:
  "case prepareRealRun E W rq w of
     (Inr (Inr p), w') \<Rightarrow> gate_open E (rq_TaskID rq) w
       \<and> started (w_db w) (rq_TaskID rq) (p_RunID p) w'
   | (Inr (Inl x), w') \<Rightarrow> db_runs (w_db w') = db_runs (w_db w)
       \<and> rt_RunStatus x = RunStatusFailed \<and> rt_RunID x = []
   | (Inl e, w') \<Rightarrow> w_db w' = w_db w"
proof -
  have "failure_keeps_db (prepareRealRun E W rq)" unfolding prepareRealRun_def by (rule keeps_tx)
  then show ?thesis
    using tripleD[OF prepare_outcome[of w E W rq] refl] keepsD
    by (fastforce split: prod.splits sum.splits)
qed

lemma started_db: "w_db u = w_db w \<Longrightarrow> started d t k u = started d t k w"
  by (simp add: started_def)


section \<open>No run behind a closed gate\<close>

definition same_run_ids :: "Db \<Rightarrow> Db \<Rightarrow> bool" where
  "same_run_ids d d' \<longleftrightarrow> map r_RunID (db_runs d') = map r_RunID (db_runs d)"

interpretation run_ids: db_frame same_run_ids
  by unfold_locales (auto simp: same_run_ids_def)

lemma run_ids_same:
  "frames (on_db (\<lambda>d d'. db_runs d' = db_runs d)) m \<Longrightarrow> frames (on_db same_run_ids) m"
  by (auto simp: frames_def on_db_def same_run_ids_def)

lemma run_ids_update: "frames (on_db same_run_ids) (db_write (runs_Update r))"
  by (rule run_ids.frame_write)
    (auto simp: same_run_ids_def runs_Update_def updated_Inr_iff dest: tbl_replace_keys)

lemma checkpoint_proof_same_runs:
  "frames (on_db (\<lambda>d d'. db_runs d' = db_runs d)) (createCheckpoint E caps runID trigger res descr)"
  unfolding createCheckpoint_def createCheckpointWithOptions_def appendCheckpointCreatedProof_def Let_def
  by (intro runs_same_writes runs_same.call_frames runs_same.frame_write) (erule writes_keep_runs)

lemma run_ids_settle:
  "frames (on_db same_run_ids)
     (settle_run E caps r typ payload reason trigger resumable descriptor limit extra)"
  unfolding settle_run_def conclude_def
  by (intro run_ids.call_frames run_ids_update run_ids_same[OF runs_same_writes(3)]
      run_ids_same[OF append_same_runs] run_ids_same[OF phase_same_runs]
      run_ids_same[OF checkpoint_proof_same_runs] run_ids_same[OF emit_same_runs])

lemma run_ids_actions:
  "frames (on_db same_run_ids) (completeRun E caps rq)"
  "frames (on_db same_run_ids) (interruptRun E caps rq)"
  unfolding completeRun_def interruptRun_def Let_def
  by (intro run_ids.call_frames run_ids_settle run_ids_same[OF refuse_same_runs])+

lemma run_ids_finalize: "frames (on_db same_run_ids) (finalizeRealRun E p x err)"
  unfolding finalizeRealRun_def markRunFailed_def markRunCompleted_def Let_def
  by (intro run_ids.call_frames run_ids_settle run_ids_same[OF append_same_runs])

lemma closed_refuses:
  assumes "\<not> gate_open E t w" and "run_start E t w = (Inr (r, allowed, c), u)"
  shows "\<not> allowed"
  using assms run_start_allowed by blast

lemma noop_closed:
  assumes "\<not> gate_open E t w" and t: "c_TaskID caps = t" and run: "startRunNoop E caps rq w = (res, w')"
  shows "same_run_ids (w_db w) (w_db w')"
proof (cases "c_CurrentBriefID caps = []")
  case True
  then show ?thesis using framesD[OF run_ids_same[OF refuse_same_runs]] run
    by (simp add: startRunNoop_def on_db_def)
next
  case False
  obtain q u where rs: "run_start E t w = (q, u)" by fastforce
  have u: "w_db u = w_db w" by (rule quietD[OF quiet.frame_run_start rs])
  show ?thesis
  proof (cases q)
    case (Inl e)
    then show ?thesis using run rs u False
      by (simp add: startRunNoop_def bnd_def same_run_ids_def t)
  next
    case (Inr v)
    obtain r allowed c where v: "v = (r, allowed, c)" by (cases v)
    have closed: "\<not> allowed" using closed_refuses[OF assms(1)] rs Inr v by blast
    have "refuse_run E caps c (gate_payload r) u = (res, w')"
      using run rs False closed unfolding startRunNoop_def bnd_def Inr v t by simp
    then show ?thesis using framesD[OF run_ids_same[OF refuse_same_runs]] u by (fastforce simp: on_db_def)
  qed
qed

lemma on_capsule_run_ids:
  assumes "\<And>caps res w'. c_TaskID caps = t \<Longrightarrow> f caps w = (res, w') \<Longrightarrow> same_run_ids (w_db w) (w_db w')"
  shows "same_run_ids (w_db w) (w_db (snd (on_capsule t f w)))"
proof (cases "capsules_Get t (w_db w)")
  case (Inl e)
  then show ?thesis by (simp add: on_capsule_def withTx_def bnd_def db_read_run same_run_ids_def)
next
  case (Inr caps)
  obtain res w' where f: "f caps w = (res, w')" by fastforce
  show ?thesis using assms[OF capsule_task[OF Inr] f] Inr f
    by (cases res) (simp_all add: on_capsule_def withTx_def bnd_def db_read_run same_run_ids_def)
qed

lemma staged_closed:
  assumes "\<not> gate_open E (rq_TaskID rq) w" and run: "startRunRealStaged E W rq w = (res, w')"
  shows "same_run_ids (w_db w) (w_db w')"
proof -
  obtain q u where p: "prepareRealRun E W rq w = (q, u)" by fastforce
  have keep: "failure_keeps_db (prepareRealRun E W rq)" unfolding prepareRealRun_def by (rule keeps_tx)
  show ?thesis
  proof (cases q)
    case (Inl e)
    then show ?thesis using run p keepsD[OF keep] by (auto simp: startRunRealStaged_def bnd_def same_run_ids_def)
  next
    case (Inr v)
    note outcome = tripleD[OF prepare_outcome refl p[unfolded Inr]]
    then obtain x where v: "v = Inl x" using assms(1) by (cases v) auto
    have "w' = u" using run p unfolding Inr v by (simp add: startRunRealStaged_def bnd_def ret_run)
    then show ?thesis using outcome v by (simp add: same_run_ids_def)
  qed
qed

text \<open>
  C0. \<open>RunTask\<close>, whatever action and mode it is asked for, records a new run only in a world
  where the recovery assessment of the task is ready for its next run and the gate is open.
\<close>

theorem no_run_behind_closed_gate:
  "gate_open E (rq_TaskID rq) w \<or>
   map r_RunID (db_runs (w_db (snd (RunTask E W rq w)))) = map r_RunID (db_runs (w_db w))"
proof (cases "gate_open E (rq_TaskID rq) w")
  case False
  have "same_run_ids (w_db w) (w_db (snd (RunTask E W rq w)))"
    unfolding RunTask_def
    using staged_closed[OF False] noop_closed[OF False]
      framesD[OF run_ids_actions(1)] framesD[OF run_ids_actions(2)]
    by (auto simp: throw_run on_db_def same_run_ids_def[of d d for d] intro!: on_capsule_run_ids
        split: prod.split) (metis prod.collapse)
  then show ?thesis by (simp add: same_run_ids_def)
qed simp

section \<open>Starting a task\<close>

text \<open>
  A started task is new: its id named no task before, and afterwards names a capsule in
  phase INTAKE at version 1 with the trimmed goal, whose ledger has two more events.
\<close>

theorem started_task_is_new:
  "case StartTask E goal root w of
     (Inr st, w') \<Rightarrow> capsules_Get (st_TaskID st) (w_db w) = Inl ErrNoRows
       \<and> (case capsules_Get (st_TaskID st) (w_db w') of
            Inr c \<Rightarrow> c_CurrentPhase c = PhaseIntake \<and> c_Version c = 1 \<and> c_Goal c = TrimSpace goal
          | Inl e \<Rightarrow> False)
       \<and> length (db_proofs (w_db w')) = length (db_proofs (w_db w)) + 2
   | (Inl e, w') \<Rightarrow> w_db w' = w_db w"
proof -
  let ?new = "\<lambda>k d. capsules_Get k (w_db w) = Inl ErrNoRows
     \<and> (case capsules_Get k d of
          Inr c \<Rightarrow> c_CurrentPhase c = PhaseIntake \<and> c_Version c = 1 \<and> c_Goal c = TrimSpace goal
        | Inl e \<Rightarrow> False)"
  let ?P = "\<lambda>k n u. ?new k (w_db u) \<and> length (db_proofs (w_db u)) = length (db_proofs (w_db w)) + n"
  have quiet: "triple (?P k n) m (\<lambda>_. ?P k n)" if "frames (on_db (=)) m" for k n m
    by (rule t_frame[OF that]) (simp add: on_db_def)
  have proof_write: "triple (?P k n) (db_write (proofs_Append e)) (\<lambda>_. ?P k (Suc n))" for k n e
    by (rule t_write) (auto simp: proofs_Append_def Let_def inserted_Inr_iff capsules_Get_def dest!: tbl_insert_append)
  have message_write: "triple (?P k n) (db_write (messages_Append m)) (\<lambda>_. ?P k n)" for k n m
    by (rule t_write) (auto simp: messages_Append_def inserted_Inr_iff capsules_Get_def)
  have append: "triple (?P k n) (appendProof E caps ty actor who payload run) (\<lambda>_. ?P k (Suc n))"
    for k n caps ty actor who payload run
    unfolding appendProof_def by (rule t_bnd[OF quiet[OF quiet.frame_id]], rule t_bnd[OF quiet[OF quiet.frame_clock]], rule proof_write)
  have emit: "triple (?P k n) (emitCanonicalConversation E caps msg payload run) (\<lambda>_. ?P k (Suc n))"
    for k n caps msg payload run
    unfolding emitCanonicalConversation_def
    by (rule t_bnd[OF quiet[OF quiet.frame_id]], rule t_bnd[OF quiet[OF quiet.frame_clock]],
        rule t_seq[OF message_write append])
  have create: "triple (\<lambda>u. w_db u = w_db w) (db_write (capsules_Create (new_capsule t conv now goal anchor)))
      (\<lambda>_. ?P t 0)" for t conv now anchor
  proof (rule t_write)
    fix u :: World and d
    assume u: "w_db u = w_db w" and c: "capsules_Create (new_capsule t conv now goal anchor) (w_db u) = Inr d"
    show "?P t 0 (u\<lparr>w_db := d\<rparr>)"
      using capsule_repo.create_get[OF c, of t] capsule_repo.create_free[OF c] u c
      by (auto simp: new_capsule_def capsules_Create_def inserted_Inr_iff)
  qed
  have "triple (\<lambda>u. u = w) (StartTask E goal root) (\<lambda>st. ?P (st_TaskID st) 2)"
    unfolding StartTask_def Let_def phase_event_def
    by (rule t_tx, rule t_pre[where P' = "\<lambda>u. w_db u = w_db w"],
        rule t_bnd[OF quiet_frame[OF quiet.frame_clock]], rule t_bnd[OF quiet_frame[OF quiet.frame_id]],
        rule t_bnd[OF quiet_frame[OF quiet.frame_id]], rule t_bnd[OF quiet_frame[OF quiet.frame_capture]],
        rule t_seq[OF create], rule t_seq[OF append], rule t_seq[OF emit])
      (auto intro!: tripleI simp: ret_run)
  moreover have "failure_keeps_db (StartTask E goal root)" unfolding StartTask_def by (rule keeps_tx)
  ultimately show ?thesis by (fastforce dest: tripleD[OF _ refl] keepsD split: prod.splits sum.splits)
qed

section \<open>Continuing without mutation\<close>

text \<open>Only proof events and messages were added.\<close>

definition evidence_only :: "Db \<Rightarrow> Db \<Rightarrow> bool" where
  "evidence_only d d' \<longleftrightarrow>
     db_capsules d' = db_capsules d \<and> db_intents d' = db_intents d \<and> db_briefs d' = db_briefs d
     \<and> db_runs d' = db_runs d \<and> db_checkpoints d' = db_checkpoints d \<and> db_packets d' = db_packets d
     \<and> db_launches d' = db_launches d \<and> db_acks d' = db_acks d \<and> db_follow d' = db_follow d
     \<and> db_resolutions d' = db_resolutions d \<and> db_actions d' = db_actions d \<and> db_now d' = db_now d"

interpretation evidence: db_frame evidence_only
  by unfold_locales (auto simp: evidence_only_def)

lemma evidence_append: "frames (on_db evidence_only) (appendProof E caps typ actor who payload run)"
  unfolding appendProof_def
  by (intro evidence.call_frames evidence.frame_write)
    (auto simp: evidence_only_def proofs_Append_def Let_def inserted_Inr_iff)

lemma evidence_emit: "frames (on_db evidence_only) (emitCanonicalConversation E caps msg payload run)"
  unfolding emitCanonicalConversation_def
  by (intro evidence.call_frames evidence_append evidence.frame_write)
    (auto simp: evidence_only_def messages_Append_def inserted_Inr_iff)

text \<open>
  Continuing a task whose assessment asks for no mutation leaves evidence only: the
  capsule, the runs, the checkpoints and every other table stay as they are.
\<close>

theorem continue_without_mutation:
  "case assess E t w of
     (Inl e, u) \<Rightarrow> w_db (snd (ContinueTask E t w)) = w_db w
   | (Inr a, u) \<Rightarrow> continue_mutates a \<or> evidence_only (w_db w) (w_db (snd (ContinueTask E t w)))"
proof -
  obtain q u where a: "assess E t w = (q, u)" by fastforce
  have u: "w_db u = w_db w" by (rule quietD[OF quiet.frame_assess a])
  have evid: "frames (on_db evidence_only) (recordNoMutationContinueOutcome E b rv)" for b rv
    unfolding recordNoMutationContinueOutcome_def Let_def
    by (intro evidence.call_frames evidence_append evidence_emit)
  show ?thesis
    using frames_snd[OF evid, where w = u] u a
    by (cases q) (auto simp: ContinueTask_def bnd_def Let_def on_db_def)
qed

section \<open>Local mutations while a Claude branch owns the task\<close>

text \<open>A blocked message or checkpoint authority carries a reason.\<close>

definition spoken_for :: "OperatorAction set \<Rightarrow> OperatorActionAuthoritySet \<Rightarrow> bool" where
  "spoken_for X s \<longleftrightarrow> (\<forall>x \<in> set (os_Actions s). oa_Action x \<in> X \<longrightarrow>
     oa_State x = OperatorActionAuthorityBlocked \<longrightarrow> oa_Reason x \<noteq> [])"

lemma update_first_spoken:
  assumes "\<forall>x \<in> set xs. P x" and "\<And>x. oa_Action x = a \<Longrightarrow> P x \<Longrightarrow> P (f x)"
  shows "\<forall>x \<in> set (update_first a f xs). P x"
  using assms(1) by (induction xs) (auto simp: assms(2))

lemma spoken_set:
  assumes "spoken_for X s"
    and "a \<notin> X \<or> st \<noteq> OperatorActionAuthorityBlocked \<or> TrimSpace reason \<noteq> []"
  shows "spoken_for X (setOperatorActionState a st reason bc br s)"
  using assms unfolding spoken_for_def setOperatorActionState_def
  by simp (rule update_first_spoken, auto)

lemma spoken_required [simp]: "spoken_for X (s\<lparr>os_RequiredNextAction := r\<rparr>) = spoken_for X s"
  by (simp add: spoken_for_def)

lemma claude_reason_nonempty: "TrimSpace (blockedByClaudeHandoffReason hc action) \<noteq> []"
proof -
  have "\<exists>s. blockedByClaudeHandoffReason hc action = CHR ''C'' # s"
    by (cases "hc_State hc") (simp_all add: blockedByClaudeHandoffReason_def)
  then show ?thesis using TrimSpace_nonempty[of "CHR ''C''"] by (auto simp: ascii_blank_def non_ascii_def)
qed

abbreviation mutations :: "OperatorAction set" where
  "mutations \<equiv> {OperatorActionLocalMessageMutation, OperatorActionCreateCheckpoint}"

lemma spoken_base: "spoken_for X (authority_base a branch rf lr)"
  by (simp add: spoken_for_def authority_base_def operatorActionBase_def Let_def)

lemma spoken_branch: "spoken_for X s \<Longrightarrow> spoken_for X (authority_by_branch branch hc s)"
proof -
  assume s: "spoken_for X s"
  have "spoken_for X (foldl (\<lambda>s (action, label). blockLocalAction action branch hc label s) s acts)" for acts
    using s by (induction acts arbitrary: s)
      (auto simp: blockLocalAction_def setActionBlocked_def intro!: spoken_set claude_reason_nonempty)
  then show ?thesis using s
    by (auto simp: authority_by_branch_def setters intro!: spoken_set simp del: append_Cons)
qed

lemma spoken_rest:
  assumes "spoken_for mutations s"
  shows "spoken_for mutations (authority_by_recovery a r rf s)"
    and "spoken_for mutations (authority_by_resume rf lr s)"
    and "spoken_for mutations (authority_by_handoff branch hc s)"
  using assms
  by (cases "rv_RecoveryClass r",
      simp_all add: authority_by_recovery_def block_run_start_def setters spoken_set del: append_Cons)
    (cases "lr_State lr", simp_all add: authority_by_resume_def authority_by_handoff_def setters spoken_set
      del: append_Cons)+

lemma spoken_authorities: "spoken_for mutations (authorities_of a)"
  unfolding authorities_of_def deriveOperatorActionAuthoritySet_def Let_def authority_required_def
    setActionRequiredNext_def
  by (simp add: spoken_rest spoken_branch spoken_base spoken_set)

lemma blocked_reason:
  assumes "auth_state (authorities_of a) x = Some st" and "x \<in> mutations"
    and "mutation_action m = Some x"
  shows "mutation_block a m \<noteq> [] \<longleftrightarrow> st = OperatorActionAuthorityBlocked"
proof -
  obtain y where y: "operatorActionAuthorityFor (authorities_of a) x = Some y" and st: "oa_State y = st"
    using assms(1) by (auto simp: auth_state_def)
  have "y \<in> set (os_Actions (authorities_of a)) \<and> oa_Action y = x"
    using y by (auto simp: operatorActionAuthorityFor_def find_Some_iff)
  then show ?thesis
    using spoken_authorities[of a] assms(2,3) y st by (auto simp: spoken_for_def mutation_block_def)
qed

lemma mutation_names:
  "mutation_action ''compile a new local execution brief'' = Some OperatorActionLocalMessageMutation"
  "mutation_action ''capture a new local checkpoint'' = Some OperatorActionCreateCheckpoint"
  by code_simp+

lemma mutation_block_iff:
  "mutation_block a ''compile a new local execution brief'' \<noteq> [] \<longleftrightarrow> claude_owned a"
  "mutation_block a ''capture a new local checkpoint'' \<noteq> [] \<longleftrightarrow> claude_owned a"
  using blocked_reason[OF mutation_authority(1) _ mutation_names(1)]
    blocked_reason[OF mutation_authority(2) _ mutation_names(2)] by auto

lemma guarded_outcome:
  assumes keep: "failure_keeps_db k" and block: "\<And>a. mutation_block a m \<noteq> [] \<longleftrightarrow> claude_owned a"
  shows "case seq (guard_mutation E t m) k w of
      (Inr x, w') \<Rightarrow> (\<exists>a u. assess E t w = (Inr a, u) \<and> \<not> claude_owned a)
    | (Inl e, w') \<Rightarrow> w_db w' = w_db w"
proof -
  obtain q w' where run: "seq (guard_mutation E t m) k w = (q, w')" by fastforce
  show ?thesis
  proof (cases q)
    case (Inl e)
    have "failure_keeps_db (seq (guard_mutation E t m) k)" by (rule keeps_seq[OF quiet.frame_guard keep])
    then show ?thesis using keepsD run Inl by fastforce
  next
    case (Inr x)
    obtain a u where "assess E t w = (Inr a, u)" and "mutation_block a m = []"
      using run[unfolded Inr] by (auto simp: seq_def guard_mutation_def bnd_Inr_iff throw_run split: if_splits)
    then show ?thesis using run Inr block by auto
  qed
qed

text \<open>
  C12. A task message and a manual checkpoint succeed only in a world where no Claude handoff
  branch owns the task; otherwise, or on any other error, the database is left as it is.
\<close>

theorem mutations_need_local_ownership:
  "(case MessageTask E t msg w of
      (Inr x, w') \<Rightarrow> (\<exists>a u. assess E t w = (Inr a, u) \<and> \<not> claude_owned a)
    | (Inl e, w') \<Rightarrow> w_db w' = w_db w)
   \<and> (case CreateCheckpoint E t w of
      (Inr x, w') \<Rightarrow> (\<exists>a u. assess E t w = (Inr a, u) \<and> \<not> claude_owned a)
    | (Inl e, w') \<Rightarrow> w_db w' = w_db w)"
  unfolding MessageTask_def CreateCheckpoint_def message_tx_def checkpoint_tx_def
  by (rule conjI[OF guarded_outcome[OF keeps_tx mutation_block_iff(1)]
    guarded_outcome[OF keeps_tx mutation_block_iff(2)]])

section \<open>Recovery decisions\<close>

interpretation actions_same: db_frame "\<lambda>d d'. db_actions d' = db_actions d"
  by unfold_locales auto

lemma actions_same_append:
  "frames (on_db (\<lambda>d d'. db_actions d' = db_actions d)) (appendProof E caps ty actor who payload run)"
  unfolding appendProof_def
  by (intro actions_same.call_frames actions_same.frame_write)
    (auto simp: proofs_Append_def Let_def inserted_Inr_iff)

lemma actions_same_emit:
  "frames (on_db (\<lambda>d d'. db_actions d' = db_actions d)) (emitCanonicalConversation E caps msg payload run)"
  unfolding emitCanonicalConversation_def
  by (intro actions_same.call_frames actions_same_append actions_same.frame_write)
    (auto simp: messages_Append_def inserted_Inr_iff)

lemma actions_same_capsule:
  "frames (on_db (\<lambda>d d'. db_actions d' = db_actions d)) (db_write (capsules_Update caps))"
  by (rule actions_same.frame_write) (auto simp: capsules_Update_def updated_Inr_iff)

lemma actions_frame:
  "frames (on_db (\<lambda>d d'. db_actions d' = db_actions d)) m \<Longrightarrow>
     triple (\<lambda>w. C \<and> db_actions (w_db w) = as) m (\<lambda>_ w. C \<and> db_actions (w_db w) = as)"
  by (erule t_frame) (simp add: on_db_def)

lemma action_write:
  assumes "ra_Kind act = kind"
  shows "triple (\<lambda>w. db_actions (w_db w) = as) (db_write (actions_Create act))
    (\<lambda>_ w. ra_Kind act = kind \<and> db_actions (w_db w) = as @ [act])"
  using assms by (intro t_write) (auto simp: actions_Create_def inserted_Inr_iff dest!: tbl_insert_append)

lemma t_lift: "triple P (lift_res x) (\<lambda>a w. P w \<and> x = Inr a)"
  by (rule tripleI) (simp add: lift_res_run)

lemma prepared_kind:
  assumes "prepareRecoveryActionRecord a r req = Inr (template, update)"
  shows "rv_RecoveryClass r \<in> recordable_in (rr_Kind req) \<and> ra_Kind template = rr_Kind req"
  using assms
  by (cases "rr_Kind req")
    (auto simp: prepareRecoveryActionRecord_def action_template_def recovery_template_def Let_def
      simp del: append_Cons split: if_splits)

text \<open>What recording a decision of a kind does to the table of decisions.\<close>

definition decision_added :: "RecoveryActionKind \<Rightarrow> Db \<Rightarrow> Db \<Rightarrow> bool" where
  "decision_added kind d d' \<longleftrightarrow>
     (\<exists>act. ra_Kind act = kind \<and> db_actions d' = db_actions d @ [act])"

lemma commit_adds:
  assumes "ra_Kind template = kind"
  shows "triple (\<lambda>w. w_db w = d) (commitRecoveryAction E t a template update)
    (\<lambda>_ w. decision_added kind d (w_db w))"
proof -
  have phase: "frames (on_db (\<lambda>d d'. db_actions d' = db_actions d))
      (case update of
            None \<Rightarrow> ret caps0
          | Some u \<Rightarrow>
             bnd (clock E) (\<lambda>now.
             seq (db_write (capsules_Update (in_phase (pu_Phase u) (pu_NextAction u) (bumped now caps0))))
             (seq (phase_event E (in_phase (pu_Phase u) (pu_NextAction u) (bumped now caps0)) (pu_Reason u) (recoveryActionRunID template))
             (ret (in_phase (pu_Phase u) (pu_NextAction u) (bumped now caps0))))))" for caps0
    unfolding phase_event_def
    by (intro actions_same.call_frames actions_same_capsule actions_same_append)
  have kind: "ra_Kind (template\<lparr>ra_ActionID := aid, ra_CreatedAt := now\<rparr>) = kind" for aid now
    using assms by simp
  note same = actions_frame[where C = True, unfolded simp_thms]
  show ?thesis
    unfolding commitRecoveryAction_def Let_def after_recovery_def
    apply (rule t_tx, rule t_pre[where P' = "\<lambda>w. db_actions (w_db w) = db_actions d"])
     apply (rule t_bnd[OF same[OF actions_same.frame_read]], rule t_if, rule t_throw,
        rule t_bnd[OF same[OF phase]], rule t_bnd[OF same[OF actions_same.frame_id]],
        rule t_bnd[OF same[OF actions_same.frame_clock]], rule t_seq[OF action_write[OF kind]])
     apply (rule t_bnd[OF actions_frame[OF actions_same.world.frame_bnd[OF actions_same.frame_assess actions_same.world.frame_ret]]],
        rule t_seq[OF actions_frame[OF actions_same_append]], rule t_seq[OF actions_frame[OF actions_same_emit]])
     apply (auto intro!: tripleI simp: ret_run decision_added_def)[1]
    apply simp
    done
qed

lemma prepared_adds:
  "triple (\<lambda>w. w_db w = d \<and> prepareRecoveryActionRecord a r req = Inr (template, update))
     (commitRecoveryAction E t a template update)
     (\<lambda>_ w. decision_added (rr_Kind req) d (w_db w) \<and> rv_RecoveryClass r \<in> recordable_in (rr_Kind req))"
proof (rule tripleI, elim conjE)
  fix w x w'
  assume run: "commitRecoveryAction E t a template update w = (Inr x, w')" and d: "w_db w = d"
    and prep: "prepareRecoveryActionRecord a r req = Inr (template, update)"
  show "decision_added (rr_Kind req) d (w_db w') \<and> rv_RecoveryClass r \<in> recordable_in (rr_Kind req)"
    using prepared_kind[OF prep] tripleD[OF commit_adds d run] by blast
qed

text \<open>
  C13. Recording a recovery decision either leaves the database as it is - an error, or a
  replay of the latest decision - or adds exactly one decision of the requested kind, and then
  the task was in a recovery class in which that kind may be recorded.
\<close>

theorem decision_recorded_in_its_class:
  "case RecordRecoveryAction E rr w of
     (Inl e, w') \<Rightarrow> w_db w' = w_db w
   | (Inr ro, w') \<Rightarrow> w_db w' = w_db w \<or> decision_added (rr_Kind rr) (w_db w) (w_db w')
       \<and> (\<exists>a u. assess E (TrimSpace (rr_TaskID rr)) w = (Inr a, u)
           \<and> rv_RecoveryClass (recoveryFromContinueAssessment a) \<in> recordable_in (rr_Kind rr))"
proof -
  let ?t = "TrimSpace (rr_TaskID rr)"
  let ?C = "\<lambda>a. \<exists>u. assess E ?t w = (Inr a, u)"
  let ?Q = "\<lambda>u. w_db u = w_db w \<or> decision_added (rr_Kind rr) (w_db w) (w_db u)
       \<and> (\<exists>a v. assess E ?t w = (Inr a, v)
           \<and> rv_RecoveryClass (recoveryFromContinueAssessment a) \<in> recordable_in (rr_Kind rr))"
  have replay: "triple (\<lambda>u. w_db u = w_db w) (case v of Some l \<Rightarrow> ret (f l) | None \<Rightarrow> throw e) (\<lambda>_. ?Q)" for v e and f :: "_ \<Rightarrow> RecoveryOutcome"
    by (cases v) (auto intro!: tripleI simp: ret_run throw_run)
  have "triple (\<lambda>u. u = w) (RecordRecoveryAction E rr) (\<lambda>_. ?Q)"
    unfolding RecordRecoveryAction_def Let_def
    apply (rule t_if, rule t_throw, rule t_if, rule t_throw, rule t_bnd[OF t_exact])
    subgoal for a
      apply (rule t_known[where C = "?C a"], blast)
      apply (rule t_pre[where P' = "\<lambda>u. w_db u = w_db w"])
       apply (rule t_if, rule replay)
       apply (rule t_bnd[OF t_lift], rule t_prod, rule t_if)
        apply (rule t_pre[OF replay], simp)
       apply (hypsubst, rule t_post[OF prepared_adds], blast)
      apply (auto dest: quietD[OF quiet.frame_assess])[1]
      done
    done
  moreover have "failure_keeps_db (RecordRecoveryAction E rr)"
    unfolding RecordRecoveryAction_def commitRecoveryAction_def Let_def by (intro keeps_rules quiet_rules)
  ultimately show ?thesis by (fastforce dest: tripleD[OF _ refl] keepsD split: prod.splits sum.splits)
qed

section \<open>Launching a handoff\<close>

text \<open>A launch of the packet may be requested: nothing durable speaks against it.\<close>

definition launchable :: "Packet \<Rightarrow> Db \<Rightarrow> continueAssessment \<Rightarrow> bool" where
  "launchable p d a \<longleftrightarrow>
     h_TargetWorker p = WorkerKindClaude \<and> h_Status p \<in> {HandoffStatusCreated, HandoffStatusAccepted}
     \<and> (\<exists>e. handoffs_LatestResolution (h_HandoffID p) d = Inl e)
     \<and> (case handoffs_LatestLaunchByHandoff (h_HandoffID p) d of
          Inr l \<Rightarrow> l_Status l = LaunchStatusFailed | Inl e \<Rightarrow> e = ErrNoRows)
     \<and> ca_Outcome a = ContinueOutcomeSafe \<and> \<not> is_running (ca_LatestRun a)"

lemma opt_rows_None: "opt_rows x = Inr None \<Longrightarrow> \<exists>e. x = Inl e"
  by (auto simp: opt_rows_def split: sum.splits)

lemma launch_safe_facts:
  assumes "validateLaunchSafety p a d = Inr []"
  shows "opt_rows (handoffs_LatestResolution (h_HandoffID p) d) = Inr None"
    and "ca_Outcome a = ContinueOutcomeSafe" and "\<not> is_running (ca_LatestRun a)" and "h_IsResumable p"
  using assms
  by (auto simp: validateLaunchSafety_def rbnd_def simp del: append_Cons
      split: sum.splits option.splits if_splits ContinueOutcome.splits)

lemma no_prior_launch:
  assumes "tryReusePriorLaunchOutcome t p d = Inr None" and "h_IsResumable p"
    and "h_TargetWorker p = WorkerKindClaude" and "h_Status p \<in> {HandoffStatusCreated, HandoffStatusAccepted}"
  shows "case handoffs_LatestLaunchByHandoff (h_HandoffID p) d of
    Inr l \<Rightarrow> l_Status l = LaunchStatusFailed | Inl e \<Rightarrow> e = ErrNoRows"
proof (cases "handoffs_LatestLaunchByHandoff (h_HandoffID p) d")
  case (Inl e)
  then show ?thesis by (auto simp: handoffs_LatestLaunchByHandoff_def found_def split: option.splits)
next
  case (Inr l)
  then show ?thesis using assms
    by (cases "l_Status l")
      (auto simp: tryReusePriorLaunchOutcome_def assessLaunchControl_def launch_outcome_control_def
        rbnd_def Let_def simp del: append_Cons split: sum.splits option.splits)
qed

interpretation launches_same: db_frame "\<lambda>d d'. db_launches d' = db_launches d"
  by unfold_locales auto

lemma launches_same_append:
  "frames (on_db (\<lambda>d d'. db_launches d' = db_launches d)) (appendProof E caps ty actor who payload run)"
  unfolding appendProof_def
  by (intro launches_same.call_frames launches_same.frame_write)
    (auto simp: proofs_Append_def Let_def inserted_Inr_iff)

lemma launches_same_emit:
  "frames (on_db (\<lambda>d d'. db_launches d' = db_launches d)) (emitCanonicalConversation E caps msg payload run)"
  unfolding emitCanonicalConversation_def
  by (intro launches_same.call_frames launches_same_append launches_same.frame_write)
    (auto simp: messages_Append_def inserted_Inr_iff)

lemma launches_frame:
  "frames (on_db (\<lambda>d d'. db_launches d' = db_launches d)) m \<Longrightarrow>
     triple (\<lambda>w. db_launches (w_db w) = ls) m (\<lambda>_ w. db_launches (w_db w) = ls)"
  by (erule t_frame) (simp add: on_db_def)

lemma blocked_keeps_launches:
  "triple (\<lambda>w. db_launches (w_db w) = ls) (recordHandoffLaunchBlocked E caps rq target reason)
     (\<lambda>_ w. db_launches (w_db w) = ls)"
  unfolding recordHandoffLaunchBlocked_def Let_def
  by (intro launches_frame launches_same.call_frames launches_same_append launches_same_emit)

text \<open>A requested launch is recorded, for the packet, before any launcher runs.\<close>

definition launch_requested :: "preparedHandoffLaunch \<Rightarrow> Launch list \<Rightarrow> Launch list \<Rightarrow> bool" where
  "launch_requested x ls ls' \<longleftrightarrow> ls' = ls @ [pl_Launch x]
     \<and> l_Status (pl_Launch x) = LaunchStatusRequested
     \<and> l_HandoffID (pl_Launch x) = h_HandoffID (pl_Packet x)"

lemma request_recorded:
  "triple (\<lambda>w. db_launches (w_db w) = ls) (request_launch E J t caps p b)
     (\<lambda>x w. pl_Packet x = p \<and> launch_requested x ls (db_launches (w_db w)))"
proof -
  have built: "triple (\<lambda>w. db_launches (w_db w) = ls) (buildRequestedLaunch E t p hash)
      (\<lambda>l w. (l_Status l = LaunchStatusRequested \<and> l_HandoffID l = h_HandoffID p) \<and> db_launches (w_db w) = ls)" for hash
    unfolding buildRequestedLaunch_def
    by (rule t_bnd[OF launches_frame[OF launches_same.frame_clock]],
        rule t_bnd[OF launches_frame[OF launches_same.frame_id]]) (auto intro!: tripleI simp: ret_run)
  have saved: "triple (\<lambda>w. db_launches (w_db w) = ls) (db_write (handoffs_CreateLaunch l))
      (\<lambda>_ w. db_launches (w_db w) = ls @ [l])" for l
    by (rule t_write) (auto simp: handoffs_CreateLaunch_def inserted_Inr_iff dest!: tbl_insert_append)
  show ?thesis
    unfolding request_launch_def Let_def
    apply (rule t_bnd[OF launches_frame[OF launches_same.world.frame_gets]], rule t_prod, rule t_prod,
        rule t_bnd[OF launches_frame[OF launches_same.frame_clock]], rule t_bnd[OF built], rule t_fact,
        rule t_seq[OF saved], rule t_seq[OF launches_frame[OF launches_same_append]],
        rule t_seq[OF launches_frame[OF launches_same_emit]])
    apply (auto intro!: tripleI simp: ret_run launch_requested_def)[1]
    done
qed

lemma prepare_launch_outcome:
  "triple (\<lambda>w. w = w0) (prepareHandoffLaunch E J t lq) (\<lambda>res w. case res of
     Inl x \<Rightarrow> db_launches (w_db w) = db_launches (w_db w0)
   | Inr x \<Rightarrow> (\<exists>a u. assess E t w0 = (Inr a, u) \<and> launchable (pl_Packet x) (w_db w0) a)
       \<and> launch_requested x (db_launches (w_db w0)) (db_launches (w_db w)))"
  (is "triple _ _ ?Q")
proof -
  let ?ls = "db_launches (w_db w0)"
  have refused: "triple P (bnd (recordHandoffLaunchBlocked E caps rq target reason) (\<lambda>x. ret (Inl x))) ?Q"
    if "\<And>w. P w \<Longrightarrow> db_launches (w_db w) = ?ls" for P caps rq target reason
    by (rule t_pre[OF t_bnd[OF blocked_keeps_launches[of ?ls]]]) (auto intro!: tripleI simp: ret_run that)
  show ?thesis
    unfolding prepareHandoffLaunch_def Let_def
    apply (rule t_tx, rule t_bnd[OF t_read], rule t_bnd[where S = "\<lambda>v w. w = w0"])
     apply (rule tripleI, (auto simp: optional_def db_read_def split: sum.splits if_splits)[1])
    apply (rule t_option, rule refused, simp)
    subgoal for caps packet p
      apply (rule t_if, rule refused, simp)+
      apply (rule t_bnd[OF t_read], rule t_option)
       subgoal for prior
        apply (rule t_known[where C = "tryReusePriorLaunchOutcome t p (w_db w0) = Inr None"], (auto)[1])
        apply (rule t_bnd[where S = "\<lambda>a w. (\<exists>u. assess E t w0 = (Inr a, u)) \<and> w_db w = w_db w0"])
         apply (rule tripleI, (auto dest: quietD[OF quiet.frame_assess])[1])
        apply (rule t_fact, rule t_bnd[OF t_read], rule t_if, rule refused, simp)
        subgoal for a reason
          apply (rule t_known[where C = "validateLaunchSafety p a (w_db w0) = Inr []"], (auto)[1])
          apply (rule t_bnd[where S = "\<lambda>v w. w_db w = w_db w0"])
           apply (rule tripleI, (auto simp: optional_def db_read_def split: sum.splits if_splits)[1])
          apply (rule t_option, rule refused, simp)
          apply (rule t_bnd[OF t_pre[OF request_recorded[of ?ls]]], simp)
          apply (rule tripleI)
          apply (frule launch_safe_facts(1), frule launch_safe_facts(2), frule launch_safe_facts(3),
              drule launch_safe_facts(4), drule no_prior_launch, assumption, simp, simp)
          apply (auto simp: ret_run launchable_def dest: opt_rows_None)[1]
          done
        done
       apply (rule tripleI, (auto simp: ret_run)[1])
      done
    done
qed

text \<open>
  C8. A handoff launch is requested only for a Claude packet in status CREATED or ACCEPTED that
  is unresolved and whose latest launch, if any, failed, with a safe continuity assessment and
  no run marked RUNNING; the request is then on record before any launcher runs. A refused or
  replayed launch records none, and after an error the database is as it was.
\<close>

theorem launch_requested_once:
  "case prepareHandoffLaunch E J t lq w of
     (Inr (Inr x), w') \<Rightarrow> (\<exists>a u. assess E t w = (Inr a, u) \<and> launchable (pl_Packet x) (w_db w) a)
       \<and> launch_requested x (db_launches (w_db w)) (db_launches (w_db w'))
   | (Inr (Inl x), w') \<Rightarrow> db_launches (w_db w') = db_launches (w_db w)
   | (Inl e, w') \<Rightarrow> w_db w' = w_db w"
proof -
  obtain res w' where run: "prepareHandoffLaunch E J t lq w = (res, w')" by fastforce
  have "failure_keeps_db (prepareHandoffLaunch E J t lq)"
    unfolding prepareHandoffLaunch_def by (rule keeps_tx)
  then show ?thesis
    using run keepsD tripleD[OF prepare_launch_outcome refl, of E J t lq w]
    by (cases res) (auto split: sum.splits)
qed

section \<open>Anchors\<close>

text \<open>
  C0. \<open>isRepoAnchorDirty\<close> never reports the anchor of a capsule as dirty, whatever the capsule
  says of its working tree: it asks for ``true'', ``1'' or ``yes'' where \<open>boolString\<close> writes
  ``dirty'' or ``clean''.
\<close>

theorem capsule_anchor_never_dirty: "\<not> isRepoAnchorDirty (anchorFromCapsule caps)"
proof -
  have "\<not> isRepoAnchorDirty (anchorFromCapsule caps\<lparr>an_DirtyHash := boolString b\<rparr>)" for b
    by (cases b) (simp_all add: isRepoAnchorDirty_def boolString_def, code_simp+)
  then show ?thesis by (simp add: anchorFromCapsule_def)
qed

end
