(* ===== verification/Samples.thy ===== *)
theory Samples
  imports Authority
begin

text \<open>
  Concrete values at which theorems are applied: one task, its run, checkpoint, brief and
  Claude handoff, as the code would create them.
\<close>

definition sample_anchor :: RepoAnchor where
  "sample_anchor = \<lparr>an_RepoRoot = ''/r'', an_WorktreePath = ''/r'', an_BranchName = ''main'',
     an_HeadSHA = ''h1'', an_DirtyHash = ''clean'', an_UntrackedHash = []\<rparr>"

definition sample_snapshot :: Snapshot where
  "sample_snapshot = \<lparr>g_RepoRoot = ''/r'', g_Branch = ''main'', g_HeadSHA = ''h1'',
     g_WorkingTreeDirty = False, g_CapturedAt = 5\<rparr>"

definition sample_capsule :: WorkCapsule where
  "sample_capsule = \<lparr>c_TaskID = ''t'', c_ConversationID = ''c'', c_Version = 3, c_CreatedAt = 1,
     c_UpdatedAt = 2, c_Goal = ''g'', c_AcceptanceCriteria = [], c_Constraints = [],
     c_RepoRoot = ''/r'', c_WorktreePath = ''/r'', c_BranchName = ''main'', c_HeadSHA = ''h1'',
     c_WorkingTreeDirty = False, c_AnchorCapturedAt = 1, c_CurrentPhase = PhaseBriefReady,
     c_Status = ''ACTIVE'', c_CurrentIntentID = ''i'', c_CurrentBriefID = ''b'',
     c_TouchedFiles = [], c_Blockers = [], c_NextAction = [], c_ParentTaskID = None,
     c_ChildTaskIDs = [], c_EdgeRefs = []\<rparr>"

definition sample_checkpoint :: Checkpoint where
  "sample_checkpoint = \<lparr>k_Version = 1, k_CheckpointID = ''k'', k_TaskID = ''t'', k_RunID = [],
     k_CreatedAt = 3, k_Trigger = TriggerHandoff, k_CapsuleVersion = 3, k_Phase = PhaseBriefReady,
     k_Anchor = sample_anchor, k_IntentID = ''i'', k_BriefID = ''b'', k_ContextPackID = [],
     k_LastEventID = [], k_PendingDecisionIDs = [], k_ResumeDescriptor = ''d'', k_IsResumable = True\<rparr>"

definition sample_packet :: Packet where
  "sample_packet = \<lparr>h_Version = 1, h_HandoffID = ''h'', h_TaskID = ''t'',
     h_Status = HandoffStatusAccepted, h_SourceWorker = WorkerKindUnknown,
     h_TargetWorker = WorkerKindClaude, h_HandoffMode = ModeResume, h_Reason = [],
     h_CurrentPhase = PhaseBriefReady, h_CheckpointID = ''k'', h_BriefID = ''b'',
     h_IntentID = ''i'', h_CapsuleVersion = 3, h_RepoAnchor = sample_anchor,
     h_IsResumable = True, h_ResumeDescriptor = ''d'', h_LatestRunID = [],
     h_LatestRunStatus = RunStatusOther [], h_Goal = ''g'', h_BriefObjective = [],
     h_NormalizedAction = [], h_Constraints = [], h_DoneCriteria = [], h_TouchedFiles = [],
     h_Blockers = [], h_NextAction = [], h_Unknowns = [], h_HandoffNotes = [], h_CreatedAt = 4,
     h_AcceptedAt = Some 4, h_AcceptedBy = WorkerKindClaude\<rparr>"

definition sample_action :: "RecoveryActionKind \<Rightarrow> RecoveryRecord" where
  "sample_action kind = \<lparr>ra_Version = 1, ra_ActionID = ''a'', ra_TaskID = ''t'', ra_Kind = kind,
     ra_RunID = [], ra_CheckpointID = [], ra_HandoffID = [], ra_LaunchAttemptID = [],
     ra_Summary = ''s'', ra_Notes = [], ra_CreatedAt = 5\<rparr>"

definition sample_assessment ::
  "ContinueOutcome \<Rightarrow> Packet option \<Rightarrow> RecoveryRecord option \<Rightarrow> continueAssessment" where
  "sample_assessment outcome packet action = \<lparr>ca_TaskID = ''t'', ca_Capsule = sample_capsule,
     ca_LatestRun = None, ca_LatestCheckpoint = Some sample_checkpoint, ca_LatestHandoff = packet,
     ca_LatestLaunch = None, ca_LatestAck = None, ca_LatestFollowThrough = None,
     ca_LatestResolution = None, ca_LatestRecoveryAction = action,
     ca_FreshAnchor = sample_snapshot, ca_DriftClass = DriftNone, ca_Outcome = outcome,
     ca_Reason = [], ca_Issues = [], ca_RequiresMutation = False, ca_ReuseCheckpointID = []\<rparr>"

lemma sample_packet_active: "launch_active sample_packet"
  by (simp add: launch_active_def sample_packet_def)

lemma sample_handoff_state:
  "hc_State (hc_of (sample_assessment outcome (Some sample_packet) action)) =
     HandoffContinuityStateAcceptedNotLaunched"
  by (simp add: hc_of_def sample_assessment_def assessHandoffContinuity_active[OF sample_packet_active]
      Let_def launch_continuity_def assessLaunchControl_active_state[OF sample_packet_active]
      resolved_continuity_proj resolves_def del: append_Cons)

lemma sample_handoff_recovery:
  "handoff_recovery (sample_assessment outcome (Some sample_packet) action) r \<noteq> None"
proof -
  have h: "ca_LatestHandoff (sample_assessment outcome (Some sample_packet) action) = Some sample_packet"
    by (simp add: sample_assessment_def)
  show ?thesis
    using sample_packet_active
    by (simp add: handoff_recovery_def h sample_handoff_state launch_active_def Let_def)
qed

section \<open>Witnesses\<close>

theorem regenerate_decision_masks_witness:
  "rv_RecoveryClass (recoveryFromContinueAssessment (sample_assessment ContinueOutcomeStaleReconciled None
     (Some (sample_action KindDecisionRegenerateBrief)))) = RecoveryClassRebriefRequired"
  using regenerate_decision_masks[of "sample_assessment ContinueOutcomeStaleReconciled None
     (Some (sample_action KindDecisionRegenerateBrief))" "sample_action KindDecisionRegenerateBrief"]
  by (simp add: sample_assessment_def sample_action_def)

theorem active_handoff_blocks_local_witness:
  "auth_state (authorities_of (sample_assessment ContinueOutcomeSafe (Some sample_packet) None))
     OperatorActionStartLocalRun = Some OperatorActionAuthorityBlocked"
  by (rule active_handoff_blocks_local[OF _ sample_handoff_recovery])
    (simp_all add: sample_assessment_def regenerate_pending_def is_local_action_def local_actions_def)

end
