(* ===== verification/Scenarios.thy ===== *)
theory Scenarios
  imports Guarantees Samples Transitions
begin

text \<open>
  Concrete worlds: sample answers of the outside world, a task started in an empty store, and a
  placeholder run that is completed; theorems about steps are applied to them.
\<close>

definition sample_intent :: IntentState where
  "sample_intent = \<lparr>i_Version = 1, i_IntentID = ''i'', i_TaskID = ''t'',
     i_Class = IntentClassOther [], i_Posture = IntentPostureOther [],
     i_ExecutionReadiness = ReadinessOther [], i_Objective = ''o'', i_RequestedOutcome = [],
     i_NormalizedAction = ''a'', i_ScopeSummary = [], i_ExplicitConstraints = [],
     i_DoneCriteria = [], i_AmbiguityFlags = [], i_ClarificationQuestions = [],
     i_RequiresClarification = False, i_ReadinessReason = [], i_CompilationNotes = [],
     i_BoundedEvidenceMessages = 1, i_Confidence = 1, i_SourceMessageIDs = [],
     i_ProposedPhase = PhaseInterpreting, i_CreatedAt = 3\<rparr>"

definition sample_brief :: ExecutionBrief where
  "sample_brief = \<lparr>b_Version = 1, b_BriefID = ''b'', b_TaskID = ''t'', b_IntentID = ''i'',
     b_CapsuleVersion = 2, b_CreatedAt = 4, b_Posture = BriefPostureExecutionReady,
     b_Objective = ''o'', b_RequestedOutcome = [], b_NormalizedAction = ''a'', b_ScopeSummary = [],
     b_ScopeIn = [], b_ScopeOut = [], b_Constraints = [], b_DoneCriteria = [],
     b_AmbiguityFlags = [], b_ClarificationQuestions = [], b_RequiresClarification = False,
     b_WorkerFraming = [], b_BoundedEvidenceMessages = 1, b_ContextPackID = [],
     b_Verbosity = VerbosityStandard, b_PolicyProfileID = [], b_BriefHash = ''h''\<rparr>"

text \<open>Answers that differ by their count: ids are the prefix and the count in unary.\<close>

definition sample_id :: "nat \<Rightarrow> string \<Rightarrow> string" where
  "sample_id n p = (if p = ''tsk'' then ''t'' else if p = ''run'' then ''r'' else p @ replicate n (CHR ''x''))"

definition sample_deps :: Deps where
  "sample_deps = \<lparr>d_clock = (\<lambda>n. int n), d_now = (\<lambda>n. 5), d_newID = sample_id,
     d_git = (\<lambda>n root args. Some ''m''), d_compile = (\<lambda>n input. Inr sample_intent),
     d_build = (\<lambda>n input. Inr sample_brief), d_synthesize = (\<lambda>n c es. Inr ''ok''),
     d_readFile = (\<lambda>n p. None), d_sha256 = (\<lambda>s. s), d_staleAfter = 10,
     d_wall = (\<lambda>n. \<lparr>wall_at = (\<lambda>i. 0), wall_id = (\<lambda>i. [])\<rparr>)\<rparr>"

definition world1 :: World where
  "world1 = snd (StartTask sample_deps ''g'' ''/r'' (start_world 0))"

lemma world1_reached: "steps sample_deps W J (start_world 0) world1"
proof -
  have "coord_step sample_deps W J (start_world 0) world1"
    by (rule step_start[of sample_deps "''g''" "''/r''" _ "fst (StartTask sample_deps ''g'' ''/r'' (start_world 0))"])
      (simp add: world1_def)
  then show ?thesis by (simp add: steps_def r_into_rtranclp)
qed

theorem history_append_only_witness:
  "history_kept (w_db (start_world 0)) (w_db world1) \<and> length (db_proofs (w_db world1)) = 2"
proof (rule conjI)
  show "history_kept (w_db (start_world 0)) (w_db world1)"
    by (rule history_append_only[OF start_ok(1) world1_reached[of None "\<lambda>y. None"]])
  show "length (db_proofs (w_db world1)) = 2" by code_simp
qed


definition sample_run :: ExecutionRun where
  "sample_run = \<lparr>r_RunID = ''r'', r_TaskID = ''t'', r_BriefID = ''b'', r_WorkerKind = WorkerKindUnknown,
     r_WorkerRunID = [], r_ShellSessionID = [], r_Status = RunStatusRunning, r_Command = [],
     r_Args = [], r_ExitCode = None, r_Stdout = [], r_Stderr = [], r_ChangedFiles = [],
     r_ChangedFilesSemantics = [], r_ValidationSignals = [], r_OutputArtifactRef = [],
     r_StructuredSummary = [], r_StartedAt = 4, r_EndedAt = None, r_InterruptionReason = [],
     r_CreatedFromPhase = PhaseBriefReady, r_LastKnownSummary = [], r_CreatedAt = 4, r_UpdatedAt = 4\<rparr>"

definition running_world :: World where
  "running_world = (start_world 0)\<lparr>w_db := (empty_db 5)\<lparr>db_capsules := [sample_capsule],
     db_runs := [sample_run], db_packets := []\<rparr>\<rparr>"

definition sample_complete :: RunTaskRequest where
  "sample_complete = \<lparr>rq_TaskID = ''t'', rq_Action = ''complete'', rq_Mode = ''noop'', rq_RunID = [],
     rq_ShellSessionID = [], rq_SimulateInterrupt = False, rq_InterruptionReason = []\<rparr>"

definition settled_world :: World where
  "settled_world = snd (on_capsule ''t'' (\<lambda>caps. completeRun sample_deps caps sample_complete) running_world)"

lemma settled_status: "map r_Status (db_runs (w_db settled_world)) = [RunStatusCompleted]"
  by code_simp

lemma settled_reached: "steps sample_deps None (\<lambda>y. None) running_world settled_world"
proof -
  have "coord_step sample_deps None (\<lambda>y. None) running_world settled_world"
    by (rule step_complete[of "''t''" sample_deps sample_complete _
        "fst (on_capsule ''t'' (\<lambda>caps. completeRun sample_deps caps sample_complete) running_world)"])
      (simp add: settled_world_def)
  then show ?thesis by (simp add: steps_def r_into_rtranclp)
qed

lemma running_ok: "runs_ok (w_db running_world)"
  by (simp add: runs_ok_def tbl_ok_def running_world_def)

lemma running_run: "runs_Get ''r'' (w_db running_world) = Inr sample_run"
  by code_simp

theorem runs_follow_life_cycle_witness:
  "\<exists>r'. runs_Get ''r'' (w_db settled_world) = Inr r' \<and> run_step\<^sup>*\<^sup>* sample_run r'
     \<and> r_Status r' = RunStatusCompleted"
proof -
  obtain r' where r': "runs_Get ''r'' (w_db settled_world) = Inr r'" "run_step\<^sup>*\<^sup>* sample_run r'"
    using runs_follow_life_cycle[OF running_ok settled_reached running_run] by blast
  have "map_sum id r_Status (runs_Get ''r'' (w_db settled_world)) = Inr RunStatusCompleted" by code_simp
  then show ?thesis using r' by auto
qed

definition sample_prepared :: preparedRealRun where
  "sample_prepared = \<lparr>p_TaskID = ''t'', p_RunID = ''r'', p_Brief = sample_brief, p_Capsule = sample_capsule\<rparr>"

theorem late_result_refused_witness:
  "\<forall>x err. case finalizeRealRun sample_deps sample_prepared x err settled_world of
     (Inl e, w) \<Rightarrow> w_db w = w_db settled_world | (Inr result, w) \<Rightarrow> False"
proof -
  have run: "map_sum id r_Status (runs_Get ''r'' (w_db settled_world)) = Inr RunStatusCompleted" by code_simp
  then obtain r where r: "runs_Get (p_RunID sample_prepared) (w_db settled_world) = Inr r"
    and st: "r_Status r = RunStatusCompleted"
    by (cases "runs_Get ''r'' (w_db settled_world)") (auto simp: sample_prepared_def)
  have ok: "runs_ok (w_db settled_world)"
    using hist.steps_runs_ok[OF settled_reached running_ok] .
  have none: "steps sample_deps None (\<lambda>y. None) settled_world settled_world" by (simp add: steps_def)
  have "terminal (r_Status r)" using st by (simp add: terminal_def)
  then show ?thesis by (intro allI late_result_refused[OF ok none r])
qed

definition offered :: Packet where
  "offered = sample_packet\<lparr>h_Status := HandoffStatusCreated, h_AcceptedAt := None\<rparr>"

definition offered_world :: World where
  "offered_world = running_world\<lparr>w_db := (w_db running_world)\<lparr>db_packets :=
     [\<lparr>pr_created = 4, pr_packet = offered\<rparr>]\<rparr>\<rparr>"

definition sample_accept :: AcceptHandoffRequest where
  "sample_accept = \<lparr>aq_TaskID = ''t'', aq_HandoffID = ''h'', aq_AcceptedBy = WorkerKindOther [], aq_Notes = [''ok'']\<rparr>"

definition accepted_world :: World where
  "accepted_world = snd (AcceptHandoff sample_deps sample_accept offered_world)"

theorem packets_accepted_once_witness:
  "\<exists>p. handoffs_Get ''h'' (w_db accepted_world) = Inr p \<and> h_Status p = HandoffStatusAccepted
     \<and> (\<exists>who notes at. p = packet_with_status HandoffStatusAccepted who notes at offered)"
proof -
  have ok: "runs_ok (w_db offered_world)"
    by (simp add: runs_ok_def tbl_ok_def running_world_def offered_world_def)
  have "coord_step sample_deps None (\<lambda>y. None) offered_world accepted_world"
    by (rule step_accept[of sample_deps sample_accept _ "fst (AcceptHandoff sample_deps sample_accept offered_world)"])
      (simp add: accepted_world_def)
  then have reached: "steps sample_deps None (\<lambda>y. None) offered_world accepted_world"
    by (simp add: steps_def r_into_rtranclp)
  have get: "handoffs_Get ''h'' (w_db offered_world) = Inr offered" by code_simp
  have "map_sum id h_Status (handoffs_Get ''h'' (w_db accepted_world)) = Inr HandoffStatusAccepted"
    by code_simp
  moreover have "h_Status offered = HandoffStatusCreated" by (simp add: offered_def)
  ultimately show ?thesis using packets_accepted_once[OF ok reached get] by fastforce
qed

section \<open>A launch that fails\<close>

definition sample_launch :: Launch where
  "sample_launch = \<lparr>l_Version = 1, l_AttemptID = ''l'', l_HandoffID = ''h'', l_TaskID = ''t'',
     l_TargetWorker = WorkerKindClaude, l_Status = LaunchStatusRequested, l_LaunchID = [],
     l_PayloadHash = ''p'', l_RequestedAt = 5, l_StartedAt = 0, l_EndedAt = 0, l_Command = [], l_Args = [],
     l_ExitCode = None, l_Summary = [], l_ErrorMessage = [], l_OutputArtifactRef = [], l_CreatedAt = 5,
     l_UpdatedAt = 5\<rparr>"

definition sample_payload :: LaunchPayload where
  "sample_payload = \<lparr>y_Version = 1, y_TaskID = ''t'', y_HandoffID = ''h'', y_SourceWorker = WorkerKindUnknown,
     y_TargetWorker = WorkerKindClaude, y_HandoffMode = ModeResume, y_CurrentPhase = PhaseBriefReady,
     y_CheckpointID = ''k'', y_BriefID = ''b'', y_IntentID = ''i'', y_CapsuleVersion = 3,
     y_RepoAnchor = sample_anchor, y_IsResumable = True, y_ResumeDescriptor = [], y_LatestRunID = [],
     y_LatestRunStatus = RunStatusOther [], y_LatestRunSummary = [], y_Goal = [], y_BriefObjective = [],
     y_NormalizedAction = [], y_Constraints = [], y_DoneCriteria = [], y_TouchedFiles = [], y_Blockers = [],
     y_NextAction = [], y_Unknowns = [], y_HandoffNotes = [], y_GeneratedAt = 5\<rparr>"

definition sample_prepared_launch :: preparedHandoffLaunch where
  "sample_prepared_launch = \<lparr>pl_TaskID = ''t'', pl_Packet = sample_packet, pl_Payload = sample_payload,
     pl_Launch = sample_launch\<rparr>"

definition no_output :: HandoffLaunchResult where
  "no_output = \<lparr>ho_LaunchID = ''x'', ho_StartedAt = 6, ho_EndedAt = 7, ho_Command = [], ho_Args = [],
     ho_ExitCode = 1, ho_Stdout = [], ho_Stderr = [], ho_OutputArtifactRef = [], ho_Summary = []\<rparr>"

definition requested_world :: World where
  "requested_world = (start_world 0)\<lparr>w_db := (empty_db 5)\<lparr>db_capsules := [sample_capsule],
     db_packets := [\<lparr>pr_created = 4, pr_packet = sample_packet\<rparr>], db_launches := [sample_launch]\<rparr>\<rparr>"

definition failed_world :: World where
  "failed_world = snd (finalizeHandoffLaunch sample_deps sample_prepared_launch no_output (Some ''e'') requested_world)"

lemma failed_status: "map l_Status (db_launches (w_db failed_world)) = [LaunchStatusFailed]"
  by code_simp

lemma failed_reached: "steps sample_deps None (\<lambda>y. None) requested_world failed_world"
proof -
  have "coord_step sample_deps None (\<lambda>y. None) requested_world failed_world"
    by (rule step_launched[of sample_deps sample_prepared_launch no_output "Some ''e''" _ "fst
      (finalizeHandoffLaunch sample_deps sample_prepared_launch no_output (Some ''e'') requested_world)"])
      (simp add: failed_world_def)
  then show ?thesis by (simp add: steps_def r_into_rtranclp)
qed

theorem launches_settle_once_witness:
  "\<exists>l. handoffs_GetLaunch ''l'' (w_db failed_world) = Inr l \<and> same_launch sample_launch l
     \<and> l_Status l = LaunchStatusFailed"
proof -
  have ok: "runs_ok (w_db requested_world)" by (simp add: runs_ok_def tbl_ok_def requested_world_def empty_db_def)
  have get: "handoffs_GetLaunch ''l'' (w_db requested_world) = Inr sample_launch"
    by (simp add: handoffs_GetLaunch_def requested_world_def sample_launch_def tbl_get_def found_def)
  obtain l where l: "handoffs_GetLaunch ''l'' (w_db failed_world) = Inr l"
    "l = sample_launch \<or> same_launch sample_launch l"
    using launches_settle_once[OF ok failed_reached get] by blast
  obtain row where row: "db_launches (w_db failed_world) = [row]" "l_Status row = LaunchStatusFailed"
    using failed_status by auto
  have "l_Status l = LaunchStatusFailed"
    using l(1) row by (auto simp: handoffs_GetLaunch_def found_def tbl_get_def split: option.splits if_splits)
  moreover have "l_Status sample_launch = LaunchStatusRequested" by (simp add: sample_launch_def)
  ultimately show ?thesis using l by auto
qed

section \<open>A history of three receipts\<close>

definition sample_transition :: "EventID \<Rightarrow> go_time \<Rightarrow> TransitionReceipt" where
  "sample_transition i at =
     \<lparr>tr_ReceiptID = i, tr_TaskID = c_TaskID sample_capsule, tr_ShellSessionID = [],
      tr_TransitionKind = KindHandoffLaunch, tr_TransitionHandle = [], tr_TriggerAction = [],
      tr_TriggerSource = [], tr_HandoffID = ''h1'', tr_LaunchAttemptID = [], tr_LaunchID = [],
      tr_ResolutionID = [], tr_BranchClassBefore = [], tr_BranchRefBefore = [], tr_BranchClassAfter = [],
      tr_BranchRefAfter = [], tr_HandoffContinuityBefore = [], tr_HandoffContinuityAfter = [],
      tr_LaunchControlBefore = [], tr_LaunchControlAfter = [],
      tr_Review = \<lparr>aw_ReviewGapPresent = False, aw_ReviewPosture = ReviewPostureNone, aw_ReviewState = [],
        aw_ReviewScope = any_source, aw_ReviewedUpToSequence = 0, aw_OldestUnreviewedSequence = 0,
        aw_NewestRetainedSequence = 0, aw_UnreviewedRetainedCount = 0, aw_LatestReviewID = [],
        aw_LatestReviewAckID = [], aw_AcknowledgmentPresent = False,
        aw_AcknowledgmentClass = GapAckClassOther []\<rparr>,
      tr_Summary = [], tr_CreatedAt = at, tr_Version = 1\<rparr>"

definition sample_history :: Db where
  "sample_history = (empty_db 0)\<lparr>db_capsules := [sample_capsule],
     db_transitions := [sample_transition ''a'' 1, sample_transition ''c'' 3, sample_transition ''b'' 3]\<rparr>"

definition sample_history_request :: ReadContinuityTransitionHistoryRequest where
  "sample_history_request = \<lparr>th_TaskID = c_TaskID sample_capsule, th_Limit = 1, th_BeforeReceiptID = [],
     th_TransitionKind = [], th_HandoffID = ''h1''\<rparr>"

lemma sample_history_ok: "receipts_ok sample_history"
  by code_simp

lemma history_answers:
  "capsules_Get (TrimSpace (th_TaskID q)) d = Inr caps \<Longrightarrow> TrimSpace (th_TaskID q) \<noteq> [] \<Longrightarrow>
     th_TransitionKind q = [] \<Longrightarrow> th_BeforeReceiptID q = [] \<Longrightarrow>
     \<exists>p. transition_history q d = Inr p \<and> tx_RequestedTransitionKind p = TransitionKindOther []"
  by (simp add: transition_history_def Let_def cursor_time_def parseContinuityTransitionKindFilter_def
      del: split_paired_Ex)

lemma sample_first_page: "\<exists>p. transition_history sample_history_request sample_history = Inr p
  \<and> tx_RequestedTransitionKind p = TransitionKindOther []"
proof (rule history_answers)
  show "capsules_Get (TrimSpace (th_TaskID sample_history_request)) sample_history = Inr sample_capsule"
    by code_simp
qed (code_simp+)

lemma sample_matching: "matching_receipts ''t'' (TransitionKindOther []) ''h1'' sample_history
   = [sample_transition ''c'' 3, sample_transition ''b'' 3, sample_transition ''a'' 1]"
  by code_simp


end
