(* ===== verification/IncidentFacts.thy ===== *)
theory IncidentFacts
  imports Guarantees
begin

text \<open>
  Incidents: the transition or triage every recorded receipt rests on, when a receipt is reused,
  and the window of transitions a slice shows.
\<close>

section \<open>What a recorded receipt rests on\<close>

interpretation triages_same: db_frame "\<lambda>d d'. db_triages d' = db_triages d"
  by unfold_locales auto

interpretation followups_same: db_frame "\<lambda>d d'. db_followups d' = db_followups d"
  by unfold_locales auto

lemma proof_keeps_receipts:
  "frames (on_db (\<lambda>d d'. db_triages d' = db_triages d)) (appendProof E caps ty actor who payload run)"
  "frames (on_db (\<lambda>d d'. db_followups d' = db_followups d)) (appendProof E caps ty actor who payload run)"
  unfolding appendProof_def
  by (intro triages_same.call_frames triages_same.frame_write followups_same.call_frames
      followups_same.frame_write; auto simp: proofs_Append_def Let_def inserted_Inr_iff; fail)+

lemma triage_added:
  "triple (\<lambda>u. w_db u = d) (triage_tx E t g) (\<lambda>_ u. db_triages (w_db u) = db_triages d @ [g])"
  unfolding triage_tx_def
  apply (rule t_tx, rule t_seq[where S = "\<lambda>u. db_triages (w_db u) = db_triages d @ [g]"])
   apply (rule t_write, (auto simp: triages_Create_def inserted_Inr_iff dest!: tbl_insert_append)[1])
  apply (rule t_frame[where F = "on_db (\<lambda>d d'. db_triages d' = db_triages d)"])
   apply (intro triages_same.call_frames proof_keeps_receipts)
  apply (simp add: on_db_def)
  done

lemma follow_up_added:
  "triple (\<lambda>u. w_db u = d) (follow_up_tx E t g) (\<lambda>_ u. db_followups (w_db u) = db_followups d @ [g])"
  unfolding follow_up_tx_def
  apply (rule t_tx, rule t_seq[where S = "\<lambda>u. db_followups (w_db u) = db_followups d @ [g]"])
   apply (rule t_write, (auto simp: followups_Create_def inserted_Inr_iff dest!: tbl_insert_append)[1])
  apply (rule t_frame[where F = "on_db (\<lambda>d d'. db_followups d' = db_followups d)"])
   apply (intro followups_same.call_frames proof_keeps_receipts)
  apply (simp add: on_db_def)
  done

definition transition_on_record :: "TaskID \<Rightarrow> EventID \<Rightarrow> Db \<Rightarrow> bool" where
  "transition_on_record t i d \<longleftrightarrow> (\<exists>x \<in> set (db_transitions d). tr_TaskID x = t \<and> tr_ReceiptID x = i)"

lemma anchor_on_record:
  assumes "resolveContinuityIncidentTriageAnchor t mode i d = Inr (anchor, m)"
  shows "transition_on_record t (tr_ReceiptID anchor) d"
  using assms
  by (auto simp: resolveContinuityIncidentTriageAnchor_def anchor_receipt_def Let_def rbnd_Inr_iff
      transitions_LatestByTask_def transitions_GetByTaskReceipt_def find_Some_iff transition_on_record_def
      continuityTransitionReceiptSummary_def ContinuityTransitionReceiptSummary.truncate_def
      dest!: tbl_latest_SomeD split: if_splits sum.splits intro: nth_mem)

lemma latest_triage_on_record:
  assumes "opt_rows (triages_LatestByTaskAnchor t a d) = Inr (Some g)"
  shows "g \<in> set (db_triages d) \<and> tg_TaskID g = t \<and> tg_AnchorTransitionReceiptID g = a"
  using assms by (auto simp: triages_LatestByTaskAnchor_def dest!: tbl_latest_SomeD)

text \<open>A triage that is reused changes nothing; any other is one new row, on a recorded transition.\<close>

definition triage_outcome ::
  "RecordContinuityIncidentTriageRequest \<Rightarrow> Db \<Rightarrow> RecordContinuityIncidentTriageResult \<Rightarrow> Db \<Rightarrow> bool" where
  "triage_outcome q d r d' \<longleftrightarrow>
     transition_on_record (TrimSpace (tq_TaskID q)) (ty_AnchorTransitionReceiptID r) d
     \<and> (\<exists>g. continuityIncidentTriageReceiptSummary g = ty_Receipt r
        \<and> tg_TaskID g = TrimSpace (tq_TaskID q) \<and> tg_Posture g = ty_Posture r
        \<and> tg_AnchorTransitionReceiptID g = ty_AnchorTransitionReceiptID r
        \<and> (if ty_Reused r then g \<in> set (db_triages d) \<and> d' = d \<and> TrimSpace (tg_Summary g)
             = normalizeContinuityIncidentTriageSummary (tq_Summary q)
           else db_triages d' = db_triages d @ [g]))"

lemma triage_recorded:
  "triple (\<lambda>u. u = w) (RecordContinuityIncidentTriage E q) (\<lambda>r u. triage_outcome q (w_db w) r (w_db u))"
proof -
  let ?t = "TrimSpace (tq_TaskID q)" and ?d = "w_db w"
  have reused: "triple (\<lambda>u. w_db u = ?d) (triage_result ?t m a True g) (\<lambda>r u. triage_outcome q ?d r (w_db u))"
    if "transition_on_record ?t a ?d" and "opt_rows (triages_LatestByTaskAnchor ?t a ?d) = Inr (Some g)"
      and "TrimSpace (tg_Summary g) = normalizeContinuityIncidentTriageSummary (tq_Summary q)" for m a g
    unfolding triage_result_def
    using that latest_triage_on_record[OF that(2)]
    by (intro tripleI) (auto simp: bnd_Inr_iff db_read_run ret_run triage_outcome_def split: prod.splits)
  have added: "triple (\<lambda>u. db_triages (w_db u) = db_triages ?d @ [g]) (triage_result ?t m a False g)
      (\<lambda>r u. triage_outcome q ?d r (w_db u))"
    if "transition_on_record ?t a ?d" and "tg_TaskID g = ?t" and "tg_AnchorTransitionReceiptID g = a" for m a g
    unfolding triage_result_def using that
    by (intro tripleI) (auto simp: bnd_Inr_iff db_read_run ret_run triage_outcome_def split: prod.splits)
  show ?thesis
    unfolding RecordContinuityIncidentTriage_def Let_def
    apply (rule t_if, rule t_throw, rule t_bnd[OF t_read], rule t_bnd[OF t_read], rule t_prod)
    subgoal for caps am a m
      apply (rule t_known[where C = "transition_on_record ?t (tr_ReceiptID a) ?d"])
       apply (use anchor_on_record in blast)
      apply (rule t_pre[where P' = "\<lambda>u. u = w"])
       apply (rule t_bnd[where S = "\<lambda>_ u. u = w"], rule tripleI, (simp add: lift_res_run)[1])
       apply (rule t_bnd[OF t_read], rule t_bnd[OF t_read])
      subgoal for posture risk known
        apply (rule t_known[where C = "opt_rows (triages_LatestByTaskAnchor ?t (tr_ReceiptID a) ?d) = Inr known"])
         apply blast
        apply (rule t_pre[where P' = "\<lambda>u. w_db u = ?d"])
         apply (rule t_option)
          apply (rule t_bnd[OF t_quiet[OF quiet.frame_id]], rule t_bnd[OF t_quiet[OF quiet.frame_clock]])
          apply (rule t_seq[OF triage_added], rule added, assumption)
           apply (simp_all add: new_triage_def)[2]
         apply (rule reused, assumption)
          apply (auto simp: continuityIncidentTriageEquivalent_def split: option.splits if_splits)
        done
      apply blast
      done
    done
qed

lemma triage_of_follow_up:
  assumes "followed_triage t a i d = Inr g"
  shows "g \<in> set (db_triages d) \<and> tg_TaskID g = t \<and> tg_AnchorTransitionReceiptID g = a"
  using assms
  by (auto simp: followed_triage_def Let_def triages_GetByTaskReceipt_def triages_LatestByTaskAnchor_def
      find_Some_iff dest!: tbl_latest_SomeD split: if_splits sum.splits intro: nth_mem)

lemma latest_follow_up_on_record:
  assumes "opt_rows (followups_LatestByTaskAnchor t a d) = Inr (Some f)"
  shows "f \<in> set (db_followups d) \<and> fu_TaskID f = t \<and> fu_AnchorTransitionReceiptID f = a"
  using assms by (auto simp: followups_LatestByTaskAnchor_def dest!: tbl_latest_SomeD)

definition follow_up_outcome ::
  "RecordContinuityIncidentFollowUpRequest \<Rightarrow> Db \<Rightarrow> RecordContinuityIncidentFollowUpResult \<Rightarrow> Db \<Rightarrow> bool" where
  "follow_up_outcome q d r d' \<longleftrightarrow>
     transition_on_record (TrimSpace (uq_TaskID q)) (uy_AnchorTransitionReceiptID r) d
     \<and> (\<exists>g \<in> set (db_triages d). tg_TaskID g = TrimSpace (uq_TaskID q)
        \<and> tg_AnchorTransitionReceiptID g = uy_AnchorTransitionReceiptID r
        \<and> tg_ReceiptID g = uy_TriageReceiptID r)
     \<and> (\<exists>f. continuityIncidentFollowUpReceiptSummary f = uy_Receipt r
        \<and> fu_TaskID f = TrimSpace (uq_TaskID q) \<and> fu_ActionKind f = uy_ActionKind r
        \<and> fu_AnchorTransitionReceiptID f = uy_AnchorTransitionReceiptID r
        \<and> fu_TriageReceiptID f = uy_TriageReceiptID r
        \<and> (if uy_Reused r then f \<in> set (db_followups d) \<and> d' = d \<and> TrimSpace (fu_Summary f)
             = normalizeContinuityIncidentFollowUpSummary (uq_Summary q)
           else db_followups d' = db_followups d @ [f]))"

lemma follow_up_recorded:
  "triple (\<lambda>u. u = w) (RecordContinuityIncidentFollowUp E q) (\<lambda>r u. follow_up_outcome q (w_db w) r (w_db u))"
proof -
  let ?t = "TrimSpace (uq_TaskID q)" and ?d = "w_db w"
  have reused: "triple (\<lambda>u. w_db u = ?d) (follow_up_result ?t m a True f) (\<lambda>r u. follow_up_outcome q ?d r (w_db u))"
    if "transition_on_record ?t a ?d" and "g \<in> set (db_triages ?d) \<and> tg_TaskID g = ?t
        \<and> tg_AnchorTransitionReceiptID g = a" and "fu_TriageReceiptID f = tg_ReceiptID g"
      and "opt_rows (followups_LatestByTaskAnchor ?t a ?d) = Inr (Some f)"
      and "TrimSpace (fu_Summary f) = normalizeContinuityIncidentFollowUpSummary (uq_Summary q)" for m a f g
    unfolding follow_up_result_def
    using that latest_follow_up_on_record[OF that(4)]
    by (intro tripleI) (auto simp: bnd_Inr_iff db_read_run ret_run follow_up_outcome_def split: prod.splits)
  have added: "triple (\<lambda>u. db_followups (w_db u) = db_followups ?d @ [f]) (follow_up_result ?t m a False f)
      (\<lambda>r u. follow_up_outcome q ?d r (w_db u))"
    if "transition_on_record ?t a ?d" and "g \<in> set (db_triages ?d) \<and> tg_TaskID g = ?t
        \<and> tg_AnchorTransitionReceiptID g = a" and "fu_TriageReceiptID f = tg_ReceiptID g"
      and "fu_TaskID f = ?t" and "fu_AnchorTransitionReceiptID f = a" for m a f g
    unfolding follow_up_result_def using that
    by (intro tripleI) (auto simp: bnd_Inr_iff db_read_run ret_run follow_up_outcome_def split: prod.splits)
  show ?thesis
    unfolding RecordContinuityIncidentFollowUp_def Let_def
    apply (rule t_if, rule t_throw, rule t_bnd[OF t_read])
    apply (rule t_bnd[where S = "\<lambda>_ u. u = w"], rule tripleI, (simp add: lift_res_run)[1])
    apply (rule t_bnd[OF t_read], rule t_prod)
    subgoal for caps kind am a m
      apply (rule t_known[where C = "transition_on_record ?t (tr_ReceiptID a) ?d"])
       apply (use anchor_on_record in blast)
      apply (rule t_pre[where P' = "\<lambda>u. u = w"])
       apply (rule t_bnd[OF t_read])
      subgoal for g
        apply (rule t_known[where C = "g \<in> set (db_triages ?d) \<and> tg_TaskID g = ?t
            \<and> tg_AnchorTransitionReceiptID g = tr_ReceiptID a"])
         apply (use triage_of_follow_up in blast)
        apply (rule t_pre[where P' = "\<lambda>u. u = w"])
         apply (rule t_bnd[OF t_read])
        subgoal for known
          apply (rule t_known[where C = "opt_rows (followups_LatestByTaskAnchor ?t (tr_ReceiptID a) ?d) = Inr known"])
           apply blast
          apply (rule t_pre[where P' = "\<lambda>u. w_db u = ?d"])
           apply (rule t_option)
            apply (rule t_bnd[OF t_quiet[OF quiet.frame_id]], rule t_bnd[OF t_quiet[OF quiet.frame_clock]])
            apply (rule t_seq[OF follow_up_added], rule added, assumption, assumption)
              apply (simp_all add: new_follow_up_def)[3]
           apply (rule reused, assumption, assumption)
             apply (auto simp: continuityIncidentFollowUpEquivalent_def split: option.splits if_splits)
          done
        apply blast
        done
      apply blast
      done
    done
qed


text \<open>
  A recorded follow-up rests on a triage of the task that is on record and has the same
  transition as anchor, and that transition is on record too; it is reused when the latest
  follow-up of the transition says the same of the same triage, and then nothing is written, and
  otherwise it is the one row added to the follow-ups.
\<close>

theorem follow_up_rests_on_triage:
  "case RecordContinuityIncidentFollowUp E q w of
     (Inl e, w') \<Rightarrow> True | (Inr r, w') \<Rightarrow> follow_up_outcome q (w_db w) r (w_db w')"
  using tripleD[OF follow_up_recorded refl] by (auto split: prod.splits sum.splits)

section \<open>Receipts are never reused without a summary\<close>

definition receipts_spoken :: "Db \<Rightarrow> bool" where
  "receipts_spoken d \<longleftrightarrow> list_all (\<lambda>g. TrimSpace (tg_Summary g) \<noteq> []) (db_triages d)
     \<and> list_all (\<lambda>f. TrimSpace (fu_Summary f) \<noteq> []) (db_followups d)"

interpretation annotated: opstep_frame "\<lambda>d d'. receipts_spoken d \<longrightarrow> receipts_spoken d'"
  by unfold_locales (auto simp: receipts_spoken_def write_defs elim: accept_rows dest!: tbl_insert_append)

lemma reachable_spoken: "reachable E W J w \<Longrightarrow> receipts_spoken (w_db w)"
  using annotated.steps_relate start_ok(1) unfolding reachable_def
  by (fastforce simp: start_world_def empty_db_def receipts_spoken_def)

lemma normalized_spoken:
  "normalizeContinuityIncidentTriageSummary raw \<noteq> [] \<Longrightarrow> TrimSpace raw \<noteq> []"
  "normalizeContinuityIncidentFollowUpSummary raw \<noteq> [] \<Longrightarrow> TrimSpace raw \<noteq> []"
  by (auto simp: normalizeContinuityIncidentTriageSummary_def normalizeContinuityIncidentFollowUpSummary_def)

text \<open>
  The stored summary of a request without one is a generated sentence, and the search for an
  equal receipt compares it with the empty summary of the request: in every reachable world a
  triage or follow-up whose summary is blank is never reused, so repeating it adds a receipt
  each time.
\<close>

theorem reuse_needs_summary:
  assumes "reachable E W J w"
  shows "(case RecordContinuityIncidentTriage D q w of
      (Inl e, w') \<Rightarrow> True
    | (Inr r, w') \<Rightarrow> if ty_Reused r then TrimSpace (tq_Summary q) \<noteq> [] else True)
   \<and> (case RecordContinuityIncidentFollowUp D p w of
      (Inl e, w') \<Rightarrow> True
    | (Inr r, w') \<Rightarrow> if uy_Reused r then TrimSpace (uq_Summary p) \<noteq> [] else True)"
proof -
  have spoken: "receipts_spoken (w_db w)" using assms by (rule reachable_spoken)
  have "TrimSpace (tq_Summary q) \<noteq> []" if "triage_outcome q (w_db w) r d'" and "ty_Reused r" for r d'
    using that spoken normalized_spoken(1) by (fastforce simp: triage_outcome_def receipts_spoken_def list_all_iff)
  moreover have "TrimSpace (uq_Summary p) \<noteq> []" if "follow_up_outcome p (w_db w) r d'" and "uy_Reused r" for r d'
    using that spoken normalized_spoken(2) by (fastforce simp: follow_up_outcome_def receipts_spoken_def list_all_iff)
  ultimately show ?thesis
    using tripleD[OF triage_recorded[where E = D and q = q] refl, of w]
      tripleD[OF follow_up_recorded[where E = D and q = p] refl, of w]
    by (auto split: prod.splits sum.splits)
qed

section \<open>The window of a slice\<close>

definition task_transitions :: "TaskID \<Rightarrow> Db \<Rightarrow> TransitionReceipt list" where
  "task_transitions t d = filter (\<lambda>r. tr_TaskID r = t) (db_transitions d)"

lemma transition_keys:
  assumes "receipts_ok d"
  shows "distinct (map transition_order (task_transitions t d))"
proof -
  have "inj_on transition_order (set (db_transitions d))" and "distinct (db_transitions d)"
    using assms by (auto simp: receipts_ok_def tbl_ok_def distinct_map transition_order_def inj_on_def)
  then show ?thesis by (auto simp: task_transitions_def distinct_map inj_on_def)
qed

lemma slice_segment:
  assumes ok: "receipts_ok d" and a: "a \<in> set (db_transitions d)" "tr_TaskID a = t" and n: "0 < n"
    and win: "slice_window t a n d = Inr win"
  shows "\<exists>older newer. map continuityTransitionReceiptSummary (sort_key transition_order (task_transitions t d))
      = older @ wn_Transitions win @ newer
    \<and> wn_HasOlder win = (older \<noteq> []) \<and> wn_HasNewer win = (newer \<noteq> [])"
proof -
  let ?rows = "task_transitions t d" and ?n = "nat n"
  define O' where "O' = order_desc transition_order (filter (\<lambda>r. transition_order r < transition_order a) ?rows)"
  define N where "N = sort_key transition_order (filter (\<lambda>r. transition_order a < transition_order r) ?rows)"
  have id: "tr_ReceiptID a \<noteq> []" "\<not> is_zero_time (tr_CreatedAt a)"
    using ok a(1) by (auto simp: receipts_ok_def list_all_iff)
  have lim: "list_limit 10 (n + 1) = Suc ?n" using n by (simp add: list_limit_def nat_add_distrib)
  have older: "transitions_ListByTaskFiltered t \<lparr>rl_Limit = n + 1, rl_BeforeReceiptID = tr_ReceiptID a,
      rl_BeforeCreatedAt = tr_CreatedAt a, rl_TransitionKind = TransitionKindOther [], rl_HandoffID = []\<rparr> d
      = take (Suc ?n) O'"
    using listed_rows[of t "n + 1" "tr_ReceiptID a" "tr_CreatedAt a" "TransitionKindOther []" "[]" d]
    by (simp add: lim below_receipt[OF id] matching_receipts_def wanted_def O'_def task_transitions_def
        order_desc_filter)
  have newer: "transitions_ListByTaskAfter t (tr_ReceiptID a) (tr_CreatedAt a) (n + 1) d = Inr (take (Suc ?n) N)"
  proof -
    have "stamp_key (tr_CreatedAt a) < stamp_key (tr_CreatedAt x)
        \<or> stamp_key (tr_CreatedAt x) = stamp_key (tr_CreatedAt a) \<and> tr_ReceiptID a < tr_ReceiptID x
        \<longleftrightarrow> transition_order a < transition_order x" for x
      by (auto simp: transition_order_def)
    then show ?thesis
      using id by (simp add: transitions_ListByTaskAfter_def lim N_def task_transitions_def conj_commute)
  qed
  have seg: "sort_key transition_order ?rows = rev (drop ?n O') @ (rev (take ?n O') @ a # take ?n N) @ drop ?n N"
    using a by (intro window_segment[OF transition_keys[OF ok]]) (simp_all add: task_transitions_def O'_def N_def)
  have more: "(int (length (take (Suc ?n) xs)) > n) = (drop ?n xs \<noteq> [])" for xs :: "TransitionReceipt list"
    using n by auto
  have "win = \<lparr>wn_Transitions = map continuityTransitionReceiptSummary (rev (take ?n O') @ a # take ?n N),
      wn_HasOlder = (drop ?n O' \<noteq> []), wn_HasNewer = (drop ?n N \<noteq> [])\<rparr>"
    using win by (simp add: slice_window_def older newer more del: length_take drop_eq_Nil)
  then have "map continuityTransitionReceiptSummary (sort_key transition_order ?rows)
      = map continuityTransitionReceiptSummary (rev (drop ?n O')) @ wn_Transitions win
        @ map continuityTransitionReceiptSummary (drop ?n N)
    \<and> wn_HasOlder win = (map continuityTransitionReceiptSummary (rev (drop ?n O')) \<noteq> [])
    \<and> wn_HasNewer win = (map continuityTransitionReceiptSummary (drop ?n N) \<noteq> [])"
    unfolding seg by (simp del: append_take_drop_id)
  then show ?thesis by blast
qed

lemma anchor_receipt_on_record:
  "anchor_receipt t i d = Inr r \<Longrightarrow> r \<in> set (db_transitions d) \<and> tr_TaskID r = t"
  by (auto simp: anchor_receipt_def transitions_LatestByTask_def transitions_GetByTaskReceipt_def find_Some_iff
      dest!: tbl_latest_SomeD split: if_splits sum.splits intro: nth_mem)

lemma window_holds_anchor:
  "slice_window t a n d = Inr win \<Longrightarrow> continuityTransitionReceiptSummary a \<in> set (wn_Transitions win)"
  by (auto simp: slice_window_def Let_def rbnd_Inr_iff)

text \<open>
  The transitions of an incident slice are one unbroken stretch of the task's history in the
  order of their times, with the anchor in it, and the slice says exactly whether older and newer
  ones lie outside.
\<close>

theorem slice_is_unbroken:
  assumes "receipts_ok (w_db w)" and "ReadContinuityIncidentSlice E q w = (Inr r, w')"
  shows "sl_Anchor r \<in> set (wn_Transitions (sl_Window r)) \<and> (\<exists>older newer.
      map continuityTransitionReceiptSummary
        (sort_key transition_order (task_transitions (TrimSpace (iq_TaskID q)) (w_db w)))
      = older @ wn_Transitions (sl_Window r) @ newer
    \<and> wn_HasOlder (sl_Window r) = (older \<noteq> []) \<and> wn_HasNewer (sl_Window r) = (newer \<noteq> []))"
  (is "?Q r")
proof -
  have pos: "0 < clamp_limit 2 20 n" for n by (simp add: clamp_limit_def)
  have "triple (\<lambda>u. u = w) (ReadContinuityIncidentSlice E q) (\<lambda>r _. ?Q r)"
    unfolding ReadContinuityIncidentSlice_def Let_def
    apply (rule t_if, rule t_throw, rule t_bnd[OF t_read], rule t_bnd[OF t_read], rule t_bnd[OF t_read])
    subgoal for caps a win
      apply (rule t_known[where C = "anchor_receipt (TrimSpace (iq_TaskID q))
        (TrimSpace (iq_AnchorTransitionReceiptID q)) (w_db w) = Inr a \<and> slice_window (TrimSpace (iq_TaskID q)) a
        (clamp_limit 2 20 (iq_TransitionNeighborLimit q)) (w_db w) = Inr win"], blast)
      apply (rule t_bnd[where S = "\<lambda>_ _. True"], rule tripleI, simp)
      apply (rule tripleI)
      apply (use anchor_receipt_on_record slice_segment[OF assms(1) _ _ pos] window_holds_anchor in
          \<open>fastforce simp: db_read_run slice_result_def Let_def\<close>)
      done
    done
  from tripleD[OF this refl assms(2)] show ?thesis .
qed

end
