(* ===== verification/Closures.thy ===== *)
theory Closures
  imports Incidents
begin

text \<open>
  What the closure intelligence of incidents (continuity_incident_closure.go, on the rollup of
  continuity_incident_followup.go) reports, in terms of the follow-ups of each anchor.
\<close>

section \<open>What a stable closure says\<close>

lemma count_pos: "0 < count_of P xs \<longleftrightarrow> (\<exists>x \<in> set xs. P x)"
  by (auto simp: count_of_def filter_empty_conv)

lemma count_zero: "count_of P xs = 0 \<longleftrightarrow> (\<forall>x \<in> set xs. \<not> P x)"
  by (auto simp: count_of_def filter_empty_conv)

lemma reopened_iff:
  "0 < reopened_after_closure closed ks \<longleftrightarrow>
     closed \<and> FollowUpActionReopened \<in> set ks
     \<or> subseq [FollowUpActionClosed, FollowUpActionReopened] ks"
proof (induction ks arbitrary: closed)
  case (Cons k ks)
  have "0 \<le> reopened_after_closure b xs" for b xs by (induction xs arbitrary: b) simp_all
  moreover have "FollowUpActionReopened \<in> set ks" if "subseq [FollowUpActionClosed, FollowUpActionReopened] ks"
    using that by (auto dest: subseq_order.order_trans[of "[FollowUpActionReopened]", rotated] simp: subseq_singleton_left)
  ultimately show ?case using Cons
    by (cases k) (auto simp: subseq_singleton_left add_pos_nonneg)
qed simp

lemma signals_fields:
  "sg_closedCount (foldl later_signal g rs) = sg_closedCount g"
  "sg_reopenedCount (foldl later_signal g rs) = sg_reopenedCount g"
  "sg_progressedOrPendingCount (foldl later_signal g rs) = sg_progressedOrPendingCount g"
  "sg_reopenedAfterClosureCount (foldl later_signal g rs) = sg_reopenedAfterClosureCount g"
  "sg_anchorID (foldl later_signal g rs) = sg_anchorID g"
  by (induction rs arbitrary: g) (simp_all add: later_signal_def)

lemma group_not_empty: "g \<in> set (groups_by key rs) \<Longrightarrow> g \<noteq> []"
  by (auto simp: groups_by_def first_seen_def filter_empty_conv)

definition anchored :: "ContinuityIncidentFollowUpReceiptSummary \<Rightarrow> bool" where
  "anchored r \<longleftrightarrow> fu_AnchorTransitionReceiptID r \<noteq> []
     \<and> (fu_ActionKind r = FollowUpActionClosed \<or> followup_open r)"

text \<open>The receipts of one anchor, newest first: closed, and never reopened after a closure.\<close>

definition closed_for_good :: "ContinuityIncidentFollowUpReceiptSummary list \<Rightarrow> bool" where
  "closed_for_good g \<longleftrightarrow> fu_ActionKind (hd g) = FollowUpActionClosed
     \<and> \<not> subseq [FollowUpActionReopened, FollowUpActionClosed] (map fu_ActionKind g)
     \<and> \<not> repeated fu_ActionKind g"

lemma groups_anchored:
  assumes "list_all anchored rs"
  shows "groups_by followup_key rs = groups_by fu_AnchorTransitionReceiptID rs"
    and "filter (\<lambda>r. fu_AnchorTransitionReceiptID r \<noteq> []) rs = rs"
    and "map followup_key rs = map fu_AnchorTransitionReceiptID rs"
proof -
  have key: "followup_key r = fu_AnchorTransitionReceiptID r" if "r \<in> set rs" for r
    using assms that by (auto simp: list_all_iff anchored_def followup_key_def anchor_key_def)
  then show keys: "map followup_key rs = map fu_AnchorTransitionReceiptID rs" by simp
  show "groups_by followup_key rs = groups_by fu_AnchorTransitionReceiptID rs"
    unfolding groups_by_def keys using key by (auto intro!: filter_cong map_cong)
  show "filter (\<lambda>r. fu_AnchorTransitionReceiptID r \<noteq> []) rs = rs"
    using assms by (auto simp: list_all_iff anchored_def filter_id_conv)
qed

lemma group_member: "g \<in> set (groups_by key rs) \<Longrightarrow> set g \<subseteq> set rs"
  by (auto simp: groups_by_def)

lemma groups_none: "groups_by key rs = [] \<longleftrightarrow> rs = []"
  by (cases rs) (auto simp: groups_by_def first_seen_def)

lemma subseq_rev_mono: "subseq xs ys \<Longrightarrow> subseq (rev xs) (rev ys)"
  by (induction rule: list_emb.induct) (auto intro: subseq_rev_drop_many list_emb_append_mono)

lemma signals_counts:
  "0 < sg_reopenedAfterClosureCount (anchor_signals g) \<longleftrightarrow>
     subseq [FollowUpActionReopened, FollowUpActionClosed] (map fu_ActionKind g)"
  "g \<noteq> [] \<Longrightarrow> fu_ActionKind (hd g) = FollowUpActionClosed \<Longrightarrow> \<not> stagnant_signals (anchor_signals g)"
proof -
  have "subseq [FollowUpActionClosed, FollowUpActionReopened] (rev (map fu_ActionKind g)) \<longleftrightarrow>
      subseq [FollowUpActionReopened, FollowUpActionClosed] (map fu_ActionKind g)"
    using subseq_rev_mono[of "[FollowUpActionClosed, FollowUpActionReopened]" "rev (map fu_ActionKind g)"]
      subseq_rev_mono[of "[FollowUpActionReopened, FollowUpActionClosed]" "map fu_ActionKind g"] by auto
  then show "0 < sg_reopenedAfterClosureCount (anchor_signals g) \<longleftrightarrow>
     subseq [FollowUpActionReopened, FollowUpActionClosed] (map fu_ActionKind g)"
    by (simp add: anchor_signals_def Let_def signals_fields reopened_iff rev_map)
  have "sg_closedCount (anchor_signals g) = count_of (\<lambda>k. k = FollowUpActionClosed) (map fu_ActionKind (rev g))"
    by (simp add: anchor_signals_def Let_def signals_fields)
  then show "g \<noteq> [] \<Longrightarrow> fu_ActionKind (hd g) = FollowUpActionClosed \<Longrightarrow> \<not> stagnant_signals (anchor_signals g)"
    by (cases g) (auto simp: stagnant_signals_def count_zero simp del: map_map)
qed

lemma class_stable:
  "kv_Class (the (deriveContinuityIncidentClosureSummary (Some v) rs)) = ContinuityIncidentClosureStableBounded
    \<longleftrightarrow> \<not> kv_OperationallyUnresolved (closure_flags v (closure_signals rs)) \<and> fv_AnchorsClosed v > 0"
  by (simp add: deriveContinuityIncidentClosureSummary_def closure_verdict_def Let_def closure_flags_def)

lemma unresolved_iff:
  assumes "list_all anchored rs" and "v = deriveContinuityIncidentFollowUpHistoryRollup rs latest triages"
  shows "\<not> kv_OperationallyUnresolved (closure_flags v (closure_signals rs)) \<longleftrightarrow>
    (\<forall>g \<in> set (groups_by fu_AnchorTransitionReceiptID rs). closed_for_good g)
    \<and> set (distinctIncidentTriageAnchors triages) \<subseteq> set (map fu_AnchorTransitionReceiptID rs)"
proof -
  let ?gs = "groups_by fu_AnchorTransitionReceiptID rs"
  have kinds: "fu_ActionKind (hd g) = FollowUpActionClosed \<longleftrightarrow> \<not> followup_open (hd g)" if "g \<in> set ?gs" for g
  proof -
    have "hd g \<in> set rs" using group_member[OF that] group_not_empty[OF that] by (cases g) auto
    then show ?thesis using assms(1) by (auto simp: list_all_iff anchored_def followup_open_def)
  qed
  have weak: "kv_OperationallyUnresolved (closure_flags v (closure_signals rs)) \<longleftrightarrow>
      (\<exists>g \<in> set ?gs. 0 < sg_reopenedAfterClosureCount (anchor_signals g))
      \<or> (\<exists>g \<in> set ?gs. stagnant_signals (anchor_signals g)) \<or> (\<exists>g \<in> set ?gs. repeated fu_ActionKind g)
      \<or> (\<exists>g \<in> set ?gs. followup_open (hd g))
      \<or> (\<exists>k \<in> set (distinctIncidentTriageAnchors triages). k \<notin> set (map fu_AnchorTransitionReceiptID rs))"
    unfolding closure_flags_def closure_signals_def assms(2) deriveContinuityIncidentFollowUpHistoryRollup_def
      groups_anchored[OF assms(1)] Let_def
    by (simp add: count_pos) (force simp: followup_open_def)
  show ?thesis unfolding weak closed_for_good_def
    using kinds signals_counts group_not_empty by blast
qed

text \<open>
  In a window of follow-ups whose anchors are known, incidents are reported stable exactly
  when there is a follow-up, every anchor's newest follow-up is CLOSED, no anchor was reopened
  after a closure or has several follow-ups of one kind only, and every triaged anchor has a
  follow-up in the window.
\<close>

theorem stable_closure_iff:
  assumes "list_all anchored rs"
  shows "kv_Class (the (deriveContinuityIncidentClosureSummary
      (Some (deriveContinuityIncidentFollowUpHistoryRollup rs latest triages)) rs))
      = ContinuityIncidentClosureStableBounded
    \<longleftrightarrow> rs \<noteq> [] \<and> list_all closed_for_good (groups_by fu_AnchorTransitionReceiptID rs)
      \<and> set (distinctIncidentTriageAnchors triages) \<subseteq> set (map fu_AnchorTransitionReceiptID rs)"
proof -
  let ?v = "deriveContinuityIncidentFollowUpHistoryRollup rs latest triages"
  have "fv_AnchorsClosed ?v > 0 \<longleftrightarrow> (\<exists>g \<in> set (groups_by fu_AnchorTransitionReceiptID rs).
      fu_ActionKind (hd g) = FollowUpActionClosed)"
    unfolding deriveContinuityIncidentFollowUpHistoryRollup_def groups_anchored[OF assms] Let_def
    by (simp add: count_pos)
  then show ?thesis
    unfolding class_stable unresolved_iff[OF assms refl] list_all_iff
    using groups_none[of fu_AnchorTransitionReceiptID rs]
    by (auto simp: closed_for_good_def neq_Nil_conv)
qed

text \<open>
  An incident closed twice is not closed: when all follow-ups of an anchor are CLOSED and
  there are at least two of them, they count as repeated without progression, and the window is
  reported operationally unresolved, never stable.
\<close>

theorem closed_twice_unresolved:
  "case deriveContinuityIncidentClosureSummary
      (Some (deriveContinuityIncidentFollowUpHistoryRollup rs latest triages)) rs of
     None \<Rightarrow> False
   | Some y \<Rightarrow>
       if list_ex (\<lambda>g. 1 < length g \<and> list_all (\<lambda>r. fu_ActionKind r = FollowUpActionClosed) g)
         (groups_by followup_key rs)
       then kv_OperationallyUnresolved y \<and> kv_Class y \<noteq> ContinuityIncidentClosureStableBounded
       else True"
proof -
  let ?v = "deriveContinuityIncidentFollowUpHistoryRollup rs latest triages"
  have again: "repeated f g" if "1 < length g" and "\<forall>r \<in> set g. f r = x" for f and x :: FollowUpActionKind
    and g :: "ContinuityIncidentFollowUpReceiptSummary list"
  proof -
    have "set (remdups (map f g)) = {x}" using that by (cases g) auto
    then show ?thesis using that(1) distinct_card[OF distinct_remdups, of "map f g"] by (simp add: repeated_def)
  qed
  have "kv_OperationallyUnresolved (closure_flags ?v (closure_signals rs))"
    if twice: "\<exists>g \<in> set (groups_by followup_key rs). 1 < length g \<and> (\<forall>r \<in> set g. fu_ActionKind r = FollowUpActionClosed)"
  proof -
    obtain g where g: "g \<in> set (groups_by followup_key rs)" "1 < length g"
        "\<forall>r \<in> set g. fu_ActionKind r = FollowUpActionClosed"
      using twice by blast
    have "\<exists>g \<in> set (groups_by followup_key rs). repeated fu_ActionKind g"
      using g(1) again[OF g(2,3)] by blast
    then have "0 < fv_AnchorsRepeatedWithoutProgression ?v"
      unfolding deriveContinuityIncidentFollowUpHistoryRollup_def Let_def by (simp add: count_pos)
    then show ?thesis by (simp add: closure_flags_def Let_def)
  qed
  then show ?thesis
    using class_stable[of ?v rs]
    by (auto simp: deriveContinuityIncidentClosureSummary_def Let_def list_ex_iff list_all_iff
        closure_verdict_def split: prod.splits)
qed

end
