(* ===== verification/IncidentCases.thy ===== *)
theory IncidentCases
  imports Scenarios IncidentFacts Closures
begin

text \<open>
  Concrete incidents: a slice around a recorded transition, a window of follow-ups, and the same
  triage recorded twice.
\<close>

section \<open>A slice around the middle of three receipts\<close>

definition sample_slice_request :: ReadContinuityIncidentSliceRequest where
  "sample_slice_request = \<lparr>iq_TaskID = c_TaskID sample_capsule, iq_AnchorTransitionReceiptID = ''b'',
     iq_TransitionNeighborLimit = 1, iq_RunLimit = 0, iq_RecoveryLimit = 0, iq_ProofLimit = 0, iq_AckLimit = 0\<rparr>"

definition history_world :: World where
  "history_world = (start_world 0)\<lparr>w_db := sample_history\<rparr>"

definition sample_slice :: "(go_error + ReadContinuityIncidentSliceResult) \<times> World" where
  "sample_slice = ReadContinuityIncidentSlice sample_deps sample_slice_request history_world"

lemma sample_slice_found: "\<exists>r w'. sample_slice = (Inr r, w')"
proof -
  have "\<not> isl (fst sample_slice)" by code_simp
  then obtain r where "fst sample_slice = Inr r" by (cases "fst sample_slice") simp_all
  then have "sample_slice = (Inr r, snd sample_slice)" by (metis prod.collapse)
  then show ?thesis by blast
qed

theorem slice_is_unbroken_witness:
  "case fst sample_slice of Inl e \<Rightarrow> False
   | Inr r \<Rightarrow> sl_Anchor r \<in> set (wn_Transitions (sl_Window r)) \<and> sl_Anchor r = continuityTransitionReceiptSummary (sample_transition ''b'' 3)"
proof -
  obtain r w' where r: "sample_slice = (Inr r, w')" using sample_slice_found by blast
  have "receipts_ok (w_db history_world)" using sample_history_ok by (simp add: history_world_def)
  from slice_is_unbroken[OF this r[unfolded sample_slice_def]]
  have "sl_Anchor r \<in> set (wn_Transitions (sl_Window r))" by blast
  moreover have "case fst sample_slice of Inl e \<Rightarrow> False
      | Inr r \<Rightarrow> sl_Anchor r = continuityTransitionReceiptSummary (sample_transition ''b'' 3)" by code_simp
  ultimately show ?thesis unfolding r fst_conv sum.case by blast
qed

section \<open>A window with one closed anchor\<close>

definition sample_follow_up :: ContinuityIncidentFollowUpReceiptSummary where
  "sample_follow_up = \<lparr>fu_ReceiptID = ''f'', fu_TaskID = ''t'', fu_AnchorMode = AnchorModeTransitionID,
     fu_AnchorTransitionReceiptID = ''b'', fu_AnchorTransitionKind = KindHandoffLaunch, fu_AnchorHandoffID = [],
     fu_AnchorShellSessionID = [], fu_TriageReceiptID = ''g'', fu_TriagePosture = PostureTriaged,
     fu_TriageFollowUpState = FollowUpPostureNone, fu_ActionKind = FollowUpActionClosed, fu_Summary = ''s'',
     fu_Review = tr_Review (sample_transition ''b'' 3), fu_TriagedUnderReviewRisk = False, fu_CreatedAt = 4\<rparr>"

theorem stable_closure_iff_witness:
  "kv_Class (the (deriveContinuityIncidentClosureSummary
      (Some (deriveContinuityIncidentFollowUpHistoryRollup [sample_follow_up] None [])) [sample_follow_up]))
    = ContinuityIncidentClosureStableBounded"
proof -
  have "list_all anchored [sample_follow_up]" by code_simp
  moreover have "[sample_follow_up] \<noteq> []
      \<and> list_all closed_for_good (groups_by fu_AnchorTransitionReceiptID [sample_follow_up])
      \<and> set (distinctIncidentTriageAnchors []) \<subseteq> set (map fu_AnchorTransitionReceiptID [sample_follow_up])"
    by code_simp
  ultimately show ?thesis using stable_closure_iff by blast
qed

section \<open>The same triage twice\<close>

definition sample_triage :: RecordContinuityIncidentTriageRequest where
  "sample_triage = \<lparr>tq_TaskID = c_TaskID sample_capsule, tq_AnchorMode = [], tq_AnchorTransitionReceiptID = [],
     tq_Posture = ''TRIAGED'', tq_Summary = []\<rparr>"

definition triaged_world :: "World" where
  "triaged_world = snd (RecordContinuityIncidentTriage sample_deps sample_triage
     (snd (RecordContinuityIncidentTriage sample_deps sample_triage history_world)))"

lemma triage_repeats: "length (db_triages (w_db triaged_world)) = 2"
  by code_simp

theorem reuse_needs_summary_witness:
  "reachable sample_deps None (\<lambda>y. None) world1 \<and> tq_Summary sample_triage = [] \<and>
   (case RecordContinuityIncidentTriage sample_deps sample_triage world1 of
      (Inl e, w') \<Rightarrow> True | (Inr r, w') \<Rightarrow> \<not> ty_Reused r)"
proof -
  have r: "reachable sample_deps None (\<lambda>y. None) world1"
    unfolding reachable_def using world1_reached by blast
  have blank: "tq_Summary sample_triage = []" "TrimSpace (tq_Summary sample_triage) = []" by code_simp+
  show ?thesis
    using conjunct1[OF reuse_needs_summary[OF r, where D = sample_deps and q = sample_triage]] r
    unfolding blank by (auto split: prod.splits sum.splits)
qed

end
