(* ===== verification/OperatorStepFacts.thy ===== *)
theory OperatorStepFacts
  imports Guarantees
begin

text \<open>
  The primary operator step: which action is executed, what its receipt says, and that a step
  which was not attempted changes nothing.
\<close>

section \<open>What the parts leave alone\<close>

text \<open>Everything but the evidence: the receipts of steps and the proof events.\<close>

definition untouched :: "Db \<Rightarrow> Db \<Rightarrow> bool" where
  "untouched d d' \<longleftrightarrow> d'\<lparr>db_proofs := [], db_opsteps := []\<rparr> = d\<lparr>db_proofs := [], db_opsteps := []\<rparr>"

definition proofs_only :: "Db \<Rightarrow> Db \<Rightarrow> bool" where
  "proofs_only d d' \<longleftrightarrow> d'\<lparr>db_proofs := []\<rparr> = d\<lparr>db_proofs := []\<rparr>"

interpretation proofs: db_frame proofs_only
  by unfold_locales (auto simp: proofs_only_def)

interpretation opsteps_same: outcome_frame "\<lambda>d d'. db_opsteps d' = db_opsteps d"
  by unfold_locales (auto simp: write_defs elim: accept_rows)

lemma proof_proofs_only: "frames (on_db proofs_only) (appendProof E caps ty actor who payload run)"
  unfolding appendProof_def
  by (intro proofs.call_frames proofs.frame_write) (auto simp: proofs_only_def proofs_Append_def Let_def inserted_Inr_iff)

lemma ack_proofs_only:
  "frames (on_db proofs_only) (recordOperatorReviewGapAcknowledgmentFromProgression E t p kind summary context)"
  unfolding recordOperatorReviewGapAcknowledgmentFromProgression_def ack_proof_tx_def
  by (intro proofs.call_frames proofs.frame_shell_write proof_proofs_only)

lemma proofs_only_fields:
  assumes "proofs_only d d'"
  shows "db_opsteps d' = db_opsteps d" and "db_runs d' = db_runs d" and "untouched d d'"
proof -
  have same: "d'\<lparr>db_proofs := []\<rparr> = d\<lparr>db_proofs := []\<rparr>" using assms by (simp add: proofs_only_def)
  show "db_opsteps d' = db_opsteps d" using arg_cong[OF same, of db_opsteps] by simp
  show "db_runs d' = db_runs d" using arg_cong[OF same, of db_runs] by simp
  show "untouched d d'"
    using arg_cong[OF same, of "\<lambda>x. x\<lparr>db_opsteps := []\<rparr>"] by (simp add: untouched_def)
qed

section \<open>The receipt\<close>

lemma step_added:
  "triple (\<lambda>u. w_db u = d) (step_tx E t r)
     (\<lambda>_ u. db_opsteps (w_db u) = db_opsteps d @ [r] \<and> untouched d (w_db u))"
  unfolding step_tx_def
  apply (rule t_tx, rule t_seq[where S = "\<lambda>u. w_db u = d\<lparr>db_opsteps := db_opsteps d @ [r]\<rparr>"])
   apply (rule t_write, (auto simp: opsteps_Create_def inserted_Inr_iff dest!: tbl_insert_append)[1])
  apply (rule t_post[where Q' = "\<lambda>_ u. proofs_only (d\<lparr>db_opsteps := db_opsteps d @ [r]\<rparr>) (w_db u)"])
   apply (rule tripleI, drule framesD[rotated], rule proofs.world.frame_bnd[OF proofs.frame_read proof_proofs_only])
   apply (auto simp: on_db_def)[1]
  subgoal for a u
    using proofs_only_fields[of "d\<lparr>db_opsteps := db_opsteps d @ [r]\<rparr>" "w_db u"] by (auto simp: untouched_def)
  done

definition action_handle :: "OperatorExecutionStep option \<Rightarrow> string" where
  "action_handle step = (case step of None \<Rightarrow> [] | Some s \<Rightarrow> OperatorAction_str (es_Action s))"

lemma receipt_fields:
  "or_TaskID (step_receipt i t now hc x step p ack) = t"
  "or_ActionHandle (step_receipt i t now hc x step p ack) = action_handle step"
  "or_ExecutionAttempted (step_receipt i t now hc x step p ack) = dp_attempted x"
  by (simp_all add: step_receipt_def action_handle_def Let_def)

lemma receipt_added:
  "triple (\<lambda>u. w_db u = d) (recordOperatorStepReceipt E t plan hc x (ep_PrimaryStep plan) p ack)
     (\<lambda>r u. db_opsteps (w_db u) = db_opsteps d @ [r] \<and> untouched d (w_db u) \<and> or_TaskID r = t
        \<and> or_ActionHandle r = action_handle (ep_PrimaryStep plan) \<and> or_ExecutionAttempted r = dp_attempted x)"
  unfolding recordOperatorStepReceipt_def Let_def
  by (rule t_bnd[OF t_quiet[OF quiet.frame_clock]], rule t_bnd[OF t_quiet[OF quiet.frame_id]], rule t_seq[OF step_added])
    (rule tripleI, auto simp: ret_run receipt_fields)

lemma result_receipt:
  "triple (\<lambda>u. w_db u = d) (buildPrimaryOperatorStepExecutionResult E t r response)
     (\<lambda>z u. w_db u = d \<and> nz_Receipt z = r)"
proof -
  have "frames (on_db (=)) (buildPrimaryOperatorStepExecutionResult E t r response)"
    unfolding buildPrimaryOperatorStepExecutionResult_def Let_def
    by (intro quiet.session_frames quiet.call_frames quiet.frame_assess)
  moreover have "buildPrimaryOperatorStepExecutionResult E t r response u = (Inr z, u') \<Longrightarrow> nz_Receipt z = r" for u z u'
    by (auto simp: buildPrimaryOperatorStepExecutionResult_def bnd_Inr_iff ret_run Let_def split: prod.splits)
  ultimately show ?thesis by (intro tripleI) (auto simp: on_db_def dest: framesD)
qed

section \<open>The dispatch\<close>

lemma dispatched_attempted:
  "triple P (dispatched s m f) (\<lambda>x u. (\<forall>y. dp_attempted (f y)) \<longrightarrow> dp_attempted x)"
  by (rule tripleI) (auto simp: dispatched_def attempt_def bnd_Inr_iff ret_run classifyOperatorStepError_def
      plain_dispatch_def Let_def split: prod.splits sum.splits)

lemma dispatches_attempted:
  "dp_attempted (started_dispatch y)" "dp_attempted (recovery_dispatch what o')" "dp_attempted (rebriefed_dispatch o')"
  "dp_attempted (resolved_dispatch z)"
  by (simp_all add: started_dispatch_def recovery_dispatch_def rebriefed_dispatch_def resolved_dispatch_def
      with_action_def plain_dispatch_def Let_def split: option.split)

lemma dispatch_outcome:
  "triple (\<lambda>u. u = v) (dispatchPrimaryOperatorStep E W J L t s hc) (\<lambda>x u. if dp_attempted x then True else u = v)"
proof -
  have tried: "triple (\<lambda>u. u = v) (dispatched s m f) (\<lambda>x u. if dp_attempted x then True else u = v)"
    if "\<And>y. dp_attempted (f y)" for m :: "'z op" and f
    by (rule t_post[OF dispatched_attempted]) (use that in auto)
  have refused: "triple (\<lambda>u. u = v) (ret x) (\<lambda>x u. if dp_attempted x then True else u = v)" for x
    by (rule tripleI) (simp add: ret_run)
  show ?thesis
    unfolding dispatchPrimaryOperatorStep_def
    by (cases "es_Action s"; simp only: OperatorAction.case)
      (rule tried refused; simp add: dispatches_attempted; fail)+
qed

section \<open>The whole step\<close>

definition step_outcome ::
  "TaskID \<Rightarrow> continueAssessment \<Rightarrow> Db \<Rightarrow> OperatorStepReceipt \<Rightarrow> Db \<Rightarrow> bool" where
  "step_outcome t a d r d' \<longleftrightarrow>
     db_opsteps d' = db_opsteps d @ [r] \<and> or_TaskID r = t
     \<and> or_ActionHandle r = action_handle (ep_PrimaryStep (plan_of a))
     \<and> (if or_ExecutionAttempted r then executable_step (plan_of a) \<noteq> None else untouched d d')"

lemma untouched_trans: "untouched d d' \<Longrightarrow> untouched d' d'' \<Longrightarrow> untouched d d''"
  by (simp add: untouched_def)

lemma executed:
  assumes "runs_ok (w_db v)" and "v = v0"
  shows "triple (\<lambda>u. u = v)
    (case executable_step plan of None \<Rightarrow> ret (refused_dispatch (ep_PrimaryStep plan))
       | Some s \<Rightarrow> dispatchPrimaryOperatorStep E W J L t s hc)
    (\<lambda>x u. db_opsteps (w_db u) = db_opsteps (w_db v)
       \<and> (if dp_attempted x then executable_step plan \<noteq> None else u = v))"
proof (cases "executable_step plan")
  case None
  have "\<not> dp_attempted (refused_dispatch step)" for step
    by (simp add: refused_dispatch_def plain_dispatch_def split: option.split)
  then show ?thesis using None by (intro tripleI) (auto simp: ret_run)
next
  case (Some s)
  have "db_opsteps (w_db u) = db_opsteps (w_db v)"
    if "dispatchPrimaryOperatorStep E W J L t s hc v = (r, u)" for r u
    using framesD[OF opsteps_same.op_dispatch that] assms(1) by (simp add: on_db_def guarded_def)
  then show ?thesis
    using tripleD[OF dispatch_outcome[of v E W J L t s hc]] Some by (intro tripleI) auto
qed

lemma step_recorded:
  assumes "runs_ok (w_db w)"
  shows "triple (\<lambda>u. u = w) (ExecutePrimaryOperatorStep E W J L q)
    (\<lambda>z u. \<exists>a v. assess E (TrimSpace (nq_TaskID q)) w = (Inr a, v)
       \<and> step_outcome (TrimSpace (nq_TaskID q)) a (w_db w) (nz_Receipt z) (w_db u))"
proof -
  let ?t = "TrimSpace (nq_TaskID q)" and ?d = "w_db w"
  have recorded: "triple (\<lambda>u. proofs_only ?d (w_db u))
      (bnd (case executable_step plan of None \<Rightarrow> ret (refused_dispatch (ep_PrimaryStep plan))
         | Some s \<Rightarrow> dispatchPrimaryOperatorStep E W J L ?t s hc) (\<lambda>x.
       bnd (recordOperatorStepReceipt E ?t plan hc x (ep_PrimaryStep plan) p ack) (\<lambda>r.
       buildPrimaryOperatorStepExecutionResult E ?t r (dp_canonicalResponse x))))
      (\<lambda>z u. step_outcome ?t a ?d (nz_Receipt z) (w_db u))" if plan: "plan = plan_of a" for a plan hc p ack
  proof (rule tripleI)
    fix v z u
    assume v: "proofs_only ?d (w_db v)" and run: "bnd (case executable_step plan of
        None \<Rightarrow> ret (refused_dispatch (ep_PrimaryStep plan))
      | Some s \<Rightarrow> dispatchPrimaryOperatorStep E W J L ?t s hc) (\<lambda>x.
      bnd (recordOperatorStepReceipt E ?t plan hc x (ep_PrimaryStep plan) p ack) (\<lambda>r.
      buildPrimaryOperatorStepExecutionResult E ?t r (dp_canonicalResponse x))) v = (Inr z, u)"
    obtain x v1 r v2 where x: "(case executable_step plan of None \<Rightarrow> ret (refused_dispatch (ep_PrimaryStep plan))
        | Some s \<Rightarrow> dispatchPrimaryOperatorStep E W J L ?t s hc) v = (Inr x, v1)"
      and r: "recordOperatorStepReceipt E ?t plan hc x (ep_PrimaryStep plan) p ack v1 = (Inr r, v2)"
      and z: "buildPrimaryOperatorStepExecutionResult E ?t r (dp_canonicalResponse x) v2 = (Inr z, u)"
      using run unfolding bnd_Inr_iff by blast
    have ok: "runs_ok (w_db v)" using assms proofs_only_fields(2)[OF v] by (simp add: runs_ok_def)
    show "step_outcome ?t a ?d (nz_Receipt z) (w_db u)"
      using tripleD[OF executed[OF ok refl] refl x] tripleD[OF receipt_added refl r]
        tripleD[OF result_receipt refl z] proofs_only_fields(1,3)[OF v] untouched_trans
      unfolding step_outcome_def plan by auto
  qed
  have still: "triple (\<lambda>u. w_db u = ?d) m (\<lambda>_ u. w_db u = ?d)" if "frames (on_db (=)) m" for m :: "'z op"
    using that by (rule t_quiet)
  have acked: "triple (\<lambda>u. w_db u = ?d) m (\<lambda>_ u. proofs_only ?d (w_db u))"
    if "frames (on_db proofs_only) m" for m :: "'z op"
    using that by (intro tripleI) (auto simp: on_db_def dest: framesD)
  show ?thesis
    unfolding ExecutePrimaryOperatorStep_def Let_def
    apply (rule t_if, rule t_throw, rule t_bnd[OF t_exact])
    subgoal for a
      apply (rule t_known[where C = "\<exists>v. assess E ?t w = (Inr a, v)"], blast)
      apply (rule t_pre[where P' = "\<lambda>u. w_db u = ?d"])
       apply (rule t_bnd[OF still], intro quiet.session_frames)
       apply (rule t_bnd[OF still], intro quiet.call_frames)
       apply (rule t_bnd[OF acked])
        apply (intro proofs.call_frames ack_proofs_only)
       apply (rule t_post[OF recorded], rule refl, blast)
      apply (auto dest: quietD[OF quiet.frame_assess])
      done
    done
qed

text \<open>
  C30. When the execution of the primary operator step returns, it has added exactly one receipt,
  for the task and for the primary action of the plan that was assessed when it was called; an
  action was attempted only if that plan has an executable step, and a step that was not
  attempted changed nothing but the evidence.
\<close>

theorem operator_step_recorded:
  assumes "runs_ok (w_db w)"
  shows "case ExecutePrimaryOperatorStep E W J L q w of
      (Inl e, w') \<Rightarrow> True
    | (Inr z, w') \<Rightarrow>
        (case assess E (TrimSpace (nq_TaskID q)) w of
           (Inl e, v) \<Rightarrow> False
         | (Inr a, v) \<Rightarrow> step_outcome (TrimSpace (nq_TaskID q)) a (w_db w) (nz_Receipt z) (w_db w'))"
  using tripleD[OF step_recorded[OF assms, where E = E and W = W and J = J and L = L and q = q] refl]
  by (auto split: prod.splits sum.splits)

end
