(* ===== verification/RepoEntry.thy ===== *)
theory RepoEntry
  imports Tasks Frames
begin

text \<open>
  repo_entry.go: the task of a repository, found by its root or started; and compiled_intent.go
  and the reads of compiled_brief.go, the summaries of the latest intent and the current brief.
\<close>

section \<open>The task of a repository\<close>

definition DefaultRepoContinueGoal :: string where
  "DefaultRepoContinueGoal = ''Continue work in this repository''"

record ResolveShellTaskResult =
  rs_TaskID :: TaskID
  rs_RepoRoot :: string
  rs_Created :: bool

definition ResolveShellTaskForRepo :: "Deps \<Rightarrow> string \<Rightarrow> string \<Rightarrow> ResolveShellTaskResult op" where
  "ResolveShellTaskForRepo E repoRoot defaultGoal =
     (let root = filepath_Clean (TrimSpace repoRoot); goal = TrimSpace defaultGoal in
      if root = [] then throw (ErrMsg ''repo root is required'')
      else
      bnd (optional (db_read (capsules_LatestByRepoRoot root))) (\<lambda>known. case known of
        Some caps \<Rightarrow> ret \<lparr>rs_TaskID = c_TaskID caps, rs_RepoRoot = c_RepoRoot caps, rs_Created = False\<rparr>
      | None \<Rightarrow>
          bnd (StartTask E (if goal = [] then DefaultRepoContinueGoal else goal) root) (\<lambda>s.
          ret \<lparr>rs_TaskID = st_TaskID s, rs_RepoRoot = g_RepoRoot (st_RepoAnchor s), rs_Created = True\<rparr>)))"

section \<open>The compiled intent\<close>

record CompiledIntentSummary =
  ci_IntentID :: IntentID
  ci_Class :: IntentClass
  ci_Posture :: IntentPosture
  ci_ExecutionReadiness :: Readiness
  ci_Objective :: string
  ci_RequestedOutcome :: string
  ci_NormalizedAction :: string
  ci_ScopeSummary :: string
  ci_ExplicitConstraints :: "string list"
  ci_DoneCriteria :: "string list"
  ci_AmbiguityFlags :: "string list"
  ci_ClarificationQuestions :: "string list"
  ci_RequiresClarification :: bool
  ci_BoundedEvidenceMessages :: int
  ci_ReadinessReason :: string
  ci_CompilationNotes :: string
  ci_CreatedAt :: go_time
  ci_Digest :: string
  ci_Advisory :: string

definition readiness_texts :: "Readiness \<Rightarrow> string \<times> string" where
  "readiness_texts r = (case r of
     ReadinessExecutionReady \<Rightarrow> (''execution-ready intent in bounded recent evidence'',
       ''Intent appears execution-ready within bounded recent evidence.'')
   | ReadinessPlanningInProgress \<Rightarrow> (''planning intent posture in bounded recent evidence'',
       ''Intent remains planning-focused in bounded recent evidence.'')
   | ReadinessValidationFocused \<Rightarrow> (''validation-focused intent posture in bounded recent evidence'',
       ''Intent is validation-focused in bounded recent evidence.'')
   | ReadinessRepairRecovery \<Rightarrow> (''repair/recovery-focused intent posture in bounded recent evidence'',
       ''Intent is repair/recovery-focused in bounded recent evidence.'')
   | _ \<Rightarrow> (''clarification-needed intent posture in bounded recent evidence'',
       ''Intent remains clarification-needed in bounded recent evidence.''))"

definition compiledIntentSummaryFromState :: "IntentState \<Rightarrow> CompiledIntentSummary" where
  "compiledIntentSummaryFromState i =
     \<lparr>ci_IntentID = i_IntentID i, ci_Class = i_Class i, ci_Posture = i_Posture i,
      ci_ExecutionReadiness = i_ExecutionReadiness i, ci_Objective = i_Objective i,
      ci_RequestedOutcome = i_RequestedOutcome i, ci_NormalizedAction = i_NormalizedAction i,
      ci_ScopeSummary = i_ScopeSummary i, ci_ExplicitConstraints = i_ExplicitConstraints i,
      ci_DoneCriteria = i_DoneCriteria i, ci_AmbiguityFlags = i_AmbiguityFlags i,
      ci_ClarificationQuestions = i_ClarificationQuestions i,
      ci_RequiresClarification = i_RequiresClarification i,
      ci_BoundedEvidenceMessages = i_BoundedEvidenceMessages i,
      ci_ReadinessReason = i_ReadinessReason i, ci_CompilationNotes = i_CompilationNotes i,
      ci_CreatedAt = i_CreatedAt i, ci_Digest = fst (readiness_texts (i_ExecutionReadiness i)),
      ci_Advisory = (if i_RequiresClarification i \<and> i_ClarificationQuestions i \<noteq> []
        then ''Intent remains clarification-needed in bounded recent evidence; unresolved clarification questions remain explicit.''
        else snd (readiness_texts (i_ExecutionReadiness i)))\<rparr>"

record ReadCompiledIntentResult =
  rc_TaskID :: TaskID
  rc_CurrentIntentID :: IntentID
  rc_Intent :: "IntentState option"
  rc_CompiledIntent :: "CompiledIntentSummary option"

definition compiledIntentProjection :: "TaskID \<Rightarrow> Db \<Rightarrow> go_error + CompiledIntentSummary option" where
  "compiledIntentProjection t d =
     map_sum id (map_option compiledIntentSummaryFromState) (opt_rows (intents_LatestByTask t d))"

definition read_compiled_intent :: "string \<Rightarrow> Db \<Rightarrow> go_error + ReadCompiledIntentResult" where
  "read_compiled_intent t0 d =
     (let t = TrimSpace t0 in
      if t = [] then Inl (ErrMsg ''task id is required'')
      else rbnd (capsules_Get t d) (\<lambda>caps.
        rbnd (opt_rows (intents_LatestByTask t d)) (\<lambda>latest.
        Inr \<lparr>rc_TaskID = t, rc_CurrentIntentID = c_CurrentIntentID caps, rc_Intent = latest,
             rc_CompiledIntent = map_option compiledIntentSummaryFromState latest\<rparr>)))"

definition ReadCompiledIntent :: "string \<Rightarrow> ReadCompiledIntentResult op" where
  "ReadCompiledIntent t0 = db_read (read_compiled_intent t0)"

section \<open>The generated brief\<close>

record CompiledBriefSummary =
  cb_BriefID :: BriefID
  cb_IntentID :: IntentID
  cb_Posture :: BriefPosture
  cb_Objective :: string
  cb_RequestedOutcome :: string
  cb_NormalizedAction :: string
  cb_ScopeSummary :: string
  cb_Constraints :: "string list"
  cb_DoneCriteria :: "string list"
  cb_AmbiguityFlags :: "string list"
  cb_ClarificationQuestions :: "string list"
  cb_RequiresClarification :: bool
  cb_WorkerFraming :: string
  cb_BoundedEvidenceMessages :: int
  cb_CreatedAt :: go_time
  cb_Digest :: string
  cb_Advisory :: string

definition posture_texts :: "BriefPosture \<Rightarrow> string \<times> string" where
  "posture_texts p = (case p of
     BriefPostureExecutionReady \<Rightarrow> (''execution-ready brief posture in bounded recent evidence'',
       ''Brief is execution-ready within bounded recent evidence.'')
   | BriefPosturePlanningOriented \<Rightarrow> (''planning-oriented brief posture in bounded recent evidence'',
       ''Brief remains planning-oriented in bounded recent evidence.'')
   | BriefPostureValidationOriented \<Rightarrow> (''validation-oriented brief posture in bounded recent evidence'',
       ''Brief is validation-oriented in bounded recent evidence.'')
   | BriefPostureRepairOriented \<Rightarrow> (''repair-oriented brief posture in bounded recent evidence'',
       ''Brief is repair-oriented in bounded recent evidence.'')
   | _ \<Rightarrow> (''clarification-needed brief posture in bounded recent evidence'',
       ''Brief remains clarification-needed in bounded recent evidence.''))"

definition compiledBriefSummaryFromBrief :: "ExecutionBrief \<Rightarrow> CompiledBriefSummary" where
  "compiledBriefSummaryFromBrief b =
     (let p = normalizedBriefPosture (b_Posture b) (b_RequiresClarification b) in
      \<lparr>cb_BriefID = b_BriefID b, cb_IntentID = b_IntentID b, cb_Posture = p, cb_Objective = b_Objective b,
       cb_RequestedOutcome = b_RequestedOutcome b, cb_NormalizedAction = b_NormalizedAction b,
       cb_ScopeSummary = b_ScopeSummary b, cb_Constraints = b_Constraints b,
       cb_DoneCriteria = b_DoneCriteria b, cb_AmbiguityFlags = b_AmbiguityFlags b,
       cb_ClarificationQuestions = b_ClarificationQuestions b,
       cb_RequiresClarification = b_RequiresClarification b, cb_WorkerFraming = b_WorkerFraming b,
       cb_BoundedEvidenceMessages = b_BoundedEvidenceMessages b, cb_CreatedAt = b_CreatedAt b,
       cb_Digest = fst (posture_texts p),
       cb_Advisory = (if b_RequiresClarification b \<and> b_ClarificationQuestions b \<noteq> []
         then ''Brief remains clarification-needed in bounded recent evidence; unresolved clarification questions remain explicit.''
         else snd (posture_texts p))\<rparr>)"

record ReadGeneratedBriefResult =
  rb_TaskID :: TaskID
  rb_CurrentBriefID :: BriefID
  rb_Brief :: "ExecutionBrief option"
  rb_CompiledBrief :: "CompiledBriefSummary option"

definition compiledBriefProjection :: "BriefID \<Rightarrow> Db \<Rightarrow> go_error + CompiledBriefSummary option" where
  "compiledBriefProjection b d =
     (if TrimSpace b = [] then Inr None
      else map_sum id (map_option compiledBriefSummaryFromBrief) (opt_rows (briefs_Get b d)))"

definition read_generated_brief :: "string \<Rightarrow> Db \<Rightarrow> go_error + ReadGeneratedBriefResult" where
  "read_generated_brief t0 d =
     (let t = TrimSpace t0 in
      if t = [] then Inl (ErrMsg ''task id is required'')
      else rbnd (capsules_Get t d) (\<lambda>caps.
        rbnd (if c_CurrentBriefID caps = [] then Inr None else opt_rows (briefs_Get (c_CurrentBriefID caps) d))
          (\<lambda>b. Inr \<lparr>rb_TaskID = t, rb_CurrentBriefID = c_CurrentBriefID caps, rb_Brief = b,
               rb_CompiledBrief = map_option compiledBriefSummaryFromBrief b\<rparr>)))"

definition ReadGeneratedBrief :: "string \<Rightarrow> ReadGeneratedBriefResult op" where
  "ReadGeneratedBrief t0 = db_read (read_generated_brief t0)"

end
