(* ===== verification/EntryFacts.thy ===== *)
theory EntryFacts
  imports Guarantees RepoEntry
begin

text \<open>
  Resolving the task of a repository: when a second call finds what the first one started, and
  what a blank root resolves to.
\<close>

section \<open>The capsule a start adds\<close>

lemma capsules_same_evidence:
  "frames (on_db (\<lambda>d d'. db_capsules d' = db_capsules d)) (appendProof E caps ty actor who payload run)"
  "frames (on_db (\<lambda>d d'. db_capsules d' = db_capsules d)) (emitCanonicalConversation E caps msg payload run)"
  unfolding emitCanonicalConversation_def appendProof_def
  by (intro capsules_same.call_frames capsules_same.frame_write;
      auto simp: proofs_Append_def messages_Append_def Let_def inserted_Inr_iff; fail)+

lemma start_adds_capsule:
  "triple (\<lambda>u. w_db u = d) (StartTask E goal root) (\<lambda>s u. \<exists>c. db_capsules (w_db u) = db_capsules d @ [c]
     \<and> c_TaskID c = st_TaskID s \<and> c_RepoRoot c = g_RepoRoot (st_RepoAnchor s))"
proof -
  have keeps: "triple (\<lambda>u. db_capsules (w_db u) = rows) m (\<lambda>_ u. db_capsules (w_db u) = rows)"
    if "frames (on_db (\<lambda>d d'. db_capsules d' = db_capsules d)) m" for m :: "'z op" and rows
    by (rule t_frame[OF that]) (simp add: on_db_def)
  show ?thesis
    unfolding StartTask_def Let_def phase_event_def
    apply (rule t_tx, rule t_bnd[OF t_quiet[OF quiet.frame_clock]], rule t_bnd[OF t_quiet[OF quiet.frame_id]])
    apply (rule t_bnd[OF t_quiet[OF quiet.frame_id]], rule t_bnd[OF t_quiet[OF quiet.frame_capture]])
    subgoal for now t conv anchor
      apply (rule t_seq[where S = "\<lambda>u. db_capsules (w_db u) = db_capsules d @ [new_capsule t conv now goal anchor]"])
       apply (rule t_write, (auto simp: capsules_Create_def inserted_Inr_iff dest!: tbl_insert_append)[1])
      apply (rule t_seq[OF keeps[OF capsules_same_evidence(1)]], rule t_seq[OF keeps[OF capsules_same_evidence(2)]])
      apply (rule tripleI, auto simp: ret_run new_capsule_def)
      done
    done
qed

section \<open>Finding the task again\<close>

definition lookup_root :: "string \<Rightarrow> string" where
  "lookup_root repo = filepath_Clean (TrimSpace (filepath_Clean (TrimSpace repo)))"

lemma latest_root:
  "capsules_LatestByRepoRoot (filepath_Clean (TrimSpace repo)) d = Inl ErrNoRows
     \<longleftrightarrow> (\<forall>c \<in> set (db_capsules d). c_RepoRoot c \<noteq> lookup_root repo)"
  "(\<exists>c. capsules_LatestByRepoRoot (filepath_Clean (TrimSpace repo)) d = Inr c)
     \<longleftrightarrow> (\<exists>c \<in> set (db_capsules d). c_RepoRoot c = lookup_root repo)"
  unfolding capsules_LatestByRepoRoot_def lookup_root_def Let_def found_def
  by (auto simp: tbl_latest_None_iff dest!: tbl_latest_SomeD split: option.split)

lemma resolve_cases:
  "ResolveShellTaskForRepo E repo goal w =
     (case capsules_LatestByRepoRoot (filepath_Clean (TrimSpace repo)) (w_db w) of
        Inr c \<Rightarrow> (Inr \<lparr>rs_TaskID = c_TaskID c, rs_RepoRoot = c_RepoRoot c, rs_Created = False\<rparr>, w)
      | Inl e \<Rightarrow> bnd (StartTask E (if TrimSpace goal = [] then DefaultRepoContinueGoal else TrimSpace goal)
            (filepath_Clean (TrimSpace repo))) (\<lambda>s. ret \<lparr>rs_TaskID = st_TaskID s,
            rs_RepoRoot = g_RepoRoot (st_RepoAnchor s), rs_Created = True\<rparr>) w)"
proof -
  have none: "e = ErrNoRows" if "capsules_LatestByRepoRoot root d = Inl e" for root d e
    using that by (auto simp: capsules_LatestByRepoRoot_def found_def Let_def split: option.splits)
  show ?thesis
    unfolding ResolveShellTaskForRepo_def Let_def if_not_P[OF filepath_Clean_nonempty]
    by (cases "capsules_LatestByRepoRoot (filepath_Clean (TrimSpace repo)) (w_db w)")
      (auto simp: bnd_def optional_def db_read_run ret_run dest: none)
qed

lemma resolve_known:
  assumes "capsules_LatestByRepoRoot (filepath_Clean (TrimSpace repo)) (w_db w) = Inr c"
  shows "ResolveShellTaskForRepo E repo goal w =
      (Inr \<lparr>rs_TaskID = c_TaskID c, rs_RepoRoot = c_RepoRoot c, rs_Created = False\<rparr>, w)"
    and "c \<in> set (db_capsules (w_db w))" and "c_RepoRoot c = lookup_root repo"
  using assms
  by (auto simp: resolve_cases capsules_LatestByRepoRoot_def lookup_root_def Let_def dest!: tbl_latest_SomeD)

lemma resolve_unknown:
  assumes "capsules_LatestByRepoRoot (filepath_Clean (TrimSpace repo)) (w_db w) = Inl e"
  shows "\<forall>c \<in> set (db_capsules (w_db w)). c_RepoRoot c \<noteq> lookup_root repo"
    and "ResolveShellTaskForRepo E repo goal w = (Inr r, w') \<Longrightarrow> rs_Created r
      \<and> (\<exists>c. db_capsules (w_db w') = db_capsules (w_db w) @ [c] \<and> c_RepoRoot c = rs_RepoRoot r
         \<and> c_TaskID c = rs_TaskID r)"
proof -
  show "\<forall>c \<in> set (db_capsules (w_db w)). c_RepoRoot c \<noteq> lookup_root repo"
    using assms latest_root(2)[of repo "w_db w"] by auto
  assume "ResolveShellTaskForRepo E repo goal w = (Inr r, w')"
  then obtain s u where "StartTask E (if TrimSpace goal = [] then DefaultRepoContinueGoal else TrimSpace goal)
      (filepath_Clean (TrimSpace repo)) w = (Inr s, u)" and "r = \<lparr>rs_TaskID = st_TaskID s,
      rs_RepoRoot = g_RepoRoot (st_RepoAnchor s), rs_Created = True\<rparr>" and "w' = u"
    using assms by (auto simp: resolve_cases bnd_Inr_iff ret_run)
  then show "rs_Created r \<and> (\<exists>c. db_capsules (w_db w') = db_capsules (w_db w) @ [c]
      \<and> c_RepoRoot c = rs_RepoRoot r \<and> c_TaskID c = rs_TaskID r)"
    using tripleD[OF start_adds_capsule refl] by fastforce
qed

text \<open>
  C39. When resolving the task of a repository has started a task, resolving the same root again
  finds that task and changes nothing exactly when the root git reported for the new task is the
  cleaned root that was asked for; for any other root - a directory below the top level, say -
  every call starts one task more.
\<close>

theorem resolved_again_iff:
  "case ResolveShellTaskForRepo E repo goal w of
     (Inl e, w') \<Rightarrow> True
   | (Inr r, w') \<Rightarrow>
       (case ResolveShellTaskForRepo D repo goal' w' of
          (Inl e, w'') \<Rightarrow> if rs_Created r then rs_RepoRoot r \<noteq> lookup_root repo else False
        | (Inr r', w'') \<Rightarrow>
            if rs_Created r then
              rs_Created r' = (rs_RepoRoot r \<noteq> lookup_root repo)
              \<and> (if rs_Created r' then True else w'' = w' \<and> rs_TaskID r' = rs_TaskID r)
            else r' = r \<and> w'' = w')"
proof -
  let ?look = "\<lambda>u. capsules_LatestByRepoRoot (filepath_Clean (TrimSpace repo)) (w_db u)"
  obtain x w' where first: "ResolveShellTaskForRepo E repo goal w = (x, w')" by fastforce
  obtain y w'' where second: "ResolveShellTaskForRepo D repo goal' w' = (y, w'')" by fastforce
  show ?thesis
  proof (cases x)
    case (Inr r)
    show ?thesis
    proof (cases "?look w")
      case (Inr c)
      then have same: "w' = w" "r = \<lparr>rs_TaskID = c_TaskID c, rs_RepoRoot = c_RepoRoot c, rs_Created = False\<rparr>"
        using first \<open>x = Inr r\<close> resolve_known(1)[OF Inr] by simp_all
      have again: "y = Inr r" "w'' = w'"
        using second resolve_known(1)[OF Inr, of D goal'] unfolding same by simp_all
      show ?thesis unfolding first \<open>x = Inr r\<close> prod.case sum.case second again same(2) by simp
    next
      case (Inl e)
      have new: "rs_Created r" "\<exists>c. db_capsules (w_db w') = db_capsules (w_db w) @ [c]
          \<and> c_RepoRoot c = rs_RepoRoot r \<and> c_TaskID c = rs_TaskID r"
        using resolve_unknown(2)[OF Inl] first \<open>x = Inr r\<close> by blast+
      show ?thesis
      proof (cases "?look w'")
        case found: (Inr c)
        have "c_RepoRoot c = rs_RepoRoot r \<and> c_TaskID c = rs_TaskID r"
          using new(2) resolve_known(2,3)[OF found] resolve_unknown(1)[OF Inl] by auto
        then have again: "y = Inr \<lparr>rs_TaskID = rs_TaskID r, rs_RepoRoot = rs_RepoRoot r, rs_Created = False\<rparr>"
            "w'' = w'" "rs_RepoRoot r = lookup_root repo"
          using second resolve_known(1)[OF found, of D goal'] resolve_known(3)[OF found] by simp_all
        show ?thesis
          unfolding first \<open>x = Inr r\<close> prod.case sum.case second again(1,2) using new(1) again(3) by simp
      next
        case lost: (Inl e')
        have "rs_RepoRoot r \<noteq> lookup_root repo" using new(2) resolve_unknown(1)[OF lost] by auto
        then show ?thesis
          unfolding first \<open>x = Inr r\<close> prod.case sum.case second
          using second new(1) resolve_unknown(2)[OF lost, of D goal'] by (cases y) auto
      qed
    qed
  qed (use first in simp)
qed

text \<open>
  The check for a missing repository root never fires: a blank root is cleaned to the
  current directory of the daemon before it is looked at.
\<close>

theorem blank_root_is_current_directory:
  "if TrimSpace blank = [] then ResolveShellTaskForRepo E blank goal = ResolveShellTaskForRepo E ''.'' goal else True"
proof -
  have "filepath_Clean [] = filepath_Clean (TrimSpace ''.'')" by code_simp
  then show ?thesis by (simp add: ResolveShellTaskForRepo_def)
qed

end
