(* ===== verification/Terminal.thy ===== *)
theory Terminal
  imports Prelude
begin

text \<open>
  What the terminal shell (internal/tui/shell) computes without terminal I/O: the lines of the
  chunks a worker's terminal delivers (terminal_normalizer.go), what a worker host keeps of them (codex_pty_host.go),
  the session journal (session_journal.go) and the layout of the screen (layout.go).
\<close>

section \<open>Chunks of terminal output\<close>

text \<open>
  The three flags \<open>escaped\<close>, \<open>csi\<close> and \<open>osc\<close> of the loop are never set together. \<open>prev\<close> is the
  byte before the current one in the chunk, which ends an operating system command.
\<close>

datatype term_mode = Printing | Escaped | Csi | Osc

definition trim_spaces :: "string \<Rightarrow> string" where
  "trim_spaces s = rev (dropWhile (\<lambda>c. c = CHR '' '') (rev s))"

definition printable :: "char \<Rightarrow> bool" where
  "printable c \<longleftrightarrow> 32 \<le> (of_char c :: nat) \<and> (of_char c :: nat) < 127"

definition csi_final :: "char \<Rightarrow> bool" where
  "csi_final c \<longleftrightarrow> 64 \<le> (of_char c :: nat) \<and> (of_char c :: nat) \<le> 126"

text \<open>The bytes that neither start a sequence nor return the carriage.\<close>

definition put_byte :: "char \<Rightarrow> string list \<Rightarrow> string \<Rightarrow> string list \<times> string" where
  "put_byte c lines current =
     (if c = CHR 0x0A then (lines @ [trim_spaces current], [])
      else if c = CHR 0x08 \<or> c = CHR 0x7F then (lines, butlast current)
      else if c = CHR 0x09 then (lines, current @ ''  '')
      else if printable c then (lines, current @ [c])
      else (lines, current))"

fun scan_chunk :: "term_mode \<Rightarrow> char option \<Rightarrow> string list \<Rightarrow> string \<Rightarrow> string \<Rightarrow> string list \<times> string \<times> term_mode" where
  "scan_chunk m prev lines current [] = (lines, current, m)"
| "scan_chunk Osc prev lines current (c # rest) =
     scan_chunk (if c = CHR 0x07 \<or> c = CHR 0x5C \<and> prev = Some (CHR 0x1B) then Printing else Osc)
       (Some c) lines current rest"
| "scan_chunk Csi prev lines current (c # rest) =
     scan_chunk (if csi_final c then Printing else Csi) (Some c) lines current rest"
| "scan_chunk Escaped prev lines current (c # rest) =
     scan_chunk (if c = CHR ''['' then Csi else if c = CHR '']'' then Osc else Printing) (Some c) lines current rest"
| "scan_chunk Printing prev lines current (c # rest) =
     (if c = CHR 0x1B then scan_chunk Escaped (Some c) lines current rest
      else if c = CHR 0x0D then
        (case rest of
           d # rest' \<Rightarrow> if d = CHR 0x0A then scan_chunk Printing (Some d) (lines @ [trim_spaces current]) [] rest'
             else scan_chunk Printing (Some c) lines [] rest
         | [] \<Rightarrow> (lines, [], Printing))
      else case put_byte c lines current of (lines', current') \<Rightarrow> scan_chunk Printing (Some c) lines' current' rest)"

record terminalChunkResult =
  tk_lines :: "string list"
  tk_partial :: string

definition normalizeTerminalChunk :: "string \<Rightarrow> string \<Rightarrow> terminalChunkResult" where
  "normalizeTerminalChunk partial chunk =
     (if chunk = [] then \<lparr>tk_lines = [], tk_partial = partial\<rparr>
      else case scan_chunk Printing None [] partial chunk of
        (lines, current, m) \<Rightarrow> \<lparr>tk_lines = lines, tk_partial = trim_spaces current\<rparr>)"

text \<open>A host feeds every chunk with the partial line the chunk before it left.\<close>

primrec feed_chunks :: "string \<Rightarrow> string list \<Rightarrow> string list \<times> string" where
  "feed_chunks partial [] = ([], partial)"
| "feed_chunks partial (c # cs) =
     (let r = normalizeTerminalChunk partial c; (lines, p) = feed_chunks (tk_partial r) cs in
      (tk_lines r @ lines, p))"

section \<open>The lines are printable\<close>

definition clean_line :: "string \<Rightarrow> bool" where
  "clean_line s \<longleftrightarrow> list_all printable s \<and> (if s = [] then True else last s \<noteq> CHR '' '')"

lemma trim_spaces_clean: "list_all printable s \<Longrightarrow> clean_line (trim_spaces s)"
proof -
  assume s: "list_all printable s"
  have "set (trim_spaces s) \<subseteq> set s" by (auto simp: trim_spaces_def dest: set_dropWhileD)
  moreover have "last (trim_spaces s) \<noteq> CHR '' ''" if "trim_spaces s \<noteq> []"
  proof -
    have "dropWhile (\<lambda>c. c = CHR '' '') (rev s) \<noteq> []" using that by (simp add: trim_spaces_def)
    then have "hd (dropWhile (\<lambda>c. c = CHR '' '') (rev s)) \<noteq> CHR '' ''" by (rule hd_dropWhile)
    then show ?thesis using that by (simp add: trim_spaces_def last_rev)
  qed
  ultimately show ?thesis using s by (auto simp: clean_line_def list_all_iff)
qed

lemma put_byte_clean:
  assumes "list_all clean_line lines" and "list_all printable current"
  shows "case put_byte c lines current of (lines', current') \<Rightarrow> list_all clean_line lines' \<and> list_all printable current'"
proof -
  have "printable (CHR '' '')" by (simp add: printable_def)
  moreover have "list_all printable (butlast current)" using assms(2) by (auto simp: list_all_iff dest: in_set_butlastD)
  ultimately show ?thesis using assms by (simp add: put_byte_def trim_spaces_clean)
qed

lemma scan_clean:
  assumes "scan_chunk m prev lines current chunk = (lines', current', m')"
    and "list_all clean_line lines" and "list_all printable current"
  shows "list_all clean_line lines' \<and> list_all printable current'"
  using assms
proof (induction m prev lines current chunk rule: scan_chunk.induct)
  case (5 prev lines current c rest)
  consider "c = CHR 0x1B" | "c = CHR 0x0D" | "c \<noteq> CHR 0x1B" "c \<noteq> CHR 0x0D" by blast
  then show ?case
  proof cases
    case 1
    then show ?thesis using "5.IH"(1) "5.prems" by simp
  next
    case 2
    then show ?thesis
      using "5.IH"(2,3) "5.prems" by (cases rest) (auto simp: trim_spaces_clean split: if_splits)
  next
    case 3
    then show ?thesis
      using "5.IH"(4) "5.prems" put_byte_clean[OF "5.prems"(2,3), of c] by (auto split: prod.splits)
  qed
qed auto

text \<open>
  Whatever bytes a worker's terminal delivers and however they are cut into chunks, every
  line that comes out and the partial line that is kept hold printable ASCII only and end in no
  blank.
\<close>

theorem fed_lines_clean:
  "case feed_chunks [] chunks of (lines, p) \<Rightarrow> list_all clean_line lines \<and> clean_line p"
proof -
  have norm: "list_all clean_line (tk_lines (normalizeTerminalChunk p c))
      \<and> clean_line (tk_partial (normalizeTerminalChunk p c))" if "clean_line p" for p c
  proof -
    have "list_all printable p" using that by (simp add: clean_line_def)
    then show ?thesis
      using that scan_clean[of Printing None "[]" p c]
      by (auto simp: normalizeTerminalChunk_def trim_spaces_clean split: prod.splits)
  qed
  have "clean_line p \<Longrightarrow> case feed_chunks p chunks of (lines, q) \<Rightarrow> list_all clean_line lines \<and> clean_line q" for p
  proof (induction chunks arbitrary: p)
    case (Cons c cs)
    show ?case
      using norm[OF Cons.prems, of c] Cons.IH[of "tk_partial (normalizeTerminalChunk p c)"]
      by (auto simp: Let_def split: prod.splits)
  qed simp
  then show ?thesis by (simp add: clean_line_def)
qed

section \<open>Where a chunk may be cut\<close>

lemma scan_prev: "scan_chunk Printing (Some c) lines current chunk = scan_chunk Printing None lines current chunk"
  by (cases chunk) (auto split: list.splits)

lemma put_byte_lines:
  "put_byte c lines current = (case put_byte c [] current of (more', cur) \<Rightarrow> (lines @ more', cur))"
  by (simp add: put_byte_def)

lemma scan_lines:
  "scan_chunk m prev lines current chunk =
     (case scan_chunk m prev [] current chunk of (more', c, m') \<Rightarrow> (lines @ more', c, m'))"
proof (induction chunk arbitrary: m prev lines current rule: length_induct)
  case (1 chunk)
  have ih: "scan_chunk k q (a @ b) c xs = (case scan_chunk k q b c xs of (more', c, m') \<Rightarrow> (a @ more', c, m'))"
    if "length xs < length chunk" for k q a b c xs
    using 1[rule_format, OF that, of k q "a @ b" c] 1[rule_format, OF that, of k q b c] by (simp split: prod.splits)
  show ?case
  proof (cases chunk)
    case (Cons x rest)
    have len: "length rest < length chunk" using Cons by simp
    have plain: "scan_chunk k q lines c rest = (case scan_chunk k q [] c rest of (more', c, m') \<Rightarrow> (lines @ more', c, m'))"
      for k q c using ih[OF len, of k q lines "[]" c] by simp
    show ?thesis
    proof (cases m)
      case Printing
      consider "x = CHR 0x1B" | "x = CHR 0x0D" | "x \<noteq> CHR 0x1B" "x \<noteq> CHR 0x0D" by blast
      then show ?thesis
      proof cases
        case 2
        have line: "scan_chunk Printing q (lines @ [l]) c ys = (case scan_chunk Printing q [l] c ys of
            (more', c, m') \<Rightarrow> (lines @ more', c, m'))" if "rest = y # ys" for y ys q l c
          using ih[of ys Printing q lines "[l]" c] that len by simp
        then show ?thesis using 2 plain unfolding Cons Printing by (cases rest) simp_all
      next
        case 3
        obtain more' cur where put: "put_byte x [] current = (more', cur)" by fastforce
        show ?thesis
          using 3 ih[OF len, of Printing "Some x" lines more' cur] put_byte_lines[of x lines current] put
          unfolding Cons Printing by simp
      qed (use plain in \<open>simp add: Cons Printing\<close>)
    qed (simp_all add: Cons plain)
  qed simp
qed

definition cut_inside_newline :: "string \<Rightarrow> string \<Rightarrow> bool" where
  "cut_inside_newline a b \<longleftrightarrow> a \<noteq> [] \<and> b \<noteq> [] \<and> last a = CHR 0x0D \<and> hd b = CHR 0x0A"

lemma scan_append:
  assumes "\<not> cut_inside_newline a b"
  shows "scan_chunk m prev lines current (a @ b) = (case scan_chunk m prev lines current a of
     (lines', current', m') \<Rightarrow> scan_chunk m' (if a = [] then prev else Some (last a)) lines' current' b)"
  using assms
proof (induction m prev lines current a rule: scan_chunk.induct)
  case (5 prev lines current c rest)
  have rest: "\<not> cut_inside_newline rest b" using "5.prems" by (auto simp: cut_inside_newline_def)
  have rest': "\<not> cut_inside_newline rest' b" if "rest = d # rest'" for d rest'
    using rest that by (auto simp: cut_inside_newline_def)
  consider "c = CHR 0x1B" | "c = CHR 0x0D" | "c \<noteq> CHR 0x1B" "c \<noteq> CHR 0x0D" by blast
  then show ?case
  proof cases
    case 1
    then show ?thesis using "5.IH"(1) rest by (simp split: prod.splits)
  next
    case 2
    show ?thesis
    proof (cases rest)
      case Nil
      then show ?thesis using 2 "5.prems" by (cases b) (auto simp: cut_inside_newline_def scan_prev)
    next
      case (Cons d rest')
      then show ?thesis using 2 "5.IH"(2,3) rest rest'[OF Cons] by (cases "d = CHR 0x0A") (simp_all split: prod.splits)
    qed
  next
    case 3
    obtain more' cur where put: "put_byte c lines current = (more', cur)" by fastforce
    then show ?thesis using 3 "5.IH"(4)[OF 3] rest by (simp split: prod.splits)
  qed
qed (auto simp: cut_inside_newline_def)

definition harmless_cut :: "string \<Rightarrow> string \<Rightarrow> string \<Rightarrow> bool" where
  "harmless_cut p a b \<longleftrightarrow> \<not> cut_inside_newline a b \<and> (case scan_chunk Printing None [] p a of
     (lines, current, m) \<Rightarrow> m = Printing \<and> trim_spaces current = current)"

text \<open>
  C38. A chunk may be cut in two without changing the lines and the partial line wherever the cut
  falls outside an escape sequence, not inside a CR LF and not behind a blank.
\<close>

theorem harmless_cuts_change_nothing:
  "if harmless_cut p a b \<and> trim_spaces p = p then feed_chunks p [a, b] = feed_chunks p [a @ b] else True"
proof (cases "a = [] \<or> b = []")
  case True
  have "trim_spaces (trim_spaces c) = trim_spaces c" for c by (simp add: trim_spaces_def)
  then show ?thesis
    using True by (auto simp: normalizeTerminalChunk_def Let_def harmless_cut_def split: prod.splits)
next
  case False
  obtain lines current m where a: "scan_chunk Printing None [] p a = (lines, current, m)" by (cases "scan_chunk Printing None [] p a")
  obtain lines' current' m' where b: "scan_chunk Printing None [] current b = (lines', current', m')"
    by (cases "scan_chunk Printing None [] current b")
  have "scan_chunk Printing None [] p (a @ b) = (lines @ lines', current', m')" if "harmless_cut p a b"
    using that False a b scan_append[of a b Printing None "[]" p] scan_lines[of Printing None lines current b]
    by (simp add: harmless_cut_def scan_prev)
  then show ?thesis using False a b by (simp add: normalizeTerminalChunk_def harmless_cut_def Let_def)
qed

section \<open>Where a cut changes the lines\<close>

lemma scan_text:
  "list_all printable s \<Longrightarrow> scan_chunk Printing None lines current (s @ rest) = scan_chunk Printing None lines (current @ s) rest"
proof (induction s arbitrary: current)
  case (Cons c s)
  have "c \<noteq> CHR 0x1B" "c \<noteq> CHR 0x0D" "c \<noteq> CHR 0x0A" "c \<noteq> CHR 0x08" "c \<noteq> CHR 0x7F" "c \<noteq> CHR 0x09"
    using Cons.prems by (auto simp: printable_def)
  then show ?case using Cons by (simp add: scan_prev put_byte_def)
qed simp

text \<open>
  The state of an escape sequence, a pending carriage return and the blanks at the end of the
  partial line are forgotten between chunks. When a terminal's output is cut between CR and LF the
  line is lost and an empty one appears; a cut behind a blank joins two words; a cut inside a
  colour sequence shows the rest of the sequence as text.
\<close>

theorem cuts_that_change_lines:
  "if list_all printable s \<and> s \<noteq> [] \<and> trim_spaces s = s then
     feed_chunks [] [s @ [CHR 0x0D, CHR 0x0A]] = ([s], [])
     \<and> feed_chunks [] [s @ [CHR 0x0D], [CHR 0x0A]] = ([[]], [])
     \<and> feed_chunks [] [s @ '' '' @ s] = ([], s @ '' '' @ s) \<and> feed_chunks [] [s @ '' '', s] = ([], s @ s)
     \<and> feed_chunks [] [CHR 0x1B # ''[31m'' @ s] = ([], s)
     \<and> feed_chunks [] [CHR 0x1B # ''[3'', ''1m'' @ s] = ([], ''1m'' @ s)
   else True"
proof -
  have trim: "trim_spaces (t @ s) = t @ s" if full: "s \<noteq> []" and tidy: "trim_spaces s = s" for t
  proof -
    obtain xs c where c: "s = xs @ [c]" using full by (cases s rule: rev_cases) auto
    have "length (trim_spaces xs) \<le> length xs" 
      using length_dropWhile_le[of "\<lambda>c. c = CHR '' ''" "rev xs"] by (simp add: trim_spaces_def)
    moreover have "trim_spaces (xs @ '' '') = trim_spaces xs" by (simp add: trim_spaces_def)
    ultimately have "c \<noteq> CHR '' ''" using tidy unfolding c by (metis length_append_singleton not_less_eq_eq order_refl)
    then show ?thesis by (simp add: c trim_spaces_def)
  qed
  have cuts: "feed_chunks [] [s @ [CHR 0x0D, CHR 0x0A]] = ([s], [])
     \<and> feed_chunks [] [s @ [CHR 0x0D], [CHR 0x0A]] = ([[]], [])
     \<and> feed_chunks [] [s @ '' '' @ s] = ([], s @ '' '' @ s) \<and> feed_chunks [] [s @ '' '', s] = ([], s @ s)
     \<and> feed_chunks [] [CHR 0x1B # ''[31m'' @ s] = ([], s)
     \<and> feed_chunks [] [CHR 0x1B # ''[3'', ''1m'' @ s] = ([], ''1m'' @ s)"
    if s: "list_all printable s" "s \<noteq> []" "trim_spaces s = s"
  proof -
    have p: "printable (CHR '' '')" "printable (CHR ''1'')" "printable (CHR ''m'')" by (simp_all add: printable_def)
    have read: "normalizeTerminalChunk q (t @ s) = \<lparr>tk_lines = [], tk_partial = q @ t @ s\<rparr>"
      if "list_all printable t" for q t
      using scan_text[of "t @ s" "[]" q "[]"] that s(1,2) trim[OF s(2,3), of "q @ t"]
      by (simp add: normalizeTerminalChunk_def)
    have blank: "trim_spaces (s @ '' '') = s" using s(3) by (simp add: trim_spaces_def)
    have a: "normalizeTerminalChunk [] (s @ [CHR 0x0D, CHR 0x0A]) = \<lparr>tk_lines = [s], tk_partial = []\<rparr>"
      using s by (simp add: normalizeTerminalChunk_def scan_text trim_spaces_def)
    have b: "normalizeTerminalChunk [] (s @ [CHR 0x0D]) = \<lparr>tk_lines = [], tk_partial = []\<rparr>"
      "normalizeTerminalChunk [] [CHR 0x0A] = \<lparr>tk_lines = [[]], tk_partial = []\<rparr>"
      using s(1,2) by (simp_all add: normalizeTerminalChunk_def scan_text trim_spaces_def put_byte_def)
    have c: "normalizeTerminalChunk [] (s @ '' '') = \<lparr>tk_lines = [], tk_partial = s\<rparr>"
      using s(1,2) p(1) blank scan_text[of "s @ '' ''" "[]" "[]" "[]"] by (simp add: normalizeTerminalChunk_def)
    have d: "normalizeTerminalChunk [] (CHR 0x1B # ''[31m'' @ s) = \<lparr>tk_lines = [], tk_partial = s\<rparr>"
      "normalizeTerminalChunk [] (CHR 0x1B # ''[3'') = \<lparr>tk_lines = [], tk_partial = []\<rparr>"
      using s scan_text[of s "[]" "[]" "[]"]
      by (simp_all add: normalizeTerminalChunk_def csi_final_def scan_prev trim_spaces_def)
    show ?thesis
      using read[of "s @ '' ''" "[]"] read[of "[]" s] read[of "''1m''" "[]"] a b c d p s(1)
      by (simp add: Let_def)
  qed
  then show ?thesis by simp
qed

section \<open>What a worker host keeps of its output\<close>

definition hostMaxLines :: nat where
  "hostMaxLines = 500"

definition keep_last :: "nat \<Rightarrow> 'a list \<Rightarrow> 'a list" where
  "keep_last n xs = (if length xs > n then drop (length xs - n) xs else xs)"

record TranscriptEvidenceChunk =
  ev_Source :: string
  ev_Content :: string
  ev_CreatedAt :: go_time

text \<open>The output side of a PTY host (\<open>CodexPTYHost\<close>); Hosts extends it with the rest.\<close>

record HostOutput =
  hb_lines :: "string list"
  hb_partial :: string
  hb_transcriptPending :: "TranscriptEvidenceChunk list"

definition appendLineLocked :: "go_time \<Rightarrow> string \<Rightarrow> 'a HostOutput_scheme \<Rightarrow> 'a HostOutput_scheme" where
  "appendLineLocked now line h =
     (let text' = trim_spaces line;
          pending = (if TrimSpace text' \<noteq> []
            then hb_transcriptPending h @ [\<lparr>ev_Source = ''worker_output'', ev_Content = text', ev_CreatedAt = now\<rparr>]
            else hb_transcriptPending h) in
      h\<lparr>hb_lines := keep_last hostMaxLines (hb_lines h @ [text']),
        hb_transcriptPending := keep_last hostMaxLines pending\<rparr>)"

definition DrainTranscriptEvidence ::
  "int \<Rightarrow> 'a HostOutput_scheme \<Rightarrow> TranscriptEvidenceChunk list \<times> 'a HostOutput_scheme" where
  "DrainTranscriptEvidence limit h =
     (let p = hb_transcriptPending h in
      if p = [] then ([], h)
      else if limit \<le> 0 \<or> limit \<ge> int (length p) then (p, h\<lparr>hb_transcriptPending := []\<rparr>)
      else (take (nat limit) p, h\<lparr>hb_transcriptPending := drop (nat limit) p\<rparr>))"

lemma keep_last_length: "length (keep_last n xs) \<le> n"
  by (simp add: keep_last_def)

text \<open>Lines and pending evidence stay within their bound.\<close>

definition output_bounded :: "'a HostOutput_scheme \<Rightarrow> bool" where
  "output_bounded h \<longleftrightarrow> length (hb_lines h) \<le> hostMaxLines \<and> length (hb_transcriptPending h) \<le> hostMaxLines"

lemma appended_bounded: "output_bounded (appendLineLocked now line h)"
  by (simp add: output_bounded_def appendLineLocked_def Let_def keep_last_length)

lemma drained_in_order:
  "case DrainTranscriptEvidence limit h of (out, h') \<Rightarrow> out @ hb_transcriptPending h' = hb_transcriptPending h"
  by (simp add: DrainTranscriptEvidence_def Let_def)

section \<open>The session journal\<close>

datatype SessionEventType =
    SessionEventShellStarted
  | SessionEventHostStartupAttempted
  | SessionEventHostLive
  | SessionEventResizeApplied
  | SessionEventHostExited
  | SessionEventHostFailed
  | SessionEventFallbackActivated
  | SessionEventManualRefresh
  | SessionEventPendingMessageStaged
  | SessionEventPendingMessageEditStarted
  | SessionEventPendingMessageEditSaved
  | SessionEventPendingMessageEditCanceled
  | SessionEventPendingMessageSent
  | SessionEventPendingMessageCleared
  | SessionEventPrimaryOperatorActionStarted
  | SessionEventPrimaryOperatorActionExecuted
  | SessionEventPrimaryOperatorActionFailed
  | SessionEventPriorPersistedProof

primrec SessionEventType_str :: "SessionEventType \<Rightarrow> string" where
  "SessionEventType_str SessionEventShellStarted = ''shell_started''"
| "SessionEventType_str SessionEventHostStartupAttempted = ''host_startup_attempted''"
| "SessionEventType_str SessionEventHostLive = ''host_live''"
| "SessionEventType_str SessionEventResizeApplied = ''resize_applied''"
| "SessionEventType_str SessionEventHostExited = ''host_exited''"
| "SessionEventType_str SessionEventHostFailed = ''host_failed''"
| "SessionEventType_str SessionEventFallbackActivated = ''fallback_activated''"
| "SessionEventType_str SessionEventManualRefresh = ''manual_refresh''"
| "SessionEventType_str SessionEventPendingMessageStaged = ''pending_message_staged''"
| "SessionEventType_str SessionEventPendingMessageEditStarted = ''pending_message_edit_started''"
| "SessionEventType_str SessionEventPendingMessageEditSaved = ''pending_message_edit_saved''"
| "SessionEventType_str SessionEventPendingMessageEditCanceled = ''pending_message_edit_canceled''"
| "SessionEventType_str SessionEventPendingMessageSent = ''pending_message_sent''"
| "SessionEventType_str SessionEventPendingMessageCleared = ''pending_message_cleared''"
| "SessionEventType_str SessionEventPrimaryOperatorActionStarted = ''primary_operator_action_started''"
| "SessionEventType_str SessionEventPrimaryOperatorActionExecuted = ''primary_operator_action_executed''"
| "SessionEventType_str SessionEventPrimaryOperatorActionFailed = ''primary_operator_action_failed''"
| "SessionEventType_str SessionEventPriorPersistedProof = ''prior_persisted_proof''"

record JournalEntry =
  jn_Type :: SessionEventType
  jn_Summary :: string
  jn_CreatedAt :: go_time

definition addSessionEvent :: "go_time \<Rightarrow> SessionEventType \<Rightarrow> string \<Rightarrow> JournalEntry list \<Rightarrow> JournalEntry list" where
  "addSessionEvent now typ' summary journal =
     keep_last 40 (journal @ [\<lparr>jn_Type = typ', jn_Summary = TrimSpace summary, jn_CreatedAt = now\<rparr>])"

definition recentSessionEvents :: "JournalEntry list \<Rightarrow> int \<Rightarrow> JournalEntry list" where
  "recentSessionEvents journal limit =
     (if limit \<le> 0 \<or> limit \<ge> int (length journal) then journal else drop (length journal - nat limit) journal)"

section \<open>The layout of the screen\<close>

record shellLayout =
  sy_bodyHeight :: int
  sy_workerWidth :: int
  sy_inspectorWidth :: int
  sy_proofHeight :: int
  sy_showInspector :: bool
  sy_showProof :: bool

definition proof_strip :: "int \<Rightarrow> int \<Rightarrow> bool \<Rightarrow> int" where
  "proof_strip height available wanted = (if wanted \<and> \<not> (height < 18 \<or> available - 4 < 8) then 4 else 0)"

definition inspector_width :: "int \<Rightarrow> bool \<Rightarrow> int" where
  "inspector_width width wanted =
     (let w = min 36 (max 28 (width div 4)) in
      if wanted \<and> \<not> width < 120 \<and> \<not> width - w - 2 < 72 then w else 0)"

definition computeShellLayout :: "int \<Rightarrow> int \<Rightarrow> bool \<Rightarrow> bool \<Rightarrow> shellLayout" where
  "computeShellLayout width0 height0 wantInspector wantProof =
     (let width = (if width0 \<le> 0 then 120 else width0); height = (if height0 \<le> 0 then 32 else height0);
          available = max 3 (height - 2); strip0 = proof_strip height available wantProof;
          strip = (if available - strip0 < 3 then 0 else strip0); inspector = inspector_width width wantInspector in
      \<lparr>sy_bodyHeight = available - strip,
       sy_workerWidth = (if inspector = 0 then width else width - inspector - 2),
       sy_inspectorWidth = inspector, sy_proofHeight = strip, sy_showInspector = (inspector \<noteq> 0),
       sy_showProof = (strip \<noteq> 0)\<rparr>)"

definition workerContentSize :: "shellLayout \<Rightarrow> int \<times> int" where
  "workerContentSize l = (max 1 (sy_workerWidth l), max 1 (sy_bodyHeight l - 1))"

text \<open>
  The panes never overlap and never exceed a terminal of known width; the worker keeps 72 columns
  beside an inspector, and the second height check of the code (a body of less than three lines)
  never fires.
\<close>

lemma layout_fits:
  fixes width height :: int and wantInspector wantProof :: bool
  defines "l \<equiv> computeShellLayout width height wantInspector wantProof"
  shows "3 \<le> sy_bodyHeight l"
    and "0 < width \<Longrightarrow> sy_workerWidth l + sy_inspectorWidth l + (if sy_showInspector l then 2 else 0) = width"
    and "sy_showInspector l \<Longrightarrow> 72 \<le> sy_workerWidth l \<and> sy_inspectorWidth l \<in> {28..36}"
    and "sy_proofHeight l = proof_strip (if height \<le> 0 then 32 else height)
      (max 3 ((if height \<le> 0 then 32 else height) - 2)) wantProof"
  unfolding l_def
  by (auto simp: computeShellLayout_def Let_def proof_strip_def inspector_width_def split: if_splits)

end
