(* ===== verification/OperatorCases.thy ===== *)
theory OperatorCases
  imports Scenarios OperatorStepFacts EntryFacts Terminal
begin

text \<open>
  A primary step in a concrete world, and what the receipt of a start says when there is no
  worker to start.
\<close>

definition next_request :: ExecutePrimaryOperatorStepRequest where
  "next_request = \<lparr>nq_TaskID = ''t'', nq_AcknowledgeReviewGap = False, nq_ReviewGapSessionID = [],
     nq_ReviewGapAcknowledgmentKind = [], nq_ReviewGapSummary = []\<rparr>"

definition briefed_world :: World where
  "briefed_world = (start_world 0)\<lparr>w_db := (empty_db 5)\<lparr>db_capsules := [sample_capsule],
     db_briefs := [sample_brief], db_intents := [sample_intent]\<rparr>\<rparr>"

theorem operator_step_recorded_witness:
  "runs_ok (w_db briefed_world)
   \<and> (case ExecutePrimaryOperatorStep sample_deps None (\<lambda>y. None) None next_request briefed_world of
        (Inl e, w') \<Rightarrow> True
      | (Inr z, w') \<Rightarrow>
          (case assess sample_deps ''t'' briefed_world of
             (Inl e, v) \<Rightarrow> False
           | (Inr a, v) \<Rightarrow> step_outcome ''t'' a (w_db briefed_world) (nz_Receipt z) (w_db w')))"
proof -
  have ok: "runs_ok (w_db briefed_world)" by code_simp
  have t: "TrimSpace (nq_TaskID next_request) = ''t''" by code_simp
  show ?thesis
    using operator_step_recorded[OF ok, where E = sample_deps and W = None and J = "\<lambda>y. None" and L = None
        and q = next_request] ok
    unfolding t by blast
qed

lemma nothing_prepared: "triple (\<lambda>u. True) (prepareRealRun E None rq) (\<lambda>x u. isl x)"
proof -
  have any: "triple (\<lambda>u. True) m (\<lambda>x u. True)" for m :: "'z op" by (rule tripleI) simp
  have refused: "triple (\<lambda>u. True) (bnd m (\<lambda>x. ret (Inl x))) (\<lambda>x u. isl x)" for m :: "RunTaskResult op"
    by (rule t_bnd[OF any], rule tripleI) (auto simp: ret_run)
  show ?thesis
    unfolding prepareRealRun_def
    by (rule t_tx, rule t_bnd[OF any], rule t_if, rule refused, rule t_bnd[OF any], (rule t_prod)+,
      rule t_if, rule t_pre[OF refused], simp, simp add: t_pre[OF refused])
qed

lemma refused_without_worker:
  "triple (\<lambda>u. u = w) (prepareRealRun E None rq) (\<lambda>x u. \<exists>y. x = Inl y \<and> db_runs (w_db u) = db_runs (w_db w)
     \<and> rt_RunStatus y = RunStatusFailed \<and> rt_RunID y = [])"
proof (rule tripleI)
  fix u x u'
  assume u: "u = w" and run: "prepareRealRun E None rq u = (Inr x, u')"
  obtain y where y: "x = Inl y" using tripleD[OF nothing_prepared TrueI run] by (cases x) simp_all
  show "\<exists>y. x = Inl y \<and> db_runs (w_db u') = db_runs (w_db w) \<and> rt_RunStatus y = RunStatusFailed \<and> rt_RunID y = []"
    using tripleD[OF prepare_outcome u run] y by simp
qed

lemma start_is_real: "run_action (start_request t) = ''start''" "run_mode (start_request t) = ''real''"
  by code_simp+

text \<open>
  Without a worker adapter the start of a local run records no run and reports status FAILED
  without a run id, and the receipt of the step says SUCCEEDED all the same.
\<close>

theorem start_without_worker:
  "case RunTask E None (start_request t) w of
     (Inl e, w') \<Rightarrow> w_db w' = w_db w
   | (Inr y, w') \<Rightarrow> db_runs (w_db w') = db_runs (w_db w) \<and> rt_RunStatus y = RunStatusFailed \<and> rt_RunID y = []
       \<and> dp_resultClass (started_dispatch y) = ResultSucceeded"
proof -
  have run: "RunTask E None (start_request t) w = startRunRealStaged E None (start_request t) w"
    by (simp add: RunTask_def start_is_real)
  show ?thesis
  proof (cases "prepareRealRun E None (start_request t) w")
    case (Pair x u)
    show ?thesis
    proof (cases x)
      case (Inl e)
      have "w_db u = w_db w" using Pair Inl by (auto simp: prepareRealRun_def withTx_def split: prod.splits sum.splits)
      then show ?thesis unfolding run startRunRealStaged_def bnd_def Pair Inl by simp
    next
      case (Inr p)
      then show ?thesis
        using tripleD[OF refused_without_worker refl Pair[unfolded Inr]]
        unfolding run startRunRealStaged_def bnd_def Pair
        by (auto simp: ret_run started_dispatch_def plain_dispatch_def)
    qed
  qed
qed

end
