(* ===== verification/Intents.thy ===== *)
theory Intents
  imports Runs
begin

text \<open>
  The deterministic intent compiler (intent_stub.go): classification of a message, extraction
  of constraints, criteria and scope, ambiguity, posture, readiness and confidence. The
  confidence is counted in hundredths, which is what the code rounds it to.
\<close>

section \<open>Texts\<close>

definition hasAny :: "string \<Rightarrow> string list \<Rightarrow> bool" where
  "hasAny text needles \<longleftrightarrow> list_ex (\<lambda>n. n \<noteq> [] \<and> str_contains text n) needles"

definition hasExplicitActionVerb :: "string \<Rightarrow> bool" where
  "hasExplicitActionVerb m = hasAny m
     [''implement'', ''build'', ''add'', ''create'', ''update'', ''refactor'', ''wire'', ''integrate'',
      ''fix'', ''patch'', ''debug'', ''test'', ''validate'', ''verify'', ''check'', ''review'', ''continue'']"

text \<open>\<open>strings.LastIndex\<close> of a blank: the text before the last blank, if there is one.\<close>

definition before_last_blank :: "string \<Rightarrow> string option" where
  "before_last_blank s =
     (case dropWhile (\<lambda>c. c \<noteq> CHR '' '') (rev s) of [] \<Rightarrow> None | c # r \<Rightarrow> Some (rev r))"

definition truncateSentence :: "string \<Rightarrow> nat \<Rightarrow> string" where
  "truncateSentence text limit =
     (let trimmed = TrimSpace text in
      if trimmed = [] \<or> limit = 0 \<or> length trimmed \<le> limit then trimmed
      else if rune_count trimmed \<le> limit then trimmed
      else
        let cut = take_runes limit trimmed;
            cut' = (case before_last_blank cut of
              Some (c # s) \<Rightarrow> TrimSpace (c # s) | _ \<Rightarrow> cut) in
        TrimSpace cut' @ ''...'')"

fun replace_crlf :: "string \<Rightarrow> string" where
  "replace_crlf (a # b # s) =
     (if a = CHR 0x0D \<and> b = CHR 0x0A then CHR 0x0A # replace_crlf s else a # replace_crlf (b # s))"
| "replace_crlf s = s"

definition TrimPrefix :: "string \<Rightarrow> string \<Rightarrow> string" where
  "TrimPrefix s p = (if prefix p s then drop (length p) s else s)"

text \<open>The bullet U+2022 in UTF-8.\<close>

definition bullet :: string where
  "bullet = [CHR 0xE2, CHR 0x80, CHR 0xA2]"

definition splitCandidateLines :: "string \<Rightarrow> string list" where
  "splitCandidateLines text =
     (if TrimSpace text = [] then []
      else filter (\<lambda>l. l \<noteq> [])
        (map (\<lambda>line. TrimSpace (TrimPrefix (TrimPrefix (TrimPrefix line ''-'') ''*'') bullet))
          (split_char (CHR 0x0A) (replace_crlf text))))"

definition normalizeConstraintLine :: "string \<Rightarrow> string" where
  "normalizeConstraintLine line =
     (if TrimSpace line = [] then [] else truncateSentence (TrimSpace line) 180)"

section \<open>Scope tokens\<close>

text \<open>
  The pattern is a path of at least two word segments, or a word, a dot and an extension of one
  to eight letters or digits. Matching is leftmost-first: the path is tried before the dotted
  name, every repetition takes as much as it can.
\<close>

definition alnum_char :: "char \<Rightarrow> bool" where
  "alnum_char c \<longleftrightarrow> (let n = (of_char c :: nat) in
     48 \<le> n \<and> n \<le> 57 \<or> 65 \<le> n \<and> n \<le> 90 \<or> 97 \<le> n \<and> n \<le> 122)"

definition word_char :: "char \<Rightarrow> bool" where
  "word_char c \<longleftrightarrow> alnum_char c \<or> c \<in> set ''._-''"

function path_rest :: "string \<Rightarrow> string" where
  "path_rest s =
     (case s of
        [] \<Rightarrow> []
      | c # t \<Rightarrow>
         (let w = takeWhile word_char t in
          if c = CHR ''/'' \<and> w \<noteq> [] then c # w @ path_rest (dropWhile word_char t) else []))"
  by auto
termination
  by (relation "measure length") (auto simp: le_imp_less_Suc length_dropWhile_le)

declare path_rest.simps [simp del]

definition path_match :: "string \<Rightarrow> string" where
  "path_match s =
     (let w = takeWhile word_char s; r = path_rest (dropWhile word_char s) in
      if w \<noteq> [] \<and> r \<noteq> [] then w @ r else [])"

definition dotted_match :: "string \<Rightarrow> string" where
  "dotted_match s =
     (let w = takeWhile word_char s;
          dots = filter (\<lambda>k. w ! k = CHR ''.'' \<and> alnum_char (w ! Suc k)) [1..<length w - 1] in
      if dots = [] then []
      else let k = last dots in take (Suc k) w @ take 8 (takeWhile alnum_char (drop (Suc k) w)))"

definition scope_match :: "string \<Rightarrow> string" where
  "scope_match s = (if path_match s \<noteq> [] then path_match s else dotted_match s)"

function scope_tokens :: "string \<Rightarrow> string list" where
  "scope_tokens [] = []"
| "scope_tokens (c # s) =
     (let m = scope_match (c # s) in
      if m = [] then scope_tokens s else m # scope_tokens (drop (length m - 1) s))"
  by pat_completeness auto
termination
  by (relation "measure length") (auto simp: le_imp_less_Suc)

text \<open>\<open>strings.Trim\<close> with a set of characters.\<close>

definition trim_set :: "string \<Rightarrow> string \<Rightarrow> string" where
  "trim_set cs s = rev (dropWhile (\<lambda>c. c \<in> set cs) (rev (dropWhile (\<lambda>c. c \<in> set cs) s)))"

definition scope_punctuation :: string where
  "scope_punctuation = [CHR 0x60, CHR 0x22, CHR 0x27] @ ''.,:;()[]{}''"

fun scope_signals :: "nat \<Rightarrow> string list \<Rightarrow> string list \<Rightarrow> string list" where
  "scope_signals room seen [] = []"
| "scope_signals room seen (m # ms) =
     (let token = TrimSpace (trim_set scope_punctuation m) in
      if token = [] \<or> token \<in> set seen then scope_signals room seen ms
      else if room \<le> 1 then [token]
      else token # scope_signals (room - 1) (token # seen) ms)"

definition deriveScopeSummary :: "string list \<Rightarrow> IntentClass \<Rightarrow> string \<times> nat" where
  "deriveScopeSummary recent cls =
     (let signals = scope_signals 8 [] (concat (map scope_tokens recent)) in
      if signals \<noteq> []
      then (''bounded scope signals: '' @ str_join (take 3 signals) '', '', length signals)
      else (case cls of
          ClassValidate \<Rightarrow> (''bounded scope inferred as validation over current task changes (no explicit file scope provided)'', 0)
        | ClassDebug \<Rightarrow> (''bounded scope inferred as failing behavior and nearby repair targets (explicit file scope not provided)'', 0)
        | _ \<Rightarrow> (''bounded scope not explicitly provided; operator clarification may improve execution targeting'', 0)))"

section \<open>The compiler\<close>

definition boundedRecentMessages :: "string list \<Rightarrow> string \<Rightarrow> nat \<Rightarrow> string list" where
  "boundedRecentMessages recent latest limit =
     (let trimmed = filter (\<lambda>m. m \<noteq> []) (map TrimSpace recent);
          out = (if TrimSpace latest \<noteq> [] \<and> TrimSpace latest \<notin> set trimmed
                 then trimmed @ [TrimSpace latest] else trimmed) in
      if length out \<le> limit then out else drop (length out - limit) out)"

definition classifyIntentClass :: "string \<Rightarrow> IntentClass" where
  "classifyIntentClass m =
     (if hasAny m [''pause'', ''stop'', ''hold off'', ''wait for now''] then ClassPause
      else if hasAny m [''status'', ''summarize'', ''summary'', ''explain'', ''what happened'', ''where are we'']
      then ClassExplain
      else if hasAny m [''validate'', ''validation'', ''verify'', ''check'', ''test'', ''tests'', ''smoke test'', ''regression'']
      then ClassValidate
      else if hasAny m [''fix'', ''bug'', ''broken'', ''failure'', ''failing'', ''repair'', ''recover'', ''recovery'']
      then ClassDebug
      else if hasAny m [''approve'', ''approved'', ''lgtm''] then ClassApproval
      else if hasAny m [''replan'', ''re-plan'', ''change plan'', ''adjust scope''] then ClassReplan
      else if hasAny m [''continue'', ''proceed''] then ClassContinueTask
      else if hasAny m [''mark complete'', ''mark done''] then ClassComplete
      else ClassImplement)"

definition first_line :: "string \<Rightarrow> string" where
  "first_line s = takeWhile (\<lambda>c. c \<noteq> CHR 0x0A) s"

definition deriveIntentObjective :: "string \<Rightarrow> string \<Rightarrow> string" where
  "deriveIntentObjective latest currentGoal =
     (let trimmed = TrimSpace latest; goal = TrimSpace currentGoal;
          firstLine = TrimSpace (first_line trimmed) in
      if trimmed = [] then
        (if goal \<noteq> [] then goal else ''Clarify the current task objective from operator input.'')
      else truncateSentence (if firstLine = [] then trimmed else firstLine) 180)"

definition deriveRequestedOutcome :: "IntentClass \<Rightarrow> string \<Rightarrow> string" where
  "deriveRequestedOutcome cls latest =
     (case cls of
        ClassValidate \<Rightarrow> ''produce a validation-focused result summary with bounded evidence''
      | ClassDebug \<Rightarrow> ''produce a repair-oriented change set with bounded evidence''
      | ClassExplain \<Rightarrow> ''produce an operator-facing status/explanation summary''
      | ClassPause \<Rightarrow> ''pause active execution and preserve continuity truth''
      | ClassContinueTask \<Rightarrow> ''continue execution from current canonical task state''
      | ClassReplan \<Rightarrow> ''restructure task scope and execution approach conservatively''
      | _ \<Rightarrow> (if TrimSpace latest \<noteq> [] then truncateSentence (TrimSpace latest) 140
              else ''prepare the next bounded implementation step''))"

definition deriveNormalizedAction :: "IntentClass \<Rightarrow> string \<Rightarrow> string \<Rightarrow> string" where
  "deriveNormalizedAction cls latest requestedOutcome =
     (case cls of
        ClassValidate \<Rightarrow> ''prepare validation execution and evidence review''
      | ClassDebug \<Rightarrow> ''debug and patch the reported issue''
      | ClassExplain \<Rightarrow> ''summarize current task and continuity state''
      | ClassPause \<Rightarrow> ''pause active work and retain continuity evidence''
      | ClassContinueTask \<Rightarrow> ''continue from current task continuity state''
      | ClassReplan \<Rightarrow> ''replan scope and execution sequence conservatively''
      | _ \<Rightarrow>
          (let t = (if TrimSpace latest = [] then TrimSpace requestedOutcome else TrimSpace latest) in
           if t = [] then ''prepare bounded implementation execution'' else truncateSentence t 140))"

definition lines_with :: "string list \<Rightarrow> string list \<Rightarrow> string list" where
  "lines_with marks recent = map normalizeConstraintLine
     (filter (\<lambda>line. list_ex (str_contains (ToLower line)) marks)
       (concat (map splitCandidateLines recent)))"

definition extractExplicitConstraints :: "string list \<Rightarrow> string list" where
  "extractExplicitConstraints recent = dedupeNonEmpty
     (lines_with [''do not '', ''don'' @ [CHR 0x27] @ ''t '', ''without '', ''must not ''] recent) 8"

definition extractDoneCriteria :: "string list \<Rightarrow> string list" where
  "extractDoneCriteria recent = dedupeNonEmpty
     (lines_with [''done when'', ''success when'', ''must include'', ''should include''] recent) 6"

definition deriveAmbiguityFlags :: "string \<Rightarrow> IntentClass \<Rightarrow> nat \<Rightarrow> string list" where
  "deriveAmbiguityFlags m cls scopeSignals = dedupeNonEmpty
     ((if str_contains m ''?'' then [''contains_open_question''] else [])
      @ (if hasAny m [''maybe'', ''not sure'', ''unclear'', ''explore'', ''brainstorm'', ''idea'', ''half-formed'', ''rough plan'']
         then [''exploratory_language''] else [])
      @ (if hasAny m [''something'', ''anything'', ''whatever''] then [''outcome_underspecified''] else [])
      @ (if \<not> hasExplicitActionVerb m \<and> cls \<noteq> ClassExplain \<and> cls \<noteq> ClassPause
         then [''missing_explicit_action''] else [])
      @ (if scopeSignals = 0 \<and> cls \<in> {ClassImplement, ClassDebug, ClassValidate, ClassReplan}
         then [''scope_not_explicit''] else [])) 6"

definition flag_question :: "string \<Rightarrow> string list" where
  "flag_question flag =
     (if flag = ''missing_explicit_action'' then [''What concrete next action should bounded execution perform?'']
      else if flag = ''scope_not_explicit'' then [''Which files or subsystems are explicitly in scope?'']
      else if flag = ''outcome_underspecified'' then [''What result should count as done for the immediate step?'']
      else if flag = ''contains_open_question''
      then [''Is this request exploratory, or should Tuku prepare an execution-ready brief now?'']
      else [])"

definition deriveClarificationQuestions :: "string list \<Rightarrow> string list" where
  "deriveClarificationQuestions flags = dedupeNonEmpty (concat (map flag_question flags)) 4"

definition deriveIntentPosture :: "IntentClass \<Rightarrow> string \<Rightarrow> string list \<Rightarrow> bool \<Rightarrow> IntentPosture" where
  "deriveIntentPosture cls m flags requiresClarification =
     (if requiresClarification \<and> hasAny m [''plan'', ''planning'', ''approach'', ''design'', ''milestone'', ''roadmap'']
      then IntentPosturePlanning
      else case cls of
        ClassDebug \<Rightarrow> IntentPostureRepairRecovery
      | ClassValidate \<Rightarrow> IntentPostureValidationFocused
      | ClassReplan \<Rightarrow> IntentPosturePlanning
      | ClassExplain \<Rightarrow> IntentPostureExploratoryAmbiguous
      | ClassApproval \<Rightarrow> IntentPostureExploratoryAmbiguous
      | ClassPause \<Rightarrow> IntentPostureClarificationNeeded
      | _ \<Rightarrow>
         (if hasAny m [''plan'', ''planning'', ''approach'', ''design'', ''brainstorm'', ''milestone'', ''roadmap'']
          then IntentPosturePlanning
          else if requiresClarification \<or> flags \<noteq> [] then IntentPostureExploratoryAmbiguous
          else IntentPostureExecutionReady))"

definition deriveIntentReadiness :: "IntentPosture \<Rightarrow> bool \<Rightarrow> Readiness \<times> string" where
  "deriveIntentReadiness posture requiresClarification =
     (if requiresClarification \<or> posture = IntentPostureClarificationNeeded
         \<or> posture = IntentPostureExploratoryAmbiguous
      then (ReadinessClarificationNeeded, ''clarification signals remain in bounded recent operator input'')
      else (case posture of
          IntentPosturePlanning \<Rightarrow> (ReadinessPlanningInProgress, ''request remains in planning posture within bounded recent operator input'')
        | IntentPostureValidationFocused \<Rightarrow> (ReadinessValidationFocused, ''request is validation-focused in bounded recent operator input'')
        | IntentPostureRepairRecovery \<Rightarrow> (ReadinessRepairRecovery, ''request is repair/recovery-focused in bounded recent operator input'')
        | _ \<Rightarrow> (ReadinessExecutionReady, ''bounded recent operator input is sufficiently specific for execution preparation'')))"

definition deriveProposedPhase :: "IntentClass \<Rightarrow> IntentPosture \<Rightarrow> Readiness \<Rightarrow> Phase" where
  "deriveProposedPhase cls posture readiness =
     (if cls = ClassPause then PhasePaused
      else if posture = IntentPostureValidationFocused \<or> readiness = ReadinessValidationFocused
      then PhaseValidating else PhaseInterpreting)"

definition deriveConfidence :: "string \<Rightarrow> IntentClass \<Rightarrow> nat \<Rightarrow> string list \<Rightarrow> string list \<Rightarrow> int" where
  "deriveConfidence m cls scopeSignals flags doneCriteria =
     (let c = 62 + (if hasExplicitActionVerb m then 14 else 0) + (if scopeSignals > 0 then 8 else 0)
            + (if doneCriteria \<noteq> [] then 5 else 0)
            + (if cls \<in> {ClassValidate, ClassDebug, ClassContinueTask} then 4
               else if cls = ClassExplain then 2 else 0)
            - 8 * int (length flags) in
      max 20 (min 95 c))"

definition Compile :: "IntentID \<Rightarrow> go_time \<Rightarrow> CompileInput \<Rightarrow> IntentState" where
  "Compile newID now input =
     (let latest = TrimSpace (ci_LatestMessage input);
          m = ToLower latest;
          recent = boundedRecentMessages (ci_RecentMessages input) latest 12;
          evidenceCount = (if recent = [] \<and> latest \<noteq> [] then 1 else int (length recent));
          cls = classifyIntentClass m;
          requestedOutcome = deriveRequestedOutcome cls latest;
          doneCriteria = extractDoneCriteria recent;
          (scopeSummary, scopeSignals) = deriveScopeSummary recent cls;
          flags = deriveAmbiguityFlags m cls scopeSignals;
          questions = deriveClarificationQuestions flags;
          required = (questions \<noteq> []);
          posture = deriveIntentPosture cls m flags required;
          (readiness, readinessReason) = deriveIntentReadiness posture required in
      \<lparr>i_Version = 2, i_IntentID = newID, i_TaskID = ci_TaskID input, i_Class = cls,
       i_Posture = posture, i_ExecutionReadiness = readiness,
       i_Objective = deriveIntentObjective latest (ci_CurrentGoal input),
       i_RequestedOutcome = requestedOutcome,
       i_NormalizedAction = deriveNormalizedAction cls latest requestedOutcome,
       i_ScopeSummary = scopeSummary,
       i_ExplicitConstraints = extractExplicitConstraints recent, i_DoneCriteria = doneCriteria,
       i_AmbiguityFlags = flags, i_ClarificationQuestions = questions,
       i_RequiresClarification = required, i_ReadinessReason = readinessReason,
       i_CompilationNotes = ''Derived from latest operator message with '' @ itoa evidenceCount
         @ '' bounded recent message(s).''
         @ (if required then '' Clarification signals remain explicit in this bounded window.'' else []),
       i_BoundedEvidenceMessages = evidenceCount,
       i_Confidence = deriveConfidence m cls scopeSignals flags doneCriteria,
       i_SourceMessageIDs = [], i_ProposedPhase = deriveProposedPhase cls posture readiness,
       i_CreatedAt = now\<rparr>)"

section \<open>Deduplication\<close>

lemma dedupe_empty_iff:
  "limit > 0 \<Longrightarrow> dedupeNonEmpty xs limit = [] \<longleftrightarrow> list_all (\<lambda>x. TrimSpace x = []) xs"
proof -
  assume "limit > 0"
  then have room: "1 \<le> nat limit" by simp
  note k = dedupe_from_kept[OF room refl, of "[]" xs]
  show ?thesis
  proof
    assume "dedupeNonEmpty xs limit = []"
    then show "list_all (\<lambda>x. TrimSpace x = []) xs"
      using k room \<open>limit > 0\<close> by (auto simp: dedupeNonEmpty_def list_all_iff)
  next
    assume "list_all (\<lambda>x. TrimSpace x = []) xs"
    then show "dedupeNonEmpty xs limit = []"
      using k \<open>limit > 0\<close>
      by (cases "dedupe_from (nat limit) [] xs") (auto simp: dedupeNonEmpty_def list_all_iff)
  qed
qed

lemma dedupe_length: "limit > 0 \<Longrightarrow> int (length (dedupeNonEmpty xs limit)) \<le> limit"
  using dedupe_from_kept[of "nat limit" "{}" "[]" xs] by (cases "nat limit") (auto simp: dedupeNonEmpty_def)

section \<open>Flags and questions\<close>

lemma word_trim:
  "TrimSpace ''contains_open_question'' = ''contains_open_question''"
  "TrimSpace ''exploratory_language'' = ''exploratory_language''"
  "TrimSpace ''outcome_underspecified'' = ''outcome_underspecified''"
  "TrimSpace ''missing_explicit_action'' = ''missing_explicit_action''"
  "TrimSpace ''scope_not_explicit'' = ''scope_not_explicit''"
  by code_simp+

lemma word_lower:
  "ToLower ''contains_open_question'' = ''contains_open_question''"
  "ToLower ''exploratory_language'' = ''exploratory_language''"
  "ToLower ''outcome_underspecified'' = ''outcome_underspecified''"
  "ToLower ''missing_explicit_action'' = ''missing_explicit_action''"
  "ToLower ''scope_not_explicit'' = ''scope_not_explicit''"
  by code_simp+

lemma flag_words:
  "dedupeNonEmpty ((if a then [''contains_open_question''] else []) @ (if b then [''exploratory_language''] else [])
      @ (if c then [''outcome_underspecified''] else []) @ (if d then [''missing_explicit_action''] else [])
      @ (if e then [''scope_not_explicit''] else [])) 6 =
    (if a then [''contains_open_question''] else []) @ (if b then [''exploratory_language''] else [])
      @ (if c then [''outcome_underspecified''] else []) @ (if d then [''missing_explicit_action''] else [])
      @ (if e then [''scope_not_explicit''] else [])"
  by (cases a; cases b; cases c; cases d; cases e) (simp_all add: dedupeNonEmpty_def Let_def word_trim word_lower)

text \<open>The flags, one by one.\<close>

lemma flags_exact:
  "deriveAmbiguityFlags m cls n =
     (if str_contains m ''?'' then [''contains_open_question''] else [])
      @ (if hasAny m [''maybe'', ''not sure'', ''unclear'', ''explore'', ''brainstorm'', ''idea'', ''half-formed'', ''rough plan'']
         then [''exploratory_language''] else [])
      @ (if hasAny m [''something'', ''anything'', ''whatever''] then [''outcome_underspecified''] else [])
      @ (if \<not> hasExplicitActionVerb m \<and> cls \<noteq> ClassExplain \<and> cls \<noteq> ClassPause
         then [''missing_explicit_action''] else [])
      @ (if n = 0 \<and> cls \<in> {ClassImplement, ClassDebug, ClassValidate, ClassReplan}
         then [''scope_not_explicit''] else [])"
  unfolding deriveAmbiguityFlags_def by (rule flag_words)

definition flag_names :: "string list" where
  "flag_names = [''contains_open_question'', ''outcome_underspecified'', ''missing_explicit_action'', ''scope_not_explicit'']"

lemma question_text: "list_all (\<lambda>q. TrimSpace q \<noteq> []) (flag_question f)"
proof -
  have q: "list_all (\<lambda>f. list_all (\<lambda>q. TrimSpace q \<noteq> []) (flag_question f)) flag_names" by code_simp
  show ?thesis
    using q by (cases "f \<in> set flag_names") (auto simp: list_all_iff flag_question_def flag_names_def)
qed

lemma no_questions_iff:
  "deriveClarificationQuestions flags = [] \<longleftrightarrow> list_all (\<lambda>f. flag_question f = []) flags"
proof -
  have "list_all (\<lambda>x. TrimSpace x = []) (flag_question f) \<longleftrightarrow> flag_question f = []" for f
    using question_text[of f] by (cases "flag_question f") (auto simp: list_all_iff)
  then show ?thesis
    by (simp add: deriveClarificationQuestions_def dedupe_empty_iff) (simp add: list_all_iff)
qed

lemma classes: "classifyIntentClass m \<in> {ClassPause, ClassExplain, ClassValidate, ClassDebug,
    ClassApproval, ClassReplan, ClassContinueTask, ClassComplete, ClassImplement}"
  by (simp add: classifyIntentClass_def)


section \<open>Texts that are never empty\<close>

lemma truncate_nonempty: "TrimSpace t \<noteq> [] \<Longrightarrow> truncateSentence t n \<noteq> []"
  by (simp add: truncateSentence_def Let_def)

lemma objective_nonempty: "deriveIntentObjective latest goal \<noteq> []"
  by (simp add: deriveIntentObjective_def Let_def truncate_nonempty)

lemma outcome_nonempty: "deriveRequestedOutcome cls latest \<noteq> []"
  by (cases cls) (simp_all add: deriveRequestedOutcome_def truncate_nonempty)

lemma action_nonempty: "deriveNormalizedAction cls latest out \<noteq> []"
  by (cases cls) (simp_all add: deriveNormalizedAction_def Let_def truncate_nonempty)

lemma scope_nonempty: "fst (deriveScopeSummary recent cls) \<noteq> []"
  by (cases cls) (simp_all add: deriveScopeSummary_def Let_def)

lemma recent_length: "length (boundedRecentMessages recent latest n) \<le> n"
  by (simp add: boundedRecentMessages_def Let_def)

lemma recent_none:
  "n > 0 \<Longrightarrow> boundedRecentMessages recent latest n = [] \<Longrightarrow> TrimSpace latest = []"
  by (auto simp: boundedRecentMessages_def Let_def filter_empty_conv split: if_splits)

section \<open>Well-formed intents\<close>

definition intent_ok :: "IntentState \<Rightarrow> bool" where
  "intent_ok i \<longleftrightarrow>
     i_RequiresClarification i = (i_ClarificationQuestions i \<noteq> [])
     \<and> (i_ExecutionReadiness i = ReadinessClarificationNeeded) =
         (i_RequiresClarification i \<or> i_Posture i = IntentPostureClarificationNeeded
          \<or> i_Posture i = IntentPostureExploratoryAmbiguous)
     \<and> i_ProposedPhase i \<in> {PhasePaused, PhaseValidating, PhaseInterpreting}
     \<and> (i_ProposedPhase i = PhasePaused) = (i_Class i = ClassPause)
     \<and> i_Objective i \<noteq> [] \<and> i_RequestedOutcome i \<noteq> [] \<and> i_NormalizedAction i \<noteq> []
     \<and> i_ScopeSummary i \<noteq> []
     \<and> length (i_ExplicitConstraints i) \<le> 8 \<and> length (i_DoneCriteria i) \<le> 6
     \<and> length (i_AmbiguityFlags i) \<le> 5 \<and> length (i_ClarificationQuestions i) \<le> 4
     \<and> 0 \<le> i_BoundedEvidenceMessages i \<and> i_BoundedEvidenceMessages i \<le> 12
     \<and> 20 \<le> i_Confidence i \<and> i_Confidence i \<le> 95"

lemma dedupe_lengths:
  "length (extractExplicitConstraints rs) \<le> 8" "length (extractDoneCriteria rs) \<le> 6"
  "length (deriveClarificationQuestions fs) \<le> 4" "length (deriveAmbiguityFlags m cls n) \<le> 5"
  using dedupe_length[of 8] dedupe_length[of 6] dedupe_length[of 4]
  by (simp_all add: extractExplicitConstraints_def extractDoneCriteria_def
      deriveClarificationQuestions_def flags_exact)

lemma readiness_clarification:
  "fst (deriveIntentReadiness p r) = ReadinessClarificationNeeded \<longleftrightarrow>
     r \<or> p = IntentPostureClarificationNeeded \<or> p = IntentPostureExploratoryAmbiguous"
  by (simp add: deriveIntentReadiness_def split: IntentPosture.split)

lemma readiness_execution:
  "fst (deriveIntentReadiness (deriveIntentPosture cls m flags r) r) = ReadinessExecutionReady \<longleftrightarrow>
     \<not> r \<and> flags = [] \<and> cls \<notin> {ClassDebug, ClassValidate, ClassReplan, ClassExplain, ClassApproval, ClassPause}
     \<and> \<not> hasAny m [''plan'', ''planning'', ''approach'', ''design'', ''brainstorm'', ''milestone'', ''roadmap'']"
  by (cases cls) (simp_all add: deriveIntentReadiness_def deriveIntentPosture_def)

text \<open>The parts the compiler computes on the way, and the fields they end up in.\<close>

abbreviation latest_of :: "CompileInput \<Rightarrow> string" where
  "latest_of input \<equiv> TrimSpace (ci_LatestMessage input)"

definition recent_of :: "CompileInput \<Rightarrow> string list" where
  "recent_of input = boundedRecentMessages (ci_RecentMessages input) (latest_of input) 12"

definition class_of :: "CompileInput \<Rightarrow> IntentClass" where
  "class_of input = classifyIntentClass (ToLower (latest_of input))"

definition flags_of :: "CompileInput \<Rightarrow> string list" where
  "flags_of input = deriveAmbiguityFlags (ToLower (latest_of input)) (class_of input)
     (snd (deriveScopeSummary (recent_of input) (class_of input)))"

definition asks_of :: "CompileInput \<Rightarrow> bool" where
  "asks_of input \<longleftrightarrow> deriveClarificationQuestions (flags_of input) \<noteq> []"

definition posture_of :: "CompileInput \<Rightarrow> IntentPosture" where
  "posture_of input = deriveIntentPosture (class_of input) (ToLower (latest_of input)) (flags_of input) (asks_of input)"

lemmas compile_parts = recent_of_def class_of_def flags_of_def asks_of_def posture_of_def

lemma compile_fields:
  "i_Class (Compile k now input) = class_of input"
  "i_Posture (Compile k now input) = posture_of input"
  "i_ExecutionReadiness (Compile k now input) = fst (deriveIntentReadiness (posture_of input) (asks_of input))"
  "i_RequiresClarification (Compile k now input) = asks_of input"
  "i_AmbiguityFlags (Compile k now input) = flags_of input"
  "i_ClarificationQuestions (Compile k now input) = deriveClarificationQuestions (flags_of input)"
  "i_ProposedPhase (Compile k now input) = deriveProposedPhase (class_of input) (posture_of input)
     (fst (deriveIntentReadiness (posture_of input) (asks_of input)))"
  by (simp_all add: Compile_def Let_def case_prod_beta compile_parts del: append_Cons)

lemma compile_texts:
  "i_Objective (Compile k now input) = deriveIntentObjective (latest_of input) (ci_CurrentGoal input)"
  "i_RequestedOutcome (Compile k now input) = deriveRequestedOutcome (class_of input) (latest_of input)"
  "i_NormalizedAction (Compile k now input) =
     deriveNormalizedAction (class_of input) (latest_of input) (deriveRequestedOutcome (class_of input) (latest_of input))"
  "i_ScopeSummary (Compile k now input) = fst (deriveScopeSummary (recent_of input) (class_of input))"
  "i_ExplicitConstraints (Compile k now input) = extractExplicitConstraints (recent_of input)"
  "i_DoneCriteria (Compile k now input) = extractDoneCriteria (recent_of input)"
  "i_BoundedEvidenceMessages (Compile k now input) =
     (if recent_of input = [] \<and> latest_of input \<noteq> [] then 1 else int (length (recent_of input)))"
  "i_Confidence (Compile k now input) = deriveConfidence (ToLower (latest_of input)) (class_of input)
     (snd (deriveScopeSummary (recent_of input) (class_of input))) (flags_of input)
     (extractDoneCriteria (recent_of input))"
  by (simp_all add: Compile_def Let_def case_prod_beta compile_parts del: append_Cons)


text \<open>
  An intent is ready for execution exactly when the message is no validation, repair, replan,
  explanation, approval or pause request, mentions no planning word and raises no ambiguity
  flag; and exactly then the brief built from it is in the execution-ready posture.
\<close>

theorem execution_ready_iff:
  "(i_ExecutionReadiness (Compile newID now input) = ReadinessExecutionReady) =
     (i_Class (Compile newID now input) \<in> {ClassImplement, ClassContinueTask, ClassComplete}
      \<and> i_AmbiguityFlags (Compile newID now input) = []
      \<and> \<not> hasAny (ToLower (TrimSpace (ci_LatestMessage input)))
          [''plan'', ''planning'', ''approach'', ''design'', ''brainstorm'', ''milestone'', ''roadmap''])
   \<and> (b_Posture (BriefBuilderV1_Build h bid at (buildBriefInputV2 caps (Compile newID now input) prev v))
        = BriefPostureExecutionReady) =
     (i_ExecutionReadiness (Compile newID now input) = ReadinessExecutionReady)"
  (is "?ready = ?cond \<and> ?brief = ?ready")
proof
  let ?i = "Compile newID now input"
  have cls: "class_of input \<in> {ClassPause, ClassExplain, ClassValidate, ClassDebug,
    ClassApproval, ClassReplan, ClassContinueTask, ClassComplete, ClassImplement}"
    unfolding class_of_def by (rule classes)
  have asks: "asks_of input \<Longrightarrow> flags_of input \<noteq> []" by (auto simp: asks_of_def no_questions_iff)
  show "?ready = ?cond"
    unfolding compile_fields posture_of_def readiness_execution using cls asks by auto
  have posture: "b_Posture (BriefBuilderV1_Build h bid at (buildBriefInputV2 caps ?i prev v)) =
      deriveBriefPostureFromIntent ?i"
    by (simp add: BriefBuilderV1_Build_def brief_payload_def buildBriefInputV2_def Let_def)
  show "?brief = ?ready"
    unfolding posture deriveBriefPostureFromIntent_def compile_fields readiness_clarification
    by (auto simp: deriveIntentReadiness_def split: IntentPosture.split)
qed

section \<open>Truncation and classification\<close>

lemma trim_of_prefix:
  assumes "prefix p (TrimSpace t)"
  shows "prefix (TrimSpace p) p"
proof -
  have "unblank wide_blanks (trim_left t) = None" by (simp add: trim_left_def trim_left_with_stop)
  then have "unblank wide_blanks p = None"
    using trim_right_prefix assms unblank_prefix unfolding TrimSpace_def by blast
  then have "trim_left p = p" by (simp add: trim_left_def trim_left_with_fixed)
  then show ?thesis unfolding TrimSpace_def using trim_right_prefix[of p] by simp
qed

lemma take_runes_prefix: "prefix (take_runes n s) s"
  by (induction n s rule: take_runes.induct) (auto split: nat.splits)

lemma take_runes_count: "rune_count (take_runes n s) \<le> n"
  by (induction n s rule: take_runes.induct) (auto simp: rune_count_def split: nat.splits)

lemma rune_count_append: "rune_count (s @ t) = rune_count s + rune_count t"
  by (simp add: rune_count_def)

lemma rune_count_prefix: "prefix s t \<Longrightarrow> rune_count s \<le> rune_count t"
  by (auto simp: prefix_def rune_count_append)

lemma before_last_blank_prefix:
  assumes "before_last_blank s = Some t"
  shows "prefix t s"
proof -
  obtain c r where d: "dropWhile (\<lambda>c. c \<noteq> CHR '' '') (rev s) = c # r" and t: "t = rev r"
    using assms by (auto simp: before_last_blank_def split: list.splits)
  have "suffix (c # r) (rev s)" unfolding d[symmetric] by (rule suffix_dropWhile)
  then have "suffix r (rev s)" by (rule suffix_ConsD)
  then show ?thesis by (simp add: t suffix_to_prefix)
qed

text \<open>
  Truncation to a positive limit returns the trimmed text, or a prefix of it followed by
  three dots; the result has at most three code points more than the limit when it was cut, and
  at most the limit many code points or bytes otherwise.
\<close>

theorem truncated_sentence:
  "truncateSentence t (Suc n) = TrimSpace t
     \<and> (length (TrimSpace t) \<le> Suc n \<or> rune_count (TrimSpace t) \<le> Suc n)
   \<or> (\<exists>p. truncateSentence t (Suc n) = p @ ''...'' \<and> prefix p (TrimSpace t)
        \<and> rune_count (truncateSentence t (Suc n)) \<le> Suc n + 3)"
proof -
  let ?t = "TrimSpace t"
  let ?cut = "take_runes (Suc n) ?t"
  let ?cut' = "case before_last_blank ?cut of Some (c # s) \<Rightarrow> TrimSpace (c # s) | _ \<Rightarrow> ?cut"
  have cut: "prefix ?cut ?t" by (rule take_runes_prefix)
  have "prefix ?cut' ?cut"
    using before_last_blank_prefix[of ?cut] trim_of_prefix[of _ t] cut
    by (auto split: option.split list.split) (meson prefix_order.order_trans)
  moreover have "prefix (TrimSpace ?cut') ?cut'"
    using calculation cut trim_of_prefix[of _ t] by (meson prefix_order.order_trans)
  ultimately have p: "prefix (TrimSpace ?cut') ?cut" by (meson prefix_order.order_trans)
  have "rune_count (TrimSpace ?cut') \<le> Suc n"
    using rune_count_prefix[OF p] take_runes_count[of "Suc n" ?t] by simp
  moreover have "rune_count ''...'' = 3" by code_simp
  moreover have "prefix (TrimSpace ?cut') ?t" using p cut by (meson prefix_order.order_trans)
  moreover have "truncateSentence t (Suc n) =
      (if ?t = [] \<or> length ?t \<le> Suc n \<or> rune_count ?t \<le> Suc n then ?t else TrimSpace ?cut' @ ''...'')"
    unfolding truncateSentence_def Let_def by (simp del: append_Cons)
  ultimately show ?thesis by (simp add: rune_count_append)
qed

lemma contains_trans: "str_contains m u \<Longrightarrow> str_contains u v \<Longrightarrow> str_contains m v"
  unfolding str_contains_sublist by (rule sublist_order.order_trans)

text \<open>
  Keywords are matched inside words: every message that contains ``latest'' is taken for a
  validation request (or a pause or an explanation), because it contains ``test''.
\<close>

theorem latest_reads_as_test:
  "if str_contains m ''latest''
   then classifyIntentClass m \<in> {ClassValidate, ClassPause, ClassExplain} else True"
proof -
  have "str_contains m ''latest'' \<Longrightarrow> str_contains m ''test''"
    by (erule contains_trans) code_simp
  then show ?thesis by (auto simp: classifyIntentClass_def hasAny_def)
qed
end
