(* ===== verification/ContinueFacts.thy ===== *)
theory ContinueFacts
  imports Guarantees
begin

text \<open>
  Progress of a task that was left RUNNING: the continue that finds it settles the run.
\<close>

definition interrupted_now :: "RunID \<Rightarrow> Db \<Rightarrow> Db \<Rightarrow> bool" where
  "interrupted_now k d d' \<longleftrightarrow> (\<exists>r r'. runs_Get k d = Inr r \<and> r_Status r = RunStatusRunning
     \<and> runs_Get k d' = Inr r' \<and> r_Status r' = RunStatusInterrupted)"

definition runs_settled :: "Db \<Rightarrow> ContinueTaskResult \<Rightarrow> Db \<Rightarrow> bool" where
  "runs_settled d c d' \<longleftrightarrow>
     (if ct_Outcome c = ContinueOutcomeStaleReconciled then interrupted_now (ct_RunID c) d d'
      else db_runs d' = db_runs d)"

lemma failed_continue: "failure_keeps_db (ContinueTask E t)"
  unfolding ContinueTask_def recordNoMutationContinueOutcome_def Let_def by (intro keeps_rules quiet_rules)

lemma outcome_of_result:
  "ct_Outcome (with_recovery r c) = ct_Outcome c" "ct_RunID (with_recovery r c) = ct_RunID c"
  "ct_Outcome (continue_result caps outcome drift run cp descriptor s) = outcome"
  "ct_RunID (continue_result caps outcome drift run cp descriptor s) = run"
  by (simp_all add: with_recovery_def continue_result_def)

lemma t_unsettled:
  assumes "frames (on_db (\<lambda>d d'. db_runs d' = db_runs d)) m"
    and "\<And>u c v. m u = (Inr c, v) \<Longrightarrow> ct_Outcome c \<noteq> ContinueOutcomeStaleReconciled"
  shows "triple (\<lambda>u. w_db u = d) m (\<lambda>c u. runs_settled d c (w_db u))"
  by (rule tripleI) (use assms in \<open>auto simp: runs_settled_def on_db_def dest: framesD\<close>)

lemma blocked_outcome:
  assumes "\<And>cp s c. ct_Outcome (result cp s c) \<noteq> ContinueOutcomeStaleReconciled"
  shows "triple (\<lambda>u. w_db u = d) (blocked_continue E caps ph action reason descriptor answer payload result)
    (\<lambda>c u. runs_settled d c (w_db u))"
  by (rule t_unsettled, unfold blocked_continue_def Let_def,
      intro runs_same.call_frames runs_same_writes phase_same_runs emit_same_runs checkpoint_proof_same_runs)
    (use assms in \<open>auto simp: bnd_Inr_iff seq_def ret_run\<close>)

lemma blocked_unsettled:
  "triple (\<lambda>u. w_db u = d) (blockedContinueByInconsistency E caps reason) (\<lambda>c u. runs_settled d c (w_db u))"
  "triple (\<lambda>u. w_db u = d) (blockedContinueByDrift E caps drift) (\<lambda>c u. runs_settled d c (w_db u))"
  "triple (\<lambda>u. w_db u = d) (awaitDecisionOnContinue E caps drift) (\<lambda>c u. runs_settled d c (w_db u))"
  unfolding blockedContinueByInconsistency_def blockedContinueByDrift_def awaitDecisionOnContinue_def
  by (rule blocked_outcome, simp only: outcome_of_result, simp)+

lemma safe_unsettled:
  "triple (\<lambda>u. w_db u = d) (safeContinue E caps cp run rv) (\<lambda>c u. runs_settled d c (w_db u))"
  by (rule t_unsettled,
      unfold safeContinue_def briefless_continue_def when_do_def Let_def,
      intro runs_same.call_frames runs_same_writes phase_same_runs emit_same_runs checkpoint_proof_same_runs,
      auto simp: bnd_Inr_iff seq_def ret_run outcome_of_result split: if_splits)

lemma reconciled:
  assumes "runs_Get k d = Inr r" and "r_Status r = RunStatusRunning"
  shows "triple (\<lambda>u. w_db u = d) (reconcileStaleRun E caps r) (\<lambda>c u. runs_settled d c (w_db u))"
proof -
  let ?P = "\<lambda>u. interrupted_now k d (w_db u)"
  have k: "r_RunID r = k" using assms(1) by (rule run_repo.get_key)
  have kept: "triple ?P m (\<lambda>_. ?P)" if "frames (on_db (\<lambda>d d'. db_runs d' = db_runs d)) m" for m :: "'z op"
    by (rule t_frame[OF that]) (simp add: interrupted_now_def on_db_def runs_Get_def)
  have written: "interrupted_now k d d'" if "runs_Update r' d = Inr d'" "r_RunID r' = k" "r_Status r' = RunStatusInterrupted"
    for r' d'
    using run_repo.update_same[OF that(1)] that assms by (auto simp: interrupted_now_def)
  show ?thesis
    unfolding reconcileStaleRun_def Let_def
    apply (rule t_bnd[OF t_quiet[OF quiet.frame_clock]])
    apply (rule t_seq[where S = ?P], rule t_write)
     apply (simp only:, rule written, (simp add: ended_def k)+)
    apply (rule t_seq[OF kept[OF runs_same_writes(3)]], rule t_seq[OF kept[OF append_same_runs]],
        rule t_seq[OF kept[OF phase_same_runs]], rule t_bnd[OF kept[OF checkpoint_proof_same_runs]],
        rule t_seq[OF kept[OF emit_same_runs]])
    apply (rule t_pre[OF t_ret])
    apply (simp only: runs_settled_def outcome_of_result k refl if_True)
    done
qed

lemma stale_is_missing_or_running:
  "triple (\<lambda>u. w_db u = d)
    (bnd (optional (db_read (runs_Get k))) (\<lambda>res. case res of
       None \<Rightarrow> blockedContinueByInconsistency E caps reason
     | Some r \<Rightarrow> if r_Status r \<noteq> RunStatusRunning then blockedContinueByInconsistency E caps (why r)
         else reconcileStaleRun E caps r))
    (\<lambda>c u. runs_settled d c (w_db u))"
proof (rule t_bnd[where S = "\<lambda>res u. w_db u = d \<and> (case res of None \<Rightarrow> True | Some r \<Rightarrow> runs_Get k d = Inr r)"])
  show "triple (\<lambda>u. w_db u = d) (optional (db_read (runs_Get k)))
      (\<lambda>res u. w_db u = d \<and> (case res of None \<Rightarrow> True | Some r \<Rightarrow> runs_Get k d = Inr r))"
    by (rule tripleI) (auto simp: optional_def db_read_run split: sum.splits if_splits)
  fix res
  show "triple (\<lambda>u. w_db u = d \<and> (case res of None \<Rightarrow> True | Some r \<Rightarrow> runs_Get k d = Inr r))
      (case res of None \<Rightarrow> blockedContinueByInconsistency E caps reason
       | Some r \<Rightarrow> if r_Status r \<noteq> RunStatusRunning then blockedContinueByInconsistency E caps (why r)
           else reconcileStaleRun E caps r) (\<lambda>c u. runs_settled d c (w_db u))"
  proof (cases res)
    case None
    then show ?thesis using blocked_unsettled(1) by simp
  next
    case (Some r)
    have "triple (\<lambda>u. w_db u = d \<and> runs_Get k d = Inr r)
        (if r_Status r \<noteq> RunStatusRunning then blockedContinueByInconsistency E caps (why r)
         else reconcileStaleRun E caps r) (\<lambda>c u. runs_settled d c (w_db u))"
    proof (rule tripleI)
      fix u c v
      assume u: "w_db u = d \<and> runs_Get k d = Inr r" and run: "(if r_Status r \<noteq> RunStatusRunning
        then blockedContinueByInconsistency E caps (why r) else reconcileStaleRun E caps r) u = (Inr c, v)"
      show "runs_settled d c (w_db v)"
        using run tripleD[OF blocked_unsettled(1) conjunct1[OF u]] tripleD[OF reconciled[OF conjunct2[OF u]] conjunct1[OF u]]
        by (cases "r_Status r = RunStatusRunning") auto
    qed
    then show ?thesis using Some by simp
  qed
qed

lemma finalized:
  "triple (\<lambda>u. w_db u = d) (finalizeContinue E a rv) (\<lambda>c u. runs_settled d c (w_db u))"
  unfolding finalizeContinue_def
  apply (rule t_bnd[where S = "\<lambda>_ u. w_db u = d"], rule tripleI, simp add: db_read_run)
  apply (rule t_if, rule blocked_unsettled)
  apply (cases "ca_Outcome a"; simp only: ContinueOutcome.case Let_def)
      apply (rule safe_unsettled)
     apply (cases "ca_LatestRun a"; simp only: option.case)
      apply (rule blocked_unsettled stale_is_missing_or_running)+
  done

lemma unchanged_outcome: "ct_Outcome (noMutationContinueResult a rv) = ca_Outcome a"
  by (simp add: noMutationContinueResult_def outcome_of_result)

lemma evidence_unsettled:
  assumes "ca_Outcome a \<noteq> ContinueOutcomeStaleReconciled"
  shows "triple (\<lambda>u. w_db u = d) (recordNoMutationContinueOutcome E a rv) (\<lambda>c u. runs_settled d c (w_db u))"
  unfolding recordNoMutationContinueOutcome_def Let_def
  by (rule t_tx, rule t_unsettled, intro runs_same.call_frames append_same_runs emit_same_runs)
    (use assms in \<open>auto simp: bnd_Inr_iff seq_def ret_run unchanged_outcome\<close>)

lemma stale_mutates:
  assumes "assess E t w = (Inr a, u)" and "ca_Outcome a = ContinueOutcomeStaleReconciled"
  shows "continue_mutates a"
proof -
  obtain sn issues g where a: "a = assess_snapshot t sn issues g"
    using assms(1) by (auto simp: assess_def bnd_Inr_iff ret_run)
  show ?thesis using assms(2)
    unfolding a assess_snapshot_def continue_mutates_def
    by (auto simp: Let_def assessed_sel split: if_splits)
qed

text \<open>
  C10. A continue never leaves a run it took for stale RUNNING: the run was RUNNING and is recorded
  as INTERRUPTED when the continue returns. With every other outcome the runs are as they were, and
  after an error the whole database is.
\<close>

theorem stale_run_is_settled:
  "case ContinueTask E t w of
     (Inl e, w') \<Rightarrow> w_db w' = w_db w
   | (Inr c, w') \<Rightarrow> runs_settled (w_db w) c (w_db w')"
proof (cases "ContinueTask E t w")
  case (Pair x w')
  show ?thesis
  proof (cases x)
    case (Inl e)
    have "failure_keeps_db (ContinueTask E t)" using failed_continue .
    then show ?thesis using Pair Inl by (auto dest: keepsD)
  next
    case (Inr c)
    obtain a u where a: "assess E t w = (Inr a, u)"
      and run: "(if continue_mutates a then withTx (finalizeContinue E a (recoveryFromContinueAssessment a))
        else recordNoMutationContinueOutcome E (a\<lparr>ca_RequiresMutation := False\<rparr>)
          (recoveryFromContinueAssessment a)) u = (Inr c, w')"
      using Pair Inr by (auto simp: ContinueTask_def Let_def bnd_Inr_iff)
    have u: "w_db u = w_db w" by (rule quietD[OF quiet.frame_assess a])
    have "runs_settled (w_db w) c (w_db w')"
    proof (cases "continue_mutates a")
      case True
      then show ?thesis using run tripleD[OF t_tx[OF finalized] u] by simp
    next
      case False
      then have "ca_Outcome (a\<lparr>ca_RequiresMutation := False\<rparr>) \<noteq> ContinueOutcomeStaleReconciled"
        using stale_mutates[OF a] by auto
      from tripleD[OF evidence_unsettled[OF this] u] show ?thesis using run False by simp
    qed
    then show ?thesis using Pair Inr by simp
  qed
qed

end
