(* ===== verification/Projections.thy ===== *)
theory Projections
  imports OperatorSteps RepoEntry
begin

text \<open>
  The reads of a task, StatusTask and InspectTask (service.go): what is on record about the task
  and its latest run, session, checkpoint and handoff, the operator truth of a fresh assessment,
  and the recent receipts. Fields of the result structs that the code fills together from one row
  are grouped into one record.
\<close>

section \<open>Recent receipts\<close>

text \<open>
  The receipts part, which StatusTask, InspectTask and ShellSnapshotTask read in the same way; they
  differ in how many receipts they read.
\<close>

record TaskEvidence =
  te_RecentAcknowledgments :: "GapAckSummary list"
  te_RecentTransitions :: "ContinuityTransitionReceiptSummary list"
  te_TransitionRisk :: ContinuityTransitionRiskSummary
  te_Triages :: triage_history_projection
  te_FollowUps :: followup_history_projection
  te_FollowUp :: "ContinuityIncidentFollowUpSummary option"
  te_TaskRisk :: "ContinuityIncidentTaskRiskSummary option"

definition defaultContinuityIncidentTaskRiskReadLimit :: int where
  "defaultContinuityIncidentTaskRiskReadLimit = 20"

definition task_evidence :: "TaskID \<Rightarrow> TranscriptView list \<Rightarrow> int \<Rightarrow> TaskEvidence op" where
  "task_evidence t sessions limit =
     bnd (shell_read (\<lambda>d. reviewGapAcknowledgmentProjection d t sessions limit)) (\<lambda>acks.
     bnd (db_read (\<lambda>d. Inr (continuityTransitionReceiptProjection t limit d))) (\<lambda>transitions.
     bnd (db_read (continuityIncidentTriageHistoryProjection t limit)) (\<lambda>triages.
     bnd (db_read (continuityIncidentFollowUpHistoryProjection t limit)) (\<lambda>follows.
     bnd (db_read (continuityIncidentTaskRiskProjection t defaultContinuityIncidentTaskRiskReadLimit)) (\<lambda>risk.
     let (latest, recent, rollup) = follows in
     ret \<lparr>te_RecentAcknowledgments = acks, te_RecentTransitions = transitions,
          te_TransitionRisk = deriveContinuityTransitionRiskSummary transitions,
          te_Triages = triages, te_FollowUps = follows,
          te_FollowUp = deriveFollowUpAwareAdvisory
            (deriveContinuityIncidentFollowUpSummary (first_row transitions) (fst triages) latest) rollup recent,
          te_TaskRisk = risk\<rparr>)))))"

text \<open>The decision and the plan of an assessment, with what reviews and follow-ups add to them.\<close>

definition shown_decision ::
  "continueAssessment \<Rightarrow> TranscriptView list \<Rightarrow> ContinuityIncidentFollowUpSummary option \<Rightarrow> OperatorDecisionSummary" where
  "shown_decision a sessions follow = applyContinuityIncidentFollowUpToOperatorDecision follow
     (applyReviewProgressionToOperatorDecision (deriveOperatorReviewProgressionFromSessions sessions)
       (ot_Decision (operatorTruthForAssessment a)))"

definition shown_plan ::
  "continueAssessment \<Rightarrow> TranscriptView list \<Rightarrow> ContinuityIncidentFollowUpSummary option \<Rightarrow> OperatorExecutionPlan" where
  "shown_plan a sessions follow = applyContinuityIncidentFollowUpToOperatorExecutionPlan follow
     (applyReviewProgressionToOperatorExecutionPlan (deriveOperatorReviewProgressionFromSessions sessions)
       (plan_of a))"

definition capsuleAnchorSnapshot :: "WorkCapsule \<Rightarrow> Snapshot" where
  "capsuleAnchorSnapshot caps = \<lparr>g_RepoRoot = c_RepoRoot caps, g_Branch = c_BranchName caps, g_HeadSHA = c_HeadSHA caps,
     g_WorkingTreeDirty = c_WorkingTreeDirty caps, g_CapturedAt = c_AnchorCapturedAt caps\<rparr>"

text \<open>The session that was updated last; of equally late ones the first.\<close>

definition latest_session :: "TranscriptView list \<Rightarrow> TranscriptView option" where
  "latest_session views = (case views of [] \<Rightarrow> None
     | v # vs \<Rightarrow> Some (foldl (\<lambda>best s. if ss_LastUpdatedAt (sv_Record s) > ss_LastUpdatedAt (sv_Record best)
         then s else best) v vs))"

text \<open>A read whose row may be missing.\<close>

definition row_read :: "(Db \<Rightarrow> go_error + 'a) \<Rightarrow> 'a option op" where
  "row_read f = optional (db_read f)"

definition list_read :: "(Db \<Rightarrow> 'a list) \<Rightarrow> 'a list op" where
  "list_read f = db_read (\<lambda>d. Inr (f d))"

text \<open>The current brief of a capsule, when it names one.\<close>

definition current_brief :: "WorkCapsule \<Rightarrow> ExecutionBrief option op" where
  "current_brief caps = (if c_CurrentBriefID caps = [] then ret None else row_read (briefs_Get (c_CurrentBriefID caps)))"

section \<open>StatusTask\<close>

record StatusRun =
  zr_RunID :: RunID
  zr_Status :: RunStatus
  zr_Summary :: string
  zr_WorkerRunID :: string
  zr_ShellSessionID :: string
  zr_Command :: string
  zr_Args :: "string list"
  zr_ExitCode :: "int option"
  zr_ChangedFiles :: "string list"
  zr_ValidationSignals :: "string list"
  zr_OutputArtifactRef :: string
  zr_StructuredSummary :: string

definition status_run :: "ExecutionRun option \<Rightarrow> StatusRun" where
  "status_run run = (case run of
     None \<Rightarrow> \<lparr>zr_RunID = [], zr_Status = RunStatusOther [], zr_Summary = [], zr_WorkerRunID = [], zr_ShellSessionID = [],
       zr_Command = [], zr_Args = [], zr_ExitCode = None, zr_ChangedFiles = [], zr_ValidationSignals = [],
       zr_OutputArtifactRef = [], zr_StructuredSummary = []\<rparr>
   | Some r \<Rightarrow> \<lparr>zr_RunID = r_RunID r, zr_Status = r_Status r, zr_Summary = r_LastKnownSummary r,
       zr_WorkerRunID = r_WorkerRunID r, zr_ShellSessionID = r_ShellSessionID r, zr_Command = r_Command r,
       zr_Args = r_Args r, zr_ExitCode = r_ExitCode r, zr_ChangedFiles = r_ChangedFiles r,
       zr_ValidationSignals = r_ValidationSignals r, zr_OutputArtifactRef = r_OutputArtifactRef r,
       zr_StructuredSummary = r_StructuredSummary r\<rparr>)"

record StatusSession =
  zs_ID :: string
  zs_Class :: "ShellSessionClass option"
  zs_Reason :: string
  zs_Guidance :: string
  zs_WorkerSessionID :: string
  zs_WorkerSessionIDSource :: WorkerSessionIDSource
  zs_State :: string
  zs_UpdatedAt :: go_time

record StatusTranscript =
  zt_State :: TranscriptState
  zt_RetainedChunks :: int
  zt_DroppedChunks :: int
  zt_RetentionLimit :: int
  zt_OldestSequence :: int
  zt_NewestSequence :: int
  zt_LastChunkAt :: go_time
  zt_ReviewID :: EventID
  zt_ReviewSource :: TranscriptSource
  zt_ReviewedUpTo :: int
  zt_ReviewSummary :: string
  zt_ReviewAt :: go_time
  zt_ReviewStale :: bool
  zt_ReviewNewer :: int
  zt_ReviewClosureState :: "ReviewClosureState option"
  zt_ReviewOldestUnreviewed :: int

text \<open>The class and the closure state of the zero value are None: the empty string is none of them.\<close>

definition status_session :: "TranscriptView option \<Rightarrow> StatusSession" where
  "status_session view = (case view of
     None \<Rightarrow> \<lparr>zs_ID = [], zs_Class = None, zs_Reason = [], zs_Guidance = [], zs_WorkerSessionID = [],
       zs_WorkerSessionIDSource = WorkerSessionIDSourceOther [], zs_State = [], zs_UpdatedAt = 0\<rparr>
   | Some v \<Rightarrow> \<lparr>zs_ID = view_session v, zs_Class = Some (sv_SessionClass v), zs_Reason = sv_SessionClassReason v,
       zs_Guidance = sv_ReattachGuidance v, zs_WorkerSessionID = ss_WorkerSessionID (sv_Record v),
       zs_WorkerSessionIDSource = sv_WorkerSessionIDSource v, zs_State = ss_HostState (sv_Record v),
       zs_UpdatedAt = ss_LastUpdatedAt (sv_Record v)\<rparr>)"

definition status_transcript :: "TranscriptView option \<Rightarrow> StatusTranscript" where
  "status_transcript view = (case view of
     None \<Rightarrow> \<lparr>zt_State = TranscriptStateOther [], zt_RetainedChunks = 0, zt_DroppedChunks = 0, zt_RetentionLimit = 0,
       zt_OldestSequence = 0, zt_NewestSequence = 0, zt_LastChunkAt = 0, zt_ReviewID = [], zt_ReviewSource = any_source,
       zt_ReviewedUpTo = 0, zt_ReviewSummary = [], zt_ReviewAt = 0, zt_ReviewStale = False, zt_ReviewNewer = 0,
       zt_ReviewClosureState = None, zt_ReviewOldestUnreviewed = 0\<rparr>
   | Some v \<Rightarrow> \<lparr>zt_State = vw_TranscriptState v, zt_RetainedChunks = vw_RetainedChunks v,
       zt_DroppedChunks = vw_DroppedChunks v, zt_RetentionLimit = vw_RetentionLimit v,
       zt_OldestSequence = vw_OldestSequence v, zt_NewestSequence = vw_NewestSequence v,
       zt_LastChunkAt = vw_LastChunkAt v, zt_ReviewID = vw_ReviewID v, zt_ReviewSource = vw_ReviewSource v,
       zt_ReviewedUpTo = vw_ReviewedUpTo v, zt_ReviewSummary = vw_ReviewSummary v, zt_ReviewAt = vw_ReviewAt v,
       zt_ReviewStale = vw_ReviewStale v, zt_ReviewNewer = vw_ReviewNewer v,
       zt_ReviewClosureState = Some (vw_ReviewClosureState v), zt_ReviewOldestUnreviewed = vw_ReviewOldestUnreviewed v\<rparr>)"


record StatusEvent =
  ze_ID :: EventID
  ze_Kind :: string
  ze_SessionID :: string
  ze_At :: go_time
  ze_Note :: string

definition status_event :: "SessionEvent list \<Rightarrow> StatusEvent" where
  "status_event events = (case events of
     [] \<Rightarrow> \<lparr>ze_ID = [], ze_Kind = [], ze_SessionID = [], ze_At = 0, ze_Note = []\<rparr>
   | e # es \<Rightarrow> \<lparr>ze_ID = se_EventID e, ze_Kind = SessionEventKind_str (se_Kind e), ze_SessionID = se_SessionID e,
       ze_At = se_CreatedAt e, ze_Note = se_Note e\<rparr>)"

record StatusCheckpoint =
  zc_ID :: CheckpointID
  zc_At :: go_time
  zc_Trigger :: Trigger
  zc_Resumable :: bool
  zc_Descriptor :: string

definition status_checkpoint :: "Checkpoint option \<Rightarrow> StatusCheckpoint" where
  "status_checkpoint cp = (case cp of
     None \<Rightarrow> \<lparr>zc_ID = [], zc_At = 0, zc_Trigger = TriggerOther [], zc_Resumable = False, zc_Descriptor = []\<rparr>
   | Some k \<Rightarrow> \<lparr>zc_ID = k_CheckpointID k, zc_At = k_CreatedAt k, zc_Trigger = k_Trigger k,
       zc_Resumable = k_IsResumable k, zc_Descriptor = k_ResumeDescriptor k\<rparr>)"

text \<open>
  Launch, launch control, acknowledgment and follow-through are those of the active Claude branch,
  and stay empty without one; the resolution is the latest of the task.
\<close>

record StatusHandoff =
  zh_LaunchAttemptID :: string
  zh_LaunchID :: string
  zh_LaunchStatus :: LaunchStatus
  zh_AcknowledgmentID :: string
  zh_AcknowledgmentStatus :: AcknowledgmentStatus
  zh_AcknowledgmentSummary :: string
  zh_FollowThroughID :: string
  zh_FollowThroughKind :: FollowThroughKind
  zh_FollowThroughSummary :: string
  zh_LaunchControl :: "(LaunchControlState \<times> LaunchRetryDisposition \<times> string) option"
  zh_ContinuityState :: HandoffContinuityState
  zh_ContinuityReason :: string
  zh_ContinuationProven :: bool
  zh_Resolution :: "(string \<times> ResolutionKind \<times> string \<times> go_time) option"

definition status_handoff :: "TaskID \<Rightarrow> branch_records \<Rightarrow> Resolution option \<Rightarrow> StatusHandoff" where
  "status_handoff t b res = (case b of (packet, launch0, ack0, follow0) \<Rightarrow>
     let launch = (if packet = None then None else launch0); ack = (if packet = None then None else ack0);
         follow = (if packet = None then None else follow0);
         hc = assessHandoffContinuity t packet launch0 ack0 follow0 None; c = assessLaunchControl t packet launch0 in
     \<lparr>zh_LaunchAttemptID = (case launch of None \<Rightarrow> [] | Some l \<Rightarrow> l_AttemptID l),
      zh_LaunchID = (case launch of None \<Rightarrow> [] | Some l \<Rightarrow> l_LaunchID l),
      zh_LaunchStatus = (case launch of None \<Rightarrow> LaunchStatusOther [] | Some l \<Rightarrow> l_Status l),
      zh_AcknowledgmentID = (case ack of None \<Rightarrow> [] | Some a \<Rightarrow> a_AckID a),
      zh_AcknowledgmentStatus = (case ack of None \<Rightarrow> AcknowledgmentStatusOther [] | Some a \<Rightarrow> a_Status a),
      zh_AcknowledgmentSummary = (case ack of None \<Rightarrow> [] | Some a \<Rightarrow> a_Summary a),
      zh_FollowThroughID = (case follow of None \<Rightarrow> [] | Some f \<Rightarrow> f_RecordID f),
      zh_FollowThroughKind = (case follow of None \<Rightarrow> FollowThroughKindOther [] | Some f \<Rightarrow> f_Kind f),
      zh_FollowThroughSummary = (case follow of None \<Rightarrow> [] | Some f \<Rightarrow> f_Summary f),
      zh_LaunchControl = (if packet = None then None else Some (lc_State c, lc_RetryDisposition c, lc_Reason c)),
      zh_ContinuityState = hc_State hc, zh_ContinuityReason = hc_Reason hc,
      zh_ContinuationProven = hc_DownstreamContinuationProven hc,
      zh_Resolution = map_option (\<lambda>r. (s_ResolutionID r, s_Kind r, s_Summary r, s_CreatedAt r)) res\<rparr>)"

record StatusTruth =
  zu_BranchClass :: ActiveBranchClass
  zu_BranchRef :: string
  zu_BranchAnchorKind :: ActiveBranchAnchorKind
  zu_BranchAnchorRef :: string
  zu_BranchReason :: string
  zu_FinalizationState :: LocalRunFinalizationState
  zu_FinalizationRunID :: RunID
  zu_FinalizationStatus :: RunStatus
  zu_FinalizationCheckpointID :: CheckpointID
  zu_FinalizationReason :: string
  zu_ResumeState :: LocalResumeAuthorityState
  zu_ResumeMode :: LocalResumeMode
  zu_ResumeCheckpointID :: CheckpointID
  zu_ResumeRunID :: RunID
  zu_ResumeReason :: string
  zu_RequiredNextAction :: OperatorAction
  zu_ActionAuthority :: "OperatorActionAuthority list"

definition status_truth :: "OperatorTruth \<Rightarrow> StatusTruth" where
  "status_truth x = (let b = ot_Branch x; rf = ot_RunFinalization x; lr = ot_LocalResume x in
     \<lparr>zu_BranchClass = bp_Class b, zu_BranchRef = bp_BranchRef b, zu_BranchAnchorKind = bp_ActionabilityAnchor b,
      zu_BranchAnchorRef = bp_ActionabilityAnchorRef b, zu_BranchReason = bp_Reason b,
      zu_FinalizationState = rf_State rf, zu_FinalizationRunID = rf_RunID rf, zu_FinalizationStatus = rf_RunStatus rf,
      zu_FinalizationCheckpointID = rf_CheckpointID rf, zu_FinalizationReason = rf_Reason rf,
      zu_ResumeState = lr_State lr, zu_ResumeMode = lr_Mode lr, zu_ResumeCheckpointID = lr_CheckpointID lr,
      zu_ResumeRunID = lr_RunID lr, zu_ResumeReason = lr_Reason lr,
      zu_RequiredNextAction = os_RequiredNextAction (ot_Actions x), zu_ActionAuthority = os_Actions (ot_Actions x)\<rparr>)"

text \<open>\<open>applyRecoveryAssessmentToStatus\<close>: the resume descriptor of the checkpoint gives way to a reason.\<close>

record StatusRecovery =
  zy_CheckpointResumable :: bool
  zy_IsResumable :: bool
  zy_RecoveryClass :: RecoveryClass
  zy_RecommendedAction :: RecoveryAction
  zy_ReadyForNextRun :: bool
  zy_ReadyForHandoffLaunch :: bool
  zy_RecoveryReason :: string
  zy_LatestRecoveryAction :: "RecoveryRecord option"
  zy_ResumeDescriptor :: string

definition applyRecoveryAssessmentToStatus :: "RecoveryAssessment \<Rightarrow> StatusCheckpoint \<Rightarrow> StatusRecovery" where
  "applyRecoveryAssessmentToStatus r cp =
     \<lparr>zy_CheckpointResumable = zc_Resumable cp, zy_IsResumable = rv_ReadyForNextRun r,
      zy_RecoveryClass = rv_RecoveryClass r, zy_RecommendedAction = rv_RecommendedAction r,
      zy_ReadyForNextRun = rv_ReadyForNextRun r, zy_ReadyForHandoffLaunch = rv_ReadyForHandoffLaunch r,
      zy_RecoveryReason = rv_Reason r, zy_LatestRecoveryAction = rv_LatestAction r,
      zy_ResumeDescriptor = (if rv_Reason r \<noteq> [] then rv_Reason r else zc_Descriptor cp)\<rparr>"

record StatusTaskResult =
  su_TaskID :: TaskID
  su_ConversationID :: ConversationID
  su_Goal :: string
  su_Phase :: Phase
  su_Status :: string
  su_CurrentIntentID :: IntentID
  su_CurrentIntentClass :: IntentClass
  su_CurrentIntentSummary :: string
  su_CompiledIntent :: "CompiledIntentSummary option"
  su_CurrentBriefID :: BriefID
  su_CurrentBriefHash :: string
  su_CompiledBrief :: "CompiledBriefSummary option"
  su_LatestRun :: StatusRun
  su_RepoAnchor :: Snapshot
  su_LatestSession :: StatusSession
  su_LatestTranscript :: StatusTranscript
  su_LatestShellEvent :: StatusEvent
  su_LatestCheckpoint :: StatusCheckpoint
  su_Handoff :: StatusHandoff
  su_Truth :: StatusTruth
  su_OperatorDecision :: OperatorDecisionSummary
  su_OperatorExecutionPlan :: OperatorExecutionPlan
  su_Recovery :: StatusRecovery
  su_LatestStep :: "OperatorStepReceipt option"
  su_RecentSteps :: "OperatorStepReceipt list"
  su_Evidence :: TaskEvidence
  su_Incident :: "IncidentRisk option"
  su_LastEvent :: "(EventID \<times> EventType \<times> go_time) option"

text \<open>The last of the events that were read.\<close>

definition last_event :: "Event list \<Rightarrow> (EventID \<times> EventType \<times> go_time) option" where
  "last_event es = (if es = [] then None
     else Some (e_EventID (last es), e_Type (last es), e_Timestamp (last es)))"

definition StatusTask :: "Deps \<Rightarrow> TaskID \<Rightarrow> StatusTaskResult op" where
  "StatusTask E taskID =
     bnd (db_read (capsules_Get taskID)) (\<lambda>caps. let t = c_TaskID caps in
     bnd (row_read (intents_LatestByTask t)) (\<lambda>intent.
     bnd (current_brief caps) (\<lambda>brief.
     bnd (row_read (runs_LatestByTask t)) (\<lambda>run.
     bnd (classifiedShellSessions E t) (\<lambda>views.
     bnd (shell_read (\<lambda>d. Inr (shell_ListEvents t [] 1 d))) (\<lambda>shellEvents.
     bnd (row_read (checkpoints_LatestByTask t)) (\<lambda>cp.
     bnd (row_read (handoffs_LatestResolutionByTask t)) (\<lambda>res.
     bnd (db_read (loadActiveClaudeHandoffBranch t)) (\<lambda>branch.
     bnd (assess E t) (\<lambda>a.
     bnd (row_read (opsteps_LatestByTask t)) (\<lambda>step.
     bnd (list_read (opsteps_ListByTask t 3)) (\<lambda>steps.
     bnd (task_evidence t views 3) (\<lambda>ev.
     bnd (list_read (proofs_ListByTask t 1)) (\<lambda>events.
     let truth = operatorTruthForAssessment a; k = status_checkpoint cp;
         rec = applyRecoveryAssessmentToStatus (ot_Recovery truth) k; latest = latest_session views in
     ret \<lparr>su_TaskID = t, su_ConversationID = c_ConversationID caps, su_Goal = c_Goal caps,
          su_Phase = c_CurrentPhase caps, su_Status = c_Status caps, su_CurrentIntentID = c_CurrentIntentID caps,
          su_CurrentIntentClass = (case intent of None \<Rightarrow> IntentClassOther [] | Some i \<Rightarrow> i_Class i),
          su_CurrentIntentSummary = (case intent of None \<Rightarrow> [] | Some i \<Rightarrow> i_NormalizedAction i),
          su_CompiledIntent = map_option compiledIntentSummaryFromState intent,
          su_CurrentBriefID = c_CurrentBriefID caps,
          su_CurrentBriefHash = (case brief of None \<Rightarrow> [] | Some b \<Rightarrow> b_BriefHash b),
          su_CompiledBrief = map_option compiledBriefSummaryFromBrief brief,
          su_LatestRun = status_run run, su_RepoAnchor = capsuleAnchorSnapshot caps,
          su_LatestSession = status_session latest, su_LatestTranscript = status_transcript latest,
          su_LatestShellEvent = status_event shellEvents, su_LatestCheckpoint = k,
          su_Handoff = status_handoff t branch res, su_Truth = status_truth truth,
          su_OperatorDecision = shown_decision a views (te_FollowUp ev),
          su_OperatorExecutionPlan = shown_plan a views (te_FollowUp ev),
          su_Recovery = rec, su_LatestStep = step, su_RecentSteps = steps, su_Evidence = ev,
          su_Incident = continuityIncidentSummaryProjection (first_row (te_RecentTransitions ev)) run
            (zy_LatestRecoveryAction rec),
          su_LastEvent = last_event events\<rparr>))))))))))))))"

section \<open>InspectTask\<close>

record InspectTaskResult =
  sw_TaskID :: TaskID
  sw_Intent :: "IntentState option"
  sw_CompiledIntent :: "CompiledIntentSummary option"
  sw_Brief :: "ExecutionBrief option"
  sw_CompiledBrief :: "CompiledBriefSummary option"
  sw_Run :: "ExecutionRun option"
  sw_Checkpoint :: "Checkpoint option"
  sw_Handoff :: "Packet option"
  sw_Launch :: "Launch option"
  sw_Acknowledgment :: "Acknowledgment option"
  sw_FollowThrough :: "FollowThrough option"
  sw_Resolution :: "Resolution option"
  sw_Truth :: OperatorTruth
  sw_OperatorDecision :: OperatorDecisionSummary
  sw_OperatorExecutionPlan :: OperatorExecutionPlan
  sw_LaunchControl :: "LaunchControl option"
  sw_HandoffContinuity :: HandoffContinuity
  sw_LatestRecoveryAction :: "RecoveryRecord option"
  sw_RecentRecoveryActions :: "RecoveryRecord list"
  sw_LatestStep :: "OperatorStepReceipt option"
  sw_RecentSteps :: "OperatorStepReceipt list"
  sw_Evidence :: TaskEvidence
  sw_Incident :: "IncidentRisk option"
  sw_ShellSessions :: "TranscriptView list"
  sw_RecentShellEvents :: "SessionEvent list"
  sw_RecentShellTranscript :: "TranscriptChunk list"
  sw_RepoAnchor :: Snapshot

text \<open>The latest packet with its latest launch, acknowledgment and follow-through.\<close>

definition latest_packet :: "TaskID \<Rightarrow> branch_records op" where
  "latest_packet t = bnd (row_read (handoffs_LatestByTask t)) (\<lambda>packet. case packet of
     None \<Rightarrow> ret (None, None, None, None)
   | Some p \<Rightarrow> bnd (db_read (handoff_records (h_HandoffID p))) (\<lambda>(l, a, f). ret (Some p, l, a, f)))"

definition inspected_control :: "TaskID \<Rightarrow> branch_records \<Rightarrow> branch_records \<Rightarrow> LaunchControl option" where
  "inspected_control t latest active = (case (latest, active) of
     ((packet, launch, _), (active_packet, active_launch, _)) \<Rightarrow>
       map_option (\<lambda>p. if packet = None \<or> h_HandoffID (the packet) \<noteq> h_HandoffID p
         then assessLaunchControl t active_packet active_launch else assessLaunchControl t packet launch) active_packet)"

text \<open>The id of the latest session, and the newest chunks of its transcript.\<close>

definition latest_session_id :: "TranscriptView list \<Rightarrow> string" where
  "latest_session_id views = fst (foldl (\<lambda>(i, at) v. if i = [] \<or> ss_LastUpdatedAt (sv_Record v) > at
     then (view_session v, ss_LastUpdatedAt (sv_Record v)) else (i, at)) ([], 0) views)"

definition listShellTranscript :: "TaskID \<Rightarrow> string \<Rightarrow> int \<Rightarrow> TranscriptChunk list op" where
  "listShellTranscript t s limit = shell_read (\<lambda>d.
     map_sum id fst (shell_ListTranscriptPage t (TrimSpace s) 0 limit any_source d))"

definition InspectTask :: "Deps \<Rightarrow> TaskID \<Rightarrow> InspectTaskResult op" where
  "InspectTask E taskID =
     bnd (db_read (capsules_Get taskID)) (\<lambda>caps. let t = c_TaskID caps in
     bnd (row_read (intents_LatestByTask t)) (\<lambda>intent.
     bnd (current_brief caps) (\<lambda>brief.
     bnd (row_read (runs_LatestByTask t)) (\<lambda>run.
     bnd (row_read (checkpoints_LatestByTask t)) (\<lambda>cp.
     bnd (latest_packet t) (\<lambda>latest.
     bnd (row_read (handoffs_LatestResolutionByTask t)) (\<lambda>res.
     bnd (db_read (loadActiveClaudeHandoffBranch t)) (\<lambda>active.
     bnd (row_read (actions_LatestByTask t)) (\<lambda>act.
     bnd (list_read (actions_ListByTask t 5)) (\<lambda>acts.
     bnd (assess E t) (\<lambda>a.
     bnd (row_read (opsteps_LatestByTask t)) (\<lambda>step.
     bnd (list_read (opsteps_ListByTask t 5)) (\<lambda>steps.
     bnd (classifiedShellSessions E t) (\<lambda>views.
     bnd (task_evidence t views 5) (\<lambda>ev.
     bnd (shell_read (\<lambda>d. Inr (shell_ListEvents t [] 20 d))) (\<lambda>shellEvents.
     bnd (let s = latest_session_id views in if s = [] then ret [] else listShellTranscript t s 40) (\<lambda>transcript.
     let truth = operatorTruthForAssessment a; (packet, launch, ack, follow) = latest;
         (activePacket, activeLaunch, activeAck, activeFollow) = active;
         action = (case rv_LatestAction (ot_Recovery truth) of None \<Rightarrow> act | Some x \<Rightarrow> Some x) in
     ret \<lparr>sw_TaskID = t, sw_Intent = intent, sw_CompiledIntent = map_option compiledIntentSummaryFromState intent,
          sw_Brief = brief, sw_CompiledBrief = map_option compiledBriefSummaryFromBrief brief,
          sw_Run = run, sw_Checkpoint = cp, sw_Handoff = packet, sw_Launch = launch, sw_Acknowledgment = ack,
          sw_FollowThrough = follow, sw_Resolution = res, sw_Truth = truth,
          sw_OperatorDecision = shown_decision a views (te_FollowUp ev),
          sw_OperatorExecutionPlan = shown_plan a views (te_FollowUp ev),
          sw_LaunchControl = inspected_control t latest active,
          sw_HandoffContinuity = assessHandoffContinuity t activePacket activeLaunch activeAck activeFollow None,
          sw_LatestRecoveryAction = action, sw_RecentRecoveryActions = acts,
          sw_LatestStep = step, sw_RecentSteps = steps, sw_Evidence = ev,
          sw_Incident = continuityIncidentSummaryProjection (first_row (te_RecentTransitions ev)) run action,
          sw_ShellSessions = views, sw_RecentShellEvents = shellEvents, sw_RecentShellTranscript = transcript,
          sw_RepoAnchor = capsuleAnchorSnapshot caps\<rparr>)))))))))))))))))"

end
