(* ===== verification/ShellSnapshot.thy ===== *)
theory ShellSnapshot
  imports Projections
begin

text \<open>
  ShellSnapshotTask (shell.go): what the terminal shell shows of a task. Each summary holds the
  fields of a row or of an assessment that the shell uses.
\<close>

section \<open>Summaries\<close>

record ShellBriefSummary =
  zb_BriefID :: "BriefID"
  zb_Posture :: "BriefPosture"
  zb_Objective :: "string"
  zb_RequestedOutcome :: "string"
  zb_NormalizedAction :: "string"
  zb_ScopeSummary :: "string"
  zb_Constraints :: "string list"
  zb_DoneCriteria :: "string list"
  zb_AmbiguityFlags :: "string list"
  zb_ClarificationQuestions :: "string list"
  zb_RequiresClarification :: "bool"
  zb_WorkerFraming :: "string"
  zb_BoundedEvidenceMessages :: "int"

definition shell_brief :: "ExecutionBrief \<Rightarrow> ShellBriefSummary" where
  "shell_brief x = \<lparr>zb_BriefID = b_BriefID x, zb_Posture = b_Posture x, zb_Objective = b_Objective x,
     zb_RequestedOutcome = b_RequestedOutcome x, zb_NormalizedAction = b_NormalizedAction x,
     zb_ScopeSummary = b_ScopeSummary x, zb_Constraints = b_Constraints x, zb_DoneCriteria = b_DoneCriteria x,
     zb_AmbiguityFlags = b_AmbiguityFlags x, zb_ClarificationQuestions = b_ClarificationQuestions x,
     zb_RequiresClarification = b_RequiresClarification x, zb_WorkerFraming = b_WorkerFraming x,
     zb_BoundedEvidenceMessages = b_BoundedEvidenceMessages x\<rparr>"

record ShellRunSummary =
  zq_RunID :: "RunID"
  zq_WorkerKind :: "WorkerKind"
  zq_Status :: "RunStatus"
  zq_WorkerRunID :: "string"
  zq_ShellSessionID :: "string"
  zq_Command :: "string"
  zq_Args :: "string list"
  zq_ExitCode :: "int option"
  zq_Stdout :: "string"
  zq_Stderr :: "string"
  zq_ChangedFiles :: "string list"
  zq_ValidationSignals :: "string list"
  zq_OutputArtifactRef :: "string"
  zq_StructuredSummary :: "string"
  zq_LastKnownSummary :: "string"
  zq_StartedAt :: "go_time"
  zq_EndedAt :: "go_time option"
  zq_InterruptionReason :: "string"

definition shell_run :: "ExecutionRun \<Rightarrow> ShellRunSummary" where
  "shell_run x = \<lparr>zq_RunID = r_RunID x, zq_WorkerKind = r_WorkerKind x, zq_Status = r_Status x,
     zq_WorkerRunID = r_WorkerRunID x, zq_ShellSessionID = r_ShellSessionID x, zq_Command = r_Command x,
     zq_Args = r_Args x, zq_ExitCode = r_ExitCode x, zq_Stdout = r_Stdout x, zq_Stderr = r_Stderr x,
     zq_ChangedFiles = r_ChangedFiles x, zq_ValidationSignals = r_ValidationSignals x,
     zq_OutputArtifactRef = r_OutputArtifactRef x, zq_StructuredSummary = r_StructuredSummary x,
     zq_LastKnownSummary = r_LastKnownSummary x, zq_StartedAt = r_StartedAt x, zq_EndedAt = r_EndedAt x,
     zq_InterruptionReason = r_InterruptionReason x\<rparr>"

record ShellSessionEventSummary =
  zx_EventID :: EventID
  zx_SessionID :: string
  zx_Kind :: string
  zx_HostMode :: string
  zx_HostState :: string
  zx_WorkerSessionID :: string
  zx_WorkerSessionIDSource :: string
  zx_AttachCapability :: string
  zx_Active :: bool
  zx_InputLive :: bool
  zx_ExitCode :: "int option"
  zx_PaneWidth :: int
  zx_PaneHeight :: int
  zx_Note :: string
  zx_CreatedAt :: go_time

definition shell_event :: "SessionEvent \<Rightarrow> ShellSessionEventSummary" where
  "shell_event x = \<lparr>zx_EventID = se_EventID x, zx_SessionID = se_SessionID x,
     zx_Kind = SessionEventKind_str (se_Kind x), zx_HostMode = se_HostMode x, zx_HostState = se_HostState x,
     zx_WorkerSessionID = se_WorkerSessionID x,
     zx_WorkerSessionIDSource = WorkerSessionIDSource_str (se_WorkerSessionIDSource x),
     zx_AttachCapability = AttachCapability_str (se_AttachCapability x), zx_Active = se_Active x,
     zx_InputLive = se_InputLive x, zx_ExitCode = se_ExitCode x, zx_PaneWidth = se_PaneWidth x,
     zx_PaneHeight = se_PaneHeight x, zx_Note = se_Note x, zx_CreatedAt = se_CreatedAt x\<rparr>"

record ShellTranscriptChunkSummary =
  zk_ChunkID :: EventID
  zk_SessionID :: string
  zk_SequenceNo :: int
  zk_Source :: string
  zk_Content :: string
  zk_CreatedAt :: go_time

definition shell_chunk :: "TranscriptChunk \<Rightarrow> ShellTranscriptChunkSummary" where
  "shell_chunk x = \<lparr>zk_ChunkID = tc_ChunkID x, zk_SessionID = tc_SessionID x,
     zk_SequenceNo = tc_SequenceNo x, zk_Source = TranscriptSource_str (tc_Source x), zk_Content = tc_Content x,
     zk_CreatedAt = tc_CreatedAt x\<rparr>"

record ShellCheckpointSummary =
  zp_CheckpointID :: "CheckpointID"
  zp_Trigger :: "Trigger"
  zp_CreatedAt :: "go_time"
  zp_ResumeDescriptor :: "string"
  zp_IsResumable :: "bool"

definition shell_checkpoint :: "Checkpoint \<Rightarrow> ShellCheckpointSummary" where
  "shell_checkpoint x = \<lparr>zp_CheckpointID = k_CheckpointID x, zp_Trigger = k_Trigger x,
     zp_CreatedAt = k_CreatedAt x, zp_ResumeDescriptor = k_ResumeDescriptor x,
     zp_IsResumable = k_IsResumable x\<rparr>"

record ShellHandoffSummary =
  zo_HandoffID :: "string"
  zo_Status :: "HandoffStatus"
  zo_SourceWorker :: "WorkerKind"
  zo_TargetWorker :: "WorkerKind"
  zo_Mode :: "HandoffMode"
  zo_Reason :: "string"
  zo_AcceptedBy :: "WorkerKind"
  zo_CreatedAt :: "go_time"

definition shell_handoff :: "Packet \<Rightarrow> ShellHandoffSummary" where
  "shell_handoff x = \<lparr>zo_HandoffID = h_HandoffID x, zo_Status = h_Status x,
     zo_SourceWorker = h_SourceWorker x, zo_TargetWorker = h_TargetWorker x, zo_Mode = h_HandoffMode x,
     zo_Reason = h_Reason x, zo_AcceptedBy = h_AcceptedBy x, zo_CreatedAt = h_CreatedAt x\<rparr>"

record ShellLaunchSummary =
  zn_AttemptID :: "string"
  zn_LaunchID :: "string"
  zn_Status :: "LaunchStatus"
  zn_RequestedAt :: "go_time"
  zn_StartedAt :: "go_time"
  zn_EndedAt :: "go_time"
  zn_Summary :: "string"
  zn_ErrorMessage :: "string"
  zn_OutputArtifactRef :: "string"

definition shell_launch :: "Launch \<Rightarrow> ShellLaunchSummary" where
  "shell_launch x = \<lparr>zn_AttemptID = l_AttemptID x, zn_LaunchID = l_LaunchID x, zn_Status = l_Status x,
     zn_RequestedAt = l_RequestedAt x, zn_StartedAt = l_StartedAt x, zn_EndedAt = l_EndedAt x,
     zn_Summary = l_Summary x, zn_ErrorMessage = l_ErrorMessage x,
     zn_OutputArtifactRef = l_OutputArtifactRef x\<rparr>"

record ShellLaunchControlSummary =
  zm_State :: LaunchControlState
  zm_RetryDisposition :: LaunchRetryDisposition
  zm_Reason :: string
  zm_HandoffID :: string
  zm_AttemptID :: string
  zm_LaunchID :: string
  zm_TargetWorker :: WorkerKind
  zm_RequestedAt :: go_time
  zm_CompletedAt :: go_time
  zm_FailedAt :: go_time

definition shell_launch_control :: "LaunchControl \<Rightarrow> ShellLaunchControlSummary" where
  "shell_launch_control x = \<lparr>zm_State = lc_State x, zm_RetryDisposition = lc_RetryDisposition x,
     zm_Reason = lc_Reason x, zm_HandoffID = lc_HandoffID x, zm_AttemptID = lc_AttemptID x,
     zm_LaunchID = lc_LaunchID x, zm_TargetWorker = lc_TargetWorker x, zm_RequestedAt = lc_RequestedAt x,
     zm_CompletedAt = lc_CompletedAt x, zm_FailedAt = lc_FailedAt x\<rparr>"

record ShellAcknowledgmentSummary =
  za_Status :: "AcknowledgmentStatus"
  za_Summary :: "string"
  za_CreatedAt :: "go_time"

definition shell_acknowledgment :: "Acknowledgment \<Rightarrow> ShellAcknowledgmentSummary" where
  "shell_acknowledgment x = \<lparr>za_Status = a_Status x, za_Summary = a_Summary x,
     za_CreatedAt = a_CreatedAt x\<rparr>"

record ShellFollowThroughSummary =
  zf_RecordID :: "string"
  zf_Kind :: "FollowThroughKind"
  zf_Summary :: "string"
  zf_LaunchAttemptID :: "string"
  zf_LaunchID :: "string"
  zf_CreatedAt :: "go_time"

definition shell_follow_through :: "FollowThrough \<Rightarrow> ShellFollowThroughSummary" where
  "shell_follow_through x = \<lparr>zf_RecordID = f_RecordID x, zf_Kind = f_Kind x, zf_Summary = f_Summary x,
     zf_LaunchAttemptID = f_LaunchAttemptID x, zf_LaunchID = f_LaunchID x, zf_CreatedAt = f_CreatedAt x\<rparr>"

record ShellResolutionSummary =
  zd_ResolutionID :: "string"
  zd_Kind :: "ResolutionKind"
  zd_Summary :: "string"
  zd_LaunchAttemptID :: "string"
  zd_LaunchID :: "string"
  zd_CreatedAt :: "go_time"

definition shell_resolution :: "Resolution \<Rightarrow> ShellResolutionSummary" where
  "shell_resolution x = \<lparr>zd_ResolutionID = s_ResolutionID x, zd_Kind = s_Kind x,
     zd_Summary = s_Summary x, zd_LaunchAttemptID = s_LaunchAttemptID x, zd_LaunchID = s_LaunchID x,
     zd_CreatedAt = s_CreatedAt x\<rparr>"

record ShellActiveBranchSummary =
  zw_Class :: ActiveBranchClass
  zw_BranchRef :: string
  zw_ActionabilityAnchor :: ActiveBranchAnchorKind
  zw_ActionabilityAnchorRef :: string
  zw_Reason :: string

definition shell_active_branch :: "ActiveBranchProvenance \<Rightarrow> ShellActiveBranchSummary" where
  "shell_active_branch x = \<lparr>zw_Class = bp_Class x, zw_BranchRef = bp_BranchRef x,
     zw_ActionabilityAnchor = bp_ActionabilityAnchor x, zw_ActionabilityAnchorRef = bp_ActionabilityAnchorRef x,
     zw_Reason = bp_Reason x\<rparr>"

record ShellLocalRunFinalizationSummary =
  zg_State :: LocalRunFinalizationState
  zg_RunID :: RunID
  zg_RunStatus :: RunStatus
  zg_CheckpointID :: CheckpointID
  zg_Reason :: string

definition shell_run_finalization :: "LocalRunFinalization \<Rightarrow> ShellLocalRunFinalizationSummary" where
  "shell_run_finalization x = \<lparr>zg_State = rf_State x, zg_RunID = rf_RunID x,
     zg_RunStatus = rf_RunStatus x, zg_CheckpointID = rf_CheckpointID x, zg_Reason = rf_Reason x\<rparr>"

record ShellLocalResumeAuthoritySummary =
  zj_State :: LocalResumeAuthorityState
  zj_Mode :: LocalResumeMode
  zj_CheckpointID :: CheckpointID
  zj_RunID :: RunID
  zj_BlockingBranchClass :: ActiveBranchClass
  zj_BlockingBranchRef :: string
  zj_Reason :: string

definition shell_local_resume :: "LocalResumeAuthority \<Rightarrow> ShellLocalResumeAuthoritySummary" where
  "shell_local_resume x = \<lparr>zj_State = lr_State x, zj_Mode = lr_Mode x,
     zj_CheckpointID = lr_CheckpointID x, zj_RunID = lr_RunID x,
     zj_BlockingBranchClass = lr_BlockingBranchClass x, zj_BlockingBranchRef = lr_BlockingBranchRef x,
     zj_Reason = lr_Reason x\<rparr>"

record ShellOperatorActionAuthority =
  wa_Action :: OperatorAction
  wa_State :: OperatorActionAuthorityState
  wa_Reason :: string
  wa_BlockingBranchClass :: ActiveBranchClass
  wa_BlockingBranchRef :: string
  wa_AnchorKind :: ActiveBranchAnchorKind
  wa_AnchorRef :: string

definition shell_action_authority :: "OperatorActionAuthority \<Rightarrow> ShellOperatorActionAuthority" where
  "shell_action_authority x = \<lparr>wa_Action = oa_Action x, wa_State = oa_State x, wa_Reason = oa_Reason x,
     wa_BlockingBranchClass = oa_BlockingBranchClass x, wa_BlockingBranchRef = oa_BlockingBranchRef x,
     wa_AnchorKind = oa_AnchorKind x, wa_AnchorRef = oa_AnchorRef x\<rparr>"

record ShellOperatorActionAuthoritySet =
  wb_RequiredNextAction :: OperatorAction
  wb_Actions :: "ShellOperatorActionAuthority list"

definition shellOperatorActionAuthoritySet :: "OperatorActionAuthoritySet \<Rightarrow> ShellOperatorActionAuthoritySet" where
  "shellOperatorActionAuthoritySet x = \<lparr>wb_RequiredNextAction = os_RequiredNextAction x,
     wb_Actions = map shell_action_authority (os_Actions x)\<rparr>"

record ShellOperatorDecisionBlockedAction =
  wc_Action :: OperatorAction
  wc_Reason :: string

definition shell_blocked_action :: "OperatorDecisionBlockedAction \<Rightarrow> ShellOperatorDecisionBlockedAction" where
  "shell_blocked_action x = \<lparr>wc_Action = db_Action x, wc_Reason = db_Reason x\<rparr>"

record ShellOperatorDecisionSummary =
  wd_ActiveOwnerClass :: ActiveBranchClass
  wd_ActiveOwnerRef :: string
  wd_Headline :: string
  wd_RequiredNextAction :: OperatorAction
  wd_PrimaryReason :: string
  wd_Guidance :: string
  wd_IntegrityNote :: string
  wd_BlockedActions :: "ShellOperatorDecisionBlockedAction list"

definition shellOperatorDecisionSummary :: "OperatorDecisionSummary \<Rightarrow> ShellOperatorDecisionSummary" where
  "shellOperatorDecisionSummary x = \<lparr>wd_ActiveOwnerClass = od_ActiveOwnerClass x,
     wd_ActiveOwnerRef = od_ActiveOwnerRef x, wd_Headline = od_Headline x,
     wd_RequiredNextAction = od_RequiredNextAction x, wd_PrimaryReason = od_PrimaryReason x,
     wd_Guidance = od_Guidance x, wd_IntegrityNote = od_IntegrityNote x,
     wd_BlockedActions = map shell_blocked_action (od_BlockedActions x)\<rparr>"

record ShellOperatorExecutionStep =
  we_Action :: OperatorAction
  we_Status :: OperatorActionAuthorityState
  we_Domain :: OperatorExecutionDomain
  we_CommandSurface :: OperatorCommandSurfaceType
  we_CommandHint :: string
  we_Reason :: string

definition shell_step :: "OperatorExecutionStep \<Rightarrow> ShellOperatorExecutionStep" where
  "shell_step x = \<lparr>we_Action = es_Action x, we_Status = es_Status x, we_Domain = es_Domain x,
     we_CommandSurface = es_CommandSurface x, we_CommandHint = es_CommandHint x,
     we_Reason = es_Reason x\<rparr>"

record ShellOperatorExecutionPlan =
  wf_PrimaryStep :: "ShellOperatorExecutionStep option"
  wf_MandatoryBeforeProgress :: bool
  wf_SecondarySteps :: "ShellOperatorExecutionStep list"
  wf_BlockedSteps :: "ShellOperatorExecutionStep list"

definition shellOperatorExecutionPlan :: "OperatorExecutionPlan \<Rightarrow> ShellOperatorExecutionPlan" where
  "shellOperatorExecutionPlan x = \<lparr>wf_PrimaryStep = map_option shell_step (ep_PrimaryStep x),
     wf_MandatoryBeforeProgress = ep_MandatoryBeforeProgress x,
     wf_SecondarySteps = map shell_step (ep_SecondarySteps x),
     wf_BlockedSteps = map shell_step (ep_BlockedSteps x)\<rparr>"

record ShellHandoffContinuitySummary =
  wg_State :: HandoffContinuityState
  wg_Reason :: string
  wg_LaunchAttemptID :: string
  wg_LaunchID :: string
  wg_AcknowledgmentID :: string
  wg_AcknowledgmentStatus :: AcknowledgmentStatus
  wg_AcknowledgmentSummary :: string
  wg_FollowThroughID :: string
  wg_FollowThroughKind :: FollowThroughKind
  wg_FollowThroughSummary :: string
  wg_ResolutionID :: string
  wg_ResolutionKind :: ResolutionKind
  wg_ResolutionSummary :: string
  wg_DownstreamContinuationProven :: bool

definition shell_handoff_continuity :: "HandoffContinuity \<Rightarrow> ShellHandoffContinuitySummary" where
  "shell_handoff_continuity x = \<lparr>wg_State = hc_State x, wg_Reason = hc_Reason x,
     wg_LaunchAttemptID = hc_LaunchAttemptID x, wg_LaunchID = hc_LaunchID x,
     wg_AcknowledgmentID = hc_AcknowledgmentID x, wg_AcknowledgmentStatus = hc_AcknowledgmentStatus x,
     wg_AcknowledgmentSummary = hc_AcknowledgmentSummary x, wg_FollowThroughID = hc_FollowThroughID x,
     wg_FollowThroughKind = hc_FollowThroughKind x, wg_FollowThroughSummary = hc_FollowThroughSummary x,
     wg_ResolutionID = hc_ResolutionID x, wg_ResolutionKind = hc_ResolutionKind x,
     wg_ResolutionSummary = hc_ResolutionSummary x,
     wg_DownstreamContinuationProven = hc_DownstreamContinuationProven x\<rparr>"

record ShellRecoveryIssue =
  wi_Code :: string
  wi_Message :: string

definition shell_issue :: "RecoveryIssue \<Rightarrow> ShellRecoveryIssue" where
  "shell_issue x = \<lparr>wi_Code = ri_Code x, wi_Message = ri_Message x\<rparr>"

record ShellRecoverySummary =
  wh_ContinuityOutcome :: ContinueOutcome
  wh_RecoveryClass :: RecoveryClass
  wh_RecommendedAction :: RecoveryAction
  wh_ReadyForNextRun :: bool
  wh_ReadyForHandoffLaunch :: bool
  wh_RequiresDecision :: bool
  wh_RequiresRepair :: bool
  wh_RequiresReview :: bool
  wh_RequiresReconciliation :: bool
  wh_DriftClass :: DriftClass
  wh_Reason :: string
  wh_CheckpointID :: CheckpointID
  wh_RunID :: RunID
  wh_HandoffID :: string
  wh_HandoffStatus :: HandoffStatus
  wh_Issues :: "ShellRecoveryIssue list"

definition shellRecoverySummary :: "RecoveryAssessment \<Rightarrow> ShellRecoverySummary" where
  "shellRecoverySummary x = \<lparr>wh_ContinuityOutcome = rv_ContinuityOutcome x,
     wh_RecoveryClass = rv_RecoveryClass x, wh_RecommendedAction = rv_RecommendedAction x,
     wh_ReadyForNextRun = rv_ReadyForNextRun x, wh_ReadyForHandoffLaunch = rv_ReadyForHandoffLaunch x,
     wh_RequiresDecision = rv_RequiresDecision x, wh_RequiresRepair = rv_RequiresRepair x,
     wh_RequiresReview = rv_RequiresReview x, wh_RequiresReconciliation = rv_RequiresReconciliation x,
     wh_DriftClass = rv_DriftClass x, wh_Reason = rv_Reason x, wh_CheckpointID = rv_CheckpointID x,
     wh_RunID = rv_RunID x, wh_HandoffID = rv_HandoffID x, wh_HandoffStatus = rv_HandoffStatus x,
     wh_Issues = map shell_issue (rv_Issues x)\<rparr>"

record ShellProofSummary =
  wj_EventID :: EventID
  wj_Type :: EventType
  wj_Summary :: string
  wj_Timestamp :: go_time

definition shell_proof :: "Event \<Rightarrow> ShellProofSummary" where
  "shell_proof x = \<lparr>wj_EventID = e_EventID x, wj_Type = e_Type x,
     wj_Summary = summarizeProofEvent (e_Type x), wj_Timestamp = e_Timestamp x\<rparr>"

record ShellConversationSummary =
  wk_Role :: "Role"
  wk_Body :: "string"
  wk_CreatedAt :: "go_time"

definition shell_message :: "Message \<Rightarrow> ShellConversationSummary" where
  "shell_message x = \<lparr>wk_Role = m_Role x, wk_Body = m_Body x, wk_CreatedAt = m_CreatedAt x\<rparr>"


section \<open>The snapshot\<close>

text \<open>
  \<open>shellIntent\<close>: both branches of the code return the latest intent, whatever the current id is.
  \<open>shellBrief\<close> falls back to the latest brief when the current one is not on record.
\<close>

definition shellIntent :: "TaskID \<Rightarrow> IntentID \<Rightarrow> IntentState option op" where
  "shellIntent t current =
     bnd (if current = [] then ret None
          else bnd (row_read (intents_LatestByTask t)) (\<lambda>st. ret (case st of
            None \<Rightarrow> None | Some i \<Rightarrow> if i_IntentID i = current then Some i else None))) (\<lambda>st.
     case st of Some i \<Rightarrow> ret (Some i) | None \<Rightarrow> row_read (intents_LatestByTask t))"

definition shellBrief :: "TaskID \<Rightarrow> BriefID \<Rightarrow> ExecutionBrief option op" where
  "shellBrief t current =
     bnd (if current = [] then ret None else row_read (briefs_Get current)) (\<lambda>b.
     case b of Some x \<Rightarrow> ret (Some x) | None \<Rightarrow> row_read (briefs_LatestByTask t))"

definition shellIntentSummary :: "IntentState \<Rightarrow> string" where
  "shellIntentSummary i = (if TrimSpace (i_NormalizedAction i) = [] then IntentClass_str (i_Class i)
     else IntentClass_str (i_Class i) @ '': '' @ i_NormalizedAction i)"

text \<open>The last message of the system among those that were read, oldest first.\<close>

definition latest_canonical :: "Message list \<Rightarrow> string" where
  "latest_canonical ms = foldl (\<lambda>body m. if m_Role m = RoleSystem then m_Body m else body) [] ms"

record ShellTruth =
  wm_Recovery :: ShellRecoverySummary
  wm_ActiveBranch :: ShellActiveBranchSummary
  wm_LocalRunFinalization :: ShellLocalRunFinalizationSummary
  wm_LocalResume :: ShellLocalResumeAuthoritySummary
  wm_ActionAuthority :: ShellOperatorActionAuthoritySet
  wm_OperatorDecision :: ShellOperatorDecisionSummary
  wm_OperatorExecutionPlan :: ShellOperatorExecutionPlan
  wm_LaunchControl :: ShellLaunchControlSummary

definition shell_truth ::
  "TaskID \<Rightarrow> continueAssessment \<Rightarrow> TranscriptView list \<Rightarrow> ContinuityIncidentFollowUpSummary option \<Rightarrow> ShellTruth" where
  "shell_truth t a sessions follow = (let x = operatorTruthForAssessment a in
     \<lparr>wm_Recovery = shellRecoverySummary (ot_Recovery x), wm_ActiveBranch = shell_active_branch (ot_Branch x),
      wm_LocalRunFinalization = shell_run_finalization (ot_RunFinalization x),
      wm_LocalResume = shell_local_resume (ot_LocalResume x),
      wm_ActionAuthority = shellOperatorActionAuthoritySet (ot_Actions x),
      wm_OperatorDecision = shellOperatorDecisionSummary (shown_decision a sessions follow),
      wm_OperatorExecutionPlan = shellOperatorExecutionPlan (shown_plan a sessions follow),
      wm_LaunchControl = shell_launch_control (assessLaunchControl t (ca_LatestHandoff a) (ca_LatestLaunch a))\<rparr>)"

record ShellSnapshotResult =
  wl_TaskID :: TaskID
  wl_Goal :: string
  wl_Phase :: string
  wl_Status :: string
  wl_RepoAnchor :: Snapshot
  wl_IntentClass :: string
  wl_IntentSummary :: string
  wl_CompiledIntent :: "CompiledIntentSummary option"
  wl_Brief :: "ShellBriefSummary option"
  wl_Run :: "ShellRunSummary option"
  wl_Checkpoint :: "ShellCheckpointSummary option"
  wl_Handoff :: "ShellHandoffSummary option"
  wl_Launch :: "ShellLaunchSummary option"
  wl_Acknowledgment :: "ShellAcknowledgmentSummary option"
  wl_FollowThrough :: "ShellFollowThroughSummary option"
  wl_Resolution :: "ShellResolutionSummary option"
  wl_HandoffContinuity :: ShellHandoffContinuitySummary
  wl_Truth :: ShellTruth
  wl_LatestStep :: "OperatorStepReceipt option"
  wl_RecentSteps :: "OperatorStepReceipt list"
  wl_Evidence :: TaskEvidence
  wl_Incident :: "IncidentRisk option"
  wl_ShellSessions :: "TranscriptView list"
  wl_RecentShellEvents :: "ShellSessionEventSummary list"
  wl_RecentShellTranscript :: "ShellTranscriptChunkSummary list"
  wl_RecentProofs :: "ShellProofSummary list"
  wl_RecentConversation :: "ShellConversationSummary list"
  wl_LatestCanonicalResponse :: string

definition ShellSnapshotTask :: "Deps \<Rightarrow> string \<Rightarrow> ShellSnapshotResult op" where
  "ShellSnapshotTask E taskID = (let t = TrimSpace taskID in
     if t = [] then throw (ErrMsg ''task id is required'')
     else
     bnd (db_read (capsules_Get t)) (\<lambda>caps.
     bnd (shellIntent t (c_CurrentIntentID caps)) (\<lambda>intent.
     bnd (shellBrief t (c_CurrentBriefID caps)) (\<lambda>brief.
     bnd (row_read (runs_LatestByTask t)) (\<lambda>run.
     bnd (classifiedShellSessions E t) (\<lambda>views.
     bnd (case latest_session views of None \<Rightarrow> ret [] | Some v \<Rightarrow> listShellTranscript t (view_session v) 40) (\<lambda>transcript.
     bnd (shell_read (\<lambda>d. Inr (shell_ListEvents t [] 20 d))) (\<lambda>shellEvents.
     bnd (row_read (checkpoints_LatestByTask t)) (\<lambda>cp.
     bnd (latest_packet t) (\<lambda>(packet, launch, ack, follow).
     bnd (row_read (handoffs_LatestResolutionByTask t)) (\<lambda>res.
     bnd (db_read (loadActiveClaudeHandoffBranch t)) (\<lambda>(activePacket, activeLaunch, activeAck, activeFollow).
     bnd (list_read (proofs_ListByTask t 8)) (\<lambda>events.
     bnd (row_read (opsteps_LatestByTask t)) (\<lambda>step.
     bnd (list_read (opsteps_ListByTask t 5)) (\<lambda>steps.
     bnd (task_evidence t views 5) (\<lambda>ev.
     bnd (row_read (actions_LatestByTask t)) (\<lambda>act.
     bnd (list_read (messages_ListRecent (c_ConversationID caps) 18)) (\<lambda>messages.
     bnd (assess E t) (\<lambda>a.
     ret \<lparr>wl_TaskID = c_TaskID caps, wl_Goal = c_Goal caps, wl_Phase = Phase_str (c_CurrentPhase caps),
          wl_Status = c_Status caps, wl_RepoAnchor = capsuleAnchorSnapshot caps,
          wl_IntentClass = (case intent of None \<Rightarrow> [] | Some i \<Rightarrow> IntentClass_str (i_Class i)),
          wl_IntentSummary = (case intent of None \<Rightarrow> [] | Some i \<Rightarrow> shellIntentSummary i),
          wl_CompiledIntent = map_option compiledIntentSummaryFromState intent,
          wl_Brief = map_option shell_brief brief, wl_Run = map_option shell_run run,
          wl_Checkpoint = map_option shell_checkpoint cp, wl_Handoff = map_option shell_handoff packet,
          wl_Launch = map_option shell_launch launch, wl_Acknowledgment = map_option shell_acknowledgment ack,
          wl_FollowThrough = map_option shell_follow_through follow, wl_Resolution = map_option shell_resolution res,
          wl_HandoffContinuity = shell_handoff_continuity
            (assessHandoffContinuity t activePacket activeLaunch activeAck activeFollow None),
          wl_Truth = shell_truth t a views (te_FollowUp ev), wl_LatestStep = step, wl_RecentSteps = steps,
          wl_Evidence = ev,
          wl_Incident = continuityIncidentSummaryProjection (first_row (te_RecentTransitions ev)) run act,
          wl_ShellSessions = views, wl_RecentShellEvents = map shell_event shellEvents,
          wl_RecentShellTranscript = map shell_chunk transcript, wl_RecentProofs = map shell_proof events,
          wl_RecentConversation = map shell_message messages,
          wl_LatestCanonicalResponse = latest_canonical messages\<rparr>)))))))))))))))))))"

end
