(* ===== verification/ProjectionFacts.thy ===== *)
theory ProjectionFacts
  imports Guarantees ShellSnapshot
begin

text \<open>
  The reads change nothing, tell what the gates will do, and agree with each other.
\<close>

section \<open>Reads leave the world alone\<close>

text \<open>Only the count of answers moves on.\<close>

definition ticks_only :: "World \<Rightarrow> World \<Rightarrow> bool" where
  "ticks_only w w' \<longleftrightarrow> w_db w' = w_db w \<and> w_shell w' = w_shell w \<and> w_sessions w' = w_sessions w"

interpretation reads: state_frame ticks_only
  by unfold_locales (simp_all add: ticks_only_def)

lemma reads_tick: "frames ticks_only (tick f)"
  by (rule framesI) (auto simp: tick_run ticks_only_def)

lemma reads_db: "frames ticks_only (db_read f)"
  by (rule framesI) (auto simp: db_read_run ticks_only_def)

lemma reads_shell: "frames ticks_only (shell_read f)"
  by (rule framesI) (auto simp: shell_read_def ticks_only_def)

lemma reads_clock: "frames ticks_only (clock E)"
  unfolding clock_def by (rule reads_tick)

lemma reads_assess: "frames ticks_only (assess E t)"
  unfolding assess_def captureAnchor_def by (intro reads.frame_rules reads_db reads_tick)

lemma reads_sessions: "frames ticks_only (classifiedShellSessions E t)"
  unfolding classifiedShellSessions_def records_of_def by (intro reads.frame_rules reads_clock reads_shell)

lemma reads_rows: "frames ticks_only (row_read f)" "frames ticks_only (list_read g)"
  unfolding row_read_def list_read_def by (intro reads.frame_rules reads_db)+

lemma reads_parts:
  "frames ticks_only (current_brief caps)" "frames ticks_only (latest_packet t)"
  "frames ticks_only (listShellTranscript t s n)" "frames ticks_only (task_evidence t views n)"
  "frames ticks_only (shellIntent t i)" "frames ticks_only (shellBrief t b)"
  unfolding current_brief_def latest_packet_def listShellTranscript_def task_evidence_def shellIntent_def
    shellBrief_def Let_def
  by (intro reads.frame_rules reads_rows reads_db reads_shell)+

lemma reads_record: "frames ticks_only (loadShellSessionRecord t s)"
  unfolding loadShellSessionRecord_def records_of_def by (intro reads.frame_rules)

lemma reads_reviews: "frames ticks_only (ReadShellTranscriptReviewHistory E t s k n)"
  unfolding ReadShellTranscriptReviewHistory_def with_session_def Let_def
  by (intro reads.frame_rules reads_db reads_shell reads_record reads_clock)

lemma reads_more: "frames ticks_only (incidentTranscriptReviewEvidence E t anchor limit)"
  unfolding incidentTranscriptReviewEvidence_def Let_def
  by (intro reads.frame_rules reads_rows reads_db reads_shell reads_sessions reads_reviews reads_clock)

lemmas reads_rules = reads_record reads_reviews reads_more reads.frame_rules reads_rows reads_db reads_shell reads_parts reads_assess reads_sessions
  reads_clock

text \<open>
  C18. Reading changes nothing: the status, the inspection and the shell snapshot of a task, the
  histories and slices of its transitions and incidents, its sessions and transcripts leave the
  database, the session table and the shell store as they are, whatever they return.
\<close>

theorem reads_change_nothing:
  "frames ticks_only (StatusTask E t) \<and> frames ticks_only (InspectTask E t) \<and> frames ticks_only (ShellSnapshotTask E t)
   \<and> frames ticks_only (ReadContinuityTransitionHistory hq) \<and> frames ticks_only (ReadContinuityIncidentSlice E iq)
   \<and> frames ticks_only (ReadContinuityIncidentTriageHistory rq) \<and> frames ticks_only (ReadContinuityIncidentFollowUpHistory fq)
   \<and> frames ticks_only (ReadContinuityIncidentClosure t n k) \<and> frames ticks_only (ReadContinuityIncidentTaskRisk t n k)
   \<and> frames ticks_only (ListShellSessions E t) \<and> frames ticks_only (ReadShellTranscript E t s n m k)
   \<and> frames ticks_only (ReadShellTranscriptReviewHistory E t s k n)
   \<and> frames ticks_only (ReadCompiledIntent t) \<and> frames ticks_only (ReadGeneratedBrief t)"
  unfolding StatusTask_def InspectTask_def ShellSnapshotTask_def ReadContinuityTransitionHistory_def
    ReadContinuityIncidentSlice_def ReadContinuityIncidentTriageHistory_def ReadContinuityIncidentFollowUpHistory_def
    ReadContinuityIncidentClosure_def ReadContinuityIncidentTaskRisk_def ListShellSessions_def ReadShellTranscript_def
    ReadCompiledIntent_def ReadGeneratedBrief_def with_session_def Let_def
  by (intro conjI reads_rules)

section \<open>What the reads return\<close>

lemma row_read_run: "row_read f u = (opt_rows (f (w_db u)), u)"
  by (auto simp: row_read_def optional_def db_read_run opt_rows_def split: sum.splits)

lemma list_read_run: "list_read f u = (Inr (f (w_db u)), u)"
  by (simp add: list_read_def db_read_run)

lemma shell_intent_is_latest: "shellIntent t current = row_read (intents_LatestByTask t)"
  by (rule ext) (auto simp: shellIntent_def bnd_def row_read_run ret_run split: sum.splits option.splits if_splits)

definition brief_of :: "WorkCapsule \<Rightarrow> Db \<Rightarrow> go_error + ExecutionBrief option" where
  "brief_of caps d = (if c_CurrentBriefID caps = [] then Inr None else opt_rows (briefs_Get (c_CurrentBriefID caps) d))"

lemma current_brief_run: "current_brief caps u = (brief_of caps (w_db u), u)"
  by (simp add: current_brief_def brief_of_def row_read_run ret_run)

lemma sessions_keep: "classifiedShellSessions E t u = (r, v) \<Longrightarrow> w_db v = w_db u"
  using framesD[OF reads_sessions] by (simp add: ticks_only_def)

lemma evidence_keeps: "task_evidence t views n u = (r, v) \<Longrightarrow> w_db v = w_db u"
  using framesD[OF reads_parts(4)] by (simp add: ticks_only_def)

lemma assess_keeps: "assess E t u = (r, v) \<Longrightarrow> w_db v = w_db u"
  using framesD[OF reads_assess] by (simp add: ticks_only_def)

lemma packet_keeps: "latest_packet t u = (r, v) \<Longrightarrow> w_db v = w_db u"
  using framesD[OF reads_parts(2)] by (simp add: ticks_only_def)

text \<open>What each read shows of the database it was made in.\<close>

definition status_shows :: "TaskID \<Rightarrow> Db \<Rightarrow> StatusTaskResult \<Rightarrow> bool" where
  "status_shows t d s \<longleftrightarrow>
     Inr (su_RepoAnchor s) = map_sum id capsuleAnchorSnapshot (capsules_Get t d)
     \<and> Inr (su_CompiledIntent s) = map_sum id (map_option compiledIntentSummaryFromState) (opt_rows (intents_LatestByTask t d))
     \<and> Inr (su_LatestRun s) = map_sum id status_run (opt_rows (runs_LatestByTask t d))
     \<and> Inr (su_LatestCheckpoint s) = map_sum id status_checkpoint (opt_rows (checkpoints_LatestByTask t d))
     \<and> Inr (su_LatestStep s) = opt_rows (opsteps_LatestByTask t d)
     \<and> su_RecentSteps s = opsteps_ListByTask t 3 d
     \<and> te_RecentTransitions (su_Evidence s) = continuityTransitionReceiptProjection t 3 d
     \<and> Inr (su_Handoff s) = rbnd (loadActiveClaudeHandoffBranch t d) (\<lambda>b.
         rbnd (opt_rows (handoffs_LatestResolutionByTask t d)) (\<lambda>r. Inr (status_handoff t b r)))"

lemma evidence_transitions:
  "task_evidence t views n u = (Inr ev, v) \<Longrightarrow> te_RecentTransitions ev = continuityTransitionReceiptProjection t n (w_db u)"
  by (auto simp: task_evidence_def Let_def bnd_Inr_iff db_read_run shell_read_def ret_run split: prod.splits)

lemma found_task: "capsules_Get t d = Inr caps \<Longrightarrow> c_TaskID caps = t"
  by (rule capsule_repo.get_key)

lemmas read_runs = bnd_Inr_iff db_read_run row_read_run list_read_run current_brief_run shell_read_def ret_run

definition assessed_from :: "Deps \<Rightarrow> TaskID \<Rightarrow> Db \<Rightarrow> continueAssessment \<Rightarrow> bool" where
  "assessed_from E t d a \<longleftrightarrow> (\<exists>u v. w_db u = d \<and> assess E t u = (Inr a, v))"

lemma assessedI: "assess E t u = (Inr a, v) \<Longrightarrow> w_db u = d \<Longrightarrow> assessed_from E t d a"
  by (auto simp: assessed_from_def)

lemma status_found: "StatusTask E t w = (Inr s, w') \<Longrightarrow> \<exists>caps. capsules_Get t (w_db w) = Inr caps"
  by (auto simp: StatusTask_def Let_def read_runs)

lemma status_reads:
  assumes "capsules_Get t (w_db w) = Inr caps"
  shows "StatusTask E t w = (Inr s, w') \<Longrightarrow> status_shows t (w_db w) s"
  unfolding StatusTask_def Let_def
  apply (simp add: read_runs assms found_task[OF assms])
  apply (elim exE conjE)
  apply (auto simp: status_shows_def assms evidence_transitions sessions_keep assess_keeps)
  done

definition status_truthful :: "continueAssessment \<Rightarrow> StatusTaskResult \<Rightarrow> bool" where
  "status_truthful a s \<longleftrightarrow> su_Truth s = status_truth (operatorTruthForAssessment a)
     \<and> su_Recovery s = applyRecoveryAssessmentToStatus (ot_Recovery (operatorTruthForAssessment a)) (su_LatestCheckpoint s)"

lemma status_tells:
  assumes "capsules_Get t (w_db w) = Inr caps"
  shows "StatusTask E t w = (Inr s, w') \<Longrightarrow> \<exists>a. assessed_from E t (w_db w) a \<and> status_truthful a s"
  unfolding StatusTask_def Let_def
  apply (simp add: read_runs assms found_task[OF assms])
  apply (elim exE conjE)
  apply (rule exI, rule conjI, erule assessedI)
   apply (simp add: sessions_keep)
  apply (auto simp: status_truthful_def)
  done

lemma status_facts:
  assumes "StatusTask E t w = (Inr s, w')"
  shows "status_shows t (w_db w) s" "\<exists>a. assessed_from E t (w_db w) a \<and> status_truthful a s"
  using status_found[OF assms] status_reads[OF _ assms] status_tells[OF _ assms] by blast+

definition inspection_shows :: "TaskID \<Rightarrow> Db \<Rightarrow> InspectTaskResult \<Rightarrow> bool" where
  "inspection_shows t d i \<longleftrightarrow>
     Inr (sw_RepoAnchor i) = map_sum id capsuleAnchorSnapshot (capsules_Get t d)
     \<and> Inr (sw_CompiledIntent i) = map_sum id (map_option compiledIntentSummaryFromState) (opt_rows (intents_LatestByTask t d))
     \<and> Inr (sw_Run i) = opt_rows (runs_LatestByTask t d) \<and> Inr (sw_Checkpoint i) = opt_rows (checkpoints_LatestByTask t d)
     \<and> Inr (sw_LatestStep i) = opt_rows (opsteps_LatestByTask t d) \<and> sw_RecentSteps i = opsteps_ListByTask t 5 d
     \<and> te_RecentTransitions (sw_Evidence i) = continuityTransitionReceiptProjection t 5 d
     \<and> Inr (sw_HandoffContinuity i) = map_sum id (\<lambda>(p, l, a, f). assessHandoffContinuity t p l a f None)
         (loadActiveClaudeHandoffBranch t d)"

lemma inspection_found: "InspectTask E t w = (Inr i, w') \<Longrightarrow> \<exists>caps. capsules_Get t (w_db w) = Inr caps"
  by (auto simp: InspectTask_def Let_def read_runs)

lemma inspection_reads:
  assumes "capsules_Get t (w_db w) = Inr caps"
  shows "InspectTask E t w = (Inr i, w') \<Longrightarrow> inspection_shows t (w_db w) i"
  unfolding InspectTask_def Let_def
  apply (simp add: read_runs assms found_task[OF assms] split: prod.splits)
  apply (elim exE conjE)
  apply (auto simp: inspection_shows_def assms evidence_transitions sessions_keep assess_keeps packet_keeps)
  done

lemma inspection_tells:
  assumes "capsules_Get t (w_db w) = Inr caps"
  shows "InspectTask E t w = (Inr i, w') \<Longrightarrow> \<exists>a. assessed_from E t (w_db w) a \<and> sw_Truth i = operatorTruthForAssessment a"
  unfolding InspectTask_def Let_def
  apply (simp add: read_runs assms found_task[OF assms] split: prod.splits)
  apply (elim exE conjE)
  apply (rule exI, rule conjI, erule assessedI)
   apply (erule packet_keeps)
  apply auto
  done

lemma inspection_facts:
  assumes "InspectTask E t w = (Inr i, w')"
  shows "inspection_shows t (w_db w) i" "\<exists>a. assessed_from E t (w_db w) a \<and> sw_Truth i = operatorTruthForAssessment a"
  using inspection_found[OF assms] inspection_reads[OF _ assms] inspection_tells[OF _ assms] by blast+

definition snapshot_shows :: "TaskID \<Rightarrow> Db \<Rightarrow> ShellSnapshotResult \<Rightarrow> bool" where
  "snapshot_shows t d h \<longleftrightarrow>
     Inr (wl_RepoAnchor h) = map_sum id capsuleAnchorSnapshot (capsules_Get t d)
     \<and> Inr (wl_CompiledIntent h) = map_sum id (map_option compiledIntentSummaryFromState) (opt_rows (intents_LatestByTask t d))
     \<and> Inr (wl_Run h) = map_sum id (map_option shell_run) (opt_rows (runs_LatestByTask t d))
     \<and> Inr (wl_Checkpoint h) = map_sum id (map_option shell_checkpoint) (opt_rows (checkpoints_LatestByTask t d))
     \<and> Inr (wl_LatestStep h) = opt_rows (opsteps_LatestByTask t d) \<and> wl_RecentSteps h = opsteps_ListByTask t 5 d
     \<and> te_RecentTransitions (wl_Evidence h) = continuityTransitionReceiptProjection t 5 d
     \<and> Inr (wl_HandoffContinuity h) = map_sum id (\<lambda>(p, l, a, f). shell_handoff_continuity (assessHandoffContinuity t p l a f None))
         (loadActiveClaudeHandoffBranch t d)"

lemma brief_keeps: "shellBrief t b u = (r, v) \<Longrightarrow> w_db v = w_db u"
  using framesD[OF reads_parts(6)] by (simp add: ticks_only_def)

lemma transcript_keeps:
  "(case o' of None \<Rightarrow> ret [] | Some x \<Rightarrow> listShellTranscript t (view_session x) n) u = (r, v) \<Longrightarrow> w_db v = w_db u"
  by (cases o') (auto simp: ret_run ticks_only_def dest: framesD[OF reads_parts(3)])

lemmas read_keeps = brief_keeps transcript_keeps evidence_keeps sessions_keep assess_keeps packet_keeps

lemma snapshot_found: "ShellSnapshotTask E x w = (Inr h, w') \<Longrightarrow> \<exists>caps. capsules_Get (TrimSpace x) (w_db w) = Inr caps"
  by (auto simp: ShellSnapshotTask_def Let_def read_runs throw_run split: if_splits)

lemma snapshot_reads:
  assumes "capsules_Get (TrimSpace x) (w_db w) = Inr caps"
  shows "ShellSnapshotTask E x w = (Inr h, w') \<Longrightarrow> snapshot_shows (TrimSpace x) (w_db w) h"
  unfolding ShellSnapshotTask_def Let_def
  apply (simp add: read_runs assms found_task[OF assms] throw_run shell_intent_is_latest split: if_splits prod.splits)
  apply (elim exE conjE)
  apply (auto simp: snapshot_shows_def assms evidence_transitions read_keeps)
  done

definition snapshot_truthful :: "continueAssessment \<Rightarrow> ShellSnapshotResult \<Rightarrow> bool" where
  "snapshot_truthful a h \<longleftrightarrow>
     wm_Recovery (wl_Truth h) = shellRecoverySummary (ot_Recovery (operatorTruthForAssessment a))"

lemma snapshot_tells:
  assumes "capsules_Get (TrimSpace x) (w_db w) = Inr caps"
  shows "ShellSnapshotTask E x w = (Inr h, w') \<Longrightarrow> \<exists>a. assessed_from E (TrimSpace x) (w_db w) a \<and> snapshot_truthful a h"
  unfolding ShellSnapshotTask_def Let_def
  apply (simp add: read_runs assms found_task[OF assms] throw_run shell_intent_is_latest split: if_splits prod.splits)
  apply (elim exE conjE)
  apply (rule exI, rule conjI, erule assessedI)
   apply (simp add: read_keeps)
  apply (auto simp: snapshot_truthful_def shell_truth_def Let_def)
  done

lemma snapshot_facts:
  assumes "ShellSnapshotTask E x w = (Inr h, w')"
  shows "snapshot_shows (TrimSpace x) (w_db w) h" "\<exists>a. assessed_from E (TrimSpace x) (w_db w) a \<and> snapshot_truthful a h"
  using snapshot_found[OF assms] snapshot_reads[OF _ assms] snapshot_tells[OF _ assms] by blast+

lemma truth_recovery: "ot_Recovery (operatorTruthForAssessment a) = recoveryFromContinueAssessment a"
  by (simp add: operatorTruthForAssessment_def Let_def)

text \<open>\<open>shown r P\<close>: what a read that succeeds returns has the property; nothing is said of a failed one.\<close>

definition shown :: "(go_error + 'a) \<times> World \<Rightarrow> ('a \<Rightarrow> bool) \<Rightarrow> bool" where
  "shown r P = (case r of (Inl _, _) \<Rightarrow> True | (Inr x, _) \<Rightarrow> P x)"

lemma shownI: "(\<And>x w'. r = (Inr x, w') \<Longrightarrow> P x) \<Longrightarrow> shown r P"
  by (cases r) (auto simp: shown_def split: sum.splits)

text \<open>
  C0. What \<open>StatusTask\<close> reports is what the gates decide by: there is an assessment of the
  unchanged database from which its fields come, the task is shown as ready for (and resumable by)
  the next run exactly when the gate of the real run would let it start under that assessment, the
  listed authorities are those the execution steps consult, and the checkpoint's own resumable flag
  is shown beside, never instead of, that verdict.
\<close>

theorem status_tells_gate:
  "shown (StatusTask E t w) (\<lambda>s. \<exists>a. assessed_from E t (w_db w) a
     \<and> (zy_ReadyForNextRun (su_Recovery s) \<longleftrightarrow> fst (runStartEligibility (recoveryFromContinueAssessment a) (authorities_of a)))
     \<and> zy_IsResumable (su_Recovery s) = zy_ReadyForNextRun (su_Recovery s)
     \<and> zu_ActionAuthority (su_Truth s) = os_Actions (authorities_of a)
     \<and> zu_RequiredNextAction (su_Truth s) = os_RequiredNextAction (authorities_of a)
     \<and> zy_CheckpointResumable (su_Recovery s) = zc_Resumable (su_LatestCheckpoint s))"
proof (rule shownI)
  fix s w' assume run: "StatusTask E t w = (Inr s, w')"
  then obtain a where a: "assessed_from E t (w_db w) a" "status_truthful a s" using status_facts(2) by blast
  show "\<exists>a. assessed_from E t (w_db w) a
     \<and> (zy_ReadyForNextRun (su_Recovery s) \<longleftrightarrow> fst (runStartEligibility (recoveryFromContinueAssessment a) (authorities_of a)))
     \<and> zy_IsResumable (su_Recovery s) = zy_ReadyForNextRun (su_Recovery s)
     \<and> zu_ActionAuthority (su_Truth s) = os_Actions (authorities_of a)
     \<and> zu_RequiredNextAction (su_Truth s) = os_RequiredNextAction (authorities_of a)
     \<and> zy_CheckpointResumable (su_Recovery s) = zc_Resumable (su_LatestCheckpoint s)"
    by (rule exI[of _ a]) (use a in \<open>auto simp: status_truthful_def applyRecoveryAssessmentToStatus_def gate_iff_ready
      truth_recovery truth_fields status_truth_def Let_def\<close>)
qed

section \<open>The three views of a task\<close>

lemma transitions_prefix: "continuityTransitionReceiptProjection t 3 d = take 3 (continuityTransitionReceiptProjection t 5 d)"
  by (simp add: continuityTransitionReceiptProjection_def transitions_ListByTask_def transitions_ListByTaskFiltered_def
      tbl_list_def list_limit_def clamp_limit_def take_map)

lemma steps_prefix: "opsteps_ListByTask t 3 d = take 3 (opsteps_ListByTask t 5 d)"
  by (simp add: opsteps_ListByTask_def tbl_list_def list_limit_def)

lemma mapped_Inr: "Inr a = map_sum id f r \<Longrightarrow> \<exists>x. r = Inr x \<and> a = f x"
  by (cases r) auto

text \<open>
  C19. The status, the inspection and the shell snapshot of a task, read from the same database, agree
  wherever they show the same thing: repository anchor, compiled intent, latest run, latest
  checkpoint, latest operator step and handoff continuity; the status shows the first three of the five
  steps and transitions the other two show.
\<close>

theorem reads_agree:
  "shown (StatusTask E (TrimSpace x) w) (\<lambda>s. shown (InspectTask E (TrimSpace x) w) (\<lambda>i. shown (ShellSnapshotTask E x w) (\<lambda>h.
     su_RepoAnchor s = sw_RepoAnchor i \<and> sw_RepoAnchor i = wl_RepoAnchor h
     \<and> su_CompiledIntent s = sw_CompiledIntent i \<and> sw_CompiledIntent i = wl_CompiledIntent h
     \<and> su_LatestRun s = status_run (sw_Run i) \<and> wl_Run h = map_option shell_run (sw_Run i)
     \<and> su_LatestCheckpoint s = status_checkpoint (sw_Checkpoint i)
     \<and> wl_Checkpoint h = map_option shell_checkpoint (sw_Checkpoint i)
     \<and> su_LatestStep s = sw_LatestStep i \<and> sw_LatestStep i = wl_LatestStep h
     \<and> su_RecentSteps s = take 3 (sw_RecentSteps i) \<and> sw_RecentSteps i = wl_RecentSteps h
     \<and> te_RecentTransitions (su_Evidence s) = take 3 (te_RecentTransitions (sw_Evidence i))
     \<and> te_RecentTransitions (sw_Evidence i) = te_RecentTransitions (wl_Evidence h)
     \<and> wl_HandoffContinuity h = shell_handoff_continuity (sw_HandoffContinuity i))))"
proof (rule shownI, rule shownI, rule shownI)
  fix s i h w1 w2 w3
  assume runs: "StatusTask E (TrimSpace x) w = (Inr s, w1)" "InspectTask E (TrimSpace x) w = (Inr i, w2)"
    "ShellSnapshotTask E x w = (Inr h, w3)"
  note s = status_facts(1)[OF runs(1), unfolded status_shows_def]
  note i = inspection_facts(1)[OF runs(2), unfolded inspection_shows_def]
  note h = snapshot_facts(1)[OF runs(3), unfolded snapshot_shows_def]
  show "su_RepoAnchor s = sw_RepoAnchor i \<and> sw_RepoAnchor i = wl_RepoAnchor h
     \<and> su_CompiledIntent s = sw_CompiledIntent i \<and> sw_CompiledIntent i = wl_CompiledIntent h
     \<and> su_LatestRun s = status_run (sw_Run i) \<and> wl_Run h = map_option shell_run (sw_Run i)
     \<and> su_LatestCheckpoint s = status_checkpoint (sw_Checkpoint i)
     \<and> wl_Checkpoint h = map_option shell_checkpoint (sw_Checkpoint i)
     \<and> su_LatestStep s = sw_LatestStep i \<and> sw_LatestStep i = wl_LatestStep h
     \<and> su_RecentSteps s = take 3 (sw_RecentSteps i) \<and> sw_RecentSteps i = wl_RecentSteps h
     \<and> te_RecentTransitions (su_Evidence s) = take 3 (te_RecentTransitions (sw_Evidence i))
     \<and> te_RecentTransitions (sw_Evidence i) = te_RecentTransitions (wl_Evidence h)
     \<and> wl_HandoffContinuity h = shell_handoff_continuity (sw_HandoffContinuity i)"
    using s i h by (auto dest!: mapped_Inr simp: transitions_prefix steps_prefix split: prod.splits) (metis sum.inject(2))+
qed

end
