(* ===== verification/ShellTypes.thy ===== *)
theory ShellTypes
  imports Shell Terminal
begin

text \<open>
  The types of the terminal shell (internal/tui/shell/types.go): the snapshot of a task it shows, the
  state of its worker pane and of its user interface. Types whose names other packages use as well
  carry the prefix \<open>Tui\<close>. The journal entries of a session are \<open>JournalEntry\<close> (Terminal); the
  sources of worker session ids and the attach capabilities are those of the session table, which have
  the same values. A string enumeration has an \<open>Other\<close> constructor for every further string, the
  empty one included.
\<close>

section \<open>Enumerations\<close>

datatype HostMode =
    HostModeCodexPTY
  | HostModeClaudePTY
  | HostModeTranscript
  | HostModeOther string

primrec HostMode_str :: "HostMode \<Rightarrow> string" where
  "HostMode_str HostModeCodexPTY = ''codex-pty''"
| "HostMode_str HostModeClaudePTY = ''claude-pty''"
| "HostMode_str HostModeTranscript = ''transcript''"
| "HostMode_str (HostModeOther s) = s"

datatype HostState =
    HostStateStarting
  | HostStateLive
  | HostStateExited
  | HostStateFailed
  | HostStateFallback
  | HostStateTranscriptOnly
  | HostStateOther string

primrec HostState_str :: "HostState \<Rightarrow> string" where
  "HostState_str HostStateStarting = ''starting''"
| "HostState_str HostStateLive = ''live''"
| "HostState_str HostStateExited = ''exited''"
| "HostState_str HostStateFailed = ''failed''"
| "HostState_str HostStateFallback = ''fallback''"
| "HostState_str HostStateTranscriptOnly = ''transcript-only''"
| "HostState_str (HostStateOther s) = s"

datatype KnownShellSessionClass =
    KnownShellSessionClassAttachable
  | KnownShellSessionClassActiveUnattachable
  | KnownShellSessionClassStale
  | KnownShellSessionClassEnded
  | KnownShellSessionClassOther string

primrec KnownShellSessionClass_str :: "KnownShellSessionClass \<Rightarrow> string" where
  "KnownShellSessionClass_str KnownShellSessionClassAttachable = ''attachable''"
| "KnownShellSessionClass_str KnownShellSessionClassActiveUnattachable = ''active_unattachable''"
| "KnownShellSessionClass_str KnownShellSessionClassStale = ''stale''"
| "KnownShellSessionClass_str KnownShellSessionClassEnded = ''ended''"
| "KnownShellSessionClass_str (KnownShellSessionClassOther s) = s"

datatype WorkerPreference =
    WorkerPreferenceAuto
  | WorkerPreferenceCodex
  | WorkerPreferenceClaude
  | WorkerPreferenceOther string

primrec WorkerPreference_str :: "WorkerPreference \<Rightarrow> string" where
  "WorkerPreference_str WorkerPreferenceAuto = ''auto''"
| "WorkerPreference_str WorkerPreferenceCodex = ''codex''"
| "WorkerPreference_str WorkerPreferenceClaude = ''claude''"
| "WorkerPreference_str (WorkerPreferenceOther s) = s"

datatype FocusPane = FocusWorker | FocusInspector | FocusActivity

section \<open>What the shell shows of a task, and its state\<close>

record TuiRepoAnchor =
  tra_RepoRoot :: string
  tra_Branch :: string
  tra_HeadSHA :: string
  tra_WorkingTreeDirty :: bool
  tra_CapturedAt :: go_time

record ConversationItem =
  tci_Role :: string
  tci_Body :: string
  tci_CreatedAt :: go_time

record LocalScratchContext =
  tlsc_RepoRoot :: string
  tlsc_Notes :: "ConversationItem list"

record TuiCompiledIntentSummary =
  tcis_IntentID :: string
  tcis_Class :: string
  tcis_Posture :: string
  tcis_ExecutionReadiness :: string
  tcis_Objective :: string
  tcis_RequestedOutcome :: string
  tcis_NormalizedAction :: string
  tcis_ScopeSummary :: string
  tcis_ExplicitConstraints :: "string list"
  tcis_DoneCriteria :: "string list"
  tcis_AmbiguityFlags :: "string list"
  tcis_ClarificationQuestions :: "string list"
  tcis_RequiresClarification :: bool
  tcis_BoundedEvidenceMessages :: int
  tcis_ReadinessReason :: string
  tcis_CompilationNotes :: string
  tcis_Digest :: string
  tcis_Advisory :: string
  tcis_CreatedAt :: go_time

record BriefSummary =
  tbs_ID :: string
  tbs_Posture :: string
  tbs_Objective :: string
  tbs_RequestedOutcome :: string
  tbs_NormalizedAction :: string
  tbs_ScopeSummary :: string
  tbs_Constraints :: "string list"
  tbs_DoneCriteria :: "string list"
  tbs_AmbiguityFlags :: "string list"
  tbs_ClarificationQuestions :: "string list"
  tbs_RequiresClarification :: bool
  tbs_WorkerFraming :: string
  tbs_BoundedEvidenceMessages :: int

record RunSummary =
  trn_ID :: string
  trn_WorkerKind :: string
  trn_Status :: string
  trn_WorkerRunID :: string
  trn_ShellSessionID :: string
  trn_Command :: string
  trn_Args :: "string list"
  trn_ExitCode :: "int option"
  trn_Stdout :: string
  trn_Stderr :: string
  trn_ChangedFiles :: "string list"
  trn_ValidationSignals :: "string list"
  trn_OutputArtifactRef :: string
  trn_StructuredSummary :: string
  trn_LastKnownSummary :: string
  trn_StartedAt :: go_time
  trn_EndedAt :: "go_time option"
  trn_InterruptionReason :: string

record CheckpointSummary =
  tcs_ID :: string
  tcs_Trigger :: string
  tcs_CreatedAt :: go_time
  tcs_ResumeDescriptor :: string
  tcs_IsResumable :: bool

record HandoffSummary =
  ths_ID :: string
  ths_Status :: string
  ths_SourceWorker :: string
  ths_TargetWorker :: string
  ths_Mode :: string
  ths_Reason :: string
  ths_AcceptedBy :: string
  ths_CreatedAt :: go_time

record LaunchSummary =
  tls_AttemptID :: string
  tls_LaunchID :: string
  tls_Status :: string
  tls_RequestedAt :: go_time
  tls_StartedAt :: go_time
  tls_EndedAt :: go_time
  tls_Summary :: string
  tls_ErrorMessage :: string
  tls_OutputArtifactRef :: string

record LaunchControlSummary =
  tlcs_State :: string
  tlcs_RetryDisposition :: string
  tlcs_Reason :: string
  tlcs_HandoffID :: string
  tlcs_AttemptID :: string
  tlcs_LaunchID :: string
  tlcs_TargetWorker :: string
  tlcs_RequestedAt :: go_time
  tlcs_CompletedAt :: go_time
  tlcs_FailedAt :: go_time

record AcknowledgmentSummary =
  tas_Status :: string
  tas_Summary :: string
  tas_CreatedAt :: go_time

record FollowThroughSummary =
  tfts_RecordID :: string
  tfts_Kind :: string
  tfts_Summary :: string
  tfts_LaunchAttemptID :: string
  tfts_LaunchID :: string
  tfts_CreatedAt :: go_time

record ResolutionSummary =
  trl_ResolutionID :: string
  trl_Kind :: string
  trl_Summary :: string
  trl_LaunchAttemptID :: string
  trl_LaunchID :: string
  trl_CreatedAt :: go_time

record ActiveBranchSummary =
  tabs_Class :: string
  tabs_BranchRef :: string
  tabs_ActionabilityAnchor :: string
  tabs_ActionabilityAnchorRef :: string
  tabs_Reason :: string

record LocalRunFinalizationSummary =
  tlrfs_State :: string
  tlrfs_RunID :: string
  tlrfs_RunStatus :: string
  tlrfs_CheckpointID :: string
  tlrfs_Reason :: string

record LocalResumeAuthoritySummary =
  tlras_State :: string
  tlras_Mode :: string
  tlras_CheckpointID :: string
  tlras_RunID :: string
  tlras_BlockingBranchClass :: string
  tlras_BlockingBranchRef :: string
  tlras_Reason :: string

record TuiOperatorActionAuthority =
  toaa_Action :: string
  toaa_State :: string
  toaa_Reason :: string
  toaa_BlockingBranchClass :: string
  toaa_BlockingBranchRef :: string
  toaa_AnchorKind :: string
  toaa_AnchorRef :: string

record TuiOperatorActionAuthoritySet =
  toaas_RequiredNextAction :: string
  toaas_Actions :: "TuiOperatorActionAuthority list"

record TuiOperatorDecisionBlockedAction =
  todba_Action :: string
  todba_Reason :: string

record TuiOperatorDecisionSummary =
  tods_ActiveOwnerClass :: string
  tods_ActiveOwnerRef :: string
  tods_Headline :: string
  tods_RequiredNextAction :: string
  tods_PrimaryReason :: string
  tods_Guidance :: string
  tods_IntegrityNote :: string
  tods_BlockedActions :: "TuiOperatorDecisionBlockedAction list"

record TuiOperatorExecutionStep =
  tst_Action :: string
  tst_Status :: string
  tst_Domain :: string
  tst_CommandSurface :: string
  tst_CommandHint :: string
  tst_Reason :: string

record TuiOperatorExecutionPlan =
  tpl_PrimaryStep :: "TuiOperatorExecutionStep option"
  tpl_MandatoryBeforeProgress :: bool
  tpl_SecondarySteps :: "TuiOperatorExecutionStep list"
  tpl_BlockedSteps :: "TuiOperatorExecutionStep list"

record OperatorStepReceiptSummary =
  tosrs_ReceiptID :: string
  tosrs_TaskID :: string
  tosrs_ActionHandle :: string
  tosrs_ExecutionDomain :: string
  tosrs_CommandSurfaceKind :: string
  tosrs_ExecutionAttempted :: bool
  tosrs_ResultClass :: string
  tosrs_Summary :: string
  tosrs_Reason :: string
  tosrs_RunID :: string
  tosrs_CheckpointID :: string
  tosrs_BriefID :: string
  tosrs_HandoffID :: string
  tosrs_LaunchAttemptID :: string
  tosrs_LaunchID :: string
  tosrs_ReviewGapState :: string
  tosrs_ReviewGapSessionID :: string
  tosrs_ReviewGapClass :: string
  tosrs_ReviewGapPresent :: bool
  tosrs_ReviewGapReviewedUpTo :: int
  tosrs_ReviewGapOldestUnreviewed :: int
  tosrs_ReviewGapNewestRetained :: int
  tosrs_ReviewGapUnreviewedRetainedCount :: int
  tosrs_ReviewGapAcknowledged :: bool
  tosrs_ReviewGapAcknowledgmentID :: string
  tosrs_ReviewGapAcknowledgmentClass :: string
  tosrs_TransitionReceiptID :: string
  tosrs_TransitionKind :: string
  tosrs_CreatedAt :: go_time
  tosrs_CompletedAt :: go_time

record TuiContinuityTransitionReceiptSummary =
  tctrs_ReceiptID :: string
  tctrs_TaskID :: string
  tctrs_ShellSessionID :: string
  tctrs_TransitionKind :: string
  tctrs_TransitionHandle :: string
  tctrs_TriggerAction :: string
  tctrs_TriggerSource :: string
  tctrs_HandoffID :: string
  tctrs_LaunchAttemptID :: string
  tctrs_LaunchID :: string
  tctrs_ResolutionID :: string
  tctrs_BranchClassBefore :: string
  tctrs_BranchRefBefore :: string
  tctrs_BranchClassAfter :: string
  tctrs_BranchRefAfter :: string
  tctrs_HandoffStateBefore :: string
  tctrs_HandoffStateAfter :: string
  tctrs_LaunchControlBefore :: string
  tctrs_LaunchControlAfter :: string
  tctrs_ReviewGapPresent :: bool
  tctrs_ReviewPosture :: string
  tctrs_ReviewState :: string
  tctrs_ReviewScope :: string
  tctrs_ReviewedUpToSequence :: int
  tctrs_OldestUnreviewedSequence :: int
  tctrs_NewestRetainedSequence :: int
  tctrs_UnreviewedRetainedCount :: int
  tctrs_LatestReviewID :: string
  tctrs_LatestReviewGapAckID :: string
  tctrs_AcknowledgmentPresent :: bool
  tctrs_AcknowledgmentClass :: string
  tctrs_Summary :: string
  tctrs_CreatedAt :: go_time

record TuiContinuityTransitionRiskSummary =
  tctrsx_WindowSize :: int
  tctrsx_ReviewGapTransitions :: int
  tctrsx_AcknowledgedReviewGapTransitions :: int
  tctrsx_UnacknowledgedReviewGapTransitions :: int
  tctrsx_StaleReviewPostureTransitions :: int
  tctrsx_SourceScopedReviewPostureTransitions :: int
  tctrsx_IntoClaudeOwnershipTransitions :: int
  tctrsx_BackToLocalOwnershipTransitions :: int
  tctrsx_OperationallyNotable :: bool
  tctrsx_Summary :: string

record ContinuityIncidentRiskSummary =
  tcirs_ReviewGapPresent :: bool
  tcirs_AcknowledgmentPresent :: bool
  tcirs_StaleOrUnreviewedReviewPosture :: bool
  tcirs_SourceScopedReviewPosture :: bool
  tcirs_IntoClaudeOwnershipTransition :: bool
  tcirs_BackToLocalOwnershipTransition :: bool
  tcirs_UnresolvedContinuityAmbiguity :: bool
  tcirs_NearbyFailedOrInterruptedRuns :: int
  tcirs_NearbyRecoveryActions :: int
  tcirs_RecentFailureOrRecoveryActivity :: bool
  tcirs_OperationallyNotable :: bool
  tcirs_Summary :: string

record TuiContinuityIncidentTriageReceiptSummary =
  tcitrs_ReceiptID :: string
  tcitrs_TaskID :: string
  tcitrs_AnchorMode :: string
  tcitrs_AnchorTransitionReceiptID :: string
  tcitrs_AnchorTransitionKind :: string
  tcitrs_AnchorHandoffID :: string
  tcitrs_AnchorShellSessionID :: string
  tcitrs_Posture :: string
  tcitrs_FollowUpPosture :: string
  tcitrs_Summary :: string
  tcitrs_ReviewGapPresent :: bool
  tcitrs_ReviewPosture :: string
  tcitrs_ReviewState :: string
  tcitrs_ReviewScope :: string
  tcitrs_ReviewedUpToSequence :: int
  tcitrs_OldestUnreviewedSequence :: int
  tcitrs_NewestRetainedSequence :: int
  tcitrs_UnreviewedRetainedCount :: int
  tcitrs_LatestReviewID :: string
  tcitrs_LatestReviewGapAckID :: string
  tcitrs_AcknowledgmentPresent :: bool
  tcitrs_AcknowledgmentClass :: string
  tcitrs_RiskSummary :: ContinuityIncidentRiskSummary
  tcitrs_CreatedAt :: go_time

record TuiContinuityIncidentTriageHistoryRollupSummary =
  tcithrs_WindowSize :: int
  tcithrs_BoundedWindow :: bool
  tcithrs_DistinctAnchors :: int
  tcithrs_AnchorsTriagedCurrent :: int
  tcithrs_AnchorsNeedsFollowUp :: int
  tcithrs_AnchorsDeferred :: int
  tcithrs_AnchorsBehindLatestTransition :: int
  tcithrs_AnchorsWithOpenFollowUp :: int
  tcithrs_AnchorsRepeatedWithoutProgression :: int
  tcithrs_ReviewRiskReceipts :: int
  tcithrs_AcknowledgedReviewGapReceipts :: int
  tcithrs_OperationallyNotable :: bool
  tcithrs_Summary :: string

record TuiContinuityIncidentFollowUpReceiptSummary =
  tcifurs_ReceiptID :: string
  tcifurs_TaskID :: string
  tcifurs_AnchorMode :: string
  tcifurs_AnchorTransitionReceiptID :: string
  tcifurs_AnchorTransitionKind :: string
  tcifurs_AnchorHandoffID :: string
  tcifurs_AnchorShellSessionID :: string
  tcifurs_TriageReceiptID :: string
  tcifurs_TriagePosture :: string
  tcifurs_TriageFollowUpPosture :: string
  tcifurs_ActionKind :: string
  tcifurs_Summary :: string
  tcifurs_ReviewGapPresent :: bool
  tcifurs_ReviewPosture :: string
  tcifurs_ReviewState :: string
  tcifurs_ReviewScope :: string
  tcifurs_ReviewedUpToSequence :: int
  tcifurs_OldestUnreviewedSequence :: int
  tcifurs_NewestRetainedSequence :: int
  tcifurs_UnreviewedRetainedCount :: int
  tcifurs_LatestReviewID :: string
  tcifurs_LatestReviewGapAckID :: string
  tcifurs_AcknowledgmentPresent :: bool
  tcifurs_AcknowledgmentClass :: string
  tcifurs_TriagedUnderReviewRisk :: bool
  tcifurs_CreatedAt :: go_time

record TuiContinuityIncidentFollowUpHistoryRollupSummary =
  tcifuhrs_WindowSize :: int
  tcifuhrs_BoundedWindow :: bool
  tcifuhrs_DistinctAnchors :: int
  tcifuhrs_ReceiptsRecordedPending :: int
  tcifuhrs_ReceiptsProgressed :: int
  tcifuhrs_ReceiptsClosed :: int
  tcifuhrs_ReceiptsReopened :: int
  tcifuhrs_AnchorsWithOpenFollowUp :: int
  tcifuhrs_AnchorsClosed :: int
  tcifuhrs_AnchorsReopened :: int
  tcifuhrs_OpenAnchorsBehindLatestTransition :: int
  tcifuhrs_AnchorsRepeatedWithoutProgression :: int
  tcifuhrs_AnchorsTriagedWithoutFollowUp :: int
  tcifuhrs_OperationallyNotable :: bool
  tcifuhrs_Summary :: string

record TuiContinuityIncidentClosureAnchorItem =
  tcicai_AnchorTransitionReceiptID :: string
  tcicai_Class :: string
  tcicai_Digest :: string
  tcicai_Explanation :: string
  tcicai_LatestFollowUpReceiptID :: string
  tcicai_LatestFollowUpActionKind :: string
  tcicai_LatestFollowUpAt :: go_time

record TuiContinuityIncidentClosureSummary =
  tcics_Class :: string
  tcics_Digest :: string
  tcics_WindowAdvisory :: string
  tcics_Detail :: string
  tcics_BoundedWindow :: bool
  tcics_WindowSize :: int
  tcics_DistinctAnchors :: int
  tcics_OperationallyUnresolved :: bool
  tcics_ClosureAppearsWeak :: bool
  tcics_ReopenedAfterClosure :: bool
  tcics_RepeatedReopenLoop :: bool
  tcics_StagnantProgression :: bool
  tcics_TriagedWithoutFollowUp :: bool
  tcics_AnchorsWithOpenFollowUp :: int
  tcics_AnchorsClosed :: int
  tcics_AnchorsReopened :: int
  tcics_AnchorsBehindLatestTransition :: int
  tcics_AnchorsRepeatedWithoutProgression :: int
  tcics_AnchorsTriagedWithoutFollowUp :: int
  tcics_ReopenedAfterClosureAnchors :: int
  tcics_RepeatedReopenLoopAnchors :: int
  tcics_StagnantProgressionAnchors :: int
  tcics_RecentAnchors :: "TuiContinuityIncidentClosureAnchorItem list"

record TuiContinuityIncidentFollowUpSummary =
  tcifus_State :: string
  tcifus_Digest :: string
  tcifus_WindowAdvisory :: string
  tcifus_Advisory :: string
  tcifus_ClosureIntelligence :: "TuiContinuityIncidentClosureSummary option"
  tcifus_FollowUpAdvised :: bool
  tcifus_NeedsFollowUp :: bool
  tcifus_Deferred :: bool
  tcifus_TriageBehindLatest :: bool
  tcifus_TriagedUnderReviewRisk :: bool
  tcifus_LatestTransitionReceiptID :: string
  tcifus_LatestTriageReceiptID :: string
  tcifus_TriageAnchorReceiptID :: string
  tcifus_TriagePosture :: string
  tcifus_LatestFollowUpReceiptID :: string
  tcifus_LatestFollowUpActionKind :: string
  tcifus_LatestFollowUpSummary :: string
  tcifus_LatestFollowUpAt :: go_time
  tcifus_FollowUpReceiptPresent :: bool
  tcifus_FollowUpOpen :: bool
  tcifus_FollowUpClosed :: bool
  tcifus_FollowUpReopened :: bool
  tcifus_FollowUpProgressed :: bool

record TuiContinuityIncidentTaskRiskSummary =
  tcitrsx_Class :: string
  tcitrsx_Digest :: string
  tcitrsx_WindowAdvisory :: string
  tcitrsx_Detail :: string
  tcitrsx_BoundedWindow :: bool
  tcitrsx_WindowSize :: int
  tcitrsx_DistinctAnchors :: int
  tcitrsx_RecurringWeakClosure :: bool
  tcitrsx_RecurringUnresolved :: bool
  tcitrsx_RecurringStagnantFollowUp :: bool
  tcitrsx_RecurringTriagedWithoutFollowUp :: bool
  tcitrsx_ReopenedAfterClosureAnchors :: int
  tcitrsx_RepeatedReopenLoopAnchors :: int
  tcitrsx_StagnantProgressionAnchors :: int
  tcitrsx_AnchorsTriagedWithoutFollowUp :: int
  tcitrsx_AnchorsWithOpenFollowUp :: int
  tcitrsx_AnchorsReopened :: int
  tcitrsx_OperationallyUnresolvedAnchorSignal :: int
  tcitrsx_RecentAnchorClasses :: "string list"

record TranscriptReviewGapAcknowledgment =
  ttrga_AcknowledgmentID :: string
  ttrga_TaskID :: string
  ttrga_SessionID :: string
  ttrga_Class :: string
  ttrga_ReviewState :: string
  ttrga_ReviewScope :: string
  ttrga_ReviewedUpToSequence :: int
  ttrga_OldestUnreviewedSequence :: int
  ttrga_NewestRetainedSequence :: int
  ttrga_UnreviewedRetainedCount :: int
  ttrga_TranscriptState :: string
  ttrga_RetentionLimit :: int
  ttrga_RetainedChunks :: int
  ttrga_DroppedChunks :: int
  ttrga_ActionContext :: string
  ttrga_Summary :: string
  ttrga_CreatedAt :: go_time
  ttrga_StaleBehindCurrent :: bool
  ttrga_NewerRetainedCount :: int

record HandoffContinuitySummary =
  thcs_State :: string
  thcs_Reason :: string
  thcs_LaunchAttemptID :: string
  thcs_LaunchID :: string
  thcs_AcknowledgmentID :: string
  thcs_AcknowledgmentStatus :: string
  thcs_AcknowledgmentSummary :: string
  thcs_FollowThroughID :: string
  thcs_FollowThroughKind :: string
  thcs_FollowThroughSummary :: string
  thcs_ResolutionID :: string
  thcs_ResolutionKind :: string
  thcs_ResolutionSummary :: string
  thcs_DownstreamContinuationProven :: bool

record TuiRecoveryIssue =
  tri_Code :: string
  tri_Message :: string

record RecoverySummary =
  trc_ContinuityOutcome :: string
  trc_Class :: string
  trc_Action :: string
  trc_ReadyForNextRun :: bool
  trc_ReadyForHandoffLaunch :: bool
  trc_RequiresDecision :: bool
  trc_RequiresRepair :: bool
  trc_RequiresReview :: bool
  trc_RequiresReconciliation :: bool
  trc_DriftClass :: string
  trc_Reason :: string
  trc_CheckpointID :: string
  trc_RunID :: string
  trc_HandoffID :: string
  trc_HandoffStatus :: string
  trc_Issues :: "TuiRecoveryIssue list"

record TranscriptReviewMarker =
  ttrm_ReviewID :: string
  ttrm_SourceFilter :: string
  ttrm_ReviewedUpToSequence :: int
  ttrm_Summary :: string
  ttrm_CreatedAt :: go_time
  ttrm_TranscriptState :: string
  ttrm_RetentionLimit :: int
  ttrm_RetainedChunks :: int
  ttrm_DroppedChunks :: int
  ttrm_OldestRetainedSequence :: int
  ttrm_NewestRetainedSequence :: int
  ttrm_StaleBehindLatest :: bool
  ttrm_NewerRetainedCount :: int
  ttrm_OldestUnreviewedSequence :: int
  ttrm_ClosureState :: string

record KnownShellSession =
  ks_SessionID :: string
  ks_TaskID :: string
  ks_WorkerPreference :: WorkerPreference
  ks_ResolvedWorker :: WorkerPreference
  ks_WorkerSessionID :: string
  ks_WorkerSessionIDSource :: WorkerSessionIDSource
  ks_AttachCapability :: AttachCapability
  ks_HostMode :: HostMode
  ks_HostState :: HostState
  ks_SessionClass :: KnownShellSessionClass
  ks_SessionClassReason :: string
  ks_ReattachGuidance :: string
  ks_OperatorSummary :: string
  ks_TranscriptState :: string
  ks_TranscriptRetainedChunks :: int
  ks_TranscriptDroppedChunks :: int
  ks_TranscriptRetentionLimit :: int
  ks_TranscriptOldestSequence :: int
  ks_TranscriptNewestSequence :: int
  ks_TranscriptLastChunkAt :: go_time
  ks_TranscriptReviewID :: string
  ks_TranscriptReviewSource :: string
  ks_TranscriptReviewedUpTo :: int
  ks_TranscriptReviewSummary :: string
  ks_TranscriptReviewAt :: go_time
  ks_TranscriptReviewStale :: bool
  ks_TranscriptReviewNewer :: int
  ks_TranscriptReviewClosureState :: string
  ks_TranscriptReviewOldestUnreviewed :: int
  ks_TranscriptRecentReviews :: "TranscriptReviewMarker list"
  ks_StartedAt :: go_time
  ks_LastUpdatedAt :: go_time
  ks_Active :: bool
  ks_Note :: string
  ks_LatestEventID :: string
  ks_LatestEventKind :: string
  ks_LatestEventAt :: go_time
  ks_LatestEventNote :: string

record TuiShellSessionEventSummary =
  tsses_EventID :: string
  tsses_TaskID :: string
  tsses_SessionID :: string
  tsses_Kind :: string
  tsses_HostMode :: string
  tsses_HostState :: string
  tsses_WorkerSessionID :: string
  tsses_WorkerSessionIDSource :: string
  tsses_AttachCapability :: string
  tsses_Active :: bool
  tsses_InputLive :: bool
  tsses_ExitCode :: "int option"
  tsses_PaneWidth :: int
  tsses_PaneHeight :: int
  tsses_Note :: string
  tsses_CreatedAt :: go_time

record TuiShellTranscriptChunkSummary =
  tstcs_ChunkID :: string
  tstcs_TaskID :: string
  tstcs_SessionID :: string
  tstcs_SequenceNo :: int
  tstcs_Source :: string
  tstcs_Content :: string
  tstcs_CreatedAt :: go_time

record ProofItem =
  tpi_ID :: string
  tpi_Type :: string
  tpi_Summary :: string
  tpi_Timestamp :: go_time

record TuiSnapshot =
  snp_TaskID :: string
  snp_Goal :: string
  snp_Phase :: string
  snp_Status :: string
  snp_Repo :: TuiRepoAnchor
  snp_LocalScratch :: "LocalScratchContext option"
  snp_IntentClass :: string
  snp_IntentSummary :: string
  snp_CompiledIntent :: "TuiCompiledIntentSummary option"
  snp_Brief :: "BriefSummary option"
  snp_Run :: "RunSummary option"
  snp_Checkpoint :: "CheckpointSummary option"
  snp_Handoff :: "HandoffSummary option"
  snp_Launch :: "LaunchSummary option"
  snp_LaunchControl :: "LaunchControlSummary option"
  snp_Acknowledgment :: "AcknowledgmentSummary option"
  snp_FollowThrough :: "FollowThroughSummary option"
  snp_Resolution :: "ResolutionSummary option"
  snp_ActiveBranch :: "ActiveBranchSummary option"
  snp_LocalRunFinalization :: "LocalRunFinalizationSummary option"
  snp_LocalResume :: "LocalResumeAuthoritySummary option"
  snp_ActionAuthority :: "TuiOperatorActionAuthoritySet option"
  snp_OperatorDecision :: "TuiOperatorDecisionSummary option"
  snp_OperatorExecutionPlan :: "TuiOperatorExecutionPlan option"
  snp_LatestOperatorStepReceipt :: "OperatorStepReceiptSummary option"
  snp_RecentOperatorStepReceipts :: "OperatorStepReceiptSummary list"
  snp_LatestContinuityTransitionReceipt :: "TuiContinuityTransitionReceiptSummary option"
  snp_RecentContinuityTransitionReceipts :: "TuiContinuityTransitionReceiptSummary list"
  snp_ContinuityTransitionRiskSummary :: "TuiContinuityTransitionRiskSummary option"
  snp_ContinuityIncidentSummary :: "ContinuityIncidentRiskSummary option"
  snp_LatestContinuityIncidentTriageReceipt :: "TuiContinuityIncidentTriageReceiptSummary option"
  snp_RecentContinuityIncidentTriageReceipts :: "TuiContinuityIncidentTriageReceiptSummary list"
  snp_ContinuityIncidentTriageHistoryRollup :: "TuiContinuityIncidentTriageHistoryRollupSummary option"
  snp_LatestContinuityIncidentFollowUpReceipt :: "TuiContinuityIncidentFollowUpReceiptSummary option"
  snp_RecentContinuityIncidentFollowUpReceipts :: "TuiContinuityIncidentFollowUpReceiptSummary list"
  snp_ContinuityIncidentFollowUpHistoryRollup :: "TuiContinuityIncidentFollowUpHistoryRollupSummary option"
  snp_ContinuityIncidentFollowUp :: "TuiContinuityIncidentFollowUpSummary option"
  snp_ContinuityIncidentTaskRisk :: "TuiContinuityIncidentTaskRiskSummary option"
  snp_LatestTranscriptReviewGapAcknowledgment :: "TranscriptReviewGapAcknowledgment option"
  snp_RecentTranscriptReviewGapAcknowledgments :: "TranscriptReviewGapAcknowledgment list"
  snp_HandoffContinuity :: "HandoffContinuitySummary option"
  snp_Recovery :: "RecoverySummary option"
  snp_ShellSessions :: "KnownShellSession list"
  snp_RecentShellEvents :: "TuiShellSessionEventSummary list"
  snp_RecentShellTranscript :: "TuiShellTranscriptChunkSummary list"
  snp_RecentProofs :: "ProofItem list"
  snp_RecentConversation :: "ConversationItem list"
  snp_LatestCanonicalResponse :: string

record HostStatus =
  hst_Mode :: HostMode
  hst_State :: HostState
  hst_Label :: string
  hst_Note :: string
  hst_WorkerSessionID :: string
  hst_WorkerSessionIDSource :: WorkerSessionIDSource
  hst_InputLive :: bool
  hst_ExitCode :: "int option"
  hst_Width :: int
  hst_Height :: int
  hst_LastOutputAt :: go_time
  hst_StateChangedAt :: go_time

record SessionState =
  sx_SessionID :: string
  sx_StartedAt :: go_time
  sx_WorkerPreference :: WorkerPreference
  sx_ResolvedWorker :: WorkerPreference
  sx_WorkerSessionID :: string
  sx_WorkerSessionIDSource :: WorkerSessionIDSource
  sx_AttachCapability :: AttachCapability
  sx_Journal :: "JournalEntry list"
  sx_KnownSessions :: "KnownShellSession list"
  sx_PriorPersistedSummary :: string

record PrimaryActionInFlightSummary =
  tpaifs_Action :: string
  tpaifs_StartedAt :: go_time

record PrimaryActionResultSummary =
  tpars_Action :: string
  tpars_Outcome :: string
  tpars_Summary :: string
  tpars_Deltas :: "string list"
  tpars_NextStep :: string
  tpars_ErrorText :: string
  tpars_ReceiptID :: string
  tpars_ResultClass :: string
  tpars_CreatedAt :: go_time

record UIState =
  ui_ShowInspector :: bool
  ui_ShowProof :: bool
  ui_ShowHelp :: bool
  ui_ShowStatus :: bool
  ui_Focus :: FocusPane
  ui_EscapePrefix :: bool
  ui_PendingTaskMessage :: string
  ui_PendingTaskMessageSource :: string
  ui_PendingTaskMessageEditMode :: bool
  ui_PendingTaskMessageEditBuffer :: string
  ui_PendingTaskMessageEditOriginal :: string
  ui_Session :: SessionState
  ui_LastRefresh :: go_time
  ui_ObservedAt :: go_time
  ui_LastError :: string
  ui_PrimaryActionInFlight :: "PrimaryActionInFlightSummary option"
  ui_LastPrimaryActionResult :: "PrimaryActionResultSummary option"

definition RunWorkerKind :: "TuiSnapshot \<Rightarrow> string" where
  "RunWorkerKind s = (case snp_Run s of None \<Rightarrow> [] | Some r \<Rightarrow> trn_WorkerKind r)"

definition HandoffTargetWorker :: "TuiSnapshot \<Rightarrow> string" where
  "HandoffTargetWorker s = (case snp_Handoff s of None \<Rightarrow> [] | Some h \<Rightarrow> ths_TargetWorker h)"

definition HasLocalScratchAdoption :: "TuiSnapshot \<Rightarrow> bool" where
  "HasLocalScratchAdoption s \<longleftrightarrow> (case snp_LocalScratch s of None \<Rightarrow> False | Some c \<Rightarrow> tlsc_Notes c \<noteq> [])"

end
