(* ===== verification/Hosts.thy ===== *)
theory Hosts
  imports ShellTypes
begin

text \<open>
  The hosts of the worker pane (internal/tui/shell): the PTY hosts of the Codex and the Claude worker
  (codex_pty_host.go, claude_pty_host.go, which differ in names and arguments only), the transcript
  host (worker_host.go), the local scratch host (scratch_host.go), and how one is chosen, started and
  replaced (host_select.go). Processes, terminals and files answer through the arguments of the
  operations. The mutex of a PTY host makes each of its operations one step.
\<close>

section \<open>Worker session ids in the output\<close>

text \<open>
  worker_session_id.go. The three patterns, on the printable ASCII the terminal normalizer lets through;
  letters match in either case. Each pattern is deterministic but for an optional word, which is tried
  first.
\<close>

definition alnum :: "char \<Rightarrow> bool" where
  "alnum c = (let n = (of_char c :: nat) in 48 \<le> n \<and> n \<le> 57 \<or> 65 \<le> n \<and> n \<le> 90 \<or> 97 \<le> n \<and> n \<le> 122)"

definition id_char :: "char \<Rightarrow> bool" where
  "id_char c \<longleftrightarrow> alnum c \<or> c \<in> {CHR ''.'', CHR ''_'', CHR '':'', CHR ''-''}"

definition re_space :: "char \<Rightarrow> bool" where
  "re_space c \<longleftrightarrow> c \<in> {CHR 0x09, CHR 0x0A, CHR 0x0C, CHR 0x0D, CHR '' ''}"

definition after_word :: "string \<Rightarrow> string \<Rightarrow> string option" where
  "after_word w s = (if ToLower (take (length w) s) = w then Some (drop (length w) s) else None)"

definition after_spaces :: "string \<Rightarrow> string option" where
  "after_spaces s = (if s \<noteq> [] \<and> re_space (hd s) then Some (dropWhile re_space s) else None)"

definition captured_id :: "string \<Rightarrow> string option" where
  "captured_id s = (case s of [] \<Rightarrow> None
     | c # r \<Rightarrow> if alnum c \<and> 5 \<le> length (takeWhile id_char r) then Some (c # takeWhile id_char r) else None)"

definition or_else :: "'a option \<Rightarrow> 'a option \<Rightarrow> 'a option" where
  "or_else x y = (case x of None \<Rightarrow> y | Some _ \<Rightarrow> x)"

definition session_label :: "string \<Rightarrow> string option" where
  "session_label s =
     (let tail = (\<lambda>r. case dropWhile re_space r of [] \<Rightarrow> None
            | c # t \<Rightarrow> if c = CHR '':'' \<or> c = CHR ''='' then captured_id (dropWhile re_space t) else None) in
      Option.bind (after_word ''session'' s) (\<lambda>r.
        or_else (Option.bind (Option.bind (after_spaces r) (after_word ''id'')) tail) (tail r)))"

definition resume_command :: "string \<Rightarrow> string option" where
  "resume_command s =
     (let steps = (\<lambda>ws r. foldl (\<lambda>x w. Option.bind (Option.bind x (after_word w)) after_spaces) (Some r) ws);
          tail = (\<lambda>r. let r1 = dropWhile re_space r;
              r2 = (case r1 of [] \<Rightarrow> [] | c # t \<Rightarrow> if c = CHR '':'' \<or> c = CHR ''='' then t else r1);
              r3 = dropWhile re_space r2 in
            or_else (Option.bind (steps [''codex'', ''resume''] r3) captured_id)
              (Option.bind (steps [''claude'', ''--resume'', ''--session-id''] r3) captured_id)) in
      Option.bind (after_word ''resume'' s) (\<lambda>r.
        or_else (Option.bind (Option.bind (after_spaces r) (after_word ''with'')) tail) (tail r)))"

definition session_flag :: "string \<Rightarrow> string option" where
  "session_flag s = Option.bind (Option.bind (after_word ''--session-id'' s) after_spaces) captured_id"

fun leftmost :: "(string \<Rightarrow> string option) \<Rightarrow> string \<Rightarrow> string option" where
  "leftmost p [] = p []"
| "leftmost p (c # s) = or_else (p (c # s)) (leftmost p s)"

definition sessionPatterns :: "(string \<Rightarrow> string option) list" where
  "sessionPatterns = [session_label, resume_command, session_flag]"

fun first_candidate :: "(string \<Rightarrow> string option) list \<Rightarrow> string \<Rightarrow> string" where
  "first_candidate [] s = []"
| "first_candidate (p # ps) s = (case leftmost p s of
     None \<Rightarrow> first_candidate ps s
   | Some m \<Rightarrow> if TrimSpace m = [] then first_candidate ps s else TrimSpace m)"

definition detectWorkerSessionIDWithSource :: "string \<Rightarrow> string \<times> WorkerSessionIDSource" where
  "detectWorkerSessionIDWithSource text0 =
     (let i = first_candidate sessionPatterns (TrimSpace text0) in
      if TrimSpace text0 = [] \<or> i = [] then ([], WorkerSessionIDSourceNone) else (i, WorkerSessionIDSourceHeuristic))"

section \<open>Activity lines\<close>

definition hostMaxActivity :: nat where
  "hostMaxActivity = 40"

definition two_digits :: "int \<Rightarrow> string" where
  "two_digits n = (if n < 10 then ''0'' @ itoa n else itoa n)"

text \<open>The layout 15:04:05.\<close>

definition clock_text :: "go_time \<Rightarrow> string" where
  "clock_text t = (let s = t div 1000000000 mod 86400 in
     two_digits (s div 3600) @ '':'' @ two_digits (s div 60 mod 60) @ '':'' @ two_digits (s mod 60))"

definition add_activity :: "go_time \<Rightarrow> string \<Rightarrow> string list \<Rightarrow> string list" where
  "add_activity now msg acts = keep_last hostMaxActivity (acts @ [clock_text now @ ''  '' @ msg])"

section \<open>PTY hosts\<close>

datatype PtyKind = CodexKind | ClaudeKind

primrec kind_name :: "PtyKind \<Rightarrow> string" where
  "kind_name CodexKind = ''codex''"
| "kind_name ClaudeKind = ''claude''"

primrec kind_mode :: "PtyKind \<Rightarrow> HostMode" where
  "kind_mode CodexKind = HostModeCodexPTY"
| "kind_mode ClaudeKind = HostModeClaudePTY"

text \<open>
  \<open>CodexPTYHost\<close>; the output it keeps is \<open>HostOutput\<close> (Terminal). Of the process only whether it is
  there is kept, of the terminal also what was written to it.
\<close>

record PTYHost = HostOutput +
  pth_kind :: PtyKind
  pth_binPath :: string
  pth_extraArgs :: "string list"
  pth_resumeSessionID :: string
  pth_snapshot :: TuiSnapshot
  pth_activity :: "string list"
  pth_status :: HostStatus
  pth_ptyFile :: bool
  pth_cmd :: bool
  pth_written :: string

definition NewDefaultPTYHost :: "PtyKind \<Rightarrow> string \<Rightarrow> string list \<Rightarrow> TuiSnapshot \<Rightarrow> go_time \<Rightarrow> PTYHost" where
  "NewDefaultPTYHost kind bin args none now =
     \<lparr>hb_lines = [], hb_partial = [], hb_transcriptPending = [], pth_kind = kind, pth_binPath = bin,
      pth_extraArgs = args, pth_resumeSessionID = [], pth_snapshot = none, pth_activity = [],
      pth_status = \<lparr>hst_Mode = kind_mode kind, hst_State = HostStateStarting, hst_Label = kind_name kind @ '' starting'',
        hst_Note = [], hst_WorkerSessionID = [], hst_WorkerSessionIDSource = WorkerSessionIDSourceNone,
        hst_InputLive = False, hst_ExitCode = None, hst_Width = 120, hst_Height = 24,
        hst_LastOutputAt = 0, hst_StateChangedAt = now\<rparr>,
      pth_ptyFile = False, pth_cmd = False, pth_written = []\<rparr>"

definition pty_recordActivity :: "go_time \<Rightarrow> string \<Rightarrow> PTYHost \<Rightarrow> PTYHost" where
  "pty_recordActivity now msg h = h\<lparr>pth_activity := add_activity now msg (pth_activity h)\<rparr>"

definition pty_setStatus :: "go_time \<Rightarrow> HostState \<Rightarrow> string \<Rightarrow> int option \<Rightarrow> bool \<Rightarrow> PTYHost \<Rightarrow> PTYHost" where
  "pty_setStatus now state note code live h =
     (let s = (pth_status h)\<lparr>hst_Mode := kind_mode (pth_kind h), hst_State := state, hst_Note := TrimSpace note,
            hst_InputLive := live, hst_ExitCode := code, hst_StateChangedAt := now\<rparr>; name = kind_name (pth_kind h) in
      h\<lparr>pth_status := (case state of
          HostStateStarting \<Rightarrow> s\<lparr>hst_Label := name @ '' starting'', hst_LastOutputAt := 0\<rparr>
        | HostStateLive \<Rightarrow> s\<lparr>hst_Label := name @ '' live''\<rparr>
        | HostStateExited \<Rightarrow> s\<lparr>hst_Label := name @ '' exited''\<rparr>
        | HostStateFailed \<Rightarrow> s\<lparr>hst_Label := name @ '' failed''\<rparr>
        | _ \<Rightarrow> s)\<rparr>)"

text \<open>The arguments of the worker process.\<close>

definition pty_args :: "PTYHost \<Rightarrow> string \<Rightarrow> string list" where
  "pty_args h root =
     (let i = TrimSpace (pth_resumeSessionID h) in
      (case pth_kind h of
         CodexKind \<Rightarrow> [''--no-alt-screen'', ''-C'', root] @ (if i \<noteq> [] then [''resume'', i] else [])
       | ClaudeKind \<Rightarrow> (if i \<noteq> [] then [''--resume'', ''--session-id'', i] else []))
      @ pth_extraArgs h)"

definition pty_UpdateSnapshot :: "TuiSnapshot \<Rightarrow> PTYHost \<Rightarrow> PTYHost" where
  "pty_UpdateSnapshot s h = h\<lparr>pth_snapshot := s\<rparr>"

definition pty_SetResumeSessionID :: "string \<Rightarrow> PTYHost \<Rightarrow> PTYHost" where
  "pty_SetResumeSessionID i h = h\<lparr>pth_resumeSessionID := TrimSpace i\<rparr>"

text \<open>The state of a host whose process was started.\<close>

definition pty_live :: "go_time \<Rightarrow> PTYHost \<Rightarrow> PTYHost" where
  "pty_live now h =
     (let i = TrimSpace (pth_resumeSessionID h) in
      h\<lparr>hb_lines := [], pth_activity := [], hb_transcriptPending := [], hb_partial := [], pth_cmd := True, pth_ptyFile := True,
        pth_written := [],
        pth_status := (pth_status h)\<lparr>hst_Mode := kind_mode (pth_kind h), hst_State := HostStateLive,
          hst_Label := kind_name (pth_kind h) @ '' live'', hst_Note := [], hst_WorkerSessionID := i,
          hst_WorkerSessionIDSource := (if i \<noteq> [] then WorkerSessionIDSourceAuthoritative else WorkerSessionIDSourceNone),
          hst_InputLive := True, hst_ExitCode := None, hst_LastOutputAt := 0, hst_StateChangedAt := now\<rparr>\<rparr>)"

text \<open>
  \<open>Start\<close>: \<open>look\<close> is what looking up the binary answers, \<open>spawn\<close> the error of starting the process.
\<close>

definition pty_Start ::
  "go_time \<Rightarrow> go_error + string \<Rightarrow> go_error option \<Rightarrow> TuiSnapshot \<Rightarrow> PTYHost \<Rightarrow> go_error option \<times> PTYHost" where
  "pty_Start now look spawn s h0 =
     (let h = pty_UpdateSnapshot s h0; name = kind_name (pth_kind h) in
      if TrimSpace (tra_RepoRoot (snp_Repo s)) = [] then
        (let msg = ''repo root is required for '' @ name @ '' PTY host'' in
         (Some (ErrMsg msg), pty_setStatus now HostStateFailed msg None False h))
      else case (if pth_binPath h = [] then look else Inr (pth_binPath h)) of
        Inl e \<Rightarrow> (Some (ErrWrap (name @ '' binary not found: '') e),
          pty_setStatus now HostStateFailed (name @ '' binary not found'') None False h)
      | Inr bin \<Rightarrow>
          let h1 = pty_recordActivity now (''worker host starting: '' @ name @ '' PTY session'')
                (pty_setStatus now HostStateStarting (''starting '' @ name @ '' PTY host'') None False h) in
          (case spawn of
             Some e \<Rightarrow> (Some (ErrWrap (''start '' @ name @ '' PTY host: '') e),
               pty_setStatus now HostStateFailed (''failed to start '' @ name @ '' PTY host: '' @ err_text e) None False h1)
           | None \<Rightarrow> (None, pty_recordActivity now (''worker host started: '' @ name @ '' PTY session is live'') (pty_live now h1))))"

text \<open>\<open>Stop\<close>: \<open>kill\<close> is what killing the process answers. The file is closed but still held.\<close>

definition pty_Stop :: "go_error option \<Rightarrow> PTYHost \<Rightarrow> go_error option \<times> PTYHost" where
  "pty_Stop kill h =
     (let live = hst_State (pth_status h) = HostStateLive \<or> hst_State (pth_status h) = HostStateStarting in
      (if pth_cmd h \<and> live then (case kill of None \<Rightarrow> None
          | Some e \<Rightarrow> if str_contains (err_text e) ''process already finished'' then None else Some e) else None,
       h\<lparr>pth_status := (pth_status h)\<lparr>hst_InputLive := False\<rparr>\<rparr>))"

definition pty_Resize :: "go_error option \<Rightarrow> int \<Rightarrow> int \<Rightarrow> PTYHost \<Rightarrow> bool \<times> PTYHost" where
  "pty_Resize setsize width height h =
     (if width < 1 \<or> height < 1 then (False, h)
      else let s = (pth_status h)\<lparr>hst_Width := width, hst_Height := height\<rparr> in
      if \<not> pth_ptyFile h \<or> hst_State s \<noteq> HostStateLive then (False, h\<lparr>pth_status := s\<rparr>)
      else case setsize of
        Some e \<Rightarrow> (False, h\<lparr>pth_status := (if hst_Note s = []
          then s\<lparr>hst_Note := ''resize update failed: '' @ err_text e\<rparr> else s)\<rparr>)
      | None \<Rightarrow> (True, h\<lparr>pth_status := s\<rparr>))"

definition pty_CanAcceptInput :: "PTYHost \<Rightarrow> bool" where
  "pty_CanAcceptInput h \<longleftrightarrow> hst_State (pth_status h) = HostStateLive \<and> pth_ptyFile h \<and> hst_InputLive (pth_status h)"

text \<open>\<open>wrote\<close>: the terminal took the byte.\<close>

definition pty_WriteInput :: "bool \<Rightarrow> string \<Rightarrow> PTYHost \<Rightarrow> bool \<times> PTYHost" where
  "pty_WriteInput wrote data h =
     (if \<not> (hst_State (pth_status h) = HostStateLive \<and> hst_InputLive (pth_status h)) \<or> \<not> pth_ptyFile h \<or> data = [] then (False, h)
      else if wrote then (True, h\<lparr>pth_written := pth_written h @ data\<rparr>) else (False, h))"

definition take_session_id :: "string \<Rightarrow> PTYHost \<Rightarrow> PTYHost" where
  "take_session_id line h = (case detectWorkerSessionIDWithSource line of (i, source) \<Rightarrow>
     if i \<noteq> [] \<and> TrimSpace (hst_WorkerSessionID (pth_status h)) = []
     then h\<lparr>pth_status := (pth_status h)\<lparr>hst_WorkerSessionID := i, hst_WorkerSessionIDSource := source\<rparr>\<rparr> else h)"

definition appendOutput :: "go_time \<Rightarrow> string \<Rightarrow> PTYHost \<Rightarrow> PTYHost" where
  "appendOutput now chunk h =
     (let r = normalizeTerminalChunk (hb_partial h) chunk;
          h1 = h\<lparr>hb_partial := tk_partial r\<rparr>;
          h2 = (if tk_lines r \<noteq> [] \<or> TrimSpace (tk_partial r) \<noteq> []
            then h1\<lparr>pth_status := (pth_status h1)\<lparr>hst_LastOutputAt := now\<rparr>\<rparr> else h1) in
      take_session_id (tk_partial r)
        (foldl (\<lambda>g line. appendLineLocked now line (take_session_id line g)) h2 (tk_lines r)))"

text \<open>The end of the output stream; \<open>failed\<close>: by an error other than its end or a closed file.\<close>

definition stream_ended :: "go_time \<Rightarrow> bool \<Rightarrow> PTYHost \<Rightarrow> PTYHost" where
  "stream_ended now failed h =
     (if failed then let h1 = pty_recordActivity now ''worker host stream read error'' h in
        (if hst_State (pth_status h1) = HostStateLive
         then h1\<lparr>pth_status := (pth_status h1)\<lparr>hst_Note := ''worker host stream ended unexpectedly''\<rparr>\<rparr> else h1)
      else h)"

text \<open>\<open>wait\<close>: the process ended with a code, cleanly or not.\<close>

definition pty_wait :: "go_time \<Rightarrow> bool \<Rightarrow> int \<Rightarrow> PTYHost \<Rightarrow> PTYHost" where
  "pty_wait now clean code h =
     (if \<not> pth_cmd h then h
      else let name = kind_name (pth_kind h);
          h1 = h\<lparr>pth_ptyFile := False, pth_status := (pth_status h)\<lparr>hst_InputLive := False, hst_ExitCode := Some code\<rparr>\<rparr> in
      if \<not> clean then pty_recordActivity now (''worker host exited with code '' @ itoa code)
        (h1\<lparr>pth_status := (pth_status h1)\<lparr>hst_State := HostStateFailed, hst_Label := name @ '' failed'',
           hst_Note := name @ '' exited with code '' @ itoa code\<rparr>\<rparr>)
      else pty_recordActivity now (''worker host exited cleanly with code '' @ itoa code)
        (h1\<lparr>pth_status := (pth_status h1)\<lparr>hst_State := HostStateExited, hst_Label := name @ '' exited'',
           hst_Note := name @ '' exited cleanly with code '' @ itoa code\<rparr>\<rparr>))"

definition last_lines :: "int \<Rightarrow> string list \<Rightarrow> string list" where
  "last_lines limit acts = (if limit \<le> 0 \<or> limit \<ge> int (length acts) then acts else drop (length acts - nat limit) acts)"

definition pty_ActivityLines :: "int \<Rightarrow> PTYHost \<Rightarrow> string list" where
  "pty_ActivityLines limit h = last_lines limit (pth_activity h)"

definition pty_Title :: "PTYHost \<Rightarrow> string" where
  "pty_Title h = (let name = ''worker pane | '' @ kind_name (pth_kind h); s = pth_status h in
     case hst_State s of
       HostStateLive \<Rightarrow> name @ '' live | input to worker''
     | HostStateStarting \<Rightarrow> name @ '' starting''
     | HostStateExited \<Rightarrow> (case hst_ExitCode s of
           Some c \<Rightarrow> name @ '' exited ('' @ itoa c @ '') | read-only'' | None \<Rightarrow> name @ '' exited | read-only'')
     | HostStateFailed \<Rightarrow> name @ '' failed | read-only''
     | _ \<Rightarrow> name @ '' PTY host'')"

section \<open>The transcript host\<close>

record TranscriptHost =
  tth_snapshot :: TuiSnapshot
  tth_status :: HostStatus
  tth_activity :: "string list"
  tth_transcriptPending :: "TranscriptEvidenceChunk list"

definition NewTranscriptHost :: "TuiSnapshot \<Rightarrow> go_time \<Rightarrow> TranscriptHost" where
  "NewTranscriptHost none now =
     \<lparr>tth_snapshot = none,
      tth_status = \<lparr>hst_Mode = HostModeTranscript, hst_State = HostStateTranscriptOnly, hst_Label = ''transcript'',
        hst_Note = [], hst_WorkerSessionID = [], hst_WorkerSessionIDSource = WorkerSessionIDSourceNone,
        hst_InputLive = False, hst_ExitCode = None, hst_Width = 0, hst_Height = 0,
        hst_LastOutputAt = 0, hst_StateChangedAt = now\<rparr>,
      tth_activity = [], tth_transcriptPending = []\<rparr>"

definition enqueueTranscriptNote :: "go_time \<Rightarrow> string \<Rightarrow> TranscriptHost \<Rightarrow> TranscriptHost" where
  "enqueueTranscriptNote now note h =
     (if TrimSpace note = [] then h
      else h\<lparr>tth_transcriptPending := keep_last hostMaxLines (tth_transcriptPending h
        @ [\<lparr>ev_Source = ''fallback_note'', ev_Content = TrimSpace note, ev_CreatedAt = now\<rparr>])\<rparr>)"

definition transcript_state :: "go_time \<Rightarrow> HostState \<Rightarrow> string \<Rightarrow> string \<Rightarrow> TranscriptHost \<Rightarrow> TranscriptHost" where
  "transcript_state now state label note h =
     h\<lparr>tth_status := (tth_status h)\<lparr>hst_Mode := HostModeTranscript, hst_State := state, hst_Label := label,
        hst_InputLive := False, hst_Note := TrimSpace note, hst_StateChangedAt := now\<rparr>\<rparr>"

definition transcript_markFallback :: "go_time \<Rightarrow> string \<Rightarrow> TranscriptHost \<Rightarrow> TranscriptHost" where
  "transcript_markFallback now note h =
     (let h1 = transcript_state now HostStateFallback ''transcript fallback'' note h; n = hst_Note (tth_status h1) in
      if n \<noteq> [] then enqueueTranscriptNote now n
        (h1\<lparr>tth_activity := add_activity now (''worker host degraded: '' @ n) (tth_activity h1)\<rparr>)
      else enqueueTranscriptNote now ''transcript fallback active'' h1)"

definition transcript_markTranscriptOnly :: "go_time \<Rightarrow> string \<Rightarrow> TranscriptHost \<Rightarrow> TranscriptHost" where
  "transcript_markTranscriptOnly now note h =
     (let h1 = transcript_state now HostStateTranscriptOnly ''transcript'' note h; n = hst_Note (tth_status h1) in
      enqueueTranscriptNote now (if n \<noteq> [] then n else ''transcript-only mode active'') h1)"

definition transcript_Start :: "go_time \<Rightarrow> TuiSnapshot \<Rightarrow> TranscriptHost \<Rightarrow> TranscriptHost" where
  "transcript_Start now s h =
     (let h1 = h\<lparr>tth_snapshot := s\<rparr> in
      if HostState_str (hst_State (tth_status h1)) = [] then transcript_markTranscriptOnly now [] h1
      else enqueueTranscriptNote now ''transcript pane active; no live worker is attached'' h1)"

definition transcript_Resize :: "int \<Rightarrow> int \<Rightarrow> TranscriptHost \<Rightarrow> TranscriptHost" where
  "transcript_Resize width height h = h\<lparr>tth_status := (tth_status h)\<lparr>hst_Width := width, hst_Height := height\<rparr>\<rparr>"

definition transcript_Drain :: "int \<Rightarrow> TranscriptHost \<Rightarrow> TranscriptEvidenceChunk list \<times> TranscriptHost" where
  "transcript_Drain limit h =
     (let p = tth_transcriptPending h in
      if p = [] then ([], h)
      else if limit \<le> 0 \<or> limit \<ge> int (length p) then (p, h\<lparr>tth_transcriptPending := []\<rparr>)
      else (take (nat limit) p, h\<lparr>tth_transcriptPending := drop (nat limit) p\<rparr>))"

section \<open>The local scratch host\<close>

text \<open>The file of the notes: missing, unreadable, or holding notes.\<close>

datatype ScratchFile = NoFile | BadFile go_error | Notes "ConversationItem list"

record LocalScratchHost =
  lsh_snapshot :: TuiSnapshot
  lsh_savedNotes :: "ConversationItem list"
  lsh_draft :: string
  lsh_status :: HostStatus
  lsh_activity :: "string list"
  lsh_lastSaveErr :: string

definition NewLocalScratchHost :: "TuiSnapshot \<Rightarrow> LocalScratchHost" where
  "NewLocalScratchHost none =
     \<lparr>lsh_snapshot = none, lsh_savedNotes = [], lsh_draft = [],
      lsh_status = \<lparr>hst_Mode = HostModeTranscript, hst_State = HostStateLive, hst_Label = ''scratch intake'',
        hst_Note = ''local scratch notes persist only on this machine'', hst_WorkerSessionID = [],
        hst_WorkerSessionIDSource = WorkerSessionIDSourceOther [], hst_InputLive = True, hst_ExitCode = None,
        hst_Width = 0, hst_Height = 0, hst_LastOutputAt = 0, hst_StateChangedAt = 0\<rparr>,
      lsh_activity = [], lsh_lastSaveErr = []\<rparr>"

definition normalizeScratchNotes :: "ConversationItem list \<Rightarrow> ConversationItem list" where
  "normalizeScratchNotes notes =
     map (\<lambda>n. \<lparr>tci_Role = ''user'', tci_Body = TrimSpace (tci_Body n), tci_CreatedAt = tci_CreatedAt n\<rparr>)
       (filter (\<lambda>n. ToLower (TrimSpace (tci_Role n)) = ''user'' \<and> TrimSpace (tci_Body n) \<noteq> []) notes)"

definition loadScratchNotes :: "ScratchFile \<Rightarrow> go_error + ConversationItem list" where
  "loadScratchNotes f = (case f of NoFile \<Rightarrow> Inr [] | BadFile e \<Rightarrow> Inl e | Notes ns \<Rightarrow> Inr (normalizeScratchNotes ns))"

text \<open>\<open>saveScratchNotes\<close>: \<open>fails\<close> is the error of writing the file.\<close>

definition saveScratchNotes :: "go_error option \<Rightarrow> ConversationItem list \<Rightarrow> ScratchFile \<Rightarrow> go_error option \<times> ScratchFile" where
  "saveScratchNotes fails notes f = (case fails of
     None \<Rightarrow> (None, Notes (normalizeScratchNotes notes)) | Some e \<Rightarrow> (Some e, f))"

definition AppendLocalScratchNote ::
  "go_error option \<Rightarrow> string \<Rightarrow> go_time \<Rightarrow> ScratchFile \<Rightarrow> (go_error + ConversationItem list) \<times> ScratchFile" where
  "AppendLocalScratchNote fails body at f =
     (if TrimSpace body = [] then (loadScratchNotes f, f)
      else case loadScratchNotes f of
        Inl e \<Rightarrow> (Inl e, f)
      | Inr ns \<Rightarrow> let notes = ns @ [\<lparr>tci_Role = ''user'', tci_Body = TrimSpace body, tci_CreatedAt = at\<rparr>] in
          (case saveScratchNotes fails notes f of (Some e, f') \<Rightarrow> (Inl e, f') | (None, f') \<Rightarrow> (Inr notes, f')))"

definition mergeScratchSnapshot :: "TuiSnapshot \<Rightarrow> ConversationItem list \<Rightarrow> TuiSnapshot" where
  "mergeScratchSnapshot base notes = base\<lparr>snp_RecentConversation := snp_RecentConversation base @ notes\<rparr>"

definition snapshotBase :: "LocalScratchHost \<Rightarrow> TuiSnapshot" where
  "snapshotBase h =
     (let base = lsh_snapshot h; c = snp_RecentConversation base; n = length (lsh_savedNotes h) in
      if n = 0 then base
      else if length c \<ge> n then base\<lparr>snp_RecentConversation := take (length c - n) c\<rparr> else base)"

definition scratch_note :: "string \<Rightarrow> LocalScratchHost \<Rightarrow> LocalScratchHost" where
  "scratch_note note h = h\<lparr>lsh_status := (lsh_status h)\<lparr>hst_Note := note\<rparr>\<rparr>"

definition scratch_activity :: "go_time \<Rightarrow> string \<Rightarrow> LocalScratchHost \<Rightarrow> LocalScratchHost" where
  "scratch_activity now msg h = h\<lparr>lsh_activity := add_activity now msg (lsh_activity h)\<rparr>"

definition applySnapshot :: "go_time \<Rightarrow> ScratchFile \<Rightarrow> TuiSnapshot \<Rightarrow> LocalScratchHost \<Rightarrow> LocalScratchHost" where
  "applySnapshot now f base h =
     (let notes = (case loadScratchNotes f of Inl e \<Rightarrow> [] | Inr ns \<Rightarrow> ns);
          h1 = h\<lparr>lsh_savedNotes := notes, lsh_snapshot := mergeScratchSnapshot base notes\<rparr> in
      case loadScratchNotes f of
        Inl e \<Rightarrow> scratch_activity now ''local scratch history read failed''
          (scratch_note ''local scratch history could not be read; starting with a clean intake view''
            (h1\<lparr>lsh_lastSaveErr := err_text e\<rparr>))
      | Inr _ \<Rightarrow> if notes \<noteq> []
          then scratch_note (''loaded '' @ itoa (int (length notes)) @ '' local scratch note(s) from this machine'') h1
          else scratch_note ''local scratch notes persist only on this machine'' h1)"

definition commitDraft ::
  "go_time \<Rightarrow> go_error option \<Rightarrow> ScratchFile \<times> LocalScratchHost \<Rightarrow> go_error option \<times> ScratchFile \<times> LocalScratchHost" where
  "commitDraft now fails = (\<lambda>(f, h).
     let body = TrimSpace (lsh_draft h) in
     if body = [] then (None, f, h)
     else let notes = lsh_savedNotes h @ [\<lparr>tci_Role = ''user'', tci_Body = body, tci_CreatedAt = now\<rparr>] in
       (case saveScratchNotes fails notes f of
          (Some e, f') \<Rightarrow> (Some e, f', h)
        | (None, f') \<Rightarrow>
            let h1 = h\<lparr>lsh_savedNotes := notes\<rparr>;
                h2 = h1\<lparr>lsh_snapshot := mergeScratchSnapshot (snapshotBase h1) notes, lsh_draft := [], lsh_lastSaveErr := []\<rparr> in
            (None, f', scratch_activity now ''saved local scratch note''
              (scratch_note (''saved '' @ itoa (int (length notes)) @ '' local scratch note(s) on this machine'') h2))))"

text \<open>\<open>truncateWithEllipsis\<close> (viewmodel.go) counts bytes.\<close>

definition truncateWithEllipsis :: "string \<Rightarrow> int \<Rightarrow> string" where
  "truncateWithEllipsis value limit =
     (let v = TrimSpace value in
      if limit \<le> 0 \<or> int (length v) \<le> limit then v
      else if limit \<le> 3 then take (nat limit) v
      else take (nat limit - 3) v @ ''...'')"

definition scratch_byte ::
  "go_time \<Rightarrow> go_error option \<Rightarrow> char \<Rightarrow> ScratchFile \<times> LocalScratchHost \<Rightarrow> ScratchFile \<times> LocalScratchHost" where
  "scratch_byte now fails b = (\<lambda>(f, h).
     if b = CHR 0x0D \<or> b = CHR 0x0A then (case commitDraft now fails (f, h) of
         (None, f', h') \<Rightarrow> (f', h')
       | (Some e, f', h') \<Rightarrow> (f', scratch_activity now ''local scratch save failed''
           (scratch_note (''local scratch save failed: '' @ truncateWithEllipsis (err_text e) 64)
             (h'\<lparr>lsh_lastSaveErr := err_text e\<rparr>))))
     else if b = CHR 0x7F \<or> b = CHR 0x08 then (f, h\<lparr>lsh_draft := butlast (lsh_draft h)\<rparr>)
     else if b = CHR 0x09 then (f, h\<lparr>lsh_draft := lsh_draft h @ ''  ''\<rparr>)
     else if (of_char b :: nat) \<ge> 32 then (f, h\<lparr>lsh_draft := lsh_draft h @ [b]\<rparr>)
     else (f, h))"

section \<open>A host of any kind\<close>

datatype Host = PtyHost PTYHost | PaneHost TranscriptHost | ScratchHost ScratchFile LocalScratchHost

text \<open>What the clock, the file system and the operating system answer to one call.\<close>

record HostEnv =
  he_now :: go_time
  he_look :: "go_error + string"
  he_spawn :: "go_error option"
  he_setsize :: "go_error option"
  he_wrote :: bool
  he_saveFails :: "go_error option"

primrec host_Status :: "Host \<Rightarrow> HostStatus" where
  "host_Status (PtyHost h) = pth_status h"
| "host_Status (PaneHost h) = tth_status h"
| "host_Status (ScratchHost f h) = lsh_status h"

primrec host_Start :: "HostEnv \<Rightarrow> TuiSnapshot \<Rightarrow> Host \<Rightarrow> go_error option \<times> Host" where
  "host_Start E s (PtyHost h) = map_prod id PtyHost (pty_Start (he_now E) (he_look E) (he_spawn E) s h)"
| "host_Start E s (PaneHost h) = (None, PaneHost (transcript_Start (he_now E) s h))"
| "host_Start E s (ScratchHost f h) = (None, ScratchHost f (applySnapshot (he_now E) f s h))"

primrec host_UpdateSnapshot :: "HostEnv \<Rightarrow> TuiSnapshot \<Rightarrow> Host \<Rightarrow> Host" where
  "host_UpdateSnapshot E s (PtyHost h) = PtyHost (pty_UpdateSnapshot s h)"
| "host_UpdateSnapshot E s (PaneHost h) = PaneHost (h\<lparr>tth_snapshot := s\<rparr>)"
| "host_UpdateSnapshot E s (ScratchHost f h) = ScratchHost f (applySnapshot (he_now E) f s h)"

primrec host_Resize :: "HostEnv \<Rightarrow> int \<Rightarrow> int \<Rightarrow> Host \<Rightarrow> bool \<times> Host" where
  "host_Resize E width height (PtyHost h) = map_prod id PtyHost (pty_Resize (he_setsize E) width height h)"
| "host_Resize E width height (PaneHost h) = (False, PaneHost (transcript_Resize width height h))"
| "host_Resize E width height (ScratchHost f h) =
     (False, ScratchHost f (h\<lparr>lsh_status := (lsh_status h)\<lparr>hst_Width := width, hst_Height := height\<rparr>\<rparr>))"

primrec host_CanAcceptInput :: "Host \<Rightarrow> bool" where
  "host_CanAcceptInput (PtyHost h) = pty_CanAcceptInput h"
| "host_CanAcceptInput (PaneHost h) = False"
| "host_CanAcceptInput (ScratchHost f h) = True"

primrec host_WriteInput :: "HostEnv \<Rightarrow> string \<Rightarrow> Host \<Rightarrow> bool \<times> Host" where
  "host_WriteInput E data (PtyHost h) = map_prod id PtyHost (pty_WriteInput (he_wrote E) data h)"
| "host_WriteInput E data (PaneHost h) = (False, PaneHost h)"
| "host_WriteInput E data (ScratchHost f h) =
     (True, case foldl (\<lambda>fh b. scratch_byte (he_now E) (he_saveFails E) b fh) (f, h) data of (f', h') \<Rightarrow> ScratchHost f' h')"

primrec host_WorkerLabel :: "Host \<Rightarrow> string" where
  "host_WorkerLabel (PtyHost h) = hst_Label (pth_status h)"
| "host_WorkerLabel (PaneHost h) = []"
| "host_WorkerLabel (ScratchHost f h) = ''scratch intake''"

text \<open>The pending evidence; a scratch host is no transcript provider.\<close>

primrec host_Drain :: "int \<Rightarrow> Host \<Rightarrow> TranscriptEvidenceChunk list \<times> Host" where
  "host_Drain limit (PtyHost h) = map_prod id PtyHost (DrainTranscriptEvidence limit h)"
| "host_Drain limit (PaneHost h) = map_prod id PaneHost (transcript_Drain limit h)"
| "host_Drain limit (ScratchHost f h) = ([], ScratchHost f h)"

text \<open>\<open>configureHostResumeSession\<close> (app.go): only a PTY host takes a session to resume.\<close>

definition configureHostResumeSession :: "Host option \<Rightarrow> string \<Rightarrow> bool \<times> Host option" where
  "configureHostResumeSession host i = (case host of
     None \<Rightarrow> (False, None)
   | Some h \<Rightarrow> if TrimSpace i = [] then (False, Some h)
       else (case h of PtyHost p \<Rightarrow> (True, Some (PtyHost (pty_SetResumeSessionID (TrimSpace i) p))) | _ \<Rightarrow> (False, Some h)))"

section \<open>Choosing, starting and replacing a host\<close>

definition ParseWorkerPreference :: "string \<Rightarrow> go_error + WorkerPreference" where
  "ParseWorkerPreference raw =
     (let w = ToLower (TrimSpace raw) in
      if w = [] \<or> w = WorkerPreference_str WorkerPreferenceAuto then Inr WorkerPreferenceAuto
      else if w = WorkerPreference_str WorkerPreferenceCodex then Inr WorkerPreferenceCodex
      else if w = WorkerPreference_str WorkerPreferenceClaude then Inr WorkerPreferenceClaude
      else Inl (ErrMsg (''unsupported worker '' @ raw @ '' (expected auto, codex, or claude)'')))"

definition resolveWorkerPreference :: "WorkerPreference \<Rightarrow> TuiSnapshot \<Rightarrow> WorkerPreference" where
  "resolveWorkerPreference p s =
     (if p = WorkerPreferenceCodex \<or> p = WorkerPreferenceClaude then p
      else if ToLower (RunWorkerKind s) = ''claude'' then WorkerPreferenceClaude
      else if ToLower (HandoffTargetWorker s) = ''claude'' then WorkerPreferenceClaude
      else WorkerPreferenceCodex)"

text \<open>\<open>settings\<close>: the binary and the arguments the environment sets for a kind of worker.\<close>

definition selectPreferredHost ::
  "(PtyKind \<Rightarrow> string \<times> string list) \<Rightarrow> TuiSnapshot \<Rightarrow> go_time \<Rightarrow> WorkerPreference \<Rightarrow> TuiSnapshot
     \<Rightarrow> go_error + Host \<times> WorkerPreference" where
  "selectPreferredHost settings none now p s =
     (let r = resolveWorkerPreference p s;
          host = (\<lambda>k. PtyHost (NewDefaultPTYHost k (fst (settings k)) (snd (settings k)) none now)) in
      case r of
        WorkerPreferenceCodex \<Rightarrow> Inr (host CodexKind, r)
      | WorkerPreferenceClaude \<Rightarrow> Inr (host ClaudeKind, r)
      | _ \<Rightarrow> Inl (ErrMsg (''unsupported resolved worker preference '' @ WorkerPreference_str r)))"

definition workerPreferenceLabel :: "WorkerPreference \<Rightarrow> string" where
  "workerPreferenceLabel p = (if p = WorkerPreferenceClaude then ''Claude'' else ''Codex'')"

definition workerPreferenceFromHost :: "Host option \<Rightarrow> WorkerPreference" where
  "workerPreferenceFromHost host = (case host of
     None \<Rightarrow> WorkerPreferenceAuto
   | Some h \<Rightarrow> (case hst_Mode (host_Status h) of
        HostModeClaudePTY \<Rightarrow> WorkerPreferenceClaude
      | HostModeCodexPTY \<Rightarrow> WorkerPreferenceCodex
      | _ \<Rightarrow> WorkerPreferenceAuto))"

definition markFallback :: "go_time \<Rightarrow> string \<Rightarrow> Host \<Rightarrow> Host" where
  "markFallback now note h = (case h of PaneHost t \<Rightarrow> PaneHost (transcript_markFallback now note t) | _ \<Rightarrow> h)"

definition markTranscriptOnly :: "go_time \<Rightarrow> string \<Rightarrow> Host \<Rightarrow> Host" where
  "markTranscriptOnly now note h = (case h of PaneHost t \<Rightarrow> PaneHost (transcript_markTranscriptOnly now note t) | _ \<Rightarrow> h)"

text \<open>The fallback is started first; a preferred host that starts takes its place.\<close>

definition startPreferredHost ::
  "HostEnv \<Rightarrow> TuiSnapshot \<Rightarrow> Host option \<Rightarrow> Host option \<Rightarrow> TuiSnapshot \<Rightarrow> Host \<times> string" where
  "startPreferredHost E none preferred fallback s =
     (let fb0 = (case fallback of None \<Rightarrow> PaneHost (NewTranscriptHost none (he_now E)) | Some f \<Rightarrow> f);
          fb1 = host_UpdateSnapshot E s (markTranscriptOnly (he_now E) [] fb0) in
      case host_Start E s fb1 of
        (Some e, fb2) \<Rightarrow> (fb2, err_text e)
      | (None, fb2) \<Rightarrow> (case preferred of
          None \<Rightarrow> (fb2, [])
        | Some p \<Rightarrow> (case host_Start E s (host_UpdateSnapshot E s p) of
            (Some e, p') \<Rightarrow>
              let note = workerPreferenceLabel (workerPreferenceFromHost (Some p'))
                @ '' PTY host unavailable, using transcript fallback: '' @ err_text e in
              (markFallback (he_now E) note fb2, note)
          | (None, p') \<Rightarrow> (p', []))))"

definition fallbackNote :: "HostStatus \<Rightarrow> string" where
  "fallbackNote st =
     (let base = TrimSpace (hst_Note st); with_base = (\<lambda>t. if base \<noteq> [] then t @ '': '' @ base else t) in
      case hst_State st of
        HostStateFailed \<Rightarrow> with_base ''live worker failed; switched to transcript fallback''
      | HostStateExited \<Rightarrow> (case hst_ExitCode st of
          Some c \<Rightarrow> with_base (''live worker exited with code '' @ itoa c @ ''; switched to transcript fallback'')
        | None \<Rightarrow> with_base ''live worker exited; switched to transcript fallback'')
      | _ \<Rightarrow> ''switched to transcript fallback'')"

definition transitionExitedHost ::
  "HostEnv \<Rightarrow> TuiSnapshot \<Rightarrow> Host \<Rightarrow> Host option \<Rightarrow> TuiSnapshot \<Rightarrow> Host \<times> string \<times> bool" where
  "transitionExitedHost E none current fallback s =
     (let st = host_Status current in
      if hst_State st \<noteq> HostStateExited \<and> hst_State st \<noteq> HostStateFailed then (current, [], False)
      else let fb0 = (case fallback of None \<Rightarrow> PaneHost (NewTranscriptHost none (he_now E)) | Some f \<Rightarrow> f) in
      case host_Start E s (host_UpdateSnapshot E s fb0) of
        (Some e, _) \<Rightarrow> (current, ''worker host exited and transcript fallback failed to start: '' @ err_text e, False)
      | (None, fb) \<Rightarrow> let note = fallbackNote st in (markFallback (he_now E) note fb, note, True))"

end
