(* ===== verification/ShellView.thy ===== *)
theory ShellView
  imports Hosts
begin

text \<open>
  What the shell says about a task (internal/tui/shell/viewmodel.go): the labels and lines of operator
  state, actions, branches, resume, launches and handoffs, the cues of the worker pane and the footer,
  and the result of an executed operator step (primary_action_result.go). Strings of the control plane
  are compared by their text, as in the code.
\<close>

section \<open>Words\<close>

text \<open>\<open>nonBlank\<close> is \<open>nonEmpty\<close> of this package.\<close>

definition nonBlank :: "string \<Rightarrow> string \<Rightarrow> string" where
  "nonBlank v alt = (if TrimSpace v = [] then alt else v)"

definition yesNo :: "bool \<Rightarrow> string" where
  "yesNo b = (if b then ''yes'' else ''no'')"

definition humanizeConstant :: "string \<Rightarrow> string" where
  "humanizeConstant v = map (\<lambda>c. if c = CHR ''_'' then CHR '' '' else c) (TrimSpace (ToLower v))"

definition shortTaskID :: "string \<Rightarrow> string" where
  "shortTaskID i = take 10 (TrimSpace i)"

definition displayTaskLabel :: "string \<Rightarrow> string" where
  "displayTaskLabel i = (if TrimSpace i = [] then ''no-task'' else shortTaskID i)"

text \<open>A Go switch over string constants.\<close>

definition str_switch :: "(string \<times> string) list \<Rightarrow> string \<Rightarrow> string \<Rightarrow> string" where
  "str_switch cases alt s = (case map_of cases s of Some t \<Rightarrow> t | None \<Rightarrow> alt)"

definition isScratchIntakeSnapshot :: "TuiSnapshot \<Rightarrow> bool" where
  "isScratchIntakeSnapshot s \<longleftrightarrow> TrimSpace (snp_TaskID s) = []
     \<and> ToLower (TrimSpace (snp_Phase s)) = ToLower ''SCRATCH_INTAKE''"

definition snapshotWorkerLabel :: "TuiSnapshot \<Rightarrow> string" where
  "snapshotWorkerLabel s =
     (if isScratchIntakeSnapshot s then ''scratch intake''
      else case snp_Run s of
        Some r \<Rightarrow> nonBlank (trn_WorkerKind r) ''worker'' @ (if trn_Status r = ''RUNNING'' then '' active'' else '' last'')
      | None \<Rightarrow> (case snp_Handoff s of
          Some h \<Rightarrow> if ths_TargetWorker h \<noteq> [] then ths_TargetWorker h @ '' handoff'' else ''none''
        | None \<Rightarrow> ''none''))"

definition effectiveWorkerLabel :: "TuiSnapshot \<Rightarrow> Host option \<Rightarrow> string" where
  "effectiveWorkerLabel s host =
     (if isScratchIntakeSnapshot s then snapshotWorkerLabel s
      else case host of
        None \<Rightarrow> snapshotWorkerLabel s
      | Some h \<Rightarrow> if TrimSpace (host_WorkerLabel h) \<noteq> [] then TrimSpace (host_WorkerLabel h)
          else if TrimSpace (hst_Label (host_Status h)) \<noteq> [] then TrimSpace (hst_Label (host_Status h))
          else snapshotWorkerLabel s)"

section \<open>Operator state and actions\<close>

text \<open>A failed launch that may be retried.\<close>

definition launch_retry :: "TuiSnapshot \<Rightarrow> bool" where
  "launch_retry s \<longleftrightarrow> (case snp_LaunchControl s of None \<Rightarrow> False
     | Some c \<Rightarrow> tlcs_State c = ''FAILED'' \<and> tlcs_RetryDisposition c = ''ALLOWED'')"

definition phase_label :: "TuiSnapshot \<Rightarrow> string" where
  "phase_label s =
     (if (case snp_Checkpoint s of None \<Rightarrow> False | Some k \<Rightarrow> tcs_IsResumable k) then ''resumable''
      else if snp_Phase s = ''BLOCKED'' \<or> snp_Phase s = ''FAILED'' then ''blocked''
      else if snp_Phase s = ''VALIDATING'' then ''validating''
      else ToLower (nonBlank (snp_Status s) ''active''))"

definition continuityLabel :: "TuiSnapshot \<Rightarrow> string" where
  "continuityLabel s =
     (if isScratchIntakeSnapshot s then ''local-only''
      else case snp_Recovery s of
        None \<Rightarrow> phase_label s
      | Some r \<Rightarrow> if trc_Class r = ''READY_NEXT_RUN'' \<and> \<not> trc_ReadyForNextRun r then phase_label s
          else str_switch
            [(''READY_NEXT_RUN'', ''ready''), (''CONTINUE_EXECUTION_REQUIRED'', ''continue-pending''),
             (''INTERRUPTED_RUN_RECOVERABLE'', ''recoverable''),
             (''ACCEPTED_HANDOFF_LAUNCH_READY'', if launch_retry s then ''launch-retry'' else ''handoff-ready''),
             (''HANDOFF_LAUNCH_PENDING_OUTCOME'', ''launch-pending''), (''HANDOFF_LAUNCH_COMPLETED'', ''launched''),
             (''HANDOFF_FOLLOW_THROUGH_REVIEW_REQUIRED'', ''review''), (''FAILED_RUN_REVIEW_REQUIRED'', ''review''),
             (''VALIDATION_REVIEW_REQUIRED'', ''review''), (''DECISION_REQUIRED'', ''decision''),
             (''BLOCKED_DRIFT'', ''decision''), (''REBRIEF_REQUIRED'', ''rebrief''), (''REPAIR_REQUIRED'', ''repair''),
             (''COMPLETED_NO_ACTION'', ''complete'')] (phase_label s) (trc_Class r))"

definition operatorStateLabel :: "TuiSnapshot \<Rightarrow> string" where
  "operatorStateLabel s =
     (if isScratchIntakeSnapshot s then ''local-only''
      else case snp_Recovery s of
        None \<Rightarrow> continuityLabel s
      | Some r \<Rightarrow> if TrimSpace (trc_Class r) = [] then continuityLabel s
          else str_switch
            [(''READY_NEXT_RUN'', ''ready next run''), (''INTERRUPTED_RUN_RECOVERABLE'', ''interrupted recoverable''),
             (''ACCEPTED_HANDOFF_LAUNCH_READY'', if launch_retry s then ''launch retry ready'' else ''accepted handoff launch ready''),
             (''HANDOFF_LAUNCH_PENDING_OUTCOME'', ''launch pending''), (''HANDOFF_LAUNCH_COMPLETED'', ''launch completed''),
             (''HANDOFF_FOLLOW_THROUGH_REVIEW_REQUIRED'', ''handoff follow-through review required''),
             (''FAILED_RUN_REVIEW_REQUIRED'', ''failed run review required''),
             (''VALIDATION_REVIEW_REQUIRED'', ''validation review required''),
             (''STALE_RUN_RECONCILIATION_REQUIRED'', ''stale run reconciliation required''),
             (''DECISION_REQUIRED'', ''decision required''), (''CONTINUE_EXECUTION_REQUIRED'', ''continue confirmation required''),
             (''BLOCKED_DRIFT'', ''drift blocked''), (''REBRIEF_REQUIRED'', ''rebrief required''),
             (''REPAIR_REQUIRED'', ''repair required''), (''COMPLETED_NO_ACTION'', ''completed'')]
            (humanizeConstant (trc_Class r)) (trc_Class r))"

definition requiredNextOperatorAction :: "TuiSnapshot \<Rightarrow> string" where
  "requiredNextOperatorAction s = (case snp_ActionAuthority s of None \<Rightarrow> []
     | Some a \<Rightarrow> TrimSpace (toaas_RequiredNextAction a))"

definition authorityFor :: "TuiSnapshot \<Rightarrow> string \<Rightarrow> TuiOperatorActionAuthority option" where
  "authorityFor s action = (case snp_ActionAuthority s of None \<Rightarrow> None
     | Some a \<Rightarrow> find (\<lambda>x. toaa_Action x = TrimSpace action) (toaas_Actions a))"

definition operatorActionDisplayName :: "string \<Rightarrow> string" where
  "operatorActionDisplayName action = str_switch
     [(''LOCAL_MESSAGE_MUTATION'', ''send local message''), (''CREATE_CHECKPOINT'', ''create checkpoint''),
      (''START_LOCAL_RUN'', ''start local run''), (''RECONCILE_STALE_RUN'', ''reconcile stale run''),
      (''INSPECT_FAILED_RUN'', ''inspect failed run''), (''REVIEW_VALIDATION_STATE'', ''review validation''),
      (''MAKE_RESUME_DECISION'', ''make resume decision''), (''RESUME_INTERRUPTED_LINEAGE'', ''resume interrupted lineage''),
      (''FINALIZE_CONTINUE_RECOVERY'', ''finalize continue recovery''), (''EXECUTE_REBRIEF'', ''regenerate brief''),
      (''LAUNCH_ACCEPTED_HANDOFF'', ''launch accepted handoff''), (''REVIEW_HANDOFF_FOLLOW_THROUGH'', ''review handoff follow-through''),
      (''RESOLVE_ACTIVE_HANDOFF'', ''resolve active handoff''), (''REPAIR_CONTINUITY'', ''repair continuity'')]
     (humanizeConstant action) (TrimSpace action)"

definition operatorActionLabel :: "TuiSnapshot \<Rightarrow> string" where
  "operatorActionLabel s =
     (let action = requiredNextOperatorAction s in
      if action \<noteq> [] \<and> action \<noteq> ''NONE'' then str_switch
        [(''START_LOCAL_RUN'', ''start next run''), (''RECONCILE_STALE_RUN'', ''reconcile stale run''),
         (''INSPECT_FAILED_RUN'', ''inspect failed run''), (''REVIEW_VALIDATION_STATE'', ''review validation state''),
         (''MAKE_RESUME_DECISION'', ''make resume decision''), (''RESUME_INTERRUPTED_LINEAGE'', ''resume interrupted run''),
         (''FINALIZE_CONTINUE_RECOVERY'', ''finalize continue''), (''EXECUTE_REBRIEF'', ''regenerate brief''),
         (''LAUNCH_ACCEPTED_HANDOFF'', ''launch accepted handoff''),
         (''REVIEW_HANDOFF_FOLLOW_THROUGH'', ''review handoff follow-through''),
         (''RESOLVE_ACTIVE_HANDOFF'', ''resolve active handoff''), (''REPAIR_CONTINUITY'', ''repair continuity'')]
        (humanizeConstant action) action
      else case snp_Recovery s of
        None \<Rightarrow> ''none''
      | Some r \<Rightarrow> if TrimSpace (trc_Action r) = [] then ''none''
          else str_switch
            [(''START_NEXT_RUN'', ''start next run''), (''RESUME_INTERRUPTED_RUN'', ''resume interrupted run''),
             (''LAUNCH_ACCEPTED_HANDOFF'', ''launch accepted handoff''), (''WAIT_FOR_LAUNCH_OUTCOME'', ''wait for launch outcome''),
             (''MONITOR_LAUNCHED_HANDOFF'', ''monitor launched handoff''),
             (''REVIEW_HANDOFF_FOLLOW_THROUGH'', ''review handoff follow-through''),
             (''INSPECT_FAILED_RUN'', ''inspect failed run''), (''REVIEW_VALIDATION_STATE'', ''review validation state''),
             (''RECONCILE_STALE_RUN'', ''reconcile stale run''), (''MAKE_RESUME_DECISION'', ''make resume decision''),
             (''EXECUTE_CONTINUE_RECOVERY'', ''finalize continue''), (''REPAIR_CONTINUITY'', ''repair continuity''),
             (''REGENERATE_BRIEF'', ''regenerate brief''), (''NONE'', ''none'')]
            (humanizeConstant (trc_Action r)) (trc_Action r))"

definition operatorReadinessLine :: "TuiSnapshot \<Rightarrow> string" where
  "operatorReadinessLine s =
     (let flags = (case snp_Recovery s of None \<Rightarrow> (False, False) | Some r \<Rightarrow> (trc_ReadyForNextRun r, trc_ReadyForHandoffLaunch r)) in
      ''next-run '' @ yesNo (fst flags) @ '' | handoff-launch '' @ yesNo (snd flags))"

text \<open>The first of the reasons that says something.\<close>

definition first_said :: "string list \<Rightarrow> string" where
  "first_said rs = (case filter (\<lambda>r. r \<noteq> []) (map TrimSpace rs) of [] \<Rightarrow> ''none'' | r # _ \<Rightarrow> r)"

definition strongestOperatorReason :: "TuiSnapshot \<Rightarrow> string" where
  "strongestOperatorReason s =
     (let decision = (case snp_OperatorDecision s of None \<Rightarrow> [] | Some d \<Rightarrow> [tods_PrimaryReason d]);
          required = (case snp_ActionAuthority s of None \<Rightarrow> []
            | Some a \<Rightarrow> (case authorityFor s (toaas_RequiredNextAction a) of None \<Rightarrow> [] | Some x \<Rightarrow> [toaa_Reason x]));
          blocked = concat (map (\<lambda>c. case authorityFor s c of None \<Rightarrow> []
              | Some x \<Rightarrow> if toaa_State x = ''BLOCKED'' then [toaa_Reason x] else [])
            [''LOCAL_MESSAGE_MUTATION'', ''CREATE_CHECKPOINT'', ''START_LOCAL_RUN'']);
          branch = (case snp_ActiveBranch s of None \<Rightarrow> [] | Some b \<Rightarrow> [tabs_Reason b]);
          recovery = (case snp_Recovery s of None \<Rightarrow> []
            | Some r \<Rightarrow> trc_Reason r # (case trc_Issues r of [] \<Rightarrow> [] | i # _ \<Rightarrow> [tri_Message i]));
          launch = (case snp_LaunchControl s of None \<Rightarrow> [] | Some c \<Rightarrow> [tlcs_Reason c]) in
      first_said (decision @ required @ blocked @ branch @ recovery @ launch))"

definition operatorDecisionHeadline :: "TuiSnapshot \<Rightarrow> string" where
  "operatorDecisionHeadline s =
     (if isScratchIntakeSnapshot s then ''local-only''
      else case snp_OperatorDecision s of None \<Rightarrow> ''n/a'' | Some d \<Rightarrow> nonBlank (tods_Headline d) ''n/a'')"

definition operatorDecisionGuidance :: "TuiSnapshot \<Rightarrow> string" where
  "operatorDecisionGuidance s = (case snp_OperatorDecision s of None \<Rightarrow> ''n/a'' | Some d \<Rightarrow> nonBlank (tods_Guidance d) ''n/a'')"

definition operatorDecisionIntegrity :: "TuiSnapshot \<Rightarrow> string" where
  "operatorDecisionIntegrity s = (case snp_OperatorDecision s of None \<Rightarrow> ''n/a'' | Some d \<Rightarrow> nonBlank (tods_IntegrityNote d) ''n/a'')"

definition operatorExecutionStatusLabel :: "string \<Rightarrow> string" where
  "operatorExecutionStatusLabel st = str_switch
     [(''REQUIRED_NEXT'', ''required''), (''ALLOWED'', ''allowed''), (''BLOCKED'', ''blocked''),
      (''NOT_APPLICABLE'', ''not applicable'')] (humanizeConstant st) (TrimSpace st)"

definition primary_step :: "TuiSnapshot \<Rightarrow> TuiOperatorExecutionStep option" where
  "primary_step s = Option.bind (snp_OperatorExecutionPlan s) tpl_PrimaryStep"

definition operatorExecutionPlanLine :: "TuiSnapshot \<Rightarrow> string" where
  "operatorExecutionPlanLine s =
     (if isScratchIntakeSnapshot s then ''local-only''
      else case primary_step s of
        None \<Rightarrow> ''n/a''
      | Some x \<Rightarrow> let label = operatorActionDisplayName (tst_Action x); pre = operatorExecutionStatusLabel (tst_Status x) in
          if label = [] then ''n/a'' else if pre = [] then label else pre @ '' '' @ label)"

definition operatorExecutionCommand :: "TuiSnapshot \<Rightarrow> string" where
  "operatorExecutionCommand s = (case primary_step s of
     None \<Rightarrow> ''n/a''
   | Some x \<Rightarrow> if TrimSpace (tst_CommandHint x) \<noteq> [] then TrimSpace (tst_CommandHint x)
       else if TrimSpace (tst_Action x) \<noteq> [] then ''handle '' @ TrimSpace (tst_Action x) else ''n/a'')"

definition primaryOperatorStepDirectlyExecutable :: "TuiSnapshot \<Rightarrow> bool" where
  "primaryOperatorStepDirectlyExecutable s \<longleftrightarrow> (case primary_step s of None \<Rightarrow> False
     | Some x \<Rightarrow> TrimSpace (tst_CommandSurface x) = ''DEDICATED'')"

definition primaryActionInFlightLine :: "UIState \<Rightarrow> string" where
  "primaryActionInFlightLine ui = (case ui_PrimaryActionInFlight ui of None \<Rightarrow> ''n/a''
     | Some p \<Rightarrow> if TrimSpace (tpaifs_Action p) = [] then ''n/a''
         else ''executing '' @ operatorActionDisplayName (tpaifs_Action p) @ ''...'')"

definition operatorActionResultHeadline :: "UIState \<Rightarrow> string" where
  "operatorActionResultHeadline ui = (case ui_LastPrimaryActionResult ui of
     None \<Rightarrow> ''n/a''
   | Some r \<Rightarrow> if TrimSpace (tpars_Summary r) = [] then ''n/a''
       else let o' = ToLower (TrimSpace (tpars_Outcome r)); receipt = TrimSpace (tpars_ReceiptID r) in
         (if o' = [] then ''unknown'' else o') @ '' | '' @ tpars_Summary r
         @ (if receipt \<noteq> [] then '' | '' @ shortTaskID receipt else []))"

definition operatorActionResultDeltas :: "UIState \<Rightarrow> int \<Rightarrow> string list" where
  "operatorActionResultDeltas ui limit = (case ui_LastPrimaryActionResult ui of
     None \<Rightarrow> []
   | Some r \<Rightarrow> if limit \<le> 0 then tpars_Deltas r else take (nat limit) (tpars_Deltas r))"

definition operatorActionResultNextStep :: "UIState \<Rightarrow> string" where
  "operatorActionResultNextStep ui = (case ui_LastPrimaryActionResult ui of
     None \<Rightarrow> ''n/a''
   | Some r \<Rightarrow> if TrimSpace (tpars_NextStep r) = [] \<or> TrimSpace (tpars_NextStep r) = ''none'' then ''n/a'' else tpars_NextStep r)"

section \<open>Branches, resume, launches and handoffs\<close>

definition operatorAuthorityLine :: "TuiSnapshot \<Rightarrow> string" where
  "operatorAuthorityLine s =
     (let blocked = (\<lambda>a. case authorityFor s a of None \<Rightarrow> False | Some x \<Rightarrow> toaa_State x = ''BLOCKED'') in
      if isScratchIntakeSnapshot s then ''local-only''
      else if requiredNextOperatorAction s \<noteq> [] \<and> requiredNextOperatorAction s \<noteq> ''NONE''
      then ''required '' @ operatorActionLabel s
      else if blocked ''LOCAL_MESSAGE_MUTATION'' then
        (case authorityFor s ''LOCAL_MESSAGE_MUTATION'' of
           Some x \<Rightarrow> if toaa_BlockingBranchClass x = ''HANDOFF_CLAUDE'' \<and> toaa_BlockingBranchRef x \<noteq> []
             then ''local mutation blocked by Claude handoff '' @ shortTaskID (toaa_BlockingBranchRef x)
             else ''local mutation blocked''
         | None \<Rightarrow> ''n/a'')
      else if blocked ''START_LOCAL_RUN'' then ''fresh run blocked'' else ''n/a'')"

definition activeBranchLine :: "TuiSnapshot \<Rightarrow> string" where
  "activeBranchLine s =
     (if isScratchIntakeSnapshot s then ''local-only''
      else case snp_ActiveBranch s of
        None \<Rightarrow> ''n/a''
      | Some b \<Rightarrow> if TrimSpace (tabs_Class b) = [] then ''n/a''
          else if tabs_Class b = ''LOCAL'' then
            (if tabs_ActionabilityAnchor b = ''BRIEF'' then ''local via brief '' @ shortTaskID (tabs_ActionabilityAnchorRef b)
             else if tabs_ActionabilityAnchor b = ''CHECKPOINT'' then ''local via checkpoint '' @ shortTaskID (tabs_ActionabilityAnchorRef b)
             else ''local'')
          else if tabs_Class b = ''HANDOFF_CLAUDE'' then ''Claude handoff '' @ shortTaskID (tabs_BranchRef b)
          else humanizeConstant (tabs_Class b))"

definition localResumeLine :: "TuiSnapshot \<Rightarrow> string" where
  "localResumeLine s =
     (if isScratchIntakeSnapshot s then ''local-only''
      else case snp_LocalResume s of
        None \<Rightarrow> ''n/a''
      | Some r \<Rightarrow> if TrimSpace (tlras_State r) = [] then ''n/a''
          else if tlras_State r = ''ALLOWED'' then
            (if tlras_Mode r = ''RESUME_INTERRUPTED_LINEAGE'' then
               (if tlras_CheckpointID r \<noteq> [] then ''allowed via checkpoint '' @ shortTaskID (tlras_CheckpointID r)
                else ''allowed for interrupted lineage'')
             else ''allowed'')
          else if tlras_State r = ''BLOCKED'' then
            (if tlras_BlockingBranchClass r = ''HANDOFF_CLAUDE'' \<and> tlras_BlockingBranchRef r \<noteq> []
             then ''blocked by Claude handoff '' @ shortTaskID (tlras_BlockingBranchRef r) else ''blocked'')
          else str_switch [(''FINALIZE_CONTINUE_RECOVERY'', ''not applicable | finalize continue first''),
                           (''START_FRESH_NEXT_RUN'', ''not applicable | start fresh next run'')]
                 ''not applicable'' (tlras_Mode r))"

definition localRunFinalizationLine :: "TuiSnapshot \<Rightarrow> string" where
  "localRunFinalizationLine s =
     (if isScratchIntakeSnapshot s then ''local-only''
      else case snp_LocalRunFinalization s of
        None \<Rightarrow> ''n/a''
      | Some f \<Rightarrow> let named = (\<lambda>t. if tlrfs_RunID f \<noteq> [] then t @ '' '' @ shortTaskID (tlrfs_RunID f) else t) in
          if TrimSpace (tlrfs_State f) = [] then ''n/a''
          else str_switch
            [(''NO_RELEVANT_RUN'', ''none''), (''FINALIZED'', named ''finalized''),
             (''INTERRUPTED_RECOVERABLE'', named ''interrupted recoverable''),
             (''INTERRUPTED_NEEDS_REPAIR'', named ''interrupted needs repair''),
             (''FAILED_REVIEW_REQUIRED'', named ''failed review required''),
             (''STALE_RECONCILIATION_REQUIRED'', named ''stale reconciliation required'')]
            (humanizeConstant (tlrfs_State f)) (tlrfs_State f))"

definition launchControlLine :: "TuiSnapshot \<Rightarrow> string" where
  "launchControlLine s = (case snp_LaunchControl s of
     None \<Rightarrow> ''n/a''
   | Some c \<Rightarrow> if tlcs_State c = [] \<or> tlcs_State c = ''NOT_APPLICABLE'' then ''n/a''
       else str_switch
         [(''NOT_REQUESTED'', ''not requested''), (''REQUESTED_OUTCOME_UNKNOWN'', ''pending outcome unknown''),
          (''COMPLETED'', ''completed (invocation only)''), (''FAILED'', ''failed'')]
         (humanizeConstant (tlcs_State c)) (tlcs_State c)
         @ '' | retry '' @ ToLower (nonBlank (tlcs_RetryDisposition c) ''unknown''))"

definition handoffContinuityLine :: "TuiSnapshot \<Rightarrow> string" where
  "handoffContinuityLine s = (case snp_HandoffContinuity s of
     None \<Rightarrow> ''n/a''
   | Some c \<Rightarrow> if thcs_State c = [] \<or> thcs_State c = ''NOT_APPLICABLE'' then ''n/a''
       else str_switch
         [(''ACCEPTED_NOT_LAUNCHED'', ''accepted, not launched''),
          (''LAUNCH_PENDING_OUTCOME'', ''launch pending, downstream outcome unknown''),
          (''LAUNCH_FAILED_RETRYABLE'', ''launch failed, retry allowed''),
          (''LAUNCH_COMPLETED_ACK_CAPTURED'', ''launch completed, acknowledgment captured, downstream unproven''),
          (''LAUNCH_COMPLETED_ACK_UNAVAILABLE'', ''launch completed, acknowledgment unavailable, downstream unproven''),
          (''LAUNCH_COMPLETED_ACK_MISSING'', ''launch completed, acknowledgment missing, continuity inconsistent''),
          (''FOLLOW_THROUGH_PROOF_OF_LIFE'', ''proof of life observed, completion unproven''),
          (''FOLLOW_THROUGH_CONFIRMED'', ''continuation confirmed, completion unproven''),
          (''FOLLOW_THROUGH_UNKNOWN'', ''follow-through still unknown''),
          (''FOLLOW_THROUGH_STALLED'', ''follow-through stalled, review required''),
          (''RESOLVED'', ''explicitly resolved, no downstream completion claim'')]
         (humanizeConstant (thcs_State c)) (thcs_State c))"

definition operatorPaneCue :: "TuiSnapshot \<Rightarrow> string" where
  "operatorPaneCue s =
     (let st = operatorStateLabel s; action = operatorActionLabel s in
      if st = [] \<or> st = ''local-only'' then st
      else if action = [] \<or> action = ''none'' then st else st @ '' | next '' @ action)"

definition footerOperatorCue :: "TuiSnapshot \<Rightarrow> string" where
  "footerOperatorCue s =
     (if snp_Recovery s = None \<or> isScratchIntakeSnapshot s then []
      else if operatorActionLabel s = [] \<or> operatorActionLabel s = ''none'' then [] else ''next '' @ operatorActionLabel s)"

definition pendingMessageSummary :: "TuiSnapshot \<Rightarrow> UIState \<Rightarrow> string" where
  "pendingMessageSummary s ui =
     (let scratch = (ui_PendingTaskMessageSource ui = ''local_scratch_adoption'') in
      if ui_PendingTaskMessageEditMode ui
      then (if scratch then ''editing staged draft from local scratch'' else ''editing staged local draft'')
      else if TrimSpace (ui_PendingTaskMessage ui) \<noteq> []
      then (if scratch then ''staged draft from local scratch'' else ''staged local draft'')
      else if HasLocalScratchAdoption s then ''local scratch available'' else ''none'')"

section \<open>Time\<close>

definition seconds :: "int \<Rightarrow> int" where
  "seconds n = n * 1000000000"

definition observedAt :: "go_time \<Rightarrow> UIState \<Rightarrow> go_time" where
  "observedAt now ui = (if \<not> is_zero_time (ui_ObservedAt ui) then ui_ObservedAt ui
     else if \<not> is_zero_time (ui_LastRefresh ui) then ui_LastRefresh ui else now)"

definition elapsedSince :: "go_time \<Rightarrow> go_time \<Rightarrow> int" where
  "elapsedSince now past = (if is_zero_time now \<or> is_zero_time past then 0 else if past > now then 0 else now - past)"

text \<open>\<open>Duration.Round\<close> of a nonnegative duration, halves up, in units.\<close>

definition rounded :: "int \<Rightarrow> int \<Rightarrow> int" where
  "rounded unit d = (d + unit div 2) div unit"

definition formatElapsed :: "int \<Rightarrow> string" where
  "formatElapsed d =
     (let s = rounded (seconds 1) d in
      if d < seconds 1 then ''0s''
      else if d < seconds 60 then itoa s @ ''s''
      else if d < seconds 600 then
        (if s mod 60 = 0 then itoa (s div 60) @ ''m'' else itoa (s div 60) @ ''m'' @ itoa (s mod 60) @ ''s'')
      else itoa (rounded (seconds 60) d) @ ''m'')"

definition describeAwaitingVisibleOutput :: "HostStatus \<Rightarrow> go_time \<Rightarrow> string" where
  "describeAwaitingVisibleOutput st now =
     (let e = elapsedSince now (hst_StateChangedAt st) in
      if e \<le> 0 then ''awaiting first visible output'' else ''awaiting first visible output for '' @ formatElapsed e)"

definition describeLiveOutputAssessment :: "HostStatus \<Rightarrow> go_time \<Rightarrow> string" where
  "describeLiveOutputAssessment st now =
     (let e = elapsedSince now (hst_LastOutputAt st) in
      if e \<le> 0 then ''quiet with recent visible output''
      else if e \<ge> seconds 60 then ''quiet for '' @ formatElapsed e @ ''; possibly waiting for input or stalled''
      else ''quiet for '' @ formatElapsed e)"

definition describeInactiveState :: "HostStatus \<Rightarrow> go_time \<Rightarrow> string" where
  "describeInactiveState st now =
     (let e = elapsedSince now (hst_StateChangedAt st);
          what = (if hst_State st = HostStateFailed then ''failed '' else ''exited '') in
      if e > 0 \<and> e < seconds 30 then ''recently '' @ what @ formatElapsed e @ '' ago''
      else if e > 0 then what @ formatElapsed e @ '' ago''
      else if hst_State st = HostStateFailed then ''worker failed'' else ''worker exited'')"

definition describeFallbackState :: "HostStatus \<Rightarrow> go_time \<Rightarrow> string" where
  "describeFallbackState st now =
     (let e = elapsedSince now (hst_StateChangedAt st) in
      if e \<le> 0 then ''fallback active'' else ''fallback activated '' @ formatElapsed e @ '' ago'')"

definition latest_time :: "go_time list \<Rightarrow> go_time" where
  "latest_time ts = foldl (\<lambda>a t. if t > a then t else a) 0 ts"

definition latestTranscriptTimestamp :: "TuiSnapshot \<Rightarrow> go_time" where
  "latestTranscriptTimestamp s =
     latest_time (map tstcs_CreatedAt (snp_RecentShellTranscript s) @ map tci_CreatedAt (snp_RecentConversation s))"

section \<open>The cues of the worker pane and the footer\<close>

definition livePaneCue :: "HostStatus \<Rightarrow> go_time \<Rightarrow> string" where
  "livePaneCue st now =
     (let e = elapsedSince now (hst_LastOutputAt st) in
      if e < seconds 60 then ''newest output at bottom''
      else if e < seconds 120 then ''newest output at bottom | quiet'' else ''newest output at bottom | quiet a while'')"

definition inactivePaneCue :: "HostStatus \<Rightarrow> string" where
  "inactivePaneCue st = (if hst_State st = HostStateFailed then ''newest captured output at bottom | worker failed''
     else ''newest captured output at bottom | worker exited'')"

definition workerPanePrimaryCue :: "TuiSnapshot \<Rightarrow> HostStatus \<Rightarrow> go_time \<Rightarrow> string" where
  "workerPanePrimaryCue s st now = (case hst_State st of
     HostStateLive \<Rightarrow> if is_zero_time (hst_LastOutputAt st) then ''awaiting visible output'' else livePaneCue st now
   | HostStateStarting \<Rightarrow> ''starting up''
   | HostStateExited \<Rightarrow> inactivePaneCue st
   | HostStateFailed \<Rightarrow> inactivePaneCue st
   | HostStateFallback \<Rightarrow> ''historical transcript below | fallback active''
   | HostStateTranscriptOnly \<Rightarrow> let at = latestTranscriptTimestamp s in
       if \<not> is_zero_time at then ''historical transcript below | saved transcript '' @ clock_text at
       else ''historical transcript below''
   | _ \<Rightarrow> [])"

definition footerHostCue :: "go_time \<Rightarrow> TuiSnapshot \<Rightarrow> UIState \<Rightarrow> HostStatus \<Rightarrow> string" where
  "footerHostCue clk s ui st =
     (let now = observedAt clk ui; e = elapsedSince now (hst_LastOutputAt st);
          recent = elapsedSince now (hst_StateChangedAt st) < seconds 30 in
      case hst_State st of
        HostStateLive \<Rightarrow> if is_zero_time (hst_LastOutputAt st) then ''awaiting output''
          else if e < seconds 60 then ''recent output'' else if e < seconds 120 then ''quiet'' else ''quiet a while''
      | HostStateStarting \<Rightarrow> ''starting''
      | HostStateExited \<Rightarrow> if recent then ''recent exit'' else ''exited''
      | HostStateFailed \<Rightarrow> if recent then ''recent failure'' else ''failed''
      | HostStateFallback \<Rightarrow> ''fallback active''
      | HostStateTranscriptOnly \<Rightarrow> if \<not> is_zero_time (latestTranscriptTimestamp s) then ''historical transcript''
          else ''read-only transcript''
      | _ \<Rightarrow> [])"

definition hostTemporalStatus :: "go_time \<Rightarrow> TuiSnapshot \<Rightarrow> UIState \<Rightarrow> HostStatus \<Rightarrow> string" where
  "hostTemporalStatus clk s ui st =
     (let now = observedAt clk ui in
      case hst_State st of
        HostStateLive \<Rightarrow> if is_zero_time (hst_LastOutputAt st) then describeAwaitingVisibleOutput st now
          else describeLiveOutputAssessment st now
      | HostStateStarting \<Rightarrow> describeAwaitingVisibleOutput st now
      | HostStateExited \<Rightarrow> describeInactiveState st now
      | HostStateFailed \<Rightarrow> describeInactiveState st now
      | HostStateFallback \<Rightarrow> describeFallbackState st now
      | HostStateTranscriptOnly \<Rightarrow> let at = latestTranscriptTimestamp s in
          if \<not> is_zero_time at then ''latest transcript '' @ clock_text at else []
      | _ \<Rightarrow> [])"

definition hostStatusLine :: "go_time \<Rightarrow> TuiSnapshot \<Rightarrow> UIState \<Rightarrow> Host option \<Rightarrow> string" where
  "hostStatusLine clk s ui host = (case host of
     None \<Rightarrow> ''none''
   | Some h \<Rightarrow> let st = host_Status h; temporal = hostTemporalStatus clk s ui st; note = TrimSpace (hst_Note st) in
       nonBlank (HostMode_str (hst_Mode st)) ''unknown'' @ '' / '' @ nonBlank (HostState_str (hst_State st)) ''unknown''
       @ (if hst_InputLive st then '' / input live'' else '' / input off'')
       @ (case hst_ExitCode st of None \<Rightarrow> [] | Some c \<Rightarrow> '' / exit '' @ itoa c)
       @ (if temporal \<noteq> [] then '' / '' @ temporal else [])
       @ (if note \<noteq> [] then '' / '' @ truncateWithEllipsis note 48 else []))"

definition workerPaneSummaryLine :: "go_time \<Rightarrow> TuiSnapshot \<Rightarrow> UIState \<Rightarrow> Host option \<Rightarrow> string" where
  "workerPaneSummaryLine clk s ui host = (case host of
     None \<Rightarrow> []
   | Some h \<Rightarrow> let st = host_Status h;
         label = nonBlank (TrimSpace (hst_Label st)) (TrimSpace (HostMode_str (hst_Mode st)));
         cue = workerPanePrimaryCue s st (observedAt clk ui); op_cue = operatorPaneCue s in
       (if op_cue = [] then [] else op_cue @ '' | '') @ label @ (if cue = [] then [] else '' | '' @ cue))"

definition footerExecutePrimaryCue :: "TuiSnapshot \<Rightarrow> UIState \<Rightarrow> Host option \<Rightarrow> string" where
  "footerExecutePrimaryCue s ui host =
     (if ui_PrimaryActionInFlight ui \<noteq> None \<or> \<not> primaryOperatorStepDirectlyExecutable s then []
      else if (case host of None \<Rightarrow> False | Some h \<Rightarrow> ui_Focus ui = FocusWorker \<and> host_CanAcceptInput h)
      then ''ctrl-g n execute next step'' else ''n execute next step'')"

definition footerText :: "go_time \<Rightarrow> TuiSnapshot \<Rightarrow> UIState \<Rightarrow> Host option \<Rightarrow> string" where
  "footerText clk s ui host =
     (let said = (\<lambda>t. if t \<noteq> [] then [t] else []); sid = sx_SessionID (ui_Session ui) in
      str_join
       ((if sid \<noteq> [] then [''session '' @ shortTaskID sid] else [])
        @ (case host of None \<Rightarrow> [] | Some h \<Rightarrow>
            (if hst_InputLive (host_Status h) then ''worker live input'' else ''worker read-only'')
            # said (footerHostCue clk s ui (host_Status h)))
        @ said (footerOperatorCue s)
        @ (if primaryActionInFlightLine ui \<noteq> ''n/a'' then [primaryActionInFlightLine ui] else [])
        @ [''q quit'', ''h help'', ''i inspector'', ''p activity'', ''r refresh'', ''s status'']
        @ said (footerExecutePrimaryCue s ui host)
        @ (case host of None \<Rightarrow> [] | Some h \<Rightarrow>
            if ui_Focus ui = FocusWorker \<and> host_CanAcceptInput h then [''ctrl-g shell commands''] else [])
        @ (if ui_EscapePrefix ui then [''shell command armed''] else [])
        @ (if ui_PendingTaskMessageEditMode ui then [''editing staged draft'']
           else if TrimSpace (ui_PendingTaskMessage ui) \<noteq> [] then [''staged local draft'']
           else if HasLocalScratchAdoption s then [''local scratch available''] else [])
        @ (if \<not> is_zero_time (ui_LastRefresh ui) then [''refreshed '' @ clock_text (ui_LastRefresh ui)] else [])
        @ (if ui_LastError ui \<noteq> [] then [truncateWithEllipsis (ui_LastError ui) 80]
           else case host of None \<Rightarrow> [] | Some h \<Rightarrow>
             if TrimSpace (hst_Note (host_Status h)) \<noteq> [] then [truncateWithEllipsis (TrimSpace (hst_Note (host_Status h))) 80] else []))
       '' | '')"

section \<open>The result of an executed operator step\<close>

definition receiptIsFailure :: "OperatorStepReceiptSummary \<Rightarrow> bool" where
  "receiptIsFailure r \<longleftrightarrow> TrimSpace (tosrs_ResultClass r) = ''FAILED'' \<or> TrimSpace (tosrs_ResultClass r) = ''REJECTED''"

definition compactResultValue :: "string \<Rightarrow> string" where
  "compactResultValue v = nonBlank (TrimSpace v) ''n/a''"

definition compactNextStep :: "TuiSnapshot \<Rightarrow> string" where
  "compactNextStep s =
     (let plan = operatorExecutionPlanLine s; action = operatorActionLabel s in
      if plan \<noteq> ''n/a'' \<and> TrimSpace plan \<noteq> [] then plan
      else if action \<noteq> ''none'' \<and> action \<noteq> ''n/a'' \<and> TrimSpace action \<noteq> [] then action else ''none'')"

definition compactActionAuthorityState :: "TuiSnapshot \<Rightarrow> string \<Rightarrow> string" where
  "compactActionAuthorityState s action = (case authorityFor s action of
     None \<Rightarrow> ''n/a''
   | Some x \<Rightarrow> str_switch [(''ALLOWED'', ''allowed''), (''BLOCKED'', ''blocked''), (''REQUIRED_NEXT'', ''required''),
       (''NOT_APPLICABLE'', ''not applicable'')] (humanizeConstant (toaa_State x)) (toaa_State x))"

definition compactActiveBranchOwner :: "TuiSnapshot \<Rightarrow> string" where
  "compactActiveBranchOwner s = (case snp_ActiveBranch s of
     None \<Rightarrow> ''n/a''
   | Some b \<Rightarrow> if TrimSpace (tabs_Class b) = [] then ''n/a''
       else if tabs_Class b = ''LOCAL'' then ''local''
       else if tabs_Class b = ''HANDOFF_CLAUDE'' then
         (if TrimSpace (tabs_BranchRef b) \<noteq> [] then ''Claude '' @ shortTaskID (tabs_BranchRef b) else ''Claude'')
       else humanizeConstant (tabs_Class b))"

definition delta_views :: "(string \<times> (TuiSnapshot \<Rightarrow> string)) list" where
  "delta_views = [(''branch'', compactActiveBranchOwner), (''decision'', operatorDecisionHeadline),
     (''next'', compactNextStep), (''launch'', launchControlLine), (''handoff'', handoffContinuityLine),
     (''local message'', \<lambda>s. compactActionAuthorityState s ''LOCAL_MESSAGE_MUTATION''),
     (''local resume'', localResumeLine), (''local run'', localRunFinalizationLine)]"

definition meaningfulPrimaryActionDeltas :: "TuiSnapshot \<Rightarrow> TuiSnapshot \<Rightarrow> string list" where
  "meaningfulPrimaryActionDeltas before after =
     take 4 (concat (map (\<lambda>(label, view). let a = compactResultValue (view before); b = compactResultValue (view after) in
       if a = b then [] else [label @ '' '' @ a @ '' -> '' @ b]) delta_views))"

definition successfulPrimaryActionResult ::
  "TuiOperatorExecutionStep \<Rightarrow> TuiSnapshot \<Rightarrow> TuiSnapshot \<Rightarrow> OperatorStepReceiptSummary \<Rightarrow> go_time \<Rightarrow> PrimaryActionResultSummary" where
  "successfulPrimaryActionResult step before after receipt now =
     (let deltas = meaningfulPrimaryActionDeltas before after in
      \<lparr>tpars_Action = TrimSpace (tst_Action step), tpars_Outcome = ''SUCCESS'',
       tpars_Summary = nonBlank (TrimSpace (tosrs_Summary receipt)) (''executed '' @ operatorActionDisplayName (tst_Action step)),
       tpars_Deltas = (if deltas = [] then [''no operator-visible control-plane delta''] else deltas),
       tpars_NextStep = compactNextStep after, tpars_ErrorText = [], tpars_ReceiptID = TrimSpace (tosrs_ReceiptID receipt),
       tpars_ResultClass = TrimSpace (tosrs_ResultClass receipt), tpars_CreatedAt = now\<rparr>)"

definition failedPrimaryActionResult :: "TuiOperatorExecutionStep \<Rightarrow> go_error \<Rightarrow> go_time \<Rightarrow> PrimaryActionResultSummary" where
  "failedPrimaryActionResult step e now =
     \<lparr>tpars_Action = TrimSpace (tst_Action step), tpars_Outcome = ''FAILED'',
      tpars_Summary = ''failed '' @ operatorActionDisplayName (tst_Action step), tpars_Deltas = [], tpars_NextStep = [],
      tpars_ErrorText = TrimSpace (err_text e), tpars_ReceiptID = [], tpars_ResultClass = ''FAILED'', tpars_CreatedAt = now\<rparr>"

definition failedPrimaryActionResultWithReceipt ::
  "TuiOperatorExecutionStep \<Rightarrow> OperatorStepReceiptSummary \<Rightarrow> go_time \<Rightarrow> PrimaryActionResultSummary" where
  "failedPrimaryActionResultWithReceipt step receipt now =
     \<lparr>tpars_Action = TrimSpace (tst_Action step), tpars_Outcome = ''FAILED'',
      tpars_Summary = nonBlank (TrimSpace (tosrs_Summary receipt)) (''failed '' @ operatorActionDisplayName (tst_Action step)),
      tpars_Deltas = [], tpars_NextStep = [],
      tpars_ErrorText = nonBlank (TrimSpace (tosrs_Reason receipt)) (TrimSpace (tosrs_Summary receipt)),
      tpars_ReceiptID = TrimSpace (tosrs_ReceiptID receipt), tpars_ResultClass = TrimSpace (tosrs_ResultClass receipt),
      tpars_CreatedAt = now\<rparr>"

end
