(* ===== verification/Registry.thy ===== *)
theory Registry
  imports ShellView
begin

text \<open>
  The sessions a shell knows of (internal/tui/shell/session_registry.go, session_journal.go): how the
  records of the daemon become known sessions, which of them a shell may reattach to (app.go), what
  it reports of its own session, and what it says of the others.
\<close>

section \<open>Known sessions\<close>

definition isPTYHostMode :: "HostMode \<Rightarrow> bool" where
  "isPTYHostMode m \<longleftrightarrow> m = HostModeCodexPTY \<or> m = HostModeClaudePTY"

text \<open>
  The record the daemon sends of a session (\<open>ipcTaskShellSessionRecord\<close>, internal/runtime/daemon/service.go)
  as the registry client reads it; what reattaching does not look at is that of \<open>base\<close>.
\<close>

definition known_class :: "ShellSessionClass \<Rightarrow> KnownShellSessionClass" where
  "known_class c = (case c of
     ShellSessionClassAttachable \<Rightarrow> KnownShellSessionClassAttachable
   | ShellSessionClassActiveUnattachable \<Rightarrow> KnownShellSessionClassActiveUnattachable
   | ShellSessionClassStale \<Rightarrow> KnownShellSessionClassStale
   | ShellSessionClassEnded \<Rightarrow> KnownShellSessionClassEnded)"

definition ipcTaskShellSessionRecord :: "KnownShellSession \<Rightarrow> ShellSessionView \<Rightarrow> KnownShellSession" where
  "ipcTaskShellSessionRecord base v = (let r = sv_Record v in
     base\<lparr>ks_SessionID := ss_SessionID r, ks_TaskID := ss_TaskID r, ks_WorkerSessionID := ss_WorkerSessionID r,
       ks_WorkerSessionIDSource := sv_WorkerSessionIDSource v, ks_AttachCapability := ss_AttachCapability r,
       ks_SessionClass := known_class (sv_SessionClass v), ks_SessionClassReason := sv_SessionClassReason v,
       ks_ReattachGuidance := sv_ReattachGuidance v, ks_OperatorSummary := sv_OperatorSummary v,
       ks_StartedAt := ss_StartedAt r, ks_LastUpdatedAt := ss_LastUpdatedAt r, ks_Active := ss_Active r, ks_Note := ss_Note r\<rparr>)"

text \<open>
  \<open>List\<close> of the registry client: a record without a class is classified by what else it says; the
  source of the worker session id is normalised and an empty capability means none.
\<close>

definition known_session :: "KnownShellSession \<Rightarrow> KnownShellSession" where
  "known_session r =
     (let source = normalizeWorkerSessionIDSource (ks_WorkerSessionIDSource r) (ks_WorkerSessionID r);
          capability = (if AttachCapability_str (ks_AttachCapability r) = [] then AttachCapabilityNone else ks_AttachCapability r);
          class' = (if KnownShellSessionClass_str (ks_SessionClass r) \<noteq> [] then ks_SessionClass r
            else if \<not> ks_Active r then KnownShellSessionClassEnded
            else if ks_WorkerSessionID r \<noteq> [] \<and> source = WorkerSessionIDSourceAuthoritative \<and> capability = AttachCapabilityAttachable
            then KnownShellSessionClassAttachable else KnownShellSessionClassActiveUnattachable) in
      r\<lparr>ks_WorkerSessionIDSource := source, ks_AttachCapability := capability, ks_SessionClass := class'\<rparr>)"

text \<open>\<open>UnixNano\<close>: the count from 1970.\<close>

definition unix_nano :: "go_time \<Rightarrow> int" where
  "unix_nano t = t - 62135596800 * 1000000000"

definition newSessionState :: "go_time \<Rightarrow> SessionState" where
  "newSessionState now =
     \<lparr>sx_SessionID = ''shs_'' @ itoa (unix_nano now), sx_StartedAt = now, sx_WorkerPreference = WorkerPreferenceOther [],
      sx_ResolvedWorker = WorkerPreferenceOther [], sx_WorkerSessionID = [],
      sx_WorkerSessionIDSource = WorkerSessionIDSourceNone, sx_AttachCapability = AttachCapabilityNone,
      sx_Journal = [], sx_KnownSessions = [], sx_PriorPersistedSummary = []\<rparr>"

definition initialUIState :: "go_time \<Rightarrow> WorkerPreference \<Rightarrow> UIState" where
  "initialUIState now preference =
     \<lparr>ui_ShowInspector = False, ui_ShowProof = False, ui_ShowHelp = False, ui_ShowStatus = False, ui_Focus = FocusWorker,
      ui_EscapePrefix = False, ui_PendingTaskMessage = [], ui_PendingTaskMessageSource = [],
      ui_PendingTaskMessageEditMode = False, ui_PendingTaskMessageEditBuffer = [], ui_PendingTaskMessageEditOriginal = [],
      ui_Session = (newSessionState now)\<lparr>sx_WorkerPreference := preference\<rparr>, ui_LastRefresh = now, ui_ObservedAt = now,
      ui_LastError = [], ui_PrimaryActionInFlight = None, ui_LastPrimaryActionResult = None\<rparr>"

definition add_event :: "go_time \<Rightarrow> SessionEventType \<Rightarrow> string \<Rightarrow> UIState \<Rightarrow> UIState" where
  "add_event now typ' summary ui =
     ui\<lparr>ui_Session := (ui_Session ui)\<lparr>sx_Journal := addSessionEvent now typ' summary (sx_Journal (ui_Session ui))\<rparr>\<rparr>"

definition otherKnownShellSessions :: "SessionState \<Rightarrow> KnownShellSession list" where
  "otherKnownShellSessions s = filter (\<lambda>k. ks_SessionID k \<noteq> sx_SessionID s) (sx_KnownSessions s)"

definition latestKnownShellSessionByClass :: "SessionState \<Rightarrow> KnownShellSessionClass \<Rightarrow> KnownShellSession option" where
  "latestKnownShellSessionByClass s c = foldl (\<lambda>best k. case best of
       None \<Rightarrow> Some k
     | Some b \<Rightarrow> if ks_LastUpdatedAt k > ks_LastUpdatedAt b then Some k else best) None
     (filter (\<lambda>k. ks_SessionClass k = c) (otherKnownShellSessions s))"

definition sessionWorkerLabel :: "KnownShellSession \<Rightarrow> string" where
  "sessionWorkerLabel k =
     (if TrimSpace (WorkerPreference_str (ks_ResolvedWorker k)) \<noteq> [] then WorkerPreference_str (ks_ResolvedWorker k)
      else if TrimSpace (WorkerPreference_str (ks_WorkerPreference k)) \<noteq> [] then WorkerPreference_str (ks_WorkerPreference k)
      else ''worker'')"

definition sessionRegistrySummary :: "SessionState \<Rightarrow> string" where
  "sessionRegistrySummary s =
     (let named = (\<lambda>k. shortTaskID (ks_SessionID k) @ '' '' @ sessionWorkerLabel k);
          state = (\<lambda>k. named k @ '' '' @ HostState_str (ks_HostState k)) in
      case latestKnownShellSessionByClass s KnownShellSessionClassAttachable of
        Some k \<Rightarrow> ''attachable session known: '' @ state k @ '' | ''
          @ nonBlank (TrimSpace (ks_SessionClassReason k)) ''ready for reattach''
      | None \<Rightarrow> (case latestKnownShellSessionByClass s KnownShellSessionClassActiveUnattachable of
          Some k \<Rightarrow> ''active non-attachable session known: '' @ state k @ '' | ''
            @ nonBlank (TrimSpace (ks_SessionClassReason k)) ''active but non-attachable''
        | None \<Rightarrow> (case latestKnownShellSessionByClass s KnownShellSessionClassStale of
            Some k \<Rightarrow> ''stale session known: '' @ named k @ '' last update '' @ clock_text (ks_LastUpdatedAt k)
          | None \<Rightarrow> (case latestKnownShellSessionByClass s KnownShellSessionClassEnded of
              Some k \<Rightarrow> ''prior ended session known: '' @ state k
            | None \<Rightarrow> ''fresh shell session; no other known shell session''))))"

definition sessionRegistryFooterLabel :: "SessionState \<Rightarrow> string" where
  "sessionRegistryFooterLabel s =
     (let known = (\<lambda>c. latestKnownShellSessionByClass s c \<noteq> None) in
      if known KnownShellSessionClassAttachable then ''attachable-known''
      else if known KnownShellSessionClassActiveUnattachable then ''active-unattachable-known''
      else if known KnownShellSessionClassStale then ''stale-known''
      else if known KnownShellSessionClassEnded then ''prior-ended-known'' else ''fresh'')"

section \<open>Reports\<close>

definition refreshWorkerSessionAnchor :: "HostStatus \<Rightarrow> SessionState \<Rightarrow> SessionState" where
  "refreshWorkerSessionAnchor st s0 =
     (let i = TrimSpace (hst_WorkerSessionID st);
          s = (if i \<noteq> [] then s0\<lparr>sx_WorkerSessionID := i,
            sx_WorkerSessionIDSource := normalizeWorkerSessionIDSource (hst_WorkerSessionIDSource st) i\<rparr> else s0) in
      s\<lparr>sx_AttachCapability :=
        (if isPTYHostMode (hst_Mode st) \<and> hst_State st = HostStateLive \<and> TrimSpace (sx_WorkerSessionID s) \<noteq> []
            \<and> sx_WorkerSessionIDSource s = WorkerSessionIDSourceAuthoritative
         then AttachCapabilityAttachable else AttachCapabilityNone)\<rparr>)"

record SessionRegistryReport =
  rgr_TaskID :: string
  rgr_SessionID :: string
  rgr_WorkerPreference :: WorkerPreference
  rgr_ResolvedWorker :: WorkerPreference
  rgr_WorkerSessionID :: string
  rgr_WorkerSessionIDSource :: WorkerSessionIDSource
  rgr_AttachCapability :: AttachCapability
  rgr_StartedAt :: go_time
  rgr_HostMode :: HostMode
  rgr_HostState :: HostState
  rgr_Active :: bool
  rgr_Note :: string

text \<open>\<open>sink\<close> is absent or the answer to a report.\<close>

definition reportShellSession ::
  "(SessionRegistryReport \<Rightarrow> go_error option) option \<Rightarrow> string \<Rightarrow> HostStatus \<Rightarrow> bool \<Rightarrow> UIState
     \<Rightarrow> SessionRegistryReport option \<times> UIState" where
  "reportShellSession sink task st active ui = (case sink of
     None \<Rightarrow> (None, ui)
   | Some answer \<Rightarrow>
       let s = refreshWorkerSessionAnchor st (ui_Session ui); note = TrimSpace (hst_Note st);
           r = \<lparr>rgr_TaskID = task, rgr_SessionID = sx_SessionID s, rgr_WorkerPreference = sx_WorkerPreference s,
             rgr_ResolvedWorker = sx_ResolvedWorker s, rgr_WorkerSessionID = sx_WorkerSessionID s,
             rgr_WorkerSessionIDSource = sx_WorkerSessionIDSource s, rgr_AttachCapability = sx_AttachCapability s,
             rgr_StartedAt = sx_StartedAt s, rgr_HostMode = hst_Mode st, rgr_HostState = hst_State st,
             rgr_Active = active, rgr_Note = (if \<not> active \<and> note = [] then ''shell session ended'' else note)\<rparr>;
           ui1 = ui\<lparr>ui_Session := s\<rparr> in
       (Some r, case answer r of None \<Rightarrow> ui1
          | Some e \<Rightarrow> ui1\<lparr>ui_LastError := ''shell session registry update failed: '' @ err_text e\<rparr>))"

text \<open>\<open>list\<close>: what the registry answers, if there is one.\<close>

definition loadKnownShellSessions ::
  "(go_error + KnownShellSession list) option \<Rightarrow> UIState \<Rightarrow> go_error option \<times> UIState" where
  "loadKnownShellSessions answer ui = (case answer of
     None \<Rightarrow> (None, ui)
   | Some (Inl e) \<Rightarrow> (Some e, ui)
   | Some (Inr ks) \<Rightarrow> (None, ui\<lparr>ui_Session := (ui_Session ui)\<lparr>sx_KnownSessions := ks\<rparr>\<rparr>))"

section \<open>Reattaching\<close>

definition sessionPreferredWorker :: "KnownShellSession \<Rightarrow> WorkerPreference" where
  "sessionPreferredWorker k =
     (let real = (\<lambda>p. p = WorkerPreferenceCodex \<or> p = WorkerPreferenceClaude) in
      if real (ks_ResolvedWorker k) then ks_ResolvedWorker k
      else if real (ks_WorkerPreference k) then ks_WorkerPreference k else WorkerPreferenceAuto)"

text \<open>Why a session is no target; \<open>stamp\<close> formats a time as RFC 3339.\<close>

definition reattach_refusal :: "(go_time \<Rightarrow> string) \<Rightarrow> string \<Rightarrow> KnownShellSession \<Rightarrow> string option" where
  "reattach_refusal stamp i k =
     (let shell = ''shell session '' @ i in
      if ks_SessionClass k = KnownShellSessionClassEnded then Some (shell @ '' is ended; reattach is unavailable'')
      else if ks_SessionClass k = KnownShellSessionClassStale then
        Some (shell @ '' is stale (last updated '' @ stamp (ks_LastUpdatedAt k) @ ''); live continuity is not trusted for reattach'')
      else if TrimSpace (ks_WorkerSessionID k) = [] then
        Some (shell @ '' has no worker session id; reattach requires an authoritative worker session id'')
      else if ks_WorkerSessionIDSource k \<noteq> WorkerSessionIDSourceAuthoritative then
        Some (shell @ '' only has a '' @ nonBlank (WorkerSessionIDSource_str (ks_WorkerSessionIDSource k)) ''unknown''
          @ '' worker session id; reattach requires an authoritative id'')
      else if ks_AttachCapability k \<noteq> AttachCapabilityAttachable then
        Some (shell @ '' reports attach capability '' @ nonBlank (AttachCapability_str (ks_AttachCapability k)) ''none''
          @ ''; host/worker attach is unsupported'')
      else if ks_SessionClass k \<noteq> KnownShellSessionClassAttachable then
        Some (shell @ '' is not attachable: '' @ nonBlank (TrimSpace (ks_SessionClassReason k))
          (''class='' @ KnownShellSessionClass_str (ks_SessionClass k) @ '' state='' @ HostState_str (ks_HostState k)))
      else None)"

definition resolveReattachTarget ::
  "(go_time \<Rightarrow> string) \<Rightarrow> string \<Rightarrow> KnownShellSession list \<Rightarrow> go_error + KnownShellSession option" where
  "resolveReattachTarget stamp target known =
     (let i = TrimSpace target in
      if i = [] then Inr None
      else case find (\<lambda>k. ks_SessionID k = i) known of
        None \<Rightarrow> Inl (ErrMsg (''shell session '' @ i @ '' was not found in the durable registry for this task''))
      | Some k \<Rightarrow> (case reattach_refusal stamp i k of Some why \<Rightarrow> Inl (ErrMsg why) | None \<Rightarrow> Inr (Some k)))"

end
