(* ===== verification/ShellApp.thy ===== *)
theory ShellApp
  imports Registry
begin

text \<open>
  The terminal shell at work (internal/tui/shell/app.go): what a key does, the staged task message and
  its editor, executing the primary operator step, recording the life of the worker host, and the
  turns of the main loop. What clock, daemon, host process and terminal answer comes in as arguments.
\<close>

section \<open>Keys\<close>

datatype keyAction =
    actionNone | actionQuit | actionRefresh | actionStageScratchAdoption | actionEnterPendingTaskMessageEdit
  | actionSavePendingTaskMessageEdit | actionCancelPendingTaskMessageEdit | actionSendPendingTaskMessage
  | actionClearPendingTaskMessage | actionExecutePrimaryOperatorStep

definition pane_order :: "UIState \<Rightarrow> FocusPane list" where
  "pane_order ui = FocusWorker # (if ui_ShowInspector ui then [FocusInspector] else [])
     @ (if ui_ShowProof ui then [FocusActivity] else [])"

definition nextFocus :: "UIState \<Rightarrow> FocusPane" where
  "nextFocus ui =
     (let order = pane_order ui; i = length (takeWhile (\<lambda>p. p \<noteq> ui_Focus ui) order) in
      if i < length order then order ! (Suc i mod length order) else FocusWorker)"

definition toggle_inspector :: "UIState \<Rightarrow> UIState" where
  "toggle_inspector ui = (let s = \<not> ui_ShowInspector ui in
     ui\<lparr>ui_ShowInspector := s, ui_Focus := (if \<not> s \<and> ui_Focus ui = FocusInspector then FocusWorker else ui_Focus ui)\<rparr>)"

definition toggle_proof :: "UIState \<Rightarrow> UIState" where
  "toggle_proof ui = (let s = \<not> ui_ShowProof ui in
     ui\<lparr>ui_ShowProof := s, ui_Focus := (if \<not> s \<and> ui_Focus ui = FocusActivity then FocusWorker else ui_Focus ui)\<rparr>)"

definition handleShellKey :: "char \<Rightarrow> UIState \<Rightarrow> keyAction \<times> UIState" where
  "handleShellKey key ui =
     (if key = CHR ''q'' \<or> key = CHR ''Q'' \<or> key = CHR 0x03 then (actionQuit, ui)
      else if key = CHR ''i'' \<or> key = CHR ''I'' then (actionNone, toggle_inspector ui)
      else if key = CHR ''p'' \<or> key = CHR ''P'' then (actionNone, toggle_proof ui)
      else if key = CHR ''r'' \<or> key = CHR ''R'' then (actionRefresh, ui)
      else if key = CHR ''a'' \<or> key = CHR ''A'' then (actionStageScratchAdoption, ui)
      else if key = CHR ''e'' \<or> key = CHR ''E'' then (actionEnterPendingTaskMessageEdit, ui)
      else if key = CHR ''m'' \<or> key = CHR ''M'' then (actionSendPendingTaskMessage, ui)
      else if key = CHR ''n'' \<or> key = CHR ''N'' then (actionExecutePrimaryOperatorStep, ui)
      else if key = CHR ''x'' \<or> key = CHR ''X'' then (actionClearPendingTaskMessage, ui)
      else if key = CHR ''h'' \<or> key = CHR ''H'' then
        (actionNone, ui\<lparr>ui_ShowHelp := \<not> ui_ShowHelp ui, ui_ShowStatus := (if \<not> ui_ShowHelp ui then False else ui_ShowStatus ui)\<rparr>)
      else if key = CHR ''s'' \<or> key = CHR ''S'' then
        (actionNone, ui\<lparr>ui_ShowStatus := \<not> ui_ShowStatus ui, ui_ShowHelp := (if \<not> ui_ShowStatus ui then False else ui_ShowHelp ui)\<rparr>)
      else if key = CHR 0x09 then (actionNone, ui\<lparr>ui_Focus := nextFocus ui\<rparr>)
      else (actionNone, ui))"

definition isPrintableKey :: "char \<Rightarrow> bool" where
  "isPrintableKey key \<longleftrightarrow> 32 \<le> (of_char key :: nat) \<and> (of_char key :: nat) < 127"

definition unavailableInputMessage :: "HostStatus \<Rightarrow> string" where
  "unavailableInputMessage st = (case hst_State st of
     HostStateFallback \<Rightarrow> ''worker session is in transcript fallback mode; live input is unavailable''
   | HostStateTranscriptOnly \<Rightarrow> ''worker session is transcript-only; live input is unavailable''
   | HostStateExited \<Rightarrow> (case hst_ExitCode st of
        Some c \<Rightarrow> ''worker session exited with code '' @ itoa c @ ''; live input is unavailable''
      | None \<Rightarrow> ''worker session exited; live input is unavailable'')
   | HostStateFailed \<Rightarrow> ''worker session failed; live input is unavailable''
   | HostStateStarting \<Rightarrow> ''worker session is still starting; try again in a moment''
   | _ \<Rightarrow> ''worker input is unavailable'')"

section \<open>The staged task message\<close>

definition resetPendingTaskMessageEditMode :: "UIState \<Rightarrow> UIState" where
  "resetPendingTaskMessageEditMode ui = ui\<lparr>ui_PendingTaskMessageEditMode := False,
     ui_PendingTaskMessageEditBuffer := [], ui_PendingTaskMessageEditOriginal := []\<rparr>"

definition currentPendingTaskMessage :: "UIState \<Rightarrow> string" where
  "currentPendingTaskMessage ui = (if ui_PendingTaskMessageEditMode ui then ui_PendingTaskMessageEditBuffer ui
     else ui_PendingTaskMessage ui)"

definition isEffectivelyEmptyPendingTaskMessage :: "string \<Rightarrow> bool" where
  "isEffectivelyEmptyPendingTaskMessage m \<longleftrightarrow> TrimSpace m = []"

text \<open>
  The length in bytes of the last rune of a string (\<open>utf8.DecodeLastRuneInString\<close>): an ASCII byte, a
  well-formed sequence of two to four bytes, or one byte that belongs to none.
\<close>

definition cont_byte :: "char \<Rightarrow> bool" where
  "cont_byte c \<longleftrightarrow> 128 \<le> (of_char c :: nat) \<and> (of_char c :: nat) < 192"

text \<open>The number of bytes a lead byte announces, with the range of the byte after it.\<close>

definition lead_byte :: "char \<Rightarrow> nat \<times> nat \<times> nat" where
  "lead_byte c = (let n = (of_char c :: nat) in
     if 194 \<le> n \<and> n < 224 then (2, 128, 191)
     else if n = 224 then (3, 160, 191) else if n = 237 then (3, 128, 159)
     else if 225 \<le> n \<and> n < 240 then (3, 128, 191)
     else if n = 240 then (4, 144, 191) else if n = 244 then (4, 128, 143)
     else if 241 \<le> n \<and> n < 244 then (4, 128, 191) else (0, 1, 0))"

definition rune_bytes :: "string \<Rightarrow> bool" where
  "rune_bytes s = (case s of
     c # d # rest \<Rightarrow> (case lead_byte c of (n, low, high) \<Rightarrow>
       length s = n \<and> low \<le> (of_char d :: nat) \<and> (of_char d :: nat) \<le> high \<and> list_all cont_byte rest)
   | _ \<Rightarrow> False)"

definition last_rune_size :: "string \<Rightarrow> nat" where
  "last_rune_size s =
     (let final = (\<lambda>k. drop (length s - k) s) in
      if s = [] then 0
      else if rune_bytes (final 2) \<and> 2 \<le> length s then 2
      else if rune_bytes (final 3) \<and> 3 \<le> length s then 3
      else if rune_bytes (final 4) \<and> 4 \<le> length s then 4 else 1)"

text \<open>
  \<open>string(key)\<close> of a byte: the rune of that number, encoded; from 128 on it takes two bytes.
\<close>

definition byte_rune :: "char \<Rightarrow> string" where
  "byte_rune c = (let n = (of_char c :: nat) in if n < 128 then [c] else [char_of (192 + n div 64), char_of (128 + n mod 64)])"

definition applyPendingTaskMessageEditInput :: "char \<Rightarrow> UIState \<Rightarrow> bool \<times> UIState" where
  "applyPendingTaskMessageEditInput key ui =
     (let b = ui_PendingTaskMessageEditBuffer ui; put = (\<lambda>t. (True, ui\<lparr>ui_PendingTaskMessageEditBuffer := t\<rparr>)) in
      if \<not> ui_PendingTaskMessageEditMode ui then (False, ui)
      else if key = CHR 0x0D \<or> key = CHR 0x0A then put (b @ [CHR 0x0A])
      else if key = CHR 0x7F \<or> key = CHR 0x08 then
        (if b = [] \<or> last_rune_size b = 0 then (True, ui) else put (take (length b - last_rune_size b) b))
      else if 32 \<le> (of_char key :: nat) then put (b @ byte_rune key)
      else (False, ui))"

definition buildLocalScratchAdoptionDraft :: "TuiSnapshot \<Rightarrow> go_error + string" where
  "buildLocalScratchAdoptionDraft s =
     (case snp_LocalScratch s of
        None \<Rightarrow> Inl (ErrMsg ''no surfaced local scratch notes are available to stage'')
      | Some c \<Rightarrow> if \<not> HasLocalScratchAdoption s
          then Inl (ErrMsg ''no surfaced local scratch notes are available to stage'')
          else Inr (str_join
            ([''Explicitly adopt these local scratch intake notes into this repo-backed Tuku task:'', []]
             @ map (\<lambda>b. ''- '' @ b) (filter (\<lambda>b. b \<noteq> []) (map (\<lambda>n. TrimSpace (tci_Body n)) (tlsc_Notes c)))
             @ [[], ''These notes came from local scratch history for this repo root. I am explicitly adopting them into canonical task continuity now.''])
            [CHR 0x0A]))"

text \<open>Every operation on the message returns its error and the state it leaves.\<close>

definition stagePendingTaskMessageFromLocalScratch :: "go_time \<Rightarrow> TuiSnapshot \<Rightarrow> UIState \<Rightarrow> go_error option \<times> UIState" where
  "stagePendingTaskMessageFromLocalScratch now s ui = (case buildLocalScratchAdoptionDraft s of
     Inl e \<Rightarrow> (Some e, ui)
   | Inr draft \<Rightarrow> (None, add_event now SessionEventPendingMessageStaged
       ''Staged pending task message from local scratch intake notes.''
       (resetPendingTaskMessageEditMode
         (ui\<lparr>ui_PendingTaskMessage := draft, ui_PendingTaskMessageSource := ''local_scratch_adoption''\<rparr>))))"

text \<open>
  \<open>sender\<close>: absent, or the answer to sending. The message handed to it is part of the result.
\<close>

definition sendPendingTaskMessage ::
  "go_time \<Rightarrow> (string \<Rightarrow> string \<Rightarrow> go_error option) option \<Rightarrow> string \<Rightarrow> UIState
     \<Rightarrow> go_error option \<times> string option \<times> UIState" where
  "sendPendingTaskMessage now sender task ui =
     (if TrimSpace task = [] then
        (Some (ErrMsg ''pending task message cannot be sent because this shell is not attached to a task''), None, ui)
      else case sender of
        None \<Rightarrow> (Some (ErrMsg ''pending task message cannot be sent because no task-message sender is configured''), None, ui)
      | Some send \<Rightarrow>
          let m = currentPendingTaskMessage ui in
          if isEffectivelyEmptyPendingTaskMessage m then (Some (ErrMsg ''no pending task message is staged''), None, ui)
          else (case send task m of
              Some e \<Rightarrow> (Some e, Some m, ui)
            | None \<Rightarrow> (None, Some m, resetPendingTaskMessageEditMode
                ((add_event now SessionEventPendingMessageSent ''Sent pending task message to Tuku canonical continuity.'' ui)
                  \<lparr>ui_PendingTaskMessage := [], ui_PendingTaskMessageSource := []\<rparr>))))"

definition clearPendingTaskMessage :: "go_time \<Rightarrow> UIState \<Rightarrow> UIState" where
  "clearPendingTaskMessage now ui =
     (if isEffectivelyEmptyPendingTaskMessage (ui_PendingTaskMessage ui) \<and> \<not> ui_PendingTaskMessageEditMode ui then ui
      else add_event now SessionEventPendingMessageCleared ''Cleared pending task message.''
        (resetPendingTaskMessageEditMode (ui\<lparr>ui_PendingTaskMessage := [], ui_PendingTaskMessageSource := []\<rparr>)))"

definition enterPendingTaskMessageEditMode :: "go_time \<Rightarrow> UIState \<Rightarrow> go_error option \<times> UIState" where
  "enterPendingTaskMessageEditMode now ui =
     (if ui_PendingTaskMessageEditMode ui then (Some (ErrMsg ''pending task message edit mode is already active''), ui)
      else if isEffectivelyEmptyPendingTaskMessage (ui_PendingTaskMessage ui)
      then (Some (ErrMsg ''no pending task message is staged''), ui)
      else (None, add_event now SessionEventPendingMessageEditStarted
        ''Pending task message edit mode is active. Draft changes remain shell-local until explicit send.''
        (ui\<lparr>ui_PendingTaskMessageEditMode := True, ui_PendingTaskMessageEditOriginal := ui_PendingTaskMessage ui,
            ui_PendingTaskMessageEditBuffer := ui_PendingTaskMessage ui\<rparr>)))"

definition savePendingTaskMessageEditMode :: "go_time \<Rightarrow> UIState \<Rightarrow> go_error option \<times> UIState" where
  "savePendingTaskMessageEditMode now ui =
     (if \<not> ui_PendingTaskMessageEditMode ui then (Some (ErrMsg ''pending task message edit mode is not active''), ui)
      else (None, add_event now SessionEventPendingMessageEditSaved
        ''Saved pending task message edits. Draft remains shell-local until explicit send.''
        (resetPendingTaskMessageEditMode (ui\<lparr>ui_PendingTaskMessage := ui_PendingTaskMessageEditBuffer ui\<rparr>))))"

definition cancelPendingTaskMessageEditMode :: "go_time \<Rightarrow> UIState \<Rightarrow> go_error option \<times> UIState" where
  "cancelPendingTaskMessageEditMode now ui =
     (if \<not> ui_PendingTaskMessageEditMode ui then (Some (ErrMsg ''pending task message edit mode is not active''), ui)
      else (None, add_event now SessionEventPendingMessageEditCanceled
        ''Canceled pending task message edits and restored the saved draft.''
        (resetPendingTaskMessageEditMode (ui\<lparr>ui_PendingTaskMessage := ui_PendingTaskMessageEditOriginal ui\<rparr>))))"

section \<open>Where a key goes\<close>

definition routePendingTaskMessageEditKey :: "char \<Rightarrow> UIState \<Rightarrow> keyAction \<times> UIState" where
  "routePendingTaskMessageEditKey key ui =
     (if ui_EscapePrefix ui then
        (let ui1 = ui\<lparr>ui_EscapePrefix := False\<rparr> in
         if key = CHR ''s'' \<or> key = CHR ''S'' then (actionSavePendingTaskMessageEdit, ui1)
         else if key = CHR ''c'' \<or> key = CHR ''C'' then (actionCancelPendingTaskMessageEdit, ui1)
         else handleShellKey key ui1)
      else if key = CHR 0x07 then (actionNone, ui\<lparr>ui_EscapePrefix := True\<rparr>)
      else case applyPendingTaskMessageEditInput key ui of
        (taken, ui1) \<Rightarrow> (actionNone, if taken then ui1\<lparr>ui_LastError := []\<rparr> else ui1))"

definition routeKey :: "HostEnv \<Rightarrow> char \<Rightarrow> UIState \<times> Host \<Rightarrow> keyAction \<times> UIState \<times> Host" where
  "routeKey E key = (\<lambda>(ui, host).
     let shell = (\<lambda>u h. case handleShellKey key u of (a, u') \<Rightarrow> (a, u', h)) in
     if ui_PendingTaskMessageEditMode ui \<and> ui_Focus ui = FocusWorker then
       (case routePendingTaskMessageEditKey key ui of (a, u') \<Rightarrow> (a, u', host))
     else if ui_Focus ui \<noteq> FocusWorker then shell ui host
     else if ui_EscapePrefix ui then shell (ui\<lparr>ui_EscapePrefix := False\<rparr>) host
     else if key = CHR 0x07 then (actionNone, ui\<lparr>ui_EscapePrefix := True\<rparr>, host)
     else case (if host_CanAcceptInput host then host_WriteInput E [key] host else (False, host)) of
       (True, host1) \<Rightarrow> (actionNone, ui\<lparr>ui_LastError := []\<rparr>, host1)
     | (False, host1) \<Rightarrow> (case handleShellKey key ui of (a, ui1) \<Rightarrow>
         if a \<noteq> actionNone then (a, ui1, host1)
         else if isPrintableKey key
         then (actionNone, ui1\<lparr>ui_LastError := unavailableInputMessage (host_Status host1)\<rparr>, host1)
         else shell ui1 host1))"

section \<open>Refreshing\<close>

text \<open>\<open>load\<close> and \<open>known\<close>: what the snapshot source and the session registry answer.\<close>

definition reloadShellSnapshot ::
  "HostEnv \<Rightarrow> go_error + TuiSnapshot \<Rightarrow> (go_error + KnownShellSession list) option \<Rightarrow> bool
     \<Rightarrow> TuiSnapshot \<times> Host \<times> UIState \<Rightarrow> go_error option \<times> TuiSnapshot \<times> Host \<times> UIState" where
  "reloadShellSnapshot E load known manual = (\<lambda>(s, host, ui).
     case load of
       Inl e \<Rightarrow> (Some e, s, host, ui)
     | Inr next' \<Rightarrow>
         let ui1 = ui\<lparr>ui_LastRefresh := he_now E\<rparr>;
             ui2 = (if manual then add_event (he_now E) SessionEventManualRefresh ''Manual shell refresh completed.'' ui1 else ui1) in
         (case loadKnownShellSessions known ui2 of (failed, ui3) \<Rightarrow>
            (map_option (ErrWrap ''shell session registry read failed: '') failed, next', host_UpdateSnapshot E next' host, ui3)))"

section \<open>The primary operator step\<close>

definition executablePrimaryStep :: "TuiSnapshot \<Rightarrow> go_error + TuiOperatorExecutionStep" where
  "executablePrimaryStep s = (case primary_step s of
     None \<Rightarrow> Inl (ErrMsg ''no primary operator step is currently available'')
   | Some x \<Rightarrow> if tst_CommandSurface x \<noteq> ''DEDICATED'' then
       Inl (ErrMsg (''primary operator step '' @ (if tst_Action x = [] then ''action'' else tst_Action x)
         @ '' is guidance-only and cannot be executed directly from the shell''))
     else Inr x)"

text \<open>\<open>executePrimaryStepIPC\<close>: the daemon executes the step that is primary when it gets the request.\<close>

definition executePrimaryStepIPC ::
  "go_error + OperatorStepReceiptSummary \<Rightarrow> TuiOperatorExecutionStep \<Rightarrow> go_error + OperatorStepReceiptSummary" where
  "executePrimaryStepIPC answer step = (case answer of
     Inl e \<Rightarrow> Inl e
   | Inr r \<Rightarrow> let label = (\<lambda>a. if a = [] then ''action'' else a) in
       if tosrs_ActionHandle r = [] then Inl (ErrMsg ''primary operator step execution returned no durable receipt'')
       else if tosrs_ActionHandle r \<noteq> tst_Action step then
         Inl (ErrMsg (''primary operator step changed during execution from '' @ label (tst_Action step)
           @ '' to '' @ label (tosrs_ActionHandle r)))
       else Inr r)"

text \<open>What the execution in the background delivers (\<open>primaryActionExecutionResult\<close>).\<close>

record PrimaryDone =
  pd_outcome :: "go_error + OperatorStepReceiptSummary"
  pd_step :: TuiOperatorExecutionStep
  pd_before :: TuiSnapshot
  pd_finishedAt :: go_time

definition startPrimaryOperatorStepExecution ::
  "go_time \<Rightarrow> bool \<Rightarrow> string \<Rightarrow> TuiSnapshot \<Rightarrow> UIState
     \<Rightarrow> (go_error + TuiOperatorExecutionStep \<times> TuiSnapshot) \<times> UIState" where
  "startPrimaryOperatorStepExecution now executor task s ui =
     (if TrimSpace task = [] then
        (Inl (ErrMsg ''primary operator step cannot run because this shell is not attached to a task''), ui)
      else if \<not> executor then
        (Inl (ErrMsg ''primary operator step cannot run because no shell action executor is configured''), ui)
      else case ui_PrimaryActionInFlight ui of
        Some p \<Rightarrow> (Inl (ErrMsg (''primary operator step '' @ operatorActionDisplayName (tpaifs_Action p) @ '' is already in progress'')), ui)
      | None \<Rightarrow> (case executablePrimaryStep s of
          Inl e \<Rightarrow> (Inl e, ui)
        | Inr x \<Rightarrow> (Inr (x, s), add_event now SessionEventPrimaryOperatorActionStarted
            (''Executing primary operator step '' @ ToLower (tst_Action x) @ '' through Tuku control-plane IPC.'')
            (ui\<lparr>ui_PrimaryActionInFlight := Some \<lparr>tpaifs_Action = tst_Action x, tpaifs_StartedAt = now\<rparr>\<rparr>))))"

definition with_result :: "go_time \<Rightarrow> SessionEventType \<Rightarrow> (PrimaryActionResultSummary \<Rightarrow> string) \<Rightarrow> PrimaryActionResultSummary \<Rightarrow> UIState \<Rightarrow> UIState" where
  "with_result now typ' say r ui = add_event now typ' (say r) (ui\<lparr>ui_LastPrimaryActionResult := Some r\<rparr>)"

definition failure_line :: "PrimaryActionResultSummary \<Rightarrow> string" where
  "failure_line r = tpars_Summary r @ ''. '' @ truncateWithEllipsis (tpars_ErrorText r) 96"

definition success_line :: "PrimaryActionResultSummary \<Rightarrow> string" where
  "success_line r = tpars_Summary r @ (let n = TrimSpace (tpars_NextStep r) in
     if n \<noteq> [] \<and> n \<noteq> ''none'' then ''. next '' @ n else [])"

definition completePrimaryOperatorStepExecution ::
  "HostEnv \<Rightarrow> go_error + TuiSnapshot \<Rightarrow> (go_error + KnownShellSession list) option \<Rightarrow> PrimaryDone
     \<Rightarrow> TuiSnapshot \<times> Host \<times> UIState \<Rightarrow> go_error option \<times> TuiSnapshot \<times> Host \<times> UIState" where
  "completePrimaryOperatorStepExecution E load known d = (\<lambda>(s, host, ui).
     let now = he_now E; step = pd_step d; action = ToLower (tst_Action step);
         ui0 = ui\<lparr>ui_PrimaryActionInFlight := None\<rparr> in
     case pd_outcome d of
       Inl e \<Rightarrow> (Some (ErrWrap (''primary operator step '' @ action @ '' failed: '') e), s, host,
         with_result now SessionEventPrimaryOperatorActionFailed failure_line
           (failedPrimaryActionResult step e (pd_finishedAt d)) ui0)
     | Inr receipt \<Rightarrow> (case reloadShellSnapshot E load known True (s, host, ui0) of
         (Some e, s1, host1, ui1) \<Rightarrow>
           let e' = ErrWrap ''primary operator step ran, but shell refresh failed: '' e in
           (Some e', s1, host1, with_result now SessionEventPrimaryOperatorActionFailed failure_line
             (failedPrimaryActionResult step e' (pd_finishedAt d)) ui1)
       | (None, s1, host1, ui1) \<Rightarrow>
           let r = (if receiptIsFailure receipt then failedPrimaryActionResultWithReceipt step receipt (pd_finishedAt d)
                    else successfulPrimaryActionResult step (pd_before d) s1 receipt (pd_finishedAt d)) in
           (if receiptIsFailure receipt then Some (ErrMsg (''primary operator step '' @ action @ '' ''
                @ ToLower (nonBlank (tosrs_ResultClass receipt) ''failed'') @ '': ''
                @ nonBlank (tosrs_Reason receipt) (tosrs_Summary receipt)))
            else None, s1, host1, with_result now SessionEventPrimaryOperatorActionExecuted success_line r ui1)))"

section \<open>The life of the host\<close>

definition hostStatusChanged :: "HostStatus \<Rightarrow> HostStatus \<Rightarrow> bool" where
  "hostStatusChanged a b \<longleftrightarrow> hst_Mode a \<noteq> hst_Mode b \<or> hst_State a \<noteq> hst_State b \<or> hst_InputLive a \<noteq> hst_InputLive b
     \<or> hst_Note a \<noteq> hst_Note b \<or> hst_WorkerSessionID a \<noteq> hst_WorkerSessionID b
     \<or> hst_WorkerSessionIDSource a \<noteq> hst_WorkerSessionIDSource b \<or> hst_Width a \<noteq> hst_Width b
     \<or> hst_Height a \<noteq> hst_Height b \<or> hst_ExitCode a \<noteq> hst_ExitCode b"

datatype PersistedLifecycleKind =
    PersistedLifecycleHostStarted | PersistedLifecycleHostExited | PersistedLifecycleFallback
  | PersistedLifecycleReattachRequested | PersistedLifecycleReattachFailed

text \<open>\<open>sink\<close>: absent, or the answer to a record; what is recorded is part of the result.\<close>

definition recordLifecycle ::
  "go_error option option \<Rightarrow> PersistedLifecycleKind \<Rightarrow> HostStatus \<Rightarrow> UIState
     \<Rightarrow> (PersistedLifecycleKind \<times> HostStatus) list \<times> UIState" where
  "recordLifecycle sink kind st ui = (case sink of
     None \<Rightarrow> ([], ui)
   | Some answer \<Rightarrow>
       let st1 = (if TrimSpace (hst_WorkerSessionID st) = []
             then st\<lparr>hst_WorkerSessionID := TrimSpace (sx_WorkerSessionID (ui_Session ui))\<rparr> else st);
           st2 = st1\<lparr>hst_WorkerSessionIDSource := normalizeWorkerSessionIDSource (hst_WorkerSessionIDSource st1) (hst_WorkerSessionID st1)\<rparr> in
       ([(kind, st2)], case answer of None \<Rightarrow> ui
          | Some e \<Rightarrow> ui\<lparr>ui_LastError := ''shell lifecycle proof bridge failed: '' @ err_text e\<rparr>))"

text \<open>What a change into a state is called in the journal and in the durable record.\<close>

definition lifecycle_entry :: "HostStatus \<Rightarrow> (SessionEventType \<times> string \<times> PersistedLifecycleKind) option" where
  "lifecycle_entry st = (case hst_State st of
     HostStateLive \<Rightarrow> Some (SessionEventHostLive, ''Live worker host is active.'', PersistedLifecycleHostStarted)
   | HostStateExited \<Rightarrow> Some (SessionEventHostExited, (case hst_ExitCode st of None \<Rightarrow> ''Live worker host ended.''
        | Some c \<Rightarrow> ''Live worker host ended with exit code '' @ itoa c @ ''.''), PersistedLifecycleHostExited)
   | HostStateFailed \<Rightarrow> Some (SessionEventHostFailed, (if hst_Note st \<noteq> [] then ''Live worker host failed: '' @ hst_Note st
        else ''Live worker host failed.''), PersistedLifecycleHostExited)
   | HostStateFallback \<Rightarrow> Some (SessionEventFallbackActivated, (if hst_Note st \<noteq> [] then hst_Note st
        else ''Transcript fallback is active.''), PersistedLifecycleFallback)
   | _ \<Rightarrow> None)"

definition captureHostLifecycle ::
  "go_time \<Rightarrow> go_error option option \<Rightarrow> HostState \<Rightarrow> HostStatus \<Rightarrow> UIState
     \<Rightarrow> (PersistedLifecycleKind \<times> HostStatus) list \<times> UIState" where
  "captureHostLifecycle now sink previous st ui = (case lifecycle_entry st of
     None \<Rightarrow> ([], ui)
   | Some (typ', summary, kind) \<Rightarrow> if previous = hst_State st then ([], ui)
       else recordLifecycle sink kind st (add_event now typ' summary ui))"

definition applyHostResize :: "HostEnv \<Rightarrow> int \<times> int \<Rightarrow> UIState \<Rightarrow> Host \<Rightarrow> bool \<times> Host" where
  "applyHostResize E size' ui host =
     (case workerContentSize (computeShellLayout (fst size') (snd size') (ui_ShowInspector ui) (ui_ShowProof ui)) of
        (w, h) \<Rightarrow> host_Resize E w h host)"

text \<open>\<open>sink\<close>: absent, or the answer to an append; the chunks handed over are part of the result.\<close>

definition flushTranscriptEvidence ::
  "go_error option option \<Rightarrow> Host \<Rightarrow> UIState \<Rightarrow> TranscriptEvidenceChunk list \<times> Host \<times> UIState" where
  "flushTranscriptEvidence sink host ui = (case sink of
     None \<Rightarrow> ([], host, ui)
   | Some answer \<Rightarrow> (case host_Drain 80 host of (chunks, host1) \<Rightarrow>
       if chunks = [] then ([], host1, ui)
       else (chunks, host1, case answer of None \<Rightarrow> ui
         | Some e \<Rightarrow> ui\<lparr>ui_LastError := ''shell transcript evidence append failed: '' @ err_text e\<rparr>)))"

section \<open>The main loop\<close>

text \<open>
  \<open>apx_startStatus\<close> is the status of the host when it was started, \<open>apx_replaced\<close> that host once another
  has taken its place: what \<open>Run\<close> defers to its end refers to them.
\<close>

record App =
  apx_TaskID :: string
  apx_ui :: UIState
  apx_snapshot :: TuiSnapshot
  apx_host :: Host
  apx_fallback :: "Host option"
  apx_lastStatus :: HostStatus
  apx_lastSize :: "int \<times> int"
  apx_running :: "(TuiOperatorExecutionStep \<times> TuiSnapshot) option"
  apx_startStatus :: HostStatus
  apx_replaced :: "Host option"

text \<open>What the world answers in one turn of the loop. The sinks are absent or answer.\<close>

record Turn =
  tun_env :: HostEnv
  tun_size :: "int \<times> int"
  tun_load :: "go_error + TuiSnapshot"
  tun_known :: "(go_error + KnownShellSession list) option"
  tun_sender :: "(string \<Rightarrow> string \<Rightarrow> go_error option) option"
  tun_executor :: bool
  tun_lifecycle :: "go_error option option"
  tun_registry :: "(SessionRegistryReport \<Rightarrow> go_error option) option"
  tun_transcript :: "go_error option option"
  tun_none :: TuiSnapshot

datatype AppEvent = KeyPressed char | KeysClosed | ActionDone PrimaryDone | SnapshotTick | RegistryTick
  | TranscriptTick | FrameTick

text \<open>How a turn goes on after its event: to the end of the turn, to the next turn, or out of the loop.\<close>

datatype Flow = Proceed | NextTurn | Leave

definition with_error :: "go_error option \<Rightarrow> UIState \<Rightarrow> UIState" where
  "with_error e ui = ui\<lparr>ui_LastError := (case e of None \<Rightarrow> [] | Some x \<Rightarrow> err_text x)\<rparr>"

definition on_ui :: "(UIState \<Rightarrow> go_error option \<times> UIState) \<Rightarrow> App \<Rightarrow> App" where
  "on_ui f app = (case f (apx_ui app) of (e, ui) \<Rightarrow> app\<lparr>apx_ui := with_error e ui\<rparr>)"

definition send_action :: "Turn \<Rightarrow> App \<Rightarrow> App" where
  "send_action T app =
     (let E = tun_env T in
      case sendPendingTaskMessage (he_now E) (tun_sender T) (apx_TaskID app) (apx_ui app) of
        (Some e, _, ui) \<Rightarrow> app\<lparr>apx_ui := with_error (Some e) ui\<rparr>
      | (None, _, ui) \<Rightarrow> (case tun_load T of
          Inl e \<Rightarrow> app\<lparr>apx_ui := ui\<lparr>ui_LastRefresh := he_now E,
            ui_LastError := ''task message sent, but shell refresh failed: '' @ err_text e\<rparr>\<rparr>
        | Inr s \<Rightarrow> (case loadKnownShellSessions (tun_known T) (ui\<lparr>ui_LastRefresh := he_now E, ui_LastError := []\<rparr>) of
            (failed, ui1) \<Rightarrow> app\<lparr>apx_snapshot := s, apx_host := host_UpdateSnapshot E s (apx_host app),
              apx_ui := (case failed of None \<Rightarrow> ui1
                | Some e \<Rightarrow> ui1\<lparr>ui_LastError := ''shell session registry read failed: '' @ err_text e\<rparr>)\<rparr>)))"

definition execute_action :: "Turn \<Rightarrow> App \<Rightarrow> App" where
  "execute_action T app =
     (case startPrimaryOperatorStepExecution (he_now (tun_env T)) (tun_executor T) (apx_TaskID app) (apx_snapshot app) (apx_ui app) of
        (Inl e, ui) \<Rightarrow> app\<lparr>apx_ui := with_error (Some e) ui\<rparr>
      | (Inr started, ui) \<Rightarrow> app\<lparr>apx_ui := with_error None ui, apx_running := Some started\<rparr>)"

definition reloaded :: "go_error option \<times> TuiSnapshot \<times> Host \<times> UIState \<Rightarrow> App \<Rightarrow> App" where
  "reloaded r app = (case r of (e, s, host, ui) \<Rightarrow> app\<lparr>apx_snapshot := s, apx_host := host, apx_ui := with_error e ui\<rparr>)"

definition reload :: "Turn \<Rightarrow> bool \<Rightarrow> App \<Rightarrow> App" where
  "reload T manual app = reloaded (reloadShellSnapshot (tun_env T) (tun_load T) (tun_known T) manual
     (apx_snapshot app, apx_host app, apx_ui app)) app"

definition do_action :: "Turn \<Rightarrow> keyAction \<Rightarrow> App \<Rightarrow> App" where
  "do_action T a app = (let now = he_now (tun_env T) in case a of
     actionNone \<Rightarrow> app
   | actionQuit \<Rightarrow> app
   | actionRefresh \<Rightarrow> reload T True app
   | actionStageScratchAdoption \<Rightarrow> on_ui (stagePendingTaskMessageFromLocalScratch now (apx_snapshot app)) app
   | actionEnterPendingTaskMessageEdit \<Rightarrow> on_ui (enterPendingTaskMessageEditMode now) app
   | actionSavePendingTaskMessageEdit \<Rightarrow> on_ui (savePendingTaskMessageEditMode now) app
   | actionCancelPendingTaskMessageEdit \<Rightarrow> on_ui (cancelPendingTaskMessageEditMode now) app
   | actionSendPendingTaskMessage \<Rightarrow> send_action T app
   | actionClearPendingTaskMessage \<Rightarrow> app\<lparr>apx_ui := clearPendingTaskMessage now (apx_ui app)\<rparr>
   | actionExecutePrimaryOperatorStep \<Rightarrow> execute_action T app)"

text \<open>The event of a turn. A refresh that fails on the snapshot tick skips the rest of the turn.\<close>

definition app_event :: "Turn \<Rightarrow> AppEvent \<Rightarrow> App \<Rightarrow> Flow \<times> App" where
  "app_event T ev app = (let E = tun_env T in case ev of
     KeyPressed key \<Rightarrow> (case routeKey E key (apx_ui app, apx_host app) of (a, ui, host) \<Rightarrow>
       let app1 = app\<lparr>apx_ui := ui, apx_host := host\<rparr> in
       if a = actionQuit then (Leave, app1) else (Proceed, do_action T a app1))
   | KeysClosed \<Rightarrow> (Leave, app)
   | ActionDone d \<Rightarrow> (Proceed, (reloaded (completePrimaryOperatorStepExecution E (tun_load T) (tun_known T) d
       (apx_snapshot app, apx_host app, apx_ui app)) app)\<lparr>apx_running := None\<rparr>)
   | SnapshotTick \<Rightarrow> (case reloadShellSnapshot E (tun_load T) (tun_known T) False (apx_snapshot app, apx_host app, apx_ui app) of
       (None, r) \<Rightarrow> (Proceed, reloaded (None, r) app) | (Some e, r) \<Rightarrow> (NextTurn, reloaded (Some e, r) app))
   | RegistryTick \<Rightarrow> (Proceed, app\<lparr>apx_ui := snd (reportShellSession (tun_registry T) (apx_TaskID app)
       (host_Status (apx_host app)) True (apx_ui app))\<rparr>)
   | TranscriptTick \<Rightarrow> (case flushTranscriptEvidence (tun_transcript T) (apx_host app) (apx_ui app) of
       (_, host, ui) \<Rightarrow> (Proceed, app\<lparr>apx_host := host, apx_ui := ui\<rparr>))
   | FrameTick \<Rightarrow> (Proceed, app))"

definition app_resize :: "Turn \<Rightarrow> App \<Rightarrow> App" where
  "app_resize T app =
     (if tun_size T = apx_lastSize app then app
      else case applyHostResize (tun_env T) (tun_size T) (apx_ui app) (apx_host app) of (applied, host) \<Rightarrow>
        let st = host_Status host in
        app\<lparr>apx_host := host, apx_lastSize := tun_size T,
          apx_ui := (if applied then add_event (he_now (tun_env T)) SessionEventResizeApplied
            (''Resized live worker pane to '' @ itoa (hst_Width st) @ ''x'' @ itoa (hst_Height st) @ ''.'') (apx_ui app)
            else apx_ui app)\<rparr>)"

definition app_capture :: "Turn \<Rightarrow> HostState \<Rightarrow> HostStatus \<Rightarrow> UIState \<Rightarrow> UIState" where
  "app_capture T previous st ui = snd (captureHostLifecycle (he_now (tun_env T)) (tun_lifecycle T) previous st ui)"

definition app_report :: "Turn \<Rightarrow> string \<Rightarrow> HostStatus \<Rightarrow> UIState \<Rightarrow> UIState" where
  "app_report T task st ui = snd (reportShellSession (tun_registry T) task st True ui)"

text \<open>The end of a turn: resize, life cycle, replacement of a host that has ended.\<close>

definition app_rest :: "Turn \<Rightarrow> App \<Rightarrow> App" where
  "app_rest T app0 =
     (let E = tun_env T; app = app_resize T app0; task = apx_TaskID app; current = host_Status (apx_host app);
          ui1 = app_capture T (hst_State (apx_lastStatus app)) current (apx_ui app);
          ui2 = (if hostStatusChanged (apx_lastStatus app) current then app_report T task current ui1 else ui1) in
      case transitionExitedHost E (tun_none T) (apx_host app) (apx_fallback app) (apx_snapshot app) of
        (host, note, False) \<Rightarrow> app\<lparr>apx_ui := ui2\<lparr>ui_ObservedAt := he_now E\<rparr>, apx_lastStatus := host_Status (apx_host app)\<rparr>
      | (host, note, True) \<Rightarrow> (case flushTranscriptEvidence (tun_transcript T) (apx_host app) ui2 of (_, old, ui3) \<Rightarrow>
          let host1 = snd (applyHostResize E (apx_lastSize app) ui3 host); st = host_Status host1;
              ui4 = (if note \<noteq> [] then ui3\<lparr>ui_LastError := note\<rparr> else ui3);
              ui5 = app_report T task st (app_capture T (hst_State current) st ui4) in
          app\<lparr>apx_ui := ui5\<lparr>ui_ObservedAt := he_now E\<rparr>, apx_host := host1, apx_lastStatus := st,
            apx_replaced := (case apx_replaced app of None \<Rightarrow> Some old | Some h \<Rightarrow> Some h)\<rparr>))"

definition app_turn :: "Turn \<Rightarrow> AppEvent \<Rightarrow> App \<Rightarrow> Flow \<times> App" where
  "app_turn T ev app = (case app_event T ev app of
     (Proceed, app1) \<Rightarrow> (Proceed, app_rest T app1) | r \<Rightarrow> r)"

section \<open>Starting and leaving\<close>

definition capturePriorPersistedShellOutcome :: "TuiSnapshot \<Rightarrow> string" where
  "capturePriorPersistedShellOutcome s =
     (case foldl (\<lambda>latest p. case latest of None \<Rightarrow> Some p
         | Some l \<Rightarrow> if tpi_Timestamp p > tpi_Timestamp l then Some p else latest) None
       (filter (\<lambda>p. tpi_Type p \<in> {''SHELL_HOST_STARTED'', ''SHELL_HOST_EXITED'', ''SHELL_FALLBACK_ACTIVATED''}) (snp_RecentProofs s)) of
        None \<Rightarrow> [] | Some p \<Rightarrow> tpi_Summary p)"

definition start_ui :: "go_time \<Rightarrow> WorkerPreference \<Rightarrow> TuiSnapshot \<Rightarrow> UIState" where
  "start_ui now preference s =
     (let ui0 = initialUIState now preference;
          ui1 = add_event now SessionEventShellStarted (''Shell session '' @ shortTaskID (sx_SessionID (ui_Session ui0)) @ '' started.'') ui0;
          prior = capturePriorPersistedShellOutcome s in
      if prior \<noteq> [] then add_event now SessionEventPriorPersistedProof (''Previous persisted shell outcome: '' @ prior)
        (ui1\<lparr>ui_Session := (ui_Session ui1)\<lparr>sx_PriorPersistedSummary := prior\<rparr>\<rparr>)
      else ui1)"

definition host_status :: "HostMode \<Rightarrow> HostState \<Rightarrow> string \<Rightarrow> string \<Rightarrow> WorkerSessionIDSource \<Rightarrow> HostStatus" where
  "host_status mode state nt i source =
     \<lparr>hst_Mode = mode, hst_State = state, hst_Label = [], hst_Note = nt, hst_WorkerSessionID = i,
      hst_WorkerSessionIDSource = source, hst_InputLive = False, hst_ExitCode = None, hst_Width = 0, hst_Height = 0,
      hst_LastOutputAt = 0, hst_StateChangedAt = 0\<rparr>"

definition target_status :: "string \<Rightarrow> KnownShellSession \<Rightarrow> HostStatus" where
  "target_status nt k = host_status (ks_HostMode k) (ks_HostState k) nt (ks_WorkerSessionID k) (ks_WorkerSessionIDSource k)"

text \<open>The session takes over the worker session of its target.\<close>

definition request_reattach ::
  "go_error option option \<Rightarrow> KnownShellSession \<Rightarrow> UIState \<Rightarrow> (PersistedLifecycleKind \<times> HostStatus) list \<times> UIState" where
  "request_reattach sink k ui =
     recordLifecycle sink PersistedLifecycleReattachRequested
       (target_status (''reattach requested using session '' @ ks_SessionID k) k)
       (add_event (ui_LastRefresh ui) SessionEventHostStartupAttempted
         (''Requested reattach to prior worker session '' @ truncateWithEllipsis (ks_WorkerSessionID k) 20
           @ '' via shell session '' @ shortTaskID (ks_SessionID k) @ ''.'')
         (ui\<lparr>ui_Session := (ui_Session ui)\<lparr>sx_WorkerSessionID := ks_WorkerSessionID k,
            sx_WorkerSessionIDSource := ks_WorkerSessionIDSource k, sx_AttachCapability := AttachCapabilityAttachable\<rparr>\<rparr>))"

text \<open>The fallback and the preferred host as starting the preferred host leaves them.\<close>

definition prepared_fallback :: "HostEnv \<Rightarrow> TuiSnapshot \<Rightarrow> Host \<Rightarrow> Host" where
  "prepared_fallback E s f = host_UpdateSnapshot E s (markTranscriptOnly (he_now E) [] f)"

definition tried_host :: "HostEnv \<Rightarrow> TuiSnapshot \<Rightarrow> Host option \<Rightarrow> TuiSnapshot \<Rightarrow> Host \<Rightarrow> Host" where
  "tried_host E none fallback s h =
     (case host_Start E s (prepared_fallback E s (case fallback of None \<Rightarrow> PaneHost (NewTranscriptHost none (he_now E)) | Some f \<Rightarrow> f)) of
        (Some e, _) \<Rightarrow> h | (None, _) \<Rightarrow> snd (host_Start E s (host_UpdateSnapshot E s h)))"

text \<open>From the chosen host to the first turn of the loop.\<close>

definition launch_host ::
  "Turn \<Rightarrow> string \<Rightarrow> Host option \<Rightarrow> TuiSnapshot \<Rightarrow> Host \<Rightarrow> WorkerPreference \<Rightarrow> UIState
     \<Rightarrow> (PersistedLifecycleKind \<times> HostStatus) list \<times> App" where
  "launch_host T task fallback s h resolved ui =
     (let E = tun_env T; now = he_now E;
          ui1 = app_report T task (host_Status h) (ui\<lparr>ui_Session := (ui_Session ui)\<lparr>sx_ResolvedWorker := resolved\<rparr>\<rparr>);
          (host, failed) = startPreferredHost E (tun_none T) (Some h) fallback s;
          label = TrimSpace (host_WorkerLabel (tried_host E (tun_none T) fallback s h));
          ui2 = add_event (ui_LastRefresh ui1) SessionEventHostStartupAttempted
            (''Attempted '' @ (if label \<noteq> [] then label else workerPreferenceLabel resolved) @ '' host startup.'') ui1;
          ui3 = (if failed \<noteq> [] then ui2\<lparr>ui_LastError := failed\<rparr> else ui2);
          host1 = snd (applyHostResize E (tun_size T) ui3 host); st = host_Status host1;
          (records, ui4) = captureHostLifecycle now (tun_lifecycle T) (HostStateOther []) st (app_report T task st ui3) in
      (records, \<lparr>apx_TaskID = task, apx_ui = ui4\<lparr>ui_ObservedAt := now\<rparr>, apx_snapshot = s, apx_host = host1,
         apx_fallback = map_option (\<lambda>f. snd (host_Start E s (prepared_fallback E s f))) fallback,
         apx_lastStatus = st, apx_lastSize = tun_size T, apx_running = None, apx_startStatus = host_Status host, apx_replaced = None\<rparr>))"

text \<open>
  \<open>Run\<close> up to its loop: the life-cycle records it writes, and its error or the application. \<open>settings\<close>
  and \<open>stamp\<close> are those of \<open>selectPreferredHost\<close> and \<open>resolveReattachTarget\<close>.
\<close>

definition app_start ::
  "(PtyKind \<Rightarrow> string \<times> string list) \<Rightarrow> (go_time \<Rightarrow> string) \<Rightarrow> Turn \<Rightarrow> string \<Rightarrow> WorkerPreference \<Rightarrow> string
     \<Rightarrow> Host option \<Rightarrow> Host option \<Rightarrow> (PersistedLifecycleKind \<times> HostStatus) list \<times> (go_error + App)" where
  "app_start settings stamp T task preference reattach given fallback =
     (let now = he_now (tun_env T); sink = tun_lifecycle T in
      case tun_load T of Inl e \<Rightarrow> ([], Inl e)
      | Inr s \<Rightarrow> (case loadKnownShellSessions (tun_known T) (start_ui now preference s) of (failed, ui1) \<Rightarrow>
          let ui2 = (case failed of None \<Rightarrow> ui1
                | Some e \<Rightarrow> ui1\<lparr>ui_LastError := ''shell session registry read failed: '' @ err_text e\<rparr>);
              resolved = (if isScratchIntakeSnapshot s then WorkerPreferenceAuto else resolveWorkerPreference preference s) in
          (case resolveReattachTarget stamp (TrimSpace reattach) (sx_KnownSessions (ui_Session ui2)) of
             Inl e \<Rightarrow> (fst (recordLifecycle sink PersistedLifecycleReattachFailed
               (host_status HostModeTranscript HostStateTranscriptOnly (err_text e) [] (WorkerSessionIDSourceOther [])) ui2), Inl e)
           | Inr target \<Rightarrow>
               let (records, ui3) = (case target of None \<Rightarrow> ([], ui2) | Some k \<Rightarrow> request_reattach sink k ui2);
                   wanted = (case target of None \<Rightarrow> preference | Some k \<Rightarrow>
                     if sessionPreferredWorker k \<noteq> WorkerPreferenceAuto then sessionPreferredWorker k else preference) in
               (case (case given of
                    Some h \<Rightarrow> Inr (h, if workerPreferenceFromHost (Some h) \<noteq> WorkerPreferenceAuto
                      then workerPreferenceFromHost (Some h) else resolved)
                  | None \<Rightarrow> selectPreferredHost settings (tun_none T) now wanted s) of
                  Inl e \<Rightarrow> (records, Inl e)
                | Inr (h, r) \<Rightarrow> (case target of
                    None \<Rightarrow> (case launch_host T task fallback s h r ui3 of (more', app) \<Rightarrow> (records @ more', Inr app))
                  | Some k \<Rightarrow> (case configureHostResumeSession (Some h) (ks_WorkerSessionID k) of
                      (True, Some h') \<Rightarrow> (case launch_host T task fallback s h' r ui3 of (more', app) \<Rightarrow> (records @ more', Inr app))
                    | _ \<Rightarrow> let e = ErrMsg (''shell session '' @ ks_SessionID k @ '' is attachable but ''
                          @ workerPreferenceLabel r @ '' host does not support reattach in this runtime'') in
                        (records @ fst (recordLifecycle sink PersistedLifecycleReattachFailed (target_status (err_text e) k) ui3), Inl e)))))))"

primrec host_Stop :: "go_error option \<Rightarrow> Host \<Rightarrow> Host" where
  "host_Stop kill (PtyHost h) = PtyHost (snd (pty_Stop kill h))"
| "host_Stop kill (PaneHost h) = PaneHost h"
| "host_Stop kill (ScratchHost f h) = ScratchHost f h"

text \<open>
  What \<open>Run\<close> defers, in the order it happens: the evidence of the host it started is flushed, the
  current host is stopped, and the session is reported as over. The arguments of the first and the
  last were evaluated when they were deferred: the started host and its status then.
\<close>

definition app_leave :: "Turn \<Rightarrow> go_error option \<Rightarrow> App \<Rightarrow> TranscriptEvidenceChunk list \<times> SessionRegistryReport option \<times> App" where
  "app_leave T kill app =
     (case flushTranscriptEvidence (tun_transcript T) (case apx_replaced app of None \<Rightarrow> apx_host app | Some h \<Rightarrow> h) (apx_ui app) of
        (chunks, flushed, ui1) \<Rightarrow>
          (case reportShellSession (tun_registry T) (apx_TaskID app) (apx_startStatus app) False ui1 of (r, ui2) \<Rightarrow>
             (chunks, r, case apx_replaced app of
                None \<Rightarrow> app\<lparr>apx_ui := ui2, apx_host := host_Stop kill flushed\<rparr>
              | Some h \<Rightarrow> app\<lparr>apx_ui := ui2, apx_host := host_Stop kill (apx_host app), apx_replaced := Some flushed\<rparr>)))"

end
