(* ===== verification/HostFacts.thy ===== *)
theory HostFacts
  imports ShellView
begin

text \<open>
  The life of a worker host: what its state, its buffers and its worker session id may become, whatever
  its process, its terminal and the shell do, and what the scratch host shows of its notes.
\<close>

section \<open>The events of a PTY host\<close>

text \<open>
  The shell starts a host once; its process ends once, while it runs. Everything else may happen at
  any time and in any order.
\<close>

datatype PtyEvent =
    Started HostEnv TuiSnapshot
  | Printed go_time string
  | StreamEnded go_time bool
  | Ended go_time bool int
  | Resized HostEnv int int
  | Typed bool string
  | Drained int
  | Stopped "go_error option"
  | Shown TuiSnapshot
  | Resumes string

primrec pty_event :: "PtyEvent \<Rightarrow> PTYHost \<Rightarrow> PTYHost" where
  "pty_event (Started E s) h = (if pth_cmd h then h else snd (pty_Start (he_now E) (he_look E) (he_spawn E) s h))"
| "pty_event (Printed now chunk) h = appendOutput now chunk h"
| "pty_event (StreamEnded now failed) h = stream_ended now failed h"
| "pty_event (Ended now clean code) h = (if pth_ptyFile h then pty_wait now clean code h else h)"
| "pty_event (Resized E width height) h = snd (pty_Resize (he_setsize E) width height h)"
| "pty_event (Typed wrote data) h = snd (pty_WriteInput wrote data h)"
| "pty_event (Drained limit) h = snd (DrainTranscriptEvidence limit h)"
| "pty_event (Stopped kill) h = snd (pty_Stop kill h)"
| "pty_event (Shown s) h = pty_UpdateSnapshot s h"
| "pty_event (Resumes i) h = (if pth_cmd h then h else pty_SetResumeSessionID i h)"

definition pty_events :: "PtyEvent list \<Rightarrow> PTYHost \<Rightarrow> PTYHost" where
  "pty_events evs h = foldl (\<lambda>g e. pty_event e g) h evs"

lemma pty_events_simps [simp]: "pty_events [] h = h" "pty_events (e # evs) h = pty_events evs (pty_event e h)"
  "pty_events (as @ bs) h = pty_events bs (pty_events as h)"
  by (simp_all add: pty_events_def)

section \<open>Output leaves the life of the process alone\<close>

definition same_life :: "PTYHost \<Rightarrow> PTYHost \<Rightarrow> bool" where
  "same_life g h \<longleftrightarrow> hst_State (pth_status g) = hst_State (pth_status h) \<and> hst_InputLive (pth_status g) = hst_InputLive (pth_status h)
     \<and> hst_ExitCode (pth_status g) = hst_ExitCode (pth_status h) \<and> hst_Mode (pth_status g) = hst_Mode (pth_status h)
     \<and> hst_StateChangedAt (pth_status g) = hst_StateChangedAt (pth_status h)
     \<and> pth_ptyFile g = pth_ptyFile h \<and> pth_cmd g = pth_cmd h \<and> pth_kind g = pth_kind h \<and> pth_written g = pth_written h
     \<and> pth_activity g = pth_activity h \<and> pth_resumeSessionID g = pth_resumeSessionID h"

lemma same_life_refl [simp]: "same_life h h"
  by (simp add: same_life_def)

lemma same_life_trans: "same_life f g \<Longrightarrow> same_life g h \<Longrightarrow> same_life f h"
  by (simp add: same_life_def)

lemma taken_id_same: "same_life (take_session_id line h) h"
  by (simp add: take_session_id_def same_life_def split: prod.splits)

lemma line_same: "same_life (appendLineLocked now line h) h"
  by (simp add: appendLineLocked_def same_life_def Let_def)

lemma lines_same: "same_life (foldl (\<lambda>g line. appendLineLocked now line (take_session_id line g)) h ls) h"
proof (induction ls arbitrary: h)
  case (Cons l ls)
  show ?case
    using Cons[of "appendLineLocked now l (take_session_id l h)"] line_same[of now l "take_session_id l h"] taken_id_same[of l h]
    by (auto intro: same_life_trans)
qed simp

lemma output_same: "same_life (appendOutput now chunk h) h"
proof -
  let ?r = "normalizeTerminalChunk (hb_partial h) chunk"
  have "same_life (if tk_lines ?r \<noteq> [] \<or> TrimSpace (tk_partial ?r) \<noteq> []
      then (h\<lparr>hb_partial := tk_partial ?r\<rparr>)
        \<lparr>pth_status := (pth_status (h\<lparr>hb_partial := tk_partial ?r\<rparr>))\<lparr>hst_LastOutputAt := now\<rparr>\<rparr>
      else h\<lparr>hb_partial := tk_partial ?r\<rparr>) h"
    by (simp add: same_life_def)
  note same_life_trans[OF taken_id_same same_life_trans[OF lines_same this]]
  then show ?thesis unfolding appendOutput_def Let_def by blast
qed

lemma taken_id_bounded: "output_bounded (take_session_id line h) = output_bounded h"
  by (simp add: take_session_id_def output_bounded_def split: prod.splits)

lemma lines_bounded:
  "output_bounded h \<Longrightarrow> output_bounded (foldl (\<lambda>g line. appendLineLocked now line (take_session_id line g)) h ls)"
  by (induction ls arbitrary: h) (simp_all add: appended_bounded)

lemma output_stays_bounded: "output_bounded h \<Longrightarrow> output_bounded (appendOutput now chunk h)"
  unfolding appendOutput_def Let_def taken_id_bounded
  by (intro lines_bounded) (simp add: output_bounded_def)

section \<open>The life cycle\<close>

definition life_ok :: "PTYHost \<Rightarrow> bool" where
  "life_ok h \<longleftrightarrow>
     (let s = pth_status h in
      hst_State s \<in> {HostStateStarting, HostStateLive, HostStateExited, HostStateFailed}
      \<and> (hst_State s = HostStateLive \<longleftrightarrow> pth_ptyFile h)
      \<and> (hst_InputLive s \<longrightarrow> hst_State s = HostStateLive)
      \<and> (pth_cmd h \<longleftrightarrow> hst_State s = HostStateLive \<or> hst_ExitCode s \<noteq> None)
      \<and> (hst_ExitCode s \<noteq> None \<longrightarrow> hst_State s = HostStateExited \<or> hst_State s = HostStateFailed)
      \<and> (hst_ExitCode s = None \<longrightarrow> hst_State s \<noteq> HostStateExited))"

definition pty_ok :: "PTYHost \<Rightarrow> bool" where
  "pty_ok h \<longleftrightarrow> life_ok h \<and> output_bounded h \<and> length (pth_activity h) \<le> hostMaxActivity"

lemma new_ok: "pty_ok (NewDefaultPTYHost kind bin args none now)"
  by (simp add: NewDefaultPTYHost_def pty_ok_def life_ok_def output_bounded_def Let_def)

lemma activity_bounded: "length (add_activity now msg acts) \<le> hostMaxActivity"
  by (simp add: add_activity_def keep_last_length)

lemma same_life_ok: "same_life g h \<Longrightarrow> life_ok h \<Longrightarrow> life_ok g"
  unfolding same_life_def life_ok_def Let_def by (elim conjE) simp

lemma status_fields:
  "pth_ptyFile (pty_setStatus now st note code live h) = pth_ptyFile h" "pth_cmd (pty_setStatus now st note code live h) = pth_cmd h"
  "hst_State (pth_status (pty_setStatus now st note code live h)) = st"
  "hst_InputLive (pth_status (pty_setStatus now st note code live h)) = live"
  "hst_ExitCode (pth_status (pty_setStatus now st note code live h)) = code"
  "pth_activity (pty_setStatus now st note code live h) = pth_activity h"
  "output_bounded (pty_setStatus now st note code live h) = output_bounded h"
  "pth_status (pty_recordActivity now msg h) = pth_status h"
  "pth_ptyFile (pty_recordActivity now msg h) = pth_ptyFile h" "pth_cmd (pty_recordActivity now msg h) = pth_cmd h"
  "output_bounded (pty_recordActivity now msg h) = output_bounded h"
  by (simp_all add: pty_setStatus_def pty_recordActivity_def Let_def output_bounded_def split: HostState.splits)

lemma live_fields:
  "pth_ptyFile (pty_live now h)" "pth_cmd (pty_live now h)" "hst_State (pth_status (pty_live now h)) = HostStateLive"
  "hst_ExitCode (pth_status (pty_live now h)) = None" "output_bounded (pty_live now h)" "pth_activity (pty_live now h) = []"
  by (simp_all add: pty_live_def Let_def output_bounded_def)

lemma start_life: "life_ok h \<Longrightarrow> \<not> pth_cmd h \<Longrightarrow> life_ok (snd (pty_Start now look spawn s h))"
  by (auto simp: life_ok_def pty_Start_def pty_UpdateSnapshot_def Let_def status_fields live_fields split: sum.splits option.splits)

lemma start_bounds:
  assumes "output_bounded h" and "length (pth_activity h) \<le> hostMaxActivity"
  shows "output_bounded (snd (pty_Start now look spawn s h)) \<and> length (pth_activity (snd (pty_Start now look spawn s h))) \<le> hostMaxActivity"
proof -
  have "length (pth_activity (pty_recordActivity n msg g)) \<le> hostMaxActivity" for n msg g
    by (simp add: pty_recordActivity_def activity_bounded)
  moreover have "output_bounded (pty_UpdateSnapshot s h)" "pth_activity (pty_UpdateSnapshot s h) = pth_activity h"
    using assms(1) by (simp_all add: pty_UpdateSnapshot_def output_bounded_def)
  ultimately show ?thesis using assms
    by (simp add: pty_Start_def Let_def status_fields live_fields split: sum.splits option.splits)
qed

lemma drained_same: "same_life (snd (DrainTranscriptEvidence limit h)) h"
  by (simp add: DrainTranscriptEvidence_def same_life_def Let_def)

lemma event_life: "life_ok h \<Longrightarrow> life_ok (pty_event e h)"
proof (cases e)
  case (Started E s)
  assume "life_ok h"
  then show ?thesis using Started start_life by simp
next
  case (Printed now chunk)
  assume "life_ok h"
  then show ?thesis using Printed same_life_ok[OF output_same] by simp
next
  case (Drained limit)
  assume "life_ok h"
  then show ?thesis using Drained same_life_ok[OF drained_same] by simp
next
  case (Ended now clean code)
  assume "life_ok h"
  then show ?thesis using Ended by (auto simp: life_ok_def pty_wait_def pty_recordActivity_def Let_def)
next
  case (Stopped kill)
  assume "life_ok h"
  then show ?thesis using Stopped by (auto simp: life_ok_def pty_Stop_def Let_def)
next
  case (Resized E width height)
  assume "life_ok h"
  then show ?thesis using Resized by (auto simp: life_ok_def pty_Resize_def Let_def split: option.splits)
qed (auto simp: life_ok_def stream_ended_def pty_recordActivity_def pty_WriteInput_def pty_UpdateSnapshot_def
    pty_SetResumeSessionID_def Let_def)

lemma event_bounded: "output_bounded h \<Longrightarrow> length (pth_activity h) \<le> hostMaxActivity
  \<Longrightarrow> output_bounded (pty_event e h) \<and> length (pth_activity (pty_event e h)) \<le> hostMaxActivity"
proof (cases e)
  case (Started E s)
  assume "output_bounded h" "length (pth_activity h) \<le> hostMaxActivity"
  then show ?thesis using Started start_bounds by simp
next
  case (Printed now chunk)
  assume "output_bounded h" "length (pth_activity h) \<le> hostMaxActivity"
  then show ?thesis using Printed output_stays_bounded output_same[of now chunk h] by (simp add: same_life_def)
next
  case (Drained limit)
  assume "output_bounded h" "length (pth_activity h) \<le> hostMaxActivity"
  then show ?thesis using Drained drained_same[of limit h]
    by (auto simp: same_life_def DrainTranscriptEvidence_def output_bounded_def Let_def)
qed (simp_all add: stream_ended_def pty_recordActivity_def pty_WriteInput_def pty_UpdateSnapshot_def pty_wait_def
    pty_Resize_def pty_Stop_def pty_SetResumeSessionID_def output_bounded_def activity_bounded Let_def split: option.splits)

lemma event_ok: "pty_ok h \<Longrightarrow> pty_ok (pty_event e h)"
  using event_life event_bounded by (simp add: pty_ok_def)

lemma events_ok: "pty_ok h \<Longrightarrow> pty_ok (pty_events evs h)"
  by (induction evs arbitrary: h) (simp_all add: event_ok)

section \<open>An ended worker stays ended\<close>

definition pty_end :: "PTYHost \<Rightarrow> HostState \<times> int option \<times> string" where
  "pty_end h = (hst_State (pth_status h), hst_ExitCode (pth_status h), pth_written h)"

lemma event_keeps_end:
  assumes "pty_ok h" and "hst_ExitCode (pth_status h) \<noteq> None"
  shows "pty_end (pty_event e h) = pty_end h"
proof -
  have facts: "pth_cmd h" "\<not> pth_ptyFile h" "hst_State (pth_status h) \<noteq> HostStateLive"
    using assms by (auto simp: pty_ok_def life_ok_def Let_def)
  show ?thesis
  proof (cases e)
    case (Printed now chunk)
    then show ?thesis using output_same[of now chunk h] by (simp add: same_life_def pty_end_def)
  next
    case (Drained limit)
    then show ?thesis using drained_same[of limit h] by (simp add: same_life_def pty_end_def)
  qed (use facts in \<open>simp_all add: pty_end_def stream_ended_def pty_recordActivity_def pty_WriteInput_def
      pty_UpdateSnapshot_def pty_Resize_def pty_Stop_def Let_def\<close>)
qed

lemma events_keep_end:
  "pty_ok h \<Longrightarrow> hst_ExitCode (pth_status h) \<noteq> None \<Longrightarrow> pty_end (pty_events evs h) = pty_end h"
proof (induction evs arbitrary: h)
  case (Cons e evs)
  have "hst_ExitCode (pth_status (pty_event e h)) \<noteq> None"
    using event_keeps_end[OF Cons.prems, of e] Cons.prems(2) by (simp add: pty_end_def)
  then show ?case using Cons.IH[OF event_ok[OF Cons.prems(1)], of e] event_keeps_end[OF Cons.prems, of e] by simp
qed simp

text \<open>
  C31. The life of a worker host: whatever happens to it, input is live only while its process runs, it
  holds its terminal exactly while it is live, its buffers stay within their bounds, and once the
  process has ended its state, its exit code and what was written to it never change again.
\<close>

theorem worker_life_cycle:
  "pty_ok (pty_events before (NewDefaultPTYHost kind bin args none now))
   \<and> (let h = pty_events before (NewDefaultPTYHost kind bin args none now) in
      if hst_ExitCode (pth_status h) \<noteq> None
      then pty_end (pty_events later h) = pty_end h \<and> \<not> pty_CanAcceptInput (pty_events later h) else True)"
proof -
  let ?h = "pty_events before (NewDefaultPTYHost kind bin args none now)"
  have ok: "pty_ok ?h" by (rule events_ok[OF new_ok])
  have "\<not> pty_CanAcceptInput (pty_events later ?h)" if "hst_ExitCode (pth_status ?h) \<noteq> None"
  proof -
    have "hst_ExitCode (pth_status (pty_events later ?h)) \<noteq> None"
      using events_keep_end[OF ok that, of later] that by (simp add: pty_end_def)
    then show ?thesis using events_ok[OF ok, of later] by (auto simp: pty_ok_def life_ok_def pty_CanAcceptInput_def Let_def)
  qed
  then show ?thesis using ok events_keep_end[OF ok, of later] by (simp add: Let_def)
qed

section \<open>Worker session ids\<close>

definition id_ok :: "string \<Rightarrow> PTYHost \<Rightarrow> bool" where
  "id_ok r h \<longleftrightarrow> pth_resumeSessionID h = r \<and> TrimSpace r = r
     \<and> (r = [] \<or> \<not> pth_cmd h \<longrightarrow> hst_WorkerSessionIDSource (pth_status h) = WorkerSessionIDSourceNone
          \<or> hst_WorkerSessionIDSource (pth_status h) = WorkerSessionIDSourceHeuristic)
     \<and> (r \<noteq> [] \<and> pth_cmd h \<longrightarrow> hst_WorkerSessionID (pth_status h) = r
          \<and> hst_WorkerSessionIDSource (pth_status h) = WorkerSessionIDSourceAuthoritative)"

primrec resumes :: "PtyEvent \<Rightarrow> bool" where
  "resumes (Started E s) = False" | "resumes (Printed now chunk) = False" | "resumes (StreamEnded now failed) = False"
| "resumes (Ended now clean code) = False" | "resumes (Resized E width height) = False" | "resumes (Typed wrote data) = False"
| "resumes (Drained limit) = False" | "resumes (Stopped kill) = False" | "resumes (Shown s) = False" | "resumes (Resumes i) = True"

definition same_id :: "PTYHost \<Rightarrow> PTYHost \<Rightarrow> bool" where
  "same_id g h \<longleftrightarrow> hst_WorkerSessionID (pth_status g) = hst_WorkerSessionID (pth_status h)
     \<and> hst_WorkerSessionIDSource (pth_status g) = hst_WorkerSessionIDSource (pth_status h)
     \<and> pth_cmd g = pth_cmd h \<and> pth_resumeSessionID g = pth_resumeSessionID h"

lemma same_id_ok: "same_id g h \<Longrightarrow> id_ok r h \<Longrightarrow> id_ok r g"
  unfolding same_id_def id_ok_def by metis

lemma detected_source: "detectWorkerSessionIDWithSource line = (i, source) \<Longrightarrow> i \<noteq> [] \<Longrightarrow> source = WorkerSessionIDSourceHeuristic"
  by (auto simp: detectWorkerSessionIDWithSource_def Let_def split: if_splits)

lemma take_id_ok: "id_ok r h \<Longrightarrow> id_ok r (take_session_id line h)"
  by (auto simp: take_session_id_def id_ok_def dest: detected_source split: prod.splits if_splits)

lemma lines_id_ok: "id_ok r h \<Longrightarrow> id_ok r (foldl (\<lambda>g line. appendLineLocked now line (take_session_id line g)) h ls)"
proof (induction ls arbitrary: h)
  case (Cons l ls)
  have "same_id (appendLineLocked now l g) g" for g by (simp add: same_id_def appendLineLocked_def Let_def)
  then have "id_ok r (appendLineLocked now l (take_session_id l h))" using Cons(2) take_id_ok same_id_ok by blast
  then show ?case using Cons(1) by simp
qed simp

lemma output_id_ok: "id_ok r h \<Longrightarrow> id_ok r (appendOutput now chunk h)"
proof -
  assume ok: "id_ok r h"
  have "same_id (h\<lparr>hb_partial := q\<rparr>) h" "same_id ((h\<lparr>hb_partial := q\<rparr>)\<lparr>pth_status :=
      (pth_status (h\<lparr>hb_partial := q\<rparr>))\<lparr>hst_LastOutputAt := t\<rparr>\<rparr>) h" for q t
    by (simp_all add: same_id_def)
  then have "id_ok r (h\<lparr>hb_partial := q\<rparr>)" "id_ok r ((h\<lparr>hb_partial := q\<rparr>)\<lparr>pth_status :=
      (pth_status (h\<lparr>hb_partial := q\<rparr>))\<lparr>hst_LastOutputAt := t\<rparr>\<rparr>)" for q t
    using ok same_id_ok by blast+
  then show ?thesis unfolding appendOutput_def Let_def by (intro take_id_ok lines_id_ok) (auto split: if_splits)
qed

lemma status_ids:
  "same_id (pty_setStatus now st note code live h) h" "same_id (pty_recordActivity now msg h) h" "same_id (pty_UpdateSnapshot s h) h"
  by (simp_all add: same_id_def pty_setStatus_def pty_recordActivity_def pty_UpdateSnapshot_def Let_def split: HostState.splits)

lemma live_id_ok: "pth_resumeSessionID h = r \<Longrightarrow> TrimSpace r = r \<Longrightarrow> id_ok r (pty_live now h)"
  by (simp add: id_ok_def pty_live_def Let_def)

lemma start_id_ok: "id_ok r h \<Longrightarrow> id_ok r (snd (pty_Start now look spawn s h))"
proof -
  assume ok: "id_ok r h"
  have same: "id_ok r (pty_setStatus n st nt code live g)" "id_ok r (pty_recordActivity n msg g)" "id_ok r (pty_UpdateSnapshot s g)"
    if "id_ok r g" for n st nt code live msg g
    using that status_ids same_id_ok by blast+
  have live: "id_ok r (pty_live n g)" if "id_ok r g" for n g
    using that live_id_ok by (simp add: id_ok_def)
  show ?thesis using ok by (auto simp: pty_Start_def Let_def intro!: same live split: sum.splits option.splits)
qed

lemma event_id_ok: "id_ok r h \<Longrightarrow> \<not> resumes e \<Longrightarrow> id_ok r (pty_event e h)"
proof (cases e)
  case (Started E s)
  assume "id_ok r h"
  then show ?thesis using Started start_id_ok by simp
next
  case (Printed now chunk)
  assume "id_ok r h"
  then show ?thesis using Printed output_id_ok by simp
qed (auto intro: same_id_ok simp: same_id_def stream_ended_def pty_recordActivity_def pty_WriteInput_def pty_UpdateSnapshot_def
    pty_wait_def pty_Resize_def pty_Stop_def DrainTranscriptEvidence_def Let_def split: option.splits)

lemma events_id_ok: "id_ok r h \<Longrightarrow> list_all (\<lambda>e. \<not> resumes e) evs \<Longrightarrow> id_ok r (pty_events evs h)"
  by (induction evs arbitrary: h) (simp_all add: event_id_ok)

lemma new_id_ok: "id_ok (TrimSpace i) (pty_SetResumeSessionID i (NewDefaultPTYHost kind bin args none now))"
  by (simp add: id_ok_def pty_SetResumeSessionID_def NewDefaultPTYHost_def)

section \<open>Three slips\<close>

text \<open>
  The time of the last change of state is not set when the process ends: how long ago a worker exited
  is counted from its start.
\<close>

lemma exit_keeps_change_time: "hst_StateChangedAt (pth_status (pty_wait now clean code h)) = hst_StateChangedAt (pth_status h)"
  by (simp add: pty_wait_def pty_recordActivity_def Let_def)

text \<open>
  Saving a scratch note. \<open>snapshotBase\<close> strips as many entries as there are saved notes, counting the
  new one, from a conversation that does not end with it yet: the last entry of the conversation
  before the notes is dropped, and when there is none the notes shown before are shown twice.
\<close>

theorem saved_note_display:
  "let note = \<lparr>tci_Role = ''user'', tci_Body = TrimSpace (lsh_draft h), tci_CreatedAt = now\<rparr>;
       saved = lsh_savedNotes h; (e, f', h') = commitDraft now None (f, h) in
   if TrimSpace (lsh_draft h) \<noteq> [] \<and> snp_RecentConversation (lsh_snapshot h) = talk @ saved
   then snp_RecentConversation (lsh_snapshot h') =
     (if talk = [] then saved @ saved @ [note] else butlast talk @ saved @ [note]) else True"
  by (auto simp: commitDraft_def saveScratchNotes_def scratch_activity_def scratch_note_def mergeScratchSnapshot_def
      snapshotBase_def Let_def butlast_conv_take Suc_le_eq)

text \<open>
  The fallback is started at startup, when the preferred host may well start too; what it notes then
  (that no live worker is attached) waits until the worker ends and is then handed over as evidence,
  with the time of the startup.
\<close>

lemma stale_fallback_notes:
  "tth_transcriptPending (transcript_Start t s (transcript_markTranscriptOnly t [] (NewTranscriptHost none t0)))
     = [\<lparr>ev_Source = ''fallback_note'', ev_Content = ''transcript-only mode active'', ev_CreatedAt = t\<rparr>,
        \<lparr>ev_Source = ''fallback_note'', ev_Content = ''transcript pane active; no live worker is attached'', ev_CreatedAt = t\<rparr>]"
  by code_simp

end
