(* ===== verification/ShellAppFacts.thy ===== *)
theory ShellAppFacts
  imports ShellApp HostFacts
begin

text \<open>
  What the terminal shell promises: where keys go, which host is shown, what editing the staged
  message does, and which sessions a shell may reattach to.
\<close>

section \<open>Keys reach the worker, and nothing else does\<close>

definition keys_to_worker :: "UIState \<Rightarrow> PTYHost \<Rightarrow> HostEnv \<Rightarrow> AppEvent \<Rightarrow> string" where
  "keys_to_worker ui h E ev = (case ev of
     KeyPressed key \<Rightarrow> if ui_Focus ui = FocusWorker \<and> \<not> ui_PendingTaskMessageEditMode ui \<and> \<not> ui_EscapePrefix ui
         \<and> key \<noteq> CHR 0x07 \<and> pty_CanAcceptInput h \<and> he_wrote E then [key] else []
   | _ \<Rightarrow> [])"

lemma shell_key_ui [simp]: "ui_Session (snd (handleShellKey key ui)) = ui_Session ui"
  by (simp add: handleShellKey_def toggle_inspector_def toggle_proof_def Let_def)

lemma route_pty:
  "routeKey E key (ui, PtyHost h) = (a, ui', host') \<Longrightarrow>
     host' = PtyHost (h\<lparr>pth_written := pth_written h @ keys_to_worker ui h E (KeyPressed key)\<rparr>)
     \<and> (keys_to_worker ui h E (KeyPressed key) \<noteq> [] \<longrightarrow> a = actionNone \<and> ui' = ui\<lparr>ui_LastError := []\<rparr>)"
  unfolding routeKey_def keys_to_worker_def
  by (auto simp: pty_WriteInput_def pty_CanAcceptInput_def Let_def split: prod.splits if_splits)

definition typed_of :: "Host \<Rightarrow> string option" where
  "typed_of host = (case host of PtyHost h \<Rightarrow> Some (pth_written h) | _ \<Rightarrow> None)"

lemma typed_of_simps [simp]: "typed_of (PtyHost h) = Some (pth_written h)" "typed_of (PaneHost t) = None" "typed_of (ScratchHost f l) = None"
  by (simp_all add: typed_of_def)

section \<open>What only keys and other hosts change\<close>

text \<open>
  A view of the host that showing a snapshot, resizing and draining the evidence leave alone is left
  alone by everything the shell does to a host but typing into it and replacing it.
\<close>

locale host_view =
  fixes view :: "Host \<Rightarrow> 'v"
  assumes view_update: "view (host_UpdateSnapshot E s host) = view host"
    and view_resize: "view (snd (host_Resize E w h host)) = view host"
    and view_drain: "view (snd (host_Drain limit host)) = view host"
begin

lemma apply_resize: "view (snd (applyHostResize E size' ui host)) = view host"
  by (simp add: applyHostResize_def view_resize split: prod.splits)

lemma reload_kept: "reloadShellSnapshot E load known manual (s, host, ui) = (e, s', host', ui') \<Longrightarrow> view host' = view host"
  by (auto simp: reloadShellSnapshot_def view_update Let_def split: sum.splits prod.splits if_splits)

lemma complete_kept:
  "completePrimaryOperatorStepExecution E load known d (s, host, ui) = (e, s', host', ui') \<Longrightarrow> view host' = view host"
  unfolding completePrimaryOperatorStepExecution_def Let_def
  by (auto split: sum.splits prod.splits option.splits if_splits dest: reload_kept)

lemma flush_kept: "flushTranscriptEvidence sink host ui = (chunks, host', ui') \<Longrightarrow> view host' = view host"
  by (cases "host_Drain 80 host", cases sink)
    (use view_drain[of 80 host] in \<open>auto simp: flushTranscriptEvidence_def Let_def split: option.splits if_splits\<close>)

lemma reloaded_kept: "view (apx_host (reload T manual app)) = view (apx_host app)"
  by (auto simp: reload_def reloaded_def split: prod.splits dest: reload_kept)

lemma action_kept: "view (apx_host (do_action T a app)) = view (apx_host app)"
  by (cases a) (auto simp: do_action_def reloaded_kept view_update on_ui_def send_action_def execute_action_def Let_def
      split: prod.splits option.splits sum.splits)

lemma event_kept:
  "app_event T ev app = (flow, app') \<Longrightarrow> (\<And>key. ev \<noteq> KeyPressed key) \<Longrightarrow> view (apx_host app') = view (apx_host app)"
  by (cases ev) (auto simp: app_event_def reloaded_def Let_def split: prod.splits option.splits
      dest: reload_kept complete_kept flush_kept)

lemma app_resize_kept: "view (apx_host (app_resize T app)) = view (apx_host app)"
  using apply_resize[of "tun_env T" "tun_size T" "apx_ui app" "apx_host app"]
  by (cases "applyHostResize (tun_env T) (tun_size T) (apx_ui app) (apx_host app)") (simp add: app_resize_def Let_def)

end

interpretation typed: host_view typed_of
proof
  show "typed_of (host_UpdateSnapshot E s host) = typed_of host" for E s host
    by (cases host) (simp_all add: pty_UpdateSnapshot_def)
  show "typed_of (snd (host_Resize E w h host)) = typed_of host" for E w h host
    by (cases host) (simp_all add: pty_Resize_def Let_def split: option.splits)
  show "typed_of (snd (host_Drain limit host)) = typed_of host" for limit host
    by (cases host) (simp_all add: DrainTranscriptEvidence_def Let_def)
qed

definition life_of :: "Host \<Rightarrow> HostState" where
  "life_of host = hst_State (host_Status host)"

interpretation life: host_view life_of
proof
  show "life_of (host_UpdateSnapshot E s host) = life_of host" for E s host
    by (cases host) (simp_all add: life_of_def pty_UpdateSnapshot_def applySnapshot_def scratch_note_def scratch_activity_def Let_def
        split: sum.splits)
  show "life_of (snd (host_Resize E w h host)) = life_of host" for E w h host
    by (cases host) (simp_all add: life_of_def pty_Resize_def transcript_Resize_def Let_def split: option.splits)
  show "life_of (snd (host_Drain limit host)) = life_of host" for limit host
    by (cases host) (simp_all add: life_of_def DrainTranscriptEvidence_def transcript_Drain_def Let_def)
qed

lemma typed_key:
  "app_event T (KeyPressed key) app = (flow, app') \<Longrightarrow> apx_host app = PtyHost h \<Longrightarrow>
     typed_of (apx_host app') = Some (pth_written h @ keys_to_worker (apx_ui app) h (tun_env T) (KeyPressed key))
     \<and> (keys_to_worker (apx_ui app) h (tun_env T) (KeyPressed key) \<noteq> [] \<longrightarrow> flow = Proceed)"
  by (auto simp: app_event_def typed.action_kept Let_def dest!: route_pty split: prod.splits if_splits)

lemma fallback_kept [simp]:
  "apx_fallback (app_resize T app) = apx_fallback app" "apx_fallback (reload T manual app) = apx_fallback app"
  "apx_fallback (do_action T a app) = apx_fallback app"
  by (simp_all add: app_resize_def reload_def reloaded_def do_action_def on_ui_def send_action_def execute_action_def Let_def
      split: prod.splits keyAction.splits option.splits sum.splits)

lemma fallback_event: "app_event T ev app = (flow, app') \<Longrightarrow> apx_fallback app' = apx_fallback app"
  by (cases ev) (auto simp: app_event_def reloaded_def Let_def split: prod.splits option.splits if_splits)

definition no_pty :: "Host option \<Rightarrow> bool" where
  "no_pty fb = (case fb of Some (PtyHost h) \<Rightarrow> False | _ \<Rightarrow> True)"

lemma typed_pane: "host_Start E s fb = (e, fb') \<Longrightarrow> typed_of fb = None \<Longrightarrow> typed_of fb' = None"
  by (cases fb) auto

lemma typed_mark [simp]: "typed_of (markFallback now nt fb) = typed_of fb"
  by (cases fb) (simp_all add: markFallback_def)

lemma typed_transition:
  assumes "transitionExitedHost E none host fb s = (host', nt, changed)" "no_pty fb"
  shows "if changed then typed_of host' = None else host' = host"
proof -
  let ?f = "case fb of None \<Rightarrow> PaneHost (NewTranscriptHost none (he_now E)) | Some f \<Rightarrow> f"
  have f: "typed_of ?f = None" using assms(2) by (auto simp: no_pty_def split: option.splits Host.splits)
  obtain e g where g: "host_Start E s (host_UpdateSnapshot E s ?f) = (e, g)" by (cases "host_Start E s (host_UpdateSnapshot E s ?f)")
  have "typed_of g = None" using typed_pane[OF g] f by (simp add: typed.view_update)
  then show ?thesis using assms(1) unfolding transitionExitedHost_def Let_def g by (auto split: if_splits option.splits)
qed

lemma rest_host:
  assumes "transitionExitedHost (tun_env T) (tun_none T) (apx_host (app_resize T app)) (apx_fallback app)
      (apx_snapshot (app_resize T app)) = (host, nt, changed)"
  shows "\<exists>ui. apx_host (app_rest T app) = (if changed
      then snd (applyHostResize (tun_env T) (apx_lastSize (app_resize T app)) ui host) else apx_host (app_resize T app))"
proof (cases changed)
  case True
  then show ?thesis using assms unfolding app_rest_def Let_def
    by (simp split: prod.split) blast
next
  case False
  then show ?thesis using assms by (simp add: app_rest_def Let_def)
qed

lemma typed_rest:
  assumes "no_pty (apx_fallback app)"
  shows "typed_of (apx_host (app_rest T app)) = typed_of (apx_host app) \<or> typed_of (apx_host (app_rest T app)) = None"
proof -
  obtain host nt changed where t: "transitionExitedHost (tun_env T) (tun_none T) (apx_host (app_resize T app)) (apx_fallback app)
      (apx_snapshot (app_resize T app)) = (host, nt, changed)" using prod_cases3 by blast
  have "if changed then typed_of host = None else host = apx_host (app_resize T app)" using typed_transition[OF t assms] .
  then show ?thesis using rest_host[OF t] by (auto simp: typed.apply_resize typed.app_resize_kept split: if_splits)
qed


section \<open>No host that has ended stays\<close>

definition ended_host :: "Host \<Rightarrow> bool" where
  "ended_host host \<longleftrightarrow> life_of host = HostStateExited \<or> life_of host = HostStateFailed"

lemma transcript_mark_state: "hst_State (tth_status (transcript_markFallback now nt t)) = HostStateFallback"
  by (simp add: transcript_markFallback_def transcript_state_def enqueueTranscriptNote_def Let_def)

lemma transition_alive:
  assumes "transitionExitedHost E none host fb s = (host', nt, changed)"
    and "case fb of None \<Rightarrow> True | Some (PaneHost t) \<Rightarrow> True | _ \<Rightarrow> False"
  shows "\<not> ended_host host' \<and> (changed \<longleftrightarrow> ended_host host) \<and> (changed \<longrightarrow> life_of host' = HostStateFallback)"
proof -
  obtain t where "(case fb of None \<Rightarrow> PaneHost (NewTranscriptHost none (he_now E)) | Some f \<Rightarrow> f) = PaneHost t"
    using assms(2) by (auto split: option.splits Host.splits)
  then show ?thesis using assms(1) by (auto simp: transitionExitedHost_def ended_host_def life_of_def markFallback_def transcript_mark_state Let_def
      split: if_splits)
qed


section \<open>Editing the staged message\<close>

definition edit_keys :: "string \<Rightarrow> UIState \<Rightarrow> UIState" where
  "edit_keys keys ui = foldl (\<lambda>u key. snd (applyPendingTaskMessageEditInput key u)) ui keys"

lemma edit_keys_simps [simp]: "edit_keys [] ui = ui" "edit_keys (k # ks) ui = edit_keys ks (snd (applyPendingTaskMessageEditInput k ui))"
  "edit_keys (as @ bs) ui = edit_keys bs (edit_keys as ui)"
  by (simp_all add: edit_keys_def)

lemma edit_input_only:
  "snd (applyPendingTaskMessageEditInput key ui)
     = ui\<lparr>ui_PendingTaskMessageEditBuffer := ui_PendingTaskMessageEditBuffer (snd (applyPendingTaskMessageEditInput key ui))\<rparr>"
  by (simp add: applyPendingTaskMessageEditInput_def Let_def)

lemma edit_keys_only: "\<exists>b. edit_keys keys ui = ui\<lparr>ui_PendingTaskMessageEditBuffer := b\<rparr>"
proof (induction keys arbitrary: ui)
  case Nil
  have "edit_keys [] ui = ui\<lparr>ui_PendingTaskMessageEditBuffer := ui_PendingTaskMessageEditBuffer ui\<rparr>" by simp
  then show ?case ..
next
  case (Cons k ks)
  let ?u = "snd (applyPendingTaskMessageEditInput k ui)"
  obtain b where "edit_keys ks ?u = ?u\<lparr>ui_PendingTaskMessageEditBuffer := b\<rparr>" using Cons by blast
  moreover have "?u\<lparr>ui_PendingTaskMessageEditBuffer := b\<rparr> = ui\<lparr>ui_PendingTaskMessageEditBuffer := b\<rparr>"
    by (subst edit_input_only) simp
  ultimately have "edit_keys (k # ks) ui = ui\<lparr>ui_PendingTaskMessageEditBuffer := b\<rparr>" by simp
  then show ?case ..
qed


lemma typed_input:
  assumes "ui_PendingTaskMessageEditMode ui" "32 \<le> (of_char c :: nat)" "(of_char c :: nat) \<noteq> 127"
  shows "snd (applyPendingTaskMessageEditInput c ui)
    = ui\<lparr>ui_PendingTaskMessageEditBuffer := ui_PendingTaskMessageEditBuffer ui @ byte_rune c\<rparr>"
proof -
  have "c \<noteq> CHR 0x0D" "c \<noteq> CHR 0x0A" "c \<noteq> CHR 0x7F" "c \<noteq> CHR 0x08" using assms(2,3) by auto
  then show ?thesis using assms(1,2) by (simp add: applyPendingTaskMessageEditInput_def Let_def)
qed

lemma typed_buffer:
  "ui_PendingTaskMessageEditMode ui \<Longrightarrow> list_all (\<lambda>c. 32 \<le> (of_char c :: nat) \<and> (of_char c :: nat) \<noteq> 127) keys \<Longrightarrow>
     ui_PendingTaskMessageEditBuffer (edit_keys keys ui) = ui_PendingTaskMessageEditBuffer ui @ concat (map byte_rune keys)"
  by (induction keys arbitrary: ui) (simp_all add: typed_input)

lemma runes_length: "length (concat (map byte_rune keys)) = length keys + length (filter (\<lambda>c. \<not> (of_char c :: nat) < 128) keys)"
  by (induction keys) (simp_all add: byte_rune_def Let_def)

lemma runes_ascii: "list_all (\<lambda>c. (of_char c :: nat) < 128) keys \<Longrightarrow> concat (map byte_rune keys) = keys"
  by (induction keys) (simp_all add: byte_rune_def Let_def)

text \<open>
  What is typed into the editor of the staged message arrives in it exactly when it is ASCII: the
  editor takes the bytes of a longer rune one by one and encodes each of them as a rune of its own.
\<close>

theorem typed_text_kept_iff_ascii:
  "if ui_PendingTaskMessageEditMode ui \<and> list_all (\<lambda>c. 32 \<le> (of_char c :: nat) \<and> (of_char c :: nat) \<noteq> 127) keys
   then (ui_PendingTaskMessageEditBuffer (edit_keys keys ui) = ui_PendingTaskMessageEditBuffer ui @ keys)
     = list_all (\<lambda>c. (of_char c :: nat) < 128) keys else True"
proof -
  have "list_all (\<lambda>c. (of_char c :: nat) < 128) keys" if "concat (map byte_rune keys) = keys"
    using runes_length[of keys] that by (auto simp: filter_empty_conv list_all_iff)
  then show ?thesis using typed_buffer runes_ascii by (metis same_append_eq)
qed

section \<open>Keys in a pane that takes no input\<close>

text \<open>
  In the worker pane of a host that takes no input, Tab moves the focus by two panes: the key is
  handled a second time. With one other pane shown the focus never leaves the worker.
\<close>

theorem tab_moves_twice:
  "let (a, ui', host') = routeKey E (CHR 0x09) (ui, host) in
   if ui_Focus ui = FocusWorker \<and> \<not> ui_PendingTaskMessageEditMode ui \<and> \<not> ui_EscapePrefix ui \<and> \<not> host_CanAcceptInput host
   then ui' = ui\<lparr>ui_Focus := nextFocus (ui\<lparr>ui_Focus := nextFocus ui\<rparr>)\<rparr>
     \<and> (ui_Focus ui' = FocusWorker \<longleftrightarrow> \<not> (ui_ShowInspector ui \<and> ui_ShowProof ui)) else True"
  by (cases "ui_ShowInspector ui"; cases "ui_ShowProof ui")
    (auto simp: routeKey_def handleShellKey_def isPrintableKey_def nextFocus_def pane_order_def Let_def split: prod.splits)

section \<open>Which sessions a shell may reattach to\<close>

lemma class_text: "KnownShellSessionClass_str (known_class c) \<noteq> []"
  by (cases c) (simp_all add: known_class_def)

lemma refusal_none:
  "reattach_refusal stamp i k = None \<longleftrightarrow> ks_SessionClass k = KnownShellSessionClassAttachable
     \<and> TrimSpace (ks_WorkerSessionID k) \<noteq> [] \<and> ks_WorkerSessionIDSource k = WorkerSessionIDSourceAuthoritative
     \<and> ks_AttachCapability k = AttachCapabilityAttachable"
  unfolding reattach_refusal_def Let_def
  by (simp only: if_split_eq1 option.distinct simp_thms) auto

lemma known_fields:
  "ks_WorkerSessionIDSource (known_session k) = normalizeWorkerSessionIDSource (ks_WorkerSessionIDSource k) (ks_WorkerSessionID k)"
  "ks_WorkerSessionID (known_session k) = ks_WorkerSessionID k"
  "KnownShellSessionClass_str (ks_SessionClass k) \<noteq> [] \<Longrightarrow> ks_SessionClass (known_session k) = ks_SessionClass k"
  "ks_AttachCapability (known_session k) = AttachCapabilityAttachable \<longleftrightarrow> ks_AttachCapability k = AttachCapabilityAttachable"
  by (cases "ks_AttachCapability k"; simp add: known_session_def Let_def)+

text \<open>
  C36. The shell and the coordinator agree on what may be reattached to: the shell accepts a session of
  the registry as its target exactly when the coordinator classifies it as attachable.
\<close>

theorem reattach_iff_attachable:
  "let k = known_session (ipcTaskShellSessionRecord base (classifyShellSession r now stale)) in
   (reattach_refusal stamp i k = None) = (sv_SessionClass (classifyShellSession r now stale) = ShellSessionClassAttachable)"
proof -
  have source: "sv_WorkerSessionIDSource (classifyShellSession r now stale)
      = normalizeWorkerSessionIDSource (ss_WorkerSessionIDSource r) (ss_WorkerSessionID r)"
    by (simp add: classifyShellSession_def Let_def)
  have known: "known_class c = KnownShellSessionClassAttachable \<longleftrightarrow> c = ShellSessionClassAttachable" for c
    by (cases c) (simp_all add: known_class_def)
  show ?thesis
    by (simp add: Let_def refusal_none known_fields ipcTaskShellSessionRecord_def class_text source known)
      (auto simp: isAttachableRecord_def)
qed

section \<open>What a shell reports\<close>

definition pty_mode :: "PTYHost \<Rightarrow> bool" where
  "pty_mode h \<longleftrightarrow> isPTYHostMode (hst_Mode (pth_status h))"

lemma kind_is_pty [simp]: "isPTYHostMode (kind_mode k)"
  by (cases k) (simp_all add: isPTYHostMode_def)

lemma mode_fields [simp]:
  "pty_mode (pty_setStatus now st nt code live h)" "pty_mode (pty_live now h)"
  "pty_mode (pty_recordActivity now msg h) = pty_mode h" "pty_mode (pty_UpdateSnapshot s h) = pty_mode h"
  by (simp_all add: pty_mode_def pty_setStatus_def pty_live_def pty_recordActivity_def pty_UpdateSnapshot_def Let_def split: HostState.splits)

lemma start_mode: "pty_mode h \<Longrightarrow> pty_mode (snd (pty_Start now look spawn s h))"
  by (simp add: pty_Start_def Let_def split: sum.splits option.splits)

lemma same_mode: "same_life g h \<Longrightarrow> pty_mode g = pty_mode h"
  by (simp add: same_life_def pty_mode_def)

lemma event_mode: "pty_mode h \<Longrightarrow> pty_mode (pty_event e h)"
proof (cases e)
  case (Started E s)
  assume "pty_mode h"
  then show ?thesis using Started start_mode by simp
next
  case (Printed now chunk)
  assume "pty_mode h"
  then show ?thesis using Printed same_mode[OF output_same] by simp
next
  case (Drained limit)
  assume "pty_mode h"
  then show ?thesis using Drained same_mode[OF drained_same] by simp
qed (auto simp: pty_mode_def stream_ended_def pty_recordActivity_def pty_wait_def pty_Resize_def pty_WriteInput_def pty_Stop_def
    pty_UpdateSnapshot_def pty_SetResumeSessionID_def Let_def split: option.splits)

text \<open>The host of a shell, with what holds of it whatever happens, told at first to resume \<open>r\<close> or nothing.\<close>

definition host_ok :: "string \<Rightarrow> PTYHost \<Rightarrow> bool" where
  "host_ok r h \<longleftrightarrow> id_ok r h \<and> life_ok h \<and> pty_mode h"

lemma events_host_ok: "host_ok r h \<Longrightarrow> list_all (\<lambda>e. \<not> resumes e) evs \<Longrightarrow> host_ok r (pty_events evs h)"
  by (induction evs arbitrary: h) (simp_all add: host_ok_def event_id_ok event_life event_mode)

lemma new_host_ok: "host_ok (TrimSpace i) (pty_SetResumeSessionID i (NewDefaultPTYHost kind bin args none now))"
  unfolding host_ok_def
proof (intro conjI)
  show "id_ok (TrimSpace i) (pty_SetResumeSessionID i (NewDefaultPTYHost kind bin args none now))" by (rule new_id_ok)
qed (simp_all add: life_ok_def pty_mode_def pty_SetResumeSessionID_def NewDefaultPTYHost_def Let_def)

text \<open>The shell reports its host after each of some stretches of its life.\<close>

primrec shell_reports ::
  "(SessionRegistryReport \<Rightarrow> go_error option) \<Rightarrow> string \<Rightarrow> PtyEvent list list \<Rightarrow> PTYHost \<Rightarrow> UIState \<Rightarrow> SessionRegistryReport option list" where
  "shell_reports answer task [] h ui = []"
| "shell_reports answer task (evs # rest) h ui =
     (let h' = pty_events evs h; (r, ui') = reportShellSession (Some answer) task (pth_status h') True ui in
      r # shell_reports answer task rest h' ui')"

definition anchor_ok :: "string \<Rightarrow> UIState \<Rightarrow> bool" where
  "anchor_ok r ui \<longleftrightarrow> (r = [] \<longrightarrow> sx_WorkerSessionIDSource (ui_Session ui) \<noteq> WorkerSessionIDSourceAuthoritative)"

definition report_ok :: "string \<Rightarrow> SessionRegistryReport option \<Rightarrow> bool" where
  "report_ok r x \<longleftrightarrow> (case x of None \<Rightarrow> False | Some p \<Rightarrow>
     rgr_AttachCapability p = (if rgr_HostState p = HostStateLive \<and> r \<noteq> [] then AttachCapabilityAttachable else AttachCapabilityNone))"

lemma source_kept: "normalizeWorkerSessionIDSource v w = WorkerSessionIDSourceAuthoritative \<longleftrightarrow> TrimSpace w \<noteq> [] \<and> v = WorkerSessionIDSourceAuthoritative"
  by (cases v) (simp_all add: normalizeWorkerSessionIDSource_def)

lemma one_report:
  assumes "host_ok r h" and "anchor_ok r ui" and rep: "reportShellSession (Some answer) task (pth_status h) True ui = (x, ui')"
  shows "report_ok r x \<and> anchor_ok r ui'"
proof -
  let ?s = "refreshWorkerSessionAnchor (pth_status h) (ui_Session ui)"
  have ui: "ui_Session ui' = ?s" and x: "x = Some p \<Longrightarrow> rgr_AttachCapability p = sx_AttachCapability ?s \<and> rgr_HostState p = hst_State (pth_status h)"
    and some: "x \<noteq> None" for p
    using rep by (auto simp: reportShellSession_def Let_def split: option.splits)
  have live: "pth_cmd h" if "hst_State (pth_status h) = HostStateLive" using assms(1) that by (simp add: host_ok_def life_ok_def Let_def)
  have ids: "(r = [] \<longrightarrow> hst_WorkerSessionIDSource (pth_status h) \<noteq> WorkerSessionIDSourceAuthoritative)"
    "r \<noteq> [] \<and> pth_cmd h \<longrightarrow> hst_WorkerSessionID (pth_status h) = r \<and> hst_WorkerSessionIDSource (pth_status h) = WorkerSessionIDSourceAuthoritative"
    "TrimSpace r = r" "isPTYHostMode (hst_Mode (pth_status h))"
    using assms(1) by (auto simp: host_ok_def id_ok_def pty_mode_def)
  have "anchor_ok r ui'" using assms(2) ids(1) unfolding anchor_ok_def ui
    by (auto simp: refreshWorkerSessionAnchor_def Let_def source_kept)
  moreover have "sx_AttachCapability ?s = (if hst_State (pth_status h) = HostStateLive \<and> r \<noteq> [] then AttachCapabilityAttachable else AttachCapabilityNone)"
    using live ids assms(2) unfolding anchor_ok_def
    by (auto simp: refreshWorkerSessionAnchor_def Let_def source_kept)
  ultimately show ?thesis using x some by (auto simp: report_ok_def split: option.splits)
qed

lemma reports_ok:
  "host_ok r h \<Longrightarrow> anchor_ok r ui \<Longrightarrow> list_all (list_all (\<lambda>e. \<not> resumes e)) lives \<Longrightarrow>
     list_all (report_ok r) (shell_reports answer task lives h ui)"
proof (induction lives arbitrary: h ui)
  case (Cons evs rest)
  have h: "host_ok r (pty_events evs h)" using Cons.prems events_host_ok by simp
  obtain x ui' where x: "reportShellSession (Some answer) task (pth_status (pty_events evs h)) True ui = (x, ui')" by fastforce
  show ?case using one_report[OF h Cons.prems(2) x] Cons.IH[OF h] Cons.prems(3) by (simp add: x)
qed simp


section \<open>Starting\<close>

definition resume_of :: "Host \<Rightarrow> string option" where
  "resume_of host = (case host of PtyHost h \<Rightarrow> Some (pth_resumeSessionID h) | _ \<Rightarrow> None)"

lemma resume_of_simps [simp]: "resume_of (PtyHost h) = Some (pth_resumeSessionID h)" "resume_of (PaneHost t) = None" "resume_of (ScratchHost f l) = None"
  by (simp_all add: resume_of_def)

lemma start_keeps_id: "pth_resumeSessionID (snd (pty_Start now look spawn s h)) = pth_resumeSessionID h"
  by (simp add: pty_Start_def pty_setStatus_def pty_recordActivity_def pty_live_def pty_UpdateSnapshot_def Let_def
      split: sum.splits option.splits)

interpretation resumed: host_view resume_of
proof
  show "resume_of (host_UpdateSnapshot E s host) = resume_of host" for E s host
    by (cases host) (simp_all add: pty_UpdateSnapshot_def)
  show "resume_of (snd (host_Resize E w h host)) = resume_of host" for E w h host
    by (cases host) (simp_all add: pty_Resize_def Let_def split: option.splits)
  show "resume_of (snd (host_Drain limit host)) = resume_of host" for limit host
    by (cases host) (simp_all add: DrainTranscriptEvidence_def Let_def)
qed

lemmas resume_kept [simp] = resumed.view_update resumed.apply_resize

lemma resume_host [simp]:
  "resume_of (snd (host_Start E s host)) = resume_of host" "resume_of (markFallback now nt host) = resume_of host"
  "resume_of (markTranscriptOnly now nt host) = resume_of host"
  by (cases host; simp add: start_keeps_id markFallback_def markTranscriptOnly_def)+

lemma started_resume:
  assumes "startPreferredHost E none (Some h) fallback s = (host, failed)" and "no_pty fallback"
  shows "resume_of host = resume_of h \<or> resume_of host = None"
proof -
  let ?fb = "case fallback of None \<Rightarrow> PaneHost (NewTranscriptHost none (he_now E)) | Some f \<Rightarrow> f"
  have fb: "resume_of ?fb = None" using assms(2) by (auto simp: no_pty_def split: option.splits Host.splits)
  obtain e g where g: "host_Start E s (host_UpdateSnapshot E s (markTranscriptOnly (he_now E) [] ?fb)) = (e, g)" by fastforce
  obtain e' p where p: "host_Start E s (host_UpdateSnapshot E s h) = (e', p)" by fastforce
  have "resume_of g = None" using resume_host(1)[of E s "host_UpdateSnapshot E s (markTranscriptOnly (he_now E) [] ?fb)"] fb g by simp
  moreover have "resume_of p = resume_of h" using resume_host(1)[of E s "host_UpdateSnapshot E s h"] p by simp
  ultimately show ?thesis using assms(1) unfolding startPreferredHost_def Let_def g
    by (auto simp: p split: option.splits)
qed

abbreviation known_of :: "UIState \<Rightarrow> KnownShellSession list" where
  "known_of ui \<equiv> sx_KnownSessions (ui_Session ui)"

lemma known_report [simp]: "known_of (app_report T task st ui) = known_of ui"
  by (auto simp: app_report_def reportShellSession_def refreshWorkerSessionAnchor_def Let_def split: option.splits)

lemma known_event [simp]: "known_of (add_event now typ' summary ui) = known_of ui"
  by (simp add: add_event_def)

lemma known_record: "recordLifecycle sink kind st ui = (rs, ui') \<Longrightarrow> known_of ui' = known_of ui"
  by (auto simp: recordLifecycle_def Let_def split: option.splits)

lemma known_capture: "captureHostLifecycle now sink previous st ui = (rs, ui') \<Longrightarrow> known_of ui' = known_of ui"
  using known_record known_event by (fastforce simp: captureHostLifecycle_def split: option.splits if_splits)

lemma known_reattach: "request_reattach sink k ui = (rs, ui') \<Longrightarrow> known_of ui' = known_of ui"
  unfolding request_reattach_def by (drule known_record) simp

lemma launched:
  assumes "launch_host T task fallback s h resolved ui = (rs, app)" and "no_pty fallback"
  shows "known_of (apx_ui app) = known_of ui \<and> (resume_of (apx_host app) = resume_of h \<or> resume_of (apx_host app) = None)"
proof -
  obtain host failed where p: "startPreferredHost (tun_env T) (tun_none T) (Some h) fallback s = (host, failed)" by fastforce
  show ?thesis using assms(1) started_resume[OF p assms(2)] unfolding launch_host_def Let_def p
    by (auto split: prod.splits if_splits dest: known_capture)
qed

lemma selected_resume: "selectPreferredHost settings none now p s = Inr (h, r) \<Longrightarrow> resume_of h = Some []"
  by (auto simp: selectPreferredHost_def NewDefaultPTYHost_def Let_def split: WorkerPreference.splits)

lemma configured_resume:
  "configureHostResumeSession (Some h) i = (True, Some h') \<Longrightarrow> resume_of h' = Some (TrimSpace i)"
  by (auto simp: configureHostResumeSession_def pty_SetResumeSessionID_def split: Host.splits if_splits)

lemma resolved_target:
  "resolveReattachTarget stamp i ks = Inr target \<Longrightarrow> (case target of None \<Rightarrow> TrimSpace i = []
     | Some k \<Rightarrow> TrimSpace i \<noteq> [] \<and> k \<in> set ks \<and> ks_SessionID k = TrimSpace i \<and> ks_SessionClass k = KnownShellSessionClassAttachable)"
  by (auto simp: resolveReattachTarget_def Let_def refusal_none find_Some_iff split: if_splits option.splits)

text \<open>
  C35. A shell started to reattach resumes the worker session of a known session that carries the id it
  was given and that is attachable; a shell started without one resumes nothing.
\<close>

theorem start_resumes_target:
  "case snd (app_start settings stamp T task preference reattach None fallback) of
     Inl e \<Rightarrow> True
   | Inr app \<Rightarrow> (case (fallback, apx_host app) of
        (Some (PtyHost f), _) \<Rightarrow> True
      | (_, PtyHost h) \<Rightarrow>
          if TrimSpace reattach = [] then pth_resumeSessionID h = []
          else \<exists>k. k \<in> set (sx_KnownSessions (ui_Session (apx_ui app))) \<and> ks_SessionID k = TrimSpace reattach
            \<and> ks_SessionClass k = KnownShellSessionClassAttachable \<and> pth_resumeSessionID h = TrimSpace (ks_WorkerSessionID k)
      | _ \<Rightarrow> True)"
proof (cases "snd (app_start settings stamp T task preference reattach None fallback)")
  case (Inr app)
  have trim: "TrimSpace (TrimSpace reattach) = TrimSpace reattach" by simp
  have "if TrimSpace reattach = [] then resume_of (apx_host app) = Some [] \<or> resume_of (apx_host app) = None
      else \<exists>k. k \<in> set (known_of (apx_ui app)) \<and> ks_SessionID k = TrimSpace reattach
        \<and> ks_SessionClass k = KnownShellSessionClassAttachable
        \<and> (resume_of (apx_host app) = Some (TrimSpace (ks_WorkerSessionID k)) \<or> resume_of (apx_host app) = None)"
    if no: "no_pty fallback"
    using Inr unfolding app_start_def Let_def
    by (auto split: sum.splits prod.splits option.splits if_splits bool.splits
        dest!: resolved_target selected_resume configured_resume known_reattach launched[OF _ no])
  then show ?thesis using Inr by (auto simp: no_pty_def split: option.splits Host.splits if_splits)
qed simp

end
